(* ===== verification/Compose_Shape.thy ===== *)
theory Compose_Shape
  imports Prelude
begin

text \<open>
  The closed field sets of a Compose document and the shape validation of
  \<open>packages/usecases/src/resource/compose-security.ts\<close> (lines 1 to 563): which fields
  may occur at each level, and which JavaScript type each security-relevant field must
  have. A document with a field outside the lists (and outside the \<open>x-\<close> extension
  namespace) is rejected.
\<close>

section \<open>Field lists\<close>

definition PROTECTED_DOCKER_ENVIRONMENT_NAMES :: "string list" where
  "PROTECTED_DOCKER_ENVIRONMENT_NAMES =
     [''DOCKER_CUSTOM_HEADERS'', ''DOCKER_CERT_PATH'', ''DOCKER_HOST'',
      ''DOCKER_TLS_VERIFY'']"

definition SENSITIVE_BUILD_ARGUMENT_MARKERS :: "string list" where
  "SENSITIVE_BUILD_ARGUMENT_MARKERS =
     [''password'', ''secret'', ''token'', ''api_key'', ''apikey'', ''private_key'',
      ''privatekey'', ''credential'', ''client_secret'', ''clientsecret'', ''access_token'',
      ''access_key'', ''accesskey'']"

definition COMPOSE_TOP_LEVEL_FIELDS :: "string list" where
  "COMPOSE_TOP_LEVEL_FIELDS =
     [''version'', ''name'', ''services'', ''networks'', ''volumes'', ''configs'',
      ''secrets'']"

definition COMPOSE_SERVICE_FIELDS :: "string list" where
  "COMPOSE_SERVICE_FIELDS =
     [''annotations'', ''attach'', ''blkio_config'', ''build'', ''cap_add'', ''cap_drop'',
      ''cgroup'', ''cgroup_parent'', ''cgroupns'', ''command'', ''configs'',
      ''container_name'', ''cpu_count'', ''cpu_percent'', ''cpu_period'', ''cpu_quota'',
      ''cpu_rt_period'', ''cpu_rt_runtime'', ''cpu_shares'', ''cpus'', ''cpuset'',
      ''depends_on'', ''deploy'', ''device_cgroup_rules'', ''devices'', ''dns'',
      ''dns_opt'', ''dns_search'', ''domainname'', ''entrypoint'', ''env_file'',
      ''environment'', ''expose'', ''extends'', ''external_links'', ''extra_hosts'',
      ''gpus'', ''group_add'', ''healthcheck'', ''hostname'', ''image'', ''init'', ''ipc'',
      ''isolation'', ''labels'', ''links'', ''logging'', ''mac_address'', ''mem_limit'',
      ''mem_reservation'', ''mem_swappiness'', ''memswap_limit'', ''memswap_reservation'',
      ''network_mode'', ''networks'', ''oom_kill_disable'', ''oom_score_adj'', ''pid'',
      ''pids_limit'', ''platform'', ''ports'', ''post_start'', ''pre_stop'', ''privileged'',
      ''profiles'', ''pull_policy'', ''read_only'', ''restart'', ''runtime'', ''scale'',
      ''security_opt'', ''secrets'', ''shm_size'', ''stdin_open'', ''stop_grace_period'',
      ''stop_signal'', ''storage_opt'', ''sysctls'', ''tmpfs'', ''tty'', ''ulimits'',
      ''user'', ''uts'', ''userns_mode'', ''volumes'', ''volumes_from'', ''working_dir'']"

definition COMPOSE_BUILD_FIELDS :: "string list" where
  "COMPOSE_BUILD_FIELDS =
     [''additional_contexts'', ''args'', ''cache_from'', ''cache_to'', ''context'',
      ''dockerfile'', ''dockerfile_inline'', ''entitlements'', ''network'', ''platforms'',
      ''privileged'', ''provenance'', ''sbom'', ''secrets'', ''ssh'', ''target'']"

definition COMPOSE_DEPLOY_FIELDS :: "string list" where
  "COMPOSE_DEPLOY_FIELDS =
     [''cap_add'', ''cap_drop'', ''devices'', ''device_cgroup_rules'', ''endpoint_mode'',
      ''labels'', ''mode'', ''placement'', ''privileged'', ''replicas'',
      ''replicas_max_per_node'', ''resources'', ''restart_policy'', ''rollback_config'',
      ''security_opt'', ''sysctls'', ''update_config'']"

definition COMPOSE_RESOURCE_LIMIT_FIELDS :: "string list" where
  "COMPOSE_RESOURCE_LIMIT_FIELDS =
     [''cpus'', ''memory'', ''pids'']"

definition COMPOSE_RESOURCE_RESERVATION_FIELDS :: "string list" where
  "COMPOSE_RESOURCE_RESERVATION_FIELDS =
     [''cpus'', ''devices'', ''generic_resources'', ''memory'']"

definition COMPOSE_RESTART_FIELDS :: "string list" where
  "COMPOSE_RESTART_FIELDS =
     [''condition'', ''delay'', ''max_attempts'', ''window'']"

definition COMPOSE_PLACEMENT_FIELDS :: "string list" where
  "COMPOSE_PLACEMENT_FIELDS =
     [''constraints'', ''max_replicas_per_node'', ''platforms'', ''preferences'']"

definition COMPOSE_UPDATE_FIELDS :: "string list" where
  "COMPOSE_UPDATE_FIELDS =
     [''delay'', ''failure_action'', ''max_failure_ratio'', ''monitor'', ''order'',
      ''parallelism'']"

definition COMPOSE_NETWORK_FIELDS :: "string list" where
  "COMPOSE_NETWORK_FIELDS =
     [''attachable'', ''driver'', ''driver_opts'', ''enable_ipv4'', ''enable_ipv6'',
      ''external'', ''ipam'', ''internal'', ''labels'', ''name'']"

definition COMPOSE_VOLUME_FIELDS :: "string list" where
  "COMPOSE_VOLUME_FIELDS =
     [''driver'', ''driver_opts'', ''external'', ''labels'', ''name'']"

definition COMPOSE_FILE_RESOURCE_FIELDS :: "string list" where
  "COMPOSE_FILE_RESOURCE_FIELDS =
     [''content'', ''environment'', ''external'', ''file'', ''name'', ''template_driver'']"

definition COMPOSE_LOGGING_OPTION_FIELDS :: "string list" where
  "COMPOSE_LOGGING_OPTION_FIELDS =
     [''max-size'', ''max-file'', ''compress'', ''labels'', ''env'']"

definition COMPOSE_HEALTHCHECK_FIELDS :: "string list" where
  "COMPOSE_HEALTHCHECK_FIELDS =
     [''disable'', ''interval'', ''retries'', ''start_period'', ''test'', ''timeout'']"

section \<open>Patterns\<close>

definition is_slash :: "char \<Rightarrow> bool" where
  "is_slash c \<longleftrightarrow> c = CHR ''/'' \<or> c = CHR 0x5C"

definition is_key_char :: "char \<Rightarrow> bool" where
  "is_key_char c \<longleftrightarrow> is_alnum c \<or> c \<in> {CHR ''_'', CHR ''.'', CHR ''-''}"

fun COMPOSE_RESOURCE_KEY_PATTERN :: "string \<Rightarrow> bool" where
  "COMPOSE_RESOURCE_KEY_PATTERN [] = False"
| "COMPOSE_RESOURCE_KEY_PATTERN (c # cs) =
     (is_alnum c \<and> len cs \<le> 63 \<and> list_all is_key_char cs)"

fun isComposeExtensionField :: "string \<Rightarrow> bool" where
  "isComposeExtensionField (x # d # c # cs) =
     (x \<in> {CHR ''x'', CHR ''X''} \<and> d = CHR ''-'' \<and> is_alnum c \<and> len cs \<le> 63 \<and>
      list_all is_key_char cs)"
| "isComposeExtensionField _ = False"

section \<open>Field sets and types\<close>

definition validateComposeFieldSet ::
  "(string \<times> jsval) list \<Rightarrow> string list \<Rightarrow> string \<Rightarrow> string + unit" where
  "validateComposeFieldSet value allowed location =
     check_each (\<lambda>fld. throw_if (fld \<notin> set allowed \<and> \<not> isComposeExtensionField fld)
         (location @ '' contains unsupported field '' @ sq fld))
       (map fst value)"

datatype nested_shape = Mapping | MappingOrString | MappingOrArray

definition validateComposeNestedFieldSet ::
  "jsval \<Rightarrow> string list \<Rightarrow> string \<Rightarrow> nested_shape \<Rightarrow> string + unit" where
  "validateComposeNestedFieldSet value allowed location shape =
     (case value of
        JUndefined \<Rightarrow> Inr ()
      | JObj kvs \<Rightarrow> validateComposeFieldSet kvs allowed location
      | _ \<Rightarrow>
          throw_if (\<not> (shape = MappingOrString \<and> is_string value \<or>
                      shape = MappingOrArray \<and> is_array value))
            (location @ '' must be a mapping'' @
             (if shape = MappingOrString then '' or string''
              else if shape = MappingOrArray then '' or array'' else [])))"

definition requireComposeArray :: "jsval \<Rightarrow> string \<Rightarrow> string + unit" where
  "requireComposeArray value location =
     throw_if (value \<noteq> JUndefined \<and> \<not> is_array value) (location @ '' must be an array'')"

definition requireComposeMapping :: "jsval \<Rightarrow> string \<Rightarrow> string + unit" where
  "requireComposeMapping value location =
     throw_if (value \<noteq> JUndefined \<and> \<not> is_record value) (location @ '' must be a mapping'')"

definition requireComposeString :: "jsval \<Rightarrow> string \<Rightarrow> string + unit" where
  "requireComposeString value location =
     throw_if (value \<noteq> JUndefined \<and> \<not> is_string value) (location @ '' must be a string'')"

fun is_boolean_like :: "jsval \<Rightarrow> bool" where
  "is_boolean_like (JBool _) = True"
| "is_boolean_like (JStr s) = (toLowerCase (trim s) \<in> {''true'', ''false''})"
| "is_boolean_like _ = False"

definition requireComposeBoolean :: "jsval \<Rightarrow> string \<Rightarrow> string + unit" where
  "requireComposeBoolean value location =
     throw_if (value \<noteq> JUndefined \<and> \<not> is_boolean_like value)
       (location @ '' must be a boolean'')"

definition requireComposeArrayOrMapping :: "jsval \<Rightarrow> string \<Rightarrow> string + unit" where
  "requireComposeArrayOrMapping value location =
     throw_if (value \<noteq> JUndefined \<and> \<not> is_array value \<and> \<not> is_record value)
       (location @ '' must be a mapping or array'')"

definition requireComposeArrayOrMappingOrString :: "jsval \<Rightarrow> string \<Rightarrow> string + unit" where
  "requireComposeArrayOrMappingOrString value location =
     throw_if (value \<noteq> JUndefined \<and> \<not> is_array value \<and> \<not> is_record value \<and> \<not> is_string value)
       (location @ '' must be a mapping, array, or string'')"

text \<open>The location prefix of every service message.\<close>

definition svc :: "string \<Rightarrow> string" where
  "svc serviceName = ''Compose service '' @ sq serviceName"

definition array_fields :: "string list" where
  "array_fields =
     [''cap_add'', ''devices'', ''device_cgroup_rules'', ''external_links'', ''security_opt'',
      ''volumes'', ''volumes_from'']"

definition mapping_fields :: "string list" where
  "mapping_fields = [''blkio_config'', ''storage_opt'']"

definition string_fields :: "string list" where
  "string_fields =
     [''cgroup'', ''cgroup_parent'', ''cgroupns'', ''ipc'', ''network_mode'', ''pid'',
      ''userns_mode'', ''uts'']"

definition validateComposeServiceSecurityShapes ::
  "string \<Rightarrow> (string \<times> jsval) list \<Rightarrow> string + unit" where
  "validateComposeServiceSecurityShapes serviceName service = checks
     [check_each (\<lambda>fld. requireComposeArray (get_prop service fld) (svc serviceName @ '' '' @ fld))
        array_fields,
      check_each (\<lambda>fld. requireComposeMapping (get_prop service fld) (svc serviceName @ '' '' @ fld))
        mapping_fields,
      requireComposeArrayOrMappingOrString (get_prop service ''extra_hosts'')
        (svc serviceName @ '' extra_hosts''),
      requireComposeArrayOrMapping (get_prop service ''sysctls'') (svc serviceName @ '' sysctls''),
      requireComposeBoolean (get_prop service ''privileged'') (svc serviceName @ '' privileged''),
      check_each (\<lambda>fld. requireComposeString (get_prop service fld) (svc serviceName @ '' '' @ fld))
        string_fields]"

section \<open>Logging\<close>

definition is_control_char :: "char \<Rightarrow> bool" where
  "is_control_char c \<longleftrightarrow> code c < 0x20 \<or> code c = 0x7f"

fun invalid_logging_option :: "jsval \<Rightarrow> bool" where
  "invalid_logging_option (JStr s) = (len s > 256 \<or> list_ex is_control_char s)"
| "invalid_logging_option _ = True"

definition validateComposeLogging :: "string \<Rightarrow> jsval \<Rightarrow> string + unit" where
  "validateComposeLogging serviceName value =
     (case value of
        JUndefined \<Rightarrow> Inr ()
      | JObj kvs \<Rightarrow> checks
          [(case get_prop kvs ''driver'' of
              JUndefined \<Rightarrow> Inr ()
            | JStr d \<Rightarrow> throw_if (toLowerCase (trim d) \<notin> {[], ''json-file'', ''local''})
                (svc serviceName @ '' uses an unsupported logging driver'')
            | _ \<Rightarrow> Inl (svc serviceName @ '' logging driver must be a string'')),
           (case get_prop kvs ''options'' of
              JUndefined \<Rightarrow> Inr ()
            | JObj options \<Rightarrow> checks
                [throw_if (len options > 16)
                   (svc serviceName @ '' logging options are unbounded''),
                 check_each (\<lambda>(name, option). checks
                   [throw_if (trim (toLowerCase name) \<notin> set COMPOSE_LOGGING_OPTION_FIELDS)
                      (svc serviceName @ '' uses an unsupported logging option '' @ sq name),
                    throw_if (invalid_logging_option option)
                      (svc serviceName @ '' logging option '' @ sq name @ '' is invalid'')])
                   options]
            | _ \<Rightarrow> Inl (svc serviceName @ '' logging options must be a mapping''))]
      | _ \<Rightarrow> Inl (svc serviceName @ '' logging must be a mapping''))"

section \<open>The shape of a document\<close>

definition validateComposeDeployShape ::
  "string \<Rightarrow> jsval \<Rightarrow> string + unit" where
  "validateComposeDeployShape serviceName deploy =
     (case deploy of
        JObj d \<Rightarrow> checks
          [validateComposeNestedFieldSet (get_prop d ''resources'') [''limits'', ''reservations'']
             (svc serviceName @ '' deploy.resources'') Mapping,
           (case get_prop d ''resources'' of
              JObj r \<Rightarrow> checks
                [validateComposeNestedFieldSet (get_prop r ''limits'')
                   COMPOSE_RESOURCE_LIMIT_FIELDS
                   (svc serviceName @ '' deploy.resources.limits'') Mapping,
                 validateComposeNestedFieldSet (get_prop r ''reservations'')
                   COMPOSE_RESOURCE_RESERVATION_FIELDS
                   (svc serviceName @ '' deploy.resources.reservations'') Mapping]
            | _ \<Rightarrow> Inr ()),
           validateComposeNestedFieldSet (get_prop d ''restart_policy'') COMPOSE_RESTART_FIELDS
             (svc serviceName @ '' deploy.restart_policy'') Mapping,
           validateComposeNestedFieldSet (get_prop d ''placement'') COMPOSE_PLACEMENT_FIELDS
             (svc serviceName @ '' deploy.placement'') Mapping,
           validateComposeNestedFieldSet (get_prop d ''update_config'') COMPOSE_UPDATE_FIELDS
             (svc serviceName @ '' deploy.update_config'') Mapping,
           validateComposeNestedFieldSet (get_prop d ''rollback_config'') COMPOSE_UPDATE_FIELDS
             (svc serviceName @ '' deploy.rollback_config'') Mapping]
      | _ \<Rightarrow> Inr ())"

definition validateComposeServiceShape :: "string \<Rightarrow> jsval \<Rightarrow> string + unit" where
  "validateComposeServiceShape serviceName rawService =
     (if \<not> COMPOSE_RESOURCE_KEY_PATTERN serviceName
      then Inl (svc serviceName @ '' has an invalid resource name'')
      else case rawService of
        JObj s \<Rightarrow> checks
          [validateComposeFieldSet s COMPOSE_SERVICE_FIELDS (svc serviceName),
           validateComposeServiceSecurityShapes serviceName s,
           validateComposeNestedFieldSet (get_prop s ''build'') COMPOSE_BUILD_FIELDS
             (svc serviceName @ '' build'') MappingOrString,
           validateComposeNestedFieldSet (get_prop s ''deploy'') COMPOSE_DEPLOY_FIELDS
             (svc serviceName @ '' deploy'') Mapping,
           validateComposeDeployShape serviceName (get_prop s ''deploy''),
           validateComposeNestedFieldSet (get_prop s ''healthcheck'') COMPOSE_HEALTHCHECK_FIELDS
             (svc serviceName @ '' healthcheck'') MappingOrArray,
           validateComposeNestedFieldSet (get_prop s ''logging'') [''driver'', ''options'']
             (svc serviceName @ '' logging'') Mapping,
           validateComposeLogging serviceName (get_prop s ''logging'')]
      | _ \<Rightarrow> Inl (svc serviceName @ '' must be a mapping''))"

definition validateComposeResourceShapes ::
  "(string \<times> jsval) list \<Rightarrow> string \<times> string list \<Rightarrow> string + unit" where
  "validateComposeResourceShapes parsed =
     (\<lambda>(kind, allowed).
       (case get_prop parsed kind of
          JUndefined \<Rightarrow> Inr ()
        | JObj definitions \<Rightarrow>
            check_each (\<lambda>(name, def).
              (case def of
                 JObj d \<Rightarrow> checks
                   [validateComposeFieldSet d allowed (''Compose '' @ butlast kind @ '' '' @ sq name),
                    (if kind = ''networks'' then
                       validateComposeNestedFieldSet (get_prop d ''ipam'')
                         [''config'', ''driver'', ''options'']
                         (''Compose network '' @ sq name @ '' ipam'') Mapping
                     else Inr ())]
               | _ \<Rightarrow> Inr ()))
              definitions
        | _ \<Rightarrow> Inl (''Compose '' @ kind @ '' must be a mapping'')))"

definition validateComposeShape :: "(string \<times> jsval) list \<Rightarrow> string + unit" where
  "validateComposeShape parsed = checks
     [validateComposeFieldSet parsed COMPOSE_TOP_LEVEL_FIELDS ''Compose document'',
      (case get_prop parsed ''services'' of
         JObj services \<Rightarrow>
           (if services = [] then Inl ''Compose services must be a non-empty mapping''
            else check_each (\<lambda>(n, s). validateComposeServiceShape n s) services)
       | _ \<Rightarrow> Inl ''Compose services must be a non-empty mapping''),
      check_each (validateComposeResourceShapes parsed)
        [(''networks'', COMPOSE_NETWORK_FIELDS), (''volumes'', COMPOSE_VOLUME_FIELDS),
         (''configs'', COMPOSE_FILE_RESOURCE_FIELDS), (''secrets'', COMPOSE_FILE_RESOURCE_FIELDS)]]"

section \<open>What an accepted shape guarantees\<close>

definition permitted_field :: "string list \<Rightarrow> string \<Rightarrow> bool" where
  "permitted_field allowed f \<longleftrightarrow> f \<in> set allowed \<or> isComposeExtensionField f"

lemma field_set_ok [simp]:
  "validateComposeFieldSet kvs allowed loc = Inr () \<longleftrightarrow>
     (\<forall>f \<in> fst ` set kvs. permitted_field allowed f)"
  by (auto simp: validateComposeFieldSet_def permitted_field_def)

lemma nested_field_set_ok:
  "validateComposeNestedFieldSet v allowed loc shape = Inr () \<longleftrightarrow>
     v = JUndefined \<or>
     (\<exists>kvs. v = JObj kvs \<and> (\<forall>f \<in> fst ` set kvs. permitted_field allowed f)) \<or>
     (shape = MappingOrString \<and> is_string v) \<or> (shape = MappingOrArray \<and> is_array v)"
  by (cases v) (auto simp: validateComposeNestedFieldSet_def)

lemma nested_mapping_ok:
  "validateComposeNestedFieldSet v allowed loc Mapping = Inr () \<Longrightarrow> v = JUndefined \<or> is_record v"
  by (auto simp: nested_field_set_ok)

lemmas require_defs =
  requireComposeArray_def requireComposeMapping_def requireComposeString_def
  requireComposeBoolean_def requireComposeArrayOrMapping_def
  requireComposeArrayOrMappingOrString_def

lemma service_shape_ok:
  assumes "validateComposeServiceShape n raw = Inr ()"
  obtains s where "raw = JObj s" "COMPOSE_RESOURCE_KEY_PATTERN n"
    "\<forall>f \<in> fst ` set s. permitted_field COMPOSE_SERVICE_FIELDS f"
    "validateComposeServiceSecurityShapes n s = Inr ()"
    "validateComposeNestedFieldSet (get_prop s ''build'') COMPOSE_BUILD_FIELDS
       (svc n @ '' build'') MappingOrString = Inr ()"
    "validateComposeNestedFieldSet (get_prop s ''deploy'') COMPOSE_DEPLOY_FIELDS
       (svc n @ '' deploy'') Mapping = Inr ()"
    "validateComposeLogging n (get_prop s ''logging'') = Inr ()"
  using assms by (cases raw) (auto simp: validateComposeServiceShape_def split: if_splits)

lemma shape_services:
  assumes "validateComposeShape parsed = Inr ()"
  obtains services where "get_prop parsed ''services'' = JObj services" "services \<noteq> []"
    "\<forall>(n, s) \<in> set services. validateComposeServiceShape n s = Inr ()"
  using assms by (fastforce simp: validateComposeShape_def split: jsval.splits if_splits)

text \<open>Types of the fields the security policy reads, in an accepted service.\<close>

lemma security_shapes_array:
  assumes "validateComposeServiceSecurityShapes n s = Inr ()" and "f \<in> set array_fields"
  shows "get_prop s f = JUndefined \<or> is_array (get_prop s f)"
  using assms by (auto simp: validateComposeServiceSecurityShapes_def require_defs)

lemma security_shapes_string:
  assumes "validateComposeServiceSecurityShapes n s = Inr ()" and "f \<in> set string_fields"
  shows "get_prop s f = JUndefined \<or> is_string (get_prop s f)"
  using assms by (auto simp: validateComposeServiceSecurityShapes_def require_defs)

lemma security_shapes_mapping:
  assumes "validateComposeServiceSecurityShapes n s = Inr ()" and "f \<in> set mapping_fields"
  shows "get_prop s f = JUndefined \<or> is_record (get_prop s f)"
  using assms by (auto simp: validateComposeServiceSecurityShapes_def require_defs)

lemma security_shapes_rest:
  assumes "validateComposeServiceSecurityShapes n s = Inr ()"
  shows "get_prop s ''sysctls'' = JUndefined \<or> is_array (get_prop s ''sysctls'') \<or>
           is_record (get_prop s ''sysctls'')"
    and "get_prop s ''privileged'' = JUndefined \<or> is_boolean_like (get_prop s ''privileged'')"
  using assms by (auto simp: validateComposeServiceSecurityShapes_def require_defs)

end
