(* ===== verification/Compose_Security.thy ===== *)
theory Compose_Security
  imports Compose_Shape
begin

text \<open>
  The isolation policy for Compose documents: \<open>validateComposeSecurity\<close> and its helpers in
  \<open>packages/usecases/src/resource/compose-security.ts\<close> (lines 565 to 1253). The YAML
  parser is the third-party package \<open>yaml\<close>; it is the parameter \<open>yaml_parse\<close>
  (\<open>Inl\<close> is the message of the error it throws).
\<close>

section \<open>Patterns\<close>

fun HOST_PATH_PATTERN :: "string \<Rightarrow> bool" where
  "HOST_PATH_PATTERN [] = False"
| "HOST_PATH_PATTERN [c] = (is_slash c \<or> c = CHR ''~'')"
| "HOST_PATH_PATTERN [c, d] =
     (is_slash c \<or> c = CHR ''~'' \<or> (c = CHR ''.'' \<and> is_slash d))"
| "HOST_PATH_PATTERN (c # d # e # cs) =
     ((is_alpha c \<and> d = CHR '':'' \<and> is_slash e) \<or> is_slash c \<or> c = CHR ''~'' \<or>
      (c = CHR ''.'' \<and> is_slash d) \<or> (c = CHR ''.'' \<and> d = CHR ''.'' \<and> is_slash e))"

definition is_scheme_char :: "char \<Rightarrow> bool" where
  "is_scheme_char c \<longleftrightarrow> is_alnum c \<or> c \<in> {CHR ''+'', CHR ''.'', CHR ''-''}"

text \<open>
  \<open>scheme://\<close> or \<open>user@host:\<close>; the repeated classes exclude the character that must
  follow them, so each repetition is the longest run.
\<close>

definition REMOTE_BUILD_CONTEXT_PATTERN :: "string \<Rightarrow> bool" where
  "REMOTE_BUILD_CONTEXT_PATTERN s \<longleftrightarrow>
     (case s of [] \<Rightarrow> False
      | c # cs \<Rightarrow> is_alpha c \<and> starts_with ''://'' (dropWhile is_scheme_char cs)) \<or>
     (let user_char = (\<lambda>c. \<not> is_slash c \<and> \<not> is_space c \<and> c \<noteq> CHR '':'' \<and> c \<noteq> CHR ''@'');
          host_char = (\<lambda>c. \<not> is_slash c \<and> \<not> is_space c \<and> c \<noteq> CHR '':'')
      in takeWhile user_char s \<noteq> [] \<and>
         (case dropWhile user_char s of
            a # r \<Rightarrow> a = CHR ''@'' \<and> takeWhile host_char r \<noteq> [] \<and>
              starts_with '':'' (dropWhile host_char r)
          | [] \<Rightarrow> False))"

fun COMPOSE_BUILD_ARGUMENT_NAME_PATTERN :: "string \<Rightarrow> bool" where
  "COMPOSE_BUILD_ARGUMENT_NAME_PATTERN [] = False"
| "COMPOSE_BUILD_ARGUMENT_NAME_PATTERN (c # cs) =
     ((is_alpha c \<or> c = CHR ''_'') \<and> list_all is_word cs)"

section \<open>Interpolation of protected variables\<close>

text \<open>
  One position of the search for the braced form with an optional operator and default
  text, or for the unbraced form ending at a word boundary.
\<close>

definition protected_reference_at :: "string \<Rightarrow> string \<Rightarrow> bool" where
  "protected_reference_at name s \<longleftrightarrow>
     (let braced = ''${'' @ name; rest = drop (length braced) s
      in starts_with braced s \<and>
         (case rest of [] \<Rightarrow> False
          | c # cs \<Rightarrow> c = CHR ''}'' \<or>
              (c \<in> {CHR '':'', CHR ''?'', CHR ''+'', CHR ''-''} \<and> CHR ''}'' \<in> set cs))) \<or>
     (let plain = CHR ''$'' # name; rest = drop (length plain) s
      in starts_with plain s \<and> (case rest of [] \<Rightarrow> True | c # _ \<Rightarrow> \<not> is_word c))"

fun has_protected_reference :: "string \<Rightarrow> string \<Rightarrow> bool" where
  "has_protected_reference name [] = protected_reference_at name []"
| "has_protected_reference name (c # cs) =
     (protected_reference_at name (c # cs) \<or> has_protected_reference name cs)"

definition validateProtectedDockerEnvironmentReferences :: "string \<Rightarrow> string + unit" where
  "validateProtectedDockerEnvironmentReferences rawCompose =
     check_each (\<lambda>name. throw_if (has_protected_reference name rawCompose)
         (''Compose cannot interpolate protected Docker environment variable '' @ sq name))
       PROTECTED_DOCKER_ENVIRONMENT_NAMES"

section \<open>Paths, namespaces and hosts\<close>

definition is_drive_path :: "string \<Rightarrow> bool" where
  "is_drive_path s \<longleftrightarrow>
     (case s of c # d # e # _ \<Rightarrow> is_alpha c \<and> d = CHR '':'' \<and> is_slash e | _ \<Rightarrow> False)"

fun volumeSource :: "jsval \<Rightarrow> string option" where
  "volumeSource (JStr v) =
     Some (if is_drive_path v then v else takeWhile (\<lambda>c. c \<noteq> CHR '':'') v)"
| "volumeSource (JObj kvs) =
     (case get_prop kvs ''source'' of JStr s \<Rightarrow> Some s | _ \<Rightarrow> None)"
| "volumeSource _ = None"

definition isHostNamespace :: "jsval \<Rightarrow> bool" where
  "isHostNamespace v \<longleftrightarrow>
     toLowerCase (trim (string_or_empty v)) \<in> {''host'', ''container:host'', ''service:host''}"

definition isSharedContainerNamespace :: "jsval \<Rightarrow> bool" where
  "isSharedContainerNamespace v \<longleftrightarrow>
     (let normalized = toLowerCase (trim (string_or_empty v))
      in isHostNamespace v \<or> starts_with ''container:'' normalized \<or>
         starts_with ''service:'' normalized)"

definition isInterpolated :: "string \<Rightarrow> bool" where
  "isInterpolated v \<longleftrightarrow> CHR ''$'' \<in> set v"

definition isHostPath :: "string \<Rightarrow> bool" where
  "isHostPath v \<longleftrightarrow>
     HOST_PATH_PATTERN v \<or> str_includes ''docker.sock'' (toLowerCase v) \<or> isInterpolated v"

definition isUnsafeComposePath :: "string \<Rightarrow> bool" where
  "isUnsafeComposePath v \<longleftrightarrow>
     isHostPath v \<or> ''..'' \<in> set (split_on (CHR ''/'') (replace_char (CHR 0x5C) (CHR ''/'') v))"

definition isHostGatewayExtraHost :: "jsval \<Rightarrow> bool" where
  "isHostGatewayExtraHost v =
     (let normalized = toLowerCase (trim (string_or_empty v)) in
      if normalized = [] then False
      else case index_where (\<lambda>c. c = CHR '':'' \<or> c = CHR ''='') normalized of
        None \<Rightarrow> normalized \<in> {''host.docker.internal'', ''gateway.docker.internal''}
      | Some i \<Rightarrow>
          trim (take i normalized) \<in> {''host.docker.internal'', ''gateway.docker.internal''} \<or>
          trim (drop (Suc i) normalized) = ''host-gateway'')"

fun extra_host_entries :: "jsval \<Rightarrow> jsval list" where
  "extra_host_entries (JArr vs) = vs"
| "extra_host_entries (JObj kvs) = map (\<lambda>(h, a). JStr (h @ ''='' @ js_string a)) kvs"
| "extra_host_entries (JStr s) = [JStr s]"
| "extra_host_entries _ = []"

definition validateComposeExtraHosts :: "string \<Rightarrow> jsval \<Rightarrow> string + unit" where
  "validateComposeExtraHosts serviceName extraHosts =
     throw_if (list_ex isHostGatewayExtraHost (extra_host_entries extraHosts))
       (svc serviceName @
        '' requests host-gateway access through extra_hosts, which is not allowed'')"

section \<open>Builds\<close>

definition isRemoteBuildContext :: "string \<Rightarrow> bool" where
  "isRemoteBuildContext v \<longleftrightarrow> REMOTE_BUILD_CONTEXT_PATTERN (trim v)"

definition validateComposeScopedPath :: "string \<Rightarrow> string \<Rightarrow> string \<Rightarrow> string + unit" where
  "validateComposeScopedPath v resourceKind resourceName =
     throw_if (v = [] \<or> isUnsafeComposePath v)
       (''Compose '' @ resourceKind @ '' '' @ sq resourceName @ '' uses an unsafe path'')"

definition validateComposeBuildContext :: "string \<Rightarrow> string \<Rightarrow> string \<Rightarrow> string + unit" where
  "validateComposeBuildContext v resourceKind resourceName = checks
     [throw_if (isRemoteBuildContext v)
        (''Compose '' @ resourceKind @ '' '' @ sq resourceName @
         '' cannot use a remote build context''),
      validateComposeScopedPath v resourceKind resourceName]"

definition isSensitiveComposeBuildArgument :: "string \<Rightarrow> bool" where
  "isSensitiveComposeBuildArgument name \<longleftrightarrow>
     (let normalized = replace_char (CHR ''-'') (CHR ''_'') (toLowerCase (trim name))
      in list_ex (\<lambda>marker. str_includes marker normalized) SENSITIVE_BUILD_ARGUMENT_MARKERS)"

text \<open>One entry of an array of build arguments: its name, or the error it causes.\<close>

fun build_argument_entry :: "string \<Rightarrow> jsval \<Rightarrow> string + string" where
  "build_argument_entry serviceName (JStr e) =
     (case index_where (\<lambda>c. c = CHR ''='') e of
        None \<Rightarrow> Inl (svc serviceName @ '' build arguments must use literal values'')
      | Some i \<Rightarrow>
          if CHR ''$'' \<in> set (drop (Suc i) e)
          then Inl (svc serviceName @ '' build arguments must use literal values'')
          else Inr (trim (take i e)))"
| "build_argument_entry serviceName _ =
     Inl (svc serviceName @ '' has an invalid build argument'')"

fun build_argument_entries :: "string \<Rightarrow> jsval list \<Rightarrow> string + string list" where
  "build_argument_entries serviceName [] = Inr []"
| "build_argument_entries serviceName (v # vs) =
     (case build_argument_entry serviceName v of
        Inl e \<Rightarrow> Inl e
      | Inr name \<Rightarrow> (case build_argument_entries serviceName vs of
          Inl e \<Rightarrow> Inl e | Inr names \<Rightarrow> Inr (name # names)))"

fun build_argument_names :: "string \<Rightarrow> jsval \<Rightarrow> string + string list" where
  "build_argument_names serviceName (JObj kvs) = Inr (map fst kvs)"
| "build_argument_names serviceName (JArr vs) = build_argument_entries serviceName vs"
| "build_argument_names serviceName _ =
     Inl (svc serviceName @ '' has invalid build arguments'')"

fun non_literal_build_value :: "jsval \<Rightarrow> bool" where
  "non_literal_build_value JNull = True"
| "non_literal_build_value (JObj _) = True"
| "non_literal_build_value (JArr _) = True"
| "non_literal_build_value (JStr s) = (CHR ''$'' \<in> set s)"
| "non_literal_build_value _ = False"

definition validateComposeBuildArguments :: "string \<Rightarrow> jsval \<Rightarrow> string + unit" where
  "validateComposeBuildArguments serviceName args =
     (case build_argument_names serviceName args of
        Inl e \<Rightarrow> Inl e
      | Inr names \<Rightarrow> checks
          [throw_if (len names > 64) (svc serviceName @ '' has too many build arguments''),
           check_each (\<lambda>name. checks
             [throw_if (\<not> COMPOSE_BUILD_ARGUMENT_NAME_PATTERN name)
                (svc serviceName @ '' has an invalid build argument name''),
              throw_if (isSensitiveComposeBuildArgument name)
                (svc serviceName @ '' uses secret-like build argument '' @ sq name @
                 '', which is not allowed'')]) names,
           (case args of
              JObj kvs \<Rightarrow> check_each (\<lambda>(name, v). throw_if (non_literal_build_value v)
                (svc serviceName @ '' build argument '' @ sq name @ '' must use a literal value''))
                kvs
            | _ \<Rightarrow> Inr ())])"

definition requests_privilege :: "jsval \<Rightarrow> bool" where
  "requests_privilege v \<longleftrightarrow> v = JBool True \<or> toLowerCase (trim (string_or_empty v)) = ''true''"

definition validateComposeAdditionalContexts :: "string \<Rightarrow> jsval \<Rightarrow> string + unit" where
  "validateComposeAdditionalContexts serviceName contexts =
     (case contexts of
        JObj kvs \<Rightarrow> check_each (\<lambda>(contextName, rawContext).
          (case rawContext of
             JStr c \<Rightarrow> validateComposeBuildContext c
               (''service build context '' @ sq contextName) serviceName
           | _ \<Rightarrow> Inr ())) kvs
      | JArr vs \<Rightarrow> check_each (\<lambda>rawContext.
          (case rawContext of
             JStr c \<Rightarrow> validateComposeBuildContext
               (case index_where (\<lambda>x. x = CHR ''='') c of None \<Rightarrow> c | Some i \<Rightarrow> drop (Suc i) c)
               ''service additional build context'' serviceName
           | _ \<Rightarrow> Inr ())) vs
      | _ \<Rightarrow> Inr ())"

definition validateComposeBuild :: "string \<Rightarrow> jsval \<Rightarrow> string + unit" where
  "validateComposeBuild serviceName build =
     (case build of
        JStr c \<Rightarrow> validateComposeBuildContext c ''service build context'' serviceName
      | JObj b \<Rightarrow> checks
          [throw_if (get_prop b ''platforms'' \<noteq> JUndefined)
             (svc serviceName @ '' requests cross-platform build targets, which are not allowed''),
           throw_if (requests_privilege (get_prop b ''privileged''))
             (svc serviceName @ '' requests privileged build execution, which is not allowed''),
           (case get_prop b ''context'' of
              JStr c \<Rightarrow> validateComposeBuildContext c ''service build context'' serviceName
            | _ \<Rightarrow> Inr ()),
           (case get_prop b ''dockerfile'' of
              JStr d \<Rightarrow> validateComposeScopedPath d ''service Dockerfile'' serviceName
            | _ \<Rightarrow> Inr ()),
           (if get_prop b ''args'' \<noteq> JUndefined
            then validateComposeBuildArguments serviceName (get_prop b ''args'') else Inr ()),
           throw_if (get_prop b ''ssh'' \<noteq> JUndefined)
             (svc serviceName @
              '' requests SSH agent forwarding during build, which is not allowed''),
           throw_if (get_prop b ''secrets'' \<noteq> JUndefined)
             (svc serviceName @
              '' requests build secrets, which are not allowed; use Upstand-managed build secrets instead''),
           throw_if (get_prop b ''cache_from'' \<noteq> JUndefined \<or> get_prop b ''cache_to'' \<noteq> JUndefined)
             (svc serviceName @ '' configures an external build cache, which is not allowed''),
           throw_if (case get_prop b ''network'' of
               JStr n \<Rightarrow> toLowerCase (trim n) = ''host'' | _ \<Rightarrow> False)
             (svc serviceName @ '' requests host networking during build, which is not allowed''),
           throw_if (nonempty_array (get_prop b ''entitlements''))
             (svc serviceName @ '' requests build entitlements, which is not allowed''),
           validateComposeAdditionalContexts serviceName (get_prop b ''additional_contexts'')]
      | _ \<Rightarrow> Inr ())"

section \<open>Environment files, deploy section, external resources\<close>

fun env_file_path :: "jsval \<Rightarrow> string option" where
  "env_file_path (JStr s) = Some s"
| "env_file_path (JObj kvs) = (case get_prop kvs ''path'' of JStr s \<Rightarrow> Some s | _ \<Rightarrow> None)"
| "env_file_path _ = None"

definition validateComposeEnvFile :: "string \<Rightarrow> jsval \<Rightarrow> string + unit" where
  "validateComposeEnvFile serviceName envFile =
     check_each (\<lambda>entry. (case env_file_path entry of
         None \<Rightarrow> Inr ()
       | Some p \<Rightarrow> validateComposeScopedPath p ''env_file'' serviceName))
     (case envFile of JArr vs \<Rightarrow> vs | v \<Rightarrow> [v])"

definition deploy_unsafe_fields :: "string list" where
  "deploy_unsafe_fields =
     [''cap_add'', ''devices'', ''device_cgroup_rules'', ''security_opt'', ''sysctls'']"

definition validateComposeDeploySecurity :: "string \<Rightarrow> jsval \<Rightarrow> string + unit" where
  "validateComposeDeploySecurity serviceName deploy =
     (case deploy of
        JObj d \<Rightarrow> checks
          [throw_if (get_prop d ''privileged'' = JBool True \<or> get_prop d ''privileged'' = JStr ''true'')
             (svc serviceName @ '' requests privileged deployment mode, which is not allowed''),
           check_each (\<lambda>fld. throw_if
               (nonempty_array (get_prop d fld) \<or> nonempty_record (get_prop d fld))
               (svc serviceName @ '' requests unsafe deploy.'' @ fld @ '', which is not allowed''))
             deploy_unsafe_fields,
           (case get_prop d ''resources'' of
              JObj r \<Rightarrow> (case get_prop r ''reservations'' of
                JObj v \<Rightarrow> throw_if (get_prop v ''devices'' \<noteq> JUndefined)
                  (svc serviceName @ '' requests reserved host devices, which is not allowed'')
              | _ \<Rightarrow> Inr ())
            | _ \<Rightarrow> Inr ())]
      | _ \<Rightarrow> Inr ())"

fun isExternalResourceDefinition :: "jsval \<Rightarrow> bool" where
  "isExternalResourceDefinition (JBool b) = b"
| "isExternalResourceDefinition (JObj kvs) =
     (get_prop kvs ''external'' = JBool True \<or> is_record (get_prop kvs ''external''))"
| "isExternalResourceDefinition _ = False"

definition validateComposeFileBackedResources ::
  "(string \<times> jsval) list \<Rightarrow> string \<Rightarrow> string + unit" where
  "validateComposeFileBackedResources parsed resourceKind =
     (case get_prop parsed resourceKind of
        JObj definitions \<Rightarrow> check_each (\<lambda>(resourceName, rawDefinition). checks
          [throw_if (\<not> COMPOSE_RESOURCE_KEY_PATTERN resourceName)
             (''Compose '' @ butlast resourceKind @ '' '' @ sq resourceName @
              '' has an invalid resource name''),
           throw_if (isExternalResourceDefinition rawDefinition)
             (''Compose '' @ butlast resourceKind @ '' '' @ sq resourceName @
              '' cannot be external; resources must be provisioned inside the resource boundary''),
           (case rawDefinition of
              JObj d \<Rightarrow> check_each (\<lambda>fld.
                (case get_prop d fld of
                   JStr v \<Rightarrow> throw_if (isUnsafeComposePath v)
                     (''Compose '' @ butlast resourceKind @ '' '' @ sq resourceName @
                      '' uses an unsafe '' @ fld @ '' path'')
                 | _ \<Rightarrow> Inr ())) [''name'', ''file'']
            | _ \<Rightarrow> Inr ())]) definitions
      | _ \<Rightarrow> Inr ())"

definition validateComposeVolumeDefinition :: "string \<Rightarrow> jsval \<Rightarrow> string + unit" where
  "validateComposeVolumeDefinition volumeName rawDefinition = checks
     [throw_if (\<not> COMPOSE_RESOURCE_KEY_PATTERN volumeName)
        (''Compose volume '' @ sq volumeName @ '' has an invalid resource name''),
      throw_if (isExternalResourceDefinition rawDefinition)
        (''Compose volume '' @ sq volumeName @
         '' cannot be external; resource volumes must be provisioned inside the resource boundary''),
      throw_if (isInterpolated volumeName)
        (''Compose volume '' @ sq volumeName @
         '' uses environment interpolation, which is not allowed''),
      (case rawDefinition of
         JObj d \<Rightarrow> checks
           [throw_if (nonempty_record (get_prop d ''driver_opts''))
              (''Compose volume '' @ sq volumeName @
               '' configures host-backed driver options, which is not allowed''),
            throw_if (case get_prop d ''driver'' of
                JStr v \<Rightarrow> trim v \<noteq> [] \<and> toLowerCase (trim v) \<noteq> ''local'' | _ \<Rightarrow> False)
              (''Compose volume '' @ sq volumeName @ '' uses an unsupported volume driver''),
            throw_if (case get_prop d ''name'' of JStr v \<Rightarrow> isHostPath v | _ \<Rightarrow> False)
              (''Compose volume '' @ sq volumeName @
               '' resolves to an unsafe Docker volume name'')]
       | _ \<Rightarrow> Inr ())]"

definition validateComposeNetworkDefinition :: "string \<Rightarrow> jsval \<Rightarrow> string + unit" where
  "validateComposeNetworkDefinition networkName rawDefinition = checks
     [throw_if (\<not> COMPOSE_RESOURCE_KEY_PATTERN networkName)
        (''Compose network '' @ sq networkName @ '' has an invalid resource name''),
      throw_if (isExternalResourceDefinition rawDefinition)
        (''Compose network '' @ sq networkName @
         '' cannot be external; resource networks must be provisioned inside the resource boundary''),
      (case rawDefinition of
         JObj d \<Rightarrow> checks
           [throw_if (nonempty_record (get_prop d ''driver_opts''))
              (''Compose network '' @ sq networkName @
               '' configures host-backed driver options, which is not allowed''),
            throw_if (case get_prop d ''driver'' of
                JStr v \<Rightarrow> trim v \<noteq> [] \<and> toLowerCase (trim v) \<notin> {''bridge'', ''overlay''}
              | _ \<Rightarrow> False)
              (''Compose network '' @ sq networkName @ '' uses an unsupported network driver''),
            throw_if (case get_prop d ''name'' of
                JStr v \<Rightarrow> isInterpolated v \<or> toLowerCase (trim v) \<in> {''host'', ''none''}
              | _ \<Rightarrow> False)
              (''Compose network '' @ sq networkName @
               '' resolves to an unsafe Docker network name'')]
       | _ \<Rightarrow> Inr ())]"

section \<open>Services\<close>

definition unsafe_security_option :: "string \<Rightarrow> bool" where
  "unsafe_security_option opt \<longleftrightarrow>
     (let o' = toLowerCase opt
      in ends_with ''=unconfined'' o' \<or> ends_with ''=false'' o' \<or>
         o' \<in> {''apparmor=unconfined'', ''seccomp=unconfined''} \<or>
         o' \<in> {''label=disable'', ''systempaths=unconfined''})"

text \<open>\<open>security_opt.find\<close>: the first unsafe string option.\<close>

fun find_unsafe_option :: "jsval list \<Rightarrow> string option" where
  "find_unsafe_option [] = None"
| "find_unsafe_option (v # vs) =
     (case v of
        JStr s \<Rightarrow> if unsafe_security_option s then Some s else find_unsafe_option vs
      | _ \<Rightarrow> find_unsafe_option vs)"

fun nonblank_string :: "jsval \<Rightarrow> bool" where
  "nonblank_string (JStr s) = (trim s \<noteq> [])"
| "nonblank_string _ = False"

definition is_bind_volume :: "jsval \<Rightarrow> bool" where
  "is_bind_volume v \<longleftrightarrow>
     (case v of JObj kvs \<Rightarrow> toLowerCase (string_or_empty (get_prop kvs ''type'')) = ''bind''
      | _ \<Rightarrow> False)"

definition has_host_source :: "jsval \<Rightarrow> bool" where
  "has_host_source v \<longleftrightarrow>
     (case volumeSource v of Some src \<Rightarrow> src \<noteq> [] \<and> isHostPath src | None \<Rightarrow> False)"

definition namespace_fields :: "string list" where
  "namespace_fields =
     [''network_mode'', ''pid'', ''ipc'', ''uts'', ''userns_mode'', ''cgroup'', ''cgroupns'']"

definition validateComposeServiceSecurity ::
  "string \<Rightarrow> (string \<times> jsval) list \<Rightarrow> string + unit" where
  "validateComposeServiceSecurity serviceName service = checks
     [(if get_prop service ''build'' \<noteq> JUndefined
       then validateComposeBuild serviceName (get_prop service ''build'') else Inr ()),
      throw_if (get_prop service ''runtime'' \<noteq> JUndefined)
        (svc serviceName @ '' requests a custom container runtime, which is not allowed''),
      throw_if (get_prop service ''gpus'' \<noteq> JUndefined)
        (svc serviceName @ '' requests host GPU devices, which is not allowed''),
      throw_if (nonempty_array (get_prop service ''device_cgroup_rules'') \<or>
                nonempty_array (get_prop service ''devices''))
        (svc serviceName @ '' requests host devices, which is not allowed''),
      (if get_prop service ''env_file'' \<noteq> JUndefined
       then validateComposeEnvFile serviceName (get_prop service ''env_file'') else Inr ()),
      (if get_prop service ''extra_hosts'' \<noteq> JUndefined
       then validateComposeExtraHosts serviceName (get_prop service ''extra_hosts'') else Inr ()),
      validateComposeDeploySecurity serviceName (get_prop service ''deploy''),
      (case get_prop service ''extends'' of
         JObj x \<Rightarrow> (case get_prop x ''file'' of
           JStr f \<Rightarrow> validateComposeScopedPath f ''extends file'' serviceName
         | _ \<Rightarrow> Inr ())
       | _ \<Rightarrow> Inr ()),
      throw_if (requests_privilege (get_prop service ''privileged''))
        (svc serviceName @ '' requests privileged mode, which is not allowed''),
      throw_if (list_ex (\<lambda>f. isSharedContainerNamespace (get_prop service f)) namespace_fields)
        (svc serviceName @ '' requests shared or host-level namespace access, which is not allowed''),
      throw_if (get_prop service ''container_name'' \<noteq> JUndefined)
        (svc serviceName @ '' sets container_name, which is not allowed for isolated deployments''),
      throw_if (nonempty_array (get_prop service ''cap_add''))
        (svc serviceName @ '' requests added Linux capabilities, which is not allowed''),
      throw_if (nonempty_array (get_prop service ''volumes_from'') \<or>
                nonblank_string (get_prop service ''volumes_from''))
        (svc serviceName @ '' requests volumes_from, which is not allowed for isolated deployments''),
      throw_if (nonempty_array (get_prop service ''external_links'') \<or>
                nonblank_string (get_prop service ''external_links''))
        (svc serviceName @ '' requests external_links, which is not allowed for isolated deployments''),
      (case get_prop service ''security_opt'' of
         JArr opts \<Rightarrow> (case find_unsafe_option opts of
           Some opt \<Rightarrow> Inl (svc serviceName @ '' requests unsafe security option '' @ sq opt)
         | None \<Rightarrow> Inr ())
       | _ \<Rightarrow> Inr ()),
      throw_if (nonempty_record (get_prop service ''sysctls'') \<or>
                nonempty_array (get_prop service ''sysctls''))
        (svc serviceName @ '' requests service sysctls, which is not allowed''),
      throw_if (nonblank_string (get_prop service ''cgroup_parent'') \<or>
                nonempty_record (get_prop service ''storage_opt'') \<or>
                nonempty_record (get_prop service ''blkio_config''))
        (svc serviceName @ '' requests host resource controls, which is not allowed''),
      (case get_prop service ''volumes'' of
         JArr vs \<Rightarrow> check_each (\<lambda>volume. throw_if (is_bind_volume volume \<or> has_host_source volume)
           (svc serviceName @ '' contains a host bind or Docker socket mount'')) vs
       | _ \<Rightarrow> Inr ())]"

section \<open>The entry point\<close>

definition COMPOSE_DOCUMENT_MAX_BYTES :: int where
  "COMPOSE_DOCUMENT_MAX_BYTES = 1048576"

fun entries_of :: "jsval \<Rightarrow> (string \<times> jsval) list" where
  "entries_of (JObj kvs) = kvs"
| "entries_of _ = []"

text \<open>The part of \<open>validateComposeSecurity\<close> after the document is parsed.\<close>

definition validateParsedCompose :: "(string \<times> jsval) list \<Rightarrow> string + unit" where
  "validateParsedCompose parsed = checks
     [check_each (\<lambda>(n, d). validateComposeVolumeDefinition n d)
        (entries_of (get_prop parsed ''volumes'')),
      check_each (\<lambda>(n, d). validateComposeNetworkDefinition n d)
        (entries_of (get_prop parsed ''networks'')),
      validateComposeFileBackedResources parsed ''configs'',
      validateComposeFileBackedResources parsed ''secrets'',
      throw_if (get_prop parsed ''include'' \<noteq> JUndefined)
        ''Compose include files are not allowed; deployments must use a self-contained Compose document'',
      validateComposeShape parsed,
      check_each (\<lambda>(n, s). (case s of
          JObj service \<Rightarrow> validateComposeServiceSecurity n service
        | _ \<Rightarrow> Inr ()))
        (entries_of (get_prop parsed ''services''))]"

definition validateComposeSecurity ::
  "(string \<Rightarrow> string + jsval) \<Rightarrow> string \<Rightarrow> string + unit" where
  "validateComposeSecurity yaml_parse rawCompose = checks
     [throw_if (utf8_length rawCompose > COMPOSE_DOCUMENT_MAX_BYTES)
        ''Compose files must not exceed 1 MB when encoded as UTF-8'',
      validateProtectedDockerEnvironmentReferences rawCompose,
      (case yaml_parse rawCompose of
         Inl message \<Rightarrow> Inl (''Compose YAML is invalid: '' @ message)
       | Inr (JObj parsed) \<Rightarrow> validateParsedCompose parsed
       | Inr _ \<Rightarrow> Inl ''Compose document must be a mapping'')]"

end
