(* ===== verification/Compose_Policy.thy ===== *)
theory Compose_Policy
  imports Compose_Security
begin

text \<open>
  What \<open>validateComposeSecurity\<close> guarantees. The abstract policy is stated on the
  services of an accepted document (\<open>host_isolated\<close>, \<open>private_namespaces\<close>,
  \<open>no_host_mounts\<close>, \<open>local_build\<close>) and the validator is shown to enforce it; the
  shape pass and the security pass are both needed (a capability list given as a string,
  say, is caught by the shape pass only).
\<close>

section \<open>The abstract policy\<close>

definition absent_or_empty :: "jsval \<Rightarrow> bool" where
  "absent_or_empty v \<longleftrightarrow> v \<in> {JUndefined, JArr [], JObj []}"

definition blank :: "jsval \<Rightarrow> bool" where
  "blank v \<longleftrightarrow> v = JUndefined \<or> (\<exists>t. v = JStr t \<and> trim t = [])"

definition safe_security_options :: "jsval \<Rightarrow> bool" where
  "safe_security_options v \<longleftrightarrow>
     v = JUndefined \<or> (\<exists>opts. v = JArr opts \<and> (\<forall>t. JStr t \<in> set opts \<longrightarrow> \<not> unsafe_security_option t))"

definition host_isolated :: "(string \<times> jsval) list \<Rightarrow> bool" where
  "host_isolated s \<longleftrightarrow>
     get_prop s ''privileged'' \<noteq> JBool True \<and>
     (\<forall>t. get_prop s ''privileged'' = JStr t \<longrightarrow> toLowerCase (trim t) = ''false'') \<and>
     (\<forall>f \<in> {''cap_add'', ''devices'', ''device_cgroup_rules'', ''sysctls'', ''storage_opt'',
             ''blkio_config'', ''volumes_from'', ''external_links''}.
        absent_or_empty (get_prop s f)) \<and>
     get_prop s ''runtime'' = JUndefined \<and> get_prop s ''gpus'' = JUndefined \<and>
     get_prop s ''container_name'' = JUndefined \<and>
     blank (get_prop s ''cgroup_parent'') \<and>
     safe_security_options (get_prop s ''security_opt'')"

definition private_namespace :: "jsval \<Rightarrow> bool" where
  "private_namespace v \<longleftrightarrow>
     v = JUndefined \<or>
     (\<exists>t. v = JStr t \<and> toLowerCase (trim t) \<noteq> ''host'' \<and>
        \<not> starts_with ''container:'' (toLowerCase (trim t)) \<and>
        \<not> starts_with ''service:'' (toLowerCase (trim t)))"

definition no_host_mounts :: "jsval \<Rightarrow> bool" where
  "no_host_mounts v \<longleftrightarrow>
     v = JUndefined \<or>
     (\<exists>vols. v = JArr vols \<and> (\<forall>m \<in> set vols. \<not> is_bind_volume m \<and> \<not> has_host_source m))"

definition local_path :: "string \<Rightarrow> bool" where
  "local_path p \<longleftrightarrow>
     p \<noteq> [] \<and> \<not> HOST_PATH_PATTERN p \<and> CHR ''$'' \<notin> set p \<and>
     ''..'' \<notin> set (split_on (CHR ''/'') (replace_char (CHR 0x5C) (CHR ''/'') p))"

definition local_build :: "jsval \<Rightarrow> bool" where
  "local_build v \<longleftrightarrow>
     (case v of
        JUndefined \<Rightarrow> True
      | JStr c \<Rightarrow> local_path c \<and> \<not> isRemoteBuildContext c
      | JObj b \<Rightarrow>
          (\<forall>c. get_prop b ''context'' = JStr c \<longrightarrow> local_path c \<and> \<not> isRemoteBuildContext c) \<and>
          (\<forall>d. get_prop b ''dockerfile'' = JStr d \<longrightarrow> local_path d) \<and>
          \<not> requests_privilege (get_prop b ''privileged'') \<and>
          get_prop b ''ssh'' = JUndefined \<and> get_prop b ''secrets'' = JUndefined \<and>
          \<not> nonempty_array (get_prop b ''entitlements'')
      | _ \<Rightarrow> False)"

section \<open>Decomposing acceptance\<close>

lemma validateComposeSecurity_ok:
  "validateComposeSecurity y raw = Inr () \<longleftrightarrow>
     utf8_length raw \<le> COMPOSE_DOCUMENT_MAX_BYTES \<and>
     validateProtectedDockerEnvironmentReferences raw = Inr () \<and>
     (\<exists>parsed. y raw = Inr (JObj parsed) \<and> validateParsedCompose parsed = Inr ())"
  by (auto simp: validateComposeSecurity_def split: sum.splits jsval.splits)

lemma validateParsedCompose_ok:
  "validateParsedCompose parsed = Inr () \<longleftrightarrow>
     (\<forall>(n, d) \<in> set (entries_of (get_prop parsed ''volumes'')).
        validateComposeVolumeDefinition n d = Inr ()) \<and>
     (\<forall>(n, d) \<in> set (entries_of (get_prop parsed ''networks'')).
        validateComposeNetworkDefinition n d = Inr ()) \<and>
     validateComposeFileBackedResources parsed ''configs'' = Inr () \<and>
     validateComposeFileBackedResources parsed ''secrets'' = Inr () \<and>
     get_prop parsed ''include'' = JUndefined \<and>
     validateComposeShape parsed = Inr () \<and>
     (\<forall>(n, s) \<in> set (entries_of (get_prop parsed ''services'')).
        \<forall>service. s = JObj service \<longrightarrow> validateComposeServiceSecurity n service = Inr ())"
  unfolding validateParsedCompose_def
  by (auto simp: case_prod_beta split: jsval.splits; fastforce)

lemma accepted_service:
  assumes "validateParsedCompose parsed = Inr ()"
    and "(n, raw) \<in> set (entries_of (get_prop parsed ''services''))"
  obtains s where "raw = JObj s" "COMPOSE_RESOURCE_KEY_PATTERN n"
    "\<forall>f \<in> fst ` set s. permitted_field COMPOSE_SERVICE_FIELDS f"
    "validateComposeServiceSecurityShapes n s = Inr ()"
    "validateComposeNestedFieldSet (get_prop s ''build'') COMPOSE_BUILD_FIELDS
       (svc n @ '' build'') MappingOrString = Inr ()"
    "validateComposeServiceSecurity n s = Inr ()"
proof -
  from assms(1) have shape: "validateComposeShape parsed = Inr ()"
    and sec: "\<forall>(n, s) \<in> set (entries_of (get_prop parsed ''services'')).
      \<forall>service. s = JObj service \<longrightarrow> validateComposeServiceSecurity n service = Inr ()"
    by (simp_all add: validateParsedCompose_ok)
  from shape obtain services where "get_prop parsed ''services'' = JObj services"
    "\<forall>(n, s) \<in> set services. validateComposeServiceShape n s = Inr ()"
    by (rule shape_services)
  with assms(2) have "validateComposeServiceShape n raw = Inr ()" by auto
  then show thesis
    by (rule service_shape_ok) (use sec assms(2) that in auto)
qed

lemma accepted_document:
  assumes "validateComposeSecurity y raw = Inr ()" "y raw = Inr (JObj parsed)"
  shows "validateParsedCompose parsed = Inr ()"
  using assms by (auto simp: validateComposeSecurity_ok)

section \<open>Consequences of the security pass on one service\<close>

lemma find_unsafe_option_None:
  "find_unsafe_option opts = None \<Longrightarrow> JStr t \<in> set opts \<Longrightarrow> \<not> unsafe_security_option t"
  by (induction opts) (auto split: jsval.splits if_splits)

lemma service_security_flags:
  assumes "validateComposeServiceSecurity n s = Inr ()"
  shows "get_prop s ''runtime'' = JUndefined" "get_prop s ''gpus'' = JUndefined"
    "get_prop s ''container_name'' = JUndefined"
    "\<not> requests_privilege (get_prop s ''privileged'')"
    "\<not> nonempty_array (get_prop s ''cap_add'')"
    "\<not> nonempty_array (get_prop s ''devices'')"
    "\<not> nonempty_array (get_prop s ''device_cgroup_rules'')"
    "\<not> nonempty_array (get_prop s ''volumes_from'')"
    "\<not> nonempty_array (get_prop s ''external_links'')"
    "\<not> nonempty_record (get_prop s ''sysctls'')" "\<not> nonempty_array (get_prop s ''sysctls'')"
    "\<not> nonblank_string (get_prop s ''cgroup_parent'')"
    "\<not> nonempty_record (get_prop s ''storage_opt'')"
    "\<not> nonempty_record (get_prop s ''blkio_config'')"
    "\<forall>f \<in> set namespace_fields. \<not> isSharedContainerNamespace (get_prop s f)"
  using assms unfolding validateComposeServiceSecurity_def
  by (simp_all only: checks_Cons_ok throw_if_ok list_ex_iff) auto

lemma service_security_options:
  assumes "validateComposeServiceSecurity n s = Inr ()" "get_prop s ''security_opt'' = JArr opts"
  shows "find_unsafe_option opts = None"
  using assms unfolding validateComposeServiceSecurity_def
  by (simp only: checks_Cons_ok throw_if_ok) (simp split: option.splits)

lemma service_security_volumes:
  assumes "validateComposeServiceSecurity n s = Inr ()" "get_prop s ''volumes'' = JArr vols"
    "m \<in> set vols"
  shows "\<not> is_bind_volume m \<and> \<not> has_host_source m"
  using assms unfolding validateComposeServiceSecurity_def
  by (simp only: checks_Cons_ok throw_if_ok) simp

lemma service_security_build:
  assumes "validateComposeServiceSecurity n s = Inr ()" "get_prop s ''build'' \<noteq> JUndefined"
  shows "validateComposeBuild n (get_prop s ''build'') = Inr ()"
  using assms unfolding validateComposeServiceSecurity_def
  by (simp only: checks_Cons_ok throw_if_ok) simp

lemma empty_array_field:
  assumes "validateComposeServiceSecurityShapes n s = Inr ()" "f \<in> set array_fields"
    "\<not> nonempty_array (get_prop s f)"
  shows "absent_or_empty (get_prop s f)"
  using security_shapes_array [OF assms(1,2)] assms(3)
  by (cases "get_prop s f") (auto simp: absent_or_empty_def)

lemma empty_mapping_field:
  assumes "validateComposeServiceSecurityShapes n s = Inr ()" "f \<in> set mapping_fields"
    "\<not> nonempty_record (get_prop s f)"
  shows "absent_or_empty (get_prop s f)"
  using security_shapes_mapping [OF assms(1,2)] assms(3)
  by (cases "get_prop s f") (auto simp: absent_or_empty_def)

lemma service_host_isolated:
  assumes shp: "validateComposeServiceSecurityShapes n s = Inr ()"
    and sec: "validateComposeServiceSecurity n s = Inr ()"
  shows "host_isolated s"
proof -
  note flags = service_security_flags [OF sec]
  note arr = empty_array_field [OF shp, unfolded array_fields_def]
    and rec = empty_mapping_field [OF shp, unfolded mapping_fields_def]
  have empties: "absent_or_empty (get_prop s ''cap_add'')" "absent_or_empty (get_prop s ''devices'')"
    "absent_or_empty (get_prop s ''device_cgroup_rules'')"
    "absent_or_empty (get_prop s ''volumes_from'')" "absent_or_empty (get_prop s ''external_links'')"
    "absent_or_empty (get_prop s ''storage_opt'')" "absent_or_empty (get_prop s ''blkio_config'')"
    using arr [OF _ flags(5)] arr [OF _ flags(6)] arr [OF _ flags(7)] arr [OF _ flags(8)]
      arr [OF _ flags(9)] rec [OF _ flags(13)] rec [OF _ flags(14)] by simp_all
  have sys: "absent_or_empty (get_prop s ''sysctls'')"
    using security_shapes_rest(1) [OF shp] flags(10,11)
    by (cases "get_prop s ''sysctls''") (auto simp: absent_or_empty_def)
  have priv: "get_prop s ''privileged'' \<noteq> JBool True"
    "\<forall>t. get_prop s ''privileged'' = JStr t \<longrightarrow> toLowerCase (trim t) = ''false''"
    using security_shapes_rest(2) [OF shp] flags(4)
    by (auto simp: requests_privilege_def string_or_empty_def)
  have par: "blank (get_prop s ''cgroup_parent'')"
    using security_shapes_string [OF shp, of "''cgroup_parent''"] flags(12)
    by (cases "get_prop s ''cgroup_parent''") (auto simp: blank_def string_fields_def)
  have opt: "safe_security_options (get_prop s ''security_opt'')"
    using security_shapes_array [OF shp, of "''security_opt''"] service_security_options [OF sec]
    by (cases "get_prop s ''security_opt''")
      (auto simp: safe_security_options_def array_fields_def dest: find_unsafe_option_None)
  show ?thesis
    unfolding host_isolated_def using empties sys priv par opt flags(1-3) by simp
qed

lemma private_namespaceI:
  assumes "v = JUndefined \<or> is_string v" "\<not> isSharedContainerNamespace v"
  shows "private_namespace v"
  using assms
  by (auto simp: private_namespace_def isSharedContainerNamespace_def isHostNamespace_def
      is_string_iff string_or_empty_def Let_def)

lemma scoped_path_local:
  "validateComposeScopedPath p kind name = Inr () \<Longrightarrow> local_path p"
  by (auto simp: validateComposeScopedPath_def local_path_def isUnsafeComposePath_def isHostPath_def
      isInterpolated_def)

lemma build_context_local:
  "validateComposeBuildContext p kind name = Inr () \<Longrightarrow> local_path p \<and> \<not> isRemoteBuildContext p"
  by (auto simp: validateComposeBuildContext_def dest: scoped_path_local)

lemma validateComposeBuild_local:
  assumes "validateComposeBuild n v = Inr ()" "v = JUndefined \<or> is_record v \<or> is_string v"
  shows "local_build v"
proof (cases v)
  case (JStr c)
  with assms(1) show ?thesis
    by (auto simp: validateComposeBuild_def local_build_def dest: build_context_local)
next
  case (JObj b)
  with assms(1) have *: "\<not> requests_privilege (get_prop b ''privileged'')"
    "get_prop b ''ssh'' = JUndefined" "get_prop b ''secrets'' = JUndefined"
    "\<not> nonempty_array (get_prop b ''entitlements'')"
    "\<And>c. get_prop b ''context'' = JStr c \<Longrightarrow>
       validateComposeBuildContext c ''service build context'' n = Inr ()"
    "\<And>d. get_prop b ''dockerfile'' = JStr d \<Longrightarrow>
       validateComposeScopedPath d ''service Dockerfile'' n = Inr ()"
    by (simp_all add: validateComposeBuild_def)
  show ?thesis
    using * unfolding local_build_def JObj
    by (auto dest: build_context_local scoped_path_local)
qed (use assms in \<open>auto simp: local_build_def\<close>)

section \<open>A document the policy accepts\<close>

definition sample_service :: "(string \<times> jsval) list" where
  "sample_service =
     [(''image'', JStr ''nginx''), (''build'', JObj [(''context'', JStr ''app'')]),
      (''network_mode'', JStr ''bridge''), (''privileged'', JStr '' False ''),
      (''security_opt'', JArr [JStr ''no-new-privileges:true'']),
      (''volumes'', JArr [JStr ''data:/var/lib/data'']), (''x-note'', JNull)]"

definition sample_compose :: "(string \<times> jsval) list" where
  "sample_compose =
     [(''services'', JObj [(''web'', JObj sample_service)]),
      (''volumes'', JObj [(''data'', JObj [(''driver'', JStr ''local'')])]),
      (''networks'', JObj [(''default'', JObj [(''driver'', JStr ''overlay'')])])]"

definition sample_text :: string where
  "sample_text = ''services: {web: {image: nginx, environment: [A=$DOCKER_HOSTNAME]}}''"

lemma sample_accepted: "validateComposeSecurity (\<lambda>_. Inr (JObj sample_compose)) sample_text = Inr ()"
  by code_simp

lemma sample_services: "get_prop sample_compose ''services'' = JObj [(''web'', JObj sample_service)]"
  by code_simp

section \<open>Properties\<close>



text \<open>
  In an accepted document every namespace setting (network, pid, ipc, uts, user, cgroup)
  of every service is absent or a string that, after trimming and lower-casing, is not
  \<open>host\<close> and does not join the namespace of another container or service.
\<close>

theorem compose_private_namespaces:
  assumes "validateComposeSecurity y raw = Inr ()"
    and "y raw = Inr (JObj parsed)"
    and "get_prop parsed ''services'' = JObj services"
    and "(n, JObj s) \<in> set services"
    and "f \<in> set namespace_fields"
  shows "private_namespace (get_prop s f)"
proof -
  from assms(3,4) have "(n, JObj s) \<in> set (entries_of (get_prop parsed ''services''))" by simp
  from accepted_service [OF accepted_document [OF assms(1,2)] this]
  have shp: "validateComposeServiceSecurityShapes n s = Inr ()"
    and sec: "validateComposeServiceSecurity n s = Inr ()" by auto
  from assms(5) have "f \<in> set string_fields"
    by (auto simp: namespace_fields_def string_fields_def)
  then have "get_prop s f = JUndefined \<or> is_string (get_prop s f)"
    by (rule security_shapes_string [OF shp])
  with service_security_flags(15) [OF sec] assms(5) show ?thesis
    by (blast intro: private_namespaceI)
qed

theorem compose_private_namespaces_witness:
  "private_namespace (get_prop sample_service ''network_mode'')"
  by (rule compose_private_namespaces [OF sample_accepted refl sample_services, of "''web''"])
    (simp_all add: namespace_fields_def)



text \<open>
  The surface is closed: an accepted document is a non-empty mapping of services whose
  names match the resource-key pattern, every top-level key and every key of every service
  is on the reviewed list or in the \<open>x-\<close> extension namespace, and no other file is
  included.
\<close>

theorem compose_closed_surface:
  assumes "validateComposeSecurity y raw = Inr ()"
    and "y raw = Inr (JObj parsed)"
  shows "\<exists>services. get_prop parsed ''services'' = JObj services \<and> services \<noteq> [] \<and>
     (\<forall>f \<in> fst ` set parsed. permitted_field COMPOSE_TOP_LEVEL_FIELDS f) \<and>
     get_prop parsed ''include'' = JUndefined \<and>
     (\<forall>(n, v) \<in> set services. COMPOSE_RESOURCE_KEY_PATTERN n \<and>
        (\<exists>s. v = JObj s \<and> (\<forall>f \<in> fst ` set s. permitted_field COMPOSE_SERVICE_FIELDS f)))"
proof -
  note acc = accepted_document [OF assms]
  then have shape: "validateComposeShape parsed = Inr ()"
    and inc: "get_prop parsed ''include'' = JUndefined"
    by (simp_all add: validateParsedCompose_ok)
  from shape obtain services where sv: "get_prop parsed ''services'' = JObj services" "services \<noteq> []"
    by (rule shape_services)
  from shape have "\<forall>f \<in> fst ` set parsed. permitted_field COMPOSE_TOP_LEVEL_FIELDS f"
    by (simp add: validateComposeShape_def)
  moreover have "COMPOSE_RESOURCE_KEY_PATTERN n \<and>
      (\<exists>s. v = JObj s \<and> (\<forall>f \<in> fst ` set s. permitted_field COMPOSE_SERVICE_FIELDS f))"
    if "(n, v) \<in> set services" for n v
    by (rule accepted_service [OF acc, of n v]) (use that sv in auto)
  ultimately show ?thesis using sv inc by blast
qed

theorem compose_closed_surface_witness:
  "\<exists>services. get_prop sample_compose ''services'' = JObj services \<and> services \<noteq> [] \<and>
     (\<forall>f \<in> fst ` set sample_compose. permitted_field COMPOSE_TOP_LEVEL_FIELDS f)"
  using compose_closed_surface [OF sample_accepted refl] by blast

text \<open>
  In an accepted document a service is built only from inside its own deployment
  directory: the build context and Dockerfile are relative paths without parent segments,
  interpolation or remote scheme, and the build asks for no privilege, SSH agent, build
  secret or entitlement.
\<close>

theorem compose_local_build:
  assumes "validateComposeSecurity y raw = Inr ()"
    and "y raw = Inr (JObj parsed)"
    and "get_prop parsed ''services'' = JObj services"
    and "(n, JObj s) \<in> set services"
  shows "local_build (get_prop s ''build'')"
proof (cases "get_prop s ''build'' = JUndefined")
  case True
  then show ?thesis by (simp add: local_build_def)
next
  case False
  from assms(3,4) have "(n, JObj s) \<in> set (entries_of (get_prop parsed ''services''))" by simp
  from accepted_service [OF accepted_document [OF assms(1,2)] this]
  have shp: "validateComposeNestedFieldSet (get_prop s ''build'') COMPOSE_BUILD_FIELDS
       (svc n @ '' build'') MappingOrString = Inr ()"
    and sec: "validateComposeServiceSecurity n s = Inr ()" by auto
  from shp False have "is_record (get_prop s ''build'') \<or> is_string (get_prop s ''build'')"
    by (auto simp: nested_field_set_ok)
  with service_security_build [OF sec False] show ?thesis
    by (blast intro: validateComposeBuild_local)
qed

theorem compose_local_build_witness: "local_build (get_prop sample_service ''build'')"
  by (rule compose_local_build [OF sample_accepted refl sample_services, of "''web''"]) simp

definition contained_resource :: "string list \<Rightarrow> jsval \<Rightarrow> bool" where
  "contained_resource drivers v \<longleftrightarrow>
     \<not> isExternalResourceDefinition v \<and>
     (\<forall>d. v = JObj d \<longrightarrow>
        \<not> nonempty_record (get_prop d ''driver_opts'') \<and>
        (\<forall>t. get_prop d ''driver'' = JStr t \<longrightarrow> trim t = [] \<or> toLowerCase (trim t) \<in> set drivers))"

text \<open>
  Every named volume and network of an accepted document is provisioned inside the
  resource: it is not external, has no driver options and uses a local volume driver or a
  bridge or overlay network driver.
\<close>

theorem compose_contained_resources:
  assumes "validateComposeSecurity y raw = Inr ()"
    and "y raw = Inr (JObj parsed)"
  shows "(\<forall>(n, v) \<in> set (entries_of (get_prop parsed ''volumes'')). contained_resource [''local''] v) \<and>
    (\<forall>(n, v) \<in> set (entries_of (get_prop parsed ''networks'')).
       contained_resource [''bridge'', ''overlay''] v)"
proof -
  have vol: "contained_resource [''local''] v" if "validateComposeVolumeDefinition n v = Inr ()" for n v
    using that by (cases v) (auto simp: validateComposeVolumeDefinition_def contained_resource_def)
  have net: "contained_resource [''bridge'', ''overlay''] v"
    if "validateComposeNetworkDefinition n v = Inr ()" for n v
    using that by (cases v) (auto simp: validateComposeNetworkDefinition_def contained_resource_def)
  from accepted_document [OF assms]
  have "\<forall>(n, d) \<in> set (entries_of (get_prop parsed ''volumes'')).
      validateComposeVolumeDefinition n d = Inr ()"
    and "\<forall>(n, d) \<in> set (entries_of (get_prop parsed ''networks'')).
      validateComposeNetworkDefinition n d = Inr ()"
    by (simp_all add: validateParsedCompose_ok)
  with vol net show ?thesis by blast
qed

theorem compose_contained_resources_witness:
  "contained_resource [''local''] (JObj [(''driver'', JStr ''local'')]) \<and>
   contained_resource [''bridge'', ''overlay''] (JObj [(''driver'', JStr ''overlay'')])"
  using compose_contained_resources [OF sample_accepted refl]
  by (simp add: sample_compose_def get_prop_def)

lemma has_protected_reference_append:
  "protected_reference_at name s \<Longrightarrow> has_protected_reference name (a @ s)"
proof (induction a)
  case Nil
  then show ?case by (cases s) auto
qed simp_all

lemma protected_reference_braced: "protected_reference_at name (''${'' @ name @ ''}'' @ b)"
  by (simp add: protected_reference_at_def starts_with_def)

lemma protected_reference_default:
  "op \<in> {CHR '':'', CHR ''?'', CHR ''+'', CHR ''-''} \<Longrightarrow>
   protected_reference_at name (''${'' @ name @ op # d @ ''}'' @ b)"
  by (auto simp: protected_reference_at_def starts_with_def)

lemma protected_reference_plain:
  "protected_reference_at name (''$'' @ name)"
  "\<not> is_word c \<Longrightarrow> protected_reference_at name (''$'' @ name @ c # b)"
  by (simp_all add: protected_reference_at_def starts_with_def)

text \<open>
  The text of an accepted document interpolates none of the variables that point the
  Docker client at its daemon: neither the braced form, with or without an operator and
  default, nor the unbraced form ending at a word boundary occurs anywhere in it.
\<close>

theorem compose_no_protected_interpolation:
  assumes "validateComposeSecurity y raw = Inr ()"
    and "name \<in> set PROTECTED_DOCKER_ENVIRONMENT_NAMES"
  shows "raw \<noteq> a @ ''${'' @ name @ ''}'' @ b \<and>
    (\<forall>op \<in> {CHR '':'', CHR ''?'', CHR ''+'', CHR ''-''}.
       raw \<noteq> a @ ''${'' @ name @ op # d @ ''}'' @ b) \<and>
    raw \<noteq> a @ ''$'' @ name \<and>
    (\<forall>c. \<not> is_word c \<longrightarrow> raw \<noteq> a @ ''$'' @ name @ c # b)"
proof -
  from assms have "\<not> has_protected_reference name raw"
    by (simp add: validateComposeSecurity_ok validateProtectedDockerEnvironmentReferences_def)
  then have no: "raw \<noteq> a @ t" if "protected_reference_at name t" for t
    using has_protected_reference_append [OF that] by blast
  show ?thesis
    by (intro conjI ballI allI impI no protected_reference_braced protected_reference_default
        protected_reference_plain)
qed

theorem compose_no_protected_interpolation_witness:
  "sample_text \<noteq> ''services: '' @ ''${'' @ ''DOCKER_HOST'' @ ''}'' @ ''x''"
proof -
  have "''DOCKER_HOST'' \<in> set PROTECTED_DOCKER_ENVIRONMENT_NAMES"
    by (simp add: PROTECTED_DOCKER_ENVIRONMENT_NAMES_def)
  from compose_no_protected_interpolation [OF sample_accepted this] show ?thesis by (rule conjunct1)
qed

section \<open>No false rejections\<close>

definition policed_fields :: "string list" where
  "policed_fields = array_fields @ mapping_fields @ string_fields @
     [''extra_hosts'', ''sysctls'', ''privileged'', ''build'', ''deploy'', ''healthcheck'',
      ''logging'', ''runtime'', ''gpus'', ''env_file'', ''extends'', ''container_name'']"

definition plain_service :: "jsval \<Rightarrow> bool" where
  "plain_service v \<longleftrightarrow>
     (\<exists>s. v = JObj s \<and>
        (\<forall>f \<in> fst ` set s. permitted_field COMPOSE_SERVICE_FIELDS f \<and> f \<notin> set policed_fields))"

lemma get_prop_absent: "f \<notin> fst ` set s \<Longrightarrow> get_prop s f = JUndefined"
  using map_of_eq_None_iff [of s f] by (simp add: get_prop_def)

lemma plain_service_props:
  assumes "\<forall>f \<in> fst ` set s. permitted_field COMPOSE_SERVICE_FIELDS f \<and> f \<notin> set policed_fields"
    and "f \<in> set policed_fields"
  shows "get_prop s f = JUndefined"
  using assms by (intro get_prop_absent) auto

lemma plain_service_shape:
  assumes "COMPOSE_RESOURCE_KEY_PATTERN n" "plain_service v"
  shows "validateComposeServiceShape n v = Inr ()"
proof -
  from assms(2) obtain s where v: "v = JObj s"
    and s: "\<forall>f \<in> fst ` set s. permitted_field COMPOSE_SERVICE_FIELDS f \<and> f \<notin> set policed_fields"
    by (auto simp: plain_service_def)
  have undef: "f \<in> set policed_fields \<Longrightarrow> get_prop s f = JUndefined" for f
    by (rule plain_service_props [OF s])
  have "validateComposeServiceSecurityShapes n s = Inr ()"
    using undef by (simp add: validateComposeServiceSecurityShapes_def require_defs policed_fields_def)
  moreover have "get_prop s ''build'' = JUndefined" "get_prop s ''deploy'' = JUndefined"
    "get_prop s ''healthcheck'' = JUndefined" "get_prop s ''logging'' = JUndefined"
    by (rule undef, simp add: policed_fields_def)+
  ultimately show ?thesis
    using assms(1) s unfolding v
    by (simp add: validateComposeServiceShape_def validateComposeNestedFieldSet_def
        validateComposeDeployShape_def validateComposeLogging_def)
qed

lemma plain_service_secure:
  assumes "plain_service (JObj s)"
  shows "validateComposeServiceSecurity n s = Inr ()"
proof -
  from assms have undef: "get_prop s f = JUndefined" if "f \<in> set policed_fields" for f
    using plain_service_props that by (auto simp: plain_service_def)
  have ns: "isSharedContainerNamespace JUndefined = False" and priv: "requests_privilege JUndefined = False"
    by code_simp+
  have fields: "set namespace_fields \<subseteq> set policed_fields" by code_simp
  have "get_prop s ''build'' = JUndefined" "get_prop s ''runtime'' = JUndefined"
    "get_prop s ''gpus'' = JUndefined" "get_prop s ''devices'' = JUndefined"
    "get_prop s ''device_cgroup_rules'' = JUndefined" "get_prop s ''env_file'' = JUndefined"
    "get_prop s ''extra_hosts'' = JUndefined" "get_prop s ''deploy'' = JUndefined"
    "get_prop s ''extends'' = JUndefined" "get_prop s ''privileged'' = JUndefined"
    "get_prop s ''container_name'' = JUndefined" "get_prop s ''cap_add'' = JUndefined"
    "get_prop s ''volumes_from'' = JUndefined" "get_prop s ''external_links'' = JUndefined"
    "get_prop s ''security_opt'' = JUndefined" "get_prop s ''sysctls'' = JUndefined"
    "get_prop s ''cgroup_parent'' = JUndefined" "get_prop s ''storage_opt'' = JUndefined"
    "get_prop s ''blkio_config'' = JUndefined" "get_prop s ''volumes'' = JUndefined"
    by (rule undef, simp add: policed_fields_def array_fields_def mapping_fields_def string_fields_def)+
  moreover have "\<forall>f \<in> set namespace_fields. get_prop s f = JUndefined"
    using undef fields by blast
  ultimately show ?thesis
    by (simp add: validateComposeServiceSecurity_def validateComposeDeploySecurity_def list_ex_iff ns priv)
qed

text \<open>
  No false rejections: a document that is only a non-empty mapping of well-named
  services, each using only reviewed fields outside the policed ones (image, command,
  environment, ports, labels and the like, with values of any shape), is accepted whenever
  its text is within the size limit and interpolates no protected variable.
\<close>

theorem compose_accepts_plain_services:
  assumes "utf8_length raw \<le> COMPOSE_DOCUMENT_MAX_BYTES"
    and "\<forall>name \<in> set PROTECTED_DOCKER_ENVIRONMENT_NAMES. \<not> has_protected_reference name raw"
    and "y raw = Inr (JObj [(''services'', JObj services)])" and "services \<noteq> []"
    and "\<forall>(n, v) \<in> set services. COMPOSE_RESOURCE_KEY_PATTERN n \<and> plain_service v"
  shows "validateComposeSecurity y raw = Inr ()"
proof -
  let ?doc = "[(''services'', JObj services)]"
  have props: "get_prop ?doc ''services'' = JObj services" "get_prop ?doc ''volumes'' = JUndefined"
    "get_prop ?doc ''networks'' = JUndefined" "get_prop ?doc ''configs'' = JUndefined"
    "get_prop ?doc ''secrets'' = JUndefined" "get_prop ?doc ''include'' = JUndefined"
    by (simp_all add: get_prop_def)
  have "permitted_field COMPOSE_TOP_LEVEL_FIELDS ''services''"
    by (simp add: permitted_field_def COMPOSE_TOP_LEVEL_FIELDS_def)
  moreover have "\<forall>(n, v) \<in> set services. validateComposeServiceShape n v = Inr ()"
    using assms(5) plain_service_shape by blast
  ultimately have shape: "validateComposeShape ?doc = Inr ()"
    using assms(4) props
    by (auto simp: validateComposeShape_def validateComposeResourceShapes_def)
  have "validateParsedCompose ?doc = Inr ()"
    unfolding validateParsedCompose_ok
    using shape props assms(5) plain_service_secure
    by (auto simp: validateComposeFileBackedResources_def)
  with assms(1,2,3) show ?thesis
    by (simp add: validateComposeSecurity_ok validateProtectedDockerEnvironmentReferences_def)
qed

theorem compose_accepts_plain_services_witness:
  "validateComposeSecurity
     (\<lambda>_. Inr (JObj [(''services'', JObj [(''web'', JObj [(''image'', JStr ''nginx'')])])]))
     sample_text = Inr ()"
proof (rule compose_accepts_plain_services
    [where services = "[(''web'', JObj [(''image'', JStr ''nginx'')])]"])
  show "utf8_length sample_text \<le> COMPOSE_DOCUMENT_MAX_BYTES" by code_simp
  show "\<forall>name \<in> set PROTECTED_DOCKER_ENVIRONMENT_NAMES. \<not> has_protected_reference name sample_text"
    by code_simp
  have "permitted_field COMPOSE_SERVICE_FIELDS ''image'' \<and> ''image'' \<notin> set policed_fields"
    "COMPOSE_RESOURCE_KEY_PATTERN ''web''" by code_simp+
  then show "\<forall>(n, v) \<in> set [(''web'', JObj [(''image'', JStr ''nginx'')])].
      COMPOSE_RESOURCE_KEY_PATTERN n \<and> plain_service v"
    by (simp add: plain_service_def)
qed simp_all

section \<open>A gap in the host-path pattern\<close>

text \<open>
  The host-path pattern wants a slash after \<open>.\<close> or \<open>..\<close>, so a short-syntax
  volume whose source is exactly the parent directory (or the current one) is not taken for
  a host path, although the same string is an unsafe path for builds and environment files:
  a service mounting the parent of the deployment directory is accepted.
\<close>

theorem compose_accepts_parent_directory_mount:
  "isUnsafeComposePath ''..'' \<and> \<not> isHostPath ''..'' \<and>
   validateParsedCompose
     [(''services'', JObj [(''web'', JObj [(''image'', JStr ''nginx''),
        (''volumes'', JArr [JStr ''..:/host'', JStr ''.:/here''])])])] = Inr ()"
  by code_simp

end
