(* ===== verification/Capability_Catalog.thy ===== *)
theory Capability_Catalog
  imports Prelude
begin

text \<open>
  The capability catalog of \<open>packages/domain/src/authorization.ts\<close> with the functions
  derived from it, the permission scopes of \<open>permission-scopes.ts\<close>, the API-key
  permissions and presets of \<open>api-key.ts\<close>, and the procedure registry of
  \<open>packages/api/src/authorization/procedure-policy.ts\<close>. Tables are association lists
  in source order; a capability is its string name, as stored permissions carry it.
\<close>

section \<open>The catalog\<close>

datatype authorization_scope = Instance | Organization | Project | Resource | Server

datatype authorization_assurance = Standard | Recent2fa

record capability_definition =
  cd_scope :: authorization_scope
  cd_apiKey :: bool
  cd_customRole :: bool
  cd_assurance :: authorization_assurance
  cd_roles :: "string list"

definition capability_def ::
  "authorization_scope \<Rightarrow> bool \<Rightarrow> bool \<Rightarrow> authorization_assurance \<Rightarrow> string list \<Rightarrow>
   capability_definition" where
  "capability_def sc ak cr asr rs =
     \<lparr>cd_scope = sc, cd_apiKey = ak, cd_customRole = cr, cd_assurance = asr, cd_roles = rs\<rparr>"

definition ownerAdmin :: "string list" where
  "ownerAdmin = [''owner'', ''admin'']"

definition ownerAdminMember :: "string list" where
  "ownerAdminMember = [''owner'', ''admin'', ''member'']"

text \<open>Projects, tags and templates.\<close>

definition catalog_projects :: "(string \<times> capability_definition) list" where
  "catalog_projects =
     [(''project:create'', capability_def Organization True True Standard ownerAdmin),
      (''project:view'', capability_def Organization True True Standard ownerAdminMember),
      (''project:update'', capability_def Organization True True Standard ownerAdmin),
      (''project:delete'', capability_def Organization True True Recent2fa [''owner'']),
      (''tag:create'', capability_def Organization True True Standard ownerAdmin),
      (''tag:view'', capability_def Organization True True Standard ownerAdminMember),
      (''tag:update'', capability_def Organization True True Standard ownerAdmin),
      (''tag:delete'', capability_def Organization True True Recent2fa ownerAdmin),
      (''template:view'', capability_def Organization True True Standard ownerAdminMember),
      (''template:create'', capability_def Organization True True Standard ownerAdmin),
      (''template:update'', capability_def Organization True True Standard ownerAdmin),
      (''template:delete'', capability_def Organization True True Recent2fa ownerAdmin),
      (''template:deploy'', capability_def Organization True True Standard ownerAdminMember)]"

text \<open>Environments and resources.\<close>

definition catalog_resources :: "(string \<times> capability_definition) list" where
  "catalog_resources =
     [(''environment:create'', capability_def Organization True True Standard ownerAdmin),
      (''environment:view'', capability_def Organization True True Standard ownerAdminMember),
      (''environment:secrets:view'', capability_def Organization False False Recent2fa ownerAdmin),
      (''environment:update'', capability_def Organization True True Standard ownerAdmin),
      (''environment:delete'', capability_def Organization True True Recent2fa ownerAdmin),
      (''resource:create'', capability_def Organization True True Standard ownerAdmin),
      (''resource:view'', capability_def Organization True True Standard ownerAdminMember),
      (''resource:secrets:view'', capability_def Organization False False Recent2fa ownerAdmin),
      (''resource:update'', capability_def Resource True True Standard ownerAdminMember),
      (''resource:execute'', capability_def Resource False False Recent2fa ownerAdmin),
      (''resource:delete'', capability_def Resource True True Recent2fa ownerAdmin)]"

text \<open>Ssh keys, git providers, s3 destinations.\<close>

definition catalog_connections :: "(string \<times> capability_definition) list" where
  "catalog_connections =
     [(''ssh_key:create'', capability_def Organization True True Standard ownerAdmin),
      (''ssh_key:update'', capability_def Organization True True Standard ownerAdmin),
      (''ssh_key:view'', capability_def Organization True True Standard ownerAdminMember),
      (''ssh_key:delete'', capability_def Organization True True Recent2fa ownerAdmin),
      (''git_provider:create'', capability_def Organization True True Standard ownerAdmin),
      (''git_provider:update'', capability_def Organization True True Standard ownerAdmin),
      (''git_provider:view'', capability_def Organization True True Standard ownerAdminMember),
      (''git_provider:delete'', capability_def Organization True True Recent2fa ownerAdmin),
      (''s3_destination:create'', capability_def Organization True True Standard ownerAdmin),
      (''s3_destination:view'', capability_def Organization True True Standard ownerAdminMember),
      (''s3_destination:update'', capability_def Organization True False Standard ownerAdmin),
      (''s3_destination:delete'', capability_def Organization True True Recent2fa ownerAdmin)]"

text \<open>Backups, certificates, registries.\<close>

definition catalog_operations :: "(string \<times> capability_definition) list" where
  "catalog_operations =
     [(''backup:view'', capability_def Organization True True Standard ownerAdminMember),
      (''backup:manage'', capability_def Resource True True Recent2fa ownerAdmin),
      (''certificate:create'', capability_def Organization True True Standard ownerAdmin),
      (''certificate:view'', capability_def Organization True True Standard ownerAdminMember),
      (''certificate:update'', capability_def Organization True True Standard ownerAdmin),
      (''certificate:delete'', capability_def Organization True True Recent2fa ownerAdmin),
      (''docker_registry:create'', capability_def Organization True True Standard ownerAdmin),
      (''docker_registry:update'', capability_def Organization True True Standard ownerAdmin),
      (''docker_registry:view'', capability_def Organization True True Standard ownerAdminMember),
      (''docker_registry:delete'', capability_def Organization True True Recent2fa ownerAdmin)]"

text \<open>Servers, notifications, audit log.\<close>

definition catalog_servers :: "(string \<times> capability_definition) list" where
  "catalog_servers =
     [(''server:create'', capability_def Organization True True Standard ownerAdmin),
      (''server:view'', capability_def Server True True Standard ownerAdminMember),
      (''server:update'', capability_def Server True True Standard ownerAdmin),
      (''server:delete'', capability_def Server True True Recent2fa ownerAdmin),
      (''notification:create'', capability_def Organization True True Standard ownerAdmin),
      (''notification:view'', capability_def Organization True True Standard ownerAdminMember),
      (''notification:update'', capability_def Organization True True Standard ownerAdmin),
      (''notification:delete'', capability_def Organization True True Recent2fa ownerAdmin),
      (''audit_log:view'', capability_def Organization True True Standard ownerAdmin)]"

text \<open>Members, roles, sso, scim, keys, the instance.\<close>

definition catalog_administration :: "(string \<times> capability_definition) list" where
  "catalog_administration =
     [(''member:view'', capability_def Organization False False Standard ownerAdminMember),
      (''member:manage'', capability_def Organization False False Recent2fa ownerAdmin),
      (''custom_role:view'', capability_def Organization False False Standard ownerAdmin),
      (''custom_role:manage'', capability_def Organization False False Recent2fa ownerAdmin),
      (''sso:view'', capability_def Organization False False Standard ownerAdminMember),
      (''sso:manage'', capability_def Organization False False Recent2fa ownerAdmin),
      (''scim:view'', capability_def Organization False False Standard ownerAdmin),
      (''scim:manage'', capability_def Organization False False Recent2fa ownerAdmin),
      (''api_key:manage'', capability_def Organization False False Recent2fa ownerAdmin),
      (''instance:manage'', capability_def Instance False False Recent2fa [])]"

text \<open>Deployments, swarm and ai.\<close>

definition catalog_integrations :: "(string \<times> capability_definition) list" where
  "catalog_integrations =
     [(''deployment:view'', capability_def Organization True False Standard []),
      (''deployment:manage'', capability_def Resource True False Recent2fa []),
      (''swarm:view'', capability_def Organization True False Standard [''owner'']),
      (''swarm:manage'', capability_def Server True False Recent2fa [''owner'']),
      (''ai:view'', capability_def Organization True True Standard ownerAdminMember),
      (''ai:manage'', capability_def Organization True True Recent2fa ownerAdmin)]"

definition CAPABILITY_CATALOG :: "(string \<times> capability_definition) list" where
  "CAPABILITY_CATALOG = catalog_projects @ catalog_resources @ catalog_connections @
     catalog_operations @ catalog_servers @ catalog_administration @ catalog_integrations"

definition CAPABILITY_ACTIONS :: "string list" where
  "CAPABILITY_ACTIONS = map fst CAPABILITY_CATALOG"

definition API_KEY_CAPABILITY_ACTIONS :: "string list" where
  "API_KEY_CAPABILITY_ACTIONS = map fst (filter (\<lambda>(c, d). cd_apiKey d) CAPABILITY_CATALOG)"

definition CUSTOM_ROLE_CAPABILITY_ACTIONS :: "string list" where
  "CUSTOM_ROLE_CAPABILITY_ACTIONS = map fst (filter (\<lambda>(c, d). cd_customRole d) CAPABILITY_CATALOG)"

definition isCapability :: "string \<Rightarrow> bool" where
  "isCapability c \<longleftrightarrow> map_of CAPABILITY_CATALOG c \<noteq> None"

fun capability_strings :: "jsval list \<Rightarrow> string list" where
  "capability_strings [] = []"
| "capability_strings (v # vs) =
     (case v of
        JStr s \<Rightarrow> if isCapability s then s # capability_strings vs else capability_strings vs
      | _ \<Rightarrow> capability_strings vs)"

fun parseCapabilities :: "jsval \<Rightarrow> string list" where
  "parseCapabilities (JArr vs) = unique (capability_strings vs)"
| "parseCapabilities _ = []"

definition capabilitiesForRole :: "string \<Rightarrow> string list" where
  "capabilitiesForRole role =
     (if role \<notin> {''owner'', ''admin'', ''member''} then []
      else map fst (filter (\<lambda>(c, d). role \<in> set (cd_roles d)) CAPABILITY_CATALOG))"

text \<open>On a name outside the catalog the source would throw; callers pass catalog names.\<close>

definition capabilityRequiresRecentTwoFactor :: "string \<Rightarrow> bool option" where
  "capabilityRequiresRecentTwoFactor c =
     map_option (\<lambda>d. cd_assurance d = Recent2fa) (map_of CAPABILITY_CATALOG c)"

definition ORGANIZATION_STATEMENT :: "(string \<times> string list) list" where
  "ORGANIZATION_STATEMENT =
     [(''organization'', [''update'', ''delete'']),
      (''member'', [''create'', ''update'', ''delete'']),
      (''invitation'', [''create'', ''cancel'']),
      (''team'', [''create'', ''update'', ''delete'']),
      (''ac'', [''create'', ''read'', ''update'', ''delete'']),
      (''apiKey'', [''create'', ''read'', ''update'', ''delete''])]"

definition ORGANIZATION_ROLE_STATEMENTS :: "(string \<times> (string \<times> string list) list) list" where
  "ORGANIZATION_ROLE_STATEMENTS =
     [(''owner'',
        [(''organization'', [''update'', ''delete'']),
         (''member'', [''create'', ''update'', ''delete'']),
         (''invitation'', [''create'', ''cancel'']),
         (''team'', [''create'', ''update'', ''delete'']),
         (''ac'', [''create'', ''read'', ''update'', ''delete'']),
         (''apiKey'', [''create'', ''read'', ''update'', ''delete''])]),
      (''admin'',
        [(''organization'', [''update'']),
         (''member'', [''create'', ''update'', ''delete'']),
         (''invitation'', [''create'', ''cancel'']),
         (''team'', [''create'', ''update'', ''delete'']),
         (''ac'', [''create'', ''read'', ''update'', ''delete'']),
         (''apiKey'', [''create'', ''read'', ''update'', ''delete''])]),
      (''member'',
        [(''organization'', []), (''member'', []), (''invitation'', []), (''team'', []),
         (''ac'', [''read'']), (''apiKey'', [])])]"

section \<open>Route and tool tables\<close>

text \<open>
  \<open>API_KEY_ROUTE_CAPABILITIES\<close>, in two parts of its one table.
\<close>

definition routes_resources :: "(string \<times> string) list" where
  "routes_resources =
     [(''application.get'', ''resource:view''),
      (''application.create'', ''resource:create''),
      (''application.update'', ''resource:update''),
      (''application.delete'', ''resource:delete''),
      (''compose.get'', ''resource:view''),
      (''compose.inspect'', ''resource:create''),
      (''compose.convert'', ''resource:create''),
      (''compose.create'', ''resource:create''),
      (''compose.update'', ''resource:update''),
      (''compose.deploy'', ''resource:update''),
      (''compose.control'', ''resource:update''),
      (''compose.delete'', ''resource:delete''),
      (''port.list'', ''resource:view''),
      (''port.create'', ''resource:update''),
      (''port.update'', ''resource:update''),
      (''port.delete'', ''resource:update''),
      (''mount.list'', ''resource:view''),
      (''mount.create'', ''resource:update''),
      (''mount.update'', ''resource:update''),
      (''mount.delete'', ''resource:update''),
      (''compose.randomize'', ''resource:update''),
      (''gitProvider.list'', ''git_provider:view''),
      (''gitProvider.create'', ''git_provider:create''),
      (''gitProvider.update'', ''git_provider:update''),
      (''gitProvider.delete'', ''git_provider:delete''),
      (''gitProvider.listRepositories'', ''git_provider:view''),
      (''gitProvider.listBranches'', ''git_provider:view''),
      (''gitProvider.diagnostics'', ''git_provider:view''),
      (''database.get'', ''resource:view''),
      (''database.create'', ''resource:create''),
      (''database.update'', ''resource:update''),
      (''database.control'', ''resource:update''),
      (''database.rebuild'', ''resource:update''),
      (''database.delete'', ''resource:delete''),
      (''domain.validate'', ''resource:view''),
      (''project.list'', ''project:view''),
      (''project.get'', ''project:view''),
      (''project.create'', ''project:create''),
      (''project.deleteProject'', ''project:delete''),
      (''environment.list'', ''environment:view''),
      (''environment.get'', ''environment:view''),
      (''environment.create'', ''environment:create''),
      (''environment.update'', ''environment:update''),
      (''environment.delete'', ''environment:delete''),
      (''resource.list'', ''resource:view''),
      (''resource.getContainers'', ''resource:view''),
      (''resource.getLogs'', ''resource:view''),
      (''resource.getStats'', ''resource:view''),
      (''resource.getRoutingTargets'', ''resource:view''),
      (''resource.create'', ''resource:create''),
      (''resource.update'', ''resource:update''),
      (''resource.deploy'', ''resource:update''),
      (''resource.control'', ''resource:update''),
      (''resource.rebuildDatabase'', ''resource:update''),
      (''server.inventory'', ''server:view''),
      (''server.count'', ''server:view''),
      (''server.one'', ''server:view''),
      (''server.setupProgress'', ''server:view''),
      (''server.update'', ''server:update''),
      (''server.controlContainer'', ''server:update''),
      (''server.controlResource'', ''server:update''),
      (''server.validate'', ''server:view''),
      (''server.time'', ''server:view''),
      (''auditLog.list'', ''audit_log:view''),
      (''template.list'', ''template:view''),
      (''template.create'', ''template:create''),
      (''template.update'', ''template:update''),
      (''template.remove'', ''template:delete''),
      (''template.deploy'', ''template:deploy''),
      (''resource.randomizeCompose'', ''resource:update''),
      (''resource.getPreviews'', ''resource:view''),
      (''deployment.getServerSettings'', ''server:view''),
      (''deployment.getByResource'', ''deployment:view''),
      (''deployment.getLogs'', ''deployment:view''),
      (''deployment.getDeployments'', ''deployment:view''),
      (''deployment.getQueue'', ''deployment:view''),
      (''deployment.getRequests'', ''deployment:view''),
      (''deployment.updateServerConcurrency'', ''server:update''),
      (''deployment.cancelDeploymentJob'', ''resource:update''),
      (''deployment.killBuild'', ''resource:update''),
      (''deployment.removeDeployment'', ''resource:update''),
      (''deployment.clearHistory'', ''resource:update''),
      (''resource.delete'', ''resource:delete''),
      (''resource.get'', ''resource:view''),
      (''resource.controlContainer'', ''resource:update''),
      (''resource.rotateWebhookToken'', ''resource:update''),
      (''resource.rollback'', ''resource:update'')]"

definition routes_platform :: "(string \<times> string) list" where
  "routes_platform =
     [(''dockerRegistry.list'', ''docker_registry:view''),
      (''dockerRegistry.create'', ''docker_registry:create''),
      (''dockerRegistry.update'', ''docker_registry:update''),
      (''dockerRegistry.delete'', ''docker_registry:delete''),
      (''dockerRegistry.testConnection'', ''docker_registry:view''),
      (''s3Destination.testConnection'', ''s3_destination:view''),
      (''s3Destination.list'', ''s3_destination:view''),
      (''s3Destination.create'', ''s3_destination:create''),
      (''s3Destination.update'', ''s3_destination:update''),
      (''s3Destination.delete'', ''s3_destination:delete''),
      (''schedule.list'', ''resource:view''),
      (''schedule.create'', ''resource:update''),
      (''schedule.update'', ''resource:update''),
      (''schedule.runNow'', ''resource:update''),
      (''schedule.delete'', ''resource:update''),
      (''schedule.listLogs'', ''resource:view''),
      (''schedule.listObservability'', ''resource:view''),
      (''backup.listSchedules'', ''backup:view''),
      (''backup.listRuns'', ''backup:view''),
      (''backup.listVolumes'', ''backup:view''),
      (''backup.listComposeServices'', ''backup:view''),
      (''backup.createSchedule'', ''backup:manage''),
      (''backup.updateSchedule'', ''backup:manage''),
      (''backup.deleteSchedule'', ''backup:manage''),
      (''backup.runNow'', ''backup:manage''),
      (''backup.restore'', ''backup:manage''),
      (''certificate.list'', ''certificate:view''),
      (''certificate.create'', ''certificate:create''),
      (''certificate.update'', ''certificate:update''),
      (''certificate.delete'', ''certificate:delete''),
      (''notification.list'', ''notification:view''),
      (''notification.create'', ''notification:create''),
      (''notification.update'', ''notification:update''),
      (''notification.remove'', ''notification:delete''),
      (''notification.test'', ''notification:update''),
      (''notification.deliveries'', ''notification:view''),
      (''notification.retryDelivery'', ''notification:update''),
      (''ai.listModels'', ''ai:manage''),
      (''ai.listProviders'', ''ai:view''),
      (''ai.listFeatureAssignments'', ''ai:view''),
      (''ai.conversations'', ''ai:view''),
      (''ai.getConversation'', ''ai:view''),
      (''ai.createConversation'', ''ai:view''),
      (''ai.addProvider'', ''ai:manage''),
      (''ai.updateProvider'', ''ai:manage''),
      (''ai.removeProvider'', ''ai:manage''),
      (''ai.testProvider'', ''ai:manage''),
      (''ai.saveFeatureAssignment'', ''ai:manage''),
      (''ai.removeFeatureAssignment'', ''ai:manage''),
      (''ai.getTavilySettings'', ''ai:view''),
      (''ai.saveTavilySettings'', ''ai:manage''),
      (''ai.deleteConversation'', ''ai:manage''),
      (''ai.generateTemplate'', ''ai:manage''),
      (''project.duplicate'', ''project:create''),
      (''project.update'', ''project:update''),
      (''template.catalog'', ''template:view''),
      (''search.global'', ''project:view''),
      (''server.create'', ''server:create''),
      (''server.delete'', ''server:delete''),
      (''server.list'', ''server:view''),
      (''server.historicalMetrics'', ''server:view''),
      (''server.monitoringSettings'', ''server:update''),
      (''server.monitoringStatus'', ''server:view''),
      (''server.runtimeStats'', ''server:view''),
      (''server.scanHostKey'', ''server:update''),
      (''server.setup'', ''server:update''),
      (''server.updateMonitoringSettings'', ''server:update''),
      (''server.migrateResource'', ''server:update''),
      (''server.getWorkloadMigration'', ''server:view''),
      (''server.getResourceWorkloadMigration'', ''server:view''),
      (''server.cancelWorkloadMigration'', ''server:update''),
      (''server.rollbackWorkloadMigration'', ''server:update''),
      (''server.confirmWorkloadMigration'', ''server:update''),
      (''sshKey.generate'', ''ssh_key:create''),
      (''sshKey.create'', ''ssh_key:create''),
      (''sshKey.list'', ''ssh_key:view''),
      (''sshKey.update'', ''ssh_key:update''),
      (''sshKey.delete'', ''ssh_key:delete''),
      (''tag.list'', ''tag:view''),
      (''tag.create'', ''tag:create''),
      (''tag.update'', ''tag:update''),
      (''tag.remove'', ''tag:delete''),
      (''tag.forResource'', ''tag:view''),
      (''tag.assign'', ''tag:update''),
      (''tag.removeFromResource'', ''tag:update'')]"

definition API_KEY_ROUTE_CAPABILITIES :: "(string \<times> string) list" where
  "API_KEY_ROUTE_CAPABILITIES = routes_resources @ routes_platform"

definition MCP_TOOL_CAPABILITIES :: "(string \<times> string) list" where
  "MCP_TOOL_CAPABILITIES =
     [(''get_account_status'', ''project:view''),
      (''list_templates'', ''template:view''),
      (''get_template'', ''template:view''),
      (''list_projects'', ''project:view''),
      (''list_environments'', ''environment:view''),
      (''list_resources'', ''resource:view''),
      (''get_resource_logs'', ''resource:view''),
      (''get_resource_stats'', ''resource:view''),
      (''get_resource_config'', ''resource:view''),
      (''list_servers'', ''server:view''),
      (''get_monitoring_status'', ''server:view''),
      (''get_monitoring_metrics'', ''server:view''),
      (''list_deployments'', ''deployment:view''),
      (''get_audit_logs'', ''audit_log:view''),
      (''get_docker_info'', ''server:view''),
      (''list_docker_containers'', ''server:view''),
      (''list_docker_images'', ''server:view''),
      (''list_docker_volumes'', ''server:view''),
      (''list_docker_networks'', ''server:view''),
      (''list_docker_services'', ''swarm:view''),
      (''get_docker_logs'', ''server:view''),
      (''create_project'', ''project:create''),
      (''create_template'', ''template:create''),
      (''create_environment'', ''environment:create''),
      (''deploy_resource'', ''resource:update''),
      (''deploy_template'', ''template:deploy''),
      (''control_resource'', ''resource:update''),
      (''delete_resource'', ''resource:delete''),
      (''delete_project'', ''project:delete''),
      (''prune_docker_resources'', ''server:update''),
      (''exec_container_command'', ''server:update''),
      (''exec_server_terminal_command'', ''server:update''),
      (''get_project'', ''project:view''),
      (''get_environment'', ''environment:view''),
      (''get_resource'', ''resource:view''),
      (''get_resource_containers'', ''resource:view''),
      (''get_resource_previews'', ''resource:view''),
      (''get_resource_routing_targets'', ''resource:view''),
      (''list_resource_backup_schedules'', ''backup:view''),
      (''list_resource_backup_runs'', ''backup:view''),
      (''list_backup_volumes'', ''backup:view''),
      (''list_git_providers'', ''git_provider:view''),
      (''list_docker_registries'', ''docker_registry:view''),
      (''search_upstand'', ''project:view''),
      (''get_swarm_info'', ''swarm:view''),
      (''get_swarm_nodes'', ''swarm:view''),
      (''get_swarm_containers'', ''swarm:view''),
      (''get_web_server_logs'', ''server:view''),
      (''get_update_status'', ''server:view''),
      (''list_tags'', ''tag:view''),
      (''get_resource_tags'', ''tag:view''),
      (''create_tag'', ''tag:create''),
      (''update_tag'', ''tag:update''),
      (''delete_tag'', ''tag:delete''),
      (''assign_resource_tag'', ''tag:update''),
      (''detach_resource_tag'', ''tag:update''),
      (''list_schedules'', ''resource:view''),
      (''create_schedule'', ''resource:update''),
      (''update_schedule'', ''resource:update''),
      (''delete_schedule'', ''resource:update''),
      (''trigger_schedule'', ''resource:update''),
      (''search_web'', ''ai:view''),
      (''tavilySearch'', ''ai:view''),
      (''tavilyExtract'', ''ai:view''),
      (''tavilyCrawl'', ''ai:view''),
      (''tavilyMap'', ''ai:view''),
      (''guide_upstand'', ''ai:view'')]"

definition MCP_READ_ONLY_TOOL_NAMES :: "string list" where
  "MCP_READ_ONLY_TOOL_NAMES =
     [''get_account_status'', ''list_templates'', ''get_template'', ''list_projects'',
      ''list_environments'', ''list_resources'', ''get_resource_logs'',
      ''get_resource_stats'', ''get_resource_config'', ''list_servers'',
      ''get_monitoring_status'', ''get_monitoring_metrics'', ''list_deployments'',
      ''get_audit_logs'', ''get_docker_info'', ''list_docker_containers'',
      ''list_docker_images'', ''list_docker_volumes'', ''list_docker_networks'',
      ''list_docker_services'', ''get_docker_logs'', ''get_project'', ''get_environment'',
      ''get_resource'', ''get_resource_containers'', ''get_resource_previews'',
      ''get_resource_routing_targets'', ''list_resource_backup_schedules'',
      ''list_resource_backup_runs'', ''list_backup_volumes'', ''list_git_providers'',
      ''list_docker_registries'', ''search_upstand'', ''get_swarm_info'', ''get_swarm_nodes'',
      ''get_swarm_containers'', ''get_web_server_logs'', ''get_update_status'', ''list_tags'',
      ''get_resource_tags'', ''list_schedules'', ''search_web'', ''guide_upstand'']"

definition SESSION_ONLY_PROCEDURES :: "string list" where
  "SESSION_ONLY_PROCEDURES =
     [''apiKey.create'', ''apiKey.list'', ''apiKey.revoke'', ''apiKey.update'',
      ''auth.isSession2faVerified'', ''application.detectBuild'', ''backup.verifyRun'',
      ''backup.createWebServerSchedule'', ''backup.deleteWebServerSchedule'',
      ''backup.listWebServerRuns'', ''backup.listWebServerSchedules'',
      ''backup.restoreWebServer'', ''backup.runWebServerNow'',
      ''backup.updateWebServerSchedule'', ''containerFileManager.listFiles'',
      ''containerFileManager.listMounts'', ''containerFileManager.readFile'',
      ''containerFileManager.writeFile'', ''containerFileManager.createItem'',
      ''containerFileManager.deleteItem'', ''containerFileManager.renameItem'',
      ''containerFileManager.changePermissions'', ''containerFileManager.searchFiles'',
      ''customRole.create'', ''customRole.list'', ''customRole.remove'',
      ''customRole.update'', ''database.runMigration'', ''database.command'',
      ''resource.databaseCommand'', ''deployment.retryDeployment'', ''environment.clone'',
      ''environment.diff'', ''environment.getSecrets'', ''environment.promote'',
      ''gitProvider.createGithubManifestState'', ''gitProvider.createOAuthState'',
      ''member.create'', ''member.invite'', ''member.list'', ''member.remove'',
      ''member.update'', ''outbox.deadLetters'', ''outbox.retryDeadLetter'',
      ''outbox.summary'', ''resource.getSecrets'', ''resource.move'',
      ''secret.createProvider'', ''secret.deleteProvider'', ''secret.providers'',
      ''secret.restore'', ''secret.rotate'', ''secret.sync'', ''secret.testConnection'',
      ''secret.updateProvider'', ''secret.versions'', ''secret.version'',
      ''secret.rotationSchedules'', ''secret.createRotationSchedule'',
      ''secret.updateRotationSchedule'', ''secret.deleteRotationSchedule'',
      ''schedule.listForOrganization'', ''scim.create'', ''scim.list'', ''scim.remove'',
      ''scim.rotate'', ''sso.getSettings'', ''sso.updateSettings'', ''swarm.getInfo'',
      ''swarm.getJoinCommand'', ''swarm.getJoinCommands'', ''swarm.getNodes'',
      ''swarm.getTasks'', ''swarm.initSwarm'', ''swarm.removeNode'',
      ''swarm.rotateJoinToken'', ''swarm.updateNode'', ''topology.getGraph'',
      ''webServer.accessLogStats'', ''webServer.accessLogStatus'', ''webServer.accessLogs'',
      ''webServer.remoteAccessLogStats'', ''webServer.remoteAccessLogs'',
      ''webServer.remoteAccessLogStatus'', ''webServer.checkForUpdates'',
      ''webServer.checkGpuStatus'', ''webServer.cleanAll'',
      ''webServer.cleanAllDeploymentQueue'', ''webServer.cleanDockerBuilder'',
      ''webServer.cleanDockerPrune'', ''webServer.cleanRedis'',
      ''webServer.cleanStoppedContainers'', ''webServer.cleanUnusedImages'',
      ''webServer.cleanUnusedVolumes'', ''webServer.getLogs'', ''webServer.getServerLogs'',
      ''webServer.getSettings'', ''webServer.getSystemStatus'', ''webServer.getUpdateData'',
      ''webServer.reload'', ''webServer.reloadRedis'', ''webServer.reloadServer'',
      ''webServer.securityAudit'', ''webServer.setupGpuSupport'',
      ''webServer.toggleAccessLogs'', ''webServer.toggleRemoteAccessLogs'',
      ''webServer.triggerUpdate'', ''webServer.updateAccessLogCleanup'',
      ''webServer.updateServerIp'', ''webServer.updateSettings'']"

definition PUBLIC_PROCEDURES :: "string list" where
  "PUBLIC_PROCEDURES =
     [''healthCheck'', ''platform.getCapabilities'']"

definition declared_procedures :: "string list" where
  "declared_procedures =
     map fst API_KEY_ROUTE_CAPABILITIES @ SESSION_ONLY_PROCEDURES @ PUBLIC_PROCEDURES"

definition authorizationCoverageGaps :: "string list \<Rightarrow> string list" where
  "authorizationCoverageGaps paths = filter (\<lambda>p. p \<notin> set declared_procedures) paths"

definition staleAuthorizationDeclarations :: "string list \<Rightarrow> string list" where
  "staleAuthorizationDeclarations paths =
     filter (\<lambda>p. p \<notin> set paths) (map fst API_KEY_ROUTE_CAPABILITIES)"

definition staleSessionOnlyDeclarations :: "string list \<Rightarrow> string list" where
  "staleSessionOnlyDeclarations paths = filter (\<lambda>p. p \<notin> set paths) SESSION_ONLY_PROCEDURES"

section \<open>API-key permissions\<close>

record api_key_permissions =
  upstand :: "string list"
  mcp :: "string list"

definition API_KEY_SCOPE_ACTIONS :: "string list" where
  "API_KEY_SCOPE_ACTIONS = API_KEY_CAPABILITY_ACTIONS"

definition MEMBER_SCOPE_ACTIONS :: "string list" where
  "MEMBER_SCOPE_ACTIONS = CUSTOM_ROLE_CAPABILITY_ACTIONS"

text \<open>\<open>MemberPermissionsSchema.safeParse\<close> on a list of strings: accepted or not.\<close>

definition MemberPermissionsSchema :: "string list \<Rightarrow> bool" where
  "MemberPermissionsSchema ps \<longleftrightarrow>
     len ps \<le> 100 \<and> list_all (\<lambda>p. p \<in> set MEMBER_SCOPE_ACTIONS) ps"

definition apiKeyPermissionValues :: "string list" where
  "apiKeyPermissionValues = API_KEY_SCOPE_ACTIONS @ [''*'']"

text \<open>\<open>ApiKeyPermissionsSchema.parse\<close>; \<open>None\<close> is the \<open>ZodError\<close> it throws.\<close>

definition ApiKeyPermissionsSchema :: "api_key_permissions \<Rightarrow> api_key_permissions option" where
  "ApiKeyPermissionsSchema p =
     (if list_all (\<lambda>a. a \<in> set apiKeyPermissionValues) (upstand p) \<and> list_all (\<lambda>t. t \<noteq> []) (mcp p)
      then Some p else None)"

datatype api_key_preset = ReadOnly | Deployment | Operations | McpReadOnly | FullAccess

text \<open>
  \<open>MCP_TOOL_CAPABILITIES[toolName]\<close> for a name of \<open>MCP_READ_ONLY_TOOL_NAMES\<close>; the
  type of that list makes every name a key of the table.
\<close>

definition mcp_read_only_capabilities :: "string list" where
  "mcp_read_only_capabilities =
     List.map_filter (map_of MCP_TOOL_CAPABILITIES) MCP_READ_ONLY_TOOL_NAMES"

fun API_KEY_PRESETS :: "api_key_preset \<Rightarrow> api_key_permissions" where
  "API_KEY_PRESETS ReadOnly =
     \<lparr>upstand = filter (ends_with '':view'') API_KEY_SCOPE_ACTIONS, mcp = [''read'']\<rparr>"
| "API_KEY_PRESETS Deployment =
     \<lparr>upstand = [''project:view'', ''environment:view'', ''resource:view'', ''resource:update'',
                 ''deployment:view'', ''deployment:manage''], mcp = [''read'']\<rparr>"
| "API_KEY_PRESETS Operations =
     \<lparr>upstand = [''project:view'', ''environment:view'', ''resource:view'', ''resource:update'',
                 ''deployment:view'', ''deployment:manage'', ''backup:view'', ''backup:manage'',
                 ''swarm:view'', ''swarm:manage''], mcp = [''read'']\<rparr>"
| "API_KEY_PRESETS McpReadOnly =
     \<lparr>upstand = unique mcp_read_only_capabilities, mcp = [''read'']\<rparr>"
| "API_KEY_PRESETS FullAccess = \<lparr>upstand = [''*''], mcp = [''*'']\<rparr>"

definition apiKeyPermissionsToStatements :: "api_key_permissions \<Rightarrow> (string \<times> string list) list" where
  "apiKeyPermissionsToStatements p =
     [(''upstand'', unique (upstand p)), (''mcp'', unique (mcp p))]"

text \<open>The argument may be null; a missing key counts as the empty list.\<close>

definition statementsToApiKeyPermissions ::
  "(string \<times> string list) list option \<Rightarrow> api_key_permissions option" where
  "statementsToApiKeyPermissions st =
     (let entry = (\<lambda>k. case st of None \<Rightarrow> []
                    | Some kvs \<Rightarrow> (case map_of kvs k of None \<Rightarrow> [] | Some v \<Rightarrow> v))
      in ApiKeyPermissionsSchema
           \<lparr>upstand = filter (\<lambda>p. p = ''*'' \<or> isCapability p) (entry ''upstand''),
            mcp = entry ''mcp''\<rparr>)"

definition hasApiKeyPermission :: "api_key_permissions \<Rightarrow> string \<Rightarrow> bool" where
  "hasApiKeyPermission p required \<longleftrightarrow> ''*'' \<in> set (upstand p) \<or> required \<in> set (upstand p)"

definition hasMcpPermission :: "api_key_permissions \<Rightarrow> string option \<Rightarrow> bool" where
  "hasMcpPermission p toolName \<longleftrightarrow>
     ''*'' \<in> set (mcp p) \<or> ''read'' \<in> set (mcp p) \<or>
     (case toolName of None \<Rightarrow> False | Some t \<Rightarrow> t \<noteq> [] \<and> (''tool:'' @ t) \<in> set (mcp p))"

section \<open>Facts about the tables\<close>

lemma catalog_distinct: "distinct (map fst CAPABILITY_CATALOG)"
  by code_simp

lemma catalog_lookup: "(c, d) \<in> set CAPABILITY_CATALOG \<longleftrightarrow> map_of CAPABILITY_CATALOG c = Some d"
  using catalog_distinct by (metis map_of_is_SomeI map_of_SomeD)

lemma set_capabilitiesForRole:
  "role \<in> {''owner'', ''admin'', ''member''} \<Longrightarrow>
   c \<in> set (capabilitiesForRole role) \<longleftrightarrow>
     (\<exists>d. map_of CAPABILITY_CATALOG c = Some d \<and> role \<in> set (cd_roles d))"
  by (force simp: capabilitiesForRole_def catalog_lookup [symmetric])

lemma set_API_KEY_CAPABILITY_ACTIONS:
  "c \<in> set API_KEY_CAPABILITY_ACTIONS \<longleftrightarrow>
     (\<exists>d. map_of CAPABILITY_CATALOG c = Some d \<and> cd_apiKey d)"
  by (force simp: API_KEY_CAPABILITY_ACTIONS_def catalog_lookup [symmetric])

lemma set_CUSTOM_ROLE_CAPABILITY_ACTIONS:
  "c \<in> set CUSTOM_ROLE_CAPABILITY_ACTIONS \<longleftrightarrow>
     (\<exists>d. map_of CAPABILITY_CATALOG c = Some d \<and> cd_customRole d)"
  by (force simp: CUSTOM_ROLE_CAPABILITY_ACTIONS_def catalog_lookup [symmetric])

lemma capability_strings_sub: "set (capability_strings vs) \<subseteq> {s. JStr s \<in> set vs \<and> isCapability s}"
  by (induction vs) (auto split: jsval.splits)

lemma parseCapabilities_sound:
  "c \<in> set (parseCapabilities v) \<Longrightarrow> isCapability c \<and> (\<exists>vs. v = JArr vs \<and> JStr c \<in> set vs)"
  using capability_strings_sub by (cases v) auto

end
