(* ===== verification/Permissions.thy ===== *)
theory Permissions
  imports Capability_Catalog
begin

text \<open>
  The policy decision point: \<open>packages/api/src/permissions.ts\<close> (authorization of
  sessions, API keys, MCP tools and the instance owner), \<open>access-control.ts\<close>
  (membership lookup with its per-request cache) and \<open>api-key-auth.ts\<close> (API-key
  principals and route enforcement).

  Parameters: \<open>resolve\<close> is the organization-access resolver the service is constructed
  with, \<open>json_parse\<close> is \<open>JSON.parse\<close> (\<open>None\<close> when it throws), \<open>verify\<close>
  is the key verification of the Better Auth package. Every thrown error of this part has
  code FORBIDDEN and is represented by its message. Role names are taken not to be names of
  \<open>Object.prototype\<close> members.
\<close>

section \<open>Memberships\<close>

record membership =
  m_userId :: string
  m_organizationId :: string
  m_role :: string
  m_permissions :: "string option"
  m_scimActive :: bool

type_synonym access_cache = "string \<rightharpoonup> membership option"

definition find_membership :: "membership list \<Rightarrow> string \<Rightarrow> string \<Rightarrow> membership option" where
  "find_membership db u org =
     find (\<lambda>m. m_userId m = u \<and> m_organizationId m = org \<and> m_scimActive m) db"

definition access_key :: "string \<Rightarrow> string \<Rightarrow> string" where
  "access_key u org = u @ '':'' @ org"

text \<open>
  The cache exists only inside \<open>withOrganizationAccessCache\<close>; it keeps the result of the
  query, a missing membership included.
\<close>

definition ensureOrganizationAccess ::
  "membership list \<Rightarrow> access_cache option \<Rightarrow> string \<Rightarrow> string \<Rightarrow> string list option \<Rightarrow>
   (string + membership) \<times> access_cache option" where
  "ensureOrganizationAccess db cache u org allowedRoles =
     (let key = access_key u org;
          cached = (case cache of None \<Rightarrow> None | Some c \<Rightarrow> c key);
          found = (case cached of Some r \<Rightarrow> r | None \<Rightarrow> find_membership db u org);
          cache' = (case cached of Some _ \<Rightarrow> cache | None \<Rightarrow> map_option (\<lambda>c. c(key \<mapsto> found)) cache)
      in (case found of
            None \<Rightarrow> Inl ''You are not a member of this organization''
          | Some m \<Rightarrow>
              (case allowedRoles of
                 Some rs \<Rightarrow>
                   if m_role m \<notin> set rs
                   then Inl (''Required role not met. Allowed roles: '' @ join '', '' rs)
                   else Inr m
               | None \<Rightarrow> Inr m), cache'))"

section \<open>Principals\<close>

record api_key_rate_limit =
  rl_enabled :: bool
  rl_max :: "int option"
  rl_windowMs :: "int option"
  rl_remaining :: "int option"
  rl_lastRequest :: "int option"

record api_key_principal =
  ak_keyId :: string
  ak_organizationId :: string
  ak_userId :: string
  ak_name :: "string option"
  ak_permissions :: api_key_permissions
  ak_rateLimit :: api_key_rate_limit

datatype principal = SessionPrincipal string string | ApiKeyPrincipal api_key_principal

fun principal_org :: "principal \<Rightarrow> string" where
  "principal_org (SessionPrincipal u org) = org"
| "principal_org (ApiKeyPrincipal k) = ak_organizationId k"

fun principal_user :: "principal \<Rightarrow> string" where
  "principal_user (SessionPrincipal u org) = u"
| "principal_user (ApiKeyPrincipal k) = ak_userId k"

datatype grant = KeyGrant api_key_principal | MemberGrant membership

section \<open>The authorization service\<close>

type_synonym access_resolver = "string \<Rightarrow> string \<Rightarrow> string + membership"

definition ROLE_PERMISSIONS :: "(string \<times> string list) list" where
  "ROLE_PERMISSIONS =
     [(''owner'', capabilitiesForRole ''owner''), (''admin'', capabilitiesForRole ''admin''),
      (''member'', capabilitiesForRole ''member'')]"

definition parseStoredPermissions ::
  "(string \<Rightarrow> jsval option) \<Rightarrow> string \<Rightarrow> string \<Rightarrow> string list" where
  "parseStoredPermissions json_parse v role =
     (let allowed = (if starts_with ''custom:'' role then CUSTOM_ROLE_CAPABILITY_ACTIONS
                     else capabilitiesForRole role)
      in case json_parse v of
           None \<Rightarrow> []
         | Some j \<Rightarrow> filter (\<lambda>p. p \<in> set allowed) (parseCapabilities j))"

definition session_permissions :: "(string \<Rightarrow> jsval option) \<Rightarrow> membership \<Rightarrow> string list" where
  "session_permissions json_parse m =
     (case m_permissions m of
        Some v \<Rightarrow>
          if v \<noteq> [] then parseStoredPermissions json_parse v (m_role m)
          else (case map_of ROLE_PERMISSIONS (m_role m) of Some ps \<Rightarrow> ps | None \<Rightarrow> [])
      | None \<Rightarrow> (case map_of ROLE_PERMISSIONS (m_role m) of Some ps \<Rightarrow> ps | None \<Rightarrow> []))"

definition authorizeSession ::
  "access_resolver \<Rightarrow> (string \<Rightarrow> jsval option) \<Rightarrow> string \<Rightarrow> string \<Rightarrow> string \<Rightarrow> string + membership" where
  "authorizeSession resolve json_parse u org capability =
     (case resolve u org of
        Inl e \<Rightarrow> Inl e
      | Inr m \<Rightarrow>
          if capability \<in> set (session_permissions json_parse m) then Inr m
          else Inl (''Required permission not met. Action '' @ sq capability @
                    '' is not allowed for role '' @ sq (m_role m)))"

definition authorizeApiKey ::
  "access_resolver \<Rightarrow> api_key_principal \<Rightarrow> string \<Rightarrow> string \<Rightarrow> capability_definition \<Rightarrow> string + unit" where
  "authorizeApiKey resolve k org capability def = checks
     [throw_if (ak_userId k = [] \<or> starts_with ''api-key:'' (ak_userId k))
        ''This API key has no auditable organization user.'',
      (case resolve (ak_userId k) org of Inl e \<Rightarrow> Inl e | Inr _ \<Rightarrow> Inr ()),
      throw_if (\<not> cd_apiKey def) (''API keys cannot use capability '' @ sq capability @ ''.''),
      throw_if (\<not> hasApiKeyPermission (ak_permissions k) capability)
        (''API key permission required: '' @ capability)]"

definition authorize ::
  "access_resolver \<Rightarrow> (string \<Rightarrow> jsval option) \<Rightarrow> principal \<Rightarrow> string \<Rightarrow> string \<Rightarrow> string + grant" where
  "authorize resolve json_parse actor org capability =
     (case map_of CAPABILITY_CATALOG capability of
        None \<Rightarrow> Inl ''Unknown capability.''
      | Some def \<Rightarrow>
          if org \<noteq> principal_org actor
          then Inl ''The actor cannot access another organization.''
          else case actor of
            ApiKeyPrincipal k \<Rightarrow>
              (case authorizeApiKey resolve k org capability def of
                 Inl e \<Rightarrow> Inl e | Inr _ \<Rightarrow> Inr (KeyGrant k))
          | SessionPrincipal u _ \<Rightarrow>
              (case authorizeSession resolve json_parse u org capability of
                 Inl e \<Rightarrow> Inl e | Inr m \<Rightarrow> Inr (MemberGrant m)))"

definition getSessionCapabilities ::
  "access_resolver \<Rightarrow> (string \<Rightarrow> jsval option) \<Rightarrow> string \<Rightarrow> string \<Rightarrow> string + string list" where
  "getSessionCapabilities resolve json_parse u org =
     (case resolve u org of
        Inl e \<Rightarrow> Inl e | Inr m \<Rightarrow> Inr (unique (session_permissions json_parse m)))"

text \<open>
  Indexing the tool table by an arbitrary string also finds the members every object
  inherits; the value found is then no capability name.
\<close>

definition OBJECT_PROTOTYPE_MEMBERS :: "string list" where
  "OBJECT_PROTOTYPE_MEMBERS =
     [''constructor'', ''__defineGetter__'', ''__defineSetter__'', ''hasOwnProperty'',
      ''__lookupGetter__'', ''__lookupSetter__'', ''isPrototypeOf'', ''propertyIsEnumerable'',
      ''toString'', ''valueOf'', ''__proto__'', ''toLocaleString'']"

definition mcp_tool_capability :: "string \<Rightarrow> string option" where
  "mcp_tool_capability t =
     (case map_of MCP_TOOL_CAPABILITIES t of
        Some c \<Rightarrow> Some c
      | None \<Rightarrow>
          if t \<in> set OBJECT_PROTOTYPE_MEMBERS
          then Some (if t = ''__proto__'' then ''[object Object]''
                     else ''function '' @ t @ ''() { [native code] }'')
          else None)"

definition instance_owner_tools :: "string list" where
  "instance_owner_tools =
     [''get_web_server_logs'', ''get_swarm_info'', ''get_swarm_nodes'', ''get_swarm_containers'']"

definition authorizeMcpTool ::
  "access_resolver \<Rightarrow> (string \<Rightarrow> jsval option) \<Rightarrow> api_key_principal \<Rightarrow> string \<Rightarrow> string + unit" where
  "authorizeMcpTool resolve json_parse k toolName =
     (case mcp_tool_capability toolName of
        None \<Rightarrow> Inl ''The MCP tool is not available for this API key.''
      | Some capability \<Rightarrow>
          if \<not> hasMcpPermission (ak_permissions k) (Some toolName)
          then Inl ''The MCP tool is not available for this API key.''
          else if toolName \<in> set instance_owner_tools
          then Inl ''The requested MCP tool is restricted to instance owner sessions.''
          else (case authorize resolve json_parse (ApiKeyPrincipal k) (ak_organizationId k) capability of
                  Inl e \<Rightarrow> Inl e | Inr _ \<Rightarrow> Inr ()))"

section \<open>The instance owner\<close>

record instance_identity =
  ii_persistedOwner :: "string option"
  ii_envOwnerUserId :: "string option"
  ii_envOwnerEmail :: "string option"
  ii_userEmail :: "string \<rightharpoonup> string"

fun truthy_string :: "string option \<Rightarrow> bool" where
  "truthy_string None = False"
| "truthy_string (Some s) = (s \<noteq> [])"

text \<open>The actor is its kind (\<open>None\<close> for undefined) and user id.\<close>

definition isInstanceOwner :: "instance_identity \<Rightarrow> string option \<Rightarrow> string \<Rightarrow> bool" where
  "isInstanceOwner ii kind u =
     (if kind \<noteq> Some ''session'' then False
      else if truthy_string (ii_persistedOwner ii) then ii_persistedOwner ii = Some u
      else let configuredOwnerId = map_option trim (ii_envOwnerUserId ii) in
        if truthy_string configuredOwnerId then configuredOwnerId = Some u
        else let configuredOwnerEmail = map_option (\<lambda>e. toLowerCase (trim e)) (ii_envOwnerEmail ii) in
          if \<not> truthy_string configuredOwnerEmail then False
          else (case ii_userEmail ii u of
                  None \<Rightarrow> False
                | Some e \<Rightarrow> Some (toLowerCase e) = configuredOwnerEmail))"

definition authorizeInstance :: "instance_identity \<Rightarrow> string option \<Rightarrow> string \<Rightarrow> string + unit" where
  "authorizeInstance ii kind u = checks
     [throw_if (kind \<noteq> Some ''session'')
        ''Instance operations require an interactive owner session'',
      throw_if (\<not> isInstanceOwner ii kind u) ''Instance owner permission required'']"

section \<open>API-key authentication and routes\<close>

record request_headers =
  h_x_api_key :: "string option"
  h_authorization :: "string option"

definition getApiKeyValue :: "request_headers \<Rightarrow> string option" where
  "getApiKeyValue h =
     (let explicit = map_option trim (h_x_api_key h) in
      if truthy_string explicit then explicit
      else let authorization = (case h_authorization h of None \<Rightarrow> [] | Some a \<Rightarrow> a) in
        if \<not> starts_with ''Bearer '' authorization then None
        else let v = trim (drop (length ''Bearer '') authorization) in
          if v = [] then None else Some v)"

record verified_key =
  vk_id :: string
  vk_referenceId :: string
  vk_name :: "string option"
  vk_createdBy :: jsval
  vk_permissions :: "(string \<times> string list) list option"
  vk_rateLimit :: api_key_rate_limit

text \<open>
  \<open>Inr None\<close> is the null result (no or an invalid key), \<open>Inl\<close> the \<open>ZodError\<close> of
  the permission schema.
\<close>

definition authenticateApiKey ::
  "(string \<Rightarrow> verified_key option) \<Rightarrow> request_headers \<Rightarrow> string + api_key_principal option" where
  "authenticateApiKey verify h =
     (case getApiKeyValue h of
        None \<Rightarrow> Inr None
      | Some v \<Rightarrow>
          (case verify v of
             None \<Rightarrow> Inr None
           | Some key \<Rightarrow>
               (case statementsToApiKeyPermissions (vk_permissions key) of
                  None \<Rightarrow> Inl ''ZodError''
                | Some ps \<Rightarrow> Inr (Some
                    \<lparr>ak_keyId = vk_id key, ak_organizationId = vk_referenceId key,
                     ak_userId = (case vk_createdBy key of JStr u \<Rightarrow> u | _ \<Rightarrow> ''api-key:'' @ vk_id key),
                     ak_name = vk_name key, ak_permissions = ps, ak_rateLimit = vk_rateLimit key\<rparr>))))"

text \<open>The headers set, with each numeric value before its conversion to text.\<close>

definition setApiKeyRateLimitHeaders :: "int \<Rightarrow> api_key_principal \<Rightarrow> (string \<times> int) list" where
  "setApiKeyRateLimitHeaders now k =
     (let r = ak_rateLimit k in
      case rl_max r of
        None \<Rightarrow> []
      | Some mx \<Rightarrow>
          if \<not> rl_enabled r then []
          else
            let resetAt = (case (rl_lastRequest r, rl_windowMs r) of
                  (Some l, Some w) \<Rightarrow> if w \<noteq> 0 then l + w else now + w
                | (None, Some w) \<Rightarrow> now + w
                | _ \<Rightarrow> now)
            in [(''X-RateLimit-Limit'', mx),
                (''X-RateLimit-Remaining'',
                   max 0 (case rl_remaining r of Some n \<Rightarrow> n | None \<Rightarrow> mx)),
                (''X-RateLimit-Reset'', resetAt div 1000)])"

definition requiredApiKeyPermission :: "string \<Rightarrow> string option" where
  "requiredApiKeyPermission path = map_of API_KEY_ROUTE_CAPABILITIES path"

fun crosses_organization :: "jsval \<Rightarrow> string \<Rightarrow> bool" where
  "crosses_organization (JObj kvs) org =
     (''organizationId'' \<in> fst ` set kvs \<and> get_prop kvs ''organizationId'' \<noteq> JStr org)"
| "crosses_organization _ org = False"

definition enforceApiKeyRoute ::
  "access_resolver \<Rightarrow> (string \<Rightarrow> jsval option) \<Rightarrow> string \<Rightarrow> api_key_principal \<Rightarrow> jsval \<Rightarrow>
   string + unit" where
  "enforceApiKeyRoute resolve json_parse path k rawInput =
     (case requiredApiKeyPermission path of
        None \<Rightarrow> Inl ''This endpoint requires an interactive user session.''
      | Some required \<Rightarrow>
          if starts_with ''apiKey.'' path
          then Inl ''This endpoint requires an interactive user session.''
          else if ak_organizationId k = [] \<or> starts_with ''api-key:'' (ak_userId k)
          then Inl ''This API key has no auditable organization user.''
          else if crosses_organization rawInput (ak_organizationId k)
          then Inl ''The API key cannot access another organization.''
          else (case authorize resolve json_parse (ApiKeyPrincipal k) (ak_organizationId k) required of
                  Inl e \<Rightarrow> Inl e | Inr _ \<Rightarrow> Inr ()))"

text \<open>\<open>ctx.actor\<close> is an API key, or the session user of the request.\<close>

definition authorizeContextCapability ::
  "access_resolver \<Rightarrow> (string \<Rightarrow> jsval option) \<Rightarrow> api_key_principal option \<Rightarrow> string \<Rightarrow> string \<Rightarrow>
   string \<Rightarrow> string + grant" where
  "authorizeContextCapability resolve json_parse actorKey sessionUser org capability =
     authorize resolve json_parse
       (case actorKey of Some k \<Rightarrow> ApiKeyPrincipal k | None \<Rightarrow> SessionPrincipal sessionUser org)
       org capability"

end
