(* ===== verification/Access_Policy.thy ===== *)
theory Access_Policy
  imports Permissions
begin

text \<open>
  What the authorization service guarantees. The locale \<open>organization_access\<close> is the
  contract the service relies on (a resolved membership is an active membership of that
  user in that organization); its lemmas hold for every resolver with that contract, and
  the database lookup of \<open>access-control.ts\<close> is shown to provide it, with and without
  the per-request cache.
\<close>

section \<open>The resolver contract and its clients\<close>

locale organization_access =
  fixes resolve :: access_resolver
  assumes active_member:
    "resolve u org = Inr m \<Longrightarrow> m_userId m = u \<and> m_organizationId m = org \<and> m_scimActive m"
begin

lemma authorizeApiKey_ok:
  "authorizeApiKey resolve k org c def = Inr () \<longleftrightarrow>
     ak_userId k \<noteq> [] \<and> \<not> starts_with ''api-key:'' (ak_userId k) \<and>
     (\<exists>m. resolve (ak_userId k) org = Inr m) \<and> cd_apiKey def \<and>
     hasApiKeyPermission (ak_permissions k) c"
  by (auto simp: authorizeApiKey_def split: sum.splits)

lemma key_authorized:
  "authorize resolve jp (ApiKeyPrincipal k) org c = Inr g \<longleftrightarrow>
     g = KeyGrant k \<and> org = ak_organizationId k \<and>
     ak_userId k \<noteq> [] \<and> \<not> starts_with ''api-key:'' (ak_userId k) \<and>
     (\<exists>m. resolve (ak_userId k) org = Inr m) \<and>
     c \<in> set API_KEY_CAPABILITY_ACTIONS \<and> hasApiKeyPermission (ak_permissions k) c"
  unfolding set_API_KEY_CAPABILITY_ACTIONS
  by (cases "map_of CAPABILITY_CATALOG c") (auto simp: authorize_def authorizeApiKey_ok)

lemma session_authorized:
  "authorize resolve jp (SessionPrincipal u org') org c = Inr g \<longleftrightarrow>
     org = org' \<and> isCapability c \<and>
     (\<exists>m. g = MemberGrant m \<and> resolve u org = Inr m \<and> c \<in> set (session_permissions jp m))"
  by (auto simp: authorize_def authorizeSession_def isCapability_def
      split: option.splits sum.splits if_splits)

lemma authorized_is_active_member:
  assumes "authorize resolve jp actor org c = Inr g"
  shows "org = principal_org actor \<and>
    (\<exists>m. resolve (principal_user actor) org = Inr m \<and> m_userId m = principal_user actor \<and>
         m_organizationId m = org \<and> m_scimActive m)"
  using assms active_member by (cases actor) (auto simp: key_authorized session_authorized)

lemma mcp_authorized:
  assumes "authorizeMcpTool resolve jp k t = Inr ()"
  shows "\<exists>c. map_of MCP_TOOL_CAPABILITIES t = Some c \<and> c \<in> set API_KEY_CAPABILITY_ACTIONS \<and>
    hasApiKeyPermission (ak_permissions k) c \<and> hasMcpPermission (ak_permissions k) (Some t) \<and>
    t \<notin> set instance_owner_tools"
proof -
  from assms obtain c g where c: "mcp_tool_capability t = Some c"
    and p: "hasMcpPermission (ak_permissions k) (Some t)" "t \<notin> set instance_owner_tools"
    and g: "authorize resolve jp (ApiKeyPrincipal k) (ak_organizationId k) c = Inr g"
    by (auto simp: authorizeMcpTool_def split: option.splits sum.splits if_splits)
  from g have k: "c \<in> set API_KEY_CAPABILITY_ACTIONS" "hasApiKeyPermission (ak_permissions k) c"
    by (simp_all add: key_authorized)
  have "map_of MCP_TOOL_CAPABILITIES t = Some c"
  proof (rule ccontr)
    assume "map_of MCP_TOOL_CAPABILITIES t \<noteq> Some c"
    with c have "t \<in> set OBJECT_PROTOTYPE_MEMBERS"
      "c = (if t = ''__proto__'' then ''[object Object]'' else ''function '' @ t @ ''() { [native code] }'')"
      by (auto simp: mcp_tool_capability_def split: option.splits if_splits)
    moreover have "\<forall>t \<in> set OBJECT_PROTOTYPE_MEMBERS.
        (if t = ''__proto__'' then ''[object Object]'' else ''function '' @ t @ ''() { [native code] }'')
        \<notin> set API_KEY_CAPABILITY_ACTIONS"
      by code_simp
    ultimately show False using k(1) by auto
  qed
  with k p show ?thesis by blast
qed

lemma route_authorized:
  assumes "enforceApiKeyRoute resolve jp path k input = Inr ()"
  shows "\<exists>c m. requiredApiKeyPermission path = Some c \<and> c \<in> set API_KEY_CAPABILITY_ACTIONS \<and>
    hasApiKeyPermission (ak_permissions k) c \<and> \<not> crosses_organization input (ak_organizationId k) \<and>
    resolve (ak_userId k) (ak_organizationId k) = Inr m \<and> m_scimActive m"
  using assms active_member
  by (fastforce simp: enforceApiKeyRoute_def key_authorized split: option.splits sum.splits if_splits)

end

section \<open>The database provides the contract\<close>

definition db_resolver :: "membership list \<Rightarrow> access_resolver" where
  "db_resolver db u org = fst (ensureOrganizationAccess db None u org None)"

lemma find_membership_Some:
  "find_membership db u org = Some m \<Longrightarrow>
   m \<in> set db \<and> m_userId m = u \<and> m_organizationId m = org \<and> m_scimActive m"
  by (auto simp: find_membership_def find_Some_iff)

lemma db_resolver_ok: "db_resolver db u org = Inr m \<longleftrightarrow> find_membership db u org = Some m"
  by (auto simp: db_resolver_def ensureOrganizationAccess_def split: option.splits)

interpretation dbr: organization_access "db_resolver db" for db
  by unfold_locales (auto simp: db_resolver_ok dest: find_membership_Some)

text \<open>
  The cache is keyed by the two ids joined with a colon; for user ids without a colon the
  key determines the pair.
\<close>

lemma access_key_inject:
  assumes "CHR '':'' \<notin> set u" "CHR '':'' \<notin> set v" "access_key u a = access_key v b"
  shows "u = v \<and> a = b"
proof -
  let ?P = "\<lambda>c. c \<noteq> CHR '':''"
  have t: "takeWhile ?P (access_key w x) = w" if "CHR '':'' \<notin> set w" for w x
    unfolding access_key_def by (subst takeWhile_append2) (use that in auto)
  from assms have "u = v" using t [of u a] t [of v b] by simp
  with assms(3) show ?thesis by (simp add: access_key_def)
qed

definition coherent :: "membership list \<Rightarrow> access_cache option \<Rightarrow> bool" where
  "coherent db cache \<longleftrightarrow>
     (\<forall>c u org r. cache = Some c \<longrightarrow> CHR '':'' \<notin> set u \<longrightarrow> c (access_key u org) = Some r \<longrightarrow>
        r = find_membership db u org)"

lemma ensure_coherent:
  assumes "coherent db cache" "CHR '':'' \<notin> set u"
  shows "fst (ensureOrganizationAccess db cache u org roles) =
           fst (ensureOrganizationAccess db None u org roles)"
    and "coherent db (snd (ensureOrganizationAccess db cache u org roles))"
proof -
  show "fst (ensureOrganizationAccess db cache u org roles) =
        fst (ensureOrganizationAccess db None u org roles)"
    using assms
    by (cases cache) (auto simp: ensureOrganizationAccess_def coherent_def Let_def split: option.splits)
  show "coherent db (snd (ensureOrganizationAccess db cache u org roles))"
    using assms
    by (cases cache)
      (auto simp: ensureOrganizationAccess_def coherent_def Let_def dest!: access_key_inject [rotated 2]
        split: option.splits if_splits)
qed

text \<open>A request: a sequence of lookups sharing one cache.\<close>

fun lookups ::
  "membership list \<Rightarrow> access_cache option \<Rightarrow> (string \<times> string \<times> string list option) list \<Rightarrow>
   (string + membership) list" where
  "lookups db cache [] = []"
| "lookups db cache ((u, org, roles) # rest) =
     (case ensureOrganizationAccess db cache u org roles of
        (r, cache') \<Rightarrow> r # lookups db cache' rest)"

lemma lookups_coherent:
  assumes "coherent db cache" "\<forall>(u, org, roles) \<in> set qs. CHR '':'' \<notin> set u"
  shows "lookups db cache qs =
    map (\<lambda>(u, org, roles). fst (ensureOrganizationAccess db None u org roles)) qs"
  using assms
proof (induction qs arbitrary: cache)
  case (Cons q qs)
  obtain u org roles where q: "q = (u, org, roles)" by (cases q)
  with Cons.prems have u: "CHR '':'' \<notin> set u" by auto
  obtain r cache' where rc: "ensureOrganizationAccess db cache u org roles = (r, cache')" by force
  note ec = ensure_coherent [OF Cons.prems(1) u, of org roles]
  from ec(2) rc have "coherent db cache'" by simp
  with Cons.IH Cons.prems(2) have
    "lookups db cache' qs =
     map (\<lambda>(u, org, roles). fst (ensureOrganizationAccess db None u org roles)) qs" by simp
  with ec(1) rc q show ?case by simp
qed simp

section \<open>Sample data for witnesses\<close>

definition sample_members :: "membership list" where
  "sample_members =
     [\<lparr>m_userId = ''u1'', m_organizationId = ''org'', m_role = ''member'', m_permissions = None,
       m_scimActive = True\<rparr>,
      \<lparr>m_userId = ''u2'', m_organizationId = ''org'', m_role = ''custom:ops'',
       m_permissions = Some ''[]'', m_scimActive = True\<rparr>]"

definition sample_limits :: api_key_rate_limit where
  "sample_limits =
     \<lparr>rl_enabled = False, rl_max = None, rl_windowMs = None, rl_remaining = None,
      rl_lastRequest = None\<rparr>"

definition sample_key :: "api_key_permissions \<Rightarrow> api_key_principal" where
  "sample_key ps =
     \<lparr>ak_keyId = ''k'', ak_organizationId = ''org'', ak_userId = ''u1'', ak_name = None,
      ak_permissions = ps, ak_rateLimit = sample_limits\<rparr>"

definition sample_json :: "string \<Rightarrow> jsval option" where
  "sample_json s =
     (if s = ''[]'' then Some (JArr [JStr ''resource:view'', JStr ''member:manage'', JStr ''x''])
      else None)"

section \<open>Properties\<close>

text \<open>
  C22. An API key is authorized for a capability in an organization exactly when the
  organization is the key's own, its user is a real user id with an active membership
  there, the catalog lets API keys use the capability, and the key carries the capability
  or the wildcard.
\<close>

theorem api_key_authorization:
  "authorize (db_resolver db) jp (ApiKeyPrincipal k) org c = Inr g \<longleftrightarrow>
     g = KeyGrant k \<and> org = ak_organizationId k \<and>
     ak_userId k \<noteq> [] \<and> \<not> starts_with ''api-key:'' (ak_userId k) \<and>
     (\<exists>m. find_membership db (ak_userId k) org = Some m) \<and>
     c \<in> set API_KEY_CAPABILITY_ACTIONS \<and>
     (''*'' \<in> set (upstand (ak_permissions k)) \<or> c \<in> set (upstand (ak_permissions k)))"
  by (simp add: dbr.key_authorized db_resolver_ok hasApiKeyPermission_def)

lemma session_permissions_bounded:
  assumes "c \<in> set (session_permissions jp m)"
  shows "(if starts_with ''custom:'' (m_role m) then c \<in> set CUSTOM_ROLE_CAPABILITY_ACTIONS
          else c \<in> set (capabilitiesForRole (m_role m)))"
proof -
  have builtin: "map_of ROLE_PERMISSIONS r = Some ps \<Longrightarrow>
      ps = capabilitiesForRole r \<and> \<not> starts_with ''custom:'' r" for r ps
    by (auto simp: ROLE_PERMISSIONS_def starts_with_def split: if_splits)
  consider ps where "map_of ROLE_PERMISSIONS (m_role m) = Some ps" "c \<in> set ps"
    | v where "c \<in> set (parseStoredPermissions jp v (m_role m))"
    using assms
    by (cases "m_permissions m"; cases "map_of ROLE_PERMISSIONS (m_role m)")
      (auto simp: session_permissions_def split: if_splits)
  then show ?thesis
  proof cases
    case 1
    with builtin show ?thesis by simp
  next
    case 2
    then show ?thesis by (auto simp: parseStoredPermissions_def split: option.splits if_splits)
  qed
qed

text \<open>
  C23. A session cannot be granted more than its role allows, whatever its stored
  permissions say: an authorized session belongs to an active member whose role is owner,
  admin or member and has the capability in the catalog, or whose role is a custom role and
  the catalog lets custom roles carry the capability.
\<close>

theorem session_no_escalation:
  assumes "authorize (db_resolver db) jp (SessionPrincipal u org) org c = Inr g"
  shows "\<exists>m \<in> set db. g = MemberGrant m \<and> m_userId m = u \<and> m_organizationId m = org \<and>
    m_scimActive m \<and>
    (if starts_with ''custom:'' (m_role m) then c \<in> set CUSTOM_ROLE_CAPABILITY_ACTIONS
     else m_role m \<in> {''owner'', ''admin'', ''member''} \<and> c \<in> set (capabilitiesForRole (m_role m)))"
proof -
  from assms obtain m where m: "g = MemberGrant m" "find_membership db u org = Some m"
    "c \<in> set (session_permissions jp m)"
    by (auto simp: dbr.session_authorized db_resolver_ok)
  from find_membership_Some [OF m(2)] session_permissions_bounded [OF m(3)] m(1) show ?thesis
    by (auto simp: capabilitiesForRole_def split: if_splits)
qed

theorem session_no_escalation_witness:
  "(\<exists>m \<in> set sample_members. m_userId m = ''u2'') \<and>
   authorize (db_resolver sample_members) sample_json (SessionPrincipal ''u2'' ''org'') ''org''
     ''resource:view'' = Inr (MemberGrant (sample_members ! 1))"
proof -
  have ok: "authorize (db_resolver sample_members) sample_json (SessionPrincipal ''u2'' ''org'') ''org''
     ''resource:view'' = Inr (MemberGrant (sample_members ! 1))"
    by code_simp
  from session_no_escalation [OF ok] have "\<exists>m \<in> set sample_members. m_userId m = ''u2''" by blast
  with ok show ?thesis by blast
qed

lemma instance_capability_table:
  "list_all (\<lambda>(c, d). cd_scope d = Instance \<longrightarrow> cd_roles d = [] \<and> \<not> cd_apiKey d \<and> \<not> cd_customRole d)
     CAPABILITY_CATALOG"
  by code_simp

lemma instance_capability:
  "map_of CAPABILITY_CATALOG c = Some d \<Longrightarrow> cd_scope d = Instance \<Longrightarrow>
   cd_roles d = [] \<and> \<not> cd_apiKey d \<and> \<not> cd_customRole d"
  using instance_capability_table by (auto simp: list_all_iff dest!: map_of_SomeD)

text \<open>
  No principal is ever authorized for an instance-scoped capability: for every resolver,
  session or API key and organization, asking for it is refused, and no role, custom role,
  API key or MCP tool carries such a capability.
\<close>

theorem instance_capability_never_granted:
  assumes "map_of CAPABILITY_CATALOG c = Some d" "cd_scope d = Instance"
  shows "\<exists>e. authorize resolve jp actor org c = Inl e"
proof -
  note inst = instance_capability [OF assms]
  have ses: "c \<notin> set (session_permissions jp m)" for m
  proof
    assume "c \<in> set (session_permissions jp m)"
    from session_permissions_bounded [OF this] inst assms show False
      by (auto simp: set_CUSTOM_ROLE_CAPABILITY_ACTIONS set_capabilitiesForRole capabilitiesForRole_def
          catalog_lookup split: if_splits)
  qed
  have "authorizeApiKey resolve k org c d \<noteq> Inr ()" for k
    using inst by (auto simp: authorizeApiKey_def)
  then have key: "\<exists>e. authorizeApiKey resolve k org c d = Inl e" for k
    by (simp add: not_ok_is_err)
  show ?thesis
  proof (cases actor)
    case (SessionPrincipal u o')
    with assms(1) ses show ?thesis
      by (cases "resolve u org") (auto simp: authorize_def authorizeSession_def)
  next
    case (ApiKeyPrincipal k)
    with assms(1) key [of k] show ?thesis by (auto simp: authorize_def)
  qed
qed

theorem instance_capability_never_granted_witness:
  "(\<exists>e. authorize (db_resolver sample_members) sample_json (SessionPrincipal ''u1'' ''org'') ''org''
     ''instance:manage'' = Inl e) \<and>
   map_of CAPABILITY_CATALOG ''instance:manage'' = Some (capability_def Instance False False Recent2fa [])"
proof -
  have d: "map_of CAPABILITY_CATALOG ''instance:manage'' =
      Some (capability_def Instance False False Recent2fa [])" by code_simp
  from instance_capability_never_granted [OF d] d show ?thesis by (simp add: capability_def_def)
qed

text \<open>
  Comparing the procedure names of two tables by a numeric fingerprint keeps the evaluation
  short; equal names have equal fingerprints.
\<close>

definition fingerprint :: "string \<Rightarrow> int" where
  "fingerprint s = foldl (\<lambda>h c. h + h + code c) 0 s"

fun no_common :: "int list \<Rightarrow> int list \<Rightarrow> bool" where
  "no_common [] ys = True"
| "no_common (x # xs) ys = (list_all (\<lambda>y. y \<noteq> x) ys \<and> no_common xs ys)"

lemma no_common_disjoint: "no_common (map f xs) (map f ys) \<Longrightarrow> x \<in> set xs \<Longrightarrow> x \<notin> set ys"
  by (induction xs) (auto simp: list_all_iff)

lemma routes_disjoint:
  assumes "path \<in> fst ` set API_KEY_ROUTE_CAPABILITIES"
  shows "path \<notin> set SESSION_ONLY_PROCEDURES"
proof (rule no_common_disjoint)
  show "no_common (map fingerprint (map fst API_KEY_ROUTE_CAPABILITIES))
      (map fingerprint SESSION_ONLY_PROCEDURES)"
    by code_simp
qed (use assms in simp)

text \<open>
  C24. API-key routes fail closed: if a key passes the route guard, the route is declared in
  the route table, is not one of the session-only procedures, requires a capability that
  keys may hold and this key holds, the input names no other organization, and the key's
  user is an active member of the key's organization.
\<close>

theorem api_key_routes_fail_closed:
  assumes "enforceApiKeyRoute (db_resolver db) jp path k input = Inr ()"
  shows "path \<notin> set SESSION_ONLY_PROCEDURES \<and>
    (\<exists>c. (path, c) \<in> set API_KEY_ROUTE_CAPABILITIES \<and> c \<in> set API_KEY_CAPABILITY_ACTIONS \<and>
       hasApiKeyPermission (ak_permissions k) c) \<and>
    \<not> crosses_organization input (ak_organizationId k) \<and>
    (\<exists>m. find_membership db (ak_userId k) (ak_organizationId k) = Some m \<and> m_scimActive m)"
proof -
  from dbr.route_authorized [OF assms] obtain c m where
    c: "map_of API_KEY_ROUTE_CAPABILITIES path = Some c" "c \<in> set API_KEY_CAPABILITY_ACTIONS"
      "hasApiKeyPermission (ak_permissions k) c"
    and m: "\<not> crosses_organization input (ak_organizationId k)"
      "find_membership db (ak_userId k) (ak_organizationId k) = Some m" "m_scimActive m"
    by (auto simp: requiredApiKeyPermission_def db_resolver_ok)
  from map_of_SomeD [OF c(1)] have "path \<in> fst ` set API_KEY_ROUTE_CAPABILITIES" by force
  from routes_disjoint [OF this] have "path \<notin> set SESSION_ONLY_PROCEDURES" .
  with c m map_of_SomeD [OF c(1)] show ?thesis by blast
qed

theorem api_key_routes_fail_closed_witness:
  "''resource.update'' \<notin> set SESSION_ONLY_PROCEDURES \<and>
   enforceApiKeyRoute (db_resolver sample_members) sample_json ''resource.update''
     (sample_key (API_KEY_PRESETS Deployment)) (JObj [(''organizationId'', JStr ''org'')]) = Inr ()"
proof -
  have ok: "enforceApiKeyRoute (db_resolver sample_members) sample_json ''resource.update''
     (sample_key (API_KEY_PRESETS Deployment)) (JObj [(''organizationId'', JStr ''org'')]) = Inr ()"
    by code_simp
  from api_key_routes_fail_closed [OF ok] ok show ?thesis by blast
qed

lemma mcp_read_only_views:
  "list_all (\<lambda>c. ends_with '':view'' c \<and> c \<noteq> ''*'') (upstand (API_KEY_PRESETS McpReadOnly))"
  by code_simp

text \<open>
  A key made from the MCP read-only preset can run no tool that changes anything: every
  tool it is authorized for needs a capability whose name ends in \<open>:view\<close>, and is not
  reserved for the instance owner.
\<close>

theorem mcp_read_only_preset:
  assumes "authorizeMcpTool (db_resolver db) jp k t = Inr ()"
    and "ak_permissions k = API_KEY_PRESETS McpReadOnly"
  shows "t \<notin> set instance_owner_tools \<and>
    (\<exists>c. map_of MCP_TOOL_CAPABILITIES t = Some c \<and> ends_with '':view'' c)"
proof -
  from dbr.mcp_authorized [OF assms(1)] assms(2) obtain c where
    "map_of MCP_TOOL_CAPABILITIES t = Some c" "t \<notin> set instance_owner_tools"
    "''*'' \<in> set (upstand (API_KEY_PRESETS McpReadOnly)) \<or> c \<in> set (upstand (API_KEY_PRESETS McpReadOnly))"
    by (auto simp: hasApiKeyPermission_def simp del: API_KEY_PRESETS.simps)
  with mcp_read_only_views show ?thesis
    by (auto simp: list_all_iff simp del: API_KEY_PRESETS.simps)
qed

theorem mcp_read_only_preset_witness:
  "\<exists>c. map_of MCP_TOOL_CAPABILITIES ''list_servers'' = Some c \<and> ends_with '':view'' c"
proof -
  have "authorizeMcpTool (db_resolver sample_members) sample_json
      (sample_key (API_KEY_PRESETS McpReadOnly)) ''list_servers'' = Inr ()"
    by code_simp
  from mcp_read_only_preset [OF this] show ?thesis by (simp add: sample_key_def)
qed

lemma apiKeyPermissionValues_known: "a \<in> set apiKeyPermissionValues \<Longrightarrow> a = ''*'' \<or> isCapability a"
  by (auto simp: apiKeyPermissionValues_def API_KEY_SCOPE_ACTIONS_def set_API_KEY_CAPABILITY_ACTIONS
      isCapability_def)

text \<open>
  Storing API-key permissions and reading them back loses nothing but duplicates: for
  permissions the schema accepts, the statements made from them parse to the same lists
  with repeated entries removed, which grant exactly the same capabilities and tools.
\<close>

theorem api_key_permissions_roundtrip:
  assumes "ApiKeyPermissionsSchema p = Some p"
  shows "\<exists>q. statementsToApiKeyPermissions (Some (apiKeyPermissionsToStatements p)) = Some q \<and>
    q = \<lparr>upstand = unique (upstand p), mcp = unique (mcp p)\<rparr> \<and>
    (\<forall>c. hasApiKeyPermission q c = hasApiKeyPermission p c) \<and>
    (\<forall>t. hasMcpPermission q t = hasMcpPermission p t)"
proof -
  from assms have ok: "\<forall>a \<in> set (upstand p). a \<in> set apiKeyPermissionValues" "\<forall>t \<in> set (mcp p). t \<noteq> []"
    by (auto simp: ApiKeyPermissionsSchema_def list_all_iff split: if_splits)
  let ?keep = "\<lambda>p. p = ''*'' \<or> isCapability p"
  have "filter ?keep (unique (upstand p)) = unique (upstand p)"
    by (rule filter_True) (use ok(1) apiKeyPermissionValues_known in auto)
  with ok have "statementsToApiKeyPermissions (Some (apiKeyPermissionsToStatements p)) =
      Some \<lparr>upstand = unique (upstand p), mcp = unique (mcp p)\<rparr>"
    by (simp add: statementsToApiKeyPermissions_def apiKeyPermissionsToStatements_def
        ApiKeyPermissionsSchema_def list_all_iff)
  then show ?thesis
    by (simp add: hasApiKeyPermission_def hasMcpPermission_def split: option.split)
qed

theorem api_key_permissions_roundtrip_witness:
  "\<exists>q. statementsToApiKeyPermissions
     (Some (apiKeyPermissionsToStatements (API_KEY_PRESETS Operations))) = Some q"
proof -
  have "ApiKeyPermissionsSchema (API_KEY_PRESETS Operations) = Some (API_KEY_PRESETS Operations)"
    by code_simp
  from api_key_permissions_roundtrip [OF this] show ?thesis by blast
qed

text \<open>
  A stored key permission that is a catalog capability but not one API keys may hold is
  not dropped like an unknown name: the filter keeps it, the schema rejects it, and
  authenticating with the key throws instead of returning a principal.
\<close>

theorem stored_non_key_capability_breaks_authentication:
  "statementsToApiKeyPermissions (Some [(''upstand'', [''resource:view'', ''future:grant''])]) =
     Some \<lparr>upstand = [''resource:view''], mcp = []\<rparr> \<and>
   statementsToApiKeyPermissions (Some [(''upstand'', [''resource:view'', ''member:view''])]) = None \<and>
   authenticateApiKey
     (\<lambda>_. Some \<lparr>vk_id = ''k'', vk_referenceId = ''org'', vk_name = None, vk_createdBy = JStr ''u1'',
        vk_permissions = Some [(''upstand'', [''resource:view'', ''member:view''])],
        vk_rateLimit = sample_limits\<rparr>)
     \<lparr>h_x_api_key = Some ''upk_1'', h_authorization = None\<rparr> = Inl ''ZodError''"
  by code_simp

text \<open>
  The per-request membership cache is invisible: along any sequence of lookups by user
  ids without a colon, starting from an empty cache, every lookup returns what the uncached
  query returns.
\<close>

theorem access_cache_transparent:
  assumes "\<forall>(u, org, roles) \<in> set qs. CHR '':'' \<notin> set u"
  shows "lookups db (Some Map.empty) qs =
    map (\<lambda>(u, org, roles). fst (ensureOrganizationAccess db None u org roles)) qs"
  by (rule lookups_coherent [OF _ assms]) (simp add: coherent_def)

theorem access_cache_transparent_witness:
  "lookups sample_members (Some Map.empty)
     [(''u1'', ''org'', None), (''u9'', ''org'', None), (''u1'', ''org'', Some [''owner''])] =
   [Inr (sample_members ! 0), Inl ''You are not a member of this organization'',
    Inl ''Required role not met. Allowed roles: owner'']"
proof -
  let ?qs = "[(''u1'', ''org'', None), (''u9'', ''org'', None), (''u1'', ''org'', Some [''owner''])]"
  have "\<forall>(u, org, roles) \<in> set ?qs. CHR '':'' \<notin> set u" by simp
  from access_cache_transparent [OF this, of sample_members] show ?thesis
    by (simp add: ensureOrganizationAccess_def find_membership_def sample_members_def)
qed

text \<open>
  A persisted instance owner is authoritative: while one is recorded, exactly that user
  in an interactive session is the instance owner, and the environment overrides change
  nothing.
\<close>

theorem persisted_owner_authoritative:
  assumes "ii_persistedOwner ii = Some owner" "owner \<noteq> []"
  shows "authorizeInstance ii kind u = Inr () \<longleftrightarrow> kind = Some ''session'' \<and> u = owner"
  using assms by (auto simp: authorizeInstance_def isInstanceOwner_def)

theorem persisted_owner_authoritative_witness:
  "authorizeInstance
     \<lparr>ii_persistedOwner = Some ''u1'', ii_envOwnerUserId = Some ''u2'', ii_envOwnerEmail = None,
      ii_userEmail = Map.empty\<rparr> (Some ''session'') ''u1'' = Inr ()"
  by (subst persisted_owner_authoritative [where owner = "''u1''"]) simp_all

end
