(* ===== verification/Net_Policy.thy ===== *)
theory Net_Policy
  imports Prelude "HOL-Library.Word"
begin

text \<open>
  The outbound network policy of \<open>packages/platform/src/network/outbound.ts\<close>: which
  addresses the control plane refuses to contact on behalf of a user, for HTTP endpoints
  and for SSH targets.

  \<open>net.isIP\<close> is modelled by the address grammar of \<open>node:net\<close>. Parameters:
  \<open>parse_url\<close> is the WHATWG \<open>URL\<close> constructor (\<open>None\<close> when it throws) and
  \<open>resolveHost\<close> the address resolver (\<open>None\<close> when it rejects). The locale
  \<open>address_filter\<close> is the shape the three address predicates share.
\<close>

section \<open>Address syntax\<close>

definition v4Seg :: "string \<Rightarrow> bool" where
  "v4Seg s \<longleftrightarrow>
     s \<noteq> [] \<and> list_all is_digit s \<and> len s \<le> 3 \<and> (hd s = CHR ''0'' \<longrightarrow> len s = 1) \<and> decimal s \<le> 255"

definition isIPv4 :: "string \<Rightarrow> bool" where
  "isIPv4 s \<longleftrightarrow> (let ps = split_on CHR ''.'' s in len ps = 4 \<and> list_all v4Seg ps)"

definition is_hex :: "char \<Rightarrow> bool" where
  "is_hex c \<longleftrightarrow>
     is_digit c \<or> (65 \<le> code c \<and> code c \<le> 70) \<or> (97 \<le> code c \<and> code c \<le> 102)"

definition v6Seg :: "string \<Rightarrow> bool" where
  "v6Seg s \<longleftrightarrow> s \<noteq> [] \<and> len s \<le> 4 \<and> list_all is_hex s"

text \<open>
  The number of 16-bit units of a colon-separated run of groups, the last of which may be a
  dotted address (two units) where \<open>v4\<close> allows it; \<open>None\<close> if a group is malformed.
\<close>

fun v6_units :: "bool \<Rightarrow> string list \<Rightarrow> int option" where
  "v6_units v4 [] = Some 0"
| "v6_units v4 [g] = (if v6Seg g then Some 1 else if v4 \<and> isIPv4 g then Some 2 else None)"
| "v6_units v4 (g # h # gs) = (if v6Seg g then map_option (\<lambda>n. n + 1) (v6_units v4 (h # gs)) else None)"

definition v6_groups :: "string \<Rightarrow> string list" where
  "v6_groups s = (if s = [] then [] else split_on CHR '':'' s)"

text \<open>The text before and after the first double colon.\<close>

fun split_double_colon :: "string \<Rightarrow> (string \<times> string) option" where
  "split_double_colon [] = None"
| "split_double_colon (c # cs) =
     (if starts_with ''::'' (c # cs) then Some ([], drop 1 cs)
      else map_option (\<lambda>(l, r). (c # l, r)) (split_double_colon cs))"

definition isIPv6_body :: "string \<Rightarrow> bool" where
  "isIPv6_body s =
     (case split_double_colon s of
        None \<Rightarrow> v6_units True (v6_groups s) = Some 8
      | Some (l, r) \<Rightarrow>
          (case (v6_units False (v6_groups l), v6_units True (v6_groups r)) of
             (Some n, Some m) \<Rightarrow> n + m \<le> 7
           | _ \<Rightarrow> False))"

definition is_zone_char :: "char \<Rightarrow> bool" where
  "is_zone_char c \<longleftrightarrow> is_alnum c \<or> c = CHR ''-'' \<or> c = CHR ''.'' \<or> c = CHR '':''"

definition isIPv6 :: "string \<Rightarrow> bool" where
  "isIPv6 s =
     (case index_where (\<lambda>c. c = CHR ''%'') s of
        None \<Rightarrow> isIPv6_body s
      | Some i \<Rightarrow>
          isIPv6_body (take i s) \<and> drop (Suc i) s \<noteq> [] \<and> list_all is_zone_char (drop (Suc i) s))"

definition isIP :: "string \<Rightarrow> int" where
  "isIP s = (if isIPv4 s then 4 else if isIPv6 s then 6 else 0)"

definition ipv4Parts :: "string \<Rightarrow> int list option" where
  "ipv4Parts address =
     (if isIP address \<noteq> 4 then None
      else let parts = map decimal (split_on CHR ''.'' address) in
        if len parts = 4 \<and> list_all (\<lambda>part. 0 \<le> part \<and> part \<le> 255) parts then Some parts else None)"

definition isMappedIpv4 :: "string \<Rightarrow> string option" where
  "isMappedIpv4 address =
     (let normalized = toLowerCase address in
      if \<not> starts_with ''::ffff:'' normalized then None
      else let suffix = drop (length ''::ffff:'') normalized in
        if isIP suffix = 4 then Some suffix else None)"

text \<open>\<open>address.replace(/^\[|\]$/g, "")\<close>.\<close>

definition strip_brackets :: "string \<Rightarrow> string" where
  "strip_brackets s =
     (let t = (case s of c # cs \<Rightarrow> if c = CHR ''['' then cs else s | [] \<Rightarrow> [])
      in if t \<noteq> [] \<and> last t = CHR '']'' then butlast t else t)"

section \<open>The address predicates\<close>

text \<open>An octet the pattern \<open>[a = -1, ...]\<close> reads past the end is -1.\<close>

definition octet :: "int list \<Rightarrow> nat \<Rightarrow> int" where
  "octet ps i = (if i < length ps then ps ! i else -1)"

definition blocked_v4 :: "int list \<Rightarrow> bool" where
  "blocked_v4 ipv4 =
     (let a = octet ipv4 0; b = octet ipv4 1 in
      a = 0 \<or> a = 10 \<or> a = 127 \<or> (a = 100 \<and> b \<ge> 64 \<and> b \<le> 127) \<or> (a = 169 \<and> b = 254) \<or>
      (a = 172 \<and> b \<ge> 16 \<and> b \<le> 31) \<or> (a = 192 \<and> b = 0) \<or>
      (a = 192 \<and> b = 88 \<and> octet ipv4 2 = 99) \<or> (a = 192 \<and> b = 168) \<or>
      (a = 198 \<and> (b = 18 \<or> b = 19)) \<or> (a = 198 \<and> b = 51) \<or> (a = 203 \<and> b = 0) \<or> a \<ge> 224)"

definition hard_blocked_v4 :: "int list \<Rightarrow> bool" where
  "hard_blocked_v4 ipv4 =
     (let a = octet ipv4 0; b = octet ipv4 1 in
      a = 0 \<or> a = 127 \<or> (a = 100 \<and> b \<ge> 64 \<and> b \<le> 127) \<or> (a = 169 \<and> b = 254) \<or>
      (a = 192 \<and> b = 0) \<or> (a = 192 \<and> b = 88 \<and> octet ipv4 2 = 99) \<or>
      (a = 198 \<and> (b = 18 \<or> b = 19)) \<or> (a = 198 \<and> b = 51) \<or> (a = 203 \<and> b = 0) \<or> a \<ge> 224)"

definition restricted_ssh_v4 :: "int list \<Rightarrow> bool" where
  "restricted_ssh_v4 ipv4 =
     (let a = octet ipv4 0; b = octet ipv4 1; c = octet ipv4 2; d = octet ipv4 3 in
      a = 0 \<or> a = 10 \<or> a = 127 \<or> (a = 100 \<and> b \<ge> 64 \<and> b \<le> 127) \<or> (a = 169 \<and> b = 254) \<or>
      (a = 172 \<and> b \<ge> 16 \<and> b \<le> 31) \<or> (a = 192 \<and> b = 0 \<and> c = 0) \<or> (a = 192 \<and> b = 168) \<or>
      (a = 198 \<and> b = 18) \<or> (a = 198 \<and> b = 51 \<and> c = 100) \<or> (a = 203 \<and> b = 0 \<and> c = 113) \<or>
      (a = 169 \<and> b = 254 \<and> c = 169 \<and> d = 254) \<or> a \<ge> 224)"

definition blocked_v6 :: "string \<Rightarrow> bool" where
  "blocked_v6 n \<longleftrightarrow>
     n = ''::'' \<or> n = ''::1'' \<or> starts_with ''fc'' n \<or> starts_with ''fd'' n \<or>
     starts_with ''fe8'' n \<or> starts_with ''fe9'' n \<or> starts_with ''fea'' n \<or>
     starts_with ''feb'' n \<or> starts_with ''ff'' n"

definition hard_blocked_v6 :: "string \<Rightarrow> bool" where
  "hard_blocked_v6 n \<longleftrightarrow>
     n = ''::'' \<or> n = ''::1'' \<or> starts_with ''fe8'' n \<or> starts_with ''fe9'' n \<or>
     starts_with ''fea'' n \<or> starts_with ''feb'' n \<or> starts_with ''ff'' n"

lemma toLowerCase_length [simp]: "length (toLowerCase s) = length s"
  by (simp add: toLowerCase_def)

lemma isMappedIpv4_length:
  assumes "isMappedIpv4 s = Some m"
  shows "length m < length s"
proof -
  from assms have "starts_with ''::ffff:'' (toLowerCase s)" and m: "m = drop (length ''::ffff:'') (toLowerCase s)"
    by (auto simp: isMappedIpv4_def Let_def split: if_splits)
  then obtain t where "toLowerCase s = ''::ffff:'' @ t" by (auto simp: starts_with_iff)
  from arg_cong [OF this, of length] m show ?thesis by simp
qed

lemma strip_brackets_length: "length (strip_brackets s) \<le> length s"
  by (cases s) (auto simp: strip_brackets_def Let_def)

function isBlockedAddress :: "string \<Rightarrow> bool" where
  "isBlockedAddress address =
     (let normalizedAddress = strip_brackets address in
      case isMappedIpv4 normalizedAddress of
        Some mapped \<Rightarrow> isBlockedAddress mapped
      | None \<Rightarrow>
          (case ipv4Parts normalizedAddress of
             Some ipv4 \<Rightarrow> blocked_v4 ipv4
           | None \<Rightarrow>
               if isIP normalizedAddress \<noteq> 6 then False
               else blocked_v6 (toLowerCase normalizedAddress)))"
  by pat_completeness auto
termination
  by (relation "measure length")
    (auto dest!: isMappedIpv4_length intro: less_le_trans [OF _ strip_brackets_length])

text \<open>
  Addresses that stay refused even when an operator allowlists the host.
\<close>

function isHardBlockedAddress :: "string \<Rightarrow> bool" where
  "isHardBlockedAddress address =
     (let normalizedAddress = strip_brackets address in
      case isMappedIpv4 normalizedAddress of
        Some mapped \<Rightarrow> isHardBlockedAddress mapped
      | None \<Rightarrow>
          (case ipv4Parts normalizedAddress of
             Some ipv4 \<Rightarrow> hard_blocked_v4 ipv4
           | None \<Rightarrow>
               if isIP normalizedAddress \<noteq> 6 then False
               else hard_blocked_v6 (toLowerCase normalizedAddress)))"
  by pat_completeness auto
termination
  by (relation "measure length")
    (auto dest!: isMappedIpv4_length intro: less_le_trans [OF _ strip_brackets_length])

function isRestrictedSshAddress :: "string \<Rightarrow> bool" where
  "isRestrictedSshAddress address =
     (let normalizedAddress = strip_brackets address in
      case isMappedIpv4 normalizedAddress of
        Some mapped \<Rightarrow> isRestrictedSshAddress mapped
      | None \<Rightarrow>
          (case ipv4Parts normalizedAddress of
             Some ipv4 \<Rightarrow> restricted_ssh_v4 ipv4
           | None \<Rightarrow>
               if isIP normalizedAddress \<noteq> 6 then False
               else blocked_v6 (toLowerCase normalizedAddress)))"
  by pat_completeness auto
termination
  by (relation "measure length")
    (auto dest!: isMappedIpv4_length intro: less_le_trans [OF _ strip_brackets_length])

declare isBlockedAddress.simps [simp del] isHardBlockedAddress.simps [simp del]
  isRestrictedSshAddress.simps [simp del]

section \<open>Endpoint checks\<close>

record url =
  url_protocol :: string
  url_hostname :: string
  url_port :: string
  url_username :: string
  url_password :: string

type_synonym url_parser = "string \<Rightarrow> url option"
type_synonym address_resolver = "string \<Rightarrow> string list option"

definition assertPublicHttpUrl :: "url_parser \<Rightarrow> address_resolver \<Rightarrow> string \<Rightarrow> string + url" where
  "assertPublicHttpUrl parse_url resolveHost rawUrl =
     (case parse_url rawUrl of
        None \<Rightarrow> Inl ''Endpoint must be a valid public HTTPS URL''
      | Some url \<Rightarrow>
          if url_protocol url \<noteq> ''https:'' \<or> (url_port url \<noteq> [] \<and> url_port url \<noteq> ''443'') \<or>
             url_username url \<noteq> [] \<or> url_password url \<noteq> [] \<or> url_hostname url = [] \<or>
             url_hostname url = ''localhost'' \<or> ends_with ''.localhost'' (url_hostname url) \<or>
             isBlockedAddress (url_hostname url)
          then Inl ''Endpoint must be a valid public HTTPS URL on port 443''
          else (case resolveHost (url_hostname url) of
                  None \<Rightarrow> Inl ''Endpoint hostname could not be resolved''
                | Some addresses \<Rightarrow>
                    if addresses = [] \<or> list_ex isBlockedAddress addresses
                    then Inl ''Endpoint must resolve only to public addresses''
                    else Inr url))"

text \<open>\<open>s.toLowerCase().replace(/\.$/, "")\<close>.\<close>

definition normalize_host :: "string \<Rightarrow> string" where
  "normalize_host s =
     (let t = toLowerCase s in if t \<noteq> [] \<and> last t = CHR ''.'' then butlast t else t)"

definition isExplicitlyAllowed :: "string \<Rightarrow> string list \<Rightarrow> bool" where
  "isExplicitlyAllowed hostname allowlistedHosts \<longleftrightarrow>
     list_ex (\<lambda>allowedHost. normalize_host allowedHost = hostname) allowlistedHosts"

definition assertConfiguredHttpUrlSyntax :: "url_parser \<Rightarrow> string \<Rightarrow> string list \<Rightarrow> string + url" where
  "assertConfiguredHttpUrlSyntax parse_url rawUrl allowlistedHosts =
     (case parse_url rawUrl of
        None \<Rightarrow> Inl ''Endpoint must be a valid HTTP(S) URL''
      | Some url \<Rightarrow>
          if url_protocol url \<notin> {''http:'', ''https:''} \<or> url_username url \<noteq> [] \<or>
             url_password url \<noteq> [] \<or> url_hostname url = []
          then Inl ''Endpoint must be a valid HTTP(S) URL without credentials''
          else let hostname = normalize_host (url_hostname url) in
            if isExplicitlyAllowed hostname allowlistedHosts then Inr url
            else if url_protocol url \<noteq> ''https:'' \<or> (url_port url \<noteq> [] \<and> url_port url \<noteq> ''443'') \<or>
                    hostname = ''localhost'' \<or> ends_with ''.localhost'' hostname \<or>
                    isBlockedAddress hostname
            then Inl ''Endpoint must be a valid public HTTPS URL on port 443''
            else Inr url)"

definition assertConfiguredHttpUrl ::
  "url_parser \<Rightarrow> address_resolver \<Rightarrow> string \<Rightarrow> string list \<Rightarrow> string + url" where
  "assertConfiguredHttpUrl parse_url resolveHost rawUrl allowlistedHosts =
     (case assertConfiguredHttpUrlSyntax parse_url rawUrl allowlistedHosts of
        Inl e \<Rightarrow> Inl e
      | Inr url \<Rightarrow>
          let hostname = normalize_host (url_hostname url) in
          if isExplicitlyAllowed hostname allowlistedHosts
          then (case resolveHost hostname of
                  None \<Rightarrow> Inl ''Endpoint hostname could not be resolved''
                | Some addresses \<Rightarrow>
                    if addresses = [] \<or> list_ex isHardBlockedAddress addresses
                    then Inl ''Allowlisted endpoint resolves to a blocked address''
                    else Inr url)
          else assertPublicHttpUrl parse_url resolveHost rawUrl)"

text \<open>\<open>addresses[0]?.address || normalized\<close>: an empty first address falls back to the host.\<close>

definition assertSafeSshTarget :: "address_resolver \<Rightarrow> string \<Rightarrow> string list \<Rightarrow> string + string" where
  "assertSafeSshTarget resolveHost host allowlistedHosts =
     (let normalized = toLowerCase (trim host);
          isAllowlisted = normalized \<in> set (map normalize_host allowlistedHosts)
      in if isAllowlisted \<and> isIP normalized \<noteq> 0
         then (if isHardBlockedAddress normalized
               then Inl ''SSH target resolves to a blocked address'' else Inr normalized)
         else if normalized = ''localhost'' \<or> ends_with ''.localhost'' normalized \<or>
                 (isRestrictedSshAddress normalized \<and> \<not> isAllowlisted)
         then Inl ''SSH target is not allowed''
         else if isIP normalized \<noteq> 0 then Inr normalized
         else (case resolveHost normalized of
                 None \<Rightarrow> Inl ''SSH target hostname could not be resolved''
               | Some [] \<Rightarrow> Inl ''SSH target hostname could not be resolved''
               | Some (first # rest) \<Rightarrow>
                   if isAllowlisted \<and> list_ex isHardBlockedAddress (first # rest)
                   then Inl ''SSH target resolves to a blocked address''
                   else if \<not> isAllowlisted \<and> list_ex isRestrictedSshAddress (first # rest)
                   then Inl ''SSH target resolves to a restricted address''
                   else Inr (if first \<noteq> [] then first else normalized)))"

end
