(* ===== verification/Net_Guarantees.thy ===== *)
theory Net_Guarantees
  imports Net_Policy
begin

text \<open>
  What the outbound policy guarantees. The locale \<open>address_filter\<close> states the common
  shape of the three address predicates and what follows from it; each predicate of
  \<open>outbound.ts\<close> interprets it. The address ranges the predicates test by octets are
  related to CIDR blocks over 32-bit words.
\<close>

section \<open>Dotted addresses\<close>

lemma v4Seg_digits: "v4Seg s \<Longrightarrow> c \<in> set s \<Longrightarrow> is_digit c"
  by (auto simp: v4Seg_def list_all_iff)

lemma set_join_subset: "set (join sep ws) \<subseteq> set sep \<union> \<Union> (set ` set ws)"
  by (induction sep ws rule: join.induct) auto

lemma isIPv4_chars:
  assumes "isIPv4 s" "c \<in> set s"
  shows "is_digit c \<or> c = CHR ''.''"
proof -
  have "c \<in> set (join ''.'' (split_on CHR ''.'' s))" using assms(2) by (simp add: join_split_on)
  then consider "c = CHR ''.''" | w where "w \<in> set (split_on CHR ''.'' s)" "c \<in> set w"
    using set_join_subset [of "''.''" "split_on CHR ''.'' s"] by auto
  then show ?thesis
    using assms(1) by cases (auto simp: isIPv4_def Let_def list_all_iff dest: v4Seg_digits)
qed

lemma isIPv4_nonempty: "isIPv4 s \<Longrightarrow> s \<noteq> []"
  by (auto simp: isIPv4_def len_def)

lemma isIPv4_strip [simp]:
  assumes "isIPv4 s"
  shows "strip_brackets s = s"
proof -
  have n: "CHR ''['' \<notin> set s" "CHR '']'' \<notin> set s"
    using isIPv4_chars [OF assms, of "CHR ''[''"] isIPv4_chars [OF assms, of "CHR '']''"]
    by (auto simp: is_digit_def code_def)
  from isIPv4_nonempty [OF assms] n show ?thesis
    by (cases s) (auto simp: strip_brackets_def dest: last_in_set)
qed

lemma lower_digit [simp]: "is_digit c \<Longrightarrow> lower_char c = c"
  by (auto simp: is_digit_def lower_char_def)

lemma isIPv4_not_mapped [simp]:
  assumes "isIPv4 s"
  shows "isMappedIpv4 s = None"
proof -
  obtain c cs where s: "s = c # cs" using isIPv4_nonempty [OF assms] by (cases s) auto
  with isIPv4_chars [OF assms, of c] have "is_digit c \<or> c = CHR ''.''" by simp
  then have "lower_char c \<noteq> CHR '':''" by (auto simp: is_digit_def code_def lower_char_def)
  with s show ?thesis by (auto simp: isMappedIpv4_def Let_def toLowerCase_def starts_with_iff)
qed

lemma isIP_v4 [simp]: "isIP s = 4 \<longleftrightarrow> isIPv4 s"
  by (auto simp: isIP_def)

lemma isMappedIpv4_v4: "isMappedIpv4 s = Some m \<Longrightarrow> isIPv4 m"
  by (auto simp: isMappedIpv4_def Let_def split: if_splits)

lemma decimal_nonneg:
  assumes "list_all is_digit s"
  shows "0 \<le> decimal s"
proof -
  have "0 \<le> n \<Longrightarrow> list_all is_digit s \<Longrightarrow> 0 \<le> foldl (\<lambda>n c. 10 * n + (code c - 48)) n s" for n
    by (induction s arbitrary: n) (auto simp: is_digit_def)
  with assms show ?thesis by (simp add: decimal_def)
qed

lemma ipv4Parts_of_v4:
  assumes "isIPv4 s"
  obtains a b c d where "ipv4Parts s = Some [a, b, c, d]"
    "0 \<le> a" "a \<le> 255" "0 \<le> b" "b \<le> 255" "0 \<le> c" "c \<le> 255" "0 \<le> d" "d \<le> 255"
proof -
  let ?ps = "map decimal (split_on CHR ''.'' s)"
  from assms have seg: "\<forall>p \<in> set ?ps. 0 \<le> p \<and> p \<le> 255" and l: "length ?ps = 4"
    by (auto simp: isIPv4_def v4Seg_def list_all_iff decimal_nonneg len_def Let_def)
  from l obtain a b c d where ps: "?ps = [a, b, c, d]"
    by (auto simp: numeral_eq_Suc length_Suc_conv)
  have "ipv4Parts s = Some [a, b, c, d]"
    using assms seg unfolding ipv4Parts_def ps by (simp add: len_def)
  moreover have "\<forall>p \<in> set [a, b, c, d]. 0 \<le> p \<and> p \<le> 255" using seg unfolding ps .
  ultimately show ?thesis using that by simp
qed

lemma ipv4Parts_iff: "ipv4Parts s = None \<longleftrightarrow> \<not> isIPv4 s"
  by (metis ipv4Parts_of_v4 ipv4Parts_def isIP_v4 option.distinct(1))

lemma isMappedIpv4_prefix:
  assumes "isIPv4 s"
  shows "isMappedIpv4 (''::ffff:'' @ s) = Some s"
proof -
  have "lower_char c = c" if "c \<in> set s" for c
    using isIPv4_chars [OF assms that] by (auto simp: lower_char_def is_digit_def code_def)
  then have "toLowerCase s = s" by (simp add: toLowerCase_def map_idI)
  moreover have "toLowerCase ''::ffff:'' = ''::ffff:''" by code_simp
  ultimately have "toLowerCase (''::ffff:'' @ s) = ''::ffff:'' @ s"
    by (simp add: toLowerCase_def del: append_Cons)
  with assms show ?thesis by (simp add: isMappedIpv4_def starts_with_def)
qed

lemma mapped_strip:
  assumes "isIPv4 s"
  shows "strip_brackets (''::ffff:'' @ s) = ''::ffff:'' @ s"
proof -
  have "last (''::ffff:'' @ s) \<noteq> CHR '']''"
    using isIPv4_chars [OF assms, of "CHR '']''"] isIPv4_nonempty [OF assms]
    by (auto simp: is_digit_def code_def dest: last_in_set)
  then show ?thesis by (simp add: strip_brackets_def)
qed

section \<open>The shape of an address predicate\<close>

text \<open>The address a predicate judges: without brackets, and unmapped.\<close>

definition judged_address :: "string \<Rightarrow> string" where
  "judged_address s =
     (case isMappedIpv4 (strip_brackets s) of Some m \<Rightarrow> m | None \<Rightarrow> strip_brackets s)"

locale address_filter =
  fixes refuse :: "string \<Rightarrow> bool"
    and v4 :: "int list \<Rightarrow> bool"
    and v6 :: "string \<Rightarrow> bool"
  assumes refuse_rec: "refuse s =
    (let n = strip_brackets s in
     case isMappedIpv4 n of
       Some mapped \<Rightarrow> refuse mapped
     | None \<Rightarrow>
         (case ipv4Parts n of
            Some ps \<Rightarrow> v4 ps
          | None \<Rightarrow> if isIP n \<noteq> 6 then False else v6 (toLowerCase n)))"
begin

lemma refuse_v4:
  assumes "isIPv4 s"
  shows "refuse s = v4 (the (ipv4Parts s))"
proof -
  from assms obtain ps where "ipv4Parts s = Some ps" by (rule ipv4Parts_of_v4)
  with assms show ?thesis by (subst refuse_rec) (simp add: Let_def)
qed

lemma refuse_mapped:
  "isMappedIpv4 (strip_brackets s) = Some m \<Longrightarrow> refuse s = v4 (the (ipv4Parts m))"
  by (subst refuse_rec) (simp add: Let_def refuse_v4 isMappedIpv4_v4)

lemma refuse_mapped_prefix:
  assumes "isIPv4 s"
  shows "refuse (''::ffff:'' @ s) = refuse s"
proof -
  have "isMappedIpv4 (strip_brackets (''::ffff:'' @ s)) = Some s"
    unfolding mapped_strip [OF assms] by (rule isMappedIpv4_prefix [OF assms])
  from refuse_mapped [OF this] refuse_v4 [OF assms] show ?thesis by (rule trans [OF _ sym])
qed

text \<open>An address is judged as an IPv4 address, or as an IPv6 address, or it is no address.\<close>

lemma refuse_judged:
  "refuse s =
     (case ipv4Parts (judged_address s) of
        Some ps \<Rightarrow> v4 ps
      | None \<Rightarrow> isIP (judged_address s) = 6 \<and> v6 (toLowerCase (judged_address s)))"
proof (cases "isMappedIpv4 (strip_brackets s)")
  case (Some m)
  from isMappedIpv4_v4 [OF Some] obtain ps where "ipv4Parts m = Some ps" by (rule ipv4Parts_of_v4)
  with refuse_mapped [OF Some] Some show ?thesis by (simp add: judged_address_def)
next
  case None
  then show ?thesis by (subst refuse_rec) (simp add: judged_address_def Let_def split: option.split)
qed

end

interpretation blocked: address_filter isBlockedAddress blocked_v4 blocked_v6
  by unfold_locales (rule isBlockedAddress.simps)

interpretation hard: address_filter isHardBlockedAddress hard_blocked_v4 hard_blocked_v6
  by unfold_locales (rule isHardBlockedAddress.simps)

interpretation ssh: address_filter isRestrictedSshAddress restricted_ssh_v4 blocked_v6
  by unfold_locales (rule isRestrictedSshAddress.simps)

section \<open>CIDR blocks\<close>

definition ip :: "int \<Rightarrow> int \<Rightarrow> int \<Rightarrow> int \<Rightarrow> 32 word" where
  "ip a b c d = word_of_int (((a * 256 + b) * 256 + c) * 256 + d)"

definition in_cidr :: "32 word \<Rightarrow> 32 word \<times> nat \<Rightarrow> bool" where
  "in_cidr w cidr \<longleftrightarrow> drop_bit (32 - snd cidr) w = drop_bit (32 - snd cidr) (fst cidr)"

definition is_octet :: "int \<Rightarrow> bool" where
  "is_octet n \<longleftrightarrow> 0 \<le> n \<and> n \<le> 255"

text \<open>RFC 1918 space, which an operator may allowlist.\<close>

definition PRIVATE_CIDRS :: "(32 word \<times> nat) list" where
  "PRIVATE_CIDRS = [(ip 10 0 0 0, 8), (ip 172 16 0 0, 12), (ip 192 168 0 0, 16)]"

text \<open>
  Blocks that are never public: this host, shared space, loopback, link local (cloud
  metadata), protocol assignments, 6to4 relays, benchmarking, documentation, multicast and
  reserved.
\<close>

definition HARD_CIDRS :: "(32 word \<times> nat) list" where
  "HARD_CIDRS =
     [(ip 0 0 0 0, 8), (ip 100 64 0 0, 10), (ip 127 0 0 0, 8), (ip 169 254 0 0, 16),
      (ip 192 0 0 0, 16), (ip 192 88 99 0, 24), (ip 198 18 0 0, 15), (ip 198 51 0 0, 16),
      (ip 203 0 0 0, 16), (ip 224 0 0 0, 3)]"

lemma is_octet_zero [simp]: "is_octet 0"
  by (simp add: is_octet_def)

lemma is_octet_numeral [simp]: "is_octet (numeral n) \<longleftrightarrow> (numeral n :: int) \<le> 255"
  by (simp add: is_octet_def)

lemma drop_word_of_int:
  assumes "0 \<le> x" "x < 2 ^ 32" "0 \<le> y" "y < 2 ^ 32"
  shows "drop_bit k (word_of_int x :: 32 word) = drop_bit k (word_of_int y) \<longleftrightarrow>
    x div 2 ^ k = y div 2 ^ k"
proof -
  have u: "uint (drop_bit k (word_of_int z :: 32 word)) = z div 2 ^ k" if "0 \<le> z" "z < 2 ^ 32" for z
    unfolding unsigned_drop_bit_eq
    using that by (simp add: take_bit_eq_mod drop_bit_eq_div uint_word_of_int)
  show ?thesis
    by (simp only: word_uint_eq_iff u [OF assms(1,2)] u [OF assms(3,4)])
qed

lemma in_cidr_ip:
  assumes "is_octet a" "is_octet b" "is_octet c" "is_octet d"
    "is_octet a'" "is_octet b'" "is_octet c'" "is_octet d'"
  shows "in_cidr (ip a b c d) (ip a' b' c' d', n) \<longleftrightarrow>
    (((a * 256 + b) * 256 + c) * 256 + d) div 2 ^ (32 - n) =
    (((a' * 256 + b') * 256 + c') * 256 + d') div 2 ^ (32 - n)"
  unfolding in_cidr_def ip_def fst_conv snd_conv
  by (rule drop_word_of_int) (use assms in \<open>auto simp: is_octet_def\<close>)

lemma drop_octet:
  assumes "is_octet z"
  shows "(y * 256 + z) div 2 ^ (8 + m) = y div 2 ^ m"
proof -
  have "(y * 256 + z) div (256 * 2 ^ m) = (y * 256 + z) div 256 div 2 ^ m"
    by (rule zdiv_zmult2_eq) simp
  moreover have "(y * 256 + z) div 256 = y" using assms by (simp add: is_octet_def)
  ultimately show ?thesis by (simp add: power_add)
qed

lemma digit_unique:
  assumes "y * k + r = y' * k + (r' :: int)" "0 \<le> r" "r < k" "0 \<le> r'" "r' < k"
  shows "y = y' \<and> r = r'"
proof -
  have "y = (y * k + r) div k" "r = (y * k + r) mod k" using assms(2,3) by auto
  moreover have "y' = (y' * k + r') div k" "r' = (y' * k + r') mod k" using assms(4,5) by auto
  ultimately show ?thesis using assms(1) by metis
qed

lemma split_octet:
  assumes "is_octet z" "is_octet z'" "m \<le> 8"
  shows "(y * 256 + z) div 2 ^ m = (y' * 256 + z') div 2 ^ m \<longleftrightarrow>
    y = y' \<and> z div 2 ^ m = z' div 2 ^ m"
proof -
  define k :: int where "k = 2 ^ (8 - m)"
  define p :: int where "p = 2 ^ m"
  have p: "0 < p" by (simp add: p_def)
  have "2 ^ (8 - m) * 2 ^ m = (2 :: int) ^ 8" using assms(3) by (simp flip: power_add)
  then have kp: "k * p = 256" by (simp add: k_def p_def)
  have high: "(y * 256 + z) div p = y * k + z div p" for y z
  proof -
    have "y * 256 + z = z + (y * k) * p" using kp by (simp add: mult.assoc)
    then show ?thesis using p by (simp only: div_mult_self1)
  qed
  have low: "0 \<le> z div p \<and> z div p < k" if "is_octet z" for z
  proof
    from that p show "0 \<le> z div p" by (simp add: is_octet_def pos_imp_zdiv_nonneg_iff)
    show "z div p < k"
    proof (rule ccontr)
      assume "\<not> z div p < k"
      then have "k * p \<le> z div p * p" using p by (simp add: mult_right_mono)
      also have "\<dots> \<le> z" using div_mult_mod_eq [of z p] pos_mod_sign [OF p, of z] by linarith
      finally show False using that kp by (simp add: is_octet_def)
    qed
  qed
  from low [OF assms(1)] low [OF assms(2)] show ?thesis
    unfolding p_def [symmetric] high by (auto dest: digit_unique)
qed

lemma cidr_first:
  assumes "is_octet a" "is_octet b" "is_octet c" "is_octet d" "is_octet a'" "n \<le> 8"
  shows "in_cidr (ip a b c d) (ip a' 0 0 0, n) \<longleftrightarrow> a div 2 ^ (8 - n) = a' div 2 ^ (8 - n)"
proof -
  from assms(6) have n: "32 - n = 8 + (8 + (8 + (8 - n)))" by simp
  show ?thesis by (simp only: in_cidr_ip assms is_octet_zero n drop_octet)
qed

lemma cidr_second:
  assumes "is_octet a" "is_octet b" "is_octet c" "is_octet d" "is_octet a'" "is_octet b'"
    "8 < n" "n \<le> 16"
  shows "in_cidr (ip a b c d) (ip a' b' 0 0, n) \<longleftrightarrow>
    a = a' \<and> b div 2 ^ (16 - n) = b' div 2 ^ (16 - n)"
proof -
  from assms(8) have n: "32 - n = 8 + (8 + (16 - n))" by simp
  from assms(7) have "16 - n \<le> 8" by simp
  then show ?thesis by (simp only: in_cidr_ip assms is_octet_zero n drop_octet split_octet)
qed

lemma cidr_third:
  assumes "is_octet a" "is_octet b" "is_octet c" "is_octet d" "is_octet a'" "is_octet b'" "is_octet c'"
  shows "in_cidr (ip a b c d) (ip a' b' c' 0, 24) \<longleftrightarrow> a = a' \<and> b = b' \<and> c = c'"
proof -
  have n: "(32 :: nat) - 24 = 8 + 0" by simp
  have split: "y * 256 + z = y' * 256 + z' \<longleftrightarrow> y = y' \<and> z = z'" if "is_octet z" "is_octet z'" for y y' z z'
    using split_octet [OF that, of 0] by simp
  show ?thesis
    by (simp only: in_cidr_ip assms is_octet_zero n drop_octet power_0 div_by_1 split conj_assoc)
qed

lemmas cidr_simps = cidr_first cidr_second cidr_third

lemma range_divs:
  "(b :: int) div 16 = 1 \<longleftrightarrow> 16 \<le> b \<and> b \<le> 31" "b div 64 = 1 \<longleftrightarrow> 64 \<le> b \<and> b \<le> 127"
  "b div 2 = 9 \<longleftrightarrow> b = 18 \<or> b = 19" "b div 32 = 7 \<longleftrightarrow> 224 \<le> b \<and> b \<le> 255"
  by presburger+

lemma private_v4_cidrs:
  assumes "is_octet a" "is_octet b" "is_octet c" "is_octet d"
  shows "list_ex (in_cidr (ip a b c d)) PRIVATE_CIDRS \<longleftrightarrow>
    a = 10 \<or> (a = 172 \<and> 16 \<le> b \<and> b \<le> 31) \<or> (a = 192 \<and> b = 168)"
  using assms by (simp add: PRIVATE_CIDRS_def cidr_simps range_divs)

lemma hard_v4_cidrs:
  assumes "is_octet a" "is_octet b" "is_octet c" "is_octet d"
  shows "list_ex (in_cidr (ip a b c d)) HARD_CIDRS \<longleftrightarrow> hard_blocked_v4 [a, b, c, d]"
proof -
  from assms(1) have "a \<le> 255" by (simp add: is_octet_def)
  with assms show ?thesis
    by (simp add: HARD_CIDRS_def cidr_simps range_divs hard_blocked_v4_def octet_def) blast
qed

lemma octets_of_v4:
  assumes "ipv4Parts s = Some [a, b, c, d]"
  shows "isIPv4 s" "is_octet a" "is_octet b" "is_octet c" "is_octet d"
  using assms by (auto simp: ipv4Parts_def is_octet_def Let_def split: if_splits)

lemma blocked_v4_split:
  "blocked_v4 [a, b, c, d] \<longleftrightarrow>
     hard_blocked_v4 [a, b, c, d] \<or> a = 10 \<or> (a = 172 \<and> 16 \<le> b \<and> b \<le> 31) \<or> (a = 192 \<and> b = 168)"
  by (auto simp: blocked_v4_def hard_blocked_v4_def octet_def Let_def)

lemma blocked_v6_split:
  "blocked_v6 n \<longleftrightarrow> hard_blocked_v6 n \<or> starts_with ''fc'' n \<or> starts_with ''fd'' n"
  by (auto simp: blocked_v6_def hard_blocked_v6_def)

text \<open>
  The private addresses, which are refused by default and reachable when allowlisted: RFC 1918
  blocks, plain or IPv4-mapped, and unique local IPv6 addresses.
\<close>

definition private_address :: "string \<Rightarrow> bool" where
  "private_address s =
     (case ipv4Parts (judged_address s) of
        Some ps \<Rightarrow> list_ex (in_cidr (ip (octet ps 0) (octet ps 1) (octet ps 2) (octet ps 3))) PRIVATE_CIDRS
      | None \<Rightarrow>
          isIP (judged_address s) = 6 \<and>
          (starts_with ''fc'' (toLowerCase (judged_address s)) \<or>
           starts_with ''fd'' (toLowerCase (judged_address s))))"

lemma blocked_v4_cidrs:
  assumes "ipv4Parts s = Some [a, b, c, d]"
  shows "isBlockedAddress s = list_ex (in_cidr (ip a b c d)) (HARD_CIDRS @ PRIVATE_CIDRS)"
proof -
  note o = octets_of_v4 [OF assms]
  show ?thesis
    using blocked.refuse_v4 [OF o(1)] assms
    by (simp add: hard_v4_cidrs [OF o(2-5)] private_v4_cidrs [OF o(2-5)] blocked_v4_split)
qed

definition sample_url :: url where
  "sample_url =
     \<lparr>url_protocol = ''https:'', url_hostname = ''example.com'', url_port = [], url_username = [],
      url_password = []\<rparr>"

section \<open>Properties\<close>

text \<open>
  C25. On IPv4 the predicates are exactly the CIDR blocks: a dotted address is hard-blocked
  if and only if its 32-bit value is in one of the never-public blocks, blocked if and only
  if it is in one of those or in RFC 1918 space, and both verdicts are the same for the
  IPv4-mapped spelling of the address.
\<close>

theorem blocked_ipv4_is_cidr:
  assumes "ipv4Parts s = Some [a, b, c, d]"
  shows "(isHardBlockedAddress s \<longleftrightarrow> list_ex (in_cidr (ip a b c d)) HARD_CIDRS) \<and>
    (isBlockedAddress s \<longleftrightarrow> list_ex (in_cidr (ip a b c d)) (HARD_CIDRS @ PRIVATE_CIDRS)) \<and>
    isHardBlockedAddress (''::ffff:'' @ s) = isHardBlockedAddress s \<and>
    isBlockedAddress (''::ffff:'' @ s) = isBlockedAddress s"
proof -
  note o = octets_of_v4 [OF assms]
  have "isHardBlockedAddress s = hard_blocked_v4 [a, b, c, d]"
    using hard.refuse_v4 [OF o(1)] assms by simp
  moreover note hard.refuse_mapped_prefix [OF o(1)] blocked.refuse_mapped_prefix [OF o(1)]
  ultimately show ?thesis
    by (simp only: hard_v4_cidrs [OF o(2-5)] blocked_v4_cidrs [OF assms] simp_thms)
qed

theorem blocked_ipv4_is_cidr_witness:
  "isHardBlockedAddress ''169.254.169.254'' \<and> isBlockedAddress ''::ffff:169.254.169.254''"
proof -
  have "ipv4Parts ''169.254.169.254'' = Some [169, 254, 169, 254]" by code_simp
  from blocked_ipv4_is_cidr [OF this] hard_v4_cidrs [of 169 254 169 254] show ?thesis
    by (simp add: hard_blocked_v4_def octet_def)
qed

text \<open>
  An operator's allowlist can open private space and nothing else: on every address, in
  any spelling, being blocked is being hard-blocked or being a private address.
\<close>

theorem blocked_is_hard_or_private:
  "isBlockedAddress s \<longleftrightarrow> isHardBlockedAddress s \<or> private_address s"
proof (cases "isIPv4 (judged_address s)")
  case True
  then obtain a b c d where p: "ipv4Parts (judged_address s) = Some [a, b, c, d]"
    by (rule ipv4Parts_of_v4)
  note o = octets_of_v4 [OF p]
  from p show ?thesis
    by (simp add: blocked.refuse_judged hard.refuse_judged private_address_def octet_def
        private_v4_cidrs [OF o(2-5)] blocked_v4_split)
next
  case False
  then have "ipv4Parts (judged_address s) = None" by (simp add: ipv4Parts_iff)
  then show ?thesis
    by (auto simp: blocked.refuse_judged hard.refuse_judged private_address_def blocked_v6_split)
qed

text \<open>
  An endpoint \<open>assertPublicHttpUrl\<close> accepts is HTTPS on port 443 without
  credentials, is not a localhost name, and resolved to at least one address, none of them an
  IPv4 address, plain or mapped, in a private or never-public block.
\<close>

theorem public_endpoint_is_public:
  assumes "assertPublicHttpUrl parse_url resolveHost raw = Inr url"
  shows "parse_url raw = Some url \<and> url_protocol url = ''https:'' \<and> url_port url \<in> {[], ''443''} \<and>
    url_username url = [] \<and> url_password url = [] \<and> url_hostname url \<noteq> ''localhost'' \<and>
    \<not> ends_with ''.localhost'' (url_hostname url) \<and>
    (\<exists>addresses. resolveHost (url_hostname url) = Some addresses \<and> addresses \<noteq> [] \<and>
       (\<forall>x s a b c d. x \<in> set addresses \<longrightarrow> ipv4Parts s = Some [a, b, c, d] \<longrightarrow>
          x = s \<or> x = ''::ffff:'' @ s \<longrightarrow>
          \<not> list_ex (in_cidr (ip a b c d)) (HARD_CIDRS @ PRIVATE_CIDRS)))"
proof -
  from assms obtain addresses where
    a: "resolveHost (url_hostname url) = Some addresses" "addresses \<noteq> []"
      "\<not> list_ex isBlockedAddress addresses"
    and u: "parse_url raw = Some url" "url_protocol url = ''https:''" "url_port url \<in> {[], ''443''}"
      "url_username url = []" "url_password url = []" "url_hostname url \<noteq> ''localhost''"
      "\<not> ends_with ''.localhost'' (url_hostname url)"
    by (auto simp: assertPublicHttpUrl_def split: option.splits if_splits)
  have "\<not> list_ex (in_cidr (ip a b c d)) (HARD_CIDRS @ PRIVATE_CIDRS)"
    if "x \<in> set addresses" "ipv4Parts s = Some [a, b, c, d]" "x = s \<or> x = ''::ffff:'' @ s"
    for x s a b c d
  proof -
    from a(3) that(1) have "\<not> isBlockedAddress x" by (auto simp: list_ex_iff)
    moreover from that(3) have "isBlockedAddress x = isBlockedAddress s"
      using blocked.refuse_mapped_prefix [OF octets_of_v4(1) [OF that(2)]] by (elim disjE) simp_all
    moreover have "isBlockedAddress s = list_ex (in_cidr (ip a b c d)) (HARD_CIDRS @ PRIVATE_CIDRS)"
      using blocked_v4_cidrs [OF that(2)] .
    ultimately show ?thesis by simp
  qed
  with a u show ?thesis by (intro conjI exI [of _ addresses]) blast+
qed

theorem public_endpoint_is_public_witness:
  "assertPublicHttpUrl (\<lambda>_. Some sample_url) (\<lambda>_. Some [''93.184.216.34'']) [] = Inr sample_url \<and>
   url_hostname sample_url \<noteq> ''localhost''"
proof -
  have ok: "assertPublicHttpUrl (\<lambda>_. Some sample_url) (\<lambda>_. Some [''93.184.216.34'']) [] = Inr sample_url"
    by code_simp
  from public_endpoint_is_public [OF ok] ok show ?thesis by blast
qed

text \<open>
  An endpoint \<open>assertConfiguredHttpUrl\<close> accepts is HTTP or HTTPS without
  credentials, and either its host is allowlisted and every resolved address is outside the
  hard-blocked set, or it passed the public check.
\<close>

theorem configured_endpoint_policy:
  assumes "assertConfiguredHttpUrl parse_url resolveHost raw allowed = Inr url"
  shows "parse_url raw = Some url \<and> url_protocol url \<in> {''http:'', ''https:''} \<and>
    url_username url = [] \<and> url_password url = [] \<and>
    (if normalize_host (url_hostname url) \<in> set (map normalize_host allowed)
     then \<exists>addresses. resolveHost (normalize_host (url_hostname url)) = Some addresses \<and>
            addresses \<noteq> [] \<and> \<not> list_ex isHardBlockedAddress addresses
     else assertPublicHttpUrl parse_url resolveHost raw = Inr url)"
proof -
  have allowed: "isExplicitlyAllowed h allowed \<longleftrightarrow> h \<in> set (map normalize_host allowed)" for h
    by (auto simp: isExplicitlyAllowed_def list_ex_iff)
  from assms obtain u where
    syn: "assertConfiguredHttpUrlSyntax parse_url raw allowed = Inr u"
    by (auto simp: assertConfiguredHttpUrl_def split: sum.splits)
  then have u: "parse_url raw = Some u" "url_protocol u \<in> {''http:'', ''https:''}"
    "url_username u = []" "url_password u = []"
    by (auto simp: assertConfiguredHttpUrlSyntax_def Let_def split: option.splits if_splits)
  show ?thesis
  proof (cases "normalize_host (url_hostname u) \<in> set (map normalize_host allowed)")
    case True
    with assms syn u show ?thesis
      by (auto simp: assertConfiguredHttpUrl_def allowed Let_def split: option.splits if_splits)
  next
    case False
    with assms syn have p: "assertPublicHttpUrl parse_url resolveHost raw = Inr url"
      by (simp add: assertConfiguredHttpUrl_def allowed Let_def del: set_map)
    then have "parse_url raw = Some url"
      by (auto simp: assertPublicHttpUrl_def split: option.splits if_splits)
    with p u False show ?thesis by simp
  qed
qed

theorem configured_endpoint_policy_witness:
  "assertConfiguredHttpUrl (\<lambda>_. Some (sample_url\<lparr>url_protocol := ''http:''\<rparr>))
     (\<lambda>_. Some [''10.0.0.8'']) [] [''Example.com.''] = Inr (sample_url\<lparr>url_protocol := ''http:''\<rparr>) \<and>
   url_password sample_url = []"
proof -
  have ok: "assertConfiguredHttpUrl (\<lambda>_. Some (sample_url\<lparr>url_protocol := ''http:''\<rparr>))
     (\<lambda>_. Some [''10.0.0.8'']) [] [''Example.com.''] = Inr (sample_url\<lparr>url_protocol := ''http:''\<rparr>)"
    by code_simp
  from configured_endpoint_policy [OF ok] ok show ?thesis by simp
qed

text \<open>
  The SSH target handed out is never an address its policy refuses: for an allowlisted
  host it is not hard-blocked, for any other host it is not restricted, and it is the
  normalized host itself or one of the addresses it resolved to. The resolver is assumed to
  answer with non-empty addresses.
\<close>

theorem ssh_target_policy:
  assumes "assertSafeSshTarget resolveHost host allowed = Inr t"
    and "\<And>addresses. resolveHost (toLowerCase (trim host)) = Some addresses \<Longrightarrow> [] \<notin> set addresses"
  shows "(if toLowerCase (trim host) \<in> set (map normalize_host allowed)
          then \<not> isHardBlockedAddress t else \<not> isRestrictedSshAddress t) \<and>
    (t = toLowerCase (trim host) \<and> isIP t \<noteq> 0 \<or>
     (\<exists>addresses. resolveHost (toLowerCase (trim host)) = Some addresses \<and> t \<in> set addresses))"
proof (cases "isIP (toLowerCase (trim host)) \<noteq> 0")
  case True
  with assms(1) show ?thesis
    by (auto simp: assertSafeSshTarget_def Let_def split: if_splits)
next
  case False
  with assms(1) obtain first rest where
    r: "resolveHost (toLowerCase (trim host)) = Some (first # rest)"
    and chk: "if toLowerCase (trim host) \<in> set (map normalize_host allowed)
      then \<not> list_ex isHardBlockedAddress (first # rest)
      else \<not> list_ex isRestrictedSshAddress (first # rest)"
    and t: "t = (if first \<noteq> [] then first else toLowerCase (trim host))"
    by (auto simp: assertSafeSshTarget_def Let_def split: option.splits list.splits if_splits)
  from assms(2) [OF r] t have "t = first" by auto
  with r chk show ?thesis by (simp split: if_splits)
qed

theorem ssh_target_policy_witness:
  "assertSafeSshTarget (\<lambda>_. Some [''10.0.0.8'']) '' git.internal '' [''git.internal.''] = Inr ''10.0.0.8'' \<and>
   \<not> isHardBlockedAddress ''10.0.0.8''"
proof -
  have ok: "assertSafeSshTarget (\<lambda>_. Some [''10.0.0.8'']) '' git.internal '' [''git.internal.''] =
      Inr ''10.0.0.8''" "toLowerCase (trim '' git.internal '') = ''git.internal''"
    "normalize_host ''git.internal.'' = ''git.internal''"
    by code_simp+
  from ssh_target_policy [OF ok(1)] ok show ?thesis by simp
qed

text \<open>
  The IPv6 side of the predicates compares spellings, not values: the loopback address
  written as an uncompressed IPv6 address or as a hexadecimal IPv4-mapped address is a valid
  IP literal that no predicate refuses, and is accepted as an SSH target whatever the
  resolver and the allowlist are.
\<close>

theorem ssh_accepts_respelled_loopback:
  "isIP ''::ffff:7f00:1'' = 6 \<and> \<not> isBlockedAddress ''::ffff:7f00:1'' \<and>
   assertSafeSshTarget resolveHost ''::ffff:7f00:1'' allowed = Inr ''::ffff:7f00:1'' \<and>
   isIP ''0:0:0:0:0:0:0:1'' = 6 \<and> \<not> isBlockedAddress ''0:0:0:0:0:0:0:1'' \<and>
   assertSafeSshTarget resolveHost ''0:0:0:0:0:0:0:1'' allowed = Inr ''0:0:0:0:0:0:0:1''"
proof -
  have literal: "assertSafeSshTarget resolveHost h allowed = Inr h"
    if "toLowerCase (trim h) = h" "isIP h = 6" "\<not> isHardBlockedAddress h"
      "\<not> isRestrictedSshAddress h" "h \<noteq> ''localhost''" "\<not> ends_with ''.localhost'' h" for h
    using that by (simp add: assertSafeSshTarget_def Let_def)
  show ?thesis
    by (intro conjI literal) code_simp+
qed

end
