(* ===== verification/Client_Ip.thy ===== *)
theory Client_Ip
  imports Net_Guarantees
begin

unbundle bit_operations_syntax

text \<open>
  The address a request is attributed to, \<open>api/src/client-ip.ts\<close>: normalization of IPv4 and
  IPv6 text, the list of trusted proxies, and the walk over \<open>X-Forwarded-For\<close>. Rate limits
  and audit records are keyed by the result, so a client must not be able to choose it.
  Optional strings (\<open>null\<close> or \<open>undefined\<close>) are \<open>None\<close>; reading past the end of an array
  gives \<open>None\<close>.
\<close>

section \<open>Address text\<close>

definition MAX_FORWARDED_FOR_LENGTH :: int where
  "MAX_FORWARDED_FOR_LENGTH = 4096"

definition MAX_PROXY_HOPS :: int where
  "MAX_PROXY_HOPS = 20"

definition digits :: "string \<Rightarrow> bool" where
  "digits s \<longleftrightarrow> s \<noteq> [] \<and> list_all is_digit s"

definition normalizeIpv4 :: "string \<Rightarrow> string option" where
  "normalizeIpv4 text =
     (let parts = split_on CHR ''.'' text in
      if len parts \<noteq> 4 \<or>
         list_ex (\<lambda>part. \<not> (digits part \<and> len part \<le> 3) \<or> decimal part < 0 \<or> decimal part > 255) parts
      then None
      else Some (join ''.'' (map (\<lambda>part. show_int (decimal part)) parts)))"

definition hex_value :: "char \<Rightarrow> int" where
  "hex_value c =
     (if is_digit c then code c - 48 else if 97 \<le> code c then code c - 87 else code c - 55)"

definition parse_hex :: "string \<Rightarrow> int" where
  "parse_hex s = foldl (\<lambda>n c. 16 * n + hex_value c) 0 s"

text \<open>\<open>group.toString(16)\<close>.\<close>

fun show_hex :: "nat \<Rightarrow> string" where
  "show_hex n =
     (if n < 16 then [if n < 10 then char_of (48 + n) else char_of (87 + n)]
      else show_hex (n div 16) @
        [if n mod 16 < 10 then char_of (48 + n mod 16) else char_of (87 + n mod 16)])"

declare show_hex.simps [simp del]

fun parse_side_groups :: "string list \<Rightarrow> int list option" where
  "parse_side_groups [] = Some []"
| "parse_side_groups (g # groups) =
     (if g = [] then None
      else if CHR ''.'' \<in> set g then
        (case normalizeIpv4 g of
           None \<Rightarrow> None
         | Some ipv4 \<Rightarrow>
             (case map decimal (split_on CHR ''.'' ipv4) of
                [first, second, third, fourth] \<Rightarrow>
                  map_option (\<lambda>rest. (push_bit 8 first OR second) # (push_bit 8 third OR fourth) # rest)
                    (parse_side_groups groups)
              | _ \<Rightarrow> None))
      else if \<not> v6Seg g then None
      else map_option ((#) (parse_hex g)) (parse_side_groups groups))"

definition parse_side :: "string \<Rightarrow> int list option" where
  "parse_side side = (if side = [] then Some [] else parse_side_groups (split_on CHR '':'' side))"

definition parseIpv6Groups :: "string \<Rightarrow> int list option" where
  "parseIpv6Groups text =
     (case split_double_colon text of
        None \<Rightarrow>
          (case parse_side text of
             None \<Rightarrow> None
           | Some left \<Rightarrow> (if len left = 8 then Some left else None))
      | Some (leftText, rightText) \<Rightarrow>
          if split_double_colon rightText \<noteq> None then None
          else case (parse_side leftText, parse_side rightText) of
            (Some left, Some right) \<Rightarrow>
              (if len left + len right \<ge> 8 then None
               else Some (left @ replicate (8 - length left - length right) 0 @ right))
          | _ \<Rightarrow> None)"

text \<open>The loop of \<open>ipv6GroupsToString\<close>: the first longest run of zeros.\<close>

function zero_run :: "nat \<Rightarrow> int list \<Rightarrow> int \<Rightarrow> nat \<Rightarrow> int \<times> nat" where
  "zero_run index [] bestStart bestLength = (bestStart, bestLength)"
| "zero_run index (g # gs) bestStart bestLength =
     (if g \<noteq> 0 then zero_run (index + 1) gs bestStart bestLength
      else let n = length (takeWhile (\<lambda>x. x = 0) (g # gs)) in
        if n > bestLength then zero_run (index + n) (dropWhile (\<lambda>x. x = 0) gs) (int index) n
        else zero_run (index + n) (dropWhile (\<lambda>x. x = 0) gs) bestStart bestLength)"
  by pat_completeness auto
termination
  by (relation "measure (\<lambda>(_, gs, _). length gs)") (auto simp: le_imp_less_Suc length_dropWhile_le)

definition hex_groups :: "int list \<Rightarrow> string" where
  "hex_groups groups = join '':'' (map (\<lambda>g. show_hex (nat g)) groups)"

definition ipv6GroupsToString :: "int list \<Rightarrow> string" where
  "ipv6GroupsToString groups =
     (case zero_run 0 groups (-1) 0 of
        (bestStart, bestLength) \<Rightarrow>
          if bestLength < 2 then hex_groups groups
          else
            let left = hex_groups (take (nat bestStart) groups);
                right = hex_groups (drop (nat bestStart + bestLength) groups)
            in if left \<noteq> [] \<and> right \<noteq> [] then left @ ''::'' @ right
               else if left \<noteq> [] then left @ ''::''
               else ''::'' @ right)"

definition last_index_of :: "char \<Rightarrow> string \<Rightarrow> nat option" where
  "last_index_of c s = map_option (\<lambda>i. length s - 1 - i) (index_where (\<lambda>d. d = c) (rev s))"

definition stripAddressPort :: "string \<Rightarrow> string" where
  "stripAddressPort text =
     (let trimmed = trim text;
          rest = (if isIP trimmed \<noteq> 0 then trimmed
                  else case last_index_of CHR '':'' trimmed of
                    None \<Rightarrow> trimmed
                  | Some separator \<Rightarrow>
                      (if separator > 0 \<and> digits (drop (separator + 1) trimmed)
                       then take separator trimmed else trimmed))
      in if starts_with ''['' trimmed
         then case index_where (\<lambda>c. c = CHR '']'') trimmed of
             Some closingBracket \<Rightarrow>
               (if closingBracket > 0 then take (closingBracket - 1) (drop 1 trimmed) else rest)
           | None \<Rightarrow> rest
         else rest)"

text \<open>\<open>/^\d+(?:\.\d+){3}$/\<close>.\<close>

definition dotted_quad :: "string \<Rightarrow> bool" where
  "dotted_quad s \<longleftrightarrow> (let parts = split_on CHR ''.'' s in len parts = 4 \<and> list_all digits parts)"

definition normalizeIp :: "string option \<Rightarrow> string option" where
  "normalizeIp text =
     (case text of
        None \<Rightarrow> None
      | Some v \<Rightarrow>
          if v = [] then None
          else
            let candidate = stripAddressPort v in
            if dotted_quad candidate then normalizeIpv4 candidate
            else if isIP candidate = 4 then normalizeIpv4 candidate
            else if isIP candidate \<noteq> 6 \<or> CHR ''%'' \<in> set candidate then None
            else case parseIpv6Groups (toLowerCase candidate) of
                None \<Rightarrow> None
              | Some groups \<Rightarrow>
                  if list_all (\<lambda>g. g = 0) (take 5 groups) \<and> groups ! 5 = 0xffff
                  then Some (join ''.'' (map show_int
                    [drop_bit 8 (groups ! 6), groups ! 6 AND 0xff, drop_bit 8 (groups ! 7), groups ! 7 AND 0xff]))
                  else Some (ipv6GroupsToString groups))"

datatype ip_family = V4 | V6

definition family_of :: "string \<Rightarrow> ip_family" where
  "family_of address = (if isIP address = 4 then V4 else V6)"

definition ipToGroups :: "string \<Rightarrow> (ip_family \<times> int list) option" where
  "ipToGroups address =
     (case normalizeIp (Some address) of
        None \<Rightarrow> None
      | Some normalized \<Rightarrow>
          if isIP normalized = 4 then Some (V4, map decimal (split_on CHR ''.'' normalized))
          else map_option (Pair V6) (parseIpv6Groups normalized))"

section \<open>Trusted proxies\<close>

record trusted_proxy_network =
  tp_family :: ip_family
  tp_address :: string
  tp_prefixLength :: int

definition parse_proxy_item :: "string \<Rightarrow> string + trusted_proxy_network" where
  "parse_proxy_item item =
     (let parts = split_on CHR ''/'' item;
          addressText = hd parts;
          prefixText = (if len parts > 1 then parts ! 1 else [])
      in case (if addressText = [] then None else normalizeIp (Some addressText)) of
           None \<Rightarrow> Inl (''Invalid trusted proxy CIDR: '' @ item)
         | Some address \<Rightarrow>
             if len parts > 2 \<or> prefixText \<noteq> [] \<and> \<not> digits prefixText
             then Inl (''Invalid trusted proxy CIDR: '' @ item)
             else
               let family = family_of address;
                   bits = (if family = V4 then 32 else 128);
                   prefixLength = (if prefixText \<noteq> [] then decimal prefixText else bits)
               in if prefixLength < 0 \<or> prefixLength > bits
                  then Inl (''Invalid trusted proxy CIDR prefix: '' @ item)
                  else Inr \<lparr>tp_family = family, tp_address = address, tp_prefixLength = prefixLength\<rparr>)"

fun map_or_throw :: "('a \<Rightarrow> 'e + 'b) \<Rightarrow> 'a list \<Rightarrow> 'e + 'b list" where
  "map_or_throw f [] = Inr []"
| "map_or_throw f (x # xs) =
     (case f x of
        Inl e \<Rightarrow> Inl e
      | Inr y \<Rightarrow> (case map_or_throw f xs of Inl e \<Rightarrow> Inl e | Inr ys \<Rightarrow> Inr (y # ys)))"

definition parseTrustedProxyCidrs :: "string option \<Rightarrow> string + trusted_proxy_network list" where
  "parseTrustedProxyCidrs text =
     (let v = (case text of None \<Rightarrow> [] | Some t \<Rightarrow> t)
      in map_or_throw parse_proxy_item (filter (\<lambda>item. item \<noteq> []) (map trim (split_on CHR '','' v))))"

definition nth_opt :: "'a list \<Rightarrow> nat \<Rightarrow> 'a option" where
  "nth_opt xs i = (if i < length xs then Some (xs ! i) else None)"

definition network_contains :: "ip_family \<Rightarrow> int list \<Rightarrow> trusted_proxy_network \<Rightarrow> bool" where
  "network_contains family groups network =
     (if tp_family network \<noteq> family then False
      else case ipToGroups (tp_address network) of
        None \<Rightarrow> False
      | Some (_, networkGroups) \<Rightarrow>
          let bitsPerGroup = (if family = V4 then 8 else 16);
              completeGroups = nat (tp_prefixLength network div bitsPerGroup);
              remainder = tp_prefixLength network mod bitsPerGroup
          in if \<not> list_all (\<lambda>i. nth_opt groups i = nth_opt networkGroups i) [0..<completeGroups] then False
             else if remainder = 0 then True
             else
               let mask = push_bit (nat (bitsPerGroup - remainder)) (2 ^ nat bitsPerGroup - 1)
               in case (nth_opt groups completeGroups, nth_opt networkGroups completeGroups) of
                    (Some parsedGroup, Some networkGroup) \<Rightarrow> parsedGroup AND mask = networkGroup AND mask
                  | _ \<Rightarrow> False)"

definition isTrustedProxy :: "string \<Rightarrow> trusted_proxy_network list \<Rightarrow> bool" where
  "isTrustedProxy address networks =
     (case ipToGroups address of
        None \<Rightarrow> False
      | Some (family, groups) \<Rightarrow> list_ex (network_contains family groups) networks)"

section \<open>The client of a request\<close>

text \<open>The loop over the forwarded addresses, the last one first.\<close>

fun walk_hops :: "trusted_proxy_network list \<Rightarrow> string \<Rightarrow> string list \<Rightarrow> string" where
  "walk_hops networks current [] = current"
| "walk_hops networks current (hop # hops) =
     (if \<not> isTrustedProxy current networks then current else walk_hops networks hop hops)"

record client_ip_input =
  ci_peerAddress :: "string option"
  ci_forwardedFor :: "string option"
  ci_realIp :: "string option"

fun all_some :: "'a option list \<Rightarrow> 'a list option" where
  "all_some [] = Some []"
| "all_some (x # xs) =
     (case x of None \<Rightarrow> None | Some y \<Rightarrow> map_option ((#) y) (all_some xs))"

definition resolveClientIp :: "trusted_proxy_network list \<Rightarrow> client_ip_input \<Rightarrow> string" where
  "resolveClientIp networks input =
     (case normalizeIp (ci_peerAddress input) of
        None \<Rightarrow> ''unknown''
      | Some peer \<Rightarrow>
          if \<not> isTrustedProxy peer networks then peer
          else
            let forwardedFor = (case ci_forwardedFor input of None \<Rightarrow> [] | Some f \<Rightarrow> f) in
            if forwardedFor \<noteq> [] \<and> len forwardedFor \<le> MAX_FORWARDED_FOR_LENGTH then
              let forwardedAddresses = split_on CHR '','' forwardedFor in
              if len forwardedAddresses \<le> MAX_PROXY_HOPS then
                (case all_some (map (\<lambda>address. normalizeIp (Some address)) forwardedAddresses) of
                   Some normalized \<Rightarrow> walk_hops networks peer (rev normalized)
                 | None \<Rightarrow> peer)
              else peer
            else (case normalizeIp (ci_realIp input) of Some r \<Rightarrow> r | None \<Rightarrow> peer))"

end
