(* ===== verification/Client_Ip_Guarantees.thy ===== *)
theory Client_Ip_Guarantees
  imports Client_Ip
begin

unbundle bit_operations_syntax

text \<open>
  What the client address of a request guarantees: printed addresses are read back, so the
  normal form is stable; the proxy check on IPv4 is membership in a CIDR block of 32-bit
  words; and what a client writes in front of the address its proxy recorded is ignored.
\<close>

section \<open>Lists of parts\<close>

lemma all_some_append:
  "all_some (xs @ ys) =
     (case all_some xs of None \<Rightarrow> None | Some a \<Rightarrow> map_option (\<lambda>b. a @ b) (all_some ys))"
  by (induction xs; cases "all_some ys") (auto split: option.splits)

section \<open>Decimal octets\<close>

lemma octet_text:
  assumes "is_octet n"
  shows "v4Seg (show_int n)" "decimal (show_int n) = n" "digits (show_int n)" "len (show_int n) \<le> 3"
    "list_all is_digit (show_int n)"
proof -
  from assms have n: "0 \<le> n" "n \<le> 255" by (auto simp: is_octet_def)
  then have s: "show_int n = show_nat (nat n)" by (simp add: show_int_def)
  have l: "len (show_nat (nat n)) \<le> 3"
    using show_nat_length [of "nat n" 2] n by (simp add: len_def)
  have z: "len (show_nat 0) = 1" by code_simp
  from show_nat_text [of "nat n"] l n z show "v4Seg (show_int n)" "decimal (show_int n) = n"
    "digits (show_int n)" "len (show_int n) \<le> 3" "list_all is_digit (show_int n)"
    unfolding s by (auto simp: v4Seg_def digits_def)
qed

definition dotted :: "int list \<Rightarrow> string" where
  "dotted os = join ''.'' (map show_int os)"

definition octets :: "int list \<Rightarrow> bool" where
  "octets os \<longleftrightarrow> length os = 4 \<and> list_all is_octet os"

lemma digit_not [simp]: "\<not> is_digit CHR ''.''" "\<not> is_digit CHR '':''" "\<not> is_digit CHR ''%''" "\<not> is_digit CHR ''[''"
  by code_simp+

lemma split_dotted: "octets os \<Longrightarrow> split_on CHR ''.'' (dotted os) = map show_int os"
  unfolding dotted_def
proof (rule split_on_join)
  assume "octets os"
  then show "map show_int os \<noteq> []" "\<forall>w \<in> set (map show_int os). CHR ''.'' \<notin> set w"
    using octet_text(5) by (fastforce simp: octets_def list_all_iff)+
qed

lemma octets_text:
  assumes "octets os"
  shows "isIPv4 (dotted os)" "dotted_quad (dotted os)" "normalizeIpv4 (dotted os) = Some (dotted os)"
    "map decimal (split_on CHR ''.'' (dotted os)) = os"
proof -
  have o: "length os = 4" "\<forall>n \<in> set os. is_octet n" using assms by (auto simp: octets_def list_all_iff)
  show "isIPv4 (dotted os)" "dotted_quad (dotted os)"
    using o by (simp_all add: isIPv4_def dotted_quad_def split_dotted [OF assms] len_def list_all_iff octet_text)
  show d: "map decimal (split_on CHR ''.'' (dotted os)) = os"
    using o by (simp add: split_dotted [OF assms] comp_def octet_text map_idI)
  have "\<not> list_ex (\<lambda>part. \<not> (digits part \<and> len part \<le> 3) \<or> decimal part < 0 \<or> decimal part > 255) (map show_int os)"
    using o(2) by (auto simp: list_ex_iff octet_text is_octet_def)
  moreover have "map (\<lambda>part. show_int (decimal part)) (map show_int os) = map show_int os"
    using o(2) by (simp add: octet_text)
  ultimately show "normalizeIpv4 (dotted os) = Some (dotted os)"
    using o(1) by (simp only: normalizeIpv4_def split_dotted [OF assms] Let_def len_def length_map)
      (simp add: dotted_def)
qed

lemma normalizeIpv4_dotted:
  assumes "normalizeIpv4 s = Some n"
  shows "\<exists>os. octets os \<and> n = dotted os"
proof -
  let ?ps = "split_on CHR ''.'' s"
  from assms have "length ?ps = 4" "\<forall>p \<in> set ?ps. is_octet (decimal p)" "n = dotted (map decimal ?ps)"
    by (auto simp: normalizeIpv4_def Let_def list_ex_iff len_def is_octet_def dotted_def comp_def
        split: if_splits)
  then show ?thesis by (intro exI [of _ "map decimal ?ps"]) (auto simp: octets_def list_all_iff)
qed

section \<open>Forwarded addresses\<close>

lemma walk_untrusted [simp]: "\<not> isTrustedProxy p nets \<Longrightarrow> walk_hops nets p hops = p"
  by (cases hops) auto

lemma walk_stops_at_untrusted:
  assumes "\<forall>x \<in> set trusted. isTrustedProxy x nets" "\<not> isTrustedProxy h nets"
  shows "isTrustedProxy p nets \<Longrightarrow> walk_hops nets p (trusted @ h # rest) = h"
  using assms by (induction trusted arbitrary: p) auto

lemma walk_result: "walk_hops nets p hops \<in> insert p (set hops)"
  by (induction hops arbitrary: p) auto



section \<open>Hexadecimal groups\<close>

definition is_group :: "int \<Rightarrow> bool" where
  "is_group g \<longleftrightarrow> 0 \<le> g \<and> g < 65536"

definition lower_hex :: "char \<Rightarrow> bool" where
  "lower_hex c \<longleftrightarrow> is_digit c \<or> 97 \<le> code c \<and> code c \<le> 102"

lemma lower_hex_facts:
  assumes "lower_hex c"
  shows "is_hex c" "lower_char c = c" "\<not> is_space c" "c \<noteq> CHR '':''" "c \<noteq> CHR ''.''" "c \<noteq> CHR ''%''"
    "c \<noteq> CHR ''[''"
proof -
  show "is_hex c" "lower_char c = c" "\<not> is_space c"
    using assms by (auto simp: lower_hex_def is_hex_def is_digit_def lower_char_def is_space_def)
  have "code CHR '':'' = 58" "code CHR ''.'' = 46" "code CHR ''%'' = 37" "code CHR ''['' = 91" by code_simp+
  with assms show "c \<noteq> CHR '':''" "c \<noteq> CHR ''.''" "c \<noteq> CHR ''%''" "c \<noteq> CHR ''[''"
    by (auto simp: lower_hex_def is_digit_def)
qed

lemma hex_digit_char:
  assumes "d < 16"
  defines "c \<equiv> (if d < 10 then char_of (48 + d) else char_of (87 + d :: nat))"
  shows "lower_hex c" "hex_value c = int d"
  using assms by (auto simp: lower_hex_def is_digit_def hex_value_def)

lemma parse_hex_snoc: "parse_hex (s @ [c]) = 16 * parse_hex s + hex_value c"
  by (simp add: parse_hex_def)

lemma show_hex_text:
  "show_hex n \<noteq> [] \<and> list_all lower_hex (show_hex n) \<and> parse_hex (show_hex n) = int n"
proof (induction n rule: show_hex.induct)
  case (1 n)
  show ?case
  proof (cases "n < 16")
    case True
    then show ?thesis
      using hex_digit_char [OF True] by (subst (1 2 3) show_hex.simps) (simp add: parse_hex_def)
  next
    case False
    have "int n = 16 * int (n div 16) + int (n mod 16)" by presburger
    moreover have "n mod 16 < 16" by simp
    ultimately show ?thesis
      using 1 [OF False] False hex_digit_char [of "n mod 16"]
      by (subst (1 2 3) show_hex.simps) (simp add: parse_hex_snoc)
  qed
qed

lemma show_hex_length: "n < 16 ^ Suc k \<Longrightarrow> length (show_hex n) \<le> Suc k"
proof (induction k arbitrary: n)
  case 0
  then show ?case by (subst show_hex.simps) simp
next
  case (Suc k)
  then have "n div 16 < 16 ^ Suc k" by (simp add: div_less_iff_less_mult mult.commute)
  from Suc.IH [OF this] show ?case by (subst show_hex.simps) simp
qed

lemma group_text:
  assumes "is_group g"
  shows "v6Seg (show_hex (nat g))" "parse_hex (show_hex (nat g)) = g" "show_hex (nat g) \<noteq> []"
    "list_all lower_hex (show_hex (nat g))" "CHR '':'' \<notin> set (show_hex (nat g))"
    "CHR ''.'' \<notin> set (show_hex (nat g))"
proof -
  have "nat g < 16 ^ Suc 3" using assms by (simp add: is_group_def nat_less_iff)
  then have "length (show_hex (nat g)) \<le> 4" by (drule_tac show_hex_length) simp
  with show_hex_text [of "nat g"] assms
  show "v6Seg (show_hex (nat g))" "parse_hex (show_hex (nat g)) = g" "show_hex (nat g) \<noteq> []"
    "list_all lower_hex (show_hex (nat g))"
    by (auto simp: v6Seg_def len_def is_group_def list_all_iff lower_hex_facts(1))
  with lower_hex_facts(4,5) show "CHR '':'' \<notin> set (show_hex (nat g))" "CHR ''.'' \<notin> set (show_hex (nat g))"
    by (auto simp: list_all_iff)
qed

section \<open>Printed groups are read back\<close>

lemma split_double_colon_word:
  "CHR '':'' \<notin> set w \<Longrightarrow>
   split_double_colon (w @ rest) = map_option (\<lambda>(l, r). (w @ l, r)) (split_double_colon rest)"
proof (induction w)
  case Nil
  then show ?case by (cases "split_double_colon rest") auto
next
  case (Cons c w)
  then show ?case
    by (cases "split_double_colon rest") (auto simp: starts_with_def)
qed

lemma split_double_colon_groups:
  "ws \<noteq> [] \<Longrightarrow> \<forall>w \<in> set ws. w \<noteq> [] \<and> CHR '':'' \<notin> set w \<Longrightarrow>
   split_double_colon (join '':'' ws @ rest) =
     map_option (\<lambda>(l, r). (join '':'' ws @ l, r)) (split_double_colon rest)"
proof (induction "'':''" ws rule: join.induct)
  case (2 w)
  then show ?case by (simp add: split_double_colon_word)
next
  case (3 w v ws)
  then obtain c v' where v: "v = c # v'" "c \<noteq> CHR '':''" by (cases v) auto
  obtain j where j: "join '':'' (v # ws) = c # j" using v by (cases ws) auto
  have "split_double_colon (CHR '':'' # join '':'' (v # ws) @ rest) =
      map_option (\<lambda>(l, r). (CHR '':'' # l, r)) (split_double_colon (join '':'' (v # ws) @ rest))"
    using v(2) by (simp add: j starts_with_def)
  with 3 show ?case
    by (cases "split_double_colon rest")
      (auto simp: split_double_colon_word simp del: split_double_colon.simps)
qed simp

lemma hex_groups_facts:
  assumes "list_all is_group gs"
  defines "ws \<equiv> map (\<lambda>g. show_hex (nat g)) gs"
  shows "\<forall>w \<in> set ws. w \<noteq> [] \<and> CHR '':'' \<notin> set w" "hex_groups gs = [] \<longleftrightarrow> gs = []"
    "gs \<noteq> [] \<Longrightarrow> split_on CHR '':'' (hex_groups gs) = ws" "list_all v6Seg ws"
    "parse_side (hex_groups gs) = Some gs"
proof -
  show f: "\<forall>w \<in> set ws. w \<noteq> [] \<and> CHR '':'' \<notin> set w"
    using assms(1) group_text by (auto simp: ws_def list_all_iff)
  then show e: "hex_groups gs = [] \<longleftrightarrow> gs = []"
    using join_Nil_iff [of ws "'':''"] by (simp add: hex_groups_def ws_def)
  show s: "split_on CHR '':'' (hex_groups gs) = ws" if "gs \<noteq> []"
    using split_on_join [of ws "CHR '':''"] f that by (simp add: hex_groups_def ws_def)
  show "list_all v6Seg ws" using assms(1) group_text(1) by (auto simp: ws_def list_all_iff)
  have "parse_side_groups ws = Some gs"
    using assms(1) unfolding ws_def
    by (induction gs) (auto simp: group_text)
  with e s show "parse_side (hex_groups gs) = Some gs" by (cases "gs = []") (auto simp: parse_side_def)
qed

lemma split_double_colon_hex:
  assumes "list_all is_group gs"
  shows "split_double_colon (hex_groups gs) = None"
    "split_double_colon (hex_groups gs @ ''::'' @ r) = Some (hex_groups gs, r)"
proof -
  show "split_double_colon (hex_groups gs) = None"
    using split_double_colon_groups [OF _ hex_groups_facts(1) [OF assms], of "[]"]
    by (cases "gs = []") (simp_all add: hex_groups_def)
  show "split_double_colon (hex_groups gs @ ''::'' @ r) = Some (hex_groups gs, r)"
    using split_double_colon_groups [OF _ hex_groups_facts(1) [OF assms], of "''::'' @ r"]
    by (cases "gs = []") (simp_all add: hex_groups_def starts_with_def)
qed

definition zero_run_at :: "int list \<Rightarrow> int \<Rightarrow> nat \<Rightarrow> bool" where
  "zero_run_at gs s n \<longleftrightarrow> n = 0 \<or> 0 \<le> s \<and> (\<exists>a b. gs = a @ replicate n 0 @ b \<and> length a = nat s)"

lemma takeWhile_zeros: "takeWhile (\<lambda>x. x = 0) gs = replicate (length (takeWhile (\<lambda>x. x = 0) gs)) (0 :: int)"
  by (rule replicate_eqI [symmetric, THEN sym]) (auto dest: set_takeWhileD)

lemma zero_run_correct:
  "zero_run_at (pre @ gs) s n \<Longrightarrow> length pre = i \<Longrightarrow> zero_run i gs s n = (s', n') \<Longrightarrow>
   zero_run_at (pre @ gs) s' n'"
proof (induction i gs s n arbitrary: pre rule: zero_run.induct)
  case (1 i s n)
  then show ?case by simp
next
  case (2 i g gs s n)
  show ?case
  proof (cases "g = 0")
    case False
    then show ?thesis using 2(1) [OF False, of "pre @ [g]"] 2(4-6) by simp
  next
    case True
    let ?z = "takeWhile (\<lambda>x. x = 0) (g # gs)" and ?d = "dropWhile (\<lambda>x. x = 0) gs"
    have w: "pre @ g # gs = (pre @ ?z) @ ?d" using True by simp
    have z: "zero_run_at (pre @ g # gs) (int i) (length ?z)"
    proof -
      have "?z = replicate (length ?z) 0" by (rule takeWhile_zeros)
      with w 2(5) show ?thesis unfolding zero_run_at_def by (metis append_assoc nat_int of_nat_0_le_iff)
    qed
    show ?thesis
    proof (cases "length ?z > n")
      case l: True
      show ?thesis
        using 2(2) [OF _ refl l, of "pre @ ?z"] z 2(5,6) True l w by (simp add: Let_def)
    next
      case l: False
      show ?thesis
        using 2(3) [OF _ refl l, of "pre @ ?z"] 2(4-6) True l w by (simp add: Let_def)
    qed
  qed
qed

text \<open>What the printed text of eight groups looks like, in both forms.\<close>

lemma printed_groups:
  assumes "length gs = 8" "list_all is_group gs"
  obtains (full) "ipv6GroupsToString gs = hex_groups gs"
  | (short) l n r where "gs = l @ replicate n 0 @ r" "2 \<le> n" "list_all is_group l" "list_all is_group r"
      "ipv6GroupsToString gs = hex_groups l @ ''::'' @ hex_groups r"
proof -
  obtain s n where z: "zero_run 0 gs (-1) 0 = (s, n)" by force
  then have c: "zero_run_at gs s n"
    using zero_run_correct [of "[]" gs "-1" 0 0 s n] by (simp add: zero_run_at_def)
  show thesis
  proof (cases "n < 2")
    case True
    with z show thesis by (intro full) (simp add: ipv6GroupsToString_def)
  next
    case False
    with c obtain l r where g: "gs = l @ replicate n 0 @ r" "length l = nat s" by (auto simp: zero_run_at_def)
    then have gr: "list_all is_group l" "list_all is_group r" using assms(2) by auto
    have "take (nat s) gs = l" "drop (nat s + n) gs = r" using g by (simp_all flip: g(2))
    with z False have "ipv6GroupsToString gs = hex_groups l @ ''::'' @ hex_groups r"
      by (auto simp: ipv6GroupsToString_def Let_def)
    with g gr False show thesis by (intro short) auto
  qed
qed

lemma v6_units_groups: "list_all v6Seg ws \<Longrightarrow> v6_units b ws = Some (len ws)"
  by (induction b ws rule: v6_units.induct) (auto simp: len_def)

lemma v6_groups_hex:
  "list_all is_group gs \<Longrightarrow> v6_units b (v6_groups (hex_groups gs)) = Some (len gs)"
  using hex_groups_facts [of gs] v6_units_groups [of "map (\<lambda>g. show_hex (nat g)) gs" b]
  by (cases "gs = []") (auto simp: v6_groups_def hex_groups_def len_def)

lemma parse_printed:
  assumes "length gs = 8" "list_all is_group gs"
  shows "parseIpv6Groups (ipv6GroupsToString gs) = Some gs" "isIPv6_body (ipv6GroupsToString gs)"
proof -
  show "parseIpv6Groups (ipv6GroupsToString gs) = Some gs"
    using assms
  proof (cases rule: printed_groups)
    case full
    with assms show ?thesis
      by (simp add: parseIpv6Groups_def split_double_colon_hex hex_groups_facts(5) len_def)
  next
    case (short l n r)
    then show ?thesis
      using assms(1)
      by (simp add: parseIpv6Groups_def split_double_colon_hex split_double_colon_hex [simplified]
          hex_groups_facts(5) len_def)
  qed
  show "isIPv6_body (ipv6GroupsToString gs)"
    using assms
  proof (cases rule: printed_groups)
    case full
    with assms show ?thesis
      by (simp add: isIPv6_body_def split_double_colon_hex v6_groups_hex len_def)
  next
    case (short l n r)
    then show ?thesis
      using assms(1)
      by (simp add: isIPv6_body_def split_double_colon_hex split_double_colon_hex [simplified]
          v6_groups_hex len_def)
  qed
qed

lemma printed_chars:
  assumes "length gs = 8" "list_all is_group gs"
  shows "set (ipv6GroupsToString gs) \<subseteq> insert (CHR '':'') (Collect lower_hex)"
    "ipv6GroupsToString gs \<noteq> []"
proof -
  have h: "set (hex_groups xs) \<subseteq> insert (CHR '':'') (Collect lower_hex)" if "list_all is_group xs" for xs
  proof -
    have "set (hex_groups xs) \<subseteq> insert (CHR '':'') (\<Union> (set ` set (map (\<lambda>g. show_hex (nat g)) xs)))"
      using set_join [of "'':''" "map (\<lambda>g. show_hex (nat g)) xs"] by (simp add: hex_groups_def)
    moreover have "set (show_hex (nat g)) \<subseteq> Collect lower_hex" if "g \<in> set xs" for g
      using group_text(4) that \<open>list_all is_group xs\<close> by (fastforce simp: list_all_iff)
    ultimately show ?thesis by auto
  qed
  show "set (ipv6GroupsToString gs) \<subseteq> insert (CHR '':'') (Collect lower_hex)"
    using assms by (cases rule: printed_groups) (use h assms in auto)
  show "ipv6GroupsToString gs \<noteq> []"
    using assms by (cases rule: printed_groups) (use hex_groups_facts(2) assms in auto)
qed

section \<open>The normal form\<close>

lemma strip_address:
  assumes "isIP s \<noteq> 0" "\<forall>c \<in> set s. \<not> is_space c" "CHR ''['' \<notin> set s"
  shows "stripAddressPort s = s"
proof -
  have "\<not> starts_with ''['' s" using assms(3) by (auto simp: starts_with_iff)
  with assms show ?thesis by (simp add: stripAddressPort_def trim_id Let_def)
qed

lemma dotted_chars:
  assumes "octets os"
  shows "\<forall>c \<in> set (dotted os). \<not> is_space c" "CHR ''['' \<notin> set (dotted os)" "dotted os \<noteq> []"
proof -
  have "set (dotted os) \<subseteq> insert (CHR ''.'') (Collect is_digit)"
    using set_join [of "''.''" "map show_int os"] octet_text(5) assms
    by (fastforce simp: dotted_def octets_def list_all_iff)
  moreover have "\<not> is_space CHR ''.''" "\<not> is_digit CHR ''[''" by code_simp+
  moreover have "is_digit c \<Longrightarrow> \<not> is_space c" for c by (auto simp: is_digit_def is_space_def)
  ultimately show "\<forall>c \<in> set (dotted os). \<not> is_space c" "CHR ''['' \<notin> set (dotted os)" by auto
  show "dotted os \<noteq> []"
    using octets_text(1) [OF assms] by (auto simp: isIPv4_def Let_def len_def)
qed

lemma normalize_dotted:
  assumes "octets os"
  shows "normalizeIp (Some (dotted os)) = Some (dotted os)" "isIP (dotted os) = 4"
proof -
  show i: "isIP (dotted os) = 4" using octets_text(1) [OF assms] by (simp add: isIP_def)
  show "normalizeIp (Some (dotted os)) = Some (dotted os)"
    using octets_text [OF assms] dotted_chars [OF assms] strip_address [of "dotted os"] i
    by (simp add: normalizeIp_def Let_def)
qed

definition mapped_groups :: "int list \<Rightarrow> bool" where
  "mapped_groups gs \<longleftrightarrow> list_all (\<lambda>g. g = 0) (take 5 gs) \<and> gs ! 5 = 0xffff"

lemma printed_address:
  assumes "length gs = 8" "list_all is_group gs"
  defines "s \<equiv> ipv6GroupsToString gs"
  shows "isIP s = 6" "stripAddressPort s = s" "toLowerCase s = s" "\<not> dotted_quad s" "CHR ''%'' \<notin> set s" "s \<noteq> []"
proof -
  have c: "set s \<subseteq> insert (CHR '':'') (Collect lower_hex)" using printed_chars [OF assms(1,2)] by (simp add: s_def)
  have colon: "lower_char CHR '':'' = CHR '':''" "\<not> is_space CHR '':''" by code_simp+
  have dot: "CHR ''.'' \<notin> set s" using c lower_hex_facts(5) by fastforce
  show pc: "CHR ''%'' \<notin> set s" using c lower_hex_facts(6) by fastforce
  have br: "CHR ''['' \<notin> set s" using c lower_hex_facts(7) by fastforce
  have sp: "\<forall>c \<in> set s. \<not> is_space c" using c colon lower_hex_facts(3) by fastforce
  show "toLowerCase s = s"
    using c colon lower_hex_facts(2) by (auto simp: toLowerCase_def intro!: map_idI)
  show "\<not> dotted_quad s" using split_on_absent [OF dot] by (simp add: dotted_quad_def len_def)
  have "\<not> isIPv4 s" using split_on_absent [OF dot] by (simp add: isIPv4_def len_def)
  moreover have "index_where (\<lambda>c. c = CHR ''%'') s = None" using pc by auto
  then have "isIPv6 s"
    unfolding isIPv6_def using parse_printed(2) [OF assms(1,2)] by (simp only: option.case s_def)
  ultimately show i: "isIP s = 6" by (simp add: isIP_def)
  show "stripAddressPort s = s" using i sp br by (intro strip_address) simp_all
  show "s \<noteq> []" using printed_chars [OF assms(1,2)] by (simp add: s_def)
qed

lemma normalize_printed:
  assumes "length gs = 8" "list_all is_group gs" "\<not> mapped_groups gs"
  shows "normalizeIp (Some (ipv6GroupsToString gs)) = Some (ipv6GroupsToString gs)"
  using printed_address [OF assms(1,2)] parse_printed [OF assms(1,2)] assms(3)
  by (auto simp: normalizeIp_def Let_def mapped_groups_def)

text \<open>The groups read from any text are eight 16-bit numbers.\<close>

lemma hex_value_range: "is_hex c \<Longrightarrow> 0 \<le> hex_value c \<and> hex_value c \<le> 15"
  by (auto simp: is_hex_def hex_value_def is_digit_def)

lemma parse_hex_range: "list_all is_hex s \<Longrightarrow> 0 \<le> parse_hex s \<and> parse_hex s < 16 ^ length s"
proof (induction s rule: rev_induct)
  case Nil
  then show ?case by (simp add: parse_hex_def)
next
  case (snoc c s)
  then show ?case using hex_value_range [of c] by (simp add: parse_hex_snoc)
qed

lemma v6Seg_group: "v6Seg s \<Longrightarrow> is_group (parse_hex s)"
proof -
  assume s: "v6Seg s"
  then have "(16 :: int) ^ length s \<le> 16 ^ 4" by (intro power_increasing) (auto simp: v6Seg_def len_def)
  with s parse_hex_range [of s] show ?thesis by (simp add: v6Seg_def is_group_def)
qed

lemma octet_pair_group:
  assumes "is_octet a" "is_octet b"
  shows "is_group (push_bit 8 a OR b)"
proof -
  have "push_bit 8 a OR b < 2 ^ 16"
    using assms by (intro OR_upper) (auto simp: is_octet_def push_bit_eq_mult)
  moreover have "0 \<le> push_bit 8 a OR b" using assms by (simp add: is_octet_def)
  ultimately show ?thesis by (simp add: is_group_def)
qed

lemma parse_side_groups_range: "parse_side_groups ws = Some gs \<Longrightarrow> list_all is_group gs"
proof (induction ws arbitrary: gs rule: parse_side_groups.induct)
  case (2 g ws)
  show ?case
  proof (cases "CHR ''.'' \<in> set g")
    case False
    with 2 show ?thesis by (auto simp: v6Seg_group split: if_splits)
  next
    case True
    with 2(3) obtain n where n: "normalizeIpv4 g = Some n" by (auto split: if_splits option.splits)
    from normalizeIpv4_dotted [OF n] obtain os where os: "octets os" "n = dotted os" by blast
    then obtain a b c d where abcd: "os = [a, b, c, d]" "is_octet a" "is_octet b" "is_octet c" "is_octet d"
      by (auto simp: octets_def length_Suc_conv eval_nat_numeral)
    have "map decimal (split_on CHR ''.'' n) = [a, b, c, d]" using octets_text(4) [OF os(1)] os(2) abcd(1) by simp
    with 2(1) [OF _ True n this] 2(3) True n abcd show ?thesis
      by (auto simp: octet_pair_group split: if_splits)
  qed
qed simp

lemma parseIpv6Groups_range:
  assumes "parseIpv6Groups s = Some gs"
  shows "length gs = 8" "list_all is_group gs"
proof -
  have side: "parse_side t = Some xs \<Longrightarrow> list_all is_group xs" for t xs
    by (auto simp: parse_side_def parse_side_groups_range split: if_splits)
  from assms show "length gs = 8"
    by (auto simp: parseIpv6Groups_def len_def split: option.splits if_splits prod.splits)
  from assms side show "list_all is_group gs"
    by (auto simp: parseIpv6Groups_def is_group_def list_all_iff split: option.splits if_splits prod.splits)
qed

text \<open>
  Every normalized address is the canonical text of four octets or of eight groups that are
  not an IPv4-mapped address.
\<close>

definition mapped_octets :: "int list \<Rightarrow> int list" where
  "mapped_octets gs = [drop_bit 8 (gs ! 6), gs ! 6 AND 0xff, drop_bit 8 (gs ! 7), gs ! 7 AND 0xff]"

lemma mapped_octets_ok:
  assumes "length gs = 8" "list_all is_group gs"
  shows "octets (mapped_octets gs)"
proof -
  have "is_octet (drop_bit 8 g) \<and> is_octet (g AND 255)" if "is_group g" for g
    using that AND_upper2 [of 255 g] by (auto simp: is_group_def is_octet_def drop_bit_eq_div)
  moreover have "is_group (gs ! 6)" "is_group (gs ! 7)" using assms by (simp_all add: list_all_length)
  ultimately show ?thesis by (simp add: octets_def mapped_octets_def)
qed

lemma normalizeIp_unfold:
  "normalizeIp (Some v) =
     (if v = [] then None
      else let c = stripAddressPort v in
        if dotted_quad c \<or> isIP c = 4 then normalizeIpv4 c
        else if isIP c \<noteq> 6 \<or> CHR ''%'' \<in> set c then None
        else map_option (\<lambda>gs. if mapped_groups gs then dotted (mapped_octets gs) else ipv6GroupsToString gs)
          (parseIpv6Groups (toLowerCase c)))"
proof -
  have "map_option (\<lambda>gs. if mapped_groups gs then dotted (mapped_octets gs) else ipv6GroupsToString gs) x =
     (case x of None \<Rightarrow> None
      | Some gs \<Rightarrow> if mapped_groups gs then Some (dotted (mapped_octets gs)) else Some (ipv6GroupsToString gs))" for x
    by (cases x) simp_all
  then show ?thesis
    by (simp only: normalizeIp_def option.case Let_def mapped_groups_def mapped_octets_def dotted_def) presburger
qed

lemma normalizeIp_form:
  assumes "normalizeIp t = Some n"
  shows "(\<exists>os. octets os \<and> n = dotted os) \<or>
    (\<exists>gs. length gs = 8 \<and> list_all is_group gs \<and> \<not> mapped_groups gs \<and> n = ipv6GroupsToString gs)"
proof -
  from assms obtain v where v: "t = Some v" by (cases t) (auto simp: normalizeIp_def)
  define c where "c = stripAddressPort v"
  from assms v consider (v4) "normalizeIpv4 c = Some n"
    | (v6) gs where "parseIpv6Groups (toLowerCase c) = Some gs"
        "n = (if mapped_groups gs then dotted (mapped_octets gs) else ipv6GroupsToString gs)"
    unfolding c_def
    by (simp only: normalizeIp_unfold Let_def split: if_splits) blast+
  then show ?thesis
  proof cases
    case v4
    then show ?thesis using normalizeIpv4_dotted by blast
  next
    case (v6 gs)
    note r = parseIpv6Groups_range [OF v6(1)]
    with v6(2) mapped_octets_ok [OF r] show ?thesis by (cases "mapped_groups gs") auto
  qed
qed

text \<open>
  Normalization is stable: an address it returns, printed in canonical text, is read back
  as itself, by normalization and by the proxy check, for IPv4, for IPv6 with its longest run
  of zeros compressed, and for IPv4-mapped addresses, which become IPv4.
\<close>

theorem normalized_address_stable:
  assumes "normalizeIp t = Some n"
  shows "normalizeIp (Some n) = Some n \<and> (\<exists>gs. ipToGroups n = Some (family_of n, gs))"
  using normalizeIp_form [OF assms]
proof (elim disjE exE conjE)
  fix os assume "octets os" "n = dotted os"
  then show ?thesis using normalize_dotted by (simp add: ipToGroups_def family_of_def)
next
  fix gs assume "length gs = 8" "list_all is_group gs" "\<not> mapped_groups gs" "n = ipv6GroupsToString gs"
  then show ?thesis
    using normalize_printed printed_address(1) parse_printed(1) by (simp add: ipToGroups_def family_of_def)
qed

theorem normalized_address_stable_witness:
  "normalizeIp (Some '' [0:0:0:A:0:0:0:9]:443'') = Some ''::a:0:0:0:9'' \<and>
   normalizeIp (Some ''::a:0:0:0:9'') = Some ''::a:0:0:0:9''"
proof -
  have "normalizeIp (Some '' [0:0:0:A:0:0:0:9]:443'') = Some ''::a:0:0:0:9''" by code_simp
  from normalized_address_stable [OF this] this show ?thesis by blast
qed

section \<open>The proxy check is CIDR membership\<close>

lemma octet_mask:
  assumes "is_octet x" "m \<le> 8"
  shows "x AND push_bit m (2 ^ 8 - 1) = push_bit m (drop_bit m x)"
proof (rule bit_eqI)
  fix i
  from assms(1) have "take_bit 8 x = x" by (simp add: is_octet_def take_bit_eq_mod)
  then have "bit x i \<Longrightarrow> i < 8" by (metis bit_take_bit_iff)
  then show "bit (x AND push_bit m (2 ^ 8 - 1)) i \<longleftrightarrow> bit (push_bit m (drop_bit m x)) i"
    by (auto simp only: bit_and_iff bit_push_bit_iff bit_drop_bit_eq bit_mask_iff comp_apply
        mask_eq_exp_minus_1 [symmetric] possible_bit_int le_add_diff_inverse intro: less_imp_diff_less)
qed

lemma octet_mask_eq:
  assumes "is_octet x" "is_octet y" "m \<le> 8"
  shows "x AND push_bit m (2 ^ 8 - 1) = y AND push_bit m (2 ^ 8 - 1) \<longleftrightarrow> x div 2 ^ m = y div 2 ^ m"
  unfolding octet_mask [OF assms(1,3)] octet_mask [OF assms(2,3)]
  by (simp add: push_bit_eq_mult drop_bit_eq_div)

definition prefix_match :: "int list \<Rightarrow> int list \<Rightarrow> nat \<Rightarrow> bool" where
  "prefix_match xs ys k \<longleftrightarrow>
     list_all (\<lambda>i. xs ! i = ys ! i) [0..<k div 8] \<and>
     (k mod 8 = 0 \<or> xs ! (k div 8) div 2 ^ (8 - k mod 8) = ys ! (k div 8) div 2 ^ (8 - k mod 8))"

lemma cidr_digits:
  assumes "is_octet a" "is_octet b" "is_octet c" "is_octet d"
    "is_octet a'" "is_octet b'" "is_octet c'" "is_octet d'" "m \<le> 8"
  shows "in_cidr (ip a b c d) (ip a' b' c' d', 8 - m) \<longleftrightarrow> a div 2 ^ m = a' div 2 ^ m"
    "in_cidr (ip a b c d) (ip a' b' c' d', 16 - m) \<longleftrightarrow> a = a' \<and> b div 2 ^ m = b' div 2 ^ m"
    "in_cidr (ip a b c d) (ip a' b' c' d', 24 - m) \<longleftrightarrow> a = a' \<and> b = b' \<and> c div 2 ^ m = c' div 2 ^ m"
    "in_cidr (ip a b c d) (ip a' b' c' d', 32 - m) \<longleftrightarrow>
       a = a' \<and> b = b' \<and> c = c' \<and> d div 2 ^ m = d' div 2 ^ m"
proof -
  have same: "y * 256 + z = y' * 256 + z' \<longleftrightarrow> y = y' \<and> z = z'" if "is_octet z" "is_octet z'" for y y' z z'
    using split_octet [OF that, of 0] by simp
  have n: "32 - (8 - m) = 8 + (8 + (8 + m))" "32 - (16 - m) = 8 + (8 + m)" "32 - (24 - m) = 8 + m" "32 - (32 - m) = m"
    using assms(9) by simp_all
  note s = split_octet [OF _ _ assms(9)]
  show "in_cidr (ip a b c d) (ip a' b' c' d', 8 - m) \<longleftrightarrow> a div 2 ^ m = a' div 2 ^ m"
    "in_cidr (ip a b c d) (ip a' b' c' d', 16 - m) \<longleftrightarrow> a = a' \<and> b div 2 ^ m = b' div 2 ^ m"
    "in_cidr (ip a b c d) (ip a' b' c' d', 24 - m) \<longleftrightarrow> a = a' \<and> b = b' \<and> c div 2 ^ m = c' div 2 ^ m"
    "in_cidr (ip a b c d) (ip a' b' c' d', 32 - m) \<longleftrightarrow>
       a = a' \<and> b = b' \<and> c = c' \<and> d div 2 ^ m = d' div 2 ^ m"
    by (simp_all only: in_cidr_ip assms(1-8) n drop_octet s same conj_assoc)
qed

lemma prefix_match_cidr:
  assumes "is_octet a" "is_octet b" "is_octet c" "is_octet d"
    "is_octet a'" "is_octet b'" "is_octet c'" "is_octet d'" "k \<le> 32"
  shows "prefix_match [a, b, c, d] [a', b', c', d'] k \<longleftrightarrow> in_cidr (ip a b c d) (ip a' b' c' d', k)"
proof -
  define q r where "q = k div 8" and "r = k mod 8"
  then have k: "k = 8 * q + r" "r < 8" by auto
  have zero: "z div 2 ^ (8 - 0) = 0" if "is_octet z" for z :: int using that by (simp add: is_octet_def)
  have pm: "prefix_match [a, b, c, d] [a', b', c', d'] k \<longleftrightarrow>
      list_all (\<lambda>i. [a, b, c, d] ! i = [a', b', c', d'] ! i) [0..<q] \<and>
      (r = 0 \<or> [a, b, c, d] ! q div 2 ^ (8 - r) = [a', b', c', d'] ! q div 2 ^ (8 - r))"
    by (simp only: prefix_match_def q_def r_def)
  have drop: "r = 0 \<or> x div 2 ^ (8 - r) = y div 2 ^ (8 - r) \<longleftrightarrow> x div 2 ^ (8 - r) = y div 2 ^ (8 - r)"
    if "is_octet x" "is_octet y" for x y :: int
    using zero [OF that(1)] zero [OF that(2)] by (cases "r = 0") (simp_all only: simp_thms)
  have u: "[0..<0] = []" "[0..<1] = [0]" "[0..<2] = [0, 1]" "[0..<3] = [0, 1, 2]" "[0..<4] = [0, 1, 2, 3]"
    by (simp_all add: upt_rec)
  note d = cidr_digits [OF assms(1-8), of "8 - r"]
  have "q = 0 \<or> q = 1 \<or> q = 2 \<or> q = 3 \<or> q = 4 \<and> r = 0" using k assms(9) by linarith
  moreover have "8 - (8 - r) = 0 + r" "16 - (8 - r) = 8 + r" "24 - (8 - r) = 16 + r" "32 - (8 - r) = 24 + r"
    using k(2) by simp_all
  ultimately consider "q = 0" "8 - (8 - r) = k" | "q = 1" "16 - (8 - r) = k" | "q = 2" "24 - (8 - r) = k"
    | "q = 3" "32 - (8 - r) = k" | "q = 4" "r = 0" "32 - 0 = k" using k(1) by (elim disjE conjE) simp_all
  then show ?thesis
  proof cases
    case 1
    show ?thesis unfolding pm 1(1) u using drop [OF assms(1,5)] d(1) [unfolded 1(2)] by simp
  next
    case 2
    show ?thesis unfolding pm 2(1) u using drop [OF assms(2,6)] d(2) [unfolded 2(2)] by simp
  next
    case 3
    show ?thesis unfolding pm 3(1) u using drop [OF assms(3,7)] d(3) [unfolded 3(2)] by simp
  next
    case 4
    show ?thesis unfolding pm 4(1) u using drop [OF assms(4,8)] d(4) [unfolded 4(2)] by simp
  next
    case 5
    show ?thesis unfolding pm 5(1,2) u using cidr_digits(4) [OF assms(1-8), of 0, unfolded 5(3)] by simp
  qed
qed

lemma normalized_v4:
  assumes "normalizeIp t = Some n" "isIP n = 4"
  shows "\<exists>os. octets os \<and> n = dotted os \<and> ipToGroups n = Some (V4, os)"
proof -
  from normalizeIp_form [OF assms(1)] assms(2) obtain os where "octets os" "n = dotted os"
    using printed_address(1) by fastforce
  then show ?thesis using normalize_dotted octets_text(4) by (simp add: ipToGroups_def)
qed

lemma ipToGroups_v4:
  assumes "ipToGroups s = Some (V4, gs)"
  shows "octets gs"
proof -
  from assms obtain n where n: "normalizeIp (Some s) = Some n" "isIP n = 4" "gs = map decimal (split_on CHR ''.'' n)"
    by (auto simp: ipToGroups_def split: option.splits if_splits)
  from normalized_v4 [OF n(1,2)] obtain os where "octets os" "n = dotted os" by blast
  with octets_text(4) [of os] n(3) show ?thesis by simp
qed

lemma map_or_throw_Inr: "map_or_throw f xs = Inr ys \<Longrightarrow> y \<in> set ys \<Longrightarrow> \<exists>x \<in> set xs. f x = Inr y"
  by (induction xs arbitrary: ys) (auto split: sum.splits)

lemma parse_proxy_item_ok:
  assumes "parse_proxy_item item = Inr n"
  shows "\<exists>t. normalizeIp t = Some (tp_address n)" "tp_family n = family_of (tp_address n)"
    "0 \<le> tp_prefixLength n" "tp_prefixLength n \<le> (if tp_family n = V4 then 32 else 128)"
  using assms by (auto simp: parse_proxy_item_def Let_def split: option.splits if_splits)

lemma parsed_network_v4:
  assumes "parseTrustedProxyCidrs text = Inr nets" "n \<in> set nets" "tp_family n = V4"
  shows "\<exists>a b c d. ipToGroups (tp_address n) = Some (V4, [a, b, c, d])"
    "0 \<le> tp_prefixLength n" "tp_prefixLength n \<le> 32"
proof -
  from assms(1,2) obtain item where i: "parse_proxy_item item = Inr n"
    by (auto simp: parseTrustedProxyCidrs_def Let_def dest!: map_or_throw_Inr)
  note p = parse_proxy_item_ok [OF i]
  from p(1) obtain t where t: "normalizeIp t = Some (tp_address n)" by blast
  from p(2) assms(3) have "isIP (tp_address n) = 4" by (simp add: family_of_def split: if_splits)
  from normalized_v4 [OF t this] show "\<exists>a b c d. ipToGroups (tp_address n) = Some (V4, [a, b, c, d])"
    by (auto simp: octets_def length_Suc_conv eval_nat_numeral)
  from p(3,4) assms(3) show "0 \<le> tp_prefixLength n" "tp_prefixLength n \<le> 32" by auto
qed

lemma octets_four: "octets [a, b, c, d] \<longleftrightarrow> is_octet a \<and> is_octet b \<and> is_octet c \<and> is_octet d"
  by (simp add: octets_def)

lemma network_contains_v4:
  assumes "octets [a, b, c, d]" "tp_family n = V4" "ipToGroups (tp_address n) = Some (V4, [a', b', c', d'])"
    and "0 \<le> tp_prefixLength n" "tp_prefixLength n \<le> 32"
  shows "network_contains V4 [a, b, c, d] n \<longleftrightarrow>
    in_cidr (ip a b c d) (ip a' b' c' d', nat (tp_prefixLength n))"
proof -
  let ?xs = "[a, b, c, d]" and ?ys = "[a', b', c', d']"
  define k where "k = nat (tp_prefixLength n)"
  have k: "tp_prefixLength n = int k" "k \<le> 32" using assms(4,5) by (auto simp: k_def)
  have o: "octets ?ys" using assms(3) by (rule ipToGroups_v4)
  have idx: "nat (int k div 8) = k div 8" "int k mod 8 = int (k mod 8)" "nat (8 - int (k mod 8)) = 8 - k mod 8"
    by (simp_all add: nat_div_distrib zmod_int nat_diff_distrib nat_mod_distrib)
  have whole: "list_all (\<lambda>i. nth_opt ?xs i = nth_opt ?ys i) [0..<k div 8] \<longleftrightarrow>
      list_all (\<lambda>i. ?xs ! i = ?ys ! i) [0..<k div 8]"
    using k(2) by (auto simp: list_all_iff nth_opt_def)
  show ?thesis
  proof (cases "k mod 8 = 0")
    case True
    then show ?thesis
      using prefix_match_cidr [of a b c d a' b' c' d' k] assms(1) o k(2)
      by (simp add: network_contains_def assms(2,3) k(1) idx whole prefix_match_def octets_four)
  next
    case False
    with k(2) have l: "k div 8 < 4" by presburger
    then have "is_octet (?xs ! (k div 8))" "is_octet (?ys ! (k div 8))"
      using assms(1) o by (auto simp: octets_def list_all_length simp del: nth_Cons_numeral)
    note m = octet_mask_eq [OF this, of "8 - k mod 8"]
    have "nth_opt ?xs (k div 8) = Some (?xs ! (k div 8))" "nth_opt ?ys (k div 8) = Some (?ys ! (k div 8))"
      using l by (simp_all add: nth_opt_def)
    then have "network_contains V4 ?xs n \<longleftrightarrow> prefix_match ?xs ?ys k"
      using False m
      by (simp add: network_contains_def assms(2,3) k(1) idx whole prefix_match_def Let_def)
    then show ?thesis
      using prefix_match_cidr [of a b c d a' b' c' d' k] assms(1) o k by (simp add: octets_four)
  qed
qed

text \<open>
  The proxy check means what its configuration says: once the configured list is parsed,
  an IPv4 peer is trusted exactly when one of the IPv4 networks of the list, as a CIDR block
  of 32-bit words, contains it.
\<close>

theorem trusted_proxy_is_cidr:
  assumes "parseTrustedProxyCidrs text = Inr nets" "ipToGroups s = Some (V4, [a, b, c, d])"
  shows "isTrustedProxy s nets \<longleftrightarrow>
    (\<exists>n \<in> set nets. tp_family n = V4 \<and>
      (\<exists>a' b' c' d'. ipToGroups (tp_address n) = Some (V4, [a', b', c', d']) \<and>
        in_cidr (ip a b c d) (ip a' b' c' d', nat (tp_prefixLength n))))"
proof -
  have "network_contains V4 [a, b, c, d] n \<longleftrightarrow> tp_family n = V4 \<and>
      (\<exists>a' b' c' d'. ipToGroups (tp_address n) = Some (V4, [a', b', c', d']) \<and>
        in_cidr (ip a b c d) (ip a' b' c' d', nat (tp_prefixLength n)))" if "n \<in> set nets" for n
  proof (cases "tp_family n = V4")
    case True
    note p = parsed_network_v4 [OF assms(1) that True]
    from p(1) obtain a' b' c' d' where g: "ipToGroups (tp_address n) = Some (V4, [a', b', c', d'])" by blast
    show ?thesis
      using network_contains_v4 [OF ipToGroups_v4 [OF assms(2)] True g p(2,3)] True g by simp
  qed (simp add: network_contains_def)
  then show ?thesis using assms(2) by (auto simp: isTrustedProxy_def list_ex_iff)
qed

theorem trusted_proxy_is_cidr_witness:
  "isTrustedProxy ''10.1.2.3'' [\<lparr>tp_family = V4, tp_address = ''10.0.0.0'', tp_prefixLength = 12\<rparr>]"
proof -
  let ?n = "\<lparr>tp_family = V4, tp_address = ''10.0.0.0'', tp_prefixLength = 12\<rparr>"
  have p: "parseTrustedProxyCidrs (Some ''10.0.0.0/12'') = Inr [?n]" by code_simp
  have s: "ipToGroups ''10.1.2.3'' = Some (V4, [10, 1, 2, 3])" by code_simp
  have g: "ipToGroups ''10.0.0.0'' = Some (V4, [10, 0, 0, 0])" by code_simp
  have "in_cidr (ip 10 1 2 3) (ip 10 0 0 0, 12)"
    using cidr_second [of 10 1 2 3 10 0 12] by (simp add: is_octet_def)
  with trusted_proxy_is_cidr [OF p s] g show ?thesis by simp
qed

text \<open>
  A header beyond the length limit is not rejected like one with too many hops: the request is
  attributed to what \<open>X-Real-IP\<close> says, which a proxy need not overwrite.
\<close>

lemma oversized_header_uses_real_ip:
  assumes "normalizeIp (Some peer) = Some p" "isTrustedProxy p nets" "4096 < len f" "normalizeIp real = Some r"
  shows "resolveClientIp nets \<lparr>ci_peerAddress = Some peer, ci_forwardedFor = Some f, ci_realIp = real\<rparr> = r"
  using assms by (simp add: resolveClientIp_def Let_def MAX_FORWARDED_FOR_LENGTH_def)

end
