(* ===== verification/Row_Store.thy ===== *)
theory Row_Store
  imports Prelude
begin

text \<open>
  Database tables as the repositories of \<open>packages/repositories\<close> use them. A table is the
  list of its rows; \<open>key\<close> reads the primary key. An \<open>UPDATE ... WHERE id = i AND guard
  RETURNING\<close> is \<open>update_where\<close>: it changes at most the row of that id, and returns it.
  Queries order rows with a stable sort, one of the orders the database may choose for ties.
  The generic operations of \<open>shared/base.repository.ts\<close> and the batching of
  \<open>shared/collection.ts\<close> follow; the locale \<open>lease_store\<close> is the contract of a table
  whose rows carry an execution token.
\<close>

section \<open>Conditional updates\<close>

definition findById :: "('r \<Rightarrow> string) \<Rightarrow> string \<Rightarrow> 'r list \<Rightarrow> 'r option" where
  "findById key i tbl = find (\<lambda>r. key r = i) tbl"

definition update_where ::
  "('r \<Rightarrow> string) \<Rightarrow> string \<Rightarrow> ('r \<Rightarrow> bool) \<Rightarrow> ('r \<Rightarrow> 'r) \<Rightarrow> 'r list \<Rightarrow> 'r option \<times> 'r list" where
  "update_where key i guard f tbl =
     (case findById key i tbl of
        None \<Rightarrow> (None, tbl)
      | Some r \<Rightarrow>
          if guard r then (Some (f r), map (\<lambda>x. if key x = i then f x else x) tbl) else (None, tbl))"

definition updateById ::
  "('r \<Rightarrow> string) \<Rightarrow> string \<Rightarrow> ('r \<Rightarrow> 'r) \<Rightarrow> 'r list \<Rightarrow> 'r option \<times> 'r list" where
  "updateById key i f tbl = update_where key i (\<lambda>_. True) f tbl"

definition deleteByIdReturning :: "('r \<Rightarrow> string) \<Rightarrow> string \<Rightarrow> 'r list \<Rightarrow> 'r option \<times> 'r list" where
  "deleteByIdReturning key i tbl = (findById key i tbl, filter (\<lambda>r. key r \<noteq> i) tbl)"

definition deleteById :: "('r \<Rightarrow> string) \<Rightarrow> string \<Rightarrow> 'r list \<Rightarrow> bool \<times> 'r list" where
  "deleteById key i tbl = (list_ex (\<lambda>r. key r = i) tbl, filter (\<lambda>r. key r \<noteq> i) tbl)"

lemma findById_key: "findById key i tbl = Some r \<Longrightarrow> key r = i \<and> r \<in> set tbl"
  by (auto simp: findById_def find_Some_iff)

lemma findById_map:
  assumes "\<And>x. key (f x) = key x"
  shows "findById key j (map (\<lambda>x. if key x = i then f x else x) tbl) =
    (if j = i then map_option f (findById key i tbl) else findById key j tbl)"
  using assms by (induction tbl) (auto simp: findById_def)

lemma update_where_find [row_simps]:
  assumes "\<And>x. key (f x) = key x"
  shows "findById key j (snd (update_where key i guard f tbl)) =
    (case fst (update_where key i guard f tbl) of
       Some r \<Rightarrow> if j = i then Some r else findById key j tbl
     | None \<Rightarrow> findById key j tbl)"
  using assms by (auto simp: update_where_def findById_map split: option.splits)

lemma update_where_Some [row_simps]:
  "fst (update_where key i guard f tbl) = Some r' \<longleftrightarrow>
     (\<exists>r. findById key i tbl = Some r \<and> guard r \<and> r' = f r)"
  by (auto simp: update_where_def split: option.splits)

lemma update_where_None [row_simps]:
  "fst (update_where key i guard f tbl) = None \<longleftrightarrow>
     (\<forall>r. findById key i tbl = Some r \<longrightarrow> \<not> guard r)"
  by (auto simp: update_where_def split: option.splits)

lemma update_where_fails: "fst (update_where key i guard f tbl) = None \<Longrightarrow> snd (update_where key i guard f tbl) = tbl"
  by (auto simp: update_where_def split: option.splits if_splits)

lemma update_where_returns:
  assumes "fst (update_where key i guard f tbl) = Some r" "\<And>x. key (f x) = key x"
  shows "findById key i (snd (update_where key i guard f tbl)) = Some r"
  using assms by (simp add: update_where_find)

lemma update_where_frame:
  assumes "j \<noteq> i" "\<And>x. key (f x) = key x"
  shows "findById key j (snd (update_where key i guard f tbl)) = findById key j tbl"
  using assms by (simp add: update_where_find split: option.split)

lemma update_where_hit:
  "findById key i tbl = Some r \<Longrightarrow> guard r \<Longrightarrow>
   update_where key i guard f tbl = (Some (f r), map (\<lambda>x. if key x = i then f x else x) tbl)"
  by (simp add: update_where_def)

lemma update_where_miss:
  "findById key i tbl = Some r \<Longrightarrow> \<not> guard r \<Longrightarrow> update_where key i guard f tbl = (None, tbl)"
  by (simp add: update_where_def)

lemma update_where_keys:
  assumes "\<And>x. key (f x) = key x"
  shows "map key (snd (update_where key i guard f tbl)) = map key tbl"
  using assms by (auto simp: update_where_def split: option.splits)

text \<open>Every row after an update is an old row or a guarded row rewritten.\<close>

lemma update_where_rows:
  assumes "x \<in> set (snd (update_where key i guard f tbl))" "distinct (map key tbl)"
  shows "x \<in> set tbl \<or> (\<exists>r \<in> set tbl. key r = i \<and> guard r \<and> x = f r)"
proof (cases "fst (update_where key i guard f tbl)")
  case None
  from update_where_fails [OF this] assms(1) show ?thesis by simp
next
  case (Some r')
  then obtain r where r: "findById key i tbl = Some r" "guard r" by (auto simp: row_simps)
  have same: "y = r" if "y \<in> set tbl" "key y = i" for y
    using findById_key [OF r(1)] assms(2) that by (auto simp: distinct_map inj_on_def)
  from assms(1) r show ?thesis by (auto simp: update_where_hit dest: same)
qed

section \<open>Queries\<close>

definition MAX_REPOSITORY_READS :: int where
  "MAX_REPOSITORY_READS = 10000"

definition assertBoundedRepositoryRead :: "'r list \<Rightarrow> string \<Rightarrow> string + 'r list" where
  "assertBoundedRepositoryRead rows resource =
     (if len rows > MAX_REPOSITORY_READS
      then Inl (resource @ '' discovery exceeded the maximum supported row count'')
      else Inr rows)"

text \<open>\<open>assertReadLimit\<close> of \<open>shared/collection.ts\<close>, and the messages of its callers.\<close>

definition assertReadLimit :: "'a list \<Rightarrow> nat \<Rightarrow> string \<Rightarrow> string + 'a list" where
  "assertReadLimit rows limit message = (if length rows > limit then Inl message else Inr rows)"

definition environment_limit :: string where
  "environment_limit = ''Environment discovery exceeded the maximum supported environment count''"

definition resource_limit :: string where
  "resource_limit = ''Resource discovery exceeded the maximum supported resource count''"

lemma read_limit: "assertReadLimit rows n message = Inr xs \<Longrightarrow> xs = rows"
  by (auto simp: assertReadLimit_def split: if_splits)

text \<open>
  A query: condition, row order, limit and offset (\<open>None\<close> when the option is absent).
\<close>

definition findMany ::
  "('r \<Rightarrow> bool) \<Rightarrow> ('r list \<Rightarrow> 'r list) \<Rightarrow> int option \<Rightarrow> int option \<Rightarrow> 'r list \<Rightarrow> string + 'r list" where
  "findMany cond orderBy limit offset tbl =
     (let effectiveLimit = (case limit of
              Some requested \<Rightarrow> min requested (MAX_REPOSITORY_READS + 1)
            | None \<Rightarrow> MAX_REPOSITORY_READS + 1);
          skipped = (case offset of Some n \<Rightarrow> nat n | None \<Rightarrow> 0)
      in assertBoundedRepositoryRead
           (take (nat effectiveLimit) (drop skipped (orderBy (filter cond tbl)))) ''Repository'')"

definition count :: "('r \<Rightarrow> bool) \<Rightarrow> 'r list \<Rightarrow> int" where
  "count cond tbl = len (filter cond tbl)"

record 'r page =
  pg_items :: "'r list"
  pg_total :: int
  pg_limit :: int
  pg_offset :: int

definition findPage ::
  "('r \<Rightarrow> bool) \<Rightarrow> ('r list \<Rightarrow> 'r list) \<Rightarrow> int option \<Rightarrow> int option \<Rightarrow> 'r list \<Rightarrow> string + 'r page" where
  "findPage cond orderBy limit offset tbl =
     (let limit = (case limit of Some n \<Rightarrow> n | None \<Rightarrow> 50);
          offset = (case offset of Some n \<Rightarrow> n | None \<Rightarrow> 0)
      in case findMany cond orderBy (Some limit) (Some offset) tbl of
           Inl e \<Rightarrow> Inl e
         | Inr items \<Rightarrow> Inr \<lparr>pg_items = items, pg_total = count cond tbl, pg_limit = limit,
                             pg_offset = offset\<rparr>)"

definition order_asc :: "('r \<Rightarrow> int) \<Rightarrow> 'r list \<Rightarrow> 'r list" where
  "order_asc f rows = sort_key f rows"

definition order_desc :: "('r \<Rightarrow> int) \<Rightarrow> 'r list \<Rightarrow> 'r list" where
  "order_desc f rows = sort_key (\<lambda>r. - f r) rows"

lemma set_order [simp]: "set (order_asc f rows) = set rows" "set (order_desc f rows) = set rows"
  by (simp_all add: order_asc_def order_desc_def)

lemma in_take_order:
  "r \<in> set (take n (order_asc f rows)) \<Longrightarrow> r \<in> set rows"
  "r \<in> set (take n (order_desc f rows)) \<Longrightarrow> r \<in> set rows"
  by (auto dest: in_set_takeD)

lemma distinct_map_order [simp]:
  "distinct (map g (order_asc f xs)) = distinct (map g xs)"
  by (simp add: order_asc_def distinct_map)

lemma distinct_map_take: "distinct (map g xs) \<Longrightarrow> distinct (map g (take n xs))"
  by (simp flip: take_map)

lemma distinct_map_filter: "distinct (map g xs) \<Longrightarrow> distinct (map g (filter P xs))"
  by (induction xs) auto

lemma keys_of_selected:
  assumes "\<And>m. key (f m) = key m" "set ids \<subseteq> key ` set tbl"
  shows "key ` set (filter (\<lambda>m. key m \<in> set ids) (map f tbl)) = set ids"
proof (intro set_eqI iffI)
  fix x
  assume "x \<in> set ids"
  with assms(2) obtain m where "m \<in> set tbl" "x = key m" by blast
  with assms(1) \<open>x \<in> set ids\<close> show "x \<in> key ` set (filter (\<lambda>m. key m \<in> set ids) (map f tbl))"
    by (intro image_eqI [of _ _ "f m"]) auto
qed auto

section \<open>Batches\<close>

text \<open>The loop of \<open>chunk\<close>, for a positive size.\<close>

function chunk_loop :: "nat \<Rightarrow> 'a list \<Rightarrow> 'a list list" where
  "chunk_loop n xs = (if xs = [] \<or> n = 0 then [] else take n xs # chunk_loop n (drop n xs))"
  by pat_completeness auto
termination
  by (relation "measure (\<lambda>(n, xs). length xs)") auto

declare chunk_loop.simps [simp del]

definition chunk :: "'a list \<Rightarrow> int \<Rightarrow> string + 'a list list" where
  "chunk xs sz =
     (if sz \<le> 0 then Inl ''Chunk size must be a positive integer'' else Inr (chunk_loop (nat sz) xs))"

lemma chunk_loop_concat: "0 < n \<Longrightarrow> concat (chunk_loop n xs) = xs"
  by (induction n xs rule: chunk_loop.induct) (subst chunk_loop.simps, auto)

lemma chunk_loop_sizes: "c \<in> set (chunk_loop n xs) \<Longrightarrow> c \<noteq> [] \<and> length c \<le> n"
proof (induction n xs rule: chunk_loop.induct)
  case (1 n xs)
  from 1(2) have ne: "\<not> (xs = [] \<or> n = 0)"
    and c: "c = take n xs \<or> c \<in> set (chunk_loop n (drop n xs))"
    by (subst (asm) chunk_loop.simps, simp split: if_splits)+
  from c show ?case
  proof
    assume "c \<in> set (chunk_loop n (drop n xs))"
    with 1(1) [OF ne] show ?thesis by blast
  qed (use ne in auto)
qed

section \<open>Leases\<close>

text \<open>
  A store whose rows carry the token of the worker that owns them. \<open>claim\<close> takes a row for
  a token, \<open>put\<close> is an update guarded by the token: it changes that row only, and
  nothing at all when it returns nothing.
\<close>

locale lease_store =
  fixes row :: "'t \<Rightarrow> string \<Rightarrow> 'r option"
    and token :: "'r \<Rightarrow> 'k option"
    and live :: "'r \<Rightarrow> bool"
    and claim :: "string \<Rightarrow> 'k \<Rightarrow> 't \<Rightarrow> 'r option \<times> 't"
    and put :: "string \<Rightarrow> 'k \<Rightarrow> 'p \<Rightarrow> 't \<Rightarrow> 'r option \<times> 't"
  assumes claim_owns: "fst (claim i k t) = Some r \<Longrightarrow> row (snd (claim i k t)) i = Some r \<and> token r = Some k"
    and write_guard: "fst (put i k p t) = Some r' \<Longrightarrow> \<exists>r. row t i = Some r \<and> token r = Some k \<and> live r"
    and write_rejects: "fst (put i k p t) = None \<Longrightarrow> snd (put i k p t) = t"
    and write_frame: "j \<noteq> i \<Longrightarrow> row (snd (put i k p t)) j = row t j"
begin

lemma stale_write:
  assumes "row t i = Some r" "token r \<noteq> Some k"
  shows "put i k p t = (None, t)"
proof -
  have "fst (put i k p t) = None"
    using assms write_guard [of i k p t] by (cases "fst (put i k p t)") auto
  with write_rejects show ?thesis by (simp add: prod_eq_iff)
qed

lemma dead_write:
  assumes "row t i = Some r" "\<not> live r"
  shows "put i k p t = (None, t)"
proof -
  have "fst (put i k p t) = None"
    using assms write_guard [of i k p t] by (cases "fst (put i k p t)") auto
  with write_rejects show ?thesis by (simp add: prod_eq_iff)
qed

text \<open>A worker whose row was claimed by another cannot write to it any more.\<close>

lemma fenced:
  assumes "fst (claim i k2 t) = Some r" "k1 \<noteq> k2"
  shows "put i k1 p (snd (claim i k2 t)) = (None, snd (claim i k2 t))"
proof (rule stale_write)
  from claim_owns [OF assms(1)] show "row (snd (claim i k2 t)) i = Some r" by blast
  from claim_owns [OF assms(1)] assms(2) show "token r \<noteq> Some k1" by simp
qed

text \<open>Any sequence of writes by workers that do not own the row leaves the store alone.\<close>

lemma stale_writes:
  assumes "row t i = Some r" "token r = Some k" "k \<notin> fst ` set ws"
  shows "fold (\<lambda>w t. snd (put i (fst w) (snd w) t)) ws t = t"
  using assms by (induction ws) (auto simp: stale_write)

end

end
