(* ===== verification/Outbox.thy ===== *)
theory Outbox
  imports Row_Store
begin

text \<open>
  The transactional outbox: \<open>packages/domain/src/entities/outbox.ts\<close>, the repository
  \<open>packages/repositories/src/outbox/drizzle-outbox.repository.ts\<close>, the publisher
  \<open>packages/usecases/src/outbox/outbox-publisher.ts\<close> and the BullMQ job publisher of
  \<open>packages/infrastructure/src/outbox/bullmq-outbox-job-publisher.ts\<close>.

  Parameters: the uuids \<open>randomUUID()\<close> returns, the clock, the set of rows a concurrent
  claim has locked, the answer of the job publisher (with whatever happens to the table
  while it is awaited), and the view through which the rows of a raw query are read, since
  \<open>execute\<close> returns the driver's rows and not mapped ones.
\<close>

section \<open>Messages\<close>

datatype outbox_status = OPending | OPublishing | OPublished | ODeadLetter

record outbox_message =
  om_id :: string
  om_type :: string
  om_payload :: "(string \<times> jsval) list"
  om_aggregateType :: "string option"
  om_aggregateId :: "string option"
  om_organizationId :: "string option"
  om_idempotencyKey :: string
  om_status :: outbox_status
  om_attempts :: int
  om_maxAttempts :: int
  om_availableAt :: int
  om_claimedAt :: "int option"
  om_publishedAt :: "int option"
  om_deadLetteredAt :: "int option"
  om_lastError :: "string option"
  om_createdAt :: int
  om_updatedAt :: int

record create_outbox_message =
  co_id :: "string option"
  co_type :: string
  co_payload :: "(string \<times> jsval) list"
  co_aggregateType :: "string option"
  co_aggregateId :: "string option"
  co_organizationId :: "string option"
  co_idempotencyKey :: string
  co_maxAttempts :: "int option"
  co_availableAt :: "int option"

definition DEFAULT_MAX_ATTEMPTS :: int where
  "DEFAULT_MAX_ATTEMPTS = 10"

definition MAX_BATCH_SIZE :: int where
  "MAX_BATCH_SIZE = 500"

definition or_default :: "'a option \<Rightarrow> 'a \<Rightarrow> 'a" where
  "or_default x d = (case x of Some v \<Rightarrow> v | None \<Rightarrow> d)"

text \<open>The row an insert stores: the given values and the column defaults.\<close>

definition new_message :: "string \<Rightarrow> int \<Rightarrow> create_outbox_message \<Rightarrow> outbox_message" where
  "new_message uuid now data =
     \<lparr>om_id = or_default (co_id data) uuid, om_type = co_type data, om_payload = co_payload data,
      om_aggregateType = co_aggregateType data, om_aggregateId = co_aggregateId data,
      om_organizationId = co_organizationId data, om_idempotencyKey = co_idempotencyKey data,
      om_status = OPending, om_attempts = 0,
      om_maxAttempts = or_default (co_maxAttempts data) DEFAULT_MAX_ATTEMPTS,
      om_availableAt = or_default (co_availableAt data) now, om_claimedAt = None,
      om_publishedAt = None, om_deadLetteredAt = None, om_lastError = None, om_createdAt = now,
      om_updatedAt = now\<rparr>"

section \<open>The repository\<close>

definition find_key :: "string \<Rightarrow> outbox_message list \<Rightarrow> outbox_message option" where
  "find_key k tbl = find (\<lambda>m. om_idempotencyKey m = k) tbl"

text \<open>
  \<open>INSERT ... ON CONFLICT (idempotency_key) DO NOTHING RETURNING\<close>: nothing is returned on a
  conflict of keys; a primary key that exists already is an error of the database.
\<close>

definition insert_message ::
  "outbox_message \<Rightarrow> outbox_message list \<Rightarrow> string + outbox_message option \<times> outbox_message list" where
  "insert_message m tbl =
     (if find_key (om_idempotencyKey m) tbl \<noteq> None then Inr (None, tbl)
      else if findById om_id (om_id m) tbl \<noteq> None
      then Inl ''duplicate key value violates unique constraint''
      else Inr (Some m, tbl @ [m]))"

definition create ::
  "string \<Rightarrow> int \<Rightarrow> create_outbox_message \<Rightarrow> outbox_message list \<Rightarrow>
   (string + outbox_message) \<times> outbox_message list" where
  "create uuid now data tbl =
     (case insert_message (new_message uuid now data) tbl of
        Inl e \<Rightarrow> (Inl e, tbl)
      | Inr (Some m, tbl') \<Rightarrow> (Inr m, tbl')
      | Inr (None, tbl') \<Rightarrow>
          (case find_key (co_idempotencyKey data) tbl' of
             None \<Rightarrow> (Inl ''create: insert returned no outbox message'', tbl')
           | Some existing \<Rightarrow> (Inr existing, tbl')))"

fun insert_all ::
  "outbox_message list \<Rightarrow> outbox_message list \<Rightarrow> string + outbox_message list \<times> outbox_message list" where
  "insert_all [] tbl = Inr ([], tbl)"
| "insert_all (m # ms) tbl =
     (case insert_message m tbl of
        Inl e \<Rightarrow> Inl e
      | Inr (r, tbl1) \<Rightarrow>
          (case insert_all ms tbl1 of
             Inl e \<Rightarrow> Inl e
           | Inr (rs, tbl2) \<Rightarrow> Inr ((case r of Some m' \<Rightarrow> m' # rs | None \<Rightarrow> rs), tbl2)))"

definition createMany ::
  "int \<Rightarrow> (string \<times> create_outbox_message) list \<Rightarrow> outbox_message list \<Rightarrow>
   (string + outbox_message list) \<times> outbox_message list" where
  "createMany now data tbl =
     (if data = [] then (Inr [], tbl)
      else case insert_all (map (\<lambda>(uuid, d). new_message uuid now d) data) tbl of
        Inl e \<Rightarrow> (Inl e, tbl)
      | Inr (inserted, tbl') \<Rightarrow>
          if length inserted = length data then (Inr inserted, tbl')
          else (Inr (concat (map (\<lambda>(_, d). case find_key (co_idempotencyKey d) tbl' of
                                    Some row \<Rightarrow> [row] | None \<Rightarrow> []) data)), tbl'))"

definition statusFilter :: "outbox_status \<Rightarrow> string option \<Rightarrow> outbox_message \<Rightarrow> bool" where
  "statusFilter status organizationId m \<longleftrightarrow>
     om_status m = status \<and>
     (case organizationId of
        Some org \<Rightarrow> org = [] \<or> om_organizationId m = Some org
      | None \<Rightarrow> True)"

definition findMessagesByStatus ::
  "outbox_status \<Rightarrow> int \<Rightarrow> string option \<Rightarrow> outbox_message list \<Rightarrow> outbox_message list" where
  "findMessagesByStatus status limit organizationId tbl =
     take (clamp_limit MAX_BATCH_SIZE limit)
       (order_asc om_createdAt (filter (statusFilter status organizationId) tbl))"

definition claim_candidate :: "int \<Rightarrow> int \<Rightarrow> string option \<Rightarrow> outbox_message \<Rightarrow> bool" where
  "claim_candidate now staleBefore type m \<longleftrightarrow>
     ((om_status m = OPending \<and> om_availableAt m \<le> now) \<or>
      (om_status m = OPublishing \<and> earlier (om_claimedAt m) staleBefore)) \<and>
     (case type of Some t \<Rightarrow> t = [] \<or> om_type m = t | None \<Rightarrow> True)"

definition claim_candidates ::
  "string list \<Rightarrow> int \<Rightarrow> int \<Rightarrow> int \<Rightarrow> string option \<Rightarrow> outbox_message list \<Rightarrow> string list" where
  "claim_candidates locked now leaseMs limit type tbl =
     (let staleBefore = now - max 1000 leaseMs in
      map om_id (take (clamp_limit MAX_BATCH_SIZE limit)
        (order_asc om_availableAt (order_asc om_createdAt
          (filter (\<lambda>m. claim_candidate now staleBefore type m \<and> om_id m \<notin> set locked) tbl)))))"

definition claim_message :: "int \<Rightarrow> outbox_message \<Rightarrow> outbox_message" where
  "claim_message now m =
     m\<lparr>om_status := OPublishing, om_claimedAt := Some now,
       om_attempts := om_attempts m + (if om_status m = OPending then 1 else 0), om_updatedAt := now\<rparr>"

definition claimBatch ::
  "string list \<Rightarrow> int \<Rightarrow> int \<Rightarrow> int \<Rightarrow> string option \<Rightarrow> outbox_message list \<Rightarrow>
   outbox_message list \<times> outbox_message list" where
  "claimBatch locked now leaseMs limit type tbl =
     (let ids = claim_candidates locked now leaseMs limit type tbl;
          tbl' = map (\<lambda>m. if om_id m \<in> set ids then claim_message now m else m) tbl
      in (filter (\<lambda>m. om_id m \<in> set ids) tbl', tbl'))"

definition publishing_as :: "int option \<Rightarrow> outbox_message \<Rightarrow> bool" where
  "publishing_as claimedAt m \<longleftrightarrow>
     om_status m = OPublishing \<and> (claimedAt \<noteq> None \<longrightarrow> om_claimedAt m = claimedAt)"

definition markPublished ::
  "string \<Rightarrow> int \<Rightarrow> int option \<Rightarrow> outbox_message list \<Rightarrow> bool \<times> outbox_message list" where
  "markPublished i publishedAt claimedAt tbl =
     (case update_where om_id i (publishing_as claimedAt)
             (\<lambda>m. m\<lparr>om_status := OPublished, om_claimedAt := None,
                    om_publishedAt := Some publishedAt, om_updatedAt := publishedAt\<rparr>) tbl of
        (r, tbl') \<Rightarrow> (r \<noteq> None, tbl'))"

definition fail_message :: "int \<Rightarrow> string \<Rightarrow> int \<Rightarrow> outbox_message \<Rightarrow> outbox_message" where
  "fail_message failedAt error retryDelayMs m =
     m\<lparr>om_status := (if om_attempts m \<ge> om_maxAttempts m then ODeadLetter else OPending),
       om_availableAt := failedAt + max 0 retryDelayMs,
       om_claimedAt := None,
       om_deadLetteredAt := (if om_attempts m \<ge> om_maxAttempts m then Some failedAt else None),
       om_lastError := Some (take 4000 error),
       om_updatedAt := failedAt\<rparr>"

definition markFailed ::
  "string \<Rightarrow> int \<Rightarrow> string \<Rightarrow> int \<Rightarrow> int option \<Rightarrow> outbox_message list \<Rightarrow>
   outbox_message option \<times> outbox_message list" where
  "markFailed i failedAt error retryDelayMs claimedAt tbl =
     update_where om_id i (publishing_as claimedAt) (fail_message failedAt error retryDelayMs) tbl"

definition retryDeadLetter ::
  "string \<Rightarrow> int \<Rightarrow> string option \<Rightarrow> outbox_message list \<Rightarrow>
   outbox_message option \<times> outbox_message list" where
  "retryDeadLetter i availableAt organizationId tbl =
     update_where om_id i (statusFilter ODeadLetter organizationId)
       (\<lambda>m. m\<lparr>om_status := OPending, om_attempts := 0, om_availableAt := availableAt,
              om_claimedAt := None, om_deadLetteredAt := None, om_lastError := None,
              om_updatedAt := availableAt\<rparr>) tbl"

definition prunePublished :: "int \<Rightarrow> int \<Rightarrow> outbox_message list \<Rightarrow> int \<times> outbox_message list" where
  "prunePublished before limit tbl =
     (let candidates = map om_id (take (clamp_limit MAX_BATCH_SIZE limit)
            (order_asc (\<lambda>m. or_default (om_publishedAt m) 0)
              (filter (\<lambda>m. om_status m = OPublished \<and> earlier (om_publishedAt m) before) tbl)))
      in if candidates = [] then (0, tbl)
         else (len (filter (\<lambda>m. om_id m \<in> set candidates) tbl),
               filter (\<lambda>m. om_id m \<notin> set candidates) tbl))"

record outbox_summary =
  os_pending :: int
  os_publishing :: int
  os_published :: int
  os_deadLetter :: int

definition getOperationalSummary :: "string option \<Rightarrow> outbox_message list \<Rightarrow> outbox_summary" where
  "getOperationalSummary organizationId tbl =
     (let n = \<lambda>status. len (filter (statusFilter status organizationId) tbl)
      in \<lparr>os_pending = n OPending, os_publishing = n OPublishing, os_published = n OPublished,
          os_deadLetter = n ODeadLetter\<rparr>)"

section \<open>The publisher\<close>

record publisher_options =
  po_batchSize :: int
  po_leaseMs :: int
  po_retryBaseDelayMs :: int
  po_maxRetryDelayMs :: int

definition default_publisher_options :: publisher_options where
  "default_publisher_options =
     \<lparr>po_batchSize = 100, po_leaseMs = 60000, po_retryBaseDelayMs = 1000,
      po_maxRetryDelayMs = 300000\<rparr>"

record publish_batch_result =
  br_claimed :: int
  br_published :: int
  br_retried :: int
  br_deadLettered :: int

text \<open>
  \<open>publish m tbl\<close> is the outcome of awaiting the job publisher, with the table as it is
  afterwards; \<open>at m\<close> is the clock when the outcome is recorded.
\<close>

type_synonym job_publisher = "outbox_message \<Rightarrow> outbox_message list \<Rightarrow> (string + unit) \<times> outbox_message list"

definition retry_delay :: "publisher_options \<Rightarrow> outbox_message \<Rightarrow> int" where
  "retry_delay opts m =
     min (po_maxRetryDelayMs opts) (po_retryBaseDelayMs opts * 2 ^ nat (max (om_attempts m - 1) 0))"

definition publish_one ::
  "publisher_options \<Rightarrow> job_publisher \<Rightarrow> (outbox_message \<Rightarrow> int) \<Rightarrow> outbox_message \<Rightarrow>
   publish_batch_result \<times> outbox_message list \<Rightarrow> publish_batch_result \<times> outbox_message list" where
  "publish_one opts publish at message st =
     (case st of (result, tbl) \<Rightarrow>
        (case publish message tbl of
           (Inr _, tbl1) \<Rightarrow>
             (case markPublished (om_id message) (at message) (om_claimedAt message) tbl1 of
                (marked, tbl2) \<Rightarrow>
                  (if marked then result\<lparr>br_published := br_published result + 1\<rparr> else result, tbl2))
         | (Inl error, tbl1) \<Rightarrow>
             (case markFailed (om_id message) (at message) error (retry_delay opts message)
                     (om_claimedAt message) tbl1 of
                (failed, tbl2) \<Rightarrow>
                  ((case failed of
                      Some m \<Rightarrow>
                        if om_status m = ODeadLetter
                        then result\<lparr>br_deadLettered := br_deadLettered result + 1\<rparr>
                        else result\<lparr>br_retried := br_retried result + 1\<rparr>
                    | None \<Rightarrow> result), tbl2))))"

definition publishBatch ::
  "publisher_options \<Rightarrow> (outbox_message \<Rightarrow> outbox_message) \<Rightarrow> job_publisher \<Rightarrow>
   (outbox_message \<Rightarrow> int) \<Rightarrow> string list \<Rightarrow> int \<Rightarrow> outbox_message list \<Rightarrow>
   publish_batch_result \<times> outbox_message list" where
  "publishBatch opts view publish at locked now tbl =
     (case claimBatch locked now (po_leaseMs opts) (po_batchSize opts) None tbl of
        (rows, tbl1) \<Rightarrow>
          fold (publish_one opts publish at) (map view rows)
            (\<lparr>br_claimed = len rows, br_published = 0, br_retried = 0, br_deadLettered = 0\<rparr>, tbl1))"

end
