(* ===== verification/Outbox_Guarantees.thy ===== *)
theory Outbox_Guarantees
  imports Outbox
begin

text \<open>
  What the outbox guarantees: idempotent creation, the attempt budget along every history of
  repository calls, the accounting of a batch, and the fence that a claim time is.
\<close>

section \<open>Well-formed tables\<close>

definition wf_message :: "outbox_message \<Rightarrow> bool" where
  "wf_message m \<longleftrightarrow>
     0 < om_maxAttempts m \<and>
     (om_claimedAt m \<noteq> None \<longleftrightarrow> om_status m = OPublishing) \<and>
     (om_deadLetteredAt m \<noteq> None \<longleftrightarrow> om_status m = ODeadLetter) \<and>
     (case om_status m of
        OPending \<Rightarrow> 0 \<le> om_attempts m \<and> om_attempts m < om_maxAttempts m
      | OPublishing \<Rightarrow> 1 \<le> om_attempts m \<and> om_attempts m \<le> om_maxAttempts m
      | OPublished \<Rightarrow> 1 \<le> om_attempts m \<and> om_attempts m \<le> om_maxAttempts m \<and> om_publishedAt m \<noteq> None
      | ODeadLetter \<Rightarrow> om_attempts m = om_maxAttempts m)"

definition wf_outbox :: "outbox_message list \<Rightarrow> bool" where
  "wf_outbox tbl \<longleftrightarrow>
     distinct (map om_id tbl) \<and> distinct (map om_idempotencyKey tbl) \<and> (\<forall>m \<in> set tbl. wf_message m)"

lemma update_where_wf:
  assumes "wf_outbox tbl"
    and "\<And>m. om_id (f m) = om_id m" "\<And>m. om_idempotencyKey (f m) = om_idempotencyKey m"
    and "\<And>m. wf_message m \<Longrightarrow> guard m \<Longrightarrow> wf_message (f m)"
  shows "wf_outbox (snd (update_where om_id i guard f tbl))"
proof -
  have "map om_idempotencyKey (snd (update_where om_id i guard f tbl)) = map om_idempotencyKey tbl"
    using assms(3) by (auto simp: update_where_def split: option.splits)
  moreover have "wf_message m" if "m \<in> set (snd (update_where om_id i guard f tbl))" for m
    using update_where_rows [OF that] assms(1,4) by (auto simp: wf_outbox_def)
  ultimately show ?thesis
    using assms(1,2) update_where_keys [of om_id f i guard tbl] by (simp add: wf_outbox_def)
qed

lemma find_key_None: "find_key k tbl = None \<longleftrightarrow> k \<notin> om_idempotencyKey ` set tbl"
  by (auto simp: find_key_def find_None_iff)

lemma find_key_Some: "find_key k tbl = Some m \<Longrightarrow> m \<in> set tbl \<and> om_idempotencyKey m = k"
  by (auto simp: find_key_def find_Some_iff)

lemma findById_None: "findById key i tbl = None \<longleftrightarrow> i \<notin> key ` set tbl"
  by (auto simp: findById_def find_None_iff)

lemma insert_message_wf:
  assumes "wf_outbox tbl" "wf_message m" "insert_message m tbl = Inr (r, tbl')"
  shows "wf_outbox tbl'"
  using assms
  by (auto simp: insert_message_def wf_outbox_def find_key_None findById_None split: if_splits)

lemma insert_all_wf:
  assumes "insert_all ms tbl = Inr (rs, tbl')" "wf_outbox tbl" "\<forall>m \<in> set ms. wf_message m"
  shows "wf_outbox tbl'"
  using assms
proof (induction ms arbitrary: tbl rs)
  case (Cons m ms)
  then obtain r tbl1 rs1 where "insert_message m tbl = Inr (r, tbl1)" "insert_all ms tbl1 = Inr (rs1, tbl')"
    by (auto split: sum.splits)
  with Cons insert_message_wf show ?case by (metis list.set_intros)
qed simp

definition valid_data :: "create_outbox_message \<Rightarrow> bool" where
  "valid_data data \<longleftrightarrow> (case co_maxAttempts data of Some n \<Rightarrow> 0 < n | None \<Rightarrow> True)"

lemma new_message_wf: "valid_data data \<Longrightarrow> wf_message (new_message uuid now data)"
  by (auto simp: wf_message_def new_message_def valid_data_def or_default_def DEFAULT_MAX_ATTEMPTS_def
      split: option.splits)

lemma create_wf: "wf_outbox tbl \<Longrightarrow> valid_data data \<Longrightarrow> wf_outbox (snd (create uuid now data tbl))"
  by (auto simp: create_def dest: insert_message_wf [OF _ new_message_wf] split: sum.splits option.splits)

lemma createMany_wf:
  assumes "wf_outbox tbl" "\<forall>d \<in> snd ` set data. valid_data d"
  shows "wf_outbox (snd (createMany now data tbl))"
  using assms insert_all_wf [of "map (\<lambda>(uuid, d). new_message uuid now d) data" tbl]
  by (fastforce simp: createMany_def intro: new_message_wf split: sum.splits)

lemma claim_message_wf: "wf_message m \<Longrightarrow> om_status m = OPending \<or> om_status m = OPublishing \<Longrightarrow> wf_message (claim_message now m)"
  by (auto simp: wf_message_def claim_message_def)

lemma candidate_status:
  assumes "distinct (map om_id tbl)" "m \<in> set tbl"
    and "om_id m \<in> set (claim_candidates locked now leaseMs limit type tbl)"
  shows "claim_candidate now (now - max 1000 leaseMs) type m \<and> om_id m \<notin> set locked"
proof -
  from assms(3) obtain m' where m': "m' \<in> set tbl" "om_id m' = om_id m"
    "claim_candidate now (now - max 1000 leaseMs) type m'" "om_id m' \<notin> set locked"
    by (auto simp: claim_candidates_def Let_def dest!: in_take_order)
  with assms(1,2) have "m' = m" by (auto simp: distinct_map inj_on_def)
  with m' show ?thesis by simp
qed

lemma claimBatch_wf:
  assumes "wf_outbox tbl"
  shows "wf_outbox (snd (claimBatch locked now leaseMs limit type tbl))"
proof -
  let ?ids = "claim_candidates locked now leaseMs limit type tbl"
  let ?f = "\<lambda>m. if om_id m \<in> set ?ids then claim_message now m else m"
  have "map om_id (map ?f tbl) = map om_id tbl" "map om_idempotencyKey (map ?f tbl) = map om_idempotencyKey tbl"
    by (auto simp: claim_message_def)
  moreover have "wf_message (?f m)" if "m \<in> set tbl" for m
  proof (cases "om_id m \<in> set ?ids")
    case True
    from assms have d: "distinct (map om_id tbl)" by (simp add: wf_outbox_def)
    from candidate_status [OF d that True] have "om_status m = OPending \<or> om_status m = OPublishing"
      by (auto simp: claim_candidate_def)
    with assms that True show ?thesis by (simp add: wf_outbox_def claim_message_wf)
  qed (use assms that in \<open>simp add: wf_outbox_def\<close>)
  ultimately have "wf_outbox (map ?f tbl)"
    using assms unfolding wf_outbox_def by (simp only: set_map ball_simps) simp
  then show ?thesis by (simp add: claimBatch_def Let_def)
qed

definition publish_message :: "int \<Rightarrow> outbox_message \<Rightarrow> outbox_message" where
  "publish_message t m =
     m\<lparr>om_status := OPublished, om_claimedAt := None, om_publishedAt := Some t, om_updatedAt := t\<rparr>"

lemma markPublished_update:
  "markPublished i t c tbl =
     (fst (update_where om_id i (publishing_as c) (publish_message t) tbl) \<noteq> None,
      snd (update_where om_id i (publishing_as c) (publish_message t) tbl))"
  by (simp add: markPublished_def publish_message_def [abs_def] split: prod.split)

lemma markPublished_wf: "wf_outbox tbl \<Longrightarrow> wf_outbox (snd (markPublished i t c tbl))"
  unfolding markPublished_update snd_conv
  by (erule update_where_wf) (auto simp: publish_message_def publishing_as_def wf_message_def)

lemma fail_message_wf:
  "wf_message m \<Longrightarrow> om_status m = OPublishing \<Longrightarrow> wf_message (fail_message t e delay m)"
  by (auto simp: wf_message_def fail_message_def)

lemma markFailed_wf: "wf_outbox tbl \<Longrightarrow> wf_outbox (snd (markFailed i t e delay c tbl))"
  unfolding markFailed_def
  by (erule update_where_wf) (auto simp: fail_message_wf publishing_as_def, auto simp: fail_message_def)

lemma retryDeadLetter_wf: "wf_outbox tbl \<Longrightarrow> wf_outbox (snd (retryDeadLetter i t org tbl))"
  unfolding retryDeadLetter_def
  by (erule update_where_wf) (auto simp: statusFilter_def wf_message_def)

lemma prunePublished_wf: "wf_outbox tbl \<Longrightarrow> wf_outbox (snd (prunePublished before limit tbl))"
  by (auto simp: prunePublished_def Let_def wf_outbox_def distinct_map_filter)

section \<open>Histories\<close>

inductive outbox_step :: "outbox_message list \<Rightarrow> outbox_message list \<Rightarrow> bool" where
  create: "valid_data data \<Longrightarrow> outbox_step tbl (snd (create uuid now data tbl))"
| createMany: "\<forall>d \<in> snd ` set data. valid_data d \<Longrightarrow> outbox_step tbl (snd (createMany now data tbl))"
| claim: "outbox_step tbl (snd (claimBatch locked now leaseMs limit type tbl))"
| published: "outbox_step tbl (snd (markPublished i t c tbl))"
| failed: "outbox_step tbl (snd (markFailed i t e delay c tbl))"
| retry: "outbox_step tbl (snd (retryDeadLetter i t org tbl))"
| prune: "outbox_step tbl (snd (prunePublished before limit tbl))"

inductive_cases outbox_stepE: "outbox_step tbl tbl'"

lemmas outbox_wf_rules =
  create_wf createMany_wf claimBatch_wf markPublished_wf markFailed_wf retryDeadLetter_wf
  prunePublished_wf

lemma outbox_step_wf: "outbox_step tbl tbl' \<Longrightarrow> wf_outbox tbl \<Longrightarrow> wf_outbox tbl'"
  by (erule outbox_stepE) (simp_all add: outbox_wf_rules)

lemma outbox_steps_wf: "outbox_step\<^sup>*\<^sup>* tbl tbl' \<Longrightarrow> wf_outbox tbl \<Longrightarrow> wf_outbox tbl'"
  by (induction rule: rtranclp_induct) (auto intro: outbox_step_wf)

section \<open>Batches\<close>

lemma markPublished_hit:
  assumes "findById om_id i tbl = Some m" "publishing_as c m"
  shows "markPublished i t c tbl =
    (True, map (\<lambda>x. if om_id x = i then publish_message t x else x) tbl)"
  by (simp add: markPublished_update update_where_hit [where guard = "publishing_as c", OF assms])

lemma markFailed_hit:
  assumes "findById om_id i tbl = Some m" "publishing_as c m"
  shows "markFailed i t e delay c tbl =
    (Some (fail_message t e delay m), map (\<lambda>x. if om_id x = i then fail_message t e delay x else x) tbl)"
  by (simp add: markFailed_def update_where_hit [where guard = "publishing_as c", OF assms])

text \<open>
  How a raw row may read as a message: the columns whose names are one word are there, the
  claim time is there or missing.
\<close>

definition message_view :: "(outbox_message \<Rightarrow> outbox_message) \<Rightarrow> bool" where
  "message_view view \<longleftrightarrow>
     (\<forall>m. om_id (view m) = om_id m \<and> om_attempts (view m) = om_attempts m \<and>
          (om_claimedAt (view m) = None \<or> om_claimedAt (view m) = om_claimedAt m))"

text \<open>What a claimed message becomes, given the answer of the job publisher.\<close>

definition settle ::
  "publisher_options \<Rightarrow> (outbox_message \<Rightarrow> string + unit) \<Rightarrow> (outbox_message \<Rightarrow> int) \<Rightarrow>
   outbox_message \<Rightarrow> outbox_message \<Rightarrow> outbox_message" where
  "settle opts answer at seen m =
     (case answer seen of
        Inr _ \<Rightarrow> publish_message (at seen) m
      | Inl e \<Rightarrow> fail_message (at seen) e (retry_delay opts m) m)"

definition settled_count :: "publish_batch_result \<Rightarrow> int" where
  "settled_count r = br_published r + br_retried r + br_deadLettered r"

lemma settle_keys [simp]: "om_id (settle opts answer at seen m) = om_id m"
  by (simp add: settle_def publish_message_def fail_message_def split: sum.split)

lemma findById_member:
  assumes "distinct (map key tbl)" "m \<in> set tbl"
  shows "findById key (key m) tbl = Some m"
proof -
  from assms(2) have "findById key (key m) tbl \<noteq> None" by (auto simp: findById_None)
  then obtain m' where "findById key (key m) tbl = Some m'" by blast
  with findById_key [OF this] assms show ?thesis by (auto simp: distinct_map inj_on_def)
qed

lemma publish_one_settles:
  assumes "message_view view" "distinct (map om_id tbl)" "m \<in> set tbl" "om_status m = OPublishing"
  shows "\<exists>r'. publish_one opts (\<lambda>x t. (answer x, t)) at (view m) (r, tbl) =
      (r', map (\<lambda>x. if om_id x = om_id m then settle opts answer at (view m) m else x) tbl) \<and>
    br_claimed r' = br_claimed r \<and> settled_count r' = settled_count r + 1"
proof -
  from assms(1) have v: "om_id (view m) = om_id m" "retry_delay opts (view m) = retry_delay opts m"
    and own: "publishing_as (om_claimedAt (view m)) m"
    using assms(4) assms(1) [unfolded message_view_def, THEN spec, of m]
    by (auto simp: retry_delay_def publishing_as_def)
  note f = findById_member [OF assms(2,3)]
  have same: "map (\<lambda>x. if om_id x = om_id m then g x else x) tbl =
      map (\<lambda>x. if om_id x = om_id m then g m else x) tbl" for g :: "outbox_message \<Rightarrow> outbox_message"
    using assms(2,3) by (auto simp: distinct_map inj_on_def intro!: map_cong)
  show ?thesis
  proof (cases "answer (view m)")
    case (Inl e)
    then show ?thesis
      unfolding publish_one_def
      by (simp add: v markFailed_hit [OF f own] same [of "fail_message _ _ _"] settle_def settled_count_def)
  next
    case (Inr u)
    then show ?thesis
      unfolding publish_one_def
      by (simp add: v markPublished_hit [OF f own] same [of "publish_message _"] settle_def settled_count_def)
  qed
qed

lemma publish_all_settles:
  assumes "message_view view" "distinct (map om_id tbl)" "set rows \<subseteq> set tbl" "distinct (map om_id rows)"
    and "\<forall>m \<in> set rows. om_status m = OPublishing"
  shows "\<exists>r'. fold (publish_one opts (\<lambda>x t. (answer x, t)) at) (map view rows) (r, tbl) =
      (r', map (\<lambda>x. if om_id x \<in> om_id ` set rows then settle opts answer at (view x) x else x) tbl) \<and>
    br_claimed r' = br_claimed r \<and> settled_count r' = settled_count r + len rows"
  using assms(2-5)
proof (induction rows arbitrary: r tbl)
  case (Cons m rows)
  let ?f = "\<lambda>x. if om_id x = om_id m then settle opts answer at (view m) m else x"
  from Cons.prems obtain r1 where
    r1: "publish_one opts (\<lambda>x t. (answer x, t)) at (view m) (r, tbl) = (r1, map ?f tbl)"
      "br_claimed r1 = br_claimed r" "settled_count r1 = settled_count r + 1"
    using publish_one_settles [OF assms(1), of tbl m opts answer at r] by auto
  have ids: "map om_id (map ?f tbl) = map om_id tbl" by auto
  have sub: "set rows \<subseteq> set (map ?f tbl)"
  proof
    fix x
    assume x: "x \<in> set rows"
    with Cons.prems(3) have "om_id x \<noteq> om_id m" by (auto dest: sym)
    with x Cons.prems(2) show "x \<in> set (map ?f tbl)" by (auto intro!: image_eqI [of _ _ x])
  qed
  have "\<exists>r'. fold (publish_one opts (\<lambda>x t. (answer x, t)) at) (map view rows) (r1, map ?f tbl) =
        (r', map (\<lambda>x. if om_id x \<in> om_id ` set rows then settle opts answer at (view x) x else x) (map ?f tbl)) \<and>
      br_claimed r' = br_claimed r1 \<and> settled_count r' = settled_count r1 + len rows"
    by (rule Cons.IH) (use Cons.prems ids sub in \<open>simp_all del: map_map\<close>)
  then obtain r2 where
    r2: "fold (publish_one opts (\<lambda>x t. (answer x, t)) at) (map view rows) (r1, map ?f tbl) =
        (r2, map (\<lambda>x. if om_id x \<in> om_id ` set rows then settle opts answer at (view x) x else x) (map ?f tbl))"
      "br_claimed r2 = br_claimed r1" "settled_count r2 = settled_count r1 + len rows"
    by blast
  have "x = m" if "x \<in> set tbl" "om_id x = om_id m" for x
    using that Cons.prems by (auto simp: distinct_map inj_on_def)
  then have "map (\<lambda>x. if om_id x \<in> om_id ` set rows then settle opts answer at (view x) x else x) (map ?f tbl) =
      map (\<lambda>x. if om_id x \<in> om_id ` set (m # rows) then settle opts answer at (view x) x else x) tbl"
    using Cons.prems by auto
  with r1 r2 show ?case by (simp add: len_def del: map_map)
qed (simp add: len_def)

section \<open>Claims as leases\<close>

datatype outcome = Published int | Failed int string int

primrec apply_outcome :: "outcome \<Rightarrow> outbox_message \<Rightarrow> outbox_message" where
  "apply_outcome (Published t) = publish_message t"
| "apply_outcome (Failed t e delay) = fail_message t e delay"

definition record_outcome ::
  "string \<Rightarrow> int \<Rightarrow> outcome \<Rightarrow> outbox_message list \<Rightarrow> outbox_message option \<times> outbox_message list" where
  "record_outcome i claimedAt out tbl =
     update_where om_id i (publishing_as (Some claimedAt)) (apply_outcome out) tbl"

lemma apply_outcome_id [simp]: "om_id (apply_outcome out m) = om_id m"
  by (cases out) (simp_all add: publish_message_def fail_message_def)

lemma record_outcome_calls:
  "markPublished i t (Some c) tbl =
     (fst (record_outcome i c (Published t) tbl) \<noteq> None, snd (record_outcome i c (Published t) tbl))"
  "markFailed i t e delay (Some c) tbl = record_outcome i c (Failed t e delay) tbl"
  by (simp_all add: markPublished_update markFailed_def record_outcome_def)

text \<open>Claiming one message as part of a batch.\<close>

definition claim_one ::
  "string list \<Rightarrow> int \<Rightarrow> int \<Rightarrow> string \<Rightarrow> int \<Rightarrow> outbox_message list \<Rightarrow>
   outbox_message option \<times> outbox_message list" where
  "claim_one locked leaseMs limit i now tbl =
     (case claimBatch locked now leaseMs limit None tbl of
        (rows, tbl') \<Rightarrow> (findById om_id i rows, tbl'))"

lemma findById_filter: "findById key i (filter P xs) = Some m \<Longrightarrow>
    (\<And>x. key x = i \<Longrightarrow> P x) \<Longrightarrow> findById key i xs = Some m"
  by (induction xs) (auto simp: findById_def split: if_splits)

lemma claim_one_owns:
  assumes "fst (claim_one locked leaseMs limit i now tbl) = Some m"
  shows "findById om_id i (snd (claim_one locked leaseMs limit i now tbl)) = Some m \<and>
    om_claimedAt m = Some now \<and> om_status m = OPublishing"
proof -
  let ?ids = "claim_candidates locked now leaseMs limit None tbl"
  let ?tbl = "map (\<lambda>m. if om_id m \<in> set ?ids then claim_message now m else m) tbl"
  from assms have f: "findById om_id i (filter (\<lambda>m. om_id m \<in> set ?ids) ?tbl) = Some m"
    by (simp add: claim_one_def claimBatch_def Let_def)
  from findById_key [OF f] have m: "m \<in> set ?tbl" "om_id m = i" "i \<in> set ?ids" by auto
  from m obtain x where "m = claim_message now x" by (auto simp: claim_message_def split: if_splits)
  moreover from f m(3) have "findById om_id i ?tbl = Some m" by (blast intro: findById_filter)
  ultimately show ?thesis by (simp add: claim_one_def claimBatch_def Let_def claim_message_def)
qed

interpretation olease: lease_store "\<lambda>t i. findById om_id i t" om_claimedAt
  "\<lambda>m. om_status m = OPublishing" "claim_one locked leaseMs limit" record_outcome
  for locked leaseMs limit
proof unfold_locales
  fix i k t r
  assume "fst (claim_one locked leaseMs limit i k t) = Some r"
  from claim_one_owns [OF this]
  show "findById om_id i (snd (claim_one locked leaseMs limit i k t)) = Some r \<and> om_claimedAt r = Some k"
    by blast
qed (auto simp: record_outcome_def update_where_Some publishing_as_def update_where_frame
    intro: update_where_fails)

section \<open>Sample data\<close>

definition sample_data :: create_outbox_message where
  "sample_data =
     \<lparr>co_id = None, co_type = ''backup.run'', co_payload = [(''runId'', JStr ''r'')],
      co_aggregateType = None, co_aggregateId = None, co_organizationId = None,
      co_idempotencyKey = ''k'', co_maxAttempts = Some 1, co_availableAt = None\<rparr>"

definition sample_outbox :: "outbox_message list" where
  "sample_outbox = [new_message ''m1'' 0 sample_data]"

lemma sample_outbox_wf: "wf_outbox sample_outbox"
  by (simp add: sample_outbox_def wf_outbox_def new_message_wf valid_data_def sample_data_def)

section \<open>Properties\<close>

text \<open>
  A command is enqueued once: whatever happened to the table since, creating a message
  with an idempotency key that was already used, and whose row still exists, returns a row
  with that key and adds none, so a key never has two rows.
\<close>

theorem outbox_create_idempotent:
  assumes "outbox_step\<^sup>*\<^sup>* [] tbl" "valid_data data"
    and "create uuid now data tbl = (r, tbl')"
  shows "distinct (map om_idempotencyKey tbl') \<and> length tbl' \<le> Suc (length tbl) \<and>
    (case find_key (co_idempotencyKey data) tbl of
       Some m \<Rightarrow> r = Inr m \<and> tbl' = tbl
     | None \<Rightarrow> or_default (co_id data) uuid \<in> om_id ` set tbl \<and> tbl' = tbl \<or>
               r = Inr (new_message uuid now data) \<and> tbl' = tbl @ [new_message uuid now data])"
proof -
  have "wf_outbox tbl" using outbox_steps_wf [OF assms(1)] by (simp add: wf_outbox_def)
  from create_wf [OF this assms(2), of uuid now] assms(3) have "wf_outbox tbl'" by simp
  then have d: "distinct (map om_idempotencyKey tbl')" by (simp add: wf_outbox_def)
  have k: "om_idempotencyKey (new_message uuid now data) = co_idempotencyKey data"
    "om_id (new_message uuid now data) = or_default (co_id data) uuid"
    by (simp_all add: new_message_def)
  from assms(3) d show ?thesis
    by (auto simp: create_def insert_message_def k findById_None split: option.splits if_splits)
qed

theorem outbox_create_idempotent_witness:
  "\<exists>r. create ''m2'' 5 sample_data sample_outbox = (r, sample_outbox)"
proof -
  have "outbox_step [] (snd (create ''m1'' 0 sample_data []))"
    by (rule outbox_step.create) (simp add: valid_data_def sample_data_def)
  moreover have "snd (create ''m1'' 0 sample_data []) = sample_outbox"
    by (simp add: create_def insert_message_def find_key_def findById_def sample_outbox_def)
  ultimately have h: "outbox_step\<^sup>*\<^sup>* [] sample_outbox" by auto
  have v: "valid_data sample_data" by (simp add: valid_data_def sample_data_def)
  obtain r t where c: "create ''m2'' 5 sample_data sample_outbox = (r, t)" by force
  have "find_key (co_idempotencyKey sample_data) sample_outbox = Some (new_message ''m1'' 0 sample_data)"
    by (simp add: find_key_def sample_outbox_def new_message_def)
  with outbox_create_idempotent [OF h v c] c show ?thesis by simp
qed

text \<open>
  C27. The attempt budget holds along every history: after any sequence of creations, claims,
  outcomes, retries and prunings from the empty table, no message was tried more often than
  its maximum, a pending one has attempts left, a dead-lettered one used them all, and
  exactly the messages being published carry a claim time.
\<close>

theorem outbox_attempt_budget:
  assumes "outbox_step\<^sup>*\<^sup>* [] tbl" "m \<in> set tbl"
  shows "0 \<le> om_attempts m \<and> om_attempts m \<le> om_maxAttempts m \<and>
    (om_status m = OPending \<longrightarrow> om_attempts m < om_maxAttempts m) \<and>
    (om_status m = ODeadLetter \<longrightarrow> om_attempts m = om_maxAttempts m) \<and>
    (om_status m = OPublishing \<longleftrightarrow> om_claimedAt m \<noteq> None) \<and>
    (om_status m = ODeadLetter \<longleftrightarrow> om_deadLetteredAt m \<noteq> None)"
proof -
  from outbox_steps_wf [OF assms(1)] assms(2) have "wf_message m" by (simp add: wf_outbox_def)
  then show ?thesis by (auto simp: wf_message_def split: outbox_status.splits)
qed

theorem outbox_attempt_budget_witness:
  "om_attempts (new_message ''m1'' 0 sample_data) \<le> om_maxAttempts (new_message ''m1'' 0 sample_data)"
proof -
  have "outbox_step [] (snd (create ''m1'' 0 sample_data []))"
    by (rule outbox_step.create) (simp add: valid_data_def sample_data_def)
  moreover have "snd (create ''m1'' 0 sample_data []) = sample_outbox"
    by (simp add: create_def insert_message_def find_key_def findById_def sample_outbox_def)
  ultimately have "outbox_step\<^sup>*\<^sup>* [] sample_outbox" by auto
  from outbox_attempt_budget [OF this, of "new_message ''m1'' 0 sample_data"] show ?thesis
    by (simp add: sample_outbox_def)
qed

text \<open>
  A batch settles every message it claims: if nothing else writes to the table
  meanwhile, whether or not the claim time of the raw rows is readable, the published,
  retried and dead-lettered counts add up to the claimed count, at most the batch size is
  claimed, each claimed message is published, or failed with the capped exponential delay,
  and no other row changes.
\<close>

theorem outbox_batch_settles:
  assumes "wf_outbox tbl" "message_view view"
    and "publishBatch opts view (\<lambda>m t. (answer m, t)) at locked now tbl = (result, tbl')"
  defines "ids \<equiv> claim_candidates locked now (po_leaseMs opts) (po_batchSize opts) None tbl"
  shows "br_claimed result = br_published result + br_retried result + br_deadLettered result \<and>
    br_claimed result = len ids \<and> br_claimed result \<le> MAX_BATCH_SIZE \<and>
    tbl' = map (\<lambda>m. if om_id m \<in> set ids
                    then settle opts answer at (view (claim_message now m)) (claim_message now m)
                    else m) tbl"
proof -
  let ?f = "\<lambda>m. if om_id m \<in> set ids then claim_message now m else m"
  let ?rows = "filter (\<lambda>m. om_id m \<in> set ids) (map ?f tbl)"
  let ?r0 = "\<lparr>br_claimed = len ?rows, br_published = 0, br_retried = 0, br_deadLettered = 0\<rparr>"
  from assms(1) have d: "distinct (map om_id tbl)" by (simp add: wf_outbox_def)
  have idf [simp]: "om_id (?f m) = om_id m" for m by (simp add: claim_message_def)
  then have d1: "distinct (map om_id (map ?f tbl))" using d by (simp add: comp_def)
  have pub: "\<forall>m \<in> set ?rows. om_status m = OPublishing" by (auto simp: claim_message_def)
  obtain r' where r': "fold (publish_one opts (\<lambda>x t. (answer x, t)) at) (map view ?rows) (?r0, map ?f tbl) =
      (r', map (\<lambda>x. if om_id x \<in> om_id ` set ?rows then settle opts answer at (view x) x else x) (map ?f tbl))"
    "br_claimed r' = len ?rows" "settled_count r' = len ?rows"
    using publish_all_settles [OF assms(2) d1 _ distinct_map_filter [OF d1] pub, of opts answer at ?r0]
    by (auto simp: settled_count_def)
  have res: "publishBatch opts view (\<lambda>m t. (answer m, t)) at locked now tbl =
      fold (publish_one opts (\<lambda>x t. (answer x, t)) at) (map view ?rows) (?r0, map ?f tbl)"
    by (simp add: publishBatch_def claimBatch_def Let_def ids_def)
  have sub: "set ids \<subseteq> om_id ` set tbl"
    by (auto simp: ids_def claim_candidates_def Let_def dest!: in_take_order)
  have "distinct ids" "length ids \<le> clamp_limit MAX_BATCH_SIZE (po_batchSize opts)"
    unfolding ids_def claim_candidates_def Let_def
    by (simp_all add: distinct_map_take distinct_map_filter [OF d])
  moreover have ids: "om_id ` set ?rows = set ids"
    by (rule keys_of_selected [OF idf sub])
  moreover have "length ?rows = card (om_id ` set ?rows)"
    using distinct_card [OF distinct_map_filter [OF d1]] by (simp del: filter_map map_map)
  ultimately have n: "len ?rows = len ids" "len ids \<le> MAX_BATCH_SIZE"
    using clamp_limit_le [of MAX_BATCH_SIZE "po_batchSize opts"]
    by (simp_all add: len_def distinct_card MAX_BATCH_SIZE_def del: filter_map)
  have "(result, tbl') =
      (r', map (\<lambda>x. if om_id x \<in> set ids then settle opts answer at (view x) x else x) (map ?f tbl))"
    using assms(3) res r'(1) [unfolded ids] by (simp only:)
  then have "result = r'" and t: "tbl' =
      map (\<lambda>x. if om_id x \<in> set ids then settle opts answer at (view x) x else x) (map ?f tbl)"
    by (simp_all only: prod.inject)
  moreover have "tbl' = map (\<lambda>m. if om_id m \<in> set ids
      then settle opts answer at (view (claim_message now m)) (claim_message now m) else m) tbl"
    unfolding t by (simp add: claim_message_def)
  ultimately show ?thesis using r'(2,3) n by (simp add: settled_count_def)
qed

theorem outbox_batch_settles_witness:
  "br_deadLettered (fst (publishBatch default_publisher_options id (\<lambda>m t. (Inl ''boom'', t)) (\<lambda>m. 9)
      [] 5 sample_outbox)) = 1 \<and>
   br_claimed (fst (publishBatch default_publisher_options id (\<lambda>m t. (Inl ''boom'', t)) (\<lambda>m. 9)
      [] 5 sample_outbox)) = 1"
proof -
  have v: "message_view id" by (simp add: message_view_def)
  obtain r t where b: "publishBatch default_publisher_options id (\<lambda>m t. (Inl ''boom'', t)) (\<lambda>m. 9)
      [] 5 sample_outbox = (r, t)" by force
  have "br_published r = 0 \<and> br_retried r = 0 \<and> br_claimed r = 1"
    using b by (simp add: publishBatch_def claimBatch_def claim_candidates_def order_asc_def
        sample_outbox_def new_message_def sample_data_def claim_candidate_def claim_message_def
        default_publisher_options_def clamp_limit_def MAX_BATCH_SIZE_def or_default_def
        publish_one_def markFailed_def update_where_def findById_def publishing_as_def fail_message_def
        len_def) force
  with outbox_batch_settles [OF sample_outbox_wf v b] b show ?thesis by simp
qed

text \<open>
  The claim time is a fence: once a message whose lease expired is claimed again, at a
  different time, recording an outcome under the old claim time returns nothing and changes
  nothing.
\<close>

theorem outbox_claim_fences:
  assumes "claimBatch locked now leaseMs limit None tbl = (rows, tbl')"
    and "findById om_id i rows = Some m" and "old \<noteq> now"
  shows "markPublished i t (Some old) tbl' = (False, tbl') \<and>
    markFailed i t e delay (Some old) tbl' = (None, tbl')"
proof -
  have "fst (claim_one locked leaseMs limit i now tbl) = Some m" "snd (claim_one locked leaseMs limit i now tbl) = tbl'"
    using assms(1,2) by (simp_all add: claim_one_def)
  with olease.fenced [OF this(1) assms(3)] show ?thesis by (simp add: record_outcome_calls)
qed

theorem outbox_claim_fences_witness:
  "fst (markPublished ''m1'' 9000 (Some 1000)
     (snd (claimBatch [] 5000 1000 10 None (snd (claimBatch [] 1000 1000 10 None sample_outbox))))) = False"
proof -
  let ?t = "snd (claimBatch [] 1000 1000 10 None sample_outbox)"
  have "\<exists>m. findById om_id ''m1'' (fst (claimBatch [] 5000 1000 10 None ?t)) = Some m"
    by (simp add: claimBatch_def claim_candidates_def order_asc_def sample_outbox_def new_message_def
        sample_data_def claim_candidate_def claim_message_def clamp_limit_def MAX_BATCH_SIZE_def
        or_default_def findById_def)
  then obtain m where m: "findById om_id ''m1'' (fst (claimBatch [] 5000 1000 10 None ?t)) = Some m" ..
  have "(1000 :: int) \<noteq> 5000" by simp
  from outbox_claim_fences [OF prod.collapse [symmetric] m this, of 9000] show ?thesis by simp
qed

text \<open>
  The fence is not there when the claim time of the rows returned by the claim is not
  readable: \<open>RETURNING messages.*\<close> names that column \<open>claimed_at\<close>, so
  \<open>message.claimedAt\<close> is undefined, the condition is left out, and a publisher whose
  claim expired records its outcome over the claim of its successor. Here the first
  publisher, failing late, takes the message out of the second one's hands and the second
  one's success is lost.
\<close>

theorem outbox_raw_rows_lose_fence:
  "let t1 = snd (claimBatch [] 1000 1000 10 None sample_outbox);
       t2 = snd (claimBatch [] 5000 1000 10 None t1)
   in map om_claimedAt t2 = [Some 5000] \<and>
      map om_status (snd (markFailed ''m1'' 5001 ''late'' 1000 None t2)) = [ODeadLetter] \<and>
      fst (markPublished ''m1'' 5002 None (snd (markFailed ''m1'' 5001 ''late'' 1000 None t2))) = False"
  by (simp add: claimBatch_def claim_candidates_def order_asc_def Let_def
        sample_outbox_def new_message_def sample_data_def claim_candidate_def claim_message_def
        clamp_limit_def MAX_BATCH_SIZE_def or_default_def
        markFailed_def markPublished_def update_where_def findById_def publishing_as_def fail_message_def)

end
