(* ===== verification/Job_Queues.thy ===== *)
theory Job_Queues
  imports Outbox
begin

text \<open>
  Handing outbox messages to the job queues:
  \<open>packages/infrastructure/src/outbox/bullmq-outbox-job-publisher.ts\<close>,
  \<open>packages/usecases/src/outbox/outbox-commands.ts\<close> and
  \<open>packages/usecases/src/deployment/deployment-queue-name.ts\<close>. The result of
  \<open>publish\<close> is the job it adds, \<open>None\<close> when the deployment was cancelled, or the error
  it throws (\<open>ZodError\<close> for a payload the schema refuses). \<open>cancelled\<close> tells whether
  the cancellation marker of a deployment is in Redis.
\<close>

section \<open>Queue names\<close>

text \<open>\<open>encodeURIComponent\<close>, on code units below 256, and its inverse.\<close>

definition is_unreserved :: "char \<Rightarrow> bool" where
  "is_unreserved c \<longleftrightarrow> is_alnum c \<or> c \<in> {CHR ''-'', CHR ''_'', CHR ''.'', CHR ''!'', CHR ''~'', CHR ''*'',
     CHR 0x27, CHR ''('', CHR '')''}"

definition hex_digit :: "int \<Rightarrow> char" where
  "hex_digit n = char_of (if n < 10 then 48 + n else 55 + n)"

definition hex_value :: "char \<Rightarrow> int" where
  "hex_value c = (if is_digit c then code c - 48 else code c - 55)"

definition percent :: "int \<Rightarrow> string" where
  "percent b = [CHR ''%'', hex_digit (b div 16), hex_digit (b mod 16)]"

definition encode_char :: "char \<Rightarrow> string" where
  "encode_char c =
     (if is_unreserved c then [c]
      else if code c < 128 then percent (code c)
      else percent (192 + code c div 64) @ percent (128 + code c mod 64))"

definition encodeURIComponent :: "string \<Rightarrow> string" where
  "encodeURIComponent s = concat (map encode_char s)"

definition getDeploymentQueueName :: "string \<Rightarrow> string" where
  "getDeploymentQueueName serverId = ''deployments-queue-'' @ encodeURIComponent serverId"

section \<open>Payload schemas\<close>

definition deploy_type :: string where "deploy_type = ''deployment.deploy''"
definition backupRun_type :: string where "backupRun_type = ''backup.run''"
definition notificationDelivery_type :: string where "notificationDelivery_type = ''notification.deliver''"
definition migrate_type :: string where "migrate_type = ''resource.migrate''"

definition WORKLOAD_MIGRATION_QUEUE :: string where
  "WORKLOAD_MIGRATION_QUEUE = ''upstand-workload-migrations''"

datatype field_type = StringField "int option" | IntField int int

text \<open>A number is an integer when it renders as decimal digits; the bounds used are positive.\<close>

fun field_ok :: "field_type \<Rightarrow> jsval \<Rightarrow> bool" where
  "field_ok (StringField mx) (JStr s) =
     (s \<noteq> [] \<and> (case mx of Some n \<Rightarrow> len s \<le> n | None \<Rightarrow> True))"
| "field_ok (IntField lo hi) (JNum n) =
     (n \<noteq> [] \<and> list_all is_digit n \<and> lo \<le> decimal n \<and> decimal n \<le> hi)"
| "field_ok _ _ = False"

text \<open>A field: its name, whether it is optional, its type. Unknown keys are stripped.\<close>

fun parse_object ::
  "(string \<times> bool \<times> field_type) list \<Rightarrow> (string \<times> jsval) list \<Rightarrow> (string \<times> jsval) list option" where
  "parse_object [] v = Some []"
| "parse_object ((k, opt, ty) # fs) v =
     (let x = get_prop v k in
      if x = JUndefined then (if opt then parse_object fs v else None)
      else if field_ok ty x then map_option (\<lambda>r. (k, x) # r) (parse_object fs v) else None)"

definition correlation_field :: "string \<times> bool \<times> field_type" where
  "correlation_field = (''correlationId'', True, StringField (Some 128))"

definition deploymentPayloadSchema :: "(string \<times> bool \<times> field_type) list" where
  "deploymentPayloadSchema =
     [correlation_field, (''resourceId'', False, StringField None),
      (''deploymentId'', False, StringField None), (''serverId'', False, StringField None),
      (''previewDeploymentId'', True, StringField None), (''sourceRevision'', True, StringField None),
      (''maxAttempts'', True, IntField 1 10), (''retryBaseSeconds'', True, IntField 1 300),
      (''retryMaxSeconds'', True, IntField 1 3600)]"

definition backupPayloadSchema :: "(string \<times> bool \<times> field_type) list" where
  "backupPayloadSchema = [correlation_field, (''runId'', False, StringField None)]"

definition notificationPayloadSchema :: "(string \<times> bool \<times> field_type) list" where
  "notificationPayloadSchema = [correlation_field, (''deliveryId'', False, StringField None)]"

definition migrationPayloadSchema :: "(string \<times> bool \<times> field_type) list" where
  "migrationPayloadSchema =
     [correlation_field, (''migrationId'', False, StringField None),
      (''deploymentId'', False, StringField None), (''resourceId'', False, StringField None),
      (''sourceServerId'', False, StringField None), (''targetServerId'', False, StringField None)]"

section \<open>Publishing a message\<close>

record job =
  job_queue :: string
  job_name :: string
  job_data :: "(string \<times> jsval) list"
  job_id :: string
  job_attempts :: int
  job_backoff :: "string \<times> int"
  job_removeOnComplete :: int
  job_removeOnFail :: int

fun string_prop :: "jsval \<Rightarrow> string" where
  "string_prop (JStr s) = s"
| "string_prop _ = []"

definition publish_job :: "(string \<Rightarrow> bool) \<Rightarrow> outbox_message \<Rightarrow> string + job option" where
  "publish_job cancelled message =
     (if om_type message = deploy_type then
        (case parse_object deploymentPayloadSchema (om_payload message) of
           None \<Rightarrow> Inl ''ZodError''
         | Some payload \<Rightarrow>
             if cancelled (string_prop (get_prop payload ''deploymentId'')) then Inr None
             else Inr (Some
               \<lparr>job_queue = getDeploymentQueueName (string_prop (get_prop payload ''serverId'')),
                job_name = ''deploy'', job_data = payload, job_id = om_id message,
                job_attempts = (case get_prop payload ''maxAttempts'' of JNum n \<Rightarrow> decimal n | _ \<Rightarrow> 1),
                job_backoff = (''capped-exponential'', 0), job_removeOnComplete = 1000,
                job_removeOnFail = 1000\<rparr>))
      else if om_type message = backupRun_type then
        (case parse_object backupPayloadSchema (om_payload message) of
           None \<Rightarrow> Inl ''ZodError''
         | Some payload \<Rightarrow> Inr (Some
             \<lparr>job_queue = ''backup-run'', job_name = ''run'', job_data = payload,
              job_id = om_id message, job_attempts = 8, job_backoff = (''exponential'', 5000),
              job_removeOnComplete = 1000, job_removeOnFail = 1000\<rparr>))
      else if om_type message = notificationDelivery_type then
        (case parse_object notificationPayloadSchema (om_payload message) of
           None \<Rightarrow> Inl ''ZodError''
         | Some payload \<Rightarrow> Inr (Some
             \<lparr>job_queue = ''notification-delivery'', job_name = ''deliver'', job_data = payload,
              job_id = om_id message, job_attempts = 3, job_backoff = (''exponential'', 1000),
              job_removeOnComplete = 100, job_removeOnFail = 1000\<rparr>))
      else if om_type message = migrate_type then
        (case parse_object migrationPayloadSchema (om_payload message) of
           None \<Rightarrow> Inl ''ZodError''
         | Some payload \<Rightarrow> Inr (Some
             \<lparr>job_queue = WORKLOAD_MIGRATION_QUEUE, job_name = ''migrate'', job_data = payload,
              job_id = om_id message, job_attempts = 8, job_backoff = (''exponential'', 5000),
              job_removeOnComplete = 1000, job_removeOnFail = 1000\<rparr>))
      else Inl (''Unsupported outbox message type: '' @ om_type message))"

section \<open>Decoding queue names\<close>

fun decodeURIComponent :: "string \<Rightarrow> string" where
  "decodeURIComponent [] = []"
| "decodeURIComponent (c # s) =
     (if c \<noteq> CHR ''%'' then c # decodeURIComponent s
      else case s of
        h # l # rest \<Rightarrow>
          (let b = 16 * hex_value h + hex_value l in
           if b < 128 then char_of b # decodeURIComponent rest
           else case rest of
             p # h2 # l2 # rest2 \<Rightarrow>
               char_of ((b - 192) * 64 + (16 * hex_value h2 + hex_value l2 - 128))
                 # decodeURIComponent rest2
           | _ \<Rightarrow> [])
      | _ \<Rightarrow> [])"

lemma code_char_of_int [simp]: "0 \<le> n \<Longrightarrow> n < 256 \<Longrightarrow> code (char_of n) = n"
  by (simp add: code_def)

lemma char_of_code [simp]: "char_of (code c) = c"
  by (simp add: code_def)

lemma code_range: "0 \<le> code c \<and> code c < 256"
proof -
  have "code c = code c mod 256" using of_char_of [of "code c"] unfolding code_def by simp
  moreover have "0 \<le> code c mod 256 \<and> code c mod 256 < 256" by simp
  ultimately show ?thesis by metis
qed

lemma hex_value_digit [simp]: "0 \<le> n \<Longrightarrow> n < 16 \<Longrightarrow> hex_value (hex_digit n) = n"
  by (auto simp: hex_value_def hex_digit_def is_digit_def)

lemma percent_value: "16 * (b div 16) + b mod (16 :: int) = b"
  by simp

lemma nibbles:
  assumes "0 \<le> b" "b < (256 :: int)"
  shows "0 \<le> b div 16" "b div 16 < 16" "0 \<le> b mod 16" "b mod 16 < 16"
  using assms by presburger+

lemma decode_one:
  assumes "0 \<le> b" "b < 128"
  shows "decodeURIComponent (percent b @ s) = char_of b # decodeURIComponent s"
  using assms nibbles [of b] by (simp add: percent_def percent_value)

lemma decode_two:
  assumes "128 \<le> b" "b < 256" "0 \<le> l" "l < 256"
  shows "decodeURIComponent (percent b @ percent l @ s) =
    char_of ((b - 192) * 64 + (l - 128)) # decodeURIComponent s"
  using assms nibbles [of b] nibbles [of l] by (simp add: percent_def percent_value)

lemma decode_encode_char: "decodeURIComponent (encode_char c @ s) = c # decodeURIComponent s"
proof -
  have r: "0 \<le> code c" "code c < 256" using code_range [of c] by simp_all
  consider "is_unreserved c" | "\<not> is_unreserved c" "code c < 128" | "\<not> is_unreserved c" "\<not> code c < 128"
    by blast
  then show ?thesis
  proof cases
    case 1
    then have "c \<noteq> CHR ''%''" by (auto simp: is_unreserved_def is_alnum_def is_alpha_def is_digit_def code_def)
    with 1 show ?thesis by (simp add: encode_char_def)
  next
    case 2
    then show ?thesis using r decode_one [of "code c" s] by (simp add: encode_char_def)
  next
    case 3
    have "128 \<le> 192 + code c div 64" "192 + code c div 64 < 256"
      "0 \<le> 128 + code c mod 64" "128 + code c mod 64 < 256"
      using r by (simp_all add: pos_imp_zdiv_nonneg_iff)
    from decode_two [OF this, of s] have "decodeURIComponent
        (percent (192 + code c div 64) @ percent (128 + code c mod 64) @ s) = c # decodeURIComponent s"
      by simp
    with 3 show ?thesis by (simp only: encode_char_def if_False append_assoc)
  qed
qed

lemma decode_encode: "decodeURIComponent (encodeURIComponent s) = s"
  by (induction s) (simp_all add: encodeURIComponent_def decode_encode_char)

lemma percent_no_colon: "0 \<le> b \<Longrightarrow> b < 256 \<Longrightarrow> CHR '':'' \<notin> set (percent b)"
proof -
  assume b: "0 \<le> b" "b < 256"
  have hex: "hex_digit n \<noteq> CHR '':''" if "0 \<le> n" "n < 16" for n
  proof
    assume "hex_digit n = CHR '':''"
    then have "code (hex_digit n) = 58" by (simp add: code_def)
    with that show False by (auto simp: hex_digit_def split: if_splits)
  qed
  from b have "0 \<le> b div 16" "b div 16 < 16" "0 \<le> b mod 16" "b mod 16 < 16" by presburger+
  then show ?thesis using hex [of "b div 16"] hex [of "b mod 16"] by (auto simp: percent_def)
qed

lemma encode_char_no_colon: "CHR '':'' \<notin> set (encode_char c)"
proof -
  have "0 \<le> code c" "code c < 256" using code_range [of c] by simp_all
  then have "0 \<le> 192 + code c div 64" "192 + code c div 64 < 256" "0 \<le> 128 + code c mod 64"
    "128 + code c mod 64 < 256" by presburger+
  then show ?thesis
    using code_range [of c] percent_no_colon
    by (auto simp: encode_char_def is_unreserved_def is_alnum_def is_alpha_def is_digit_def code_def)
qed

section \<open>Properties\<close>

text \<open>
  Servers never share a deployment queue, and a queue name has no colon, which BullMQ
  reserves: the encoded server id can be decoded from the name.
\<close>

theorem deployment_queue_names:
  "(getDeploymentQueueName a = getDeploymentQueueName b \<longleftrightarrow> a = b) \<and>
   CHR '':'' \<notin> set (getDeploymentQueueName a) \<and>
   decodeURIComponent (drop (length ''deployments-queue-'') (getDeploymentQueueName a)) = a"
proof -
  have "encodeURIComponent a = encodeURIComponent b \<longleftrightarrow> a = b" by (metis decode_encode)
  moreover have "CHR '':'' \<notin> set (encodeURIComponent a)"
    by (auto simp: encodeURIComponent_def encode_char_no_colon)
  ultimately show ?thesis by (auto simp: getDeploymentQueueName_def decode_encode)
qed

end
