(* ===== verification/Deployment_Repository.thy ===== *)
theory Deployment_Repository
  imports Row_Store
begin

text \<open>
  Deployments: \<open>packages/domain/src/entities/deployment.ts\<close> and
  \<open>packages/repositories/src/deployment/drizzle-deployment.repository.ts\<close>. A worker takes a
  deployment with \<open>claimForExecution\<close>, which stores its execution token, and every later
  write of the worker is guarded by that token.

  \<open>now\<close> is the value of \<open>new Date()\<close> during the call; the \<open>updatedAt\<close> column has
  an \<open>$onUpdate\<close> hook that sets it on every update that does not set it itself. A
  deployment plan is one the plan schema accepted; its build configuration is the text of it.
\<close>

section \<open>Rows\<close>

datatype deployment_status =
  DQueued | DRunning | DRetrying | DSuccess | DFailed | DStale | DCancelled

record deployment_plan =
  pl_target_kind :: string
  pl_runtime :: string
  pl_buildLocation_kind :: string
  pl_ownership :: string
  pl_artifact_digest :: string
  pl_configurationVersion :: string
  pl_target_serverId :: "string option"
  pl_sourceRevision :: string
  pl_buildConfig :: string
  pl_detectorVersion :: "string option"
  pl_artifact_reference :: string
  pl_createdAt :: int

record deployment =
  dep_id :: string
  dep_resourceId :: string
  dep_status :: deployment_status
  dep_title :: string
  dep_logs :: string
  dep_serverId :: "string option"
  dep_serverName :: "string option"
  dep_sourceRevision :: "string option"
  dep_deploymentPlan :: "deployment_plan option"
  dep_deployTarget :: "string option"
  dep_executionRuntime :: "string option"
  dep_buildLocation :: "string option"
  dep_dataOwnership :: "string option"
  dep_artifactDigest :: "string option"
  dep_configurationVersion :: "string option"
  dep_executionToken :: "string option"
  dep_attempt :: int
  dep_maxAttempts :: int
  dep_heartbeatAt :: "int option"
  dep_retryAt :: "int option"
  dep_lastError :: "string option"
  dep_createdAt :: int
  dep_updatedAt :: int

text \<open>A patch: \<open>None\<close> is a field that is not given; a nullable column has a nested option.\<close>

record update_deployment =
  ud_status :: "deployment_status option"
  ud_logs :: "string option"
  ud_executionToken :: "string option option"
  ud_serverId :: "string option option"
  ud_serverName :: "string option option"
  ud_attempt :: "int option"
  ud_maxAttempts :: "int option"
  ud_heartbeatAt :: "int option option"
  ud_retryAt :: "int option option"
  ud_lastError :: "string option option"

definition no_deployment_update :: update_deployment where
  "no_deployment_update =
     \<lparr>ud_status = None, ud_logs = None, ud_executionToken = None, ud_serverId = None,
      ud_serverName = None, ud_attempt = None, ud_maxAttempts = None, ud_heartbeatAt = None,
      ud_retryAt = None, ud_lastError = None\<rparr>"

definition given :: "'a option \<Rightarrow> 'a \<Rightarrow> 'a" where
  "given p old = (case p of Some v \<Rightarrow> v | None \<Rightarrow> old)"

definition patch_deployment :: "int \<Rightarrow> update_deployment \<Rightarrow> deployment \<Rightarrow> deployment" where
  "patch_deployment now p d = d\<lparr>
     dep_status := given (ud_status p) (dep_status d),
     dep_logs := given (ud_logs p) (dep_logs d),
     dep_executionToken := given (ud_executionToken p) (dep_executionToken d),
     dep_serverId := given (ud_serverId p) (dep_serverId d),
     dep_serverName := given (ud_serverName p) (dep_serverName d),
     dep_attempt := given (ud_attempt p) (dep_attempt d),
     dep_maxAttempts := given (ud_maxAttempts p) (dep_maxAttempts d),
     dep_heartbeatAt := given (ud_heartbeatAt p) (dep_heartbeatAt d),
     dep_retryAt := given (ud_retryAt p) (dep_retryAt d),
     dep_lastError := given (ud_lastError p) (dep_lastError d),
     dep_updatedAt := now\<rparr>"

section \<open>Operations\<close>

definition list_columns :: "deployment \<Rightarrow> deployment" where
  "list_columns d = d\<lparr>dep_logs := []\<rparr>"

definition findRecent :: "int \<Rightarrow> deployment list \<Rightarrow> deployment list" where
  "findRecent limit tbl =
     map list_columns (take (clamp_limit 1000 limit) (order_desc dep_createdAt tbl))"

definition MAX_IN_CLAUSE_ITEMS :: int where
  "MAX_IN_CLAUSE_ITEMS = 1000"

definition findByIds :: "string list \<Rightarrow> deployment list \<Rightarrow> string + deployment list" where
  "findByIds ids tbl =
     (case chunk (unique ids) MAX_IN_CLAUSE_ITEMS of
        Inl e \<Rightarrow> Inl e
      | Inr batches \<Rightarrow>
          Inr (concat (map (\<lambda>batch. map list_columns (filter (\<lambda>d. dep_id d \<in> set batch) tbl)) batches)))"

definition findRecentByResourceIds :: "string list \<Rightarrow> int \<Rightarrow> deployment list \<Rightarrow> deployment list" where
  "findRecentByResourceIds resourceIds limit tbl =
     (if resourceIds = [] then []
      else map list_columns (take (clamp_limit 1000 limit)
             (order_desc dep_createdAt (filter (\<lambda>d. dep_resourceId d \<in> set resourceIds) tbl))))"

definition findByStatus :: "deployment_status \<Rightarrow> int \<Rightarrow> deployment list \<Rightarrow> deployment list" where
  "findByStatus status limit tbl =
     map list_columns (take (clamp_limit 1000 limit)
       (order_desc dep_createdAt (filter (\<lambda>d. dep_status d = status) tbl)))"

definition findByResourceId :: "string \<Rightarrow> deployment list \<Rightarrow> deployment list" where
  "findByResourceId resourceId tbl =
     map list_columns (take 500
       (order_desc dep_createdAt (filter (\<lambda>d. dep_resourceId d = resourceId) tbl)))"

definition setPlanIfAbsent ::
  "int \<Rightarrow> string \<Rightarrow> deployment_plan \<Rightarrow> deployment list \<Rightarrow> deployment option \<times> deployment list" where
  "setPlanIfAbsent now i plan tbl =
     update_where dep_id i (\<lambda>d. dep_deploymentPlan d = None)
       (\<lambda>d. d\<lparr>dep_deploymentPlan := Some plan,
              dep_deployTarget := Some (pl_target_kind plan),
              dep_executionRuntime := Some (pl_runtime plan),
              dep_buildLocation := Some (pl_buildLocation_kind plan),
              dep_dataOwnership := Some (pl_ownership plan),
              dep_artifactDigest := Some (pl_artifact_digest plan),
              dep_configurationVersion := Some (pl_configurationVersion plan),
              dep_updatedAt := now\<rparr>) tbl"

definition claimable :: "int \<Rightarrow> deployment \<Rightarrow> bool" where
  "claimable staleBefore d \<longleftrightarrow>
     dep_status d = DQueued \<or> dep_status d = DRetrying \<or>
     (dep_status d = DRunning \<and> dep_updatedAt d < staleBefore)"

definition claimForExecution ::
  "int \<Rightarrow> int \<Rightarrow> string \<Rightarrow> string \<Rightarrow> deployment list \<Rightarrow> deployment option \<times> deployment list" where
  "claimForExecution now leaseMs i executionToken tbl =
     (let staleBefore = now - leaseMs in
      update_where dep_id i (claimable staleBefore)
        (\<lambda>d. d\<lparr>dep_status := DRunning, dep_executionToken := Some executionToken,
               dep_attempt := dep_attempt d + 1, dep_heartbeatAt := Some now, dep_retryAt := None,
               dep_lastError := None, dep_updatedAt := now\<rparr>) tbl)"

definition owned_by :: "string \<Rightarrow> deployment \<Rightarrow> bool" where
  "owned_by executionToken d \<longleftrightarrow>
     dep_status d = DRunning \<and> dep_executionToken d = Some executionToken"

definition updateByIdOwned ::
  "int \<Rightarrow> string \<Rightarrow> string \<Rightarrow> update_deployment \<Rightarrow> deployment list \<Rightarrow>
   deployment option \<times> deployment list" where
  "updateByIdOwned now i executionToken patch tbl =
     update_where dep_id i (owned_by executionToken) (patch_deployment now patch) tbl"

definition heartbeatOwned ::
  "string \<Rightarrow> string \<Rightarrow> int \<Rightarrow> deployment list \<Rightarrow> deployment option \<times> deployment list" where
  "heartbeatOwned i executionToken now tbl =
     update_where dep_id i (owned_by executionToken)
       (\<lambda>d. d\<lparr>dep_heartbeatAt := Some now, dep_updatedAt := now\<rparr>) tbl"

definition stale_running :: "int \<Rightarrow> deployment \<Rightarrow> bool" where
  "stale_running staleBefore d \<longleftrightarrow>
     dep_status d = DRunning \<and>
     (case dep_heartbeatAt d of
        Some h \<Rightarrow> h < staleBefore
      | None \<Rightarrow> dep_updatedAt d < staleBefore)"

definition findStaleRunning :: "int \<Rightarrow> int \<Rightarrow> deployment list \<Rightarrow> string + deployment list" where
  "findStaleRunning staleBefore limit tbl =
     findMany (stale_running staleBefore) (order_desc dep_updatedAt)
       (Some (max 1 (min limit 1000))) None tbl"

definition markStale ::
  "int \<Rightarrow> string \<Rightarrow> int \<Rightarrow> string \<Rightarrow> deployment list \<Rightarrow> deployment option \<times> deployment list" where
  "markStale now i staleBefore message tbl =
     update_where dep_id i (stale_running staleBefore)
       (\<lambda>d. d\<lparr>dep_status := DStale, dep_lastError := Some message, dep_heartbeatAt := None,
              dep_executionToken := None, dep_updatedAt := now\<rparr>) tbl"

definition updateDeployment ::
  "int \<Rightarrow> string \<Rightarrow> update_deployment \<Rightarrow> deployment list \<Rightarrow> deployment option \<times> deployment list" where
  "updateDeployment now i patch tbl = updateById dep_id i (patch_deployment now patch) tbl"

lemma patch_deployment_simps [simp]:
  "dep_id (patch_deployment now p d) = dep_id d"
  "dep_deploymentPlan (patch_deployment now p d) = dep_deploymentPlan d"
  "dep_artifactDigest (patch_deployment now p d) = dep_artifactDigest d"
  "dep_status (patch_deployment now p d) = given (ud_status p) (dep_status d)"
  "dep_executionToken (patch_deployment now p d) = given (ud_executionToken p) (dep_executionToken d)"
  "dep_updatedAt (patch_deployment now p d) = now"
  by (simp_all add: patch_deployment_def)

lemmas deployment_op_defs =
  claimForExecution_def updateByIdOwned_def heartbeatOwned_def markStale_def setPlanIfAbsent_def
  updateDeployment_def updateById_def

section \<open>Leases\<close>

interpretation dlease: lease_store "\<lambda>t i. findById dep_id i t" dep_executionToken
  "\<lambda>d. dep_status d = DRunning" "claimForExecution now leaseMs" "updateByIdOwned now" for now leaseMs
proof unfold_locales
  fix i k t r
  assume *: "fst (claimForExecution now leaseMs i k t) = Some r"
  from * have "dep_executionToken r = Some k"
    by (auto simp: claimForExecution_def Let_def row_simps)
  with * show "findById dep_id i (snd (claimForExecution now leaseMs i k t)) = Some r \<and>
      dep_executionToken r = Some k"
    by (simp add: claimForExecution_def Let_def update_where_returns)
next
  fix i k p t r'
  assume "fst (updateByIdOwned now i k p t) = Some r'"
  then show "\<exists>r. findById dep_id i t = Some r \<and> dep_executionToken r = Some k \<and> dep_status r = DRunning"
    by (auto simp: updateByIdOwned_def row_simps owned_by_def)
qed (auto simp: claimForExecution_def updateByIdOwned_def Let_def update_where_frame
      intro: update_where_fails)

text \<open>A fresh lease: a running row is not claimable while it was updated within the lease.\<close>

lemma claim_result:
  assumes "claimForExecution now leaseMs i k tbl = (Some d, tbl')"
  shows "findById dep_id i tbl' = Some d \<and> owned_by k d \<and> dep_updatedAt d = now \<and>
    dep_heartbeatAt d = Some now \<and>
    (\<exists>d0. findById dep_id i tbl = Some d0 \<and> dep_attempt d = dep_attempt d0 + 1)"
proof -
  from assms have f: "fst (claimForExecution now leaseMs i k tbl) = Some d"
    and t: "tbl' = snd (claimForExecution now leaseMs i k tbl)" by simp_all
  from dlease.claim_owns [OF f] t have "findById dep_id i tbl' = Some d" by simp
  with f show ?thesis by (auto simp: claimForExecution_def Let_def row_simps owned_by_def)
qed

lemma claim_refused:
  assumes "findById dep_id i tbl = Some d" "\<not> claimable (now - leaseMs) d"
  shows "claimForExecution now leaseMs i k tbl = (None, tbl)"
  using assms by (simp add: claimForExecution_def Let_def update_where_miss)

lemma heartbeat_result:
  assumes "heartbeatOwned i k now tbl = (Some d, tbl')"
  shows "findById dep_id i tbl' = Some d \<and> owned_by k d \<and> dep_updatedAt d = now"
proof -
  from assms have f: "fst (heartbeatOwned i k now tbl) = Some d"
    and t: "tbl' = snd (heartbeatOwned i k now tbl)" by simp_all
  from f t have "findById dep_id i tbl' = Some d"
    by (simp add: heartbeatOwned_def update_where_returns)
  with f show ?thesis by (auto simp: heartbeatOwned_def row_simps owned_by_def)
qed

lemma heartbeat_stale:
  assumes "findById dep_id i tbl = Some d" "dep_executionToken d \<noteq> Some k"
  shows "heartbeatOwned i k now tbl = (None, tbl)"
  using assms by (simp add: heartbeatOwned_def update_where_miss owned_by_def)

section \<open>Histories\<close>

text \<open>One call of the repository that changes the table.\<close>

inductive dep_step :: "deployment list \<Rightarrow> deployment list \<Rightarrow> bool" where
  claim: "dep_step tbl (snd (claimForExecution now leaseMs i k tbl))"
| owned: "dep_step tbl (snd (updateByIdOwned now i k p tbl))"
| heartbeat: "dep_step tbl (snd (heartbeatOwned i k now tbl))"
| stale: "dep_step tbl (snd (markStale now i staleBefore msg tbl))"
| plan: "dep_step tbl (snd (setPlanIfAbsent now i pl tbl))"
| update: "dep_step tbl (snd (updateDeployment now i p tbl))"

inductive_cases dep_stepE: "dep_step tbl tbl'"

definition keeps_plan :: "deployment \<Rightarrow> deployment \<Rightarrow> bool" where
  "keeps_plan d d' \<longleftrightarrow>
     (dep_deploymentPlan d \<noteq> None \<longrightarrow>
        dep_deploymentPlan d' = dep_deploymentPlan d \<and> dep_artifactDigest d' = dep_artifactDigest d)"

lemma keeps_plan_refl [simp]: "keeps_plan d d"
  by (simp add: keeps_plan_def)

lemma keeps_plan_trans: "keeps_plan a b \<Longrightarrow> keeps_plan b c \<Longrightarrow> keeps_plan a c"
  by (auto simp: keeps_plan_def)

lemma update_where_keeps:
  assumes "findById key j tbl = Some d" "\<And>x. key (f x) = key x" "\<And>x. guard x \<Longrightarrow> R x (f x)" "\<And>x. R x x"
  shows "\<exists>d'. findById key j (snd (update_where key i guard f tbl)) = Some d' \<and> R d d'"
  using assms by (auto simp: update_where_find row_simps split: option.split)

lemma dep_step_keeps_plan:
  assumes "dep_step tbl tbl'" "findById dep_id j tbl = Some d"
  shows "\<exists>d'. findById dep_id j tbl' = Some d' \<and> keeps_plan d d'"
  using assms(1)
  by cases
    (simp only: deployment_op_defs Let_def;
     rule update_where_keeps [where R = keeps_plan, OF assms(2)]; simp add: keeps_plan_def)+

lemma dep_steps_keep_plan:
  assumes "dep_step\<^sup>*\<^sup>* tbl tbl'" "findById dep_id j tbl = Some d"
  shows "\<exists>d'. findById dep_id j tbl' = Some d' \<and> keeps_plan d d'"
  using assms
proof (induction rule: rtranclp_induct)
  case (step y z)
  then obtain d1 where d1: "findById dep_id j y = Some d1" "keeps_plan d d1" by blast
  from dep_step_keeps_plan [OF step.hyps(2) d1(1)] d1(2) show ?case by (blast intro: keeps_plan_trans)
qed auto

section \<open>Sample data\<close>

definition sample_deployment :: deployment where
  "sample_deployment =
     \<lparr>dep_id = ''d1'', dep_resourceId = ''r1'', dep_status = DQueued, dep_title = ''Deploy'',
      dep_logs = [], dep_serverId = None, dep_serverName = None, dep_sourceRevision = None,
      dep_deploymentPlan = None, dep_deployTarget = None, dep_executionRuntime = None,
      dep_buildLocation = None, dep_dataOwnership = None, dep_artifactDigest = None,
      dep_configurationVersion = None, dep_executionToken = None, dep_attempt = 0,
      dep_maxAttempts = 1, dep_heartbeatAt = None, dep_retryAt = None, dep_lastError = None,
      dep_createdAt = 0, dep_updatedAt = 0\<rparr>"

definition sample_plan :: deployment_plan where
  "sample_plan =
     \<lparr>pl_target_kind = ''local'', pl_runtime = ''docker'', pl_buildLocation_kind = ''target'',
      pl_ownership = ''local-control-plane'', pl_artifact_digest = ''sha256:0'',
      pl_configurationVersion = ''1'', pl_target_serverId = None, pl_sourceRevision = ''main'', pl_buildConfig = ''{}'',
      pl_detectorVersion = None, pl_artifact_reference = ''app'', pl_createdAt = 0\<rparr>"

section \<open>Properties\<close>

text \<open>
  C26. A claimed deployment has one owner for its lease: right after a worker's claim, every
  other claim made before the lease has expired is refused, and owned updates and heartbeats
  with any other token are refused; none of them changes a row. Each heartbeat of the owner
  starts a new lease.
\<close>

theorem deployment_lease_exclusive:
  assumes "claimForExecution now leaseMs i k tbl = (Some d, t1) \<or> heartbeatOwned i k now tbl = (Some d, t1)"
    and "now2 \<le> now + lease2" and "k2 \<noteq> k"
  shows "claimForExecution now2 lease2 i k2 t1 = (None, t1) \<and>
    updateByIdOwned now2 i k2 p t1 = (None, t1) \<and> heartbeatOwned i k2 now2 t1 = (None, t1)"
proof -
  from assms(1) have r: "findById dep_id i t1 = Some d" "owned_by k d" "dep_updatedAt d = now"
    by (auto dest: claim_result heartbeat_result)
  from r(2) assms(3) have k: "dep_executionToken d \<noteq> Some k2" by (simp add: owned_by_def)
  from r assms(2) have "\<not> claimable (now2 - lease2) d" by (simp add: claimable_def owned_by_def)
  from claim_refused [OF r(1) this] dlease.stale_write [OF r(1) k] heartbeat_stale [OF r(1) k]
  show ?thesis by blast
qed

theorem deployment_lease_exclusive_witness:
  "claimForExecution 105 10 ''d1'' ''b'' (snd (claimForExecution 100 10 ''d1'' ''a'' [sample_deployment])) =
   (None, snd (claimForExecution 100 10 ''d1'' ''a'' [sample_deployment]))"
proof -
  have c: "\<exists>d. claimForExecution 100 10 ''d1'' ''a'' [sample_deployment] =
      (Some d, snd (claimForExecution 100 10 ''d1'' ''a'' [sample_deployment]))"
    by (simp add: claimForExecution_def update_where_def findById_def sample_deployment_def claimable_def)
  then obtain d where d: "claimForExecution 100 10 ''d1'' ''a'' [sample_deployment] =
      (Some d, snd (claimForExecution 100 10 ''d1'' ''a'' [sample_deployment]))" ..
  have "(105 :: int) \<le> 100 + 10" "''b'' \<noteq> ''a''" by simp_all
  from deployment_lease_exclusive [OF disjI1 [OF d] this] show ?thesis by blast
qed

text \<open>
  A crashed worker does not block its deployment and cannot come back: once a running
  deployment has not been updated for longer than the lease, another worker's claim
  succeeds, counts a new attempt, and from then on any sequence of updates with other tokens
  leaves the table as the new owner has it.
\<close>

theorem deployment_takeover_fences_old_owner:
  assumes "findById dep_id i tbl = Some d" "owned_by k1 d" "dep_updatedAt d < now - leaseMs"
    and "k2 \<notin> fst ` set stale_updates"
  shows "\<exists>d' tbl'. claimForExecution now leaseMs i k2 tbl = (Some d', tbl') \<and> owned_by k2 d' \<and>
    dep_attempt d' = dep_attempt d + 1 \<and>
    fold (\<lambda>w t. snd (updateByIdOwned now2 i (fst w) (snd w) t)) stale_updates tbl' = tbl'"
proof -
  from assms(2,3) have "claimable (now - leaseMs) d" by (simp add: claimable_def owned_by_def)
  with assms(1) obtain d' tbl' where c: "claimForExecution now leaseMs i k2 tbl = (Some d', tbl')"
    by (simp add: claimForExecution_def Let_def update_where_hit)
  from claim_result [OF c] assms(1) have r: "findById dep_id i tbl' = Some d'" "owned_by k2 d'"
    "dep_attempt d' = dep_attempt d + 1" by auto
  then have "dep_executionToken d' = Some k2" by (simp add: owned_by_def)
  from dlease.stale_writes [OF r(1) this assms(4)] c r show ?thesis by blast
qed

theorem deployment_takeover_fences_old_owner_witness:
  "\<exists>d' tbl'. claimForExecution 100 10 ''d1'' ''b''
     [sample_deployment\<lparr>dep_status := DRunning, dep_executionToken := Some ''a''\<rparr>] = (Some d', tbl') \<and>
     dep_attempt d' = 1 \<and>
     fold (\<lambda>w t. snd (updateByIdOwned 101 ''d1'' (fst w) (snd w) t))
       [(''a'', no_deployment_update\<lparr>ud_status := Some DFailed\<rparr>)] tbl' = tbl'"
proof -
  let ?d = "sample_deployment\<lparr>dep_status := DRunning, dep_executionToken := Some ''a''\<rparr>"
  have "findById dep_id ''d1'' [?d] = Some ?d" "owned_by ''a'' ?d" "dep_updatedAt ?d < 100 - 10"
    "''b'' \<notin> fst ` set [(''a'', no_deployment_update\<lparr>ud_status := Some DFailed\<rparr>)]"
    by (simp_all add: findById_def sample_deployment_def owned_by_def)
  from deployment_takeover_fences_old_owner [OF this, of 101] show ?thesis
    by (auto simp: sample_deployment_def)
qed

text \<open>
  A deployment plan is written once: after any history of repository calls, a deployment
  that had a plan still has that plan and that artifact digest.
\<close>

theorem deployment_plan_immutable:
  assumes "dep_step\<^sup>*\<^sup>* tbl tbl'" "findById dep_id i tbl = Some d" "dep_deploymentPlan d = Some plan"
  shows "\<exists>d'. findById dep_id i tbl' = Some d' \<and> dep_deploymentPlan d' = Some plan \<and>
    dep_artifactDigest d' = dep_artifactDigest d"
  using dep_steps_keep_plan [OF assms(1,2)] assms(3) by (auto simp: keeps_plan_def)

theorem deployment_plan_immutable_witness:
  "\<exists>d'. findById dep_id ''d1'' (snd (setPlanIfAbsent 7 ''d1'' (sample_plan\<lparr>pl_runtime := ''cloud''\<rparr>)
     [sample_deployment\<lparr>dep_deploymentPlan := Some sample_plan\<rparr>])) = Some d' \<and>
     dep_deploymentPlan d' = Some sample_plan"
proof -
  let ?d = "sample_deployment\<lparr>dep_deploymentPlan := Some sample_plan\<rparr>"
  have "dep_step\<^sup>*\<^sup>* [?d] (snd (setPlanIfAbsent 7 ''d1'' (sample_plan\<lparr>pl_runtime := ''cloud''\<rparr>) [?d]))"
    by (rule r_into_rtranclp) (rule dep_step.plan)
  moreover have "findById dep_id ''d1'' [?d] = Some ?d"
    by (simp add: findById_def sample_deployment_def)
  ultimately show ?thesis using deployment_plan_immutable [where plan = sample_plan] by fastforce
qed

end
