(* ===== verification/Migration.thy ===== *)
theory Migration
  imports Deployment_Repository
begin

text \<open>
  Workload migrations: the entity and its state machine
  (\<open>packages/domain/src/entities/workload-migration.ts\<close>) and the repository
  (\<open>packages/repositories/src/workload-migration/drizzle-workload-migration.repository.ts\<close>,
  with the column defaults and the unique index of
  \<open>packages/db/src/schema/workload-migration.ts\<close>). A schema failure is the error
  \<open>ZodError\<close>. Statuses are ordered by the position they have in the enumeration, and every
  transition goes up in that order.
\<close>

section \<open>Statuses\<close>

datatype workload_migration_status =
    MQueued | MPreflight | MTransferring | MShadowDeploying | MValidating | MCuttingOver
  | MAwaitingConfirmation | MRollingBack | MCompleted | MFailed | MCancelled

primrec status_rank :: "workload_migration_status \<Rightarrow> nat" where
  "status_rank MQueued = 0"
| "status_rank MPreflight = 1"
| "status_rank MTransferring = 2"
| "status_rank MShadowDeploying = 3"
| "status_rank MValidating = 4"
| "status_rank MCuttingOver = 5"
| "status_rank MAwaitingConfirmation = 6"
| "status_rank MRollingBack = 7"
| "status_rank MCompleted = 8"
| "status_rank MFailed = 9"
| "status_rank MCancelled = 10"

lemma status_rank_inject [simp]: "status_rank a = status_rank b \<longleftrightarrow> a = b"
  by (cases a; cases b) simp_all

instantiation workload_migration_status :: linorder
begin

definition less_eq_workload_migration_status :: "workload_migration_status \<Rightarrow> workload_migration_status \<Rightarrow> bool" where
  "less_eq_workload_migration_status a b \<longleftrightarrow> status_rank a \<le> status_rank b"

definition less_workload_migration_status :: "workload_migration_status \<Rightarrow> workload_migration_status \<Rightarrow> bool" where
  "less_workload_migration_status a b \<longleftrightarrow> status_rank a < status_rank b"

instance
  by standard (auto simp: less_eq_workload_migration_status_def less_workload_migration_status_def)

end

lemmas status_order = less_eq_workload_migration_status_def less_workload_migration_status_def

fun status_name :: "workload_migration_status \<Rightarrow> string" where
  "status_name MQueued = ''queued''"
| "status_name MPreflight = ''preflight''"
| "status_name MTransferring = ''transferring''"
| "status_name MShadowDeploying = ''shadow-deploying''"
| "status_name MValidating = ''validating''"
| "status_name MCuttingOver = ''cutting-over''"
| "status_name MAwaitingConfirmation = ''awaiting-confirmation''"
| "status_name MRollingBack = ''rolling-back''"
| "status_name MCompleted = ''completed''"
| "status_name MFailed = ''failed''"
| "status_name MCancelled = ''cancelled''"

definition TERMINAL_WORKLOAD_MIGRATION_STATUSES :: "workload_migration_status list" where
  "TERMINAL_WORKLOAD_MIGRATION_STATUSES = [MCompleted, MFailed, MCancelled]"

fun ALLOWED_TRANSITIONS :: "workload_migration_status \<Rightarrow> workload_migration_status list" where
  "ALLOWED_TRANSITIONS MQueued = [MPreflight, MCancelled]"
| "ALLOWED_TRANSITIONS MPreflight = [MTransferring, MFailed, MCancelled]"
| "ALLOWED_TRANSITIONS MTransferring = [MShadowDeploying, MFailed, MCancelled]"
| "ALLOWED_TRANSITIONS MShadowDeploying = [MValidating, MFailed, MCancelled]"
| "ALLOWED_TRANSITIONS MValidating = [MCuttingOver, MRollingBack, MFailed, MCancelled]"
| "ALLOWED_TRANSITIONS MCuttingOver = [MAwaitingConfirmation, MRollingBack, MFailed]"
| "ALLOWED_TRANSITIONS MAwaitingConfirmation = [MCompleted, MRollingBack]"
| "ALLOWED_TRANSITIONS MRollingBack = [MFailed, MCancelled]"
| "ALLOWED_TRANSITIONS MCompleted = []"
| "ALLOWED_TRANSITIONS MFailed = []"
| "ALLOWED_TRANSITIONS MCancelled = []"

definition assertWorkloadMigrationTransition ::
  "workload_migration_status \<Rightarrow> workload_migration_status \<Rightarrow> string + unit" where
  "assertWorkloadMigrationTransition from to =
     throw_if (to \<notin> set (ALLOWED_TRANSITIONS from))
       (''Invalid workload migration transition: '' @ status_name from @ '' -> '' @ status_name to)"

section \<open>Checkpoints\<close>

text \<open>
  The key pattern: a non-empty line that contains, in any case, none of the sensitive words;
  between \<open>private\<close> and \<open>key\<close> one character may stand.
\<close>

fun private_key_at :: "string \<Rightarrow> bool" where
  "private_key_at s \<longleftrightarrow> starts_with ''key'' s \<or> (case s of [] \<Rightarrow> False | _ # t \<Rightarrow> starts_with ''key'' t)"

fun mentions_private_key :: "string \<Rightarrow> bool" where
  "mentions_private_key [] = False"
| "mentions_private_key (c # s) \<longleftrightarrow>
     (starts_with ''private'' (c # s) \<and> private_key_at (drop 7 (c # s))) \<or> mentions_private_key s"

definition SAFE_CHECKPOINT_KEY :: "string \<Rightarrow> bool" where
  "SAFE_CHECKPOINT_KEY k \<longleftrightarrow>
     (let l = toLowerCase k in
      k \<noteq> [] \<and> CHR 0x0A \<notin> set k \<and> CHR 0x0D \<notin> set k \<and>
      \<not> str_includes ''secret'' l \<and> \<not> str_includes ''token'' l \<and> \<not> str_includes ''password'' l \<and>
      \<not> str_includes ''credential'' l \<and> \<not> mentions_private_key l)"

fun is_scalar :: "jsval \<Rightarrow> bool" where
  "is_scalar (JStr _) = True"
| "is_scalar (JNum _) = True"
| "is_scalar (JBool _) = True"
| "is_scalar JNull = True"
| "is_scalar _ = False"

type_synonym checkpoint = "(string \<times> jsval) list"

definition WorkloadMigrationCheckpointSchema :: "checkpoint \<Rightarrow> string + checkpoint" where
  "WorkloadMigrationCheckpointSchema cp =
     (if list_all (\<lambda>(k, v). SAFE_CHECKPOINT_KEY k \<and> is_scalar v) cp then Inr cp else Inl ''ZodError'')"

section \<open>Rows\<close>

record migration =
  mg_id :: string
  mg_organizationId :: string
  mg_resourceId :: string
  mg_deploymentId :: string
  mg_sourceServerId :: string
  mg_targetServerId :: string
  mg_status :: workload_migration_status
  mg_progress :: int
  mg_executionToken :: "string option"
  mg_attempt :: int
  mg_cancelRequested :: bool
  mg_cleanupConfirmed :: bool
  mg_sourceRetained :: bool
  mg_checkpoint :: checkpoint
  mg_errorCode :: "string option"
  mg_errorMessage :: "string option"
  mg_heartbeatAt :: "int option"
  mg_startedAt :: "int option"
  mg_completedAt :: "int option"
  mg_createdAt :: int
  mg_updatedAt :: int

record create_migration =
  cm_id :: string
  cm_organizationId :: string
  cm_resourceId :: string
  cm_deploymentId :: string
  cm_sourceServerId :: string
  cm_targetServerId :: string
  cm_status :: "workload_migration_status option"
  cm_progress :: "int option"
  cm_checkpoint :: "checkpoint option"

record update_migration =
  um_status :: "workload_migration_status option"
  um_progress :: "int option"
  um_executionToken :: "string option option"
  um_attempt :: "int option"
  um_cancelRequested :: "bool option"
  um_cleanupConfirmed :: "bool option"
  um_sourceRetained :: "bool option"
  um_checkpoint :: "checkpoint option"
  um_errorCode :: "string option option"
  um_errorMessage :: "string option option"
  um_heartbeatAt :: "int option option"
  um_startedAt :: "int option option"
  um_completedAt :: "int option option"

definition no_update :: update_migration where
  "no_update =
     \<lparr>um_status = None, um_progress = None, um_executionToken = None, um_attempt = None,
      um_cancelRequested = None, um_cleanupConfirmed = None, um_sourceRetained = None,
      um_checkpoint = None, um_errorCode = None, um_errorMessage = None, um_heartbeatAt = None,
      um_startedAt = None, um_completedAt = None\<rparr>"

definition patch_migration :: "int \<Rightarrow> update_migration \<Rightarrow> migration \<Rightarrow> migration" where
  "patch_migration now p m = m\<lparr>
     mg_status := given (um_status p) (mg_status m),
     mg_progress := given (um_progress p) (mg_progress m),
     mg_executionToken := given (um_executionToken p) (mg_executionToken m),
     mg_attempt := given (um_attempt p) (mg_attempt m),
     mg_cancelRequested := given (um_cancelRequested p) (mg_cancelRequested m),
     mg_cleanupConfirmed := given (um_cleanupConfirmed p) (mg_cleanupConfirmed m),
     mg_sourceRetained := given (um_sourceRetained p) (mg_sourceRetained m),
     mg_checkpoint := given (um_checkpoint p) (mg_checkpoint m),
     mg_errorCode := given (um_errorCode p) (mg_errorCode m),
     mg_errorMessage := given (um_errorMessage p) (mg_errorMessage m),
     mg_heartbeatAt := given (um_heartbeatAt p) (mg_heartbeatAt m),
     mg_startedAt := given (um_startedAt p) (mg_startedAt m),
     mg_completedAt := given (um_completedAt p) (mg_completedAt m),
     mg_updatedAt := now\<rparr>"

section \<open>The repository\<close>

definition ACTIVE_STATUSES :: "workload_migration_status list" where
  "ACTIVE_STATUSES =
     [MQueued, MPreflight, MTransferring, MShadowDeploying, MValidating, MCuttingOver,
      MAwaitingConfirmation, MRollingBack]"

definition findMigrationsByResourceId :: "string \<Rightarrow> int \<Rightarrow> migration list \<Rightarrow> migration list" where
  "findMigrationsByResourceId resourceId limit tbl =
     take (clamp_limit 500 limit)
       (order_desc mg_createdAt (filter (\<lambda>m. mg_resourceId m = resourceId) tbl))"

definition findResumable :: "int \<Rightarrow> migration list \<Rightarrow> migration list" where
  "findResumable limit tbl =
     take (clamp_limit 500 limit)
       (order_asc mg_updatedAt
         (filter (\<lambda>m. mg_status m \<notin> set (TERMINAL_WORKLOAD_MIGRATION_STATUSES @ [MAwaitingConfirmation])) tbl))"

text \<open>
  The insert fails on an existing id, and on a second active migration of a resource (the
  unique index \<open>workload_migration_active_resource_uidx\<close>).
\<close>

definition createMigration ::
  "int \<Rightarrow> create_migration \<Rightarrow> migration list \<Rightarrow> (string + migration) \<times> migration list" where
  "createMigration now input tbl =
     (case WorkloadMigrationCheckpointSchema (case cm_checkpoint input of Some c \<Rightarrow> c | None \<Rightarrow> []) of
        Inl e \<Rightarrow> (Inl e, tbl)
      | Inr cp \<Rightarrow>
          let m = \<lparr>mg_id = cm_id input, mg_organizationId = cm_organizationId input,
                mg_resourceId = cm_resourceId input, mg_deploymentId = cm_deploymentId input,
                mg_sourceServerId = cm_sourceServerId input, mg_targetServerId = cm_targetServerId input,
                mg_status = (case cm_status input of Some s \<Rightarrow> s | None \<Rightarrow> MQueued),
                mg_progress = (case cm_progress input of Some n \<Rightarrow> n | None \<Rightarrow> 0),
                mg_executionToken = None, mg_attempt = 0, mg_cancelRequested = False,
                mg_cleanupConfirmed = False, mg_sourceRetained = True, mg_checkpoint = cp,
                mg_errorCode = None, mg_errorMessage = None, mg_heartbeatAt = None,
                mg_startedAt = None, mg_completedAt = None, mg_createdAt = now, mg_updatedAt = now\<rparr>
          in if list_ex (\<lambda>r. mg_id r = mg_id m) tbl \<or>
                (mg_status m \<notin> set TERMINAL_WORKLOAD_MIGRATION_STATUSES \<and>
                 list_ex (\<lambda>r. mg_resourceId r = mg_resourceId m \<and>
                            mg_status r \<notin> set TERMINAL_WORKLOAD_MIGRATION_STATUSES) tbl)
             then (Inl ''duplicate key value violates unique constraint'', tbl)
             else (Inr m, tbl @ [m]))"

text \<open>The checkpoint of a patch is parsed before the statement runs.\<close>

definition parse_patch :: "update_migration \<Rightarrow> string + unit" where
  "parse_patch p =
     (case um_checkpoint p of
        None \<Rightarrow> Inr ()
      | Some cp \<Rightarrow> (case WorkloadMigrationCheckpointSchema cp of Inl e \<Rightarrow> Inl e | Inr _ \<Rightarrow> Inr ()))"

definition updateMigration ::
  "int \<Rightarrow> string \<Rightarrow> update_migration \<Rightarrow> migration list \<Rightarrow> (string + migration option) \<times> migration list" where
  "updateMigration now i patch tbl =
     (case parse_patch patch of
        Inl e \<Rightarrow> (Inl e, tbl)
      | Inr _ \<Rightarrow> (case updateById mg_id i (patch_migration now patch) tbl of (r, tbl') \<Rightarrow> (Inr r, tbl')))"

definition migration_claimable :: "string \<Rightarrow> int \<Rightarrow> migration \<Rightarrow> bool" where
  "migration_claimable executionToken staleBefore m \<longleftrightarrow>
     mg_status m \<in> set ACTIVE_STATUSES \<and>
     (mg_status m = MQueued \<or> mg_executionToken m = None \<or> earlier (mg_heartbeatAt m) staleBefore \<or>
      (mg_executionToken m = Some executionToken \<and> mg_status m \<in> set ACTIVE_STATUSES))"

definition claimMigration ::
  "int \<Rightarrow> int \<Rightarrow> string \<Rightarrow> string \<Rightarrow> migration list \<Rightarrow> migration option \<times> migration list" where
  "claimMigration now staleBefore i executionToken tbl =
     update_where mg_id i (migration_claimable executionToken staleBefore)
       (\<lambda>m. m\<lparr>mg_executionToken := Some executionToken, mg_attempt := mg_attempt m + 1,
              mg_heartbeatAt := Some now,
              mg_startedAt := (case mg_startedAt m of None \<Rightarrow> Some now | s \<Rightarrow> s),
              mg_updatedAt := now\<rparr>) tbl"

definition migration_owned :: "string \<Rightarrow> migration \<Rightarrow> bool" where
  "migration_owned executionToken m \<longleftrightarrow>
     mg_executionToken m = Some executionToken \<and>
     mg_status m \<notin> set TERMINAL_WORKLOAD_MIGRATION_STATUSES"

definition with_heartbeat :: "int \<Rightarrow> update_migration \<Rightarrow> update_migration" where
  "with_heartbeat now p =
     p\<lparr>um_heartbeatAt := (case um_heartbeatAt p of None \<Rightarrow> Some (Some now) | h \<Rightarrow> h)\<rparr>"

definition updateOwned_row ::
  "int \<Rightarrow> string \<Rightarrow> string \<Rightarrow> update_migration \<Rightarrow> migration list \<Rightarrow> migration option \<times> migration list" where
  "updateOwned_row now i executionToken patch tbl =
     update_where mg_id i (migration_owned executionToken)
       (patch_migration now (with_heartbeat now patch)) tbl"

definition updateOwned ::
  "int \<Rightarrow> string \<Rightarrow> string \<Rightarrow> update_migration \<Rightarrow> migration list \<Rightarrow>
   (string + migration option) \<times> migration list" where
  "updateOwned now i executionToken patch tbl =
     (case parse_patch patch of
        Inl e \<Rightarrow> (Inl e, tbl)
      | Inr _ \<Rightarrow> (case updateOwned_row now i executionToken patch tbl of (r, tbl') \<Rightarrow> (Inr r, tbl')))"

section \<open>Lemmas\<close>

lemma transition_ok [simp]:
  "assertWorkloadMigrationTransition a b = Inr () \<longleftrightarrow> b \<in> set (ALLOWED_TRANSITIONS a)"
  by (simp add: assertWorkloadMigrationTransition_def)

lemma transition_up: "b \<in> set (ALLOWED_TRANSITIONS a) \<Longrightarrow> a < b"
  by (cases a) (auto simp: status_order)

lemma patch_migration_simps [simp]:
  "mg_id (patch_migration now p m) = mg_id m"
  "mg_organizationId (patch_migration now p m) = mg_organizationId m"
  "mg_resourceId (patch_migration now p m) = mg_resourceId m"
  "mg_deploymentId (patch_migration now p m) = mg_deploymentId m"
  "mg_sourceServerId (patch_migration now p m) = mg_sourceServerId m"
  "mg_targetServerId (patch_migration now p m) = mg_targetServerId m"
  "mg_status (patch_migration now p m) = given (um_status p) (mg_status m)"
  "mg_progress (patch_migration now p m) = given (um_progress p) (mg_progress m)"
  "mg_executionToken (patch_migration now p m) = given (um_executionToken p) (mg_executionToken m)"
  "mg_cancelRequested (patch_migration now p m) = given (um_cancelRequested p) (mg_cancelRequested m)"
  "mg_cleanupConfirmed (patch_migration now p m) = given (um_cleanupConfirmed p) (mg_cleanupConfirmed m)"
  "mg_sourceRetained (patch_migration now p m) = given (um_sourceRetained p) (mg_sourceRetained m)"
  "mg_checkpoint (patch_migration now p m) = given (um_checkpoint p) (mg_checkpoint m)"
  by (simp_all add: patch_migration_def)

lemma given_simps [simp]: "given None x = x" "given (Some v) x = v"
  by (simp_all add: given_def)

interpretation mlease: lease_store "\<lambda>t i. findById mg_id i t" mg_executionToken
  "\<lambda>m. mg_status m \<notin> set TERMINAL_WORKLOAD_MIGRATION_STATUSES"
  "claimMigration now staleBefore" "updateOwned_row now" for now staleBefore
proof unfold_locales
  fix i k t r
  assume *: "fst (claimMigration now staleBefore i k t) = Some r"
  then have "mg_executionToken r = Some k" by (auto simp: claimMigration_def update_where_Some)
  with * show "findById mg_id i (snd (claimMigration now staleBefore i k t)) = Some r \<and>
      mg_executionToken r = Some k"
    by (simp add: claimMigration_def update_where_returns)
qed (auto simp: updateOwned_row_def update_where_Some migration_owned_def update_where_frame
      intro: update_where_fails)

lemma updateOwned_stale:
  assumes "findById mg_id i tbl = Some m" "mg_executionToken m \<noteq> Some k"
  shows "snd (updateOwned now i k p tbl) = tbl" "fst (updateOwned now i k p tbl) \<noteq> Inr (Some m')"
  using mlease.stale_write [OF assms, of now p]
  by (simp_all add: updateOwned_def split: sum.split)

lemma updateOwned_hit:
  assumes "findById mg_id i tbl = Some m" "migration_owned k m" "um_checkpoint p = None"
  shows "updateOwned now i k p tbl =
    (Inr (Some (patch_migration now (with_heartbeat now p) m)),
     map (\<lambda>x. if mg_id x = i then patch_migration now (with_heartbeat now p) x else x) tbl)"
  using assms
  by (simp add: updateOwned_def parse_patch_def updateOwned_row_def update_where_hit)

end
