(* ===== verification/Migration_Exec.thy ===== *)
theory Migration_Exec
  imports Migration Outbox
begin

text \<open>
  Executing and managing workload migrations:
  \<open>packages/usecases/src/server/execute-workload-migration.usecase.ts\<close> and
  \<open>packages/usecases/src/server/manage-workload-migration.usecase.ts\<close>, over the port
  interface of \<open>packages/usecases/src/ports/workload-migration.ts\<close>.

  The state \<open>system\<close> holds the tables the use cases read and write, and the clock that
  \<open>new Date()\<close> reads. A port call is a function of the context and the system: its new
  system is the one the caller finds when the call returns, so it also stands for everything
  other workers and operators did while the call was awaited. A port error is its message.
  The loop takes fuel; \<open>Migration_Guarantees\<close> shows that six rounds are always enough.
\<close>

section \<open>State and ports\<close>

record resource_row =
  rs_id :: string
  rs_environmentId :: string
  rs_serverId :: "string option"

record system =
  sy_migrations :: "migration list"
  sy_resources :: "resource_row list"
  sy_deployments :: "deployment list"
  sy_outbox :: "outbox_message list"
  sy_environments :: "(string \<times> string) list"
  sy_projects :: "(string \<times> string) list"
  sy_clock :: int

record migration_context =
  cx_migration :: migration
  cx_resource :: resource_row
  cx_token :: string

record preflight_check =
  pc_code :: string
  pc_ok :: bool
  pc_message :: string

record preflight_result =
  pr_checks :: "preflight_check list"
  pr_checkpoint :: "checkpoint option"

type_synonym port_call = "migration_context \<Rightarrow> system \<Rightarrow> (string + unit) \<times> system"

record migration_port =
  pt_preflight :: "migration_context \<Rightarrow> system \<Rightarrow> (string + preflight_result) \<times> system"
  pt_transfer :: port_call
  pt_deployShadow :: port_call
  pt_validateShadow :: port_call
  pt_cutover :: port_call
  pt_rollback :: port_call
  pt_cleanupSource :: port_call
  pt_cleanupShadow :: port_call

definition EXECUTION_LEASE_MS :: int where
  "EXECUTION_LEASE_MS = 5 * 60000"

section \<open>Steps of the executor\<close>

text \<open>\<open>StepError\<close> is a \<open>MigrationStepError\<close>; any other error is its message.\<close>

datatype step_error = StepError string string | OtherError string

definition lease_lost :: string where
  "lease_lost = ''Migration execution lease was lost''"

definition onProgress ::
  "migration \<Rightarrow> string \<Rightarrow> int \<Rightarrow> checkpoint option \<Rightarrow> system \<Rightarrow> (string + unit) \<times> system" where
  "onProgress m token progress cp s =
     (case updateOwned (sy_clock s) (mg_id m) token
             (no_update\<lparr>um_progress := Some progress, um_heartbeatAt := Some (Some (sy_clock s)),
                        um_checkpoint := cp\<rparr>) (sy_migrations s) of
        (Inl e, _) \<Rightarrow> (Inl e, s)
      | (Inr None, _) \<Rightarrow> (Inl lease_lost, s)
      | (Inr (Some _), t) \<Rightarrow> (Inr (), s\<lparr>sy_migrations := t\<rparr>))"

definition transitionOwned ::
  "system \<Rightarrow> migration \<Rightarrow> string \<Rightarrow> workload_migration_status \<Rightarrow> int \<Rightarrow> checkpoint option \<Rightarrow>
   (string + migration) \<times> system" where
  "transitionOwned s m token status progress cp =
     (case assertWorkloadMigrationTransition (mg_status m) status of
        Inl e \<Rightarrow> (Inl e, s)
      | Inr _ \<Rightarrow>
          (case updateOwned (sy_clock s) (mg_id m) token
                  (no_update\<lparr>um_status := Some status, um_progress := Some progress,
                             um_heartbeatAt := Some (Some (sy_clock s)), um_checkpoint := cp\<rparr>)
                  (sy_migrations s) of
             (Inl e, _) \<Rightarrow> (Inl e, s)
           | (Inr None, _) \<Rightarrow> (Inl lease_lost, s)
           | (Inr (Some m'), t) \<Rightarrow> (Inr m', s\<lparr>sy_migrations := t\<rparr>)))"

definition update_deployment_row :: "string \<Rightarrow> update_deployment \<Rightarrow> system \<Rightarrow> system" where
  "update_deployment_row i patch s =
     s\<lparr>sy_deployments := snd (updateDeployment (sy_clock s) i patch (sy_deployments s))\<rparr>"

definition place_resource :: "string \<Rightarrow> string \<Rightarrow> system \<Rightarrow> resource_row option \<times> system" where
  "place_resource i server s =
     (case updateById rs_id i (\<lambda>r. r\<lparr>rs_serverId := Some server\<rparr>) (sy_resources s) of
        (r, t) \<Rightarrow> (r, s\<lparr>sy_resources := t\<rparr>))"

definition fail :: "system \<Rightarrow> migration \<Rightarrow> string \<Rightarrow> string \<Rightarrow> string \<Rightarrow> migration \<times> system" where
  "fail s m token errorCode message =
     (case updateOwned (sy_clock s) (mg_id m) token
             (no_update\<lparr>um_status := Some MFailed, um_errorCode := Some (Some errorCode),
                        um_errorMessage := Some (Some message), um_completedAt := Some (Some (sy_clock s)),
                        um_heartbeatAt := Some None, um_executionToken := Some None\<rparr>)
             (sy_migrations s) of
        (r, t) \<Rightarrow>
          ((case r of Inr (Some failed) \<Rightarrow> failed | _ \<Rightarrow> m),
           update_deployment_row (mg_deploymentId m)
             (no_deployment_update\<lparr>ud_status := Some DFailed,
                                   ud_lastError := Some (Some (errorCode @ '': '' @ message))\<rparr>)
             (s\<lparr>sy_migrations := t\<rparr>)))"

definition past_cutover :: "workload_migration_status list" where
  "past_cutover = [MCuttingOver, MAwaitingConfirmation, MRollingBack]"

definition the_context :: "migration \<Rightarrow> resource_row \<Rightarrow> string \<Rightarrow> migration_context" where
  "the_context m resource token =
     \<lparr>cx_migration = m, cx_resource = resource, cx_token = token\<rparr>"

definition cancel ::
  "migration_port \<Rightarrow> system \<Rightarrow> migration \<Rightarrow> resource_row \<Rightarrow> string \<Rightarrow>
   (step_error + migration) \<times> system" where
  "cancel port s m resource token =
     (if mg_status m \<in> set past_cutover
      then (Inl (StepError ''CANCEL_REQUIRES_ROLLBACK''
                  ''Migration has reached cutover and must be rolled back explicitly''), s)
      else case pt_cleanupShadow port (the_context m resource token) s of
        (Inl e, s1) \<Rightarrow> (Inl (OtherError e), s1)
      | (Inr _, s1) \<Rightarrow>
          (case transitionOwned s1 m token MCancelled (mg_progress m) None of
             (Inl e, s2) \<Rightarrow> (Inl (OtherError e), s2)
           | (Inr cancelled, s2) \<Rightarrow>
               (Inr cancelled,
                update_deployment_row (mg_deploymentId m)
                  (no_deployment_update\<lparr>ud_status := Some DCancelled,
                     ud_lastError := Some (Some ''Migration cancelled by operator'')\<rparr>) s2)))"

text \<open>
  How a round of the loop ends: with the next round, with the value returned, or with an
  error and the values the local variables \<open>migration\<close> and \<open>cutoverStarted\<close> have then.
\<close>

datatype round_result =
    Continue migration bool system
  | Returned migration system
  | Threw step_error migration bool system

definition continue_with :: "migration \<Rightarrow> bool \<Rightarrow> bool \<Rightarrow> (string + migration) \<times> system \<Rightarrow> round_result" where
  "continue_with m cutoverStarted after r =
     (case r of
        (Inl e, s) \<Rightarrow> Threw (OtherError e) m cutoverStarted s
      | (Inr m', s) \<Rightarrow> Continue m' after s)"

definition failed_checks :: "preflight_check list \<Rightarrow> string" where
  "failed_checks cs = join ''; '' (map (\<lambda>c. pc_code c @ '': '' @ pc_message c) cs)"

definition commit_cutover ::
  "system \<Rightarrow> migration \<Rightarrow> resource_row \<Rightarrow> string \<Rightarrow> (string + migration) \<times> system" where
  "commit_cutover s m resource token =
     (case place_resource (rs_id resource) (mg_targetServerId m) s of
        (None, _) \<Rightarrow> (Inl ''Failed to persist migration cutover'', s)
      | (Some _, s1) \<Rightarrow>
          (case transitionOwned s1 m token MAwaitingConfirmation 95 None of
             (Inl e, _) \<Rightarrow> (Inl e, s)
           | (Inr m', s2) \<Rightarrow> (Inr m', s2)))"

definition current_migration :: "system \<Rightarrow> migration \<Rightarrow> migration" where
  "current_migration s m = (case findById mg_id (mg_id m) (sy_migrations s) of Some x \<Rightarrow> x | None \<Rightarrow> m)"

definition execute_round ::
  "migration_port \<Rightarrow> resource_row \<Rightarrow> string \<Rightarrow> migration \<Rightarrow> bool \<Rightarrow> system \<Rightarrow> round_result" where
  "execute_round port resource token migration cutoverStarted s =
     (let m = current_migration s migration; ctx = the_context m resource token in
      if mg_cancelRequested m then
        (case cancel port s m resource token of
           (Inl e, s1) \<Rightarrow> Threw e m cutoverStarted s1
         | (Inr c, s1) \<Rightarrow> Returned c s1)
      else case mg_status m of
        MQueued \<Rightarrow>
          continue_with m cutoverStarted cutoverStarted (transitionOwned s m token MPreflight 5 None)
      | MPreflight \<Rightarrow>
          (case pt_preflight port ctx s of
             (Inl e, s1) \<Rightarrow> Threw (OtherError e) m cutoverStarted s1
           | (Inr result, s1) \<Rightarrow>
               (let failed = filter (\<lambda>c. \<not> pc_ok c) (pr_checks result) in
                if failed \<noteq> []
                then Threw (StepError ''PREFLIGHT_FAILED'' (failed_checks failed)) m cutoverStarted s1
                else continue_with m cutoverStarted cutoverStarted
                       (transitionOwned s1 m token MTransferring 20 (pr_checkpoint result))))
      | MTransferring \<Rightarrow>
          (case pt_transfer port ctx s of
             (Inl e, s1) \<Rightarrow> Threw (OtherError e) m cutoverStarted s1
           | (Inr _, s1) \<Rightarrow>
               continue_with m cutoverStarted cutoverStarted
                 (transitionOwned s1 m token MShadowDeploying 55 None))
      | MShadowDeploying \<Rightarrow>
          (case pt_deployShadow port ctx s of
             (Inl e, s1) \<Rightarrow> Threw (OtherError e) m cutoverStarted s1
           | (Inr _, s1) \<Rightarrow>
               continue_with m cutoverStarted cutoverStarted
                 (transitionOwned s1 m token MValidating 70 None))
      | MValidating \<Rightarrow>
          (case pt_validateShadow port ctx s of
             (Inl e, s1) \<Rightarrow> Threw (OtherError e) m cutoverStarted s1
           | (Inr _, s1) \<Rightarrow>
               continue_with m cutoverStarted True (transitionOwned s1 m token MCuttingOver 85 None))
      | MCuttingOver \<Rightarrow>
          (case pt_cutover port ctx s of
             (Inl e, s1) \<Rightarrow> Threw (OtherError e) m True s1
           | (Inr _, s1) \<Rightarrow>
               (case commit_cutover s1 m resource token of
                  (Inl e, s2) \<Rightarrow> Threw (OtherError e) m True s2
                | (Inr m', s2) \<Rightarrow>
                    Returned m' (update_deployment_row (mg_deploymentId m')
                      (no_deployment_update\<lparr>ud_status := Some DSuccess,
                         ud_logs := Some (''Migration cutover completed. Source retained pending '' @
                           ''explicit cleanup confirmation.'' @ [CHR 0x0A])\<rparr>) s2)))
      | MRollingBack \<Rightarrow>
          (case pt_rollback port ctx s of
             (Inl e, s1) \<Rightarrow> Threw (OtherError e) m cutoverStarted s1
           | (Inr _, s1) \<Rightarrow>
               (case fail (snd (place_resource (rs_id resource) (mg_sourceServerId m) s1)) m token
                       ''ROLLED_BACK'' ''Migration was rolled back after cutover'' of
                  (m', s2) \<Rightarrow> Returned m' s2))
      | _ \<Rightarrow> Returned m s)"

fun execute_loop ::
  "nat \<Rightarrow> migration_port \<Rightarrow> resource_row \<Rightarrow> string \<Rightarrow> migration \<Rightarrow> bool \<Rightarrow> system \<Rightarrow> round_result option" where
  "execute_loop 0 port resource token m cutoverStarted s = None"
| "execute_loop (Suc n) port resource token m cutoverStarted s =
     (case execute_round port resource token m cutoverStarted s of
        Continue m' cutoverStarted' s' \<Rightarrow> execute_loop n port resource token m' cutoverStarted' s'
      | r \<Rightarrow> Some r)"

text \<open>The \<open>catch\<close> block.\<close>

fun as_step_error :: "step_error \<Rightarrow> string \<times> string" where
  "as_step_error (StepError c msg) = (c, msg)"
| "as_step_error (OtherError msg) = (''MIGRATION_STEP_FAILED'', msg)"

definition handle_error ::
  "migration_port \<Rightarrow> resource_row \<Rightarrow> string \<Rightarrow> step_error \<Rightarrow> migration \<Rightarrow> bool \<Rightarrow> system \<Rightarrow>
   migration \<times> system" where
  "handle_error port resource token err m cutoverStarted s =
     (case as_step_error err of (errorCode, message) \<Rightarrow>
        if cutoverStarted then
          (case transitionOwned s m token MRollingBack (mg_progress m) None of (r, s1) \<Rightarrow>
             let rollback = (case r of Inr m' \<Rightarrow> m' | Inl _ \<Rightarrow> m) in
             (case pt_rollback port (the_context rollback resource token) s1 of
                (Inr _, s2) \<Rightarrow>
                  fail (snd (place_resource (rs_id resource) (mg_sourceServerId m) s2)) m token
                    errorCode message
              | (Inl e, s2) \<Rightarrow> fail s2 m token errorCode (message @ ''; rollback failed: '' @ e)))
        else fail s m token errorCode message)"

definition execute ::
  "nat \<Rightarrow> migration_port \<Rightarrow> string \<Rightarrow> string \<Rightarrow> system \<Rightarrow> ((string + migration) \<times> system) option" where
  "execute fuel port migrationId token s =
     (case claimMigration (sy_clock s) (sy_clock s - EXECUTION_LEASE_MS) migrationId token
             (sy_migrations s) of
        (None, _) \<Rightarrow>
          Some (case findById mg_id migrationId (sy_migrations s) of
             None \<Rightarrow> (Inl ''Workload migration not found'', s)
           | Some existing \<Rightarrow>
               if mg_status existing \<in> set (TERMINAL_WORKLOAD_MIGRATION_STATUSES @ [MAwaitingConfirmation])
               then (Inr existing, s)
               else (Inl ''Workload migration is owned by another active worker'', s))
      | (Some m, t) \<Rightarrow>
          let s1 = s\<lparr>sy_migrations := t\<rparr> in
          (case findById rs_id (mg_resourceId m) (sy_resources s1) of
             None \<Rightarrow>
               Some (case fail s1 m token ''RESOURCE_NOT_FOUND'' ''Resource not found'' of
                       (m', s2) \<Rightarrow> (Inr m', s2))
           | Some resource \<Rightarrow>
               (case execute_loop fuel port resource token m (mg_status m \<in> set past_cutover) s1 of
                  None \<Rightarrow> None
                | Some (Threw err m' cutoverStarted s2) \<Rightarrow>
                    Some (case handle_error port resource token err m' cutoverStarted s2 of
                            (m'', s3) \<Rightarrow> (Inr m'', s3))
                | Some (Returned m' s2) \<Rightarrow> Some (Inr m', s2)
                | Some (Continue _ _ _) \<Rightarrow> None)))"

section \<open>Managing migrations\<close>

definition ownedMigration :: "system \<Rightarrow> string \<Rightarrow> string \<Rightarrow> string + migration" where
  "ownedMigration s organizationId migrationId =
     (case findById mg_id migrationId (sy_migrations s) of
        None \<Rightarrow> Inl ''Workload migration not found''
      | Some m \<Rightarrow>
          if mg_organizationId m \<noteq> organizationId then Inl ''Workload migration not found'' else Inr m)"

definition getWorkloadMigration :: "system \<Rightarrow> string \<Rightarrow> string \<Rightarrow> string + migration" where
  "getWorkloadMigration s organizationId migrationId = ownedMigration s organizationId migrationId"

text \<open>Environments map their id to the project id, projects to the organization id.\<close>

definition getResourceWorkloadMigration :: "system \<Rightarrow> string \<Rightarrow> string \<Rightarrow> string + migration option" where
  "getResourceWorkloadMigration s organizationId resourceId =
     (let resource = findById rs_id resourceId (sy_resources s);
          environment = Option.bind resource (\<lambda>r. map_of (sy_environments s) (rs_environmentId r));
          project = Option.bind environment (map_of (sy_projects s))
      in case resource of
           None \<Rightarrow> Inl ''Resource not found''
         | Some r \<Rightarrow>
             if project \<noteq> Some organizationId then Inl ''Resource not found''
             else (case findMigrationsByResourceId (rs_id r) 50 (sy_migrations s) of
                     [] \<Rightarrow> Inr None | m # _ \<Rightarrow> Inr (Some m)))"

definition update_migration_row ::
  "string \<Rightarrow> update_migration \<Rightarrow> string \<Rightarrow> system \<Rightarrow> (string + migration) \<times> system" where
  "update_migration_row i patch missing s =
     (case updateMigration (sy_clock s) i patch (sy_migrations s) of
        (Inl e, _) \<Rightarrow> (Inl e, s)
      | (Inr None, _) \<Rightarrow> (Inl missing, s)
      | (Inr (Some m), t) \<Rightarrow> (Inr m, s\<lparr>sy_migrations := t\<rparr>))"

definition cancelWorkloadMigration ::
  "system \<Rightarrow> string \<Rightarrow> string \<Rightarrow> (string + migration) \<times> system" where
  "cancelWorkloadMigration s organizationId migrationId =
     (case ownedMigration s organizationId migrationId of
        Inl e \<Rightarrow> (Inl e, s)
      | Inr m \<Rightarrow>
          if mg_status m \<in> set TERMINAL_WORKLOAD_MIGRATION_STATUSES then (Inr m, s)
          else if mg_status m \<in> set past_cutover
          then (Inl ''Migration reached cutover; request rollback instead of cancellation'', s)
          else update_migration_row (mg_id m) (no_update\<lparr>um_cancelRequested := Some True\<rparr>)
                 ''Migration could not be cancelled'' s)"

definition rollback_command :: "string \<Rightarrow> migration \<Rightarrow> create_outbox_message" where
  "rollback_command uuid m =
     \<lparr>co_id = Some uuid, co_type = ''resource.migrate'',
      co_payload = [(''migrationId'', JStr (mg_id m)), (''deploymentId'', JStr (mg_deploymentId m)),
        (''resourceId'', JStr (mg_resourceId m)), (''sourceServerId'', JStr (mg_sourceServerId m)),
        (''targetServerId'', JStr (mg_targetServerId m))],
      co_aggregateType = Some ''workload_migration'', co_aggregateId = Some (mg_id m),
      co_organizationId = Some (mg_organizationId m),
      co_idempotencyKey = ''migration-rollback:'' @ mg_id m @ '':'' @ show_int (mg_updatedAt m),
      co_maxAttempts = None, co_availableAt = None\<rparr>"

text \<open>The whole use case is one transaction: an error leaves the system as it was.\<close>

definition rollbackWorkloadMigration ::
  "system \<Rightarrow> string \<Rightarrow> string \<Rightarrow> string \<Rightarrow> (string + migration) \<times> system" where
  "rollbackWorkloadMigration s uuid organizationId migrationId =
     (case ownedMigration s organizationId migrationId of
        Inl e \<Rightarrow> (Inl e, s)
      | Inr m \<Rightarrow>
          if mg_status m = MFailed \<or> mg_status m = MCancelled then (Inr m, s)
          else (case assertWorkloadMigrationTransition (mg_status m) MRollingBack of
            Inl e \<Rightarrow> (Inl e, s)
          | Inr _ \<Rightarrow>
              (case update_migration_row (mg_id m)
                      (no_update\<lparr>um_status := Some MRollingBack, um_executionToken := Some None,
                                 um_heartbeatAt := Some None\<rparr>) ''Migration could not enter rollback'' s of
                 (Inl e, _) \<Rightarrow> (Inl e, s)
               | (Inr updated, s1) \<Rightarrow>
                   (case create uuid (sy_clock s1) (rollback_command uuid m) (sy_outbox s1) of
                      (Inl e, _) \<Rightarrow> (Inl e, s)
                    | (Inr _, ob) \<Rightarrow> (Inr updated, s1\<lparr>sy_outbox := ob\<rparr>)))))"

text \<open>The progress callback of the confirmation writes without an owner check.\<close>

definition confirm_onProgress :: "migration \<Rightarrow> int \<Rightarrow> checkpoint option \<Rightarrow> system \<Rightarrow> (string + unit) \<times> system" where
  "confirm_onProgress m progress cp s =
     (case updateMigration (sy_clock s) (mg_id m)
             (no_update\<lparr>um_progress := Some progress, um_checkpoint := cp\<rparr>) (sy_migrations s) of
        (Inl e, _) \<Rightarrow> (Inl e, s)
      | (Inr _, t) \<Rightarrow> (Inr (), s\<lparr>sy_migrations := t\<rparr>))"

definition record_cleanup :: "system \<Rightarrow> string \<Rightarrow> string \<Rightarrow> (string + migration) \<times> system" where
  "record_cleanup s organizationId migrationId =
     (case ownedMigration s organizationId migrationId of
        Inl e \<Rightarrow> (Inl e, s)
      | Inr current \<Rightarrow>
          if mg_status current = MCompleted then (Inr current, s)
          else (case assertWorkloadMigrationTransition (mg_status current) MCompleted of
            Inl e \<Rightarrow> (Inl e, s)
          | Inr _ \<Rightarrow>
              update_migration_row (mg_id current)
                (no_update\<lparr>um_status := Some MCompleted, um_progress := Some 100,
                   um_cleanupConfirmed := Some True, um_sourceRetained := Some False,
                   um_completedAt := Some (Some (sy_clock s)), um_heartbeatAt := Some None,
                   um_executionToken := Some None\<rparr>)
                ''Migration cleanup could not be recorded'' s))"

definition confirmWorkloadMigration ::
  "migration_port \<Rightarrow> system \<Rightarrow> string \<Rightarrow> string \<Rightarrow> (string + migration) \<times> system" where
  "confirmWorkloadMigration port s organizationId migrationId =
     (case ownedMigration s organizationId migrationId of
        Inl e \<Rightarrow> (Inl e, s)
      | Inr m \<Rightarrow>
          if mg_status m = MCompleted then (Inr m, s)
          else if mg_status m \<noteq> MAwaitingConfirmation
          then (Inl ''Migration is not awaiting cleanup confirmation'', s)
          else (case findById rs_id (mg_resourceId m) (sy_resources s) of
                  None \<Rightarrow> (Inl ''Resource not found'', s)
                | Some resource \<Rightarrow>
                    (case pt_cleanupSource port (the_context m resource []) s of
                       (Inl e, s1) \<Rightarrow> (Inl e, s1)
                     | (Inr _, s1) \<Rightarrow> record_cleanup s1 organizationId migrationId)))"

end
