(* ===== verification/Migration_Guarantees.thy ===== *)
theory Migration_Guarantees
  imports Migration_Exec
begin

text \<open>
  What workload migrations guarantee: the executor always ends, a successful run moves the
  resource and keeps the source, a resource only ever runs where the outcome says, a
  cancellation is honoured, and the rows keep their invariant along every history.
\<close>

section \<open>Transitions\<close>

lemma transitionOwned_result:
  assumes "transitionOwned s m token status progress cp = (Inr m', s')"
  shows "status \<in> set (ALLOWED_TRANSITIONS (mg_status m)) \<and> mg_status m' = status \<and>
    mg_id m' = mg_id m \<and> findById mg_id (mg_id m) (sy_migrations s') = Some m' \<and>
    (\<exists>t. s' = s\<lparr>sy_migrations := t\<rparr>)"
proof -
  let ?p = "no_update\<lparr>um_status := Some status, um_progress := Some progress,
     um_heartbeatAt := Some (Some (sy_clock s)), um_checkpoint := cp\<rparr>"
  from assms obtain t where a: "status \<in> set (ALLOWED_TRANSITIONS (mg_status m))"
    and u: "updateOwned_row (sy_clock s) (mg_id m) token ?p (sy_migrations s) = (Some m', t)"
    and s': "s' = s\<lparr>sy_migrations := t\<rparr>"
    by (auto simp: transitionOwned_def updateOwned_def split: sum.splits option.splits prod.splits)
  from u have f: "fst (updateOwned_row (sy_clock s) (mg_id m) token ?p (sy_migrations s)) = Some m'"
    and t: "t = snd (updateOwned_row (sy_clock s) (mg_id m) token ?p (sy_migrations s))" by simp_all
  from f obtain r where r: "findById mg_id (mg_id m) (sy_migrations s) = Some r"
    "m' = patch_migration (sy_clock s) (with_heartbeat (sy_clock s) ?p) r"
    by (auto simp: updateOwned_row_def update_where_Some)
  from findById_key [OF r(1)] r(2) have "mg_status m' = status" "mg_id m' = mg_id m"
    by (simp_all add: with_heartbeat_def)
  moreover from f t have "findById mg_id (mg_id m) t = Some m'"
    unfolding updateOwned_row_def by (simp add: update_where_returns)
  ultimately show ?thesis using a s' by auto
qed

lemma transitionOwned_error:
  "transitionOwned s m token status progress cp = (Inl e, s') \<Longrightarrow> s' = s"
  by (auto simp: transitionOwned_def split: sum.splits option.splits prod.splits)

section \<open>Termination\<close>

lemma continue_withE:
  assumes "continue_with m co after r = Continue m' co' s'"
  shows "r = (Inr m', s')"
  using assms by (auto simp: continue_with_def split: prod.splits sum.splits)

lemma execute_round_continues:
  assumes "execute_round port resource token m0 co s = Continue m' co' s'"
  shows "current_migration s' m' = m' \<and> mg_status (current_migration s m0) < mg_status m' \<and>
    mg_status m' \<le> MCuttingOver"
proof -
  let ?m = "current_migration s m0"
  from assms obtain s1 status progress cp where
    t: "transitionOwned s1 ?m token status progress cp = (Inr m', s')" and "status \<le> MCuttingOver"
    by (auto simp: execute_round_def Let_def status_order dest!: continue_withE
        split: if_splits workload_migration_status.splits sum.splits prod.splits)
  with transitionOwned_result [OF t] show ?thesis
    by (auto simp: current_migration_def dest: transition_up)
qed

lemma execute_loop_terminates:
  assumes "5 < n + status_rank (mg_status (current_migration s m))" "0 < n"
  shows "\<exists>r. execute_loop n port resource token m co s = Some r \<and> (\<forall>a b c. r \<noteq> Continue a b c)"
  using assms
proof (induction n arbitrary: m co s)
  case (Suc n)
  show ?case
  proof (cases "execute_round port resource token m co s")
    case (Continue m' co' s')
    note c = execute_round_continues [OF Continue]
    then have "status_rank (mg_status m') \<le> 5" "status_rank (mg_status (current_migration s m)) < status_rank (mg_status m')"
      by (auto simp: status_order)
    with Suc.prems c have "5 < n + status_rank (mg_status (current_migration s' m'))" "0 < n" by auto
    from Suc.IH [OF this] Continue show ?thesis by simp
  qed auto
qed simp

lemma execute_loop_more_fuel:
  "execute_loop n port resource token m co s = Some r \<Longrightarrow> n \<le> k \<Longrightarrow>
   execute_loop k port resource token m co s = Some r"
proof (induction n arbitrary: m co s k)
  case (Suc n)
  then obtain k' where k: "k = Suc k'" "n \<le> k'" by (cases k) auto
  with Suc show ?case by (auto split: round_result.splits)
qed simp

section \<open>Where a resource runs\<close>

definition relocate :: "string \<Rightarrow> string \<Rightarrow> resource_row list \<Rightarrow> resource_row list" where
  "relocate i server rows = map (\<lambda>r. if rs_id r = i then r\<lparr>rs_serverId := Some server\<rparr> else r) rows"

definition route :: "migration \<Rightarrow> string \<times> string \<times> string" where
  "route m = (mg_resourceId m, mg_sourceServerId m, mg_targetServerId m)"

text \<open>
  Ports neither move resources nor rewrite the identity of a migration; no code of the
  repository updates those columns of a migration.
\<close>

definition tame_step :: "system \<Rightarrow> system \<Rightarrow> bool" where
  "tame_step s s' \<longleftrightarrow>
     sy_resources s' = sy_resources s \<and>
     (\<forall>j. map_option route (findById mg_id j (sy_migrations s')) =
          map_option route (findById mg_id j (sy_migrations s)))"

definition tame_port :: "migration_port \<Rightarrow> bool" where
  "tame_port port \<longleftrightarrow>
     (\<forall>ctx s. tame_step s (snd (pt_preflight port ctx s)) \<and> tame_step s (snd (pt_transfer port ctx s)) \<and>
        tame_step s (snd (pt_deployShadow port ctx s)) \<and> tame_step s (snd (pt_validateShadow port ctx s)) \<and>
        tame_step s (snd (pt_cutover port ctx s)) \<and> tame_step s (snd (pt_rollback port ctx s)) \<and>
        tame_step s (snd (pt_cleanupShadow port ctx s)))"

lemma tame_port_calls:
  assumes "tame_port port"
  shows "pt_preflight port ctx s = (a, s1) \<Longrightarrow> tame_step s s1"
    "pt_transfer port ctx s = (b, s1) \<Longrightarrow> tame_step s s1"
    "pt_deployShadow port ctx s = (b, s1) \<Longrightarrow> tame_step s s1"
    "pt_validateShadow port ctx s = (b, s1) \<Longrightarrow> tame_step s s1"
    "pt_cutover port ctx s = (b, s1) \<Longrightarrow> tame_step s s1"
    "pt_rollback port ctx s = (b, s1) \<Longrightarrow> tame_step s s1"
    "pt_cleanupShadow port ctx s = (b, s1) \<Longrightarrow> tame_step s s1"
  using assms unfolding tame_port_def by (metis snd_conv)+

lemma tame_refl [simp]: "tame_step s s"
  by (simp add: tame_step_def)

lemma tame_trans: "tame_step a b \<Longrightarrow> tame_step b c \<Longrightarrow> tame_step a c"
  by (simp add: tame_step_def)

lemma route_patch [simp]: "route (patch_migration now p m) = route m"
  by (simp add: route_def)

lemma updateOwned_routes:
  "map_option route (findById mg_id j (snd (updateOwned now i k p tbl))) =
   map_option route (findById mg_id j tbl)"
proof -
  have "map_option route (findById mg_id j (snd (updateOwned_row now i k p tbl))) =
      map_option route (findById mg_id j tbl)"
    unfolding updateOwned_row_def
    by (auto simp: update_where_find update_where_Some split: option.split)
  then show ?thesis by (auto simp: updateOwned_def split: sum.split prod.split)
qed

lemma transition_tame: "transitionOwned s m token status progress cp = (r, s') \<Longrightarrow> tame_step s s'"
  using updateOwned_routes
  by (auto simp: transitionOwned_def tame_step_def split: sum.splits option.splits prod.splits)
    (metis snd_conv)

lemma fail_tame: "fail s m token c msg = (m', s') \<Longrightarrow> tame_step s s'"
  using updateOwned_routes
  by (auto simp: fail_def tame_step_def update_deployment_row_def split: prod.splits)
    (metis snd_conv)

lemma deployment_tame [simp]: "tame_step s (update_deployment_row i p s)"
  by (simp add: tame_step_def update_deployment_row_def)

lemma place_resource_eq:
  "snd (place_resource i server s) = s\<lparr>sy_resources := relocate i server (sy_resources s)\<rparr>"
proof (cases "findById rs_id i (sy_resources s)")
  case None
  then have "\<forall>r \<in> set (sy_resources s). rs_id r \<noteq> i" by (auto simp: findById_def find_None_iff)
  then have "relocate i server (sy_resources s) = sy_resources s"
    unfolding relocate_def by (intro map_idI) simp
  with None show ?thesis by (simp add: place_resource_def updateById_def update_where_def)
qed (simp add: place_resource_def updateById_def update_where_def relocate_def)

text \<open>
  The local variable \<open>migration\<close> is a version of the row claimed, and no resource has moved.
\<close>

definition on_route ::
  "string \<times> string \<times> string \<Rightarrow> string \<Rightarrow> resource_row list \<Rightarrow> system \<Rightarrow> migration \<Rightarrow> bool" where
  "on_route rt i rows s m \<longleftrightarrow>
     mg_id m = i \<and> route m = rt \<and> sy_resources s = rows \<and>
     (\<forall>x. findById mg_id i (sy_migrations s) = Some x \<longrightarrow> route x = rt)"

lemma on_route_tame: "on_route rt i rows s m \<Longrightarrow> tame_step s s' \<Longrightarrow> on_route rt i rows s' m"
  by (auto simp: on_route_def tame_step_def) (metis (no_types, lifting) map_option_eq_Some)

lemma on_route_current: "on_route rt i rows s m \<Longrightarrow> on_route rt i rows s (current_migration s m)"
  by (auto simp: on_route_def current_migration_def dest: findById_key split: option.splits)

lemma on_route_transition:
  assumes "on_route rt i rows s m" "transitionOwned s m token status progress cp = (Inr m', s')"
  shows "on_route rt i rows s' m'"
proof -
  note r = transitionOwned_result [OF assms(2)]
  from on_route_tame [OF assms(1) transition_tame [OF assms(2)]] r show ?thesis
    by (auto simp: on_route_def)
qed

definition settled_at :: "string \<times> string \<times> string \<Rightarrow> resource_row list \<Rightarrow> migration \<Rightarrow> system \<Rightarrow> bool" where
  "settled_at rt rows m s \<longleftrightarrow>
     (case rt of (res, src, tgt) \<Rightarrow>
        sy_resources s = rows \<or> sy_resources s = relocate res src rows \<or>
        (sy_resources s = relocate res tgt rows \<and> mg_status m = MAwaitingConfirmation))"

fun round_ok :: "string \<times> string \<times> string \<Rightarrow> string \<Rightarrow> resource_row list \<Rightarrow> round_result \<Rightarrow> bool" where
  "round_ok rt i rows (Continue m co s) = on_route rt i rows s m"
| "round_ok rt i rows (Threw e m co s) = on_route rt i rows s m"
| "round_ok rt i rows (Returned m s) = settled_at rt rows m s"

lemma continue_with_ok:
  assumes "on_route rt i rows s m"
  shows "round_ok rt i rows (continue_with m co after (transitionOwned s m token status progress cp))"
  using assms on_route_transition [OF assms] transitionOwned_error [of s m token status progress cp]
  by (auto simp: continue_with_def split: prod.split sum.split)

lemma cancel_ok:
  assumes "tame_port port" "on_route rt i rows s m" "cancel port s m resource token = (r, s')"
  shows "on_route rt i rows s' m"
proof -
  have "tame_step s s'"
    using assms(3)
    by (auto simp: cancel_def split: if_splits prod.splits sum.splits
        dest!: tame_port_calls(7) [OF assms(1)] transition_tame)
      (blast intro: tame_trans deployment_tame)+
  with assms(2) show ?thesis by (rule on_route_tame)
qed

lemma fail_place_ok:
  assumes "on_route (res, src, tgt) i rows s m"
    and "fail (snd (place_resource res src s)) m token c msg = (m', s')"
  shows "settled_at (res, src, tgt) rows m' s'"
  using fail_tame [OF assms(2)] assms(1)
  by (simp add: settled_at_def tame_step_def place_resource_eq on_route_def)

lemma commit_cutover_ok:
  assumes "on_route (rs_id resource, src, tgt) i rows s m"
    and "commit_cutover s m resource token = (r, s')"
  shows "case r of Inl e \<Rightarrow> on_route (rs_id resource, src, tgt) i rows s' m
    | Inr m' \<Rightarrow> sy_resources s' = relocate (rs_id resource) tgt rows \<and> mg_status m' = MAwaitingConfirmation"
proof (cases r)
  case (Inl e)
  with assms show ?thesis by (auto simp: commit_cutover_def split: prod.splits option.splits sum.splits)
next
  case (Inr m')
  with assms(2) obtain x s1 where p: "place_resource (rs_id resource) (mg_targetServerId m) s = (Some x, s1)"
    and t: "transitionOwned s1 m token MAwaitingConfirmation 95 None = (Inr m', s')"
    by (auto simp: commit_cutover_def split: prod.splits option.splits sum.splits)
  from assms(1) p place_resource_eq [of "rs_id resource" "mg_targetServerId m" s]
  have "sy_resources s1 = relocate (rs_id resource) tgt rows"
    by (simp add: on_route_def route_def)
  with transition_tame [OF t] transitionOwned_result [OF t] Inr show ?thesis
    by (simp add: tame_step_def)
qed

lemma execute_round_ok:
  assumes "tame_port port" "on_route (rs_id resource, src, tgt) i rows s m0"
  shows "round_ok (rs_id resource, src, tgt) i rows (execute_round port resource token m0 co s)"
proof -
  let ?rt = "(rs_id resource, src, tgt)" and ?m = "current_migration s m0"
  have m: "on_route ?rt i rows s ?m" by (rule on_route_current [OF assms(2)])
  have src: "mg_sourceServerId ?m = src" and rows: "sy_resources s = rows"
    using m by (simp_all add: on_route_def route_def)
  note calls = tame_port_calls [OF assms(1), THEN on_route_tame [OF m]]
  show ?thesis
  proof (cases "mg_cancelRequested ?m")
    case True
    obtain r s1 where c: "cancel port s ?m resource token = (r, s1)" by force
    from cancel_ok [OF assms(1) m c] True c show ?thesis
      by (auto simp: execute_round_def Let_def settled_at_def on_route_def split: sum.split)
  next
    case False
    then show ?thesis
    proof (cases "mg_status ?m")
      case MCuttingOver
      obtain r s1 where c: "pt_cutover port (the_context ?m resource token) s = (r, s1)" by force
      obtain r2 s2 where d: "commit_cutover s1 ?m resource token = (r2, s2)" by force
      from commit_cutover_ok [OF calls(5) [OF c] d] calls(5) [OF c] False MCuttingOver c d show ?thesis
        by (auto simp: execute_round_def Let_def settled_at_def update_deployment_row_def split: sum.splits)
    next
      case MRollingBack
      obtain r s1 where c: "pt_rollback port (the_context ?m resource token) s = (r, s1)" by force
      with calls(6) [OF c] fail_place_ok [OF calls(6) [OF c]] False MRollingBack src show ?thesis
        by (auto simp: execute_round_def Let_def split: sum.splits prod.splits)
    qed (auto simp: execute_round_def Let_def settled_at_def rows continue_with_ok [OF m]
        dest!: calls intro!: continue_with_ok split: sum.splits prod.splits if_splits)
  qed
qed

lemma execute_loop_ok:
  assumes "tame_port port" "on_route (rs_id resource, src, tgt) i rows s m"
    and "execute_loop n port resource token m co s = Some r"
  shows "round_ok (rs_id resource, src, tgt) i rows r"
  using assms(2,3)
proof (induction n arbitrary: m co s)
  case (Suc n)
  from execute_round_ok [OF assms(1) Suc.prems(1), of token co] Suc show ?case
    by (cases "execute_round port resource token m co s") auto
qed simp

lemma handle_error_ok:
  assumes "tame_port port" "on_route (rs_id resource, src, tgt) i rows s m"
    and "handle_error port resource token err m co s = (m', s')"
  shows "settled_at (rs_id resource, src, tgt) rows m' s'"
proof -
  have src: "mg_sourceServerId m = src" using assms(2) by (simp add: on_route_def route_def)
  have still: "settled_at (rs_id resource, src, tgt) rows m' s'"
    if "on_route (rs_id resource, src, tgt) i rows s1 m" "fail s1 m token c msg = (m', s')" for s1 c msg
    using fail_tame [OF that(2)] that(1) by (simp add: settled_at_def tame_step_def on_route_def)
  show ?thesis
  proof (cases co)
    case False
    with assms(2,3) still show ?thesis by (auto simp: handle_error_def split: prod.splits)
  next
    case True
    obtain r s1 where t: "transitionOwned s m token MRollingBack (mg_progress m) None = (r, s1)" by force
    let ?rb = "case r of Inr m' \<Rightarrow> m' | Inl _ \<Rightarrow> m"
    obtain r2 s2 where rb: "pt_rollback port (the_context ?rb resource token) s1 = (r2, s2)" by force
    have "on_route (rs_id resource, src, tgt) i rows s2 m"
      by (rule on_route_tame [OF on_route_tame [OF assms(2) transition_tame [OF t]]
            tame_port_calls(6) [OF assms(1) rb]])
    with True assms(3) t rb src still fail_place_ok show ?thesis
      by (cases r2) (auto simp: handle_error_def Let_def split: prod.splits)
  qed
qed

section \<open>Successful runs\<close>

text \<open>A port whose calls succeed and leave the tables to the executor.\<close>

definition succeeds :: "migration_port \<Rightarrow> bool" where
  "succeeds port \<longleftrightarrow>
     (\<forall>ctx s. (\<exists>checks. pt_preflight port ctx s = (Inr \<lparr>pr_checks = checks, pr_checkpoint = None\<rparr>, s) \<and>
                        list_all pc_ok checks) \<and>
        pt_transfer port ctx s = (Inr (), s) \<and> pt_deployShadow port ctx s = (Inr (), s) \<and>
        pt_validateShadow port ctx s = (Inr (), s) \<and> pt_cutover port ctx s = (Inr (), s) \<and>
        pt_rollback port ctx s = (Inr (), s) \<and> pt_cleanupShadow port ctx s = (Inr (), s))"

lemma succeeds_calls:
  assumes "succeeds port"
  shows "pt_transfer port ctx s = (Inr (), s)" "pt_deployShadow port ctx s = (Inr (), s)"
    "pt_validateShadow port ctx s = (Inr (), s)" "pt_cutover port ctx s = (Inr (), s)"
    "pt_rollback port ctx s = (Inr (), s)" "pt_cleanupShadow port ctx s = (Inr (), s)"
    "\<exists>checks. pt_preflight port ctx s = (Inr \<lparr>pr_checks = checks, pr_checkpoint = None\<rparr>, s) \<and>
       filter (\<lambda>c. \<not> pc_ok c) checks = []"
  using assms by (auto simp: succeeds_def list_all_iff filter_empty_conv)

definition advance :: "int \<Rightarrow> workload_migration_status \<Rightarrow> int \<Rightarrow> migration \<Rightarrow> migration" where
  "advance now status progress m =
     patch_migration now (with_heartbeat now
       (no_update\<lparr>um_status := Some status, um_progress := Some progress,
                  um_heartbeatAt := Some (Some now), um_checkpoint := None\<rparr>)) m"

lemma advance_simps [simp]:
  "mg_id (advance now st p m) = mg_id m" "mg_status (advance now st p m) = st"
  "mg_progress (advance now st p m) = p" "mg_executionToken (advance now st p m) = mg_executionToken m"
  "mg_cancelRequested (advance now st p m) = mg_cancelRequested m"
  "mg_sourceRetained (advance now st p m) = mg_sourceRetained m"
  "mg_deploymentId (advance now st p m) = mg_deploymentId m" "route (advance now st p m) = route m"
  by (simp_all add: advance_def with_heartbeat_def no_update_def)

definition held :: "string \<Rightarrow> system \<Rightarrow> migration \<Rightarrow> bool" where
  "held token s m \<longleftrightarrow>
     findById mg_id (mg_id m) (sy_migrations s) = Some m \<and> migration_owned token m"

lemma transition_hit:
  assumes "held token s m" "status \<in> set (ALLOWED_TRANSITIONS (mg_status m))"
  shows "\<exists>t. transitionOwned s m token status progress None =
      (Inr (advance (sy_clock s) status progress m), s\<lparr>sy_migrations := t\<rparr>) \<and>
    findById mg_id (mg_id m) t = Some (advance (sy_clock s) status progress m)"
proof -
  let ?p = "no_update\<lparr>um_status := Some status, um_progress := Some progress,
     um_heartbeatAt := Some (Some (sy_clock s)), um_checkpoint := None\<rparr>"
  from assms(1) have f: "findById mg_id (mg_id m) (sy_migrations s) = Some m" and o: "migration_owned token m"
    by (simp_all add: held_def)
  let ?t = "map (\<lambda>x. if mg_id x = mg_id m
     then patch_migration (sy_clock s) (with_heartbeat (sy_clock s) ?p) x else x) (sy_migrations s)"
  have u: "updateOwned (sy_clock s) (mg_id m) token ?p (sy_migrations s) =
      (Inr (Some (advance (sy_clock s) status progress m)), ?t)"
    by (simp add: updateOwned_hit [OF f o] advance_def)
  have "findById mg_id (mg_id m) ?t = Some (advance (sy_clock s) status progress m)"
    by (simp add: findById_map f advance_def)
  moreover have "transitionOwned s m token status progress None =
      (Inr (advance (sy_clock s) status progress m), s\<lparr>sy_migrations := ?t\<rparr>)"
    using assms(2) unfolding transitionOwned_def u
    by (simp add: assertWorkloadMigrationTransition_def throw_if_def)
  ultimately show ?thesis by blast
qed

lemma held_current [simp]: "held token s m \<Longrightarrow> current_migration s m = m"
  by (simp add: held_def current_migration_def)

text \<open>One round of a successful run: the next status, everything else kept.\<close>

lemma round_advances:
  assumes "succeeds port" "held token s m" "\<not> mg_cancelRequested m" "mg_status m < MCuttingOver"
  shows "\<exists>m' co' t. execute_round port resource token m co s = Continue m' co' (s\<lparr>sy_migrations := t\<rparr>) \<and>
    held token (s\<lparr>sy_migrations := t\<rparr>) m' \<and> \<not> mg_cancelRequested m' \<and>
    status_rank (mg_status m') = Suc (status_rank (mg_status m)) \<and> mg_id m' = mg_id m \<and>
    route m' = route m \<and> mg_sourceRetained m' = mg_sourceRetained m \<and> mg_deploymentId m' = mg_deploymentId m"
proof -
  note port = succeeds_calls [OF assms(1)]
  have own: "migration_owned token m" using assms(2) by (simp add: held_def)
  obtain checks where pre: "pt_preflight port (the_context m resource token) s =
      (Inr \<lparr>pr_checks = checks, pr_checkpoint = None\<rparr>, s)" "filter (\<lambda>c. \<not> pc_ok c) checks = []"
    using port(7) by blast
  have ex: "\<exists>m' co' t. continue_with m co after (transitionOwned s m token status progress None) =
        Continue m' co' (s\<lparr>sy_migrations := t\<rparr>) \<and>
      held token (s\<lparr>sy_migrations := t\<rparr>) m' \<and> \<not> mg_cancelRequested m' \<and>
      status_rank (mg_status m') = status_rank status \<and> mg_id m' = mg_id m \<and>
      route m' = route m \<and> mg_sourceRetained m' = mg_sourceRetained m \<and> mg_deploymentId m' = mg_deploymentId m"
    if "status \<in> set (ALLOWED_TRANSITIONS (mg_status m))" "status \<notin> set TERMINAL_WORKLOAD_MIGRATION_STATUSES"
    for after status progress
  proof -
    from transition_hit [OF assms(2) that(1), of progress] obtain t where
      t: "transitionOwned s m token status progress None =
          (Inr (advance (sy_clock s) status progress m), s\<lparr>sy_migrations := t\<rparr>)"
        "findById mg_id (mg_id m) t = Some (advance (sy_clock s) status progress m)" by blast
    with own that(2) assms(3) show ?thesis
      by (intro exI [of _ "advance (sy_clock s) status progress m"] exI [of _ after] exI [of _ t])
        (simp add: continue_with_def held_def migration_owned_def)
  qed
  from assms(4) consider "mg_status m = MQueued" | "mg_status m = MPreflight" | "mg_status m = MTransferring"
    | "mg_status m = MShadowDeploying" | "mg_status m = MValidating"
    by (cases "mg_status m") (auto simp: status_order)
  then show ?thesis
    using assms(2,3) pre port(1-3)
    by cases (simp_all add: execute_round_def Let_def, insert ex,
        fastforce simp: TERMINAL_WORKLOAD_MIGRATION_STATUSES_def)+
qed

definition cutover_patch :: update_deployment where
  "cutover_patch =
     no_deployment_update\<lparr>ud_status := Some DSuccess,
       ud_logs := Some (''Migration cutover completed. Source retained pending '' @
         ''explicit cleanup confirmation.'' @ [CHR 0x0A])\<rparr>"

lemma place_resource_hit:
  assumes "findById rs_id i (sy_resources s) = Some r"
  shows "\<exists>x. place_resource i server s = (Some x, s\<lparr>sy_resources := relocate i server (sy_resources s)\<rparr>)"
  using assms by (simp add: place_resource_def updateById_def update_where_hit relocate_def)

lemma cutover_round:
  assumes "succeeds port" "held token s m" "\<not> mg_cancelRequested m" "mg_status m = MCuttingOver"
    and "findById rs_id (rs_id resource) (sy_resources s) = Some r"
  shows "\<exists>m' s'. execute_round port resource token m co s = Returned m' s' \<and>
    mg_status m' = MAwaitingConfirmation \<and> mg_progress m' = 95 \<and>
    mg_sourceRetained m' = mg_sourceRetained m \<and> findById mg_id (mg_id m) (sy_migrations s') = Some m' \<and>
    sy_resources s' = relocate (rs_id resource) (mg_targetServerId m) (sy_resources s) \<and>
    sy_deployments s' =
      snd (updateDeployment (sy_clock s) (mg_deploymentId m) cutover_patch (sy_deployments s))"
proof -
  let ?s1 = "s\<lparr>sy_resources := relocate (rs_id resource) (mg_targetServerId m) (sy_resources s)\<rparr>"
  let ?m' = "advance (sy_clock s) MAwaitingConfirmation 95 m"
  from place_resource_hit [OF assms(5)] obtain x where
    p: "place_resource (rs_id resource) (mg_targetServerId m) s = (Some x, ?s1)" by blast
  have "held token ?s1 m" using assms(2) by (simp add: held_def)
  from transition_hit [OF this, of MAwaitingConfirmation 95] assms(4) obtain t where
    t: "transitionOwned ?s1 m token MAwaitingConfirmation 95 None = (Inr ?m', ?s1\<lparr>sy_migrations := t\<rparr>)"
      "findById mg_id (mg_id m) t = Some ?m'" by auto
  have "execute_round port resource token m co s =
      Returned ?m' (update_deployment_row (mg_deploymentId m) cutover_patch (?s1\<lparr>sy_migrations := t\<rparr>))"
    using assms(2-4) succeeds_calls(4) [OF assms(1)] p t(1)
    by (simp add: execute_round_def Let_def commit_cutover_def cutover_patch_def)
  with t(2) show ?thesis by (simp add: update_deployment_row_def)
qed

lemma loop_succeeds:
  assumes "succeeds port" "held token s m" "\<not> mg_cancelRequested m" "mg_status m \<le> MCuttingOver"
    and "findById rs_id (rs_id resource) (sy_resources s) = Some r" "5 < n + status_rank (mg_status m)"
  shows "\<exists>m' s'. execute_loop n port resource token m co s = Some (Returned m' s') \<and>
    mg_status m' = MAwaitingConfirmation \<and> mg_progress m' = 95 \<and>
    mg_sourceRetained m' = mg_sourceRetained m \<and> findById mg_id (mg_id m) (sy_migrations s') = Some m' \<and>
    sy_resources s' = relocate (rs_id resource) (mg_targetServerId m) (sy_resources s) \<and>
    sy_deployments s' =
      snd (updateDeployment (sy_clock s) (mg_deploymentId m) cutover_patch (sy_deployments s))"
  using assms(2-6)
proof (induction n arbitrary: m co s)
  case 0
  then show ?case by (simp add: status_order)
next
  case (Suc n)
  show ?case
  proof (cases "mg_status m = MCuttingOver")
    case True
    from cutover_round [OF assms(1) Suc.prems(1,2) True Suc.prems(4), of co] show ?thesis by auto
  next
    case False
    with Suc.prems(3) have lt: "mg_status m < MCuttingOver" by simp
    from round_advances [OF assms(1) Suc.prems(1,2) lt, of resource co] obtain m' co' t where
      r: "execute_round port resource token m co s = Continue m' co' (s\<lparr>sy_migrations := t\<rparr>)"
        "held token (s\<lparr>sy_migrations := t\<rparr>) m'" "\<not> mg_cancelRequested m'"
        "status_rank (mg_status m') = Suc (status_rank (mg_status m))"
      and k: "mg_id m' = mg_id m" "route m' = route m" "mg_sourceRetained m' = mg_sourceRetained m"
        "mg_deploymentId m' = mg_deploymentId m" by blast
    from r(4) lt have "mg_status m' \<le> MCuttingOver" by (simp add: status_order)
    with Suc.IH [OF r(2,3), of co'] r(4) Suc.prems(4,5) k show ?thesis
      by (simp add: r(1) route_def)
  qed
qed

lemma claim_queued:
  assumes "findById mg_id i tbl = Some m" "migration_claimable token staleBefore m"
  shows "\<exists>m1 t. claimMigration now staleBefore i token tbl = (Some m1, t) \<and>
    findById mg_id i t = Some m1 \<and> mg_id m1 = i \<and> mg_executionToken m1 = Some token \<and>
    mg_status m1 = mg_status m \<and> mg_cancelRequested m1 = mg_cancelRequested m \<and> route m1 = route m \<and>
    mg_sourceRetained m1 = mg_sourceRetained m \<and> mg_deploymentId m1 = mg_deploymentId m"
  using assms findById_key [OF assms(1)]
  by (simp add: claimMigration_def update_where_hit findById_map route_def)

lemma claim_migration_result:
  assumes "claimMigration now staleBefore i k tbl = (Some m1, t)"
  shows "\<exists>m. findById mg_id i tbl = Some m \<and> route m1 = route m \<and> mg_id m1 = i \<and>
    findById mg_id i t = Some m1"
proof -
  from assms have f: "fst (claimMigration now staleBefore i k tbl) = Some m1"
    and t: "t = snd (claimMigration now staleBefore i k tbl)" by simp_all
  from mlease.claim_owns [OF f] t have "findById mg_id i t = Some m1" by simp
  moreover from f obtain m where "findById mg_id i tbl = Some m" "route m1 = route m"
    by (auto simp: claimMigration_def update_where_Some route_def)
  ultimately show ?thesis using findById_key by fast
qed

section \<open>Cancelled runs\<close>

lemma fail_hit:
  assumes "findById mg_id (mg_id m) (sy_migrations s) = Some x" "migration_owned token x"
  shows "\<exists>m' s'. fail s m token c msg = (m', s') \<and> mg_status m' = MFailed \<and> mg_errorCode m' = Some c \<and>
    findById mg_id (mg_id m) (sy_migrations s') = Some m' \<and> sy_resources s' = sy_resources s"
  using assms
  by (simp add: fail_def updateOwned_hit no_update_def findById_map update_deployment_row_def)
    (simp add: patch_migration_def with_heartbeat_def)

lemma cancel_early:
  assumes "succeeds port" "held token s m" "mg_cancelRequested m" "mg_status m < MCuttingOver"
  shows "\<exists>m' s'. execute_round port resource token m co s = Returned m' s' \<and> mg_status m' = MCancelled \<and>
    findById mg_id (mg_id m) (sy_migrations s') = Some m' \<and> sy_resources s' = sy_resources s"
proof -
  from assms(4) have a: "MCancelled \<in> set (ALLOWED_TRANSITIONS (mg_status m))" "mg_status m \<notin> set past_cutover"
    by (cases "mg_status m"; simp add: status_order past_cutover_def)+
  from transition_hit [OF assms(2) a(1), of "mg_progress m"] obtain t where
    t: "transitionOwned s m token MCancelled (mg_progress m) None =
        (Inr (advance (sy_clock s) MCancelled (mg_progress m) m), s\<lparr>sy_migrations := t\<rparr>)"
      "findById mg_id (mg_id m) t = Some (advance (sy_clock s) MCancelled (mg_progress m) m)" by blast
  with assms(2,3) a(2) succeeds_calls(6) [OF assms(1)] show ?thesis
    by (simp add: execute_round_def Let_def cancel_def update_deployment_row_def)
qed

lemma cancel_late:
  assumes "succeeds port" "held token s m" "mg_status m \<in> set past_cutover"
  shows "\<exists>m' s'. handle_error port resource token (StepError c msg) m True s = (m', s') \<and>
    mg_status m' = MFailed \<and> mg_errorCode m' = Some c \<and>
    findById mg_id (mg_id m) (sy_migrations s') = Some m' \<and>
    sy_resources s' = relocate (rs_id resource) (mg_sourceServerId m) (sy_resources s)"
proof -
  obtain r s1 where t: "transitionOwned s m token MRollingBack (mg_progress m) None = (r, s1)" by force
  have "\<exists>x. findById mg_id (mg_id m) (sy_migrations s1) = Some x \<and> migration_owned token x"
  proof (cases r)
    case (Inl e)
    with transitionOwned_error [of s m token MRollingBack "mg_progress m" None e s1] t assms(2)
    show ?thesis by (auto simp: held_def)
  next
    case (Inr m1)
    with t have a: "MRollingBack \<in> set (ALLOWED_TRANSITIONS (mg_status m))"
      using transitionOwned_result by blast
    from transition_hit [OF assms(2) a, of "mg_progress m"] t assms(2) show ?thesis
      by (auto simp: held_def migration_owned_def TERMINAL_WORKLOAD_MIGRATION_STATUSES_def)
  qed
  then obtain x where x: "findById mg_id (mg_id m) (sy_migrations s1) = Some x" "migration_owned token x" by blast
  let ?s2 = "s1\<lparr>sy_resources := relocate (rs_id resource) (mg_sourceServerId m) (sy_resources s1)\<rparr>"
  from x have "findById mg_id (mg_id m) (sy_migrations ?s2) = Some x" by simp
  from fail_hit [OF this x(2), of c msg] obtain m' s' where
    f: "fail ?s2 m token c msg = (m', s')" "mg_status m' = MFailed" "mg_errorCode m' = Some c"
      "findById mg_id (mg_id m) (sy_migrations s') = Some m'" "sy_resources s' = sy_resources ?s2" by blast
  moreover have "sy_resources s1 = sy_resources s" using transition_tame [OF t] by (simp add: tame_step_def)
  moreover have "handle_error port resource token (StepError c msg) m True s = (m', s')"
    using t f(1) by (simp add: handle_error_def succeeds_calls [OF assms(1)] place_resource_eq)
  ultimately show ?thesis by auto
qed

section \<open>Histories\<close>

text \<open>
  One write of the executor, of an operator's use case or of a port's callback. The caller's
  version \<open>m\<close> of the row may be stale.
\<close>

inductive sys_step :: "system \<Rightarrow> system \<Rightarrow> bool" where
  create: "cm_status input = None \<or> cm_status input = Some MQueued \<Longrightarrow>
    sys_step s (s\<lparr>sy_migrations := snd (createMigration now input (sy_migrations s))\<rparr>)"
| claim: "sys_step s (s\<lparr>sy_migrations := snd (claimMigration now staleBefore i k (sy_migrations s))\<rparr>)"
| progress: "sys_step s (snd (onProgress m k n cp s))"
| transition: "status \<noteq> MCompleted \<Longrightarrow> sys_step s (snd (transitionOwned s m k status n cp))"
| fail: "sys_step s (snd (fail s m k c msg))"
| cancel: "sys_step s (snd (cancelWorkloadMigration s org i))"
| rollback: "sys_step s (snd (rollbackWorkloadMigration s uuid org i))"
| confirm_progress: "sys_step s (snd (confirm_onProgress m n cp s))"
| cleanup: "sys_step s (snd (record_cleanup s org i))"
| other: "sy_migrations s' = sy_migrations s \<Longrightarrow> sys_step s s'"

inductive_cases sys_stepE: "sys_step s s'"

definition terminal :: "migration \<Rightarrow> bool" where
  "terminal m \<longleftrightarrow> mg_status m \<in> set TERMINAL_WORKLOAD_MIGRATION_STATUSES"

definition source_ok :: "migration \<Rightarrow> bool" where
  "source_ok m \<longleftrightarrow>
     (mg_sourceRetained m \<longleftrightarrow> mg_status m \<noteq> MCompleted) \<and> (mg_cleanupConfirmed m \<longleftrightarrow> mg_status m = MCompleted)"

text \<open>How a row may change in a step.\<close>

definition evolves :: "migration \<Rightarrow> migration \<Rightarrow> bool" where
  "evolves m m' \<longleftrightarrow>
     mg_id m' = mg_id m \<and> route m' = route m \<and> (terminal m \<longrightarrow> mg_status m' = mg_status m) \<and>
     (source_ok m \<longrightarrow> source_ok m')"

lemma evolves_refl [simp]: "evolves m m"
  by (simp add: evolves_def)

lemma evolves_trans: "evolves a b \<Longrightarrow> evolves b c \<Longrightarrow> evolves a c"
  by (auto simp: evolves_def terminal_def)

lemma update_where_evolves:
  assumes "distinct (map mg_id tbl)"
    and "\<And>x. findById mg_id i tbl = Some x \<Longrightarrow> guard x \<Longrightarrow> evolves x (f x)"
  shows "list_all2 evolves tbl (snd (update_where mg_id i guard f tbl))"
proof (cases "findById mg_id i tbl")
  case (Some r)
  have same: "tbl ! j = r" if "j < length tbl" "mg_id (tbl ! j) = i" for j
    using that findById_key [OF Some] assms(1) nth_mem [OF that(1)] by (auto simp: distinct_map inj_on_def)
  have "evolves (tbl ! j) (if mg_id (tbl ! j) = i then f (tbl ! j) else tbl ! j)"
    if "j < length tbl" "guard r" for j
    using same [OF that(1)] assms(2) [OF Some that(2)] by auto
  with Some show ?thesis by (simp add: update_where_def list_all2_conv_all_nth)
qed (simp add: update_where_def list_all2_conv_all_nth)

lemma evolves_all_refl [simp]: "list_all2 evolves tbl tbl"
  by (simp add: list_all2_refl)

lemma updateOwned_evolves:
  assumes "distinct (map mg_id tbl)"
    and "\<And>x. migration_owned k x \<Longrightarrow> evolves x (patch_migration now (with_heartbeat now p) x)"
  shows "list_all2 evolves tbl (snd (updateOwned now i k p tbl))"
proof -
  have "list_all2 evolves tbl (snd (updateOwned_row now i k p tbl))"
    unfolding updateOwned_row_def by (rule update_where_evolves [OF assms])
  then show ?thesis by (auto simp: updateOwned_def split: sum.split prod.split)
qed

lemma updateMigration_evolves:
  assumes "distinct (map mg_id tbl)"
    and "\<And>x. findById mg_id i tbl = Some x \<Longrightarrow> evolves x (patch_migration now p x)"
  shows "list_all2 evolves tbl (snd (updateMigration now i p tbl))"
proof -
  have "list_all2 evolves tbl (snd (updateById mg_id i (patch_migration now p) tbl))"
    unfolding updateById_def by (rule update_where_evolves [OF assms])
  then show ?thesis by (auto simp: updateMigration_def split: sum.split prod.split)
qed

lemma owned_patch_evolves:
  assumes "migration_owned k m" "um_status p \<noteq> Some MCompleted" "um_cleanupConfirmed p = None"
    "um_sourceRetained p = None"
  shows "evolves m (patch_migration now (with_heartbeat now p) m)"
  using assms
  by (cases "um_status p")
    (auto simp: evolves_def terminal_def source_ok_def migration_owned_def with_heartbeat_def
      TERMINAL_WORKLOAD_MIGRATION_STATUSES_def)

lemma quiet_patch_evolves:
  assumes "um_status p = None" "um_cleanupConfirmed p = None" "um_sourceRetained p = None"
  shows "evolves m (patch_migration now p m)"
  using assms by (auto simp: evolves_def terminal_def source_ok_def)

lemma owned_write:
  assumes "updateOwned now i k p tbl = (r, t)" "distinct (map mg_id tbl)"
    "um_status p \<noteq> Some MCompleted" "um_cleanupConfirmed p = None" "um_sourceRetained p = None"
  shows "list_all2 evolves tbl t"
proof -
  have "list_all2 evolves tbl (snd (updateOwned now i k p tbl))"
    by (rule updateOwned_evolves [OF assms(2)]) (rule owned_patch_evolves [OF _ assms(3-5)])
  with assms(1) show ?thesis by simp
qed

lemma plain_write:
  assumes "updateMigration now i p tbl = (r, t)" "distinct (map mg_id tbl)"
    and "\<And>x. findById mg_id i tbl = Some x \<Longrightarrow> evolves x (patch_migration now p x)"
  shows "list_all2 evolves tbl t"
  using updateMigration_evolves [OF assms(2,3)] assms(1) by (metis snd_conv)

lemma migration_row_write:
  assumes "update_migration_row i p missing s = (r, s')" "distinct (map mg_id (sy_migrations s))"
    and "\<And>x. findById mg_id i (sy_migrations s) = Some x \<Longrightarrow> evolves x (patch_migration (sy_clock s) p x)"
  shows "list_all2 evolves (sy_migrations s) (sy_migrations s')"
  using assms(1) plain_write [OF _ assms(2,3)]
  by (auto simp: update_migration_row_def split: sum.splits option.splits prod.splits)

lemma ownedMigration_ok:
  "ownedMigration s org i = Inr m \<longleftrightarrow>
     findById mg_id i (sy_migrations s) = Some m \<and> mg_organizationId m = org"
  by (auto simp: ownedMigration_def split: option.splits)

lemma rollback_evolves:
  assumes "distinct (map mg_id (sy_migrations s))"
  shows "list_all2 evolves (sy_migrations s) (sy_migrations (snd (rollbackWorkloadMigration s uuid org i)))"
proof (cases "ownedMigration s org i")
  case (Inr m)
  then have m: "findById mg_id i (sy_migrations s) = Some m" "mg_id m = i"
    by (auto simp: ownedMigration_ok dest: findById_key)
  let ?p = "no_update\<lparr>um_status := Some MRollingBack, um_executionToken := Some None,
                       um_heartbeatAt := Some None\<rparr>"
  have ev: "evolves m (patch_migration now ?p m)" if "MRollingBack \<in> set (ALLOWED_TRANSITIONS (mg_status m))" for now
    using that by (cases "mg_status m")
      (auto simp: evolves_def terminal_def source_ok_def no_update_def TERMINAL_WORKLOAD_MIGRATION_STATUSES_def)
  obtain r s1 where u: "update_migration_row i ?p ''Migration could not enter rollback'' s = (r, s1)" by force
  show ?thesis
  proof (cases "MRollingBack \<in> set (ALLOWED_TRANSITIONS (mg_status m))")
    case True
    have "list_all2 evolves (sy_migrations s) (sy_migrations s1)"
      by (rule migration_row_write [OF u assms]) (use m ev [OF True] in simp)
    with Inr m u show ?thesis
      by (auto simp: rollbackWorkloadMigration_def split: sum.split prod.split)
  next
    case False
    with Inr show ?thesis
      by (auto simp: rollbackWorkloadMigration_def assertWorkloadMigrationTransition_def throw_if_def)
  qed
qed (simp add: rollbackWorkloadMigration_def)

lemma cleanup_evolves:
  assumes "distinct (map mg_id (sy_migrations s))"
  shows "list_all2 evolves (sy_migrations s) (sy_migrations (snd (record_cleanup s org i)))"
proof (cases "ownedMigration s org i")
  case (Inr m)
  then have m: "findById mg_id i (sy_migrations s) = Some m" "mg_id m = i"
    by (auto simp: ownedMigration_ok dest: findById_key)
  have ev: "evolves m (patch_migration now (no_update\<lparr>um_status := Some MCompleted, um_progress := Some 100,
      um_cleanupConfirmed := Some True, um_sourceRetained := Some False,
      um_completedAt := Some (Some t), um_heartbeatAt := Some None, um_executionToken := Some None\<rparr>) m)"
    if "MCompleted \<in> set (ALLOWED_TRANSITIONS (mg_status m))" for now t
    using that by (cases "mg_status m")
      (auto simp: evolves_def terminal_def source_ok_def no_update_def TERMINAL_WORKLOAD_MIGRATION_STATUSES_def)
  show ?thesis
    using Inr m ev migration_row_write [OF prod.collapse [symmetric] assms, of i]
    by (auto simp: record_cleanup_def assertWorkloadMigrationTransition_def throw_if_def)
qed (simp add: record_cleanup_def)

lemma step_evolves:
  assumes "sys_step s s'" "distinct (map mg_id (sy_migrations s))"
  shows "(\<exists>now input. (cm_status input = None \<or> cm_status input = Some MQueued) \<and>
      sy_migrations s' = snd (createMigration now input (sy_migrations s))) \<or>
    list_all2 evolves (sy_migrations s) (sy_migrations s')"
  using assms(1)
proof cases
  case (claim now staleBefore i k)
  have "list_all2 evolves (sy_migrations s) (snd (claimMigration now staleBefore i k (sy_migrations s)))"
    unfolding claimMigration_def
    by (rule update_where_evolves [OF assms(2)])
      (simp add: evolves_def route_def source_ok_def)
  with claim show ?thesis by simp
next
  case (progress m k n cp)
  then show ?thesis
    by (auto simp: onProgress_def no_update_def split: sum.split option.split prod.split
        intro!: owned_write [OF _ assms(2)])
next
  case (transition status m k n cp)
  then show ?thesis
    by (auto simp: transitionOwned_def no_update_def split: sum.split option.split prod.split
        intro!: owned_write [OF _ assms(2)])
next
  case (fail m k c msg)
  then show ?thesis
    by (auto simp: fail_def no_update_def update_deployment_row_def split: prod.split
        intro!: owned_write [OF _ assms(2)])
next
  case (confirm_progress m n cp)
  then show ?thesis
    by (auto simp: confirm_onProgress_def no_update_def split: sum.split prod.split
        intro!: plain_write [OF _ assms(2)] quiet_patch_evolves)
next
  case (cancel org i)
  then show ?thesis
    by (auto simp: cancelWorkloadMigration_def no_update_def split: sum.split
        intro!: migration_row_write [OF prod.collapse [symmetric] assms(2)] quiet_patch_evolves)
next
  case (rollback uuid org i)
  with rollback_evolves [OF assms(2)] show ?thesis by simp
next
  case (cleanup org i)
  with cleanup_evolves [OF assms(2)] show ?thesis by simp
qed auto

definition history_ok :: "migration list \<Rightarrow> bool" where
  "history_ok tbl \<longleftrightarrow>
     distinct (map mg_id tbl) \<and> (\<forall>m \<in> set tbl. source_ok m) \<and>
     (\<forall>m1 \<in> set tbl. \<forall>m2 \<in> set tbl. \<not> terminal m1 \<longrightarrow> \<not> terminal m2 \<longrightarrow>
        mg_resourceId m1 = mg_resourceId m2 \<longrightarrow> mg_id m1 = mg_id m2)"

lemma history_okD:
  assumes "history_ok tbl"
  shows "m \<in> set tbl \<Longrightarrow> source_ok m"
    and "m1 \<in> set tbl \<Longrightarrow> m2 \<in> set tbl \<Longrightarrow> \<not> terminal m1 \<Longrightarrow> \<not> terminal m2 \<Longrightarrow>
      mg_resourceId m1 = mg_resourceId m2 \<Longrightarrow> mg_id m1 = mg_id m2"
  using assms unfolding history_ok_def by blast+

lemma history_ok_Nil [simp]: "history_ok []"
  by (simp add: history_ok_def)

lemma evolves_row:
  assumes "list_all2 evolves tbl tbl'" "m' \<in> set tbl'"
  shows "\<exists>m \<in> set tbl. evolves m m'"
  using assms by (induction rule: list_all2_induct) auto

lemma evolves_forward:
  assumes "list_all2 evolves tbl tbl'" "m \<in> set tbl"
  shows "\<exists>m' \<in> set tbl'. evolves m m'"
  using assms by (induction rule: list_all2_induct) auto

lemma evolves_keys: "list_all2 evolves tbl tbl' \<Longrightarrow> map mg_id tbl' = map mg_id tbl"
  by (auto simp: list_all2_conv_all_nth evolves_def intro!: nth_equalityI)

lemma evolves_history_ok:
  assumes "history_ok tbl" "list_all2 evolves tbl tbl'"
  shows "history_ok tbl'"
proof -
  have old: "\<exists>m \<in> set tbl. mg_id m' = mg_id m \<and> mg_resourceId m' = mg_resourceId m \<and>
      (terminal m \<longrightarrow> terminal m') \<and> source_ok m'" if "m' \<in> set tbl'" for m'
    using evolves_row [OF assms(2) that] assms(1)
    by (auto simp: history_ok_def evolves_def terminal_def route_def)
  show ?thesis
    using assms(1) evolves_keys [OF assms(2)] old unfolding history_ok_def by metis
qed

lemma createMigration_cases:
  "snd (createMigration now input tbl) = tbl \<or>
   (\<exists>m. snd (createMigration now input tbl) = tbl @ [m] \<and> mg_id m \<notin> mg_id ` set tbl \<and>
     (cm_status input = None \<or> cm_status input = Some MQueued \<longrightarrow> mg_status m = MQueued) \<and>
     mg_sourceRetained m \<and> \<not> mg_cleanupConfirmed m \<and>
     (\<not> terminal m \<longrightarrow> (\<forall>r \<in> set tbl. mg_resourceId r = mg_resourceId m \<longrightarrow> terminal r)))"
  by (auto simp: createMigration_def Let_def terminal_def list_ex_iff split: sum.split option.splits)

lemma history_ok_append:
  assumes "history_ok tbl" "mg_id m \<notin> mg_id ` set tbl" "source_ok m"
    and "\<And>r. r \<in> set tbl \<Longrightarrow> mg_resourceId r = mg_resourceId m \<Longrightarrow> terminal r"
  shows "history_ok (tbl @ [m])"
proof -
  have "distinct (map mg_id (tbl @ [m]))" "\<forall>x \<in> set (tbl @ [m]). source_ok x"
    using assms(1-3) by (auto simp: history_ok_def)
  moreover have "mg_id a = mg_id b"
    if "a \<in> set (tbl @ [m])" "b \<in> set (tbl @ [m])" "\<not> terminal a" "\<not> terminal b"
      "mg_resourceId a = mg_resourceId b" for a b
    using that assms(1,4) unfolding history_ok_def by (metis UnE set_append singletonD list.set(1) list.simps(15))
  ultimately show ?thesis unfolding history_ok_def by blast
qed

lemma createMigration_history_ok:
  assumes "history_ok tbl" "cm_status input = None \<or> cm_status input = Some MQueued"
  shows "history_ok (snd (createMigration now input tbl))"
proof -
  consider "snd (createMigration now input tbl) = tbl"
    | m where "snd (createMigration now input tbl) = tbl @ [m]" "mg_id m \<notin> mg_id ` set tbl"
      "mg_status m = MQueued" "mg_sourceRetained m" "\<not> mg_cleanupConfirmed m"
      "\<not> terminal m \<longrightarrow> (\<forall>r \<in> set tbl. mg_resourceId r = mg_resourceId m \<longrightarrow> terminal r)"
    using createMigration_cases [of now input tbl] assms(2) by blast
  then show ?thesis
  proof cases
    case (2 m)
    then have "\<not> terminal m" "source_ok m"
      by (simp_all add: terminal_def TERMINAL_WORKLOAD_MIGRATION_STATUSES_def source_ok_def)
    with 2 assms(1) show ?thesis by (simp add: history_ok_append)
  qed (use assms(1) in simp)
qed

lemma steps_history_ok:
  assumes "sys_step\<^sup>*\<^sup>* s s'" "history_ok (sy_migrations s)"
  shows "history_ok (sy_migrations s')"
  using assms
proof (induction rule: rtranclp_induct)
  case (step y z)
  then have ok: "history_ok (sy_migrations y)" by blast
  then have "distinct (map mg_id (sy_migrations y))" by (simp add: history_ok_def)
  from step_evolves [OF step.hyps(2) this] ok show ?case
    by (auto intro: evolves_history_ok createMigration_history_ok)
qed

lemma steps_freeze_terminal:
  assumes "sys_step\<^sup>*\<^sup>* s s'" "history_ok (sy_migrations s)" "m \<in> set (sy_migrations s)" "terminal m"
  shows "\<exists>m' \<in> set (sy_migrations s'). mg_id m' = mg_id m \<and> mg_status m' = mg_status m"
  using assms(1)
proof (induction rule: rtranclp_induct)
  case base
  with assms(3) show ?case by blast
next
  case (step y z)
  then obtain m1 where m1: "m1 \<in> set (sy_migrations y)" "mg_id m1 = mg_id m" "mg_status m1 = mg_status m" by blast
  have "distinct (map mg_id (sy_migrations y))"
    using steps_history_ok [OF step.hyps(1) assms(2)] by (simp add: history_ok_def)
  from step_evolves [OF step.hyps(2) this] show ?case
  proof
    assume "\<exists>now input. (cm_status input = None \<or> cm_status input = Some MQueued) \<and>
      sy_migrations z = snd (createMigration now input (sy_migrations y))"
    then obtain now input where "sy_migrations z = snd (createMigration now input (sy_migrations y))" by blast
    with createMigration_cases [of now input "sy_migrations y"] m1 show ?thesis by auto
  next
    assume "list_all2 evolves (sy_migrations y) (sy_migrations z)"
    with m1 obtain m2 where "m2 \<in> set (sy_migrations z)" "evolves m1 m2"
      by (blast dest: evolves_forward)
    with m1 assms(4) show ?thesis by (auto simp: evolves_def terminal_def)
  qed
qed

end
