(* ===== verification/Migration_Properties.thy ===== *)
theory Migration_Properties
  imports Migration_Guarantees
begin

text \<open>
  The properties of workload migrations, over the lemmas of \<open>Migration_Guarantees\<close>, with
  sample data for their witnesses.
\<close>

section \<open>Sample data\<close>

definition sample_migration :: migration where
  "sample_migration =
     \<lparr>mg_id = ''mig'', mg_organizationId = ''org'', mg_resourceId = ''r1'', mg_deploymentId = ''d1'',
      mg_sourceServerId = ''a'', mg_targetServerId = ''b'', mg_status = MQueued, mg_progress = 0,
      mg_executionToken = None, mg_attempt = 0, mg_cancelRequested = False,
      mg_cleanupConfirmed = False, mg_sourceRetained = True, mg_checkpoint = [], mg_errorCode = None,
      mg_errorMessage = None, mg_heartbeatAt = None, mg_startedAt = None, mg_completedAt = None,
      mg_createdAt = 0, mg_updatedAt = 0\<rparr>"

definition sample_resource :: resource_row where
  "sample_resource = \<lparr>rs_id = ''r1'', rs_environmentId = ''e1'', rs_serverId = Some ''a''\<rparr>"

definition system_with :: "migration \<Rightarrow> system" where
  "system_with m =
     \<lparr>sy_migrations = [m], sy_resources = [sample_resource], sy_deployments = [sample_deployment],
      sy_outbox = [], sy_environments = [], sy_projects = [], sy_clock = 1000000\<rparr>"

definition call_ok :: port_call where
  "call_ok ctx s = (Inr (), s)"

definition good_port :: migration_port where
  "good_port =
     \<lparr>pt_preflight = (\<lambda>ctx s. (Inr \<lparr>pr_checks = [], pr_checkpoint = None\<rparr>, s)), pt_transfer = call_ok,
      pt_deployShadow = call_ok, pt_validateShadow = call_ok, pt_cutover = call_ok,
      pt_rollback = call_ok, pt_cleanupSource = call_ok, pt_cleanupShadow = call_ok\<rparr>"

definition sample_create :: create_migration where
  "sample_create =
     \<lparr>cm_id = ''mig'', cm_organizationId = ''org'', cm_resourceId = ''r1'', cm_deploymentId = ''d1'',
      cm_sourceServerId = ''a'', cm_targetServerId = ''b'', cm_status = None, cm_progress = None,
      cm_checkpoint = None\<rparr>"

text \<open>
  A port whose cutover takes longer than the lease: meanwhile a second worker claims the
  migration and completes the cutover.
\<close>

definition slow_cutover_port :: migration_port where
  "slow_cutover_port = good_port\<lparr>pt_cutover := (\<lambda>ctx s.
     (Inr (), case execute 6 good_port ''mig'' ''second'' (s\<lparr>sy_clock := sy_clock s + 400000\<rparr>) of
                Some (_, s') \<Rightarrow> s' | None \<Rightarrow> s))\<rparr>"

definition outcome_of ::
  "((string + migration) \<times> system) option \<Rightarrow>
   ((workload_migration_status \<times> string option) list \<times> string option list \<times> deployment_status list) option" where
  "outcome_of r = map_option (\<lambda>(_, s).
     (map (\<lambda>m. (mg_status m, mg_executionToken m)) (sy_migrations s),
      map rs_serverId (sy_resources s), map dep_status (sy_deployments s))) r"

lemma good_port_succeeds: "succeeds good_port"
  by (simp add: succeeds_def good_port_def call_ok_def)

lemma good_port_tame: "tame_port good_port"
  by (simp add: tame_port_def good_port_def call_ok_def)

lemma sample_found:
  "mg_id m = ''mig'' \<Longrightarrow> findById mg_id ''mig'' (sy_migrations (system_with m)) = Some m"
  "findById rs_id ''r1'' (sy_resources (system_with m)) = Some sample_resource"
  by (simp_all add: system_with_def findById_def sample_resource_def)

section \<open>Properties\<close>

text \<open>
  C28. The executor always ends: whatever the ports do and whatever others write meanwhile,
  six rounds of its loop are enough, and more fuel changes nothing.
\<close>

theorem migration_execute_terminates:
  assumes "6 \<le> fuel"
  shows "\<exists>r s'. execute fuel port i token s = Some (r, s') \<and> execute 6 port i token s = Some (r, s')"
proof -
  have loop: "\<exists>r. execute_loop 6 port resource token m co s1 = Some r \<and>
      execute_loop fuel port resource token m co s1 = Some r \<and> (\<forall>a b c. r \<noteq> Continue a b c)"
    for resource m co s1
    using execute_loop_terminates [of 6 s1 m port resource token co] assms
      execute_loop_more_fuel [of 6 port resource token m co s1 _ fuel] by auto
  show ?thesis
  proof (cases "claimMigration (sy_clock s) (sy_clock s - EXECUTION_LEASE_MS) i token (sy_migrations s)")
    case (Pair c t)
    show ?thesis
    proof (cases c)
      case None
      with Pair show ?thesis by (auto simp: execute_def split: option.split)
    next
      case (Some m)
      show ?thesis
      proof (cases "findById rs_id (mg_resourceId m) (sy_resources s)")
        case None
        with Pair Some show ?thesis by (auto simp: execute_def split: prod.split)
      next
        case res: (Some resource)
        from loop [of resource m "mg_status m \<in> set past_cutover" "s\<lparr>sy_migrations := t\<rparr>"] obtain r where
          "execute_loop 6 port resource token m (mg_status m \<in> set past_cutover) (s\<lparr>sy_migrations := t\<rparr>) = Some r"
          "execute_loop fuel port resource token m (mg_status m \<in> set past_cutover) (s\<lparr>sy_migrations := t\<rparr>) = Some r"
          "\<forall>a b c. r \<noteq> Continue a b c" by blast
        with Pair Some res show ?thesis by (cases r) (auto simp: execute_def split: prod.split)
      qed
    qed
  qed
qed

theorem migration_execute_terminates_witness:
  "\<exists>r s'. execute 7 good_port ''mig'' ''w'' (system_with sample_migration) = Some (r, s')"
  using migration_execute_terminates [of 7 good_port "''mig''" "''w''" "system_with sample_migration"] by auto

text \<open>
  A successful run does what it says: when every port call succeeds, a queued migration
  ends awaiting confirmation at 95 percent with its source retained, its resource runs on the
  target server and its deployment is marked successful.
\<close>

theorem migration_success:
  assumes "succeeds port" "6 \<le> fuel"
    and "findById mg_id i (sy_migrations s) = Some m" "mg_status m = MQueued" "\<not> mg_cancelRequested m"
    and "findById rs_id (mg_resourceId m) (sy_resources s) = Some r"
    and "findById dep_id (mg_deploymentId m) (sy_deployments s) = Some d"
  shows "\<exists>m' s' d'. execute fuel port i token s = Some (Inr m', s') \<and>
    mg_status m' = MAwaitingConfirmation \<and> mg_progress m' = 95 \<and>
    mg_sourceRetained m' = mg_sourceRetained m \<and> findById mg_id i (sy_migrations s') = Some m' \<and>
    sy_resources s' = relocate (mg_resourceId m) (mg_targetServerId m) (sy_resources s) \<and>
    findById dep_id (mg_deploymentId m) (sy_deployments s') = Some d' \<and> dep_status d' = DSuccess"
proof -
  have cl: "migration_claimable token (sy_clock s - EXECUTION_LEASE_MS) m"
    using assms(4) by (simp add: migration_claimable_def ACTIVE_STATUSES_def)
  from claim_queued [OF assms(3) cl, of "sy_clock s"] obtain m1 t where
    c: "claimMigration (sy_clock s) (sy_clock s - EXECUTION_LEASE_MS) i token (sy_migrations s) = (Some m1, t)"
      "findById mg_id i t = Some m1" "mg_id m1 = i" "mg_executionToken m1 = Some token"
      "mg_status m1 = mg_status m" "mg_cancelRequested m1 = mg_cancelRequested m" "route m1 = route m"
      "mg_sourceRetained m1 = mg_sourceRetained m" "mg_deploymentId m1 = mg_deploymentId m" by blast
  let ?s1 = "s\<lparr>sy_migrations := t\<rparr>"
  have held: "held token ?s1 m1"
    using c assms(4) by (simp add: held_def migration_owned_def TERMINAL_WORKLOAD_MIGRATION_STATUSES_def)
  have rid: "rs_id r = mg_resourceId m" using findById_key [OF assms(6)] by simp
  have "\<not> mg_cancelRequested m1" "mg_status m1 \<le> MCuttingOver" "5 < fuel + status_rank (mg_status m1)"
    "findById rs_id (rs_id r) (sy_resources ?s1) = Some r"
    using c assms rid by (simp_all add: status_order)
  from loop_succeeds [OF assms(1) held this(1,2,4,3), of False] obtain m' s' where
    l: "execute_loop fuel port r token m1 False ?s1 = Some (Returned m' s')"
    and p: "mg_status m' = MAwaitingConfirmation" "mg_progress m' = 95"
      "mg_sourceRetained m' = mg_sourceRetained m1" "findById mg_id (mg_id m1) (sy_migrations s') = Some m'"
      "sy_resources s' = relocate (rs_id r) (mg_targetServerId m1) (sy_resources ?s1)"
      "sy_deployments s' =
        snd (updateDeployment (sy_clock ?s1) (mg_deploymentId m1) cutover_patch (sy_deployments ?s1))" by blast
  have "execute fuel port i token s = Some (Inr m', s')"
    using c(1,5,7) assms(4,6) l by (simp add: execute_def route_def past_cutover_def)
  moreover have "\<exists>d'. findById dep_id (mg_deploymentId m) (sy_deployments s') = Some d' \<and> dep_status d' = DSuccess"
    using p(6) c(9) assms(7)
    by (simp add: updateDeployment_def updateById_def update_where_hit findById_map cutover_patch_def)
  ultimately show ?thesis using p c rid by (auto simp: route_def)
qed

theorem migration_success_witness:
  "\<exists>m' s'. execute 6 good_port ''mig'' ''w'' (system_with sample_migration) = Some (Inr m', s') \<and>
     mg_status m' = MAwaitingConfirmation \<and> map rs_serverId (sy_resources s') = [Some ''b'']"
proof -
  let ?s = "system_with sample_migration"
  have "findById mg_id ''mig'' (sy_migrations ?s) = Some sample_migration" "mg_status sample_migration = MQueued"
    "\<not> mg_cancelRequested sample_migration"
    "findById rs_id (mg_resourceId sample_migration) (sy_resources ?s) = Some sample_resource"
    "findById dep_id (mg_deploymentId sample_migration) (sy_deployments ?s) = Some sample_deployment"
    by (simp_all add: system_with_def findById_def sample_migration_def sample_resource_def sample_deployment_def)
  from migration_success [OF good_port_succeeds order_refl this, of "''w''"] show ?thesis
    by (auto simp: relocate_def system_with_def sample_migration_def sample_resource_def)
qed

text \<open>
  C29. A resource runs where the outcome says: if ports neither move resources nor rewrite
  the identity of migrations, then after any execution, failed ones included, at most the
  migrated resource was moved; it is on the target only if the migration awaits
  confirmation, and otherwise where it was or back on the source.
\<close>

theorem migration_placement:
  assumes "tame_port port" "execute fuel port i token s = Some (Inr m', s')"
  shows "\<exists>m. findById mg_id i (sy_migrations s) = Some m \<and>
    (sy_resources s' = sy_resources s \<or>
     sy_resources s' = relocate (mg_resourceId m) (mg_sourceServerId m) (sy_resources s) \<or>
     sy_resources s' = relocate (mg_resourceId m) (mg_targetServerId m) (sy_resources s) \<and>
       mg_status m' = MAwaitingConfirmation)"
proof -
  obtain c t where c: "claimMigration (sy_clock s) (sy_clock s - EXECUTION_LEASE_MS) i token (sy_migrations s) = (c, t)"
    by force
  show ?thesis
  proof (cases c)
    case None
    with c assms(2) show ?thesis by (auto simp: execute_def split: option.splits if_splits)
  next
    case (Some m1)
    with c obtain m where m: "findById mg_id i (sy_migrations s) = Some m" "route m1 = route m" "mg_id m1 = i"
      and f: "findById mg_id i t = Some m1"
      by (blast dest: claim_migration_result)
    let ?s1 = "s\<lparr>sy_migrations := t\<rparr>"
    have "settled_at (route m) (sy_resources s) m' s'"
    proof (cases "findById rs_id (mg_resourceId m1) (sy_resources s)")
      case None
      with c Some assms(2) fail_tame show ?thesis
        by (fastforce simp: execute_def settled_at_def tame_step_def split: prod.splits)
    next
      case res: (Some r)
      from findById_key [OF res] m(2) have rt: "route m = (rs_id r, mg_sourceServerId m, mg_targetServerId m)"
        by (simp add: route_def)
      have on: "on_route (rs_id r, mg_sourceServerId m, mg_targetServerId m) i (sy_resources s) ?s1 m1"
        using m f rt by (simp add: on_route_def)
      from c Some res assms(2) obtain x where
        l: "execute_loop fuel port r token m1 (mg_status m1 \<in> set past_cutover) ?s1 = Some x"
        and x: "x = Returned m' s' \<or>
          (\<exists>e m2 co s2. x = Threw e m2 co s2 \<and> handle_error port r token e m2 co s2 = (m', s'))"
        by (auto simp: execute_def split: option.splits round_result.splits prod.splits)
      from execute_loop_ok [OF assms(1) on l] x handle_error_ok [OF assms(1)] show ?thesis
        unfolding rt by auto
    qed
    with m(1) show ?thesis by (auto simp: settled_at_def route_def)
  qed
qed

theorem migration_placement_witness:
  "\<exists>m' s'. execute 6 good_port ''mig'' ''w'' (system_with sample_migration) = Some (Inr m', s') \<and>
     length (sy_resources s') = 1"
proof -
  let ?s = "system_with sample_migration"
  have "(\<exists>m' s'. execute 6 good_port ''mig'' ''w'' ?s = Some (Inr m', s'))"
    by (rule exI, rule exI, code_simp)
  then obtain m' s' where e: "execute 6 good_port ''mig'' ''w'' ?s = Some (Inr m', s')" by blast
  from migration_placement [OF good_port_tame e] have "length (sy_resources s') = 1"
    by (auto simp: relocate_def system_with_def)
  with e show ?thesis by blast
qed

text \<open>
  A requested cancellation is carried out by the next execution when the ports succeed:
  before cutover the migration ends cancelled and no resource moves; from cutover on the
  resource goes back to the source server and the migration ends failed with the code
  \<open>CANCEL_REQUIRES_ROLLBACK\<close>.
\<close>

theorem migration_cancel_honoured:
  assumes "succeeds port" "6 \<le> fuel"
    and "findById mg_id i (sy_migrations s) = Some m" "mg_cancelRequested m"
    and "migration_claimable token (sy_clock s - EXECUTION_LEASE_MS) m"
    and "findById rs_id (mg_resourceId m) (sy_resources s) = Some r"
  shows "\<exists>m' s'. execute fuel port i token s = Some (Inr m', s') \<and>
    findById mg_id i (sy_migrations s') = Some m' \<and>
    (if mg_status m \<in> set past_cutover
     then mg_status m' = MFailed \<and> mg_errorCode m' = Some ''CANCEL_REQUIRES_ROLLBACK'' \<and>
       sy_resources s' = relocate (mg_resourceId m) (mg_sourceServerId m) (sy_resources s)
     else mg_status m' = MCancelled \<and> sy_resources s' = sy_resources s)"
proof -
  from claim_queued [OF assms(3,5), of "sy_clock s"] obtain m1 t where
    c: "claimMigration (sy_clock s) (sy_clock s - EXECUTION_LEASE_MS) i token (sy_migrations s) = (Some m1, t)"
      "findById mg_id i t = Some m1" "mg_id m1 = i" "mg_executionToken m1 = Some token"
      "mg_status m1 = mg_status m" "mg_cancelRequested m1 = mg_cancelRequested m" "route m1 = route m" by blast
  let ?s1 = "s\<lparr>sy_migrations := t\<rparr>"
  have act: "mg_status m \<in> set ACTIVE_STATUSES" using assms(5) by (simp add: migration_claimable_def)
  then have held: "held token ?s1 m1"
    using c by (auto simp: held_def migration_owned_def ACTIVE_STATUSES_def TERMINAL_WORKLOAD_MIGRATION_STATUSES_def)
  from assms(2) obtain n where n: "fuel = Suc n" by (cases fuel) auto
  have rid: "rs_id r = mg_resourceId m" using findById_key [OF assms(6)] by simp
  show ?thesis
  proof (cases "mg_status m \<in> set past_cutover")
    case False
    with act have "mg_status m1 < MCuttingOver"
      using c(5) by (auto simp: ACTIVE_STATUSES_def past_cutover_def status_order)
    from cancel_early [OF assms(1) held _ this, of r False] c assms(4) False n assms(6) show ?thesis
      by (auto simp: execute_def route_def)
  next
    case True
    let ?e = "StepError ''CANCEL_REQUIRES_ROLLBACK''
      ''Migration has reached cutover and must be rolled back explicitly''"
    have "execute_round port r token m1 True ?s1 = Threw ?e m1 True ?s1"
      using held True c(5,6) assms(4) by (simp add: execute_round_def Let_def cancel_def)
    moreover from cancel_late [OF assms(1) held, of r "''CANCEL_REQUIRES_ROLLBACK''"
        "''Migration has reached cutover and must be rolled back explicitly''"] True c(3,5)
    obtain m' s' where "handle_error port r token ?e m1 True ?s1 = (m', s')"
      "mg_status m' = MFailed" "mg_errorCode m' = Some ''CANCEL_REQUIRES_ROLLBACK''"
      "findById mg_id i (sy_migrations s') = Some m'"
      "sy_resources s' = relocate (rs_id r) (mg_sourceServerId m1) (sy_resources ?s1)" by auto
    ultimately show ?thesis using c True n assms(6) rid by (auto simp: execute_def route_def)
  qed
qed

theorem migration_cancel_honoured_witness:
  "\<exists>m' s'. execute 6 good_port ''mig'' ''w''
     (system_with (sample_migration\<lparr>mg_cancelRequested := True\<rparr>)) = Some (Inr m', s') \<and>
     mg_status m' = MCancelled"
proof -
  let ?m = "sample_migration\<lparr>mg_cancelRequested := True\<rparr>"
  have "findById mg_id ''mig'' (sy_migrations (system_with ?m)) = Some ?m" "mg_cancelRequested ?m"
    "migration_claimable ''w'' (sy_clock (system_with ?m) - EXECUTION_LEASE_MS) ?m"
    "findById rs_id (mg_resourceId ?m) (sy_resources (system_with ?m)) = Some sample_resource"
    by (simp_all add: system_with_def findById_def sample_migration_def sample_resource_def
        migration_claimable_def ACTIVE_STATUSES_def)
  from migration_cancel_honoured [OF good_port_succeeds order_refl this] show ?thesis
    by (auto simp: past_cutover_def sample_migration_def)
qed



text \<open>
  A worker that lost its lease during cutover still undoes its successor's work: the
  owner check guards the migration row only. After a second worker finished the cutover, the
  first one runs the rollback, puts the resource back on the source server and marks the
  deployment failed, while the migration stays awaiting confirmation under the second
  worker's token.
\<close>

theorem migration_lost_lease_reverts_successor:
  "outcome_of (execute 6 good_port ''mig'' ''first'' (system_with sample_migration)) =
     Some ([(MAwaitingConfirmation, Some ''first'')], [Some ''b''], [DSuccess]) \<and>
   outcome_of (execute 6 slow_cutover_port ''mig'' ''first'' (system_with sample_migration)) =
     Some ([(MAwaitingConfirmation, Some ''second'')], [Some ''a''], [DFailed])"
  by code_simp

end
