(* ===== verification/Platform.thy ===== *)
theory Platform
  imports Prelude
begin

text \<open>
  Control-plane modes and what each can run, \<open>usecases/src/platform/platform.types.ts\<close> with
  the enumerations of \<open>domain/src/entities/deployment-plan.ts\<close>: the capability record of
  every mode, the runtime matrices, and the check a deployment plan has to pass.
\<close>

section \<open>Data\<close>

datatype control_plane_mode = Desktop | SelfHosted | CloudMode

datatype deploy_target = LocalTarget | RemoteServer | CloudTarget

datatype execution_runtime = DockerRuntime | BareProcess | CloudRuntime

datatype build_location = ControlPlaneBuild | TargetBuild | RemoteBuilder | CloudBuild

datatype data_ownership = LocalControlPlane | CloudControlPlane

definition mode_name :: "control_plane_mode \<Rightarrow> string" where
  "mode_name m = (case m of Desktop \<Rightarrow> ''desktop'' | SelfHosted \<Rightarrow> ''self-hosted'' | CloudMode \<Rightarrow> ''cloud'')"

definition target_name :: "deploy_target \<Rightarrow> string" where
  "target_name t =
     (case t of LocalTarget \<Rightarrow> ''local'' | RemoteServer \<Rightarrow> ''remote-server'' | CloudTarget \<Rightarrow> ''cloud'')"

definition runtime_name :: "execution_runtime \<Rightarrow> string" where
  "runtime_name r =
     (case r of DockerRuntime \<Rightarrow> ''docker'' | BareProcess \<Rightarrow> ''bare-process'' | CloudRuntime \<Rightarrow> ''cloud'')"

definition location_name :: "build_location \<Rightarrow> string" where
  "location_name l =
     (case l of ControlPlaneBuild \<Rightarrow> ''control-plane'' | TargetBuild \<Rightarrow> ''target''
      | RemoteBuilder \<Rightarrow> ''remote-builder'' | CloudBuild \<Rightarrow> ''cloud'')"

record runtime_capability =
  rc_target :: deploy_target
  rc_runtime :: execution_runtime
  rc_supported :: bool
  rc_buildLocations :: "build_location list"
  rc_zeroDowntimeReplacement :: bool
  rc_reason :: "string option"

record runtime_adapter_availability =
  ra_docker :: bool
  ra_bareProcess :: bool
  ra_cloudGateway :: bool

definition DEFAULT_RUNTIME_ADAPTER_AVAILABILITY :: runtime_adapter_availability where
  "DEFAULT_RUNTIME_ADAPTER_AVAILABILITY = \<lparr>ra_docker = True, ra_bareProcess = False, ra_cloudGateway = False\<rparr>"

record platform_capabilities =
  pc_mode :: control_plane_mode
  pc_localRuntime :: bool
  pc_remoteServers :: bool
  pc_scheduler :: bool
  pc_redis :: bool
  pc_cloudConnection :: bool
  pc_jobs :: bool
  pc_acmeCertificates :: bool
  pc_localGitCli :: bool
  pc_localDockerSocket :: bool
  pc_swarmManagement :: bool
  pc_localFileSystemBackups :: bool
  pc_embeddedMonitoring :: bool
  pc_desktopNativeNotifications :: bool
  pc_enterpriseScimSso :: bool
  pc_serverMigration :: bool
  pc_controlPlaneTransfer :: bool
  pc_dataOwnership :: data_ownership
  pc_runtimeMatrix :: "runtime_capability list"

section \<open>The runtime matrices\<close>

definition docker_unavailable :: string where
  "docker_unavailable =
     ''Docker execution is unavailable because no Docker runtime adapter is configured''"

definition bare_unavailable :: string where
  "bare_unavailable =
     ''Bare-process execution is unavailable because no process supervisor and artifact materializer are configured''"

definition cloud_unavailable :: string where
  "cloud_unavailable = ''Cloud execution is unavailable because no cloud gateway is configured''"

definition createSelfHostedRuntimeMatrix :: "runtime_adapter_availability \<Rightarrow> runtime_capability list" where
  "createSelfHostedRuntimeMatrix av =
     [\<lparr>rc_target = LocalTarget, rc_runtime = DockerRuntime, rc_supported = ra_docker av,
       rc_buildLocations = (if ra_docker av then [ControlPlaneBuild, TargetBuild, RemoteBuilder] else []),
       rc_zeroDowntimeReplacement = True,
       rc_reason = (if ra_docker av then None else Some docker_unavailable)\<rparr>,
      \<lparr>rc_target = LocalTarget, rc_runtime = BareProcess, rc_supported = ra_bareProcess av,
       rc_buildLocations = (if ra_bareProcess av then [ControlPlaneBuild, TargetBuild] else []),
       rc_zeroDowntimeReplacement = False,
       rc_reason = (if ra_bareProcess av then None else Some bare_unavailable)\<rparr>,
      \<lparr>rc_target = RemoteServer, rc_runtime = DockerRuntime, rc_supported = ra_docker av,
       rc_buildLocations = (if ra_docker av then [ControlPlaneBuild, TargetBuild, RemoteBuilder] else []),
       rc_zeroDowntimeReplacement = True,
       rc_reason = (if ra_docker av then None else Some docker_unavailable)\<rparr>,
      \<lparr>rc_target = RemoteServer, rc_runtime = BareProcess, rc_supported = ra_bareProcess av,
       rc_buildLocations = (if ra_bareProcess av then [ControlPlaneBuild, TargetBuild, RemoteBuilder] else []),
       rc_zeroDowntimeReplacement = False,
       rc_reason = (if ra_bareProcess av then None else Some bare_unavailable)\<rparr>,
      \<lparr>rc_target = CloudTarget, rc_runtime = CloudRuntime, rc_supported = ra_cloudGateway av,
       rc_buildLocations = (if ra_cloudGateway av then [CloudBuild] else []),
       rc_zeroDowntimeReplacement = True,
       rc_reason = (if ra_cloudGateway av then None else Some cloud_unavailable)\<rparr>]"

definition unsupported_local :: "execution_runtime \<Rightarrow> string \<Rightarrow> runtime_capability" where
  "unsupported_local runtime reason =
     \<lparr>rc_target = LocalTarget, rc_runtime = runtime, rc_supported = False, rc_buildLocations = [],
      rc_zeroDowntimeReplacement = False, rc_reason = Some reason\<rparr>"

definition createCloudRuntimeMatrix :: "runtime_adapter_availability \<Rightarrow> runtime_capability list" where
  "createCloudRuntimeMatrix av =
     [unsupported_local DockerRuntime ''Cloud control planes cannot execute workloads locally'',
      unsupported_local BareProcess ''Cloud control planes cannot execute workloads locally''] @
     filter (\<lambda>capability. rc_target capability \<noteq> LocalTarget) (createSelfHostedRuntimeMatrix av)"

definition createDesktopRuntimeMatrix :: "runtime_adapter_availability \<Rightarrow> runtime_capability list" where
  "createDesktopRuntimeMatrix av =
     [unsupported_local DockerRuntime
        ''Desktop uses bare mode and does not execute workloads locally'',
      unsupported_local BareProcess
        ''Desktop bare mode is a control plane, not a local workload runtime'',
      \<lparr>rc_target = RemoteServer, rc_runtime = DockerRuntime, rc_supported = ra_docker av,
       rc_buildLocations = (if ra_docker av then [ControlPlaneBuild, TargetBuild, RemoteBuilder] else []),
       rc_zeroDowntimeReplacement = True,
       rc_reason = (if ra_docker av then None else Some docker_unavailable)\<rparr>,
      \<lparr>rc_target = RemoteServer, rc_runtime = BareProcess, rc_supported = ra_bareProcess av,
       rc_buildLocations = (if ra_bareProcess av then [ControlPlaneBuild, TargetBuild, RemoteBuilder] else []),
       rc_zeroDowntimeReplacement = False,
       rc_reason = (if ra_bareProcess av then None else Some bare_unavailable)\<rparr>,
      \<lparr>rc_target = CloudTarget, rc_runtime = CloudRuntime, rc_supported = ra_cloudGateway av,
       rc_buildLocations = (if ra_cloudGateway av then [CloudBuild] else []),
       rc_zeroDowntimeReplacement = True,
       rc_reason = (if ra_cloudGateway av then None else Some cloud_unavailable)\<rparr>]"

section \<open>Modes\<close>

fun parse_mode :: "string option \<Rightarrow> control_plane_mode option" where
  "parse_mode None = None"
| "parse_mode (Some s) =
     (if s = ''desktop'' then Some Desktop else if s = ''self-hosted'' then Some SelfHosted
      else if s = ''cloud'' then Some CloudMode else None)"

definition resolveControlPlaneMode :: "string option \<Rightarrow> bool \<Rightarrow> control_plane_mode" where
  "resolveControlPlaneMode platform isCloud =
     (if isCloud then CloudMode
      else case parse_mode platform of Some mode \<Rightarrow> mode | None \<Rightarrow> SelfHosted)"

definition requiresRemoteServerPlacement :: "control_plane_mode \<Rightarrow> bool" where
  "requiresRemoteServerPlacement mode \<longleftrightarrow> mode = CloudMode"

definition requiresRemoteDeploymentServer :: "control_plane_mode \<Rightarrow> bool" where
  "requiresRemoteDeploymentServer mode \<longleftrightarrow> mode = CloudMode \<or> mode = Desktop"

definition resolveBuildLocation :: "string option \<Rightarrow> string option \<Rightarrow> build_location" where
  "resolveBuildLocation buildServerId deploymentServerId =
     (if buildServerId \<noteq> None \<and> buildServerId \<noteq> Some [] \<and> buildServerId \<noteq> deploymentServerId
      then RemoteBuilder else ControlPlaneBuild)"

definition getPlatformCapabilities ::
  "control_plane_mode \<Rightarrow> runtime_adapter_availability \<Rightarrow> platform_capabilities" where
  "getPlatformCapabilities mode av =
     (case mode of
        Desktop \<Rightarrow>
          \<lparr>pc_mode = mode, pc_localRuntime = True, pc_remoteServers = True, pc_scheduler = False,
           pc_redis = False, pc_cloudConnection = True, pc_jobs = False, pc_acmeCertificates = False,
           pc_localGitCli = False, pc_localDockerSocket = ra_docker av, pc_swarmManagement = False,
           pc_localFileSystemBackups = False, pc_embeddedMonitoring = False,
           pc_desktopNativeNotifications = True, pc_enterpriseScimSso = False,
           pc_serverMigration = True, pc_controlPlaneTransfer = True,
           pc_dataOwnership = LocalControlPlane,
           pc_runtimeMatrix =
             unsupported_local DockerRuntime
               ''Desktop can use local Docker as a build host but cannot deploy workloads to its local control plane'' #
             filter (\<lambda>entry. rc_target entry \<noteq> LocalTarget) (createDesktopRuntimeMatrix av)\<rparr>
      | CloudMode \<Rightarrow>
          \<lparr>pc_mode = mode, pc_localRuntime = False, pc_remoteServers = True, pc_scheduler = True,
           pc_redis = True, pc_cloudConnection = False, pc_jobs = True, pc_acmeCertificates = True,
           pc_localGitCli = False, pc_localDockerSocket = False, pc_swarmManagement = False,
           pc_localFileSystemBackups = False, pc_embeddedMonitoring = False,
           pc_desktopNativeNotifications = False, pc_enterpriseScimSso = True,
           pc_serverMigration = True, pc_controlPlaneTransfer = False,
           pc_dataOwnership = CloudControlPlane,
           pc_runtimeMatrix = createCloudRuntimeMatrix av\<rparr>
      | SelfHosted \<Rightarrow>
          \<lparr>pc_mode = mode, pc_localRuntime = True, pc_remoteServers = True, pc_scheduler = True,
           pc_redis = True, pc_cloudConnection = True, pc_jobs = True, pc_acmeCertificates = True,
           pc_localGitCli = False, pc_localDockerSocket = True, pc_swarmManagement = True,
           pc_localFileSystemBackups = True, pc_embeddedMonitoring = True,
           pc_desktopNativeNotifications = False, pc_enterpriseScimSso = True,
           pc_serverMigration = True, pc_controlPlaneTransfer = True,
           pc_dataOwnership = LocalControlPlane,
           pc_runtimeMatrix = createSelfHostedRuntimeMatrix av\<rparr>)"

section \<open>The check of a plan\<close>

definition getRuntimeCapability ::
  "control_plane_mode \<Rightarrow> deploy_target \<Rightarrow> execution_runtime \<Rightarrow> runtime_adapter_availability \<Rightarrow>
   runtime_capability option" where
  "getRuntimeCapability mode target runtime av =
     find (\<lambda>entry. rc_target entry = target \<and> rc_runtime entry = runtime)
       (pc_runtimeMatrix (getPlatformCapabilities mode av))"

definition assertRuntimeCapability ::
  "control_plane_mode \<Rightarrow> deploy_target \<Rightarrow> execution_runtime \<Rightarrow> build_location \<Rightarrow>
   runtime_adapter_availability \<Rightarrow> string + runtime_capability" where
  "assertRuntimeCapability mode target runtime buildLocation av =
     (let default_reason = ''Runtime '' @ sq (runtime_name runtime) @ '' with build location '' @
            sq (location_name buildLocation) @ '' is not supported for target '' @ sq (target_name target) @
            '' in '' @ sq (mode_name mode) @ '' mode''
      in case getRuntimeCapability mode target runtime av of
           None \<Rightarrow> Inl default_reason
         | Some capability \<Rightarrow>
             if \<not> rc_supported capability \<or> buildLocation \<notin> set (rc_buildLocations capability)
             then Inl (case rc_reason capability of Some r \<Rightarrow> r | None \<Rightarrow> default_reason)
             else Inr capability)"

lemmas matrix_defs = createSelfHostedRuntimeMatrix_def createCloudRuntimeMatrix_def
  createDesktopRuntimeMatrix_def unsupported_local_def

section \<open>Properties\<close>

text \<open>
  C34. Where a plan may run, exactly: Docker and bare processes on remote servers, and on the
  control plane itself only in self-hosted mode; the cloud runtime only on the cloud target;
  always only with the adapter present, and never building a local bare process elsewhere.
\<close>

theorem runtime_capability_exact:
  "(\<exists>capability. assertRuntimeCapability mode target runtime location av = Inr capability) \<longleftrightarrow>
     (case runtime of
        DockerRuntime \<Rightarrow> ra_docker av \<and> location \<noteq> CloudBuild \<and>
          (target = RemoteServer \<or> target = LocalTarget \<and> mode = SelfHosted)
      | BareProcess \<Rightarrow> ra_bareProcess av \<and> location \<noteq> CloudBuild \<and>
          (target = RemoteServer \<or> target = LocalTarget \<and> mode = SelfHosted \<and> location \<noteq> RemoteBuilder)
      | CloudRuntime \<Rightarrow> ra_cloudGateway av \<and> location = CloudBuild \<and> target = CloudTarget)"
  by (cases mode; cases runtime; cases target; cases location)
    (simp_all add: assertRuntimeCapability_def getRuntimeCapability_def getPlatformCapabilities_def
      matrix_defs Let_def)

text \<open>
  Every entry of a matrix is consistent: it is supported exactly when it names build locations
  and gives no reason against it.
\<close>

lemma matrix_consistent:
  "entry \<in> set (pc_runtimeMatrix (getPlatformCapabilities mode av)) \<Longrightarrow>
   rc_supported entry = (rc_buildLocations entry \<noteq> []) \<and> rc_supported entry = (rc_reason entry = None)"
  by (cases mode) (auto simp: getPlatformCapabilities_def matrix_defs split: if_splits)

end
