(* ===== verification/Deployment_Intake.thy ===== *)
theory Deployment_Intake
  imports Platform Deployment_Repository Job_Queues Migration
begin

text \<open>
  How work enters the platform: \<open>usecases/src/deployment/queue-deployment.usecase.ts\<close>,
  \<open>usecases/src/server/migrate-resource.usecase.ts\<close>, \<open>usecases/src/server/server-role.ts\<close>
  and the repair of abandoned deployments in
  \<open>usecases/src/deployment/reconcile-stale-deployments.usecase.ts\<close>, with the credentials,
  the reliability settings and the deployment scope they use. A transaction that throws leaves
  the tables as they were. Inserts and updates obey the not-null and foreign-key constraints of
  \<open>db/src/schema\<close>: a primary key is given, and the server of a resource or a deployment is a
  row of the server table. JSON parsing, decryption, signing and the part of the advanced
  configuration that other components use are parameters.
\<close>

section \<open>Data\<close>

record resource_record =
  rr_id :: string
  rr_environmentId :: string
  rr_name :: string
  rr_type :: string
  rr_provider :: string
  rr_dockerImage :: "string option"
  rr_credentials :: "string option"
  rr_serverId :: "string option"
  rr_buildServerId :: "string option"
  rr_advancedConfig :: "string option"
  rr_status :: string

record server_record =
  sv_id :: string
  sv_organizationId :: string
  sv_name :: string
  sv_ipAddress :: string
  sv_serverType :: string
  sv_status :: string
  sv_authType :: string
  sv_sshKeyId :: "string option"
  sv_passwordCiphertext :: "string option"
  sv_passwordIv :: "string option"
  sv_passwordAuthTag :: "string option"
  sv_passwordVersion :: "int option"

record build_settings =
  bs_id :: string
  bs_hostname :: string
  bs_ip :: string
  bs_concurrency :: int

record git_provider =
  gp_id :: string
  gp_config :: string

record project_record =
  pj_id :: string
  pj_organizationId :: string
  pj_archivedAt :: "int option"

record intake =
  it_resources :: "resource_record list"
  it_servers :: "server_record list"
  it_settings :: "build_settings list"
  it_gitProviders :: "git_provider list"
  it_environments :: "(string \<times> string) list"
  it_projects :: "project_record list"
  it_deployments :: "deployment list"
  it_migrations :: "migration list"
  it_outbox :: "outbox_message list"
  it_clock :: int

text \<open>
  The surroundings: \<open>JSON.parse\<close> (\<open>None\<close> when it throws), \<open>decryptSecret\<close>, whether
  the other fields of an advanced configuration are valid, the scope secret (an error when it
  is too short), the encoded claims of a grant, HMAC-SHA256, whether this is production, and
  the name and address of the local target.
\<close>

record surroundings =
  en_json :: "string \<Rightarrow> jsval option"
  en_decrypt :: "(string \<times> jsval) list \<Rightarrow> string option"
  en_otherConfig :: "(string \<times> jsval) list \<Rightarrow> bool"
  en_scopeSecret :: "string + string option"
  en_claims :: "string \<Rightarrow> string \<Rightarrow> string \<Rightarrow> int \<Rightarrow> int \<Rightarrow> string"
  en_hmac :: "string \<Rightarrow> string \<Rightarrow> string"
  en_production :: bool
  en_localTarget :: "string \<times> string"

section \<open>Credentials\<close>

definition isEncryptedPayload :: "jsval \<Rightarrow> bool" where
  "isEncryptedPayload v =
     (case v of
        JObj c \<Rightarrow> is_string (get_prop c ''ciphertext'') \<and> is_string (get_prop c ''iv'') \<and>
                  is_string (get_prop c ''authTag'') \<and>
                  (case get_prop c ''keyVersion'' of JNum _ \<Rightarrow> True | _ \<Rightarrow> False)
      | _ \<Rightarrow> False)"

text \<open>\<open>None\<close> stands for every exception, which the caller catches.\<close>

definition parseCredentialDocument :: "'z surroundings_scheme \<Rightarrow> string \<Rightarrow> (string \<times> jsval) list option" where
  "parseCredentialDocument en v =
     (case en_json en v of
        None \<Rightarrow> None
      | Some parsed \<Rightarrow>
          if isEncryptedPayload parsed then
            (case parsed of
               JObj c \<Rightarrow>
                 (case en_decrypt en c of
                    None \<Rightarrow> None
                  | Some text \<Rightarrow>
                      (case en_json en text of Some (JObj decrypted) \<Rightarrow> Some decrypted | _ \<Rightarrow> None))
             | _ \<Rightarrow> None)
          else None)"

definition parseResourceCredentials :: "'z surroundings_scheme \<Rightarrow> string option \<Rightarrow> (string \<times> jsval) list" where
  "parseResourceCredentials en v =
     (case v of
        None \<Rightarrow> []
      | Some s \<Rightarrow>
          if s = [] then []
          else case parseCredentialDocument en s of Some c \<Rightarrow> c | None \<Rightarrow> [])"

definition stringField :: "(string \<times> jsval) list \<Rightarrow> string \<Rightarrow> string option" where
  "stringField v field =
     (case get_prop v field of JStr s \<Rightarrow> if trim s = [] then None else Some (trim s) | _ \<Rightarrow> None)"

definition parseProviderConfig :: "surroundings \<Rightarrow> string \<Rightarrow> (string \<times> jsval) list" where
  "parseProviderConfig en v = (case en_json en v of Some (JObj c) \<Rightarrow> c | _ \<Rightarrow> [])"

section \<open>Reliability settings\<close>

record deployment_reliability =
  re_maxAttempts :: int
  re_retryBaseSeconds :: int
  re_retryMaxSeconds :: int
  re_staleAfterSeconds :: int

definition default_reliability :: deployment_reliability where
  "default_reliability =
     \<lparr>re_maxAttempts = 3, re_retryBaseSeconds = 2, re_retryMaxSeconds = 60, re_staleAfterSeconds = 1800\<rparr>"

definition int_or_default :: "int \<Rightarrow> int \<Rightarrow> int \<Rightarrow> jsval \<Rightarrow> int option" where
  "int_or_default lo hi d v =
     (case v of
        JUndefined \<Rightarrow> Some d
      | JNum n \<Rightarrow> if field_ok (IntField lo hi) (JNum n) then Some (decimal n) else None
      | _ \<Rightarrow> None)"

definition parse_reliability :: "jsval \<Rightarrow> deployment_reliability option" where
  "parse_reliability v =
     (case v of
        JUndefined \<Rightarrow> Some default_reliability
      | JObj c \<Rightarrow>
          (case (int_or_default 1 10 3 (get_prop c ''maxAttempts''),
                 int_or_default 1 300 2 (get_prop c ''retryBaseSeconds''),
                 int_or_default 1 3600 60 (get_prop c ''retryMaxSeconds''),
                 int_or_default 60 86400 1800 (get_prop c ''staleAfterSeconds'')) of
             (Some a, Some b, Some m, Some s) \<Rightarrow>
               if m < b then None
               else Some \<lparr>re_maxAttempts = a, re_retryBaseSeconds = b, re_retryMaxSeconds = m,
                          re_staleAfterSeconds = s\<rparr>
           | _ \<Rightarrow> None)
      | _ \<Rightarrow> None)"

definition parseResourceAdvancedConfig :: "surroundings \<Rightarrow> string option \<Rightarrow> deployment_reliability" where
  "parseResourceAdvancedConfig en v =
     (case v of
        None \<Rightarrow> default_reliability
      | Some s \<Rightarrow>
          if s = [] then default_reliability
          else case en_json en s of
              Some (JObj c) \<Rightarrow>
                if en_otherConfig en c
                then (case parse_reliability (get_prop c ''deploymentReliability'') of
                        Some r \<Rightarrow> r | None \<Rightarrow> default_reliability)
                else default_reliability
            | _ \<Rightarrow> default_reliability)"

section \<open>The source of a deployment\<close>

definition GIT_SOURCE_PROVIDERS :: "string list" where
  "GIT_SOURCE_PROVIDERS = [''github'', ''gitlab'', ''bitbucket'', ''gitea'']"

definition no_provider :: string where
  "no_provider = ''Git provider is not associated. Configure a repository connection before deploying.''"

definition unknown_provider :: string where
  "unknown_provider =
     ''Associated Git provider was not found. Select a valid repository connection before deploying.''"

definition no_repository :: string where
  "no_repository = ''Repository is missing. Select a repository before deploying.''"

definition no_repository_url :: string where
  "no_repository_url = ''Repository URL is missing. Configure a repository before deploying.''"

text \<open>The provider row a repository connection names, with a repository selected.\<close>

definition connected_provider :: "(string \<times> jsval) list \<Rightarrow> git_provider list \<Rightarrow> string + git_provider" where
  "connected_provider credentials gitProviders =
     (case stringField credentials ''githubAccount'' of
        None \<Rightarrow> Inl no_provider
      | Some providerId \<Rightarrow>
          (case findById gp_id providerId gitProviders of
             None \<Rightarrow> Inl unknown_provider
           | Some provider \<Rightarrow>
               if stringField credentials ''repository'' = None then Inl no_repository else Inr provider))"

definition validateDeploymentSource ::
  "surroundings \<Rightarrow> intake \<Rightarrow> resource_record \<Rightarrow> control_plane_mode \<Rightarrow> string + unit" where
  "validateDeploymentSource en s resource controlPlaneMode =
     (let credentials = parseResourceCredentials en (rr_credentials resource);
          provider = rr_provider resource
      in if rr_type resource = ''database'' then Inr ()
         else if rr_type resource = ''compose'' \<and> provider = ''raw'' then
           throw_if (stringField credentials ''composeFile'' = None)
             ''Compose file is missing. Add compose content before deploying.''
         else if provider = ''docker-registry'' then
           throw_if (case rr_dockerImage resource of Some i \<Rightarrow> trim i = [] | None \<Rightarrow> True)
             ''Docker image is missing. Configure an image before deploying.''
         else if provider \<in> set GIT_SOURCE_PROVIDERS then
           (case connected_provider credentials (it_gitProviders s) of Inl e \<Rightarrow> Inl e | Inr _ \<Rightarrow> Inr ())
         else if provider = ''git'' then
           throw_if (stringField credentials ''repositoryUrl'' = None) no_repository_url
         else if provider = ''generic'' then
           (if rr_type resource \<noteq> ''compose''
            then Inl ''Generic Git deployments are only supported for Compose resources.''
            else case connected_provider credentials (it_gitProviders s) of
                Inl e \<Rightarrow> Inl e
              | Inr p \<Rightarrow>
                  throw_if (stringField credentials ''repositoryUrl'' = None \<and>
                            stringField (parseProviderConfig en (gp_config p)) ''gitUrl'' = None)
                    no_repository_url)
         else if provider = ''drop'' then Inr ()
         else if provider = ''local'' then
           checks [throw_if (controlPlaneMode \<noteq> Desktop)
                     ''Local project folders are only supported by the desktop runtime'',
                   throw_if (stringField credentials ''localPath'' = None)
                     ''Local project folder is missing. Select a folder before deploying.'']
         else Inl (''Unsupported deployment provider: '' @ provider))"

section \<open>The scope of a deployment\<close>

definition DEPLOYMENT_SCOPE_VERSION :: string where
  "DEPLOYMENT_SCOPE_VERSION = ''v1''"

definition DEPLOYMENT_SCOPE_TTL_MS :: int where
  "DEPLOYMENT_SCOPE_TTL_MS = 2 * 60 * 60 * 1000"

definition scope_char :: "char \<Rightarrow> bool" where
  "scope_char c \<longleftrightarrow> is_alnum c \<or> c = CHR ''.'' \<or> c = CHR ''_'' \<or> c = CHR '':'' \<or> c = CHR ''-''"

fun DEPLOYMENT_SCOPE_IDENTIFIER_PATTERN :: "string \<Rightarrow> bool" where
  "DEPLOYMENT_SCOPE_IDENTIFIER_PATTERN [] = False"
| "DEPLOYMENT_SCOPE_IDENTIFIER_PATTERN (c # cs) = (is_alnum c \<and> list_all scope_char cs \<and> length cs \<le> 127)"

definition createDeploymentScopeToken ::
  "surroundings \<Rightarrow> int \<Rightarrow> string \<Rightarrow> string \<Rightarrow> string \<Rightarrow> string + string option" where
  "createDeploymentScopeToken en now resourceId deploymentId serverId =
     (case check_each (\<lambda>(name, v). throw_if (\<not> DEPLOYMENT_SCOPE_IDENTIFIER_PATTERN v)
             (''Deployment scope '' @ name @ '' is invalid''))
             [(''resourceId'', resourceId), (''deploymentId'', deploymentId), (''serverId'', serverId)] of
        Inl e \<Rightarrow> Inl e
      | Inr _ \<Rightarrow>
          (case en_scopeSecret en of
             Inl e \<Rightarrow> Inl e
           | Inr None \<Rightarrow> Inr None
           | Inr (Some secret) \<Rightarrow>
               let payload = en_claims en resourceId deploymentId serverId now (now + DEPLOYMENT_SCOPE_TTL_MS)
               in Inr (Some (DEPLOYMENT_SCOPE_VERSION @ ''.'' @ payload @ ''.'' @
                    en_hmac en secret (DEPLOYMENT_SCOPE_VERSION @ ''.'' @ payload)))))"

section \<open>Rows\<close>

record create_deployment =
  cd_id :: "string option"
  cd_resourceId :: string
  cd_title :: string
  cd_logs :: string
  cd_serverId :: "string option"
  cd_serverName :: "string option"
  cd_sourceRevision :: "string option"
  cd_maxAttempts :: "int option"

definition server_exists :: "string option \<Rightarrow> intake \<Rightarrow> bool" where
  "server_exists i s \<longleftrightarrow> (case i of None \<Rightarrow> True | Some j \<Rightarrow> findById sv_id j (it_servers s) \<noteq> None)"

text \<open>\<open>create\<close> of the base repository on the deployment table, for a queued deployment.\<close>

definition insertDeployment :: "create_deployment \<Rightarrow> intake \<Rightarrow> string + deployment \<times> intake" where
  "insertDeployment data s =
     (case cd_id data of
        None \<Rightarrow> Inl ''null value in column \"id\" violates not-null constraint''
      | Some i \<Rightarrow>
          if findById dep_id i (it_deployments s) \<noteq> None
          then Inl ''duplicate key value violates unique constraint''
          else if \<not> server_exists (cd_serverId data) s
          then Inl ''insert violates foreign key constraint deployment_server_id_server_id_fk''
          else
            let d = \<lparr>dep_id = i, dep_resourceId = cd_resourceId data, dep_status = DQueued,
                     dep_title = cd_title data, dep_logs = cd_logs data, dep_serverId = cd_serverId data,
                     dep_serverName = cd_serverName data, dep_sourceRevision = cd_sourceRevision data,
                     dep_deploymentPlan = None, dep_deployTarget = None, dep_executionRuntime = None,
                     dep_buildLocation = None, dep_dataOwnership = None, dep_artifactDigest = None,
                     dep_configurationVersion = None, dep_executionToken = None, dep_attempt = 0,
                     dep_maxAttempts = or_default (cd_maxAttempts data) 1, dep_heartbeatAt = None,
                     dep_retryAt = None, dep_lastError = None, dep_createdAt = it_clock s,
                     dep_updatedAt = it_clock s\<rparr>
            in Inr (d, s\<lparr>it_deployments := it_deployments s @ [d]\<rparr>))"

definition setResourceServer :: "string \<Rightarrow> string \<Rightarrow> intake \<Rightarrow> string + intake" where
  "setResourceServer i serverId s =
     (if findById rr_id i (it_resources s) \<noteq> None \<and> \<not> server_exists (Some serverId) s
      then Inl ''update violates foreign key constraint resource_server_id_server_id_fk''
      else Inr (s\<lparr>it_resources := snd (updateById rr_id i (\<lambda>r. r\<lparr>rr_serverId := Some serverId\<rparr>) (it_resources s))\<rparr>))"

definition createIfNotExists :: "build_settings \<Rightarrow> intake \<Rightarrow> intake" where
  "createIfNotExists data s =
     (if findById bs_id (bs_id data) (it_settings s) = None
      then s\<lparr>it_settings := it_settings s @ [data]\<rparr> else s)"

section \<open>Queueing a deployment\<close>

record queue_input =
  qi_resourceId :: string
  qi_correlationId :: "string option"
  qi_title :: "string option"
  qi_previewDeploymentId :: "string option"
  qi_sourceRevision :: "string option"
  qi_deploymentId :: "string option"

definition local_or_manager :: "string \<Rightarrow> bool" where
  "local_or_manager i \<longleftrightarrow> i = ''local'' \<or> i = ''manager''"

definition given_string :: "string option \<Rightarrow> bool" where
  "given_string v \<longleftrightarrow> v \<noteq> None \<and> v \<noteq> Some []"

definition is_hex :: "char \<Rightarrow> bool" where
  "is_hex c \<longleftrightarrow> is_digit c \<or> lower_char c \<in> {CHR ''a'', CHR ''b'', CHR ''c'', CHR ''d'', CHR ''e'', CHR ''f''}"

definition commit_sha :: "string \<Rightarrow> bool" where
  "commit_sha r \<longleftrightarrow> list_all is_hex r \<and> 7 \<le> length r \<and> length r \<le> 64"

definition placement_guards :: "control_plane_mode \<Rightarrow> resource_record \<Rightarrow> string + unit" where
  "placement_guards mode resource =
     checks
      [throw_if (mode \<in> {Desktop, CloudMode} \<and>
          (\<not> given_string (rr_serverId resource) \<or> local_or_manager (the (rr_serverId resource))))
         ''Desktop and cloud control planes require a remote deployment server'',
       throw_if (mode = CloudMode \<and>
          (case rr_buildServerId resource of Some b \<Rightarrow> local_or_manager b | None \<Rightarrow> False))
         ''Cloud control planes require a remote build server'']"

definition project_of :: "intake \<Rightarrow> string \<Rightarrow> project_record option" where
  "project_of s environmentId =
     (case findById fst environmentId (it_environments s) of
        None \<Rightarrow> None
      | Some (_, projectId) \<Rightarrow> findById pj_id projectId (it_projects s))"

definition request_guards :: "queue_input \<Rightarrow> project_record option \<Rightarrow> string + unit" where
  "request_guards input project =
     checks
      [throw_if (case project of Some p \<Rightarrow> pj_archivedAt p \<noteq> None | None \<Rightarrow> False)
         ''Project is archived. Unarchive it before deploying resources.'',
       throw_if (given_string (qi_sourceRevision input) \<and> \<not> commit_sha (the (qi_sourceRevision input)))
         ''Source revision must be a commit SHA'']"

definition is_password_auth :: "'z server_record_scheme \<Rightarrow> bool" where
  "is_password_auth server \<longleftrightarrow>
     sv_authType server = ''password'' \<or>
     (\<not> given_string (sv_sshKeyId server) \<and> given_string (sv_passwordCiphertext server))"

definition server_guards :: "server_record \<Rightarrow> string + unit" where
  "server_guards server =
     checks
      [throw_if (sv_status server \<noteq> ''ready'')
         (''Target server '' @ sq (sv_name server) @ '' is not ready ('' @ sv_status server @
          ''). Run server setup before deploying.''),
       if is_password_auth server then
         throw_if (\<not> given_string (sv_passwordCiphertext server) \<or> \<not> given_string (sv_passwordIv server) \<or>
                   \<not> given_string (sv_passwordAuthTag server) \<or> sv_passwordVersion server = None)
           (''Target server '' @ sq (sv_name server) @
            '' has no password credentials configured. Please update server authentication.'')
       else throw_if (\<not> given_string (sv_sshKeyId server))
           (''Target server '' @ sq (sv_name server) @ '' has no SSH key configured. Please attach an SSH key.'')]"

text \<open>The server identifier, its name and its address.\<close>

definition resolve_target ::
  "surroundings \<Rightarrow> resource_record \<Rightarrow> intake \<Rightarrow> string + (string \<times> string \<times> string) \<times> intake" where
  "resolve_target en resource s =
     (if \<not> given_string (rr_serverId resource) then
        (case setResourceServer (rr_id resource) ''local'' s of
           Inl e \<Rightarrow> Inl e
         | Inr s1 \<Rightarrow> Inr ((''local'', fst (en_localTarget en), snd (en_localTarget en)), s1))
      else
        let serverId = the (rr_serverId resource) in
        case findById sv_id serverId (it_servers s) of
          Some server \<Rightarrow>
            (case server_guards server of
               Inl e \<Rightarrow> Inl e
             | Inr _ \<Rightarrow> Inr ((serverId, sv_name server, sv_ipAddress server), s))
        | None \<Rightarrow>
            (case findById bs_id serverId (it_settings s) of
               Some settings \<Rightarrow> Inr ((serverId, bs_hostname settings, bs_ip settings), s)
             | None \<Rightarrow> Inr ((serverId, ''Upstand Server'', ''127.0.0.1''), s)))"

definition ensure_settings :: "string \<times> string \<times> string \<Rightarrow> intake \<Rightarrow> intake" where
  "ensure_settings target s =
     (case target of (serverId, name, ip) \<Rightarrow>
        if findById bs_id serverId (it_settings s) = None
        then createIfNotExists \<lparr>bs_id = serverId, bs_hostname = name, bs_ip = ip,
               bs_concurrency = (if local_or_manager serverId then 2 else 1)\<rparr> s
        else s)"

definition optional_prop :: "string \<Rightarrow> string option \<Rightarrow> (string \<times> jsval) list" where
  "optional_prop k v = (case v of Some x \<Rightarrow> [(k, JStr x)] | None \<Rightarrow> [])"

definition deploy_command ::
  "queue_input \<Rightarrow> string \<Rightarrow> string \<Rightarrow> string \<Rightarrow> string option \<Rightarrow> deployment_reliability \<Rightarrow> string option \<Rightarrow>
   create_outbox_message" where
  "deploy_command input resourceId deploymentId serverId dockerScopeToken reliability organizationId =
     \<lparr>co_id = Some deploymentId, co_type = deploy_type,
      co_payload =
        optional_prop ''correlationId'' (qi_correlationId input) @
        [(''resourceId'', JStr resourceId), (''deploymentId'', JStr deploymentId), (''serverId'', JStr serverId)] @
        optional_prop ''dockerScopeToken'' dockerScopeToken @
        optional_prop ''previewDeploymentId'' (qi_previewDeploymentId input) @
        optional_prop ''sourceRevision'' (qi_sourceRevision input) @
        [(''maxAttempts'', JNum (show_int (re_maxAttempts reliability))),
         (''retryBaseSeconds'', JNum (show_int (re_retryBaseSeconds reliability))),
         (''retryMaxSeconds'', JNum (show_int (re_retryMaxSeconds reliability)))],
      co_aggregateType = Some ''deployment'', co_aggregateId = Some deploymentId,
      co_organizationId = organizationId, co_idempotencyKey = ''deployment:'' @ deploymentId,
      co_maxAttempts = None, co_availableAt = None\<rparr>"

definition record_deployment ::
  "surroundings \<Rightarrow> queue_input \<Rightarrow> string \<Rightarrow> resource_record \<Rightarrow> project_record option \<Rightarrow>
   string \<times> string \<times> string \<Rightarrow> intake \<Rightarrow> string + resource_record \<times> intake" where
  "record_deployment en input uuid resource project target s =
     (case target of (serverId, serverName, _) \<Rightarrow>
      let deploymentId = (if given_string (qi_deploymentId input) then the (qi_deploymentId input) else ''dep-'' @ uuid);
          title = (if given_string (qi_title input) then the (qi_title input) else ''Manual deployment'');
          reliability = parseResourceAdvancedConfig en (rr_advancedConfig resource)
      in case createDeploymentScopeToken en (it_clock s) (rr_id resource) deploymentId serverId of
           Inl e \<Rightarrow> Inl e
         | Inr dockerScopeToken \<Rightarrow>
             if en_production en \<and> \<not> given_string dockerScopeToken
             then Inl ''Deployment scope signing is not configured; refusing to queue an unscoped deployment''
             else case insertDeployment
                 \<lparr>cd_id = Some deploymentId, cd_resourceId = rr_id resource, cd_title = title,
                  cd_logs = ''Added to queue. Waiting for slot...'' @ [CHR 0x0A], cd_serverId = Some serverId,
                  cd_serverName = Some serverName, cd_sourceRevision = qi_sourceRevision input,
                  cd_maxAttempts = Some (re_maxAttempts reliability)\<rparr> s of
               Inl e \<Rightarrow> Inl e
             | Inr (_, s1) \<Rightarrow>
                 (case updateById rr_id (rr_id resource) (\<lambda>r. r\<lparr>rr_status := ''queued''\<rparr>) (it_resources s1) of
                    (None, _) \<Rightarrow> Inl ''Failed to update resource with queued state''
                  | (Some updatedResource, resources) \<Rightarrow>
                      let s2 = s1\<lparr>it_resources := resources\<rparr> in
                      case create deploymentId (it_clock s2)
                             (deploy_command input (rr_id updatedResource) deploymentId serverId dockerScopeToken
                                reliability (map_option pj_organizationId project)) (it_outbox s2) of
                        (Inl e, _) \<Rightarrow> Inl e
                      | (Inr _, outbox) \<Rightarrow> Inr (updatedResource, s2\<lparr>it_outbox := outbox\<rparr>)))"

definition queue_in_transaction ::
  "surroundings \<Rightarrow> control_plane_mode \<Rightarrow> queue_input \<Rightarrow> string \<Rightarrow> intake \<Rightarrow> string + resource_record \<times> intake" where
  "queue_in_transaction en mode input uuid s =
     (case findById rr_id (qi_resourceId input) (it_resources s) of
        None \<Rightarrow> Inl ''Resource not found''
      | Some resource \<Rightarrow>
          let project = project_of s (rr_environmentId resource) in
          case checks [placement_guards mode resource, validateDeploymentSource en s resource mode,
                       request_guards input project] of
            Inl e \<Rightarrow> Inl e
          | Inr _ \<Rightarrow>
              (case resolve_target en resource s of
                 Inl e \<Rightarrow> Inl e
               | Inr (target, s1) \<Rightarrow>
                   record_deployment en input uuid resource project target (ensure_settings target s1)))"

definition queueDeployment ::
  "surroundings \<Rightarrow> control_plane_mode \<Rightarrow> queue_input \<Rightarrow> string \<Rightarrow> intake \<Rightarrow> (string + resource_record) \<times> intake" where
  "queueDeployment en mode input uuid s =
     (case queue_in_transaction en mode input uuid s of
        Inl e \<Rightarrow> (Inl e, s)
      | Inr (resource, s') \<Rightarrow> (Inr resource, s'))"

section \<open>Server roles\<close>

record provisioning_plan =
  pv_requiresSwarm :: bool
  pv_requiresCaddy :: bool
  pv_requiresMonitoring :: bool

datatype server_role = DeployServer | DatabaseServer | BuildServer

definition getServerProvisioningPlan :: "server_role \<Rightarrow> provisioning_plan" where
  "getServerProvisioningPlan serverType =
     (case serverType of
        DeployServer \<Rightarrow> \<lparr>pv_requiresSwarm = True, pv_requiresCaddy = True, pv_requiresMonitoring = True\<rparr>
      | DatabaseServer \<Rightarrow> \<lparr>pv_requiresSwarm = True, pv_requiresCaddy = False, pv_requiresMonitoring = True\<rparr>
      | BuildServer \<Rightarrow> \<lparr>pv_requiresSwarm = False, pv_requiresCaddy = False, pv_requiresMonitoring = True\<rparr>)"

definition consumesDeploymentQueue :: "server_role option \<Rightarrow> bool" where
  "consumesDeploymentQueue serverType \<longleftrightarrow> serverType \<noteq> Some BuildServer"

definition assertDeploymentServerSupportsResource :: "'z server_record_scheme \<Rightarrow> string \<Rightarrow> string + unit" where
  "assertDeploymentServerSupportsResource server resourceType =
     checks
      [throw_if (sv_serverType server = ''build'')
         (''Server '' @ sq (sv_name server) @ '' is a build server and cannot host deployments''),
       throw_if (sv_serverType server = ''database'' \<and> resourceType \<noteq> ''database'')
         (''Server '' @ sq (sv_name server) @ '' is a database server and can only host database resources'')]"

definition assertResourceCanUseBuildServer :: "string \<Rightarrow> string + unit" where
  "assertResourceCanUseBuildServer resourceType =
     throw_if (resourceType \<noteq> ''application'') ''Only application resources can use a dedicated build server''"

definition assertBuildServerSupportsResource :: "'z server_record_scheme \<Rightarrow> string \<Rightarrow> string + unit" where
  "assertBuildServerSupportsResource server resourceType =
     checks
      [assertResourceCanUseBuildServer resourceType,
       throw_if (sv_serverType server = ''database'')
         (''Server '' @ sq (sv_name server) @ '' is a database server and cannot build applications'')]"

section \<open>Requesting a migration\<close>

record migrate_input =
  mi_organizationId :: string
  mi_resourceId :: string
  mi_targetServerId :: string
  mi_correlationId :: "string option"

definition migration_mode_guards :: "control_plane_mode \<Rightarrow> migrate_input \<Rightarrow> string + unit" where
  "migration_mode_guards mode input =
     (let capabilities = getPlatformCapabilities mode DEFAULT_RUNTIME_ADAPTER_AVAILABILITY in
      checks
       [throw_if (\<not> pc_serverMigration capabilities)
          (''Server-to-server migration is not enabled for control plane mode '' @ sq (mode_name mode)),
        throw_if (mi_targetServerId input = ''local'' \<and> \<not> pc_localRuntime capabilities)
          (''Migration to the local control plane is not enabled for control plane mode '' @ sq (mode_name mode)),
        throw_if (mode = Desktop \<and> local_or_manager (mi_targetServerId input))
          ''Desktop workloads must be deployed to a configured remote server''])"

text \<open>The source server, and the target server unless it is the local control plane.\<close>

definition migration_endpoints ::
  "migrate_input \<Rightarrow> resource_record \<Rightarrow> intake \<Rightarrow> string + string \<times> server_record option" where
  "migration_endpoints input resource s =
     (let org = mi_organizationId input;
          sourceServerId = (case rr_serverId resource of Some i \<Rightarrow> i | None \<Rightarrow> ''local'');
          targetServer = (if mi_targetServerId input = ''local'' then None
                          else findById sv_id (mi_targetServerId input) (it_servers s))
      in case checks
           [throw_if (case project_of s (rr_environmentId resource) of
                        Some p \<Rightarrow> pj_organizationId p \<noteq> org | None \<Rightarrow> True) ''Resource not found'',
            throw_if (mi_targetServerId input \<noteq> ''local'' \<and>
                      (case targetServer of Some t \<Rightarrow> sv_organizationId t \<noteq> org | None \<Rightarrow> True))
              ''Target server not found'',
            throw_if (sourceServerId \<noteq> ''local'' \<and>
                      (case findById sv_id sourceServerId (it_servers s) of
                         Some v \<Rightarrow> sv_organizationId v \<noteq> org | None \<Rightarrow> True)) ''Resource not found'',
            (case targetServer of
               Some t \<Rightarrow> assertDeploymentServerSupportsResource t (rr_type resource) | None \<Rightarrow> Inr ()),
            (case targetServer of
               Some t \<Rightarrow> throw_if (sv_status t \<noteq> ''ready'')
                 (''Target server '' @ sq (sv_name t) @ '' is not ready (status: '' @ sv_status t @ '')'')
             | None \<Rightarrow> Inr ()),
            throw_if (sourceServerId = mi_targetServerId input) ''Resource is already placed on the target server'',
            throw_if (list_ex (\<lambda>m. mg_status m \<notin> {MCompleted, MFailed, MCancelled})
                        (findMigrationsByResourceId (rr_id resource) 20 (it_migrations s)))
              ''Resource already has an active migration''] of
           Inl e \<Rightarrow> Inl e
         | Inr _ \<Rightarrow> Inr (sourceServerId, targetServer))"

definition migration_deployment :: "resource_record \<Rightarrow> string \<Rightarrow> server_record option \<Rightarrow> create_deployment" where
  "migration_deployment resource sourceServerId targetServer =
     (let target = (case targetServer of Some t \<Rightarrow> sv_id t | None \<Rightarrow> ''local'') in
      \<lparr>cd_id = None, cd_resourceId = rr_id resource,
       cd_title = ''Migrate from '' @ sourceServerId @ '' to '' @
         (case targetServer of Some t \<Rightarrow> sv_name t | None \<Rightarrow> ''local control plane''),
       cd_logs = ''Initiating migration pipeline for resource '' @ sq (rr_name resource) @ '' ('' @ rr_id resource @
         '')'' @ [CHR 0x0A] @ ''Source: '' @ sourceServerId @ [CHR 0x0A] @ ''Target: '' @ target @ [CHR 0x0A],
       cd_serverId = None, cd_serverName = None,
       cd_sourceRevision = Some (''migrate:'' @ sourceServerId @ ''->'' @ target), cd_maxAttempts = None\<rparr>)"

definition migrate_command :: "migrate_input \<Rightarrow> string \<Rightarrow> string \<Rightarrow> string \<Rightarrow> string \<Rightarrow> create_outbox_message" where
  "migrate_command input migrationId deploymentId resourceId sourceServerId =
     \<lparr>co_id = Some (''outbox-migrate-'' @ deploymentId), co_type = migrate_type,
      co_payload =
        optional_prop ''correlationId'' (mi_correlationId input) @
        [(''migrationId'', JStr migrationId), (''deploymentId'', JStr deploymentId),
         (''resourceId'', JStr resourceId), (''sourceServerId'', JStr sourceServerId),
         (''targetServerId'', JStr (mi_targetServerId input))],
      co_aggregateType = Some ''resource'', co_aggregateId = Some resourceId,
      co_organizationId = Some (mi_organizationId input),
      co_idempotencyKey = ''migration:'' @ deploymentId, co_maxAttempts = None, co_availableAt = None\<rparr>"

definition record_migration ::
  "migrate_input \<Rightarrow> string \<Rightarrow> resource_record \<Rightarrow> string \<times> server_record option \<Rightarrow> intake \<Rightarrow>
   string + migration \<times> intake" where
  "record_migration input uuid resource endpoints s =
     (case endpoints of (sourceServerId, targetServer) \<Rightarrow>
      case insertDeployment (migration_deployment resource sourceServerId targetServer) s of
        Inl e \<Rightarrow> Inl e
      | Inr (d, s1) \<Rightarrow>
          (case createMigration (it_clock s1)
                  \<lparr>cm_id = ''mig-'' @ uuid, cm_organizationId = mi_organizationId input,
                   cm_resourceId = rr_id resource, cm_deploymentId = dep_id d,
                   cm_sourceServerId = sourceServerId, cm_targetServerId = mi_targetServerId input,
                   cm_status = Some MQueued, cm_progress = Some 0, cm_checkpoint = None\<rparr> (it_migrations s1) of
             (Inl e, _) \<Rightarrow> Inl e
           | (Inr migration, migrations) \<Rightarrow>
               (case create uuid (it_clock s1)
                       (migrate_command input (mg_id migration) (dep_id d) (rr_id resource) sourceServerId)
                       (it_outbox s1) of
                  (Inl e, _) \<Rightarrow> Inl e
                | (Inr _, outbox) \<Rightarrow> Inr (migration, s1\<lparr>it_migrations := migrations, it_outbox := outbox\<rparr>))))"

definition migrateResource ::
  "control_plane_mode \<Rightarrow> migrate_input \<Rightarrow> string \<Rightarrow> intake \<Rightarrow> (string + migration) \<times> intake" where
  "migrateResource mode input uuid s =
     (case migration_mode_guards mode input of
        Inl e \<Rightarrow> (Inl e, s)
      | Inr _ \<Rightarrow>
          (case findById rr_id (mi_resourceId input) (it_resources s) of
             None \<Rightarrow> (Inl ''Resource not found'', s)
           | Some resource \<Rightarrow>
               (case migration_endpoints input resource s of
                  Inl e \<Rightarrow> (Inl e, s)
                | Inr endpoints \<Rightarrow>
                    (case record_migration input uuid resource endpoints s of
                       Inl e \<Rightarrow> (Inl e, s)
                     | Inr (migration, s') \<Rightarrow> (Inr migration, s')))))"

section \<open>Abandoned deployments\<close>

definition stale_after :: "surroundings \<Rightarrow> int \<Rightarrow> resource_record option \<Rightarrow> int" where
  "stale_after en fallbackSeconds resource =
     (case resource of
        Some r \<Rightarrow> re_staleAfterSeconds (parseResourceAdvancedConfig en (rr_advancedConfig r))
      | None \<Rightarrow> fallbackSeconds)"

definition heartbeat_of :: "deployment \<Rightarrow> int" where
  "heartbeat_of d = (case dep_heartbeatAt d of Some h \<Rightarrow> h | None \<Rightarrow> dep_updatedAt d)"

text \<open>One candidate: the identifier when it was marked, and the tables.\<close>

definition reconcile_one ::
  "surroundings \<Rightarrow> int \<Rightarrow> int \<Rightarrow> deployment \<Rightarrow> intake \<Rightarrow> string option \<times> intake" where
  "reconcile_one en now fallbackSeconds d s =
     (let resource = findById rr_id (dep_resourceId d) (it_resources s);
          staleAfterSeconds = stale_after en fallbackSeconds resource;
          staleBefore = now - staleAfterSeconds * 1000
      in if heartbeat_of d \<ge> staleBefore then (None, s)
         else case markStale (it_clock s) (dep_id d) staleBefore
                     (''Deployment worker heartbeat expired after '' @ show_int staleAfterSeconds @ '' seconds'')
                     (it_deployments s) of
             (None, _) \<Rightarrow> (None, s)
           | (Some _, deployments) \<Rightarrow>
               let s1 = s\<lparr>it_deployments := deployments\<rparr> in
               (Some (dep_id d),
                (case resource of
                   Some r \<Rightarrow>
                     if rr_status r = ''running''
                     then s1\<lparr>it_resources := snd (updateById rr_id (rr_id r) (\<lambda>x. x\<lparr>rr_status := ''stopped''\<rparr>)
                            (it_resources s1))\<rparr>
                     else s1
                 | None \<Rightarrow> s1)))"

fun reconcile_all ::
  "surroundings \<Rightarrow> int \<Rightarrow> int \<Rightarrow> deployment list \<Rightarrow> intake \<Rightarrow> string list \<times> intake" where
  "reconcile_all en now fallbackSeconds [] s = ([], s)"
| "reconcile_all en now fallbackSeconds (d # ds) s =
     (case reconcile_one en now fallbackSeconds d s of
        (m, s1) \<Rightarrow> (case reconcile_all en now fallbackSeconds ds s1 of
          (ms, s2) \<Rightarrow> ((case m of Some i \<Rightarrow> i # ms | None \<Rightarrow> ms), s2)))"

record reconcile_result =
  rz_inspected :: int
  rz_markedStale :: int
  rz_deploymentIds :: "string list"

definition reconcileStaleDeployments ::
  "surroundings \<Rightarrow> int \<Rightarrow> int option \<Rightarrow> int option \<Rightarrow> intake \<Rightarrow> (string + reconcile_result) \<times> intake" where
  "reconcileStaleDeployments en now fallbackStaleAfterSeconds limit s =
     (let fallbackSeconds = max 60 (min (or_default fallbackStaleAfterSeconds 1800) 86400) in
      case findStaleRunning (now - 86400 * 1000) (or_default limit 500) (it_deployments s) of
        Inl e \<Rightarrow> (Inl e, s)
      | Inr candidates \<Rightarrow>
          (case reconcile_all en now fallbackSeconds candidates s of
             (marked, s') \<Rightarrow>
               (Inr \<lparr>rz_inspected = len candidates, rz_markedStale = len marked, rz_deploymentIds = marked\<rparr>, s')))"

definition isDeploymentTerminal :: "deployment_status \<Rightarrow> bool" where
  "isDeploymentTerminal status \<longleftrightarrow> status \<in> {DSuccess, DFailed, DCancelled, DStale}"

end
