(* ===== verification/Intake_Guarantees.thy ===== *)
theory Intake_Guarantees
  imports Deployment_Intake Outbox_Guarantees
begin

text \<open>
  What the entry points guarantee: an accepted deployment is one queued row, one outbox message
  and one job of the queue of its server; what the scope token, the server sentinel and the
  missing deployment identifier lead to; and which abandoned deployments are repaired.
\<close>

section \<open>Reliability settings\<close>

lemma int_or_default_range:
  "int_or_default lo hi d v = Some n \<Longrightarrow> lo \<le> d \<Longrightarrow> d \<le> hi \<Longrightarrow> lo \<le> n \<and> n \<le> hi"
  by (auto simp: int_or_default_def split: jsval.splits if_splits)

lemma parse_reliability_range:
  assumes "parse_reliability v = Some r"
  shows "1 \<le> re_maxAttempts r" "re_maxAttempts r \<le> 10" "1 \<le> re_retryBaseSeconds r" "re_retryBaseSeconds r \<le> 300"
    "1 \<le> re_retryMaxSeconds r" "re_retryMaxSeconds r \<le> 3600" "60 \<le> re_staleAfterSeconds r"
    "re_staleAfterSeconds r \<le> 86400"
  using assms
  by (auto simp: parse_reliability_def default_reliability_def dest!: int_or_default_range
      split: jsval.splits option.splits if_splits)

lemma default_reliability_range:
  "parse_reliability JUndefined = Some default_reliability"
  by (simp add: parse_reliability_def)

lemma advanced_config_parsed:
  "\<exists>v. parse_reliability v = Some (parseResourceAdvancedConfig en c)"
  using default_reliability_range
  by (auto simp: parseResourceAdvancedConfig_def split: option.splits jsval.splits)

lemma advanced_config_range:
  "1 \<le> re_maxAttempts (parseResourceAdvancedConfig en c)" "re_maxAttempts (parseResourceAdvancedConfig en c) \<le> 10"
  "1 \<le> re_retryBaseSeconds (parseResourceAdvancedConfig en c)"
  "re_retryBaseSeconds (parseResourceAdvancedConfig en c) \<le> 300"
  "1 \<le> re_retryMaxSeconds (parseResourceAdvancedConfig en c)"
  "re_retryMaxSeconds (parseResourceAdvancedConfig en c) \<le> 3600"
  "re_staleAfterSeconds (parseResourceAdvancedConfig en c) \<le> 86400"
  using advanced_config_parsed [of en c] parse_reliability_range by blast+

section \<open>Payloads\<close>

lemma field_ok_show_int:
  "0 \<le> lo \<Longrightarrow> lo \<le> n \<Longrightarrow> n \<le> hi \<Longrightarrow> field_ok (IntField lo hi) (JNum (show_int n))"
  using show_nat_text [of "nat n"] decimal_show_int [of n] by (simp add: show_int_def)

lemma scope_identifier_nonempty: "DEPLOYMENT_SCOPE_IDENTIFIER_PATTERN i \<Longrightarrow> i \<noteq> []"
  by auto

lemma scope_token_identifiers:
  "createDeploymentScopeToken en now r d v = Inr t \<Longrightarrow> r \<noteq> [] \<and> d \<noteq> [] \<and> v \<noteq> []"
  by (auto simp: createDeploymentScopeToken_def throw_if_def split: if_splits sum.splits)

definition request_well_formed :: "queue_input \<Rightarrow> bool" where
  "request_well_formed input \<longleftrightarrow>
     (case qi_correlationId input of Some c \<Rightarrow> c \<noteq> [] \<and> len c \<le> 128 | None \<Rightarrow> True) \<and>
     qi_previewDeploymentId input \<noteq> Some [] \<and> qi_sourceRevision input \<noteq> Some []"

definition field_present :: "(string \<times> jsval) list \<Rightarrow> string \<times> bool \<times> field_type \<Rightarrow> bool" where
  "field_present v f =
     (case f of (k, opt, ty) \<Rightarrow> if get_prop v k = JUndefined then opt else field_ok ty (get_prop v k))"

lemma get_prop_Cons [simp]: "get_prop ((k, v) # m) j = (if j = k then v else get_prop m j)"
  by (simp add: get_prop_def)

lemma parse_object_accepts: "list_all (field_present v) fs \<Longrightarrow> parse_object fs v \<noteq> None"
  by (induction fs) (auto simp: field_present_def Let_def simp del: field_ok.simps split: if_splits)

lemma parse_object_props:
  "parse_object fs v = Some p \<Longrightarrow> get_prop p k = (if k \<in> fst ` set fs then get_prop v k else JUndefined)"
proof (induction fs arbitrary: p)
  case Nil
  then show ?case by simp
next
  case (Cons f fs)
  obtain j opt ty where f: "f = (j, opt, ty)" by (cases f) auto
  show ?case
  proof (cases "get_prop v j = JUndefined")
    case True
    with Cons.prems have "parse_object fs v = Some p" by (simp add: f split: if_splits)
    from Cons.IH [OF this] True show ?thesis by (auto simp: f)
  next
    case False
    with Cons.prems obtain q where "parse_object fs v = Some q" "p = (j, get_prop v j) # q"
      by (auto simp: f Let_def simp del: field_ok.simps split: if_splits)
    with Cons.IH [of q] show ?thesis by (auto simp: f)
  qed
qed

definition optional_js :: "string option \<Rightarrow> jsval" where
  "optional_js v = (case v of Some x \<Rightarrow> JStr x | None \<Rightarrow> JUndefined)"

lemma get_prop_optional [simp]:
  "get_prop (optional_prop k v @ m) j = (if j = k \<and> v \<noteq> None then optional_js v else get_prop m j)"
  by (cases v) (auto simp: optional_prop_def optional_js_def)

lemma command_props:
  fixes input r d v t re org
  defines "m \<equiv> co_payload (deploy_command input r d v t re org)"
  shows "get_prop m ''correlationId'' = optional_js (qi_correlationId input)"
    "get_prop m ''resourceId'' = JStr r" "get_prop m ''deploymentId'' = JStr d" "get_prop m ''serverId'' = JStr v"
    "get_prop m ''previewDeploymentId'' = optional_js (qi_previewDeploymentId input)"
    "get_prop m ''sourceRevision'' = optional_js (qi_sourceRevision input)"
    "get_prop m ''maxAttempts'' = JNum (show_int (re_maxAttempts re))"
    "get_prop m ''retryBaseSeconds'' = JNum (show_int (re_retryBaseSeconds re))"
    "get_prop m ''retryMaxSeconds'' = JNum (show_int (re_retryMaxSeconds re))"
  unfolding m_def deploy_command_def by (simp_all add: optional_js_def)

lemma deploy_command_published:
  assumes wf: "request_well_formed input" and ids: "r \<noteq> []" "d \<noteq> []" "v \<noteq> []"
    and re: "parse_reliability x = Some re" and "\<not> cancelled d"
  shows "\<exists>job. publish_job cancelled (new_message d now (deploy_command input r d v t re org)) = Inr (Some job) \<and>
    job_queue job = getDeploymentQueueName v \<and> job_id job = d \<and> job_attempts job = re_maxAttempts re"
proof -
  let ?m = "co_payload (deploy_command input r d v t re org)"
  note props = command_props [of input r d v t re org]
  note range = parse_reliability_range [OF re]
  have nums: "field_ok (IntField 1 10) (JNum (show_int (re_maxAttempts re)))"
    "field_ok (IntField 1 300) (JNum (show_int (re_retryBaseSeconds re)))"
    "field_ok (IntField 1 3600) (JNum (show_int (re_retryMaxSeconds re)))"
    using range by (simp_all only: field_ok_show_int zero_le_one)
  have "list_all (field_present ?m) deploymentPayloadSchema"
    using wf ids nums unfolding deploymentPayloadSchema_def correlation_field_def
    by (auto simp: field_present_def props optional_js_def request_well_formed_def
        simp del: field_ok.simps(2) split: option.splits)
  then obtain p where p: "parse_object deploymentPayloadSchema ?m = Some p"
    using parse_object_accepts by blast
  have q: "get_prop p ''deploymentId'' = JStr d" "get_prop p ''serverId'' = JStr v"
    "get_prop p ''maxAttempts'' = JNum (show_int (re_maxAttempts re))"
    by (simp_all add: parse_object_props [OF p] props deploymentPayloadSchema_def)
  have "om_payload (new_message d now (deploy_command input r d v t re org)) = ?m"
    "om_type (new_message d now (deploy_command input r d v t re org)) = deploy_type"
    "om_id (new_message d now (deploy_command input r d v t re org)) = d"
    by (simp_all add: new_message_def deploy_command_def or_default_def)
  then show ?thesis
    using p q assms(6) range(1) by (simp add: publish_job_def)
qed

section \<open>An accepted deployment\<close>

definition queued_id :: "queue_input \<Rightarrow> string \<Rightarrow> string" where
  "queued_id input uuid =
     (if given_string (qi_deploymentId input) then the (qi_deploymentId input) else ''dep-'' @ uuid)"

definition queued_server :: "resource_record \<Rightarrow> string" where
  "queued_server r = (if given_string (rr_serverId r) then the (rr_serverId r) else ''local'')"

lemma ensure_settings_keeps [simp]:
  "it_resources (ensure_settings t s) = it_resources s" "it_deployments (ensure_settings t s) = it_deployments s"
  "it_outbox (ensure_settings t s) = it_outbox s" "it_servers (ensure_settings t s) = it_servers s"
  "it_clock (ensure_settings t s) = it_clock s"
  by (cases t; simp add: ensure_settings_def createIfNotExists_def)+

lemma insertDeployment_result:
  assumes "insertDeployment data s = Inr (d, s')"
  shows "s' = s\<lparr>it_deployments := it_deployments s @ [d]\<rparr>" "cd_id data = Some (dep_id d)"
    "findById dep_id (dep_id d) (it_deployments s) = None" "server_exists (cd_serverId data) s"
    "dep_status d = DQueued" "dep_resourceId d = cd_resourceId data" "dep_serverId d = cd_serverId data"
    "dep_attempt d = 0" "dep_executionToken d = None" "dep_maxAttempts d = or_default (cd_maxAttempts data) 1"
  using assms by (auto simp: insertDeployment_def Let_def split: option.splits if_splits)

lemma resolve_target_result:
  assumes "resolve_target en r s = Inr ((v, name, ip), s')"
  shows "v = queued_server r \<and> it_deployments s' = it_deployments s \<and> it_outbox s' = it_outbox s \<and>
    it_servers s' = it_servers s \<and> it_clock s' = it_clock s \<and>
    (given_string (rr_serverId r) \<longrightarrow> s' = s \<and>
       (\<forall>server. findById sv_id v (it_servers s) = Some server \<longrightarrow> server_guards server = Inr ()))"
  using assms
  by (auto simp: resolve_target_def queued_server_def setResourceServer_def Let_def
      split: if_splits option.splits sum.splits)

lemma record_deployment_result:
  assumes R: "record_deployment en input uuid r project (v, name, ip) s = Inr (r', s')"
    and fresh: "''deployment:'' @ queued_id input uuid \<notin> om_idempotencyKey ` set (it_outbox s)"
  shows "\<exists>d t.
    it_deployments s' = it_deployments s @ [d] \<and> dep_id d = queued_id input uuid \<and> dep_status d = DQueued \<and>
    findById dep_id (dep_id d) (it_deployments s) = None \<and> server_exists (Some v) s \<and>
    dep_resourceId d = rr_id r \<and> dep_serverId d = Some v \<and> dep_attempt d = 0 \<and>
    dep_maxAttempts d = re_maxAttempts (parseResourceAdvancedConfig en (rr_advancedConfig r)) \<and>
    findById rr_id (rr_id r) (it_resources s') = Some r' \<and> rr_status r' = ''queued'' \<and> rr_id r' = rr_id r \<and>
    createDeploymentScopeToken en (it_clock s) (rr_id r) (dep_id d) v = Inr t \<and>
    (en_production en \<longrightarrow> given_string t) \<and>
    it_outbox s' = it_outbox s @ [new_message (dep_id d) (it_clock s)
      (deploy_command input (rr_id r) (dep_id d) v t (parseResourceAdvancedConfig en (rr_advancedConfig r))
         (map_option pj_organizationId project))]"
proof -
  let ?i = "queued_id input uuid" and ?re = "parseResourceAdvancedConfig en (rr_advancedConfig r)"
  from R obtain t d s1 resources outbox m where
    t: "createDeploymentScopeToken en (it_clock s) (rr_id r) ?i v = Inr t" "en_production en \<longrightarrow> given_string t"
    and ins: "insertDeployment
        \<lparr>cd_id = Some ?i, cd_resourceId = rr_id r,
         cd_title = (if given_string (qi_title input) then the (qi_title input) else ''Manual deployment''),
         cd_logs = ''Added to queue. Waiting for slot...'' @ [CHR 0x0A], cd_serverId = Some v,
         cd_serverName = Some name, cd_sourceRevision = qi_sourceRevision input,
         cd_maxAttempts = Some (re_maxAttempts ?re)\<rparr> s = Inr (d, s1)"
    and up: "updateById rr_id (rr_id r) (\<lambda>r. r\<lparr>rr_status := ''queued''\<rparr>) (it_resources s1) = (Some r', resources)"
    and cr: "create ?i (it_clock s1) (deploy_command input (rr_id r') ?i v t ?re (map_option pj_organizationId project))
        (it_outbox s1) = (Inr m, outbox)"
    and s': "s' = s1\<lparr>it_resources := resources, it_outbox := outbox\<rparr>"
    unfolding record_deployment_def queued_id_def prod.case Let_def
    by (auto split: sum.splits if_splits prod.splits option.splits)
  note row = insertDeployment_result [OF ins]
  have d: "dep_id d = ?i" using row(2) by simp
  have r': "findById rr_id (rr_id r) resources = Some r'" "rr_status r' = ''queued''" "rr_id r' = rr_id r"
    using up findById_key [of rr_id "rr_id r" "it_resources s1"]
    by (auto simp: updateById_def update_where_def findById_map split: option.splits)
  have "outbox = it_outbox s @ [new_message ?i (it_clock s)
      (deploy_command input (rr_id r) ?i v t ?re (map_option pj_organizationId project))]"
    using cr fresh r'(3)
    by (auto simp: row(1) create_def insert_message_def find_key_None new_message_def deploy_command_def
        or_default_def split: if_splits)
  then show ?thesis
    using row r' t d by (intro exI [of _ d] exI [of _ t]) (simp add: s' or_default_def)
qed

lemma queue_accepted:
  assumes "queueDeployment en mode input uuid s = (Inr r', s')"
    and "findById rr_id (qi_resourceId input) (it_resources s) = Some r"
  shows "\<exists>name ip s1. resolve_target en r s = Inr ((queued_server r, name, ip), s1) \<and>
    record_deployment en input uuid r (project_of s (rr_environmentId r)) (queued_server r, name, ip)
      (ensure_settings (queued_server r, name, ip) s1) = Inr (r', s') \<and>
    placement_guards mode r = Inr () \<and> validateDeploymentSource en s r mode = Inr () \<and>
    request_guards input (project_of s (rr_environmentId r)) = Inr ()"
proof -
  from assms obtain target s1 where
    t: "resolve_target en r s = Inr (target, s1)"
    and rec: "record_deployment en input uuid r (project_of s (rr_environmentId r)) target (ensure_settings target s1) =
      Inr (r', s')"
    and "checks [placement_guards mode r, validateDeploymentSource en s r mode,
      request_guards input (project_of s (rr_environmentId r))] = Inr ()"
    by (auto simp: queueDeployment_def queue_in_transaction_def Let_def simp del: checks.simps
        split: sum.splits prod.splits)
  moreover obtain v name ip where "target = (v, name, ip)" by (metis prod_cases3)
  ultimately show ?thesis using resolve_target_result [of en r s v name ip s1] by auto
qed

section \<open>Abandoned deployments\<close>

text \<open>The settings never reach below the day the query asks for.\<close>

lemma stale_after_at_most_a_day:
  "fallbackSeconds \<le> 86400 \<Longrightarrow> stale_after en fallbackSeconds r \<le> 86400"
  by (auto simp: stale_after_def advanced_config_range split: option.splits)

lemma heartbeat_of_stale: "stale_running t d \<longleftrightarrow> dep_status d = DRunning \<and> heartbeat_of d < t"
  by (auto simp: stale_running_def heartbeat_of_def split: option.splits)

definition marked_stale :: "deployment \<Rightarrow> deployment \<Rightarrow> bool" where
  "marked_stale d d' \<longleftrightarrow> dep_status d' = DStale \<and> dep_executionToken d' = None \<and> dep_heartbeatAt d' = None \<and>
     dep_id d' = dep_id d \<and> dep_resourceId d' = dep_resourceId d"

lemma reconcile_one_marks:
  assumes "findById dep_id (dep_id d) (it_deployments s) = Some d" "stale_running (now - 86400 * 1000) d"
    "fallbackSeconds \<le> 86400"
  shows "\<exists>d' s'. reconcile_one en now fallbackSeconds d s = (Some (dep_id d), s') \<and>
    findById dep_id (dep_id d) (it_deployments s') = Some d' \<and> marked_stale d d' \<and>
    (\<forall>j. j \<noteq> dep_id d \<longrightarrow> findById dep_id j (it_deployments s') = findById dep_id j (it_deployments s))"
proof -
  let ?after = "stale_after en fallbackSeconds (findById rr_id (dep_resourceId d) (it_resources s))"
  let ?msg = "''Deployment worker heartbeat expired after '' @ show_int ?after @ '' seconds''"
  let ?f = "\<lambda>d. d\<lparr>dep_status := DStale, dep_lastError := Some ?msg, dep_heartbeatAt := None,
              dep_executionToken := None, dep_updatedAt := it_clock s\<rparr>"
  have late: "heartbeat_of d < now - ?after * 1000" "stale_running (now - ?after * 1000) d"
    using assms(2) stale_after_at_most_a_day [OF assms(3), of en "findById rr_id (dep_resourceId d) (it_resources s)"]
    by (auto simp: heartbeat_of_stale)
  have mark: "markStale (it_clock s) (dep_id d) (now - ?after * 1000) ?msg (it_deployments s) =
      (Some (?f d), map (\<lambda>x. if dep_id x = dep_id d then ?f x else x) (it_deployments s))"
    unfolding markStale_def using assms(1) late(2) by (rule update_where_hit)
  have found: "findById dep_id j (map (\<lambda>x. if dep_id x = dep_id d then ?f x else x) (it_deployments s)) =
      (if j = dep_id d then Some (?f d) else findById dep_id j (it_deployments s))" for j
    using assms(1) by (subst findById_map) simp_all
  obtain s' where one: "reconcile_one en now fallbackSeconds d s = (Some (dep_id d), s')"
    and tbl: "it_deployments s' = map (\<lambda>x. if dep_id x = dep_id d then ?f x else x) (it_deployments s)"
    using late(1) mark by (auto simp: reconcile_one_def Let_def split: option.splits)
  show ?thesis
    by (rule exI [of _ "?f d"], rule exI [of _ s']) (simp add: one tbl found marked_stale_def)
qed

lemma reconcile_all_marks:
  assumes "list_all (\<lambda>d. findById dep_id (dep_id d) (it_deployments s) = Some d \<and> stale_running (now - 86400 * 1000) d) ds"
    "distinct (map dep_id ds)" "fallbackSeconds \<le> 86400"
  shows "\<exists>s'. reconcile_all en now fallbackSeconds ds s = (map dep_id ds, s') \<and>
    (\<forall>d\<in>set ds. \<exists>d'. findById dep_id (dep_id d) (it_deployments s') = Some d' \<and> marked_stale d d') \<and>
    (\<forall>j. j \<notin> dep_id ` set ds \<longrightarrow> findById dep_id j (it_deployments s') = findById dep_id j (it_deployments s))"
  using assms(1,2)
proof (induction ds arbitrary: s)
  case Nil
  then show ?case by simp
next
  case (Cons d ds)
  from Cons.prems have d: "findById dep_id (dep_id d) (it_deployments s) = Some d" "stale_running (now - 86400 * 1000) d"
    by auto
  obtain d' s1 where one: "reconcile_one en now fallbackSeconds d s = (Some (dep_id d), s1)"
    and d': "findById dep_id (dep_id d) (it_deployments s1) = Some d'" "marked_stale d d'"
    and rest: "\<forall>j. j \<noteq> dep_id d \<longrightarrow> findById dep_id j (it_deployments s1) = findById dep_id j (it_deployments s)"
    using reconcile_one_marks [OF d assms(3), of en] by blast
  have "list_all (\<lambda>d. findById dep_id (dep_id d) (it_deployments s1) = Some d \<and> stale_running (now - 86400 * 1000) d) ds"
    unfolding list_all_iff
  proof
    fix x assume x: "x \<in> set ds"
    then have "dep_id x \<in> dep_id ` set ds" by (rule imageI)
    moreover have "dep_id d \<notin> dep_id ` set ds" using Cons.prems(2) by simp
    ultimately have "dep_id x \<noteq> dep_id d" by metis
    then show "findById dep_id (dep_id x) (it_deployments s1) = Some x \<and> stale_running (now - 86400 * 1000) x"
      using Cons.prems(1) rest x by (simp add: list_all_iff)
  qed
  from Cons.IH [OF this] Cons.prems(2) obtain s' where
    all: "reconcile_all en now fallbackSeconds ds s1 = (map dep_id ds, s')"
    and marks: "\<forall>d\<in>set ds. \<exists>d'. findById dep_id (dep_id d) (it_deployments s') = Some d' \<and> marked_stale d d'"
    and frame: "\<forall>j. j \<notin> dep_id ` set ds \<longrightarrow> findById dep_id j (it_deployments s') = findById dep_id j (it_deployments s1)"
    by auto
  have "dep_id d \<notin> dep_id ` set ds" using Cons.prems(2) by simp
  then have "findById dep_id (dep_id d) (it_deployments s') = Some d'" using frame d'(1) by simp
  then show ?case
    using one all marks frame rest d'(2) by (intro exI [of _ s']) auto
qed

lemma distinct_key_found: "distinct (map key tbl) \<Longrightarrow> r \<in> set tbl \<Longrightarrow> findById key (key r) tbl = Some r"
  by (induction tbl) (auto simp: findById_def)

lemma candidates_of_table:
  assumes "findStaleRunning t limit tbl = Inr candidates" "distinct (map dep_id tbl)"
  shows "list_all (\<lambda>d. findById dep_id (dep_id d) tbl = Some d \<and> stale_running t d) candidates"
    "distinct (map dep_id candidates)"
proof -
  from assms(1) obtain n where c: "candidates = take n (order_desc dep_updatedAt (filter (stale_running t) tbl))"
    by (auto simp: findStaleRunning_def findMany_def assertBoundedRepositoryRead_def Let_def split: if_splits)
  show "list_all (\<lambda>d. findById dep_id (dep_id d) tbl = Some d \<and> stale_running t d) candidates"
    using assms(2) by (auto simp: c list_all_iff dest!: in_take_order intro: distinct_key_found)
  have "distinct (map dep_id (order_desc dep_updatedAt (filter (stale_running t) tbl)))"
    using distinct_map_filter [OF assms(2)] by (simp add: order_desc_def distinct_map)
  then show "distinct (map dep_id candidates)" unfolding c by (rule distinct_map_take)
qed

section \<open>Properties\<close>

text \<open>
  C38. An accepted deployment takes effect exactly once. The table of deployments grows by one
  queued row that any worker may claim, the resource is queued, its server exists and, when the
  resource names it, is ready, the project is not archived, and a desktop or cloud control
  plane never places it on itself. The outbox grows by one message, which the publisher turns
  into a job of the queue of that server with the attempts of the row, between one and ten.
\<close>

theorem queued_deployment_published:
  assumes accepted: "queueDeployment en mode input uuid s = (Inr r', s')"
    and r: "findById rr_id (qi_resourceId input) (it_resources s) = Some r"
    and fresh: "''deployment:'' @ queued_id input uuid \<notin> om_idempotencyKey ` set (it_outbox s)"
    and wf: "request_well_formed input" and "\<not> cancelled (queued_id input uuid)"
  shows "\<exists>d message job server.
    it_deployments s' = it_deployments s @ [d] \<and> dep_id d = queued_id input uuid \<and> dep_status d = DQueued \<and>
    claimable staleBefore d \<and> findById dep_id (dep_id d) (it_deployments s) = None \<and>
    findById rr_id (rr_id r) (it_resources s') = Some r' \<and> rr_status r' = ''queued'' \<and>
    findById sv_id (queued_server r) (it_servers s) = Some server \<and>
    (given_string (rr_serverId r) \<longrightarrow> sv_status server = ''ready'') \<and>
    (mode \<noteq> SelfHosted \<longrightarrow> \<not> local_or_manager (queued_server r)) \<and>
    (\<forall>p. project_of s (rr_environmentId r) = Some p \<longrightarrow> pj_archivedAt p = None) \<and>
    it_outbox s' = it_outbox s @ [message] \<and> om_status message = OPending \<and>
    publish_job cancelled message = Inr (Some job) \<and> job_queue job = getDeploymentQueueName (queued_server r) \<and>
    job_id job = dep_id d \<and> job_attempts job = dep_maxAttempts d \<and> 1 \<le> job_attempts job \<and> job_attempts job \<le> 10"
proof -
  let ?v = "queued_server r" and ?re = "parseResourceAdvancedConfig en (rr_advancedConfig r)"
  obtain name ip s1 where target: "resolve_target en r s = Inr ((?v, name, ip), s1)"
    and rec: "record_deployment en input uuid r (project_of s (rr_environmentId r)) (?v, name, ip)
      (ensure_settings (?v, name, ip) s1) = Inr (r', s')"
    and guards: "placement_guards mode r = Inr ()" "request_guards input (project_of s (rr_environmentId r)) = Inr ()"
    using queue_accepted [OF accepted r] by blast
  note kept = resolve_target_result [OF target]
  have "''deployment:'' @ queued_id input uuid \<notin> om_idempotencyKey ` set (it_outbox (ensure_settings (?v, name, ip) s1))"
    using fresh kept by simp
  from record_deployment_result [OF rec this] obtain d t where
    d: "it_deployments s' = it_deployments s @ [d]" "dep_id d = queued_id input uuid" "dep_status d = DQueued"
      "findById dep_id (dep_id d) (it_deployments s) = None" "dep_maxAttempts d = re_maxAttempts ?re"
    and exists: "server_exists (Some ?v) (ensure_settings (?v, name, ip) s1)"
    and r': "findById rr_id (rr_id r) (it_resources s') = Some r'" "rr_status r' = ''queued''"
    and tok: "createDeploymentScopeToken en (it_clock s) (rr_id r) (dep_id d) ?v = Inr t"
    and out: "it_outbox s' = it_outbox s @ [new_message (dep_id d) (it_clock s)
      (deploy_command input (rr_id r) (dep_id d) ?v t ?re (map_option pj_organizationId (project_of s (rr_environmentId r))))]"
    using kept by auto
  from exists kept obtain server where server: "findById sv_id ?v (it_servers s) = Some server"
    by (auto simp: server_exists_def)
  have ready: "given_string (rr_serverId r) \<longrightarrow> sv_status server = ''ready''"
    using kept server by (auto simp: server_guards_def)
  have remote: "mode \<noteq> SelfHosted \<longrightarrow> \<not> local_or_manager ?v"
    using guards(1) by (cases mode) (auto simp: placement_guards_def queued_server_def)
  have project: "\<forall>p. project_of s (rr_environmentId r) = Some p \<longrightarrow> pj_archivedAt p = None"
    using guards(2) by (auto simp: request_guards_def)
  obtain x where x: "parse_reliability x = Some ?re" using advanced_config_parsed by blast
  have "\<not> cancelled (dep_id d)" using assms(5) d(2) by simp
  from deploy_command_published [where cancelled = cancelled and d = "dep_id d" and r = "rr_id r" and v = ?v, OF wf _ _ _ x this]
    scope_token_identifiers [OF tok] obtain job where
    job: "publish_job cancelled (new_message (dep_id d) (it_clock s) (deploy_command input (rr_id r) (dep_id d) ?v t ?re
        (map_option pj_organizationId (project_of s (rr_environmentId r))))) = Inr (Some job)"
      "job_queue job = getDeploymentQueueName ?v" "job_id job = dep_id d" "job_attempts job = re_maxAttempts ?re"
    by blast
  have "claimable staleBefore d" using d(3) by (simp add: claimable_def)
  with d r' server ready remote project out job advanced_config_range(1,2) [of en "rr_advancedConfig r"]
  show ?thesis
    by (intro exI [of _ d] exI [of _ "new_message (dep_id d) (it_clock s) (deploy_command input (rr_id r) (dep_id d) ?v t ?re
        (map_option pj_organizationId (project_of s (rr_environmentId r))))"] exI [of _ job] exI [of _ server])
      (simp add: new_message_def)
qed

text \<open>
  The scope token never reaches the worker: whatever a deployment message carries, the
  published job has no \<open>dockerScopeToken\<close>, although the use case refuses in production to
  queue a deployment without one.
\<close>

theorem published_deployment_unscoped:
  assumes "publish_job cancelled message = Inr (Some job)" "om_type message = deploy_type"
  shows "get_prop (job_data job) ''dockerScopeToken'' = JUndefined"
proof -
  from assms obtain p where p: "parse_object deploymentPayloadSchema (om_payload message) = Some p" and "job_data job = p"
    by (auto simp: publish_job_def split: option.splits if_splits)
  then show ?thesis
    by (simp add: parse_object_props [OF p] deploymentPayloadSchema_def correlation_field_def)
qed

text \<open>
  A resource without a server cannot be deployed: the use case stores the sentinel
  \<open>local\<close> as its server, which no row of the server table is, so the foreign key refuses
  it, in every mode and for every request, and nothing changes.
\<close>

theorem local_deployment_refused:
  assumes "findById rr_id (qi_resourceId input) (it_resources s) = Some r" "\<not> given_string (rr_serverId r)"
    and "findById sv_id ''local'' (it_servers s) = None"
  shows "\<exists>e. queueDeployment en mode input uuid s = (Inl e, s)"
proof -
  have "rr_id r = qi_resourceId input" using findById_key [OF assms(1)] by simp
  then have "\<exists>e. resolve_target en r s = Inl e"
    using assms by (simp add: resolve_target_def setResourceServer_def server_exists_def)
  then show ?thesis
    using assms(1) by (auto simp: queueDeployment_def queue_in_transaction_def Let_def simp del: checks.simps
        split: sum.splits)
qed

text \<open>
  No migration can be requested: the deployment the use case records has no identifier, the
  column has no default, and the transaction fails whatever the input and the tables are.
\<close>

theorem migration_request_refused: "\<exists>e. migrateResource mode input uuid s = (Inl e, s)"
  by (auto simp: migrateResource_def record_migration_def migration_deployment_def insertDeployment_def Let_def
      split: sum.splits option.splits prod.splits)

text \<open>
  Reconciliation repairs exactly the running deployments whose last sign of life is more
  than a day old, up to the limit of the query: each becomes stale and loses its owner, every
  other deployment keeps its row, and the configured thresholds, all shorter, have no effect.
\<close>

theorem reconciliation_exact:
  assumes "distinct (map dep_id (it_deployments s))"
    and "findStaleRunning (now - 86400 * 1000) (or_default limit 500) (it_deployments s) = Inr candidates"
  shows "\<exists>result s'. reconcileStaleDeployments en now fallback limit s = (Inr result, s') \<and>
    rz_deploymentIds result = map dep_id candidates \<and> rz_markedStale result = rz_inspected result \<and>
    (\<forall>d\<in>set candidates. dep_status d = DRunning \<and> heartbeat_of d < now - 86400 * 1000 \<and>
       (\<exists>d'. findById dep_id (dep_id d) (it_deployments s') = Some d' \<and> marked_stale d d')) \<and>
    (\<forall>j. j \<notin> dep_id ` set candidates \<longrightarrow> findById dep_id j (it_deployments s') = findById dep_id j (it_deployments s))"
proof -
  let ?f = "max 60 (min (or_default fallback 1800) 86400)"
  note c = candidates_of_table [OF assms(2,1)]
  have "?f \<le> 86400" by simp
  from reconcile_all_marks [OF c this, of en] obtain s' where
    all: "reconcile_all en now ?f candidates s = (map dep_id candidates, s')"
    and marks: "\<forall>d\<in>set candidates. \<exists>d'. findById dep_id (dep_id d) (it_deployments s') = Some d' \<and> marked_stale d d'"
    and frame: "\<forall>j. j \<notin> dep_id ` set candidates \<longrightarrow> findById dep_id j (it_deployments s') = findById dep_id j (it_deployments s)"
    by blast
  have "\<forall>d\<in>set candidates. dep_status d = DRunning \<and> heartbeat_of d < now - 86400 * 1000"
    using c(1) by (auto simp: list_all_iff heartbeat_of_stale)
  moreover have "reconcileStaleDeployments en now fallback limit s =
      (Inr \<lparr>rz_inspected = len candidates, rz_markedStale = len (map dep_id candidates),
            rz_deploymentIds = map dep_id candidates\<rparr>, s')"
    unfolding reconcileStaleDeployments_def Let_def assms(2) using all by simp
  ultimately show ?thesis using marks frame by (simp add: len_def)
qed

section \<open>A database on a remote server\<close>

definition sample_surroundings :: surroundings where
  "sample_surroundings =
     \<lparr>en_json = (\<lambda>_. None), en_decrypt = (\<lambda>_. None), en_otherConfig = (\<lambda>_. True),
      en_scopeSecret = Inr (Some ''secret''), en_claims = (\<lambda>r d v a b. ''claims''), en_hmac = (\<lambda>k m. ''mac''),
      en_production = True, en_localTarget = (''here'', ''127.0.0.1'')\<rparr>"

definition sample_record :: resource_record where
  "sample_record =
     \<lparr>rr_id = ''r1'', rr_environmentId = ''e1'', rr_name = ''db'', rr_type = ''database'', rr_provider = ''raw'',
      rr_dockerImage = None, rr_credentials = None, rr_serverId = Some ''srv'', rr_buildServerId = None,
      rr_advancedConfig = None, rr_status = ''stopped''\<rparr>"

definition sample_server :: server_record where
  "sample_server =
     \<lparr>sv_id = ''srv'', sv_organizationId = ''org'', sv_name = ''one'', sv_ipAddress = ''10.0.0.2'',
      sv_serverType = ''deploy'', sv_status = ''ready'', sv_authType = ''key'', sv_sshKeyId = Some ''k'',
      sv_passwordCiphertext = None, sv_passwordIv = None, sv_passwordAuthTag = None, sv_passwordVersion = None\<rparr>"

definition sample_intake :: "deployment list \<Rightarrow> resource_record \<Rightarrow> intake" where
  "sample_intake ds r =
     \<lparr>it_resources = [r], it_servers = [sample_server], it_settings = [], it_gitProviders = [],
      it_environments = [], it_projects = [], it_deployments = ds, it_migrations = [], it_outbox = [],
      it_clock = 100000000\<rparr>"

definition sample_request :: queue_input where
  "sample_request =
     \<lparr>qi_resourceId = ''r1'', qi_correlationId = None, qi_title = None, qi_previewDeploymentId = None,
      qi_sourceRevision = None, qi_deploymentId = Some ''d9''\<rparr>"

theorem queued_deployment_published_witness:
  "\<exists>r' s'. queueDeployment sample_surroundings CloudMode sample_request ''u'' (sample_intake [] sample_record) = (Inr r', s') \<and>
     rr_status r' = ''queued'' \<and> length (it_deployments s') = 1 \<and> length (it_outbox s') = 1"
proof -
  let ?s = "sample_intake [] sample_record"
  have "\<exists>r' s'. queueDeployment sample_surroundings CloudMode sample_request ''u'' ?s = (Inr r', s')"
    by (rule exI, rule exI, code_simp)
  then obtain r' s' where acc: "queueDeployment sample_surroundings CloudMode sample_request ''u'' ?s = (Inr r', s')"
    by blast
  have "findById rr_id (qi_resourceId sample_request) (it_resources ?s) = Some sample_record"
    "''deployment:'' @ queued_id sample_request ''u'' \<notin> om_idempotencyKey ` set (it_outbox ?s)"
    "request_well_formed sample_request"
    by (simp_all add: sample_request_def sample_intake_def sample_record_def findById_def request_well_formed_def)
  from queued_deployment_published [where cancelled = "\<lambda>_. False" and staleBefore = 0, OF acc this]
  have "rr_status r' = ''queued''" "length (it_deployments s') = length (it_deployments ?s) + 1"
    "length (it_outbox s') = length (it_outbox ?s) + 1" by auto
  with acc show ?thesis by (simp add: sample_intake_def)
qed

definition sample_message :: outbox_message where
  "sample_message = new_message ''d9'' 0
     (deploy_command sample_request ''r1'' ''d9'' ''srv'' (Some ''v1.claims.mac'') default_reliability None)"

theorem published_deployment_unscoped_witness:
  "\<exists>job. publish_job (\<lambda>_. False) sample_message = Inr (Some job) \<and>
     get_prop (om_payload sample_message) ''dockerScopeToken'' = JStr ''v1.claims.mac'' \<and>
     get_prop (job_data job) ''dockerScopeToken'' = JUndefined"
proof -
  have "request_well_formed sample_request" by (simp add: request_well_formed_def sample_request_def)
  from deploy_command_published [where cancelled = "\<lambda>_. False" and r = "''r1''" and d = "''d9''" and v = "''srv''" and now = 0
      and t = "Some ''v1.claims.mac''" and org = None, OF this _ _ _ default_reliability_range]
  obtain job where job: "publish_job (\<lambda>_. False) sample_message = Inr (Some job)"
    unfolding sample_message_def by auto
  have "om_type sample_message = deploy_type"
    "get_prop (om_payload sample_message) ''dockerScopeToken'' = JStr ''v1.claims.mac''"
    by (simp_all add: sample_message_def new_message_def deploy_command_def sample_request_def optional_js_def)
  with published_deployment_unscoped [OF job] job show ?thesis by blast
qed

theorem local_deployment_refused_witness:
  "\<exists>e. queueDeployment sample_surroundings SelfHosted sample_request ''u''
     (sample_intake [] (sample_record\<lparr>rr_serverId := None\<rparr>)) =
     (Inl e, sample_intake [] (sample_record\<lparr>rr_serverId := None\<rparr>))"
  by (rule local_deployment_refused [where r = "sample_record\<lparr>rr_serverId := None\<rparr>"])
    (simp_all add: sample_request_def sample_intake_def sample_record_def sample_server_def findById_def given_string_def)

definition abandoned :: deployment where
  "abandoned = sample_deployment\<lparr>dep_id := ''old'', dep_status := DRunning, dep_heartbeatAt := Some 0\<rparr>"

definition silent :: deployment where
  "silent = sample_deployment\<lparr>dep_id := ''new'', dep_status := DRunning, dep_heartbeatAt := Some 50000000\<rparr>"

theorem reconciliation_exact_witness:
  "\<exists>result s'. reconcileStaleDeployments sample_surroundings 100000000 (Some 60) None
     (sample_intake [abandoned, silent] sample_record) = (Inr result, s') \<and>
     rz_deploymentIds result = [''old''] \<and> findById dep_id ''new'' (it_deployments s') = Some silent"
proof -
  let ?s = "sample_intake [abandoned, silent] sample_record"
  have c: "findStaleRunning (100000000 - 86400 * 1000) (or_default None 500) (it_deployments ?s) = Inr [abandoned]"
    by (simp add: findStaleRunning_def findMany_def assertBoundedRepositoryRead_def or_default_def sample_intake_def
        stale_running_def abandoned_def silent_def order_desc_def MAX_REPOSITORY_READS_def len_def)
  have "distinct (map dep_id (it_deployments ?s))"
    by (simp add: sample_intake_def abandoned_def silent_def)
  from reconciliation_exact [OF this c, of sample_surroundings "Some 60"] obtain result s' where
    run: "reconcileStaleDeployments sample_surroundings 100000000 (Some 60) None ?s = (Inr result, s')"
      "rz_deploymentIds result = map dep_id [abandoned]"
    and frame: "\<forall>j. j \<notin> dep_id ` set [abandoned] \<longrightarrow>
      findById dep_id j (it_deployments s') = findById dep_id j (it_deployments ?s)" by blast
  have "findById dep_id ''new'' (it_deployments s') = Some silent"
    using frame by (simp add: sample_intake_def abandoned_def silent_def findById_def)
  with run show ?thesis by (auto simp: abandoned_def)
qed

end
