(* ===== verification/Redis_Server.thy ===== *)
theory Redis_Server
  imports Prelude
begin

text \<open>
  The Redis server, as the code uses it. Redis is not part of the repository: the commands are
  the fields of a record, an argument of every definition that calls them, and the locale
  \<open>redis_server\<close> states their documented behaviour over the entries a server stores, each a
  value with an optional deadline. Scripts run atomically, so a script is a function of the
  commands it calls. The locale is interpreted on the map of entries itself.
\<close>

section \<open>Commands\<close>

text \<open>Every command takes the time at which the server executes it.\<close>

record 'r redis_api =
  rx_get :: "string \<Rightarrow> int \<Rightarrow> 'r \<Rightarrow> string option"
  rx_set_nx_px :: "string \<Rightarrow> string \<Rightarrow> int \<Rightarrow> int \<Rightarrow> 'r \<Rightarrow> bool \<times> 'r"
  rx_pexpire :: "string \<Rightarrow> int \<Rightarrow> int \<Rightarrow> 'r \<Rightarrow> bool \<times> 'r"
  rx_del :: "string \<Rightarrow> int \<Rightarrow> 'r \<Rightarrow> bool \<times> 'r"
  rx_incrby :: "string \<Rightarrow> int \<Rightarrow> int \<Rightarrow> 'r \<Rightarrow> int \<times> 'r"
  rx_expire :: "string \<Rightarrow> int \<Rightarrow> int \<Rightarrow> 'r \<Rightarrow> bool \<times> 'r"
  rx_set_ex :: "string \<Rightarrow> string \<Rightarrow> int \<Rightarrow> int \<Rightarrow> 'r \<Rightarrow> 'r"

type_synonym redis_entry = "string \<times> int option"

definition live :: "redis_entry option \<Rightarrow> int \<Rightarrow> string option" where
  "live e now =
     (case e of
        None \<Rightarrow> None
      | Some (v, None) \<Rightarrow> Some v
      | Some (v, Some deadline) \<Rightarrow> if now < deadline then Some v else None)"

text \<open>An empty text counts as absent where the code tests \<open>!value\<close>.\<close>

definition filled :: "string option \<Rightarrow> string option" where
  "filled v = (case v of Some s \<Rightarrow> if s = [] then None else Some s | None \<Rightarrow> None)"

text \<open>\<open>tonumber(redis.call("GET", key) or "0")\<close>.\<close>

definition number_of :: "string option \<Rightarrow> int" where
  "number_of v = (case v of None \<Rightarrow> 0 | Some s \<Rightarrow> decimal s)"

section \<open>The documented behaviour\<close>

locale redis_server =
  fixes api :: "'r redis_api"
    and entry :: "'r \<Rightarrow> string \<Rightarrow> redis_entry option"
  assumes get: "rx_get api k now r = live (entry r k) now"
    and set_free: "live (entry r k) now = None \<Longrightarrow>
      fst (rx_set_nx_px api k v ttl now r) \<and>
      entry (snd (rx_set_nx_px api k v ttl now r)) = (entry r)(k \<mapsto> (v, Some (now + ttl)))"
    and set_taken: "live (entry r k) now \<noteq> None \<Longrightarrow> rx_set_nx_px api k v ttl now r = (False, r)"
    and pexpire: "live (entry r k) now = Some v \<Longrightarrow>
      fst (rx_pexpire api k ttl now r) \<and>
      entry (snd (rx_pexpire api k ttl now r)) = (entry r)(k \<mapsto> (v, Some (now + ttl)))"
    and del: "live (entry r k) now = Some v \<Longrightarrow>
      fst (rx_del api k now r) \<and> entry (snd (rx_del api k now r)) = (entry r)(k := None)"
    and incrby: "0 \<le> number_of (live (entry r k) now) + d \<Longrightarrow>
      fst (rx_incrby api k d now r) = number_of (live (entry r k) now) + d \<and>
      entry (snd (rx_incrby api k d now r)) =
        (entry r)(k \<mapsto> (show_int (number_of (live (entry r k) now) + d),
          if live (entry r k) now = None then None else snd (the (entry r k))))"
    and expire: "live (entry r k) now = Some v \<Longrightarrow> 0 < seconds \<Longrightarrow>
      entry (snd (rx_expire api k seconds now r)) = (entry r)(k \<mapsto> (v, Some (now + seconds * 1000)))"
    and del_gone: "live (entry r k) now = None \<Longrightarrow>
      \<not> fst (rx_del api k now r) \<and> entry (snd (rx_del api k now r)) = (entry r)(k := None)"
    and set_ex: "0 < seconds \<Longrightarrow>
      entry (rx_set_ex api k v seconds now r) = (entry r)(k \<mapsto> (v, Some (now + seconds * 1000)))"

section \<open>The map of entries is a server\<close>

definition map_redis :: "(string \<Rightarrow> redis_entry option) redis_api" where
  "map_redis =
     \<lparr>rx_get = (\<lambda>k now r. live (r k) now),
      rx_set_nx_px = (\<lambda>k v ttl now r.
        if live (r k) now = None then (True, r(k \<mapsto> (v, Some (now + ttl)))) else (False, r)),
      rx_pexpire = (\<lambda>k ttl now r.
        case live (r k) now of None \<Rightarrow> (False, r) | Some v \<Rightarrow> (True, r(k \<mapsto> (v, Some (now + ttl))))),
      rx_del = (\<lambda>k now r. case live (r k) now of None \<Rightarrow> (False, r(k := None)) | Some _ \<Rightarrow> (True, r(k := None))),
      rx_incrby = (\<lambda>k d now r.
        let n = number_of (live (r k) now) + d in
        (n, r(k \<mapsto> (show_int n, if live (r k) now = None then None else snd (the (r k)))))),
      rx_expire = (\<lambda>k seconds now r.
        case live (r k) now of
          None \<Rightarrow> (False, r) | Some v \<Rightarrow> (True, r(k \<mapsto> (v, Some (now + seconds * 1000))))),
      rx_set_ex = (\<lambda>k v seconds now r. r(k \<mapsto> (v, Some (now + seconds * 1000))))\<rparr>"

interpretation map_redis: redis_server map_redis "\<lambda>r. r"
  by unfold_locales (auto simp: map_redis_def Let_def split: option.splits)

text \<open>A server that keeps its entries in a list.\<close>

definition list_redis :: "(string \<times> redis_entry) list redis_api" where
  "list_redis =
     \<lparr>rx_get = (\<lambda>k now r. live (map_of r k) now),
      rx_set_nx_px = (\<lambda>k v ttl now r.
        if live (map_of r k) now = None then (True, (k, v, Some (now + ttl)) # r) else (False, r)),
      rx_pexpire = (\<lambda>k ttl now r.
        case live (map_of r k) now of None \<Rightarrow> (False, r) | Some v \<Rightarrow> (True, (k, v, Some (now + ttl)) # r)),
      rx_del = (\<lambda>k now r. (live (map_of r k) now \<noteq> None, filter (\<lambda>p. fst p \<noteq> k) r)),
      rx_incrby = (\<lambda>k d now r.
        let n = number_of (live (map_of r k) now) + d in
        (n, (k, show_int n, if live (map_of r k) now = None then None else snd (the (map_of r k))) # r)),
      rx_expire = (\<lambda>k seconds now r.
        case live (map_of r k) now of
          None \<Rightarrow> (False, r) | Some v \<Rightarrow> (True, (k, v, Some (now + seconds * 1000)) # r)),
      rx_set_ex = (\<lambda>k v seconds now r. (k, v, Some (now + seconds * 1000)) # r)\<rparr>"

lemma map_of_without: "map_of (filter (\<lambda>p. fst p \<noteq> k) r) = (map_of r)(k := None)"
  by (induction r) auto

interpretation list_redis: redis_server list_redis map_of
  by unfold_locales (auto simp: list_redis_def Let_def map_of_without split: option.splits)

text \<open>Values and time.\<close>

lemma live_later: "live e t = None \<Longrightarrow> t \<le> t' \<Longrightarrow> live e t' = None"
  by (auto simp: live_def split: option.splits if_splits)

lemma live_simps [simp]:
  "live None t = None" "live (Some (v, None)) t = Some v"
  "live (Some (v, Some d)) t = (if t < d then Some v else None)"
  by (simp_all add: live_def)

lemma number_of_simps [simp]: "number_of None = 0" "number_of (Some v) = decimal v"
  by (simp_all add: number_of_def)

end
