(* ===== verification/Redis_Locks.thy ===== *)
theory Redis_Locks
  imports Redis_Server
begin

text \<open>
  Leases in Redis: the renewable lock that serializes deployments of a resource
  (\<open>usecases/src/deployment/resource-lock.ts\<close>) and the lock of a backup schedule
  (\<open>usecases/src/backup/backup-run-lock.ts\<close>). A command may stay unanswered until its timeout,
  executed or not; the caller then sees an error. The renewal timer is a step of its own.
\<close>

section \<open>Commands with a timeout\<close>

datatype fate = Answered | TimedOut bool

definition withTimeout :: "fate \<Rightarrow> string \<Rightarrow> 'a \<times> 'r \<Rightarrow> 'r \<Rightarrow> (string + 'a) \<times> 'r" where
  "withTimeout f message op r =
     (case f of
        Answered \<Rightarrow> (Inr (fst op), snd op)
      | TimedOut executed \<Rightarrow> (Inl message, if executed then snd op else r))"

definition RENEW_SCRIPT :: "'r redis_api \<Rightarrow> string \<Rightarrow> string \<Rightarrow> int \<Rightarrow> int \<Rightarrow> 'r \<Rightarrow> bool \<times> 'r" where
  "RENEW_SCRIPT api key token ttlMs now r =
     (if rx_get api key now r = Some token then rx_pexpire api key ttlMs now r else (False, r))"

definition RELEASE_SCRIPT :: "'r redis_api \<Rightarrow> string \<Rightarrow> string \<Rightarrow> int \<Rightarrow> 'r \<Rightarrow> bool \<times> 'r" where
  "RELEASE_SCRIPT api key token now r =
     (if rx_get api key now r = Some token then rx_del api key now r else (False, r))"

section \<open>The lock of a resource\<close>

record resource_lock =
  lk_redis :: bool
  lk_key :: string
  lk_token :: string
  lk_ttlMs :: int
  lk_timer :: bool
  lk_renewalError :: "string option"

record resource_lock_options =
  lo_ttlMs :: "int option"
  lo_renewIntervalMs :: "int option"
  lo_operationTimeoutMs :: "int option"

definition resource_lock_timeout :: string where
  "resource_lock_timeout = ''Resource lock Redis operation timed out''"

definition option_or :: "'a option \<Rightarrow> 'a \<Rightarrow> 'a" where
  "option_or x d = (case x of Some v \<Rightarrow> v | None \<Rightarrow> d)"

definition acquire ::
  "'r redis_api \<Rightarrow> fate \<Rightarrow> string \<Rightarrow> resource_lock_options \<Rightarrow> string \<Rightarrow> int \<Rightarrow> 'r \<Rightarrow>
   (string + resource_lock option) \<times> 'r" where
  "acquire api f key options uuid now r =
     (let ttlMs = option_or (lo_ttlMs options) 120000;
          renewIntervalMs = option_or (lo_renewIntervalMs options) 30000;
          operationTimeoutMs = option_or (lo_operationTimeoutMs options) 2000
      in if ttlMs \<le> 0 \<or> renewIntervalMs \<le> 0 \<or> renewIntervalMs \<ge> ttlMs \<or> operationTimeoutMs \<le> 0
         then (Inl ''Resource lock timing values must be positive and renewal must be less than TTL'', r)
         else case withTimeout f resource_lock_timeout (rx_set_nx_px api key uuid ttlMs now r) r of
             (Inl e, r') \<Rightarrow> (Inl e, r')
           | (Inr acquired, r') \<Rightarrow>
               (Inr (if acquired
                     then Some \<lparr>lk_redis = True, lk_key = key, lk_token = uuid, lk_ttlMs = ttlMs,
                                lk_timer = True, lk_renewalError = None\<rparr>
                     else None), r'))"

definition acquireLocal ::
  "string \<Rightarrow> string \<Rightarrow> (string \<rightharpoonup> string) \<Rightarrow> resource_lock option \<times> (string \<rightharpoonup> string)" where
  "acquireLocal key uuid localLocks =
     (if localLocks key \<noteq> None then (None, localLocks)
      else (Some \<lparr>lk_redis = False, lk_key = key, lk_token = uuid, lk_ttlMs = 0, lk_timer = True,
                  lk_renewalError = None\<rparr>, localLocks(key \<mapsto> uuid)))"

definition assertOwned :: "resource_lock \<Rightarrow> string + unit" where
  "assertOwned lock =
     (case lk_renewalError lock of
        Some e \<Rightarrow> Inl (''Lost resource deployment lock '' @ sq (lk_key lock) @ '': '' @ e)
      | None \<Rightarrow> Inr ())"

definition renew :: "'r redis_api \<Rightarrow> fate \<Rightarrow> int \<Rightarrow> resource_lock \<Rightarrow> 'r \<Rightarrow> resource_lock \<times> 'r" where
  "renew api f now lock r =
     (if \<not> lk_redis lock \<or> lk_renewalError lock \<noteq> None then (lock, r)
      else case withTimeout f resource_lock_timeout
                  (RENEW_SCRIPT api (lk_key lock) (lk_token lock) (lk_ttlMs lock) now r) r of
          (Inl e, r') \<Rightarrow> (lock\<lparr>lk_renewalError := Some e, lk_timer := False\<rparr>, r')
        | (Inr renewed, r') \<Rightarrow>
            ((if renewed then lock
              else lock\<lparr>lk_renewalError := Some ''lease is no longer owned by this worker'', lk_timer := False\<rparr>),
             r'))"

definition release ::
  "'r redis_api \<Rightarrow> fate \<Rightarrow> int \<Rightarrow> resource_lock \<Rightarrow> (string \<rightharpoonup> string) \<Rightarrow> 'r \<Rightarrow>
   (string + unit) \<times> resource_lock \<times> (string \<rightharpoonup> string) \<times> 'r" where
  "release api f now lock localLocks r =
     (let lock' = lock\<lparr>lk_timer := False\<rparr> in
      if \<not> lk_redis lock then
        (Inr (), lock',
         (if localLocks (lk_key lock) = Some (lk_token lock) then localLocks(lk_key lock := None) else localLocks), r)
      else case withTimeout f resource_lock_timeout
                  (RELEASE_SCRIPT api (lk_key lock) (lk_token lock) now r) r of
          (Inl e, r') \<Rightarrow> (Inl e, lock', localLocks, r')
        | (Inr _, r') \<Rightarrow> (Inr (), lock', localLocks, r'))"

section \<open>The lock of a backup schedule\<close>

definition BACKUP_LOCK_TTL_MS :: int where
  "BACKUP_LOCK_TTL_MS = 6 * 60 * 60 * 1000"

definition backup_lock_timeout :: string where
  "backup_lock_timeout = ''Backup lock Redis operation timed out''"

definition backupRunLockKey :: "string \<Rightarrow> string" where
  "backupRunLockKey scheduleId = ''upstand:backup:run:'' @ scheduleId"

definition acquireBackupRunLock ::
  "'r redis_api \<Rightarrow> fate \<Rightarrow> string \<Rightarrow> string \<Rightarrow> int \<Rightarrow> 'r \<Rightarrow> (string + bool) \<times> 'r" where
  "acquireBackupRunLock api f scheduleId runId now r =
     withTimeout f backup_lock_timeout
       (rx_set_nx_px api (backupRunLockKey scheduleId) runId BACKUP_LOCK_TTL_MS now r) r"

definition renewBackupRunLock ::
  "'r redis_api \<Rightarrow> fate \<Rightarrow> string \<Rightarrow> string \<Rightarrow> int \<Rightarrow> 'r \<Rightarrow> (string + bool) \<times> 'r" where
  "renewBackupRunLock api f scheduleId runId now r =
     withTimeout f backup_lock_timeout
       (RENEW_SCRIPT api (backupRunLockKey scheduleId) runId BACKUP_LOCK_TTL_MS now r) r"

definition ensureBackupRunLock ::
  "'r redis_api \<Rightarrow> fate \<Rightarrow> fate \<Rightarrow> string \<Rightarrow> string \<Rightarrow> int \<Rightarrow> 'r \<Rightarrow> (string + bool) \<times> 'r" where
  "ensureBackupRunLock api f1 f2 scheduleId runId now r =
     (case renewBackupRunLock api f1 scheduleId runId now r of
        (Inl e, r1) \<Rightarrow> (Inl e, r1)
      | (Inr True, r1) \<Rightarrow> (Inr True, r1)
      | (Inr False, r1) \<Rightarrow> acquireBackupRunLock api f2 scheduleId runId now r1)"

definition releaseBackupRunLock ::
  "'r redis_api \<Rightarrow> fate \<Rightarrow> string \<Rightarrow> string \<Rightarrow> int \<Rightarrow> 'r \<Rightarrow> (string + unit) \<times> 'r" where
  "releaseBackupRunLock api f scheduleId runId now r =
     (case withTimeout f backup_lock_timeout
             (RELEASE_SCRIPT api (backupRunLockKey scheduleId) runId now r) r of
        (Inl e, r') \<Rightarrow> (Inl e, r')
      | (Inr _, r') \<Rightarrow> (Inr (), r'))"

section \<open>Scripts over a server\<close>

context redis_server
begin

lemma renew_script:
  "live (entry r k) now = Some token \<Longrightarrow>
   fst (RENEW_SCRIPT api k token ttl now r) \<and>
   entry (snd (RENEW_SCRIPT api k token ttl now r)) = (entry r)(k \<mapsto> (token, Some (now + ttl)))"
  "live (entry r k) now \<noteq> Some token \<Longrightarrow> RENEW_SCRIPT api k token ttl now r = (False, r)"
  by (auto simp: RENEW_SCRIPT_def get dest: pexpire)

lemma release_script:
  "live (entry r k) now = Some token \<Longrightarrow>
   entry (snd (RELEASE_SCRIPT api k token now r)) = (entry r)(k := None)"
  "live (entry r k) now \<noteq> Some token \<Longrightarrow> RELEASE_SCRIPT api k token now r = (False, r)"
  by (auto simp: RELEASE_SCRIPT_def get dest: del)

text \<open>An operation under one token never disturbs the live lease of another.\<close>

lemma other_token_kept:
  assumes "live (entry r k) now = Some owner" "token \<noteq> owner"
  shows "snd (withTimeout f m (rx_set_nx_px api k token ttl now r) r) = r"
    "snd (withTimeout f m (RENEW_SCRIPT api k token ttl now r) r) = r"
    "snd (withTimeout f m (RELEASE_SCRIPT api k token now r) r) = r"
  using assms
  by (auto simp: withTimeout_def set_taken renew_script(2) release_script(2) split: fate.splits)

end

section \<open>Workers competing for a resource\<close>

text \<open>
  A worker that holds a lock object, with the time its lease was last taken or renewed. All
  workers use the same key; their tokens are the fresh uuids of \<open>acquire\<close>.
\<close>

record 'r lock_world =
  lw_redis :: 'r
  lw_now :: int
  lw_holders :: "nat \<rightharpoonup> resource_lock \<times> int"
  lw_tokens :: "string set"

inductive lock_step :: "'r redis_api \<Rightarrow> string \<Rightarrow> 'r lock_world \<Rightarrow> 'r lock_world \<Rightarrow> bool"
  for api key where
  wait: "lw_now w \<le> now \<Longrightarrow> lock_step api key w (w\<lparr>lw_now := now\<rparr>)"
| acquire: "lw_holders w i = None \<Longrightarrow> uuid \<notin> lw_tokens w \<Longrightarrow>
    acquire api f key options uuid (lw_now w) (lw_redis w) = (res, r) \<Longrightarrow>
    lock_step api key w
      (w\<lparr>lw_redis := r, lw_tokens := insert uuid (lw_tokens w),
         lw_holders := (case res of Inr (Some lock) \<Rightarrow> (lw_holders w)(i \<mapsto> (lock, lw_now w)) | _ \<Rightarrow> lw_holders w)\<rparr>)"
| renew: "lw_holders w i = Some (lock, since) \<Longrightarrow>
    renew api f (lw_now w) lock (lw_redis w) = (lock', r) \<Longrightarrow>
    lock_step api key w
      (w\<lparr>lw_redis := r, lw_holders := (lw_holders w)(i \<mapsto>
         (lock', if lk_renewalError lock' = None then lw_now w else since))\<rparr>)"
| release: "lw_holders w i = Some (lock, since) \<Longrightarrow>
    release api f (lw_now w) lock Map.empty (lw_redis w) = (res, lock', ll, r) \<Longrightarrow>
    lock_step api key w (w\<lparr>lw_redis := r, lw_holders := (lw_holders w)(i := None)\<rparr>)"

text \<open>The lock object reports no loss and its lease has not run out.\<close>

definition holds_lease :: "'r lock_world \<Rightarrow> nat \<Rightarrow> bool" where
  "holds_lease w i \<longleftrightarrow>
     (\<exists>lock since. lw_holders w i = Some (lock, since) \<and> assertOwned lock = Inr () \<and>
        lw_now w < since + lk_ttlMs lock)"

definition slot_ok ::
  "('r \<Rightarrow> string \<Rightarrow> redis_entry option) \<Rightarrow> string \<Rightarrow> int \<Rightarrow> 'r \<Rightarrow> resource_lock \<Rightarrow> int \<Rightarrow> bool" where
  "slot_ok entry key now r lock since \<longleftrightarrow>
     lk_redis lock \<and> lk_key lock = key \<and> since \<le> now \<and>
     (lk_renewalError lock = None \<and> now < since + lk_ttlMs lock \<longrightarrow>
        (\<exists>d. entry r key = Some (lk_token lock, Some d) \<and> since + lk_ttlMs lock \<le> d))"

definition lock_world_ok :: "('r \<Rightarrow> string \<Rightarrow> redis_entry option) \<Rightarrow> string \<Rightarrow> 'r lock_world \<Rightarrow> bool" where
  "lock_world_ok entry key w \<longleftrightarrow>
     (\<forall>i lock since. lw_holders w i = Some (lock, since) \<longrightarrow>
        slot_ok entry key (lw_now w) (lw_redis w) lock since \<and> lk_token lock \<in> lw_tokens w) \<and>
     (\<forall>i j lock lock' since since'. lw_holders w i = Some (lock, since) \<longrightarrow>
        lw_holders w j = Some (lock', since') \<longrightarrow> lk_token lock' = lk_token lock \<longrightarrow> j = i)"

lemma lock_world_slot:
  assumes "lock_world_ok entry key w" "lw_holders w i = Some (lock, since)"
  shows "slot_ok entry key (lw_now w) (lw_redis w) lock since" "lk_token lock \<in> lw_tokens w"
  using assms by (auto simp: lock_world_ok_def)

lemma lock_world_unique:
  "lock_world_ok entry key w \<Longrightarrow> lw_holders w i = Some (lock, since) \<Longrightarrow>
   lw_holders w j = Some (lock', since') \<Longrightarrow> lk_token lock' = lk_token lock \<Longrightarrow> j = i"
  unfolding lock_world_ok_def by blast

text \<open>A holder whose lease is running is the live owner of the key.\<close>

lemma slot_live:
  assumes "slot_ok entry key now r lock since" "lk_renewalError lock = None" "now < since + lk_ttlMs lock"
  shows "live (entry r key) now = Some (lk_token lock)"
  using assms by (auto simp: slot_ok_def live_def)

lemma slot_ok_same_server:
  assumes "slot_ok entry key now r lock since"
    and "live (entry r key) now = Some (lk_token lock) \<Longrightarrow> entry r' key = entry r key"
  shows "slot_ok entry key now r' lock since"
  using assms slot_live [OF assms(1)] by (auto simp: slot_ok_def)

text \<open>A step that changes what one worker holds.\<close>

lemma lock_world_update:
  assumes "lock_world_ok entry key w" "lw_now w' = lw_now w" "lw_tokens w \<subseteq> lw_tokens w'"
    and "lw_holders w' = (lw_holders w)(i := x)"
    and old: "\<And>j lock since. j \<noteq> i \<Longrightarrow> lw_holders w j = Some (lock, since) \<Longrightarrow>
      slot_ok entry key (lw_now w) (lw_redis w') lock since"
    and new: "\<And>lock since. x = Some (lock, since) \<Longrightarrow>
      slot_ok entry key (lw_now w) (lw_redis w') lock since \<and> lk_token lock \<in> lw_tokens w' \<and>
      (\<forall>j lock' since'. j \<noteq> i \<longrightarrow> lw_holders w j = Some (lock', since') \<longrightarrow> lk_token lock' \<noteq> lk_token lock)"
  shows "lock_world_ok entry key w'"
  unfolding lock_world_ok_def
proof (intro conjI allI impI)
  have now: "lw_holders w' i = x" and before: "\<And>j. j \<noteq> i \<Longrightarrow> lw_holders w' j = lw_holders w j"
    using assms(4) by simp_all
  fix j lock since assume h: "lw_holders w' j = Some (lock, since)"
  show "slot_ok entry key (lw_now w') (lw_redis w') lock since"
  proof (cases "j = i")
    case True
    with new h now show ?thesis by (metis assms(2))
  next
    case False
    with old h before show ?thesis by (metis assms(2))
  qed
  show "lk_token lock \<in> lw_tokens w'"
  proof (cases "j = i")
    case True
    with new h now show ?thesis by metis
  next
    case False
    with lock_world_slot(2) [OF assms(1)] h before assms(3) show ?thesis by (metis subsetD)
  qed
next
  have now: "lw_holders w' i = x" and before: "\<And>j. j \<noteq> i \<Longrightarrow> lw_holders w' j = lw_holders w j"
    using assms(4) by simp_all
  fix j1 j2 l1 l2 s1 s2
  assume h: "lw_holders w' j1 = Some (l1, s1)" "lw_holders w' j2 = Some (l2, s2)" "lk_token l2 = lk_token l1"
  consider "j1 = i" "j2 = i" | "j1 = i" "j2 \<noteq> i" | "j1 \<noteq> i" "j2 = i" | "j1 \<noteq> i" "j2 \<noteq> i" by blast
  then show "j2 = j1"
  proof cases
    case 2
    then have "x = Some (l1, s1)" "lw_holders w j2 = Some (l2, s2)" using h now before by auto
    with new [OF this(1)] 2 h(3) show ?thesis by blast
  next
    case 3
    then have "x = Some (l2, s2)" "lw_holders w j1 = Some (l1, s1)" using h now before by auto
    with new [OF this(1)] 3 h(3) show ?thesis by metis
  next
    case 4
    then have "lw_holders w j1 = Some (l1, s1)" "lw_holders w j2 = Some (l2, s2)" using h before by auto
    from lock_world_unique [OF assms(1) this h(3)] show ?thesis .
  qed simp
qed

context redis_server
begin

lemma acquire_effect:
  assumes "acquire api f key options uuid now r = (res, r')"
  shows "live (entry r key) now = Some owner \<Longrightarrow> uuid \<noteq> owner \<Longrightarrow> r' = r"
    and "res = Inr (Some lock) \<Longrightarrow> live (entry r key) now = None \<and> lk_token lock = uuid \<and>
      slot_ok entry key now r' lock now"
proof -
  show "r' = r" if "live (entry r key) now = Some owner" "uuid \<noteq> owner"
    using assms other_token_kept(1) [OF that]
    by (auto simp: acquire_def Let_def split: if_splits prod.splits sum.splits)
      (metis snd_conv)+
  show "live (entry r key) now = None \<and> lk_token lock = uuid \<and> slot_ok entry key now r' lock now"
    if "res = Inr (Some lock)"
  proof -
    let ?ttl = "option_or (lo_ttlMs options) 120000"
    from assms that have a: "fst (rx_set_nx_px api key uuid ?ttl now r)" "r' = snd (rx_set_nx_px api key uuid ?ttl now r)"
      "lock = \<lparr>lk_redis = True, lk_key = key, lk_token = uuid, lk_ttlMs = ?ttl, lk_timer = True, lk_renewalError = None\<rparr>"
      by (auto simp: acquire_def Let_def withTimeout_def split: if_splits prod.splits sum.splits fate.splits)
    then have n: "live (entry r key) now = None"
      using set_taken [of r key now uuid ?ttl] by (cases "live (entry r key) now") auto
    from set_free [OF n, of uuid ?ttl] a n show ?thesis by (simp add: slot_ok_def)
  qed
qed

lemma renew_effect:
  assumes "renew api f now lock r = (lock', r')" "slot_ok entry key now r lock since"
  shows "live (entry r key) now = Some owner \<Longrightarrow> lk_token lock \<noteq> owner \<Longrightarrow> r' = r"
    and "slot_ok entry key now r' lock' (if lk_renewalError lock' = None then now else since)"
    and "lk_token lock' = lk_token lock"
proof -
  have k: "lk_redis lock" "lk_key lock = key" "since \<le> now" using assms(2) by (auto simp: slot_ok_def)
  show "r' = r" if "live (entry r key) now = Some owner" "lk_token lock \<noteq> owner"
    using assms(1) other_token_kept(2) [OF that, of f resource_lock_timeout "lk_ttlMs lock"] k
    by (auto simp: renew_def split: if_splits prod.splits sum.splits)
  show "lk_token lock' = lk_token lock"
    using assms(1) by (auto simp: renew_def split: if_splits prod.splits sum.splits)
  show "slot_ok entry key now r' lock' (if lk_renewalError lock' = None then now else since)"
  proof (cases "lk_renewalError lock' = None")
    case True
    then have s: "fst (RENEW_SCRIPT api key (lk_token lock) (lk_ttlMs lock) now r)"
      "r' = snd (RENEW_SCRIPT api key (lk_token lock) (lk_ttlMs lock) now r)" "lock' = lock"
      using assms(1) k
      by (auto simp: renew_def withTimeout_def split: if_splits prod.splits sum.splits fate.splits)
    then have "live (entry r key) now = Some (lk_token lock)"
      using renew_script(2) [of r key now "lk_token lock"] by fastforce
    from renew_script(1) [OF this, of "lk_ttlMs lock"] s True k show ?thesis by (simp add: slot_ok_def)
  next
    case False
    then have "lk_redis lock' \<and> lk_key lock' = key"
      using assms(1) k by (auto simp: renew_def split: if_splits prod.splits sum.splits)
    with False k show ?thesis by (auto simp: slot_ok_def)
  qed
qed

lemma release_effect:
  assumes "release api f now lock ll r = (res, lock', ll', r')" "slot_ok entry key now r lock since"
    and "live (entry r key) now = Some owner" "lk_token lock \<noteq> owner"
  shows "r' = r"
  using assms other_token_kept(3) [OF assms(3,4), of f resource_lock_timeout]
  by (auto simp: release_def slot_ok_def Let_def split: if_splits prod.splits sum.splits)

lemma lock_step_ok:
  assumes "lock_step api key w w'" "lock_world_ok entry key w"
  shows "lock_world_ok entry key w'"
  using assms(1)
proof cases
  case (wait now)
  then show ?thesis using assms(2) by (fastforce simp: lock_world_ok_def slot_ok_def)
next
  case (acquire i uuid f options res r)
  note e = acquire_effect [OF acquire(4)]
  have old: "slot_ok entry key (lw_now w) r lock since" if "lw_holders w j = Some (lock, since)" for j lock since
  proof (rule slot_ok_same_server [OF lock_world_slot(1) [OF assms(2) that]])
    assume l: "live (entry (lw_redis w) key) (lw_now w) = Some (lk_token lock)"
    have "uuid \<noteq> lk_token lock" using lock_world_slot(2) [OF assms(2) that] acquire(3) by blast
    from e(1) [OF l this] show "entry r key = entry (lw_redis w) key" by simp
  qed
  obtain x where h: "(case res of Inr (Some lock) \<Rightarrow> (lw_holders w)(i \<mapsto> (lock, lw_now w)) | _ \<Rightarrow> lw_holders w) =
      (lw_holders w)(i := x)" and x: "x = None \<or> (\<exists>lock. res = Inr (Some lock) \<and> x = Some (lock, lw_now w))"
  proof (cases "\<exists>lock. res = Inr (Some lock)")
    case False
    then have "(case res of Inr (Some lock) \<Rightarrow> (lw_holders w)(i \<mapsto> (lock, lw_now w)) | _ \<Rightarrow> lw_holders w) = lw_holders w"
      by (auto split: sum.splits option.splits)
    also have "\<dots> = (lw_holders w)(i := None)" using acquire(2) by (simp add: fun_upd_idem)
    finally show thesis by (rule that) simp
  qed (auto intro: that)
  have fresh: "lk_token lock' \<noteq> uuid" if "lw_holders w j = Some (lock', since)" for j lock' since
    using lock_world_slot(2) [OF assms(2) that] acquire(3) by blast
  show ?thesis
  proof (rule lock_world_update [OF assms(2), where i = i and x = x])
    show "lw_holders w' = (lw_holders w)(i := x)" using acquire(1) h by simp
    show "slot_ok entry key (lw_now w) (lw_redis w') lock since"
      if "lw_holders w j = Some (lock, since)" for j lock since
      using old [OF that] acquire(1) by simp
    show "slot_ok entry key (lw_now w) (lw_redis w') lock since \<and> lk_token lock \<in> lw_tokens w' \<and>
        (\<forall>j lock' since'. j \<noteq> i \<longrightarrow> lw_holders w j = Some (lock', since') \<longrightarrow> lk_token lock' \<noteq> lk_token lock)"
      if "x = Some (lock, since)" for lock since
    proof -
      from x that have "res = Inr (Some lock)" "since = lw_now w" by auto
      with e(2) [OF this(1)] fresh acquire(1) show ?thesis by auto
    qed
  qed (use acquire(1) in auto)
next
  case (renew i lock since f lock' r)
  note s = lock_world_slot [OF assms(2) renew(2)]
  note e = renew_effect [OF renew(3) s(1)]
  have other: "lk_token lock2 \<noteq> lk_token lock" if "lw_holders w j = Some (lock2, since2)" "j \<noteq> i" for j lock2 since2
    using lock_world_unique [OF assms(2) renew(2) that(1)] that(2) by blast
  have old: "slot_ok entry key (lw_now w) r lock2 since2" if "lw_holders w j = Some (lock2, since2)" "j \<noteq> i" for j lock2 since2
  proof (rule slot_ok_same_server [OF lock_world_slot(1) [OF assms(2) that(1)]])
    assume l: "live (entry (lw_redis w) key) (lw_now w) = Some (lk_token lock2)"
    from e(1) [OF l not_sym [OF other [OF that]]] show "entry r key = entry (lw_redis w) key" by simp
  qed
  show ?thesis
  proof (rule lock_world_update [OF assms(2), where i = i])
    show "lw_holders w' = (lw_holders w)(i := Some (lock', if lk_renewalError lock' = None then lw_now w else since))"
      using renew(1) by simp
    show "slot_ok entry key (lw_now w) (lw_redis w') lock2 since2"
      if "j \<noteq> i" "lw_holders w j = Some (lock2, since2)" for j lock2 since2
      using old [OF that(2,1)] renew(1) by simp
    show "slot_ok entry key (lw_now w) (lw_redis w') lock2 since2 \<and> lk_token lock2 \<in> lw_tokens w' \<and>
        (\<forall>j lock3 since3. j \<noteq> i \<longrightarrow> lw_holders w j = Some (lock3, since3) \<longrightarrow> lk_token lock3 \<noteq> lk_token lock2)"
      if "Some (lock', if lk_renewalError lock' = None then lw_now w else since) = Some (lock2, since2)" for lock2 since2
    proof -
      from that have "lock2 = lock'" "since2 = (if lk_renewalError lock' = None then lw_now w else since)" by auto
      with e(2,3) s(2) other renew(1) show ?thesis by auto
    qed
  qed (use renew(1) in auto)
next
  case (release i lock since f res lock' ll r)
  note s = lock_world_slot [OF assms(2) release(2)]
  have other: "lk_token lock2 \<noteq> lk_token lock" if "lw_holders w j = Some (lock2, since2)" "j \<noteq> i" for j lock2 since2
    using lock_world_unique [OF assms(2) release(2) that(1)] that(2) by blast
  have old: "slot_ok entry key (lw_now w) r lock2 since2" if "lw_holders w j = Some (lock2, since2)" "j \<noteq> i" for j lock2 since2
  proof (rule slot_ok_same_server [OF lock_world_slot(1) [OF assms(2) that(1)]])
    assume l: "live (entry (lw_redis w) key) (lw_now w) = Some (lk_token lock2)"
    from release_effect [OF release(3) s(1) l not_sym [OF other [OF that]]]
    show "entry r key = entry (lw_redis w) key" by simp
  qed
  show ?thesis
  proof (rule lock_world_update [OF assms(2), where i = i and x = None])
    show "slot_ok entry key (lw_now w) (lw_redis w') lock2 since2"
      if "j \<noteq> i" "lw_holders w j = Some (lock2, since2)" for j lock2 since2
      using old [OF that(2,1)] release(1) by simp
  qed (use release(1) in auto)
qed

lemma lock_steps_ok: "(lock_step api key)\<^sup>*\<^sup>* w w' \<Longrightarrow> lock_world_ok entry key w \<Longrightarrow> lock_world_ok entry key w'"
  by (induction rule: rtranclp_induct) (auto intro: lock_step_ok)

lemma lease_exclusive:
  assumes "lock_world_ok entry key w" "holds_lease w i" "holds_lease w j"
  shows "i = j"
proof -
  have "\<exists>lock since. lw_holders w k = Some (lock, since) \<and> live (entry (lw_redis w) key) (lw_now w) = Some (lk_token lock)"
    if "holds_lease w k" for k
    using that lock_world_slot(1) [OF assms(1)] slot_live
    by (fastforce simp: holds_lease_def assertOwned_def split: option.splits)
  with assms(2,3) obtain l1 s1 l2 s2 where "lw_holders w i = Some (l1, s1)" "lw_holders w j = Some (l2, s2)"
    "lk_token l2 = lk_token l1" by (metis option.inject)
  from lock_world_unique [OF assms(1) this] show ?thesis by simp
qed

end

section \<open>Properties\<close>

definition initial_lock_world :: "'r \<Rightarrow> int \<Rightarrow> 'r lock_world" where
  "initial_lock_world r now = \<lparr>lw_redis = r, lw_now = now, lw_holders = Map.empty, lw_tokens = {}\<rparr>"

text \<open>
  C36. Deployments of a resource are serialized. However workers acquire, renew and release the
  lock of a resource, with commands that may be lost or executed without an answer, and
  whatever the server stored before, at any moment at most one worker holds a lock object that
  reports no loss and whose lease has not run out since it was last taken or renewed.
\<close>

theorem resource_lock_exclusive:
  assumes "redis_server api entry"
    and "(lock_step api key)\<^sup>*\<^sup>* (initial_lock_world r now) w"
    and "holds_lease w i" "holds_lease w j"
  shows "i = j"
proof -
  have "lock_world_ok entry key (initial_lock_world r now)"
    by (simp add: lock_world_ok_def initial_lock_world_def)
  then have "lock_world_ok entry key w"
    by (rule redis_server.lock_steps_ok [OF assms(1,2)])
  from redis_server.lease_exclusive [OF assms(1) this assms(3,4)] show ?thesis .
qed

theorem resource_lock_exclusive_witness:
  "\<exists>w. (lock_step map_redis ''k'')\<^sup>*\<^sup>* (initial_lock_world Map.empty 0) w \<and> holds_lease w 1 \<and> \<not> holds_lease w 2"
proof -
  let ?o = "\<lparr>lo_ttlMs = None, lo_renewIntervalMs = None, lo_operationTimeoutMs = None\<rparr>"
  let ?w = "initial_lock_world Map.empty 0 :: (string \<Rightarrow> redis_entry option) lock_world"
  obtain res r where a: "acquire map_redis Answered ''k'' ?o ''t'' (lw_now ?w) (lw_redis ?w) = (res, r)" by force
  define w where "w = ?w\<lparr>lw_redis := r, lw_tokens := insert ''t'' (lw_tokens ?w),
      lw_holders := (case res of Inr (Some lock) \<Rightarrow> (lw_holders ?w)(1 \<mapsto> (lock, lw_now ?w)) | _ \<Rightarrow> lw_holders ?w)\<rparr>"
  have "lock_step map_redis ''k'' ?w w"
    unfolding w_def by (rule lock_step.acquire [OF _ _ a]) (simp_all add: initial_lock_world_def)
  then have s: "(lock_step map_redis ''k'')\<^sup>*\<^sup>* ?w w" by blast
  have h: "holds_lease w 1"
    using a by (auto simp: w_def holds_lease_def acquire_def option_or_def initial_lock_world_def withTimeout_def
        map_redis_def live_def assertOwned_def)
  have "\<not> holds_lease w 2"
    using resource_lock_exclusive [OF map_redis.redis_server_axioms s h] by force
  with s h show ?thesis by blast
qed

text \<open>
  The lock of a backup schedule: making sure of it succeeds for the run that owns it and
  for any run when no lease is live, and then leaves that run the owner for the full lease;
  it fails, changing nothing, while another run owns it. Releasing by another run than the
  owner changes nothing.
\<close>

theorem backup_lock_ownership:
  assumes "redis_server api entry"
    and "ensureBackupRunLock api Answered Answered sid run now r = (res, r')"
  shows "(live (entry r (backupRunLockKey sid)) now \<in> {None, Some run} \<and> res = Inr True \<and>
     entry r' = (entry r)(backupRunLockKey sid \<mapsto> (run, Some (now + BACKUP_LOCK_TTL_MS))) \<or>
     live (entry r (backupRunLockKey sid)) now \<notin> {None, Some run} \<and> res = Inr False \<and> r' = r) \<and>
    (live (entry r (backupRunLockKey sid)) now \<noteq> Some run \<longrightarrow>
       releaseBackupRunLock api f sid run now r = (case f of Answered \<Rightarrow> (Inr (), r) | TimedOut _ \<Rightarrow> (Inl backup_lock_timeout, r)))"
proof -
  let ?k = "backupRunLockKey sid"
  note renew1 = redis_server.renew_script(1) [OF assms(1), of r ?k now run BACKUP_LOCK_TTL_MS]
  note renew2 = redis_server.renew_script(2) [OF assms(1), of r ?k now run BACKUP_LOCK_TTL_MS]
  note free = redis_server.set_free [OF assms(1), of r ?k now run BACKUP_LOCK_TTL_MS]
  note taken = redis_server.set_taken [OF assms(1), of r ?k now run BACKUP_LOCK_TTL_MS]
  note rel = redis_server.release_script(2) [OF assms(1), of r ?k now run]
  have "releaseBackupRunLock api f sid run now r =
      (case f of Answered \<Rightarrow> (Inr (), r) | TimedOut _ \<Rightarrow> (Inl backup_lock_timeout, r))"
    if "live (entry r ?k) now \<noteq> Some run"
    using rel [OF that] by (simp add: releaseBackupRunLock_def withTimeout_def split: fate.splits)
  moreover consider "live (entry r ?k) now = Some run" | "live (entry r ?k) now = None"
    | "live (entry r ?k) now \<notin> {None, Some run}" by auto
  then have "live (entry r ?k) now \<in> {None, Some run} \<and> res = Inr True \<and>
      entry r' = (entry r)(?k \<mapsto> (run, Some (now + BACKUP_LOCK_TTL_MS))) \<or>
     live (entry r ?k) now \<notin> {None, Some run} \<and> res = Inr False \<and> r' = r"
  proof cases
    case 1
    with assms(2) renew1 show ?thesis
      by (auto simp: ensureBackupRunLock_def renewBackupRunLock_def withTimeout_def split: prod.splits bool.splits)
  next
    case 2
    with assms(2) renew2 free show ?thesis
      by (auto simp: ensureBackupRunLock_def renewBackupRunLock_def acquireBackupRunLock_def withTimeout_def)
  next
    case 3
    with assms(2) renew2 taken show ?thesis
      by (auto simp: ensureBackupRunLock_def renewBackupRunLock_def acquireBackupRunLock_def withTimeout_def)
  qed
  ultimately show ?thesis by blast
qed

theorem backup_lock_ownership_witness:
  "fst (ensureBackupRunLock map_redis Answered Answered ''s'' ''b'' 1
     (Map.empty(backupRunLockKey ''s'' \<mapsto> (''a'', Some 5)))) = Inr False"
proof -
  let ?r = "Map.empty(backupRunLockKey ''s'' \<mapsto> (''a'', Some 5)) :: string \<Rightarrow> redis_entry option"
  obtain res r' where e: "ensureBackupRunLock map_redis Answered Answered ''s'' ''b'' 1 ?r = (res, r')" by force
  have "live (?r (backupRunLockKey ''s'')) 1 \<notin> {None, Some ''b''}" by (simp add: live_def)
  with backup_lock_ownership [OF map_redis.redis_server_axioms e, of Answered] e show ?thesis by auto
qed

end
