(* ===== verification/Backup.thy ===== *)
theory Backup
  imports Row_Store Outbox Job_Queues Redis_Locks "HOL-Library.Char_ord" "HOL-Library.List_Lexorder"
    "HOL-Library.Product_Lexorder"
begin

text \<open>
  Backups: \<open>repositories/src/backup/drizzle-backup-run.repository.ts\<close>, the page loop of
  \<open>usecases/src/backup/backup-run-pagination.ts\<close>, the use cases that trigger, execute, verify
  and restore a run and delete a schedule, and the worker's handler and recovery in
  \<open>apps/schedules/src/workers.ts\<close>. The runtime that talks to Docker and S3 and the
  notification publisher are parameters over a state of their own; the tables are not written
  by others during one call, since the row lease and the schedule lock exclude them. All calls
  of the clock in one call give the same instant, and text is ordered by its bytes.
\<close>

section \<open>Rows\<close>

datatype backup_kind = DatabaseBackup | VolumeBackup | WebServerBackup

datatype backup_run_status = BQueued | BRunning | BSucceeded | BFailed

record backup_run =
  bk_id :: string
  bk_scheduleId :: string
  bk_resourceId :: "string option"
  bk_organizationId :: string
  bk_destinationId :: string
  bk_kind :: backup_kind
  bk_status :: backup_run_status
  bk_fileKey :: "string option"
  bk_error :: "string option"
  bk_startedAt :: "int option"
  bk_completedAt :: "int option"
  bk_createdAt :: int
  bk_updatedAt :: int
  bk_verificationStatus :: "string option"
  bk_verifiedAt :: "int option"
  bk_restoreTestedAt :: "int option"
  bk_recoveryPoint :: "int option"

record backup_schedule =
  bc_id :: string
  bc_resourceId :: "string option"
  bc_organizationId :: string
  bc_destinationId :: string
  bc_kind :: backup_kind
  bc_retentionCount :: "int option"
  bc_restoreVerification :: bool

record s3_destination =
  sd_id :: string
  sd_organizationId :: string
  sd_certificateId :: "string option"

record certificate_row =
  ce_id :: string
  ce_organizationId :: string
  ce_certificatePem :: string

text \<open>The name of each resource, by identifier.\<close>

record backup_tables =
  bt_runs :: "backup_run list"
  bt_schedules :: "backup_schedule list"
  bt_destinations :: "s3_destination list"
  bt_certificates :: "certificate_row list"
  bt_resources :: "(string \<times> string) list"
  bt_outbox :: "outbox_message list"
  bt_clock :: int

section \<open>The repository\<close>

definition BACKUP_RUN_EXECUTION_LEASE_MS :: int where
  "BACKUP_RUN_EXECUTION_LEASE_MS = 5 * 60000"

definition run_key :: "backup_run \<Rightarrow> int \<times> string" where
  "run_key r = (bk_createdAt r, bk_id r)"

text \<open>\<open>ORDER BY created_at DESC, id DESC\<close>.\<close>

definition newest_first :: "backup_run list \<Rightarrow> backup_run list" where
  "newest_first rows = rev (sort_key run_key rows)"

definition findRunsByScheduleId :: "string \<Rightarrow> int \<Rightarrow> backup_run list \<Rightarrow> backup_run list" where
  "findRunsByScheduleId scheduleId limit tbl =
     take (clamp_limit 1000 limit) (newest_first (filter (\<lambda>r. bk_scheduleId r = scheduleId) tbl))"

definition findByScheduleIdPage ::
  "string \<Rightarrow> (int \<times> string) option \<Rightarrow> int option \<Rightarrow> backup_run list \<Rightarrow> backup_run list" where
  "findByScheduleIdPage scheduleId cursor limit tbl =
     take (clamp_limit 500 (or_default limit 500))
       (newest_first (filter (\<lambda>r. bk_scheduleId r = scheduleId \<and>
          (case cursor of
             None \<Rightarrow> True
           | Some (createdAt, i) \<Rightarrow> bk_createdAt r < createdAt \<or> bk_createdAt r = createdAt \<and> bk_id r < i)) tbl))"

definition findRunsByResourceId :: "string \<Rightarrow> int \<Rightarrow> backup_run list \<Rightarrow> backup_run list" where
  "findRunsByResourceId resourceId limit tbl =
     take (clamp_limit 1000 limit) (order_desc bk_createdAt (filter (\<lambda>r. bk_resourceId r = Some resourceId) tbl))"

definition findRunsByOrganizationId :: "string \<Rightarrow> int \<Rightarrow> backup_run list \<Rightarrow> backup_run list" where
  "findRunsByOrganizationId organizationId limit tbl =
     take (clamp_limit 1000 limit) (order_desc bk_createdAt (filter (\<lambda>r. bk_organizationId r = organizationId) tbl))"

definition findRunsByStatus :: "backup_run_status \<Rightarrow> int \<Rightarrow> backup_run list \<Rightarrow> backup_run list" where
  "findRunsByStatus status limit tbl =
     take (clamp_limit 1000 limit) (order_desc bk_createdAt (filter (\<lambda>r. bk_status r = status) tbl))"

definition new_run :: "string \<Rightarrow> int \<Rightarrow> backup_schedule \<Rightarrow> backup_run" where
  "new_run i now schedule =
     \<lparr>bk_id = i, bk_scheduleId = bc_id schedule, bk_resourceId = bc_resourceId schedule,
      bk_organizationId = bc_organizationId schedule, bk_destinationId = bc_destinationId schedule,
      bk_kind = bc_kind schedule, bk_status = BQueued, bk_fileKey = None, bk_error = None,
      bk_startedAt = None, bk_completedAt = None, bk_createdAt = now, bk_updatedAt = now,
      bk_verificationStatus = None, bk_verifiedAt = None, bk_restoreTestedAt = None, bk_recoveryPoint = None\<rparr>"

definition createRun :: "backup_run \<Rightarrow> backup_run list \<Rightarrow> string + backup_run list" where
  "createRun r tbl =
     (if findById bk_id (bk_id r) tbl \<noteq> None then Inl ''duplicate key value violates unique constraint''
      else Inr (tbl @ [r]))"

definition updateRun ::
  "int \<Rightarrow> string \<Rightarrow> (backup_run \<Rightarrow> backup_run) \<Rightarrow> backup_run list \<Rightarrow> backup_run option \<times> backup_run list" where
  "updateRun now i f tbl = updateById bk_id i (\<lambda>r. (f r)\<lparr>bk_updatedAt := now\<rparr>) tbl"

definition run_claimable :: "int \<Rightarrow> backup_run \<Rightarrow> bool" where
  "run_claimable staleBefore r \<longleftrightarrow>
     bk_status r = BQueued \<or> bk_status r = BFailed \<or> (bk_status r = BRunning \<and> bk_updatedAt r < staleBefore)"

definition claimRun :: "string \<Rightarrow> int \<Rightarrow> int \<Rightarrow> backup_run list \<Rightarrow> backup_run option \<times> backup_run list" where
  "claimRun i startedAt leaseMs tbl =
     update_where bk_id i (run_claimable (startedAt - leaseMs))
       (\<lambda>r. r\<lparr>bk_status := BRunning, bk_error := None, bk_startedAt := Some startedAt, bk_completedAt := None,
              bk_updatedAt := startedAt\<rparr>) tbl"

definition heartbeatExecution :: "string \<Rightarrow> int \<Rightarrow> backup_run list \<Rightarrow> backup_run option \<times> backup_run list" where
  "heartbeatExecution i now tbl =
     update_where bk_id i (\<lambda>r. bk_status r = BRunning) (\<lambda>r. r\<lparr>bk_updatedAt := now\<rparr>) tbl"

definition requeueStaleForRecovery ::
  "string \<Rightarrow> int \<Rightarrow> int \<Rightarrow> backup_run list \<Rightarrow> backup_run option \<times> backup_run list" where
  "requeueStaleForRecovery i recoveredAt leaseMs tbl =
     update_where bk_id i (\<lambda>r. bk_status r = BRunning \<and> bk_updatedAt r < recoveredAt - leaseMs)
       (\<lambda>r. r\<lparr>bk_status := BQueued, bk_error := Some ''Recovered after the backup worker execution lease expired'',
              bk_completedAt := None, bk_updatedAt := recoveredAt\<rparr>) tbl"

section \<open>The page loop\<close>

definition BACKUP_RUN_PAGE_SIZE :: int where
  "BACKUP_RUN_PAGE_SIZE = 500"

text \<open>The state of the caller holds the table; a visit may throw.\<close>

fun visit_all :: "(backup_run \<Rightarrow> 's \<Rightarrow> (string + unit) \<times> 's) \<Rightarrow> backup_run list \<Rightarrow> 's \<Rightarrow> (string + unit) \<times> 's" where
  "visit_all visit [] s = (Inr (), s)"
| "visit_all visit (r # rs) s =
     (case visit r s of (Inl e, s1) \<Rightarrow> (Inl e, s1) | (Inr _, s1) \<Rightarrow> visit_all visit rs s1)"

fun forEachBackupRunBySchedule ::
  "nat \<Rightarrow> ('s \<Rightarrow> backup_run list) \<Rightarrow> string \<Rightarrow> (backup_run \<Rightarrow> 's \<Rightarrow> (string + unit) \<times> 's) \<Rightarrow>
   (int \<times> string) option \<Rightarrow> 's \<Rightarrow> ((string + unit) \<times> 's) option" where
  "forEachBackupRunBySchedule 0 table scheduleId visit cursor s = None"
| "forEachBackupRunBySchedule (Suc fuel) table scheduleId visit cursor s =
     (let page = findByScheduleIdPage scheduleId cursor (Some BACKUP_RUN_PAGE_SIZE) (table s) in
      if page = [] then Some (Inr (), s)
      else case visit_all visit page s of
          (Inl e, s1) \<Rightarrow> Some (Inl e, s1)
        | (Inr _, s1) \<Rightarrow>
            if len page < BACKUP_RUN_PAGE_SIZE then Some (Inr (), s1)
            else forEachBackupRunBySchedule fuel table scheduleId visit (Some (run_key (last page))) s1)"

text \<open>A round visits at least one row, so one round more than there are rows is enough fuel.\<close>

definition for_each_run ::
  "('s \<Rightarrow> backup_run list) \<Rightarrow> string \<Rightarrow> (backup_run \<Rightarrow> 's \<Rightarrow> (string + unit) \<times> 's) \<Rightarrow> 's \<Rightarrow> (string + unit) \<times> 's" where
  "for_each_run table scheduleId visit s =
     (case forEachBackupRunBySchedule (Suc (length (table s))) table scheduleId visit None s of
        Some result \<Rightarrow> result
      | None \<Rightarrow> (Inl ''page loop did not end'', s))"

section \<open>The runtime\<close>

type_synonym effective_destination = "s3_destination \<times> string option"

record notification =
  no_organizationId :: string
  no_event :: string
  no_idempotencyKey :: string
  no_message :: string

record 'x backup_runtime =
  rt_create :: "backup_schedule \<Rightarrow> string option \<Rightarrow> effective_destination \<Rightarrow> 'x \<Rightarrow> (string + string) \<times> 'x"
  rt_verify :: "backup_schedule \<Rightarrow> string option \<Rightarrow> effective_destination \<Rightarrow> string \<Rightarrow> 'x \<Rightarrow> (string + unit) \<times> 'x"
  rt_delete :: "bool \<Rightarrow> effective_destination \<Rightarrow> string \<Rightarrow> 'x \<Rightarrow> (string + unit) \<times> 'x"
  rt_restore :: "backup_schedule \<Rightarrow> string option \<Rightarrow> effective_destination \<Rightarrow> string \<Rightarrow> int option \<Rightarrow> 'x \<Rightarrow> (string + unit) \<times> 'x"
  rt_notify :: "notification \<Rightarrow> 'x \<Rightarrow> 'x"

record 'x backup_world =
  bw_tables :: backup_tables
  bw_ext :: 'x

definition patch_run :: "string \<Rightarrow> (backup_run \<Rightarrow> backup_run) \<Rightarrow> 'x backup_world \<Rightarrow> backup_run option \<times> 'x backup_world" where
  "patch_run i f w =
     (case updateRun (bt_clock (bw_tables w)) i f (bt_runs (bw_tables w)) of
        (r, runs) \<Rightarrow> (r, w\<lparr>bw_tables := (bw_tables w)\<lparr>bt_runs := runs\<rparr>\<rparr>))"

definition resolveCertificateForOrganization ::
  "certificate_row list \<Rightarrow> string option \<Rightarrow> string \<Rightarrow> string + certificate_row option" where
  "resolveCertificateForOrganization certificates certificateId organizationId =
     (if certificateId = None \<or> certificateId = Some [] then Inr None
      else case findById ce_id (the certificateId) certificates of
          Some c \<Rightarrow>
            if ce_organizationId c = organizationId then Inr (Some c)
            else Inl ''Selected certificate is not available to this organization''
        | None \<Rightarrow> Inl ''Selected certificate is not available to this organization'')"

definition withBackupCaCertificate :: "s3_destination \<Rightarrow> certificate_row option \<Rightarrow> effective_destination" where
  "withBackupCaCertificate destination c =
     (destination, case c of Some x \<Rightarrow> if trim (ce_certificatePem x) = [] then None else Some (ce_certificatePem x) | None \<Rightarrow> None)"

section \<open>Retention\<close>

definition delete_run_row :: "string \<Rightarrow> 'x backup_world \<Rightarrow> 'x backup_world" where
  "delete_run_row i w = w\<lparr>bw_tables := (bw_tables w)\<lparr>bt_runs := snd (deleteById bk_id i (bt_runs (bw_tables w)))\<rparr>\<rparr>"

text \<open>One candidate, with the number of artifacts counted so far; a failed deletion is logged.\<close>

definition retention_visit ::
  "'x backup_runtime \<Rightarrow> int \<Rightarrow> effective_destination \<Rightarrow> backup_run \<Rightarrow> int \<times> 'x backup_world \<Rightarrow>
   (string + unit) \<times> (int \<times> 'x backup_world)" where
  "retention_visit rt retentionCount destination candidate st =
     (case st of (retainedCount, w) \<Rightarrow>
        if bk_status candidate \<noteq> BSucceeded \<or> bk_fileKey candidate = None \<or> bk_fileKey candidate = Some []
        then (Inr (), (retainedCount, w))
        else if retainedCount + 1 \<le> retentionCount then (Inr (), (retainedCount + 1, w))
        else case rt_delete rt (bk_kind candidate = WebServerBackup) destination (the (bk_fileKey candidate)) (bw_ext w) of
            (Inl e, x) \<Rightarrow> (Inr (), (retainedCount + 1, w\<lparr>bw_ext := x\<rparr>))
          | (Inr _, x) \<Rightarrow> (Inr (), (retainedCount + 1, delete_run_row (bk_id candidate) (w\<lparr>bw_ext := x\<rparr>))))"

definition enforceRetention ::
  "'x backup_runtime \<Rightarrow> string \<Rightarrow> int option \<Rightarrow> effective_destination \<Rightarrow> 'x backup_world \<Rightarrow> 'x backup_world" where
  "enforceRetention rt scheduleId retentionCount destination w =
     (if retentionCount = None \<or> retentionCount = Some 0 then w
      else snd (snd (for_each_run (\<lambda>(_, w). bt_runs (bw_tables w)) scheduleId
             (retention_visit rt (the retentionCount) destination) (0, w))))"

section \<open>Execution\<close>

definition kind_label :: "backup_kind \<Rightarrow> string" where
  "kind_label k = (case k of DatabaseBackup \<Rightarrow> ''Database'' | WebServerBackup \<Rightarrow> ''Web-server'' | VolumeBackup \<Rightarrow> ''Volume'')"

definition kind_event :: "backup_kind \<Rightarrow> string" where
  "kind_event k =
     (case k of DatabaseBackup \<Rightarrow> ''database_backup_completed'' | WebServerBackup \<Rightarrow> ''web_server_backup_completed''
      | VolumeBackup \<Rightarrow> ''volume_backup_completed'')"

definition status_name :: "backup_run_status \<Rightarrow> string" where
  "status_name s =
     (case s of BQueued \<Rightarrow> ''queued'' | BRunning \<Rightarrow> ''running'' | BSucceeded \<Rightarrow> ''succeeded'' | BFailed \<Rightarrow> ''failed'')"

definition publishOutcome ::
  "'x backup_runtime \<Rightarrow> string \<Rightarrow> backup_run \<Rightarrow> string \<Rightarrow> bool \<Rightarrow> 'x backup_world \<Rightarrow> 'x backup_world" where
  "publishOutcome rt organizationId run resourceName succeeded w =
     w\<lparr>bw_ext := rt_notify rt
         \<lparr>no_organizationId = organizationId, no_event = kind_event (bk_kind run),
          no_idempotencyKey = ''backup:'' @ bk_id run @ '':'' @ status_name (bk_status run),
          no_message = (if succeeded
            then kind_label (bk_kind run) @ '' backup for '' @ resourceName @ '' completed successfully.''
            else kind_label (bk_kind run) @ '' backup for '' @ resourceName @ '' failed: '' @
                 or_default (bk_error run) ''unknown error'')\<rparr> (bw_ext w)\<rparr>"

definition failBeforeExecution ::
  "backup_run \<Rightarrow> string \<Rightarrow> 'x backup_world \<Rightarrow> (string + backup_run) \<times> 'x backup_world" where
  "failBeforeExecution run message w =
     (Inl message, snd (patch_run (bk_id run)
        (\<lambda>r. r\<lparr>bk_status := BFailed, bk_error := Some message, bk_completedAt := Some (bt_clock (bw_tables w))\<rparr>) w))"

text \<open>The verification of a created backup, and what it records.\<close>

definition verify_created ::
  "'x backup_runtime \<Rightarrow> backup_run \<Rightarrow> backup_schedule \<Rightarrow> effective_destination \<Rightarrow> string \<Rightarrow> backup_run \<Rightarrow>
   'x backup_world \<Rightarrow> (string + unit) \<times> 'x backup_world" where
  "verify_created rt run schedule destination fileKey completed w =
     (if \<not> bc_restoreVerification schedule then (Inr (), w)
      else
        let now = bt_clock (bw_tables w) in
        case rt_verify rt schedule (if bc_kind schedule = WebServerBackup then None else bk_resourceId run)
               destination fileKey (bw_ext w) of
          (Inr _, x) \<Rightarrow>
            (Inr (), snd (patch_run (bk_id run)
               (\<lambda>r. r\<lparr>bk_verificationStatus := Some ''verified'', bk_verifiedAt := Some now,
                      bk_restoreTestedAt := Some now,
                      bk_recoveryPoint := Some (or_default (bk_completedAt completed) now)\<rparr>) (w\<lparr>bw_ext := x\<rparr>)))
        | (Inl e, x) \<Rightarrow>
            (Inl e, snd (patch_run (bk_id run)
               (\<lambda>r. r\<lparr>bk_verificationStatus := Some ''failed'', bk_verifiedAt := Some now,
                      bk_error := Some (take 1000 (''Backup created but verification failed: '' @ e))\<rparr>)
               (w\<lparr>bw_ext := x\<rparr>))))"

text \<open>The guarded part: everything inside \<open>try\<close> but the notification.\<close>

definition perform_backup ::
  "'x backup_runtime \<Rightarrow> backup_run \<Rightarrow> backup_schedule \<Rightarrow> effective_destination \<Rightarrow> 'x backup_world \<Rightarrow>
   (string + backup_run) \<times> 'x backup_world" where
  "perform_backup rt run schedule destination w =
     (case rt_create rt schedule (if bc_kind schedule = WebServerBackup then None else bk_resourceId run)
             destination (bw_ext w) of
        (Inl e, x) \<Rightarrow> (Inl e, w\<lparr>bw_ext := x\<rparr>)
      | (Inr fileKey, x) \<Rightarrow>
          (case patch_run (bk_id run)
                  (\<lambda>r. r\<lparr>bk_status := BSucceeded, bk_fileKey := Some fileKey, bk_error := None,
                         bk_completedAt := Some (bt_clock (bw_tables w))\<rparr>) (w\<lparr>bw_ext := x\<rparr>) of
             (None, w1) \<Rightarrow> (Inl ''Backup run disappeared during execution'', w1)
           | (Some completed, w1) \<Rightarrow>
               (case verify_created rt run schedule destination fileKey completed w1 of
                  (Inl e, w2) \<Rightarrow> (Inl e, w2)
                | (Inr _, w2) \<Rightarrow>
                    (Inr completed, enforceRetention rt (bc_id schedule) (bc_retentionCount schedule) destination w2))))"

definition run_claimed ::
  "'x backup_runtime \<Rightarrow> backup_run \<Rightarrow> 'x backup_world \<Rightarrow> (string + backup_run) \<times> 'x backup_world" where
  "run_claimed rt run w =
     (let t = bw_tables w in
      case findById bc_id (bk_scheduleId run) (bt_schedules t) of
        None \<Rightarrow> failBeforeExecution run ''Backup schedule not found'' w
      | Some schedule \<Rightarrow>
          let resource = (case bk_resourceId run of
                Some i \<Rightarrow> if i = [] then None else findById fst i (bt_resources t) | None \<Rightarrow> None);
              resourceName = (case resource of Some (_, n) \<Rightarrow> n | None \<Rightarrow> ''Upstand web server'')
          in if bc_kind schedule \<noteq> WebServerBackup \<and> resource = None
             then failBeforeExecution run ''Resource not found'' w
             else case findById sd_id (bk_destinationId run) (bt_destinations t) of
               None \<Rightarrow> failBeforeExecution run ''Backup destination not found'' w
             | Some destination \<Rightarrow>
                 let organizationId = bc_organizationId schedule in
                 if organizationId = [] then failBeforeExecution run ''Backup organization not found'' w
                 else if bk_organizationId run \<noteq> organizationId
                 then failBeforeExecution run ''Backup run belongs to another organization'' w
                 else if sd_organizationId destination \<noteq> organizationId
                 then failBeforeExecution run ''Backup destination belongs to another organization'' w
                 else case resolveCertificateForOrganization (bt_certificates t) (sd_certificateId destination)
                             organizationId of
                   Inl e \<Rightarrow> (Inl e, w)
                 | Inr caCert \<Rightarrow>
                     (case perform_backup rt run schedule (withBackupCaCertificate destination caCert) w of
                        (Inr completed, w1) \<Rightarrow>
                          (Inr completed, publishOutcome rt organizationId completed resourceName True w1)
                      | (Inl e, w1) \<Rightarrow>
                          (case patch_run (bk_id run)
                                  (\<lambda>r. r\<lparr>bk_status := BFailed, bk_error := Some (take 1000 e),
                                         bk_completedAt := Some (bt_clock (bw_tables w1))\<rparr>) w1 of
                             (failed, w2) \<Rightarrow>
                               (Inl e, publishOutcome rt organizationId (or_default failed run) resourceName False w2))))"

definition executeBackupRun ::
  "'x backup_runtime \<Rightarrow> string \<Rightarrow> backup_run option \<Rightarrow> 'x backup_world \<Rightarrow> (string + backup_run) \<times> 'x backup_world" where
  "executeBackupRun rt runId claimedRun w =
     (case claimedRun of
        Some run \<Rightarrow> if bk_status run = BSucceeded then (Inr run, w) else run_claimed rt run w
      | None \<Rightarrow>
          (case findById bk_id runId (bt_runs (bw_tables w)) of
             None \<Rightarrow> (Inl ''Backup run not found'', w)
           | Some existing \<Rightarrow>
               if bk_status existing = BSucceeded then (Inr existing, w)
               else if bk_status existing \<noteq> BQueued then (Inl ''Backup run is already being processed'', w)
               else case claimRun runId (bt_clock (bw_tables w)) BACKUP_RUN_EXECUTION_LEASE_MS (bt_runs (bw_tables w)) of
                   (Some run, runs) \<Rightarrow> run_claimed rt run (w\<lparr>bw_tables := (bw_tables w)\<lparr>bt_runs := runs\<rparr>\<rparr>)
                 | (None, _) \<Rightarrow> (Inl ''Backup run is already being processed'', w)))"

section \<open>Verification, restore and deletion\<close>

text \<open>The completed run with its file, its schedule and its destination.\<close>

definition completed_artifact :: "string \<Rightarrow> backup_tables \<Rightarrow> string + backup_run \<times> string" where
  "completed_artifact runId t =
     (case findById bk_id runId (bt_runs t) of
        Some run \<Rightarrow>
          if bk_status run \<noteq> BSucceeded \<or> bk_fileKey run = None \<or> bk_fileKey run = Some []
          then Inl ''Completed backup artifact not found'' else Inr (run, the (bk_fileKey run))
      | None \<Rightarrow> Inl ''Completed backup artifact not found'')"

definition run_resource :: "backup_run \<Rightarrow> backup_tables \<Rightarrow> string option" where
  "run_resource run t =
     (case bk_resourceId run of
        Some i \<Rightarrow> if i = [] then None else map_option fst (findById fst i (bt_resources t))
      | None \<Rightarrow> None)"

definition owned_destination ::
  "backup_run \<Rightarrow> backup_schedule \<Rightarrow> s3_destination \<Rightarrow> backup_tables \<Rightarrow> string + effective_destination" where
  "owned_destination run schedule destination t =
     (let organizationId = bc_organizationId schedule in
      if organizationId = [] \<or> bk_organizationId run \<noteq> organizationId
      then Inl ''Backup run belongs to another organization''
      else if sd_organizationId destination \<noteq> organizationId
      then Inl ''Backup destination belongs to another organization''
      else case resolveCertificateForOrganization (bt_certificates t) (sd_certificateId destination) organizationId of
          Inl e \<Rightarrow> Inl e
        | Inr c \<Rightarrow> Inr (withBackupCaCertificate destination c))"

definition verifyBackupRun ::
  "'x backup_runtime \<Rightarrow> string \<Rightarrow> 'x backup_world \<Rightarrow> (string + backup_run) \<times> 'x backup_world" where
  "verifyBackupRun rt runId w =
     (let t = bw_tables w; now = bt_clock t in
      case completed_artifact runId t of
        Inl e \<Rightarrow> (Inl e, w)
      | Inr (run, fileKey) \<Rightarrow>
          (case (findById bc_id (bk_scheduleId run) (bt_schedules t),
                 findById sd_id (bk_destinationId run) (bt_destinations t)) of
             (Some schedule, Some destination) \<Rightarrow>
               (case owned_destination run schedule destination t of
                  Inl e \<Rightarrow> (Inl e, w)
                | Inr effective \<Rightarrow>
                    let resource = (if bc_kind schedule = WebServerBackup then None else run_resource run t);
                        verified = (if bc_kind schedule \<noteq> WebServerBackup \<and> resource = None
                          then (Inl ''Resource not found'', bw_ext w)
                          else rt_verify rt schedule resource effective fileKey (bw_ext w))
                    in case verified of
                         (Inr _, x) \<Rightarrow>
                           (case patch_run (bk_id run)
                                   (\<lambda>r. r\<lparr>bk_verificationStatus := Some ''verified'', bk_verifiedAt := Some now,
                                          bk_restoreTestedAt := Some now, bk_recoveryPoint := bk_completedAt run\<rparr>)
                                   (w\<lparr>bw_ext := x\<rparr>) of
                              (r, w1) \<Rightarrow> (Inr (or_default r run), w1))
                       | (Inl e, x) \<Rightarrow>
                           (Inl e, snd (patch_run (bk_id run)
                              (\<lambda>r. r\<lparr>bk_verificationStatus := Some ''failed'', bk_verifiedAt := Some now,
                                     bk_error := Some e\<rparr>) (w\<lparr>bw_ext := x\<rparr>))))
           | _ \<Rightarrow> (Inl ''Backup configuration not found'', w)))"

definition restoreBackupRun ::
  "'x backup_runtime \<Rightarrow> string \<Rightarrow> int option \<Rightarrow> 'x backup_world \<Rightarrow> (string + unit) \<times> 'x backup_world" where
  "restoreBackupRun rt runId targetTime w =
     (let t = bw_tables w in
      case completed_artifact runId t of
        Inl e \<Rightarrow> (Inl e, w)
      | Inr (run, fileKey) \<Rightarrow>
          (case findById bc_id (bk_scheduleId run) (bt_schedules t) of
             None \<Rightarrow> (Inl ''Backup schedule not found'', w)
           | Some schedule \<Rightarrow>
               if bc_kind schedule \<noteq> WebServerBackup \<and> run_resource run t = None then (Inl ''Resource not found'', w)
               else case findById sd_id (bk_destinationId run) (bt_destinations t) of
                   None \<Rightarrow> (Inl ''Backup destination not found'', w)
                 | Some destination \<Rightarrow>
                     (case owned_destination run schedule destination t of
                        Inl e \<Rightarrow> (Inl e, w)
                      | Inr effective \<Rightarrow>
                          (case rt_restore rt schedule
                                  (if bc_kind schedule = WebServerBackup then None else run_resource run t)
                                  effective fileKey
                                  (if bc_kind schedule = WebServerBackup then None else targetTime) (bw_ext w) of
                             (result, x) \<Rightarrow> (result, w\<lparr>bw_ext := x\<rparr>)))))"

definition delete_visit ::
  "'x backup_runtime \<Rightarrow> backup_kind \<Rightarrow> effective_destination \<Rightarrow> backup_run \<Rightarrow> 'x backup_world \<Rightarrow>
   (string + unit) \<times> 'x backup_world" where
  "delete_visit rt kind destination run w =
     (if bk_fileKey run = None \<or> bk_fileKey run = Some [] then (Inr (), w)
      else case rt_delete rt (kind = WebServerBackup) destination (the (bk_fileKey run)) (bw_ext w) of
          (result, x) \<Rightarrow> (result, w\<lparr>bw_ext := x\<rparr>))"

text \<open>Deleting the schedule deletes its runs with it.\<close>

definition deleteBackupSchedule ::
  "'x backup_runtime \<Rightarrow> string \<Rightarrow> string option \<Rightarrow> 'x backup_world \<Rightarrow> (string + bool) \<times> 'x backup_world" where
  "deleteBackupSchedule rt i organizationId w =
     (let t = bw_tables w in
      case findById bc_id i (bt_schedules t) of
        None \<Rightarrow> (Inl ''Backup schedule not found'', w)
      | Some schedule \<Rightarrow>
          if organizationId \<noteq> Some (bc_organizationId schedule)
          then (Inl ''Backup schedule belongs to another organization'', w)
          else case findById sd_id (bc_destinationId schedule) (bt_destinations t) of
              None \<Rightarrow> (Inl ''Backup destination not found'', w)
            | Some destination \<Rightarrow>
                if sd_organizationId destination \<noteq> bc_organizationId schedule
                then (Inl ''Backup destination belongs to another organization'', w)
                else case resolveCertificateForOrganization (bt_certificates t) (sd_certificateId destination)
                            (bc_organizationId schedule) of
                  Inl e \<Rightarrow> (Inl e, w)
                | Inr c \<Rightarrow>
                    (case for_each_run (\<lambda>w. bt_runs (bw_tables w)) (bc_id schedule)
                            (delete_visit rt (bc_kind schedule) (withBackupCaCertificate destination c)) w of
                       (Inl e, w1) \<Rightarrow> (Inl e, w1)
                     | (Inr _, w1) \<Rightarrow>
                         let t1 = bw_tables w1 in
                         (Inr (fst (deleteById bc_id (bc_id schedule) (bt_schedules t1))),
                          w1\<lparr>bw_tables := t1\<lparr>bt_schedules := snd (deleteById bc_id (bc_id schedule) (bt_schedules t1)),
                               bt_runs := filter (\<lambda>r. bk_scheduleId r \<noteq> bc_id schedule) (bt_runs t1)\<rparr>\<rparr>)))"

section \<open>Triggering\<close>

definition backup_command :: "backup_run \<Rightarrow> string option \<Rightarrow> create_outbox_message" where
  "backup_command run correlationId =
     \<lparr>co_id = Some (bk_id run), co_type = backupRun_type,
      co_payload = (''runId'', JStr (bk_id run)) #
        (case correlationId of Some c \<Rightarrow> [(''correlationId'', JStr c)] | None \<Rightarrow> []),
      co_aggregateType = Some ''backup_run'', co_aggregateId = Some (bk_id run),
      co_organizationId = Some (bk_organizationId run), co_idempotencyKey = ''backup-run:'' @ bk_id run,
      co_maxAttempts = None, co_availableAt = None\<rparr>"

definition record_run :: "backup_schedule \<Rightarrow> string \<Rightarrow> string option \<Rightarrow> backup_tables \<Rightarrow> string + backup_run \<times> backup_tables" where
  "record_run schedule runId correlationId t =
     (let run = new_run runId (bt_clock t) schedule in
      case createRun run (bt_runs t) of
        Inl e \<Rightarrow> Inl e
      | Inr runs \<Rightarrow>
          (case create runId (bt_clock t) (backup_command run correlationId) (bt_outbox t) of
             (Inl e, _) \<Rightarrow> Inl e
           | (Inr _, outbox) \<Rightarrow> Inr (run, t\<lparr>bt_runs := runs, bt_outbox := outbox\<rparr>)))"

definition triggerBackupRun ::
  "'r redis_api \<Rightarrow> fate \<Rightarrow> fate \<Rightarrow> string \<Rightarrow> string option \<Rightarrow> string \<Rightarrow> backup_tables \<Rightarrow> 'r \<Rightarrow>
   (string + backup_run option) \<times> backup_tables \<times> 'r" where
  "triggerBackupRun api f1 f2 scheduleId correlationId runId t r =
     (case findById bc_id scheduleId (bt_schedules t) of
        None \<Rightarrow> (Inl ''Backup schedule not found'', t, r)
      | Some schedule \<Rightarrow>
          (case acquireBackupRunLock api f1 (bc_id schedule) runId (bt_clock t) r of
             (Inl e, r1) \<Rightarrow> (Inl e, t, r1)
           | (Inr acquired, r1) \<Rightarrow>
               if \<not> acquired then (Inr None, t, r1)
               else case record_run schedule runId correlationId t of
                   Inr (run, t') \<Rightarrow> (Inr (Some run), t', r1)
                 | Inl e \<Rightarrow>
                     (case releaseBackupRunLock api f2 (bc_id schedule) runId (bt_clock t) r1 of
                        (Inl e', r2) \<Rightarrow> (Inl e', t, r2)
                      | (Inr _, r2) \<Rightarrow> (Inl e, t, r2))))"

section \<open>The worker\<close>

record backup_job =
  bj_runId :: "string option"
  bj_attempts :: "int option"
  bj_attemptsMade :: int

text \<open>
  The body of the handler: its result, whether it owns the execution, the schedule it learned,
  the world and the server. The renewal timer only extends the two leases and is left out.
\<close>

definition handle_claim ::
  "'r redis_api \<Rightarrow> fate \<Rightarrow> fate \<Rightarrow> fate \<Rightarrow> 'x backup_runtime \<Rightarrow> string \<Rightarrow> 'x backup_world \<Rightarrow> 'r \<Rightarrow>
   (string + unit) \<times> (string option \<times> bool) \<times> 'x backup_world \<times> 'r" where
  "handle_claim api f1 f2 f3 rt runId w r =
     (let t = bw_tables w; now = bt_clock t in
      case findById bk_id runId (bt_runs t) of
        None \<Rightarrow> (Inl ''Backup run record not found'', (None, False), w, r)
      | Some run \<Rightarrow>
          if bk_status run = BSucceeded then (Inr (), (Some (bk_scheduleId run), False), w, r)
          else case claimRun runId now BACKUP_RUN_EXECUTION_LEASE_MS (bt_runs t) of
              (None, _) \<Rightarrow> (Inl ''Backup run is already being processed'', (Some (bk_scheduleId run), False), w, r)
            | (Some claimedRun, runs) \<Rightarrow>
                let w1 = w\<lparr>bw_tables := t\<lparr>bt_runs := runs\<rparr>\<rparr>; owner = (Some (bk_scheduleId run), True) in
                (case ensureBackupRunLock api f1 f2 (bk_scheduleId claimedRun) runId now r of
                   (Inl e, r1) \<Rightarrow> (Inl e, owner, w1, r1)
                 | (Inr False, r1) \<Rightarrow> (Inl ''Backup run schedule lock is owned by another run'', owner, w1, r1)
                 | (Inr True, r1) \<Rightarrow>
                     (case executeBackupRun rt runId (Some claimedRun) w1 of
                        (Inl e, w2) \<Rightarrow> (Inl e, owner, w2, r1)
                      | (Inr _, w2) \<Rightarrow>
                          (case releaseBackupRunLock api f3 (bk_scheduleId claimedRun) runId now r1 of
                             (Inl e, r2) \<Rightarrow> (Inl e, owner, w2, r2)
                           | (Inr _, r2) \<Rightarrow> (Inr (), owner, w2, r2)))))"

definition backupRunHandler ::
  "'r redis_api \<Rightarrow> fate \<Rightarrow> fate \<Rightarrow> fate \<Rightarrow> fate \<Rightarrow> 'x backup_runtime \<Rightarrow> backup_job \<Rightarrow> 'x backup_world \<Rightarrow> 'r \<Rightarrow>
   (string + unit) \<times> 'x backup_world \<times> 'r" where
  "backupRunHandler api f1 f2 f3 f4 rt job w r =
     (if bj_runId job = None \<or> bj_runId job = Some [] then (Inl ''Backup job is missing runId'', w, r)
      else
        let runId = the (bj_runId job) in
        case handle_claim api f1 f2 f3 rt runId w r of
          (Inr _, _, w1, r1) \<Rightarrow> (Inr (), w1, r1)
        | (Inl e, (scheduleId, ownsExecution), w1, r1) \<Rightarrow>
            let finalAttempt = bj_attemptsMade job + 1 \<ge> or_default (bj_attempts job) 1 in
            if finalAttempt \<and> scheduleId \<noteq> None \<and> scheduleId \<noteq> Some [] \<and> ownsExecution
            then (case releaseBackupRunLock api f4 (the scheduleId) runId (bt_clock (bw_tables w)) r1 of
                    (Inl e', r2) \<Rightarrow> (Inl e', w1, r2) | (Inr _, r2) \<Rightarrow> (Inl e, w1, r2))
            else (Inl e, w1, r1))"

definition recovery_command :: "backup_run \<Rightarrow> string \<Rightarrow> create_outbox_message" where
  "recovery_command run uuid =
     \<lparr>co_id = Some uuid, co_type = backupRun_type, co_payload = [(''runId'', JStr (bk_id run))],
      co_aggregateType = Some ''backup_run'', co_aggregateId = Some (bk_id run),
      co_organizationId = Some (bk_organizationId run),
      co_idempotencyKey = ''backup-run-recovery:'' @ bk_id run @ '':'' @ show_int (bk_updatedAt run),
      co_maxAttempts = None, co_availableAt = None\<rparr>"

definition recover_one :: "int \<Rightarrow> backup_run \<Rightarrow> string \<Rightarrow> backup_tables \<Rightarrow> string + backup_tables" where
  "recover_one now candidate uuid t =
     (if bk_updatedAt candidate \<ge> now - BACKUP_RUN_EXECUTION_LEASE_MS then Inr t
      else case requeueStaleForRecovery (bk_id candidate) now BACKUP_RUN_EXECUTION_LEASE_MS (bt_runs t) of
          (None, _) \<Rightarrow> Inr t
        | (Some run, runs) \<Rightarrow>
            (case create uuid now (recovery_command run uuid) (bt_outbox t) of
               (Inl e, _) \<Rightarrow> Inl e
             | (Inr _, outbox) \<Rightarrow> Inr (t\<lparr>bt_runs := runs, bt_outbox := outbox\<rparr>)))"

fun recover_all :: "int \<Rightarrow> (backup_run \<times> string) list \<Rightarrow> backup_tables \<Rightarrow> (string + unit) \<times> backup_tables" where
  "recover_all now [] t = (Inr (), t)"
| "recover_all now ((c, uuid) # cs) t =
     (case recover_one now c uuid t of Inl e \<Rightarrow> (Inl e, t) | Inr t1 \<Rightarrow> recover_all now cs t1)"

definition recoverStaleBackupRuns :: "string list \<Rightarrow> backup_tables \<Rightarrow> (string + unit) \<times> backup_tables" where
  "recoverStaleBackupRuns uuids t =
     recover_all (bt_clock t) (zip (findRunsByStatus BRunning 100 (bt_runs t)) uuids) t"

end
