(* ===== verification/Backup_Guarantees.thy ===== *)
theory Backup_Guarantees
  imports Backup Outbox_Guarantees
begin

text \<open>
  What the backup component guarantees: the page loop visits the whole history of a schedule
  while rows are deleted under it, retention removes exactly what has expired, a run that was
  executed is settled, tenants stay apart, and a triggered run holds its lock and reaches its
  queue.
\<close>

section \<open>The page loop visits the whole history\<close>

definition after_cursor :: "(int \<times> string) option \<Rightarrow> backup_run \<Rightarrow> bool" where
  "after_cursor c r \<longleftrightarrow> (case c of None \<Rightarrow> True | Some k \<Rightarrow> run_key r < k)"

definition history_from :: "string \<Rightarrow> (int \<times> string) option \<Rightarrow> backup_run list \<Rightarrow> backup_run list" where
  "history_from scheduleId c tbl = newest_first (filter (\<lambda>r. bk_scheduleId r = scheduleId \<and> after_cursor c r) tbl)"

abbreviation history :: "string \<Rightarrow> backup_run list \<Rightarrow> backup_run list" where
  "history scheduleId \<equiv> history_from scheduleId None"

lemma page_is_prefix:
  "findByScheduleIdPage scheduleId c (Some BACKUP_RUN_PAGE_SIZE) tbl = take 500 (history_from scheduleId c tbl)"
proof -
  have "(\<lambda>r. bk_scheduleId r = scheduleId \<and>
      (case c of None \<Rightarrow> True | Some (createdAt, i) \<Rightarrow> bk_createdAt r < createdAt \<or> bk_createdAt r = createdAt \<and> bk_id r < i)) =
    (\<lambda>r. bk_scheduleId r = scheduleId \<and> after_cursor c r)"
    by (auto simp: after_cursor_def run_key_def less_prod_def fun_eq_iff split: option.splits)
  then show ?thesis
    by (simp add: findByScheduleIdPage_def history_from_def or_default_def BACKUP_RUN_PAGE_SIZE_def clamp_limit_def)
qed

lemma newest_first_filter: "newest_first (filter P xs) = filter P (newest_first xs)"
  by (simp add: newest_first_def rev_filter flip: filter_sort)

lemma newest_first_set [simp]: "set (newest_first xs) = set xs"
  by (simp add: newest_first_def)

lemma newest_first_distinct: "distinct (map bk_id xs) \<Longrightarrow> distinct (map bk_id (newest_first xs))"
  by (simp add: newest_first_def distinct_map)

lemma newest_first_descending:
  assumes "distinct (map bk_id xs)"
  shows "sorted_wrt (\<lambda>a b. run_key b < run_key a) (newest_first xs)"
proof -
  have "distinct (map run_key (sort_key run_key xs))"
    using assms by (auto simp: distinct_map inj_on_def run_key_def)
  moreover have "sorted (map run_key (sort_key run_key xs))" by simp
  ultimately have "sorted_wrt (<) (map run_key (sort_key run_key xs))" by (simp add: strict_sorted_iff)
  then show ?thesis by (simp add: newest_first_def sorted_wrt_rev sorted_wrt_map)
qed

lemma after_prefix:
  assumes "sorted_wrt (\<lambda>a b. run_key b < run_key a) xs" "n < length xs \<or> n = length xs" "0 < n"
  shows "filter (\<lambda>r. run_key r < run_key (last (take n xs))) xs = drop n xs"
proof -
  let ?k = "run_key (last (take n xs))"
  have split: "sorted_wrt (\<lambda>a b. run_key b < run_key a) (take n xs @ drop n xs)" using assms(1) by simp
  have ne: "take n xs \<noteq> []" using assms(2,3) by auto
  then have last: "last (take n xs) \<in> set (take n xs)" by simp
  have later: "run_key b < ?k" if "b \<in> set (drop n xs)" for b
    using split that last by (auto simp only: sorted_wrt_append)
  have "\<not> run_key a < ?k" if a: "a \<in> set (take n xs)" for a
  proof -
    have "sorted_wrt (\<lambda>a b. run_key b < run_key a) (butlast (take n xs) @ [last (take n xs)])"
      using split ne by (simp add: sorted_wrt_append)
    moreover have "a \<in> set (butlast (take n xs)) \<or> a = last (take n xs)"
      using a ne by (metis append_butlast_last_id in_set_conv_decomp Un_iff set_append set_ConsD list.set_intros(1) empty_iff list.set(1))
    ultimately show ?thesis by (auto simp: sorted_wrt_append)
  qed
  then have "filter (\<lambda>r. run_key r < ?k) (take n xs) = []" by (simp add: filter_empty_conv)
  moreover have "filter (\<lambda>r. run_key r < ?k) (drop n xs) = drop n xs" using later by (simp add: filter_id_conv)
  ultimately show ?thesis by (metis append_Nil append_take_drop_id filter_append)
qed

lemma visit_all_append:
  "visit_all visit (xs @ ys) s =
     (case visit_all visit xs s of (Inl e, s1) \<Rightarrow> (Inl e, s1) | (Inr _, s1) \<Rightarrow> visit_all visit ys s1)"
  by (induction xs arbitrary: s) (auto split: prod.splits sum.splits)

text \<open>A visitor may delete the row it visits, and changes no other row.\<close>

locale run_visitor =
  fixes table :: "'s \<Rightarrow> backup_run list"
    and visit :: "backup_run \<Rightarrow> 's \<Rightarrow> (string + unit) \<times> 's"
  assumes visit_table:
    "table (snd (visit r s)) = table s \<or> table (snd (visit r s)) = filter (\<lambda>x. bk_id x \<noteq> bk_id r) (table s)"
begin

lemma visit_all_table:
  "\<exists>D \<subseteq> bk_id ` set rs. table (snd (visit_all visit rs s)) = filter (\<lambda>x. bk_id x \<notin> D) (table s)"
proof (induction rs arbitrary: s)
  case Nil
  then show ?case by simp
next
  case (Cons r rs)
  define s1 where "s1 = snd (visit r s)"
  have "\<exists>E \<subseteq> {bk_id r}. table s1 = filter (\<lambda>x. bk_id x \<notin> E) (table s)"
    using visit_table [of r s] unfolding s1_def [symmetric]
  proof
    assume "table s1 = table s"
    then show ?thesis by (intro exI [of _ "{}"]) simp
  next
    assume "table s1 = filter (\<lambda>x. bk_id x \<noteq> bk_id r) (table s)"
    then show ?thesis by (intro exI [of _ "{bk_id r}"]) simp
  qed
  then obtain E where E: "E \<subseteq> {bk_id r}" "table s1 = filter (\<lambda>x. bk_id x \<notin> E) (table s)" by blast
  obtain D where D: "D \<subseteq> bk_id ` set rs" "table (snd (visit_all visit rs s1)) = filter (\<lambda>x. bk_id x \<notin> D) (table s1)"
    using Cons.IH [of s1] by blast
  show ?case
  proof (cases "fst (visit r s)")
    case (Inl e)
    then have "snd (visit_all visit (r # rs) s) = s1" by (auto simp: s1_def split: prod.splits)
    with E show ?thesis by (intro exI [of _ E]) auto
  next
    case (Inr u)
    then have "snd (visit_all visit (r # rs) s) = snd (visit_all visit rs s1)"
      by (auto simp: s1_def split: prod.splits)
    with E D show ?thesis by (intro exI [of _ "E \<union> D"]) (auto simp: conj_commute)
  qed
qed

lemma history_after_visits:
  assumes "distinct (map bk_id (table s))" "n \<le> length (history_from sid c (table s))" "0 < n"
    and page: "page = take n (history_from sid c (table s))"
  shows "history_from sid (Some (run_key (last page))) (table (snd (visit_all visit page s))) =
    drop n (history_from sid c (table s))"
proof -
  let ?H = "history_from sid c (table s)" and ?k = "run_key (last page)"
  have dist: "distinct (map bk_id ?H)"
    unfolding history_from_def using assms(1) by (intro newest_first_distinct distinct_map_filter)
  have desc: "sorted_wrt (\<lambda>a b. run_key b < run_key a) ?H"
    unfolding history_from_def using assms(1) by (intro newest_first_descending distinct_map_filter)
  have rest: "filter (\<lambda>r. run_key r < ?k) ?H = drop n ?H"
    unfolding page using assms(2,3) by (intro after_prefix [OF desc]) auto
  have "page \<noteq> []" using assms(2,3) by (auto simp: page)
  then have mem: "last page \<in> set ?H" unfolding page by (meson in_set_takeD last_in_set)
  have below: "after_cursor c r" if "run_key r < ?k" for r
    using mem that by (auto simp: history_from_def after_cursor_def split: option.splits)
  have later: "history_from sid (Some ?k) t = filter (\<lambda>r. run_key r < ?k) (history_from sid c t)" for t
  proof -
    have "filter (\<lambda>r. bk_scheduleId r = sid \<and> after_cursor (Some ?k) r) t =
        filter (\<lambda>r. run_key r < ?k) (filter (\<lambda>r. bk_scheduleId r = sid \<and> after_cursor c r) t)"
      using below by (auto simp: after_cursor_def intro!: filter_cong)
    then show ?thesis by (simp only: history_from_def newest_first_filter)
  qed
  obtain D where D: "D \<subseteq> bk_id ` set page" "table (snd (visit_all visit page s)) = filter (\<lambda>x. bk_id x \<notin> D) (table s)"
    using visit_all_table by blast
  have "history_from sid c (filter (\<lambda>x. bk_id x \<notin> D) (table s)) = filter (\<lambda>x. bk_id x \<notin> D) ?H"
    unfolding history_from_def newest_first_filter by (simp add: conj_commute)
  then have "history_from sid (Some ?k) (table (snd (visit_all visit page s))) = filter (\<lambda>x. bk_id x \<notin> D) (drop n ?H)"
    by (simp add: later D(2) rest [symmetric] conj_commute)
  moreover have "bk_id r \<notin> D" if "r \<in> set (drop n ?H)" for r
  proof -
    have "set (map bk_id page) \<inter> set (map bk_id (drop n ?H)) = {}"
      using dist unfolding page by (metis append_take_drop_id distinct_append map_append)
    then show ?thesis using D(1) that by auto
  qed
  ultimately show ?thesis by (simp add: filter_id_conv)
qed

lemma page_round:
  assumes "distinct (map bk_id (table s))" "H = history_from sid c (table s)" "H \<noteq> []"
  shows "forEachBackupRunBySchedule (Suc fuel) table sid visit c s =
    (case visit_all visit (take 500 H) s of
       (Inl e, s1) \<Rightarrow> Some (Inl e, s1)
     | (Inr _, s1) \<Rightarrow>
         if length H < 500 then Some (Inr (), s1)
         else forEachBackupRunBySchedule fuel table sid visit (Some (run_key (last (take 500 H)))) s1)"
proof -
  have "take 500 H \<noteq> []" using assms(3) by simp
  moreover have "len (take 500 H) < BACKUP_RUN_PAGE_SIZE \<longleftrightarrow> length H < 500"
    by (auto simp: len_def BACKUP_RUN_PAGE_SIZE_def)
  ultimately show ?thesis
    unfolding forEachBackupRunBySchedule.simps page_is_prefix Let_def assms(2) [symmetric]
    by (simp only: if_False)
qed

lemma page_loop:
  assumes "distinct (map bk_id (table s))" "length (history_from sid c (table s)) < fuel"
  shows "forEachBackupRunBySchedule fuel table sid visit c s = Some (visit_all visit (history_from sid c (table s)) s)"
  using assms
proof (induction fuel arbitrary: c s)
  case 0
  then show ?case by simp
next
  case (Suc fuel)
  define H where "H = history_from sid c (table s)"
  define n :: nat where "n = 500"
  show ?case
  proof (cases "H = []")
    case True
    then show ?thesis by (simp add: page_is_prefix H_def [symmetric])
  next
    case False
    obtain res s1 where v: "visit_all visit (take n H) s = (res, s1)" by (meson surj_pair)
    have all: "visit_all visit H s = (case res of Inl e \<Rightarrow> (Inl e, s1) | Inr _ \<Rightarrow> visit_all visit (drop n H) s1)"
      using visit_all_append [of visit "take n H" "drop n H" s] by (simp add: v)
    have round: "forEachBackupRunBySchedule (Suc fuel) table sid visit c s =
        (case res of Inl e \<Rightarrow> Some (Inl e, s1)
         | Inr _ \<Rightarrow> if length H < n then Some (Inr (), s1)
             else forEachBackupRunBySchedule fuel table sid visit (Some (run_key (last (take n H)))) s1)"
      using page_round [OF Suc.prems(1) H_def False] v by (simp only: n_def prod.case)
    have rest: "forEachBackupRunBySchedule fuel table sid visit (Some (run_key (last (take n H)))) s1 =
        Some (visit_all visit (drop n H) s1)" if full: "n \<le> length H"
    proof -
      have s1: "s1 = snd (visit_all visit (take n H) s)" by (simp only: v snd_conv)
      have "0 < n" by (simp add: n_def)
      have H1: "history_from sid (Some (run_key (last (take n H)))) (table s1) = drop n H"
        unfolding s1 H_def
        by (rule history_after_visits [OF Suc.prems(1) _ \<open>0 < n\<close> refl]) (use full in \<open>simp only: H_def\<close>)
      have "distinct (map bk_id (table s1))"
        using visit_all_table [of "take n H" s] Suc.prems(1) by (auto simp: s1 intro: distinct_map_filter)
      moreover have "length (drop n H) < fuel"
        using Suc.prems(2) full \<open>0 < n\<close> unfolding H_def [symmetric] by simp
      ultimately show ?thesis
        using Suc.IH [of s1 "Some (run_key (last (take n H)))"] unfolding H1 by blast
    qed
    show ?thesis
      unfolding round H_def [symmetric] all
      by (cases res; cases "length H < n") (simp_all add: rest)
  qed
qed

lemma for_each_run_visits:
  assumes "distinct (map bk_id (table s))"
  shows "for_each_run table sid visit s = visit_all visit (history sid (table s)) s"
proof -
  have "length (history sid (table s)) \<le> length (table s)"
    by (simp add: history_from_def newest_first_def)
  then have "length (history sid (table s)) < Suc (length (table s))" by simp
  from page_loop [OF assms this] show ?thesis unfolding for_each_run_def by (simp only: option.case)
qed

end

section \<open>Retention\<close>

interpretation retention: run_visitor "\<lambda>(_, w). bt_runs (bw_tables w)" "retention_visit rt n d" for rt n d
  by unfold_locales
    (auto simp: retention_visit_def delete_run_row_def deleteById_def split: prod.splits sum.splits)

interpretation schedule_deletion: run_visitor "\<lambda>w. bt_runs (bw_tables w)" "delete_visit rt k d" for rt k d
  by unfold_locales (auto simp: delete_visit_def split: prod.splits)

text \<open>A run whose file is kept.\<close>

definition artifact :: "backup_run \<Rightarrow> bool" where
  "artifact r \<longleftrightarrow> bk_status r = BSucceeded \<and> bk_fileKey r \<noteq> None \<and> bk_fileKey r \<noteq> Some []"

text \<open>The reference: delete every file of a list, and give the runs for which that succeeded.\<close>

fun prune ::
  "'x backup_runtime \<Rightarrow> effective_destination \<Rightarrow> backup_run list \<Rightarrow> 'x \<Rightarrow> string list \<times> 'x" where
  "prune rt d [] x = ([], x)"
| "prune rt d (r # rs) x =
     (case rt_delete rt (bk_kind r = WebServerBackup) d (the (bk_fileKey r)) x of
        (Inl e, x1) \<Rightarrow> prune rt d rs x1
      | (Inr _, x1) \<Rightarrow> (case prune rt d rs x1 of (ids, x2) \<Rightarrow> (bk_id r # ids, x2)))"

definition without_runs :: "string list \<Rightarrow> 'x \<Rightarrow> 'x backup_world \<Rightarrow> 'x backup_world" where
  "without_runs ids x w =
     w\<lparr>bw_tables := (bw_tables w)\<lparr>bt_runs := filter (\<lambda>r. bk_id r \<notin> set ids) (bt_runs (bw_tables w))\<rparr>, bw_ext := x\<rparr>"

lemma retention_visit_cases:
  "\<not> artifact r \<Longrightarrow> retention_visit rt n d r (c, w) = (Inr (), c, w)"
  "artifact r \<Longrightarrow> c + 1 \<le> n \<Longrightarrow> retention_visit rt n d r (c, w) = (Inr (), c + 1, w)"
  "artifact r \<Longrightarrow> \<not> c + 1 \<le> n \<Longrightarrow>
   rt_delete rt (bk_kind r = WebServerBackup) d (the (bk_fileKey r)) (bw_ext w) = (Inl e, x) \<Longrightarrow>
   retention_visit rt n d r (c, w) = (Inr (), c + 1, without_runs [] x w)"
  "artifact r \<Longrightarrow> \<not> c + 1 \<le> n \<Longrightarrow>
   rt_delete rt (bk_kind r = WebServerBackup) d (the (bk_fileKey r)) (bw_ext w) = (Inr u, x) \<Longrightarrow>
   retention_visit rt n d r (c, w) = (Inr (), c + 1, without_runs [bk_id r] x w)"
  by (auto simp: retention_visit_def artifact_def without_runs_def delete_run_row_def deleteById_def)

lemma without_runs_twice: "without_runs b y (without_runs a x w) = without_runs (a @ b) y w"
  by (auto simp: without_runs_def intro!: filter_cong)

lemma without_runs_ext [simp]: "bw_ext (without_runs ids x w) = x"
  by (simp add: without_runs_def)

lemma retention_visits:
  "visit_all (retention_visit rt n d) rs (c, w) =
     (Inr (), c + int (length (filter artifact rs)),
      case prune rt d (drop (nat (n - c)) (filter artifact rs)) (bw_ext w) of (ids, x) \<Rightarrow> without_runs ids x w)"
proof (induction rs arbitrary: c w)
  case Nil
  then show ?case by (simp add: without_runs_def)
next
  case (Cons r rs)
  consider (skip) "\<not> artifact r" | (keep) "artifact r" "c + 1 \<le> n" | (expire) "artifact r" "\<not> c + 1 \<le> n" by blast
  then show ?case
  proof cases
    case skip
    then show ?thesis using Cons.IH by (simp add: retention_visit_cases(1))
  next
    case keep
    then have "nat (n - c) = Suc (nat (n - (c + 1)))" by simp
    then show ?thesis using keep Cons.IH [of "c + 1" w] by (simp add: retention_visit_cases(2))
  next
    case expire
    then have late: "nat (n - c) = 0" "nat (n - (c + 1)) = 0" by simp_all
    obtain res x where del: "rt_delete rt (bk_kind r = WebServerBackup) d (the (bk_fileKey r)) (bw_ext w) = (res, x)"
      by (meson surj_pair)
    show ?thesis
      using late expire del
      by (cases res)
        (simp_all add: retention_visit_cases(3,4) Cons.IH without_runs_twice split: prod.split)
  qed
qed

text \<open>
  C39. Retention is exact. When a schedule keeps \<open>n\<close> backups, the files of exactly the
  successful runs beyond the \<open>n\<close> newest are deleted, newest first, the rows of those whose
  file could be deleted disappear, and every other row of the table stays, whatever the size of
  the history and although rows vanish between the pages of the loop.
\<close>

theorem retention_exact:
  assumes "distinct (map bk_id (bt_runs (bw_tables w)))" "0 < n"
    and "expired = drop (nat n) (filter artifact (history scheduleId (bt_runs (bw_tables w))))"
  shows "enforceRetention rt scheduleId (Some n) d w =
    (case prune rt d expired (bw_ext w) of (ids, x) \<Rightarrow> without_runs ids x w)"
proof -
  have "for_each_run (\<lambda>(_, w). bt_runs (bw_tables w)) scheduleId (retention_visit rt n d) (0, w) =
      visit_all (retention_visit rt n d) (history scheduleId (bt_runs (bw_tables w))) (0, w)"
    using retention.for_each_run_visits [of "(0, w)" scheduleId rt n d] assms(1) by simp
  then show ?thesis
    using assms(2) by (simp add: enforceRetention_def retention_visits assms(3) split: prod.splits)
qed

lemma prune_subset: "set (fst (prune rt d rs x)) \<subseteq> bk_id ` set rs"
proof (induction rs arbitrary: x)
  case Nil
  then show ?case by simp
next
  case (Cons r rs)
  then show ?case by (auto split: prod.splits sum.splits dest: subsetD) (metis Cons.IH fst_conv subsetD)+
qed

section \<open>Settled runs\<close>

abbreviation runs_of :: "'x backup_world \<Rightarrow> backup_run list" where
  "runs_of w \<equiv> bt_runs (bw_tables w)"

abbreviation clock_of :: "'x backup_world \<Rightarrow> int" where
  "clock_of w \<equiv> bt_clock (bw_tables w)"

lemma patch_run_result:
  assumes "\<And>r. bk_id (f r) = bk_id r" "patch_run i f w = (res, w')"
  shows "res = map_option (\<lambda>r. (f r)\<lparr>bk_updatedAt := clock_of w\<rparr>) (findById bk_id i (runs_of w))"
    "findById bk_id i (runs_of w') = res" "map bk_id (runs_of w') = map bk_id (runs_of w)"
    "clock_of w' = clock_of w" "bw_ext w' = bw_ext w"
proof -
  let ?g = "\<lambda>r. (f r)\<lparr>bk_updatedAt := clock_of w\<rparr>"
  have u: "updateRun (clock_of w) i f (runs_of w) = update_where bk_id i (\<lambda>_. True) ?g (runs_of w)"
    by (simp add: updateRun_def updateById_def)
  have r: "res = fst (update_where bk_id i (\<lambda>_. True) ?g (runs_of w))"
    and w': "w' = w\<lparr>bw_tables := (bw_tables w)\<lparr>bt_runs := snd (update_where bk_id i (\<lambda>_. True) ?g (runs_of w))\<rparr>\<rparr>"
    using assms(2) by (auto simp: patch_run_def u split: prod.splits)
  show "res = map_option ?g (findById bk_id i (runs_of w))"
    by (auto simp: r update_where_def split: option.split)
  have key: "bk_id (?g x) = bk_id x" for x using assms(1) by simp
  show "findById bk_id i (runs_of w') = res"
    using update_where_find [of bk_id ?g i i "\<lambda>_. True" "runs_of w"] assms(1)
    by (auto simp: w' r update_where_def split: option.splits)
  show "map bk_id (runs_of w') = map bk_id (runs_of w)"
    using update_where_keys [of bk_id ?g i "\<lambda>_. True" "runs_of w"] assms(1) by (simp add: w')
  show "clock_of w' = clock_of w" "bw_ext w' = bw_ext w" by (simp_all add: w')
qed

lemma retention_removes:
  assumes "distinct (map bk_id (runs_of w))"
  shows "\<exists>ids x. enforceRetention rt sid rc d w = without_runs ids x w"
proof (cases "rc = None \<or> rc = Some 0")
  case True
  then have "enforceRetention rt sid rc d w = without_runs [] (bw_ext w) w"
    by (simp add: enforceRetention_def without_runs_def)
  then show ?thesis by blast
next
  case False
  then show ?thesis
    using retention.for_each_run_visits [of "(0, w)" sid rt "the rc" d] assms
    by (auto simp: enforceRetention_def retention_visits split: prod.splits)
qed

lemma find_without_runs:
  "findById bk_id i (runs_of (without_runs ids x w)) = (if i \<in> set ids then None else findById bk_id i (runs_of w))"
proof -
  have "find (\<lambda>r. bk_id r = i) (filter (\<lambda>r. bk_id r \<notin> set ids) rs) =
      (if i \<in> set ids then None else find (\<lambda>r. bk_id r = i) rs)" for rs
    by (induction rs) auto
  from this [of "runs_of w"] show ?thesis unfolding without_runs_def findById_def by simp
qed

text \<open>What a run has to show for itself after a success.\<close>

definition backed_up :: "backup_schedule \<Rightarrow> string \<Rightarrow> backup_run \<Rightarrow> bool" where
  "backed_up schedule fileKey r \<longleftrightarrow>
     bk_status r = BSucceeded \<and> bk_fileKey r = Some fileKey \<and>
     (bc_restoreVerification schedule \<longrightarrow> bk_verificationStatus r = Some ''verified'')"

lemma verify_created_result:
  assumes V: "verify_created rt run schedule d fileKey completed w1 = (v, w2)"
    and c: "findById bk_id (bk_id run) (runs_of w1) = Some c" "bk_status c = BSucceeded" "bk_fileKey c = Some fileKey"
  shows "map bk_id (runs_of w2) = map bk_id (runs_of w1) \<and>
    (\<exists>r. findById bk_id (bk_id run) (runs_of w2) = Some r \<and> (v = Inr () \<longrightarrow> backed_up schedule fileKey r))"
proof (cases "bc_restoreVerification schedule")
  case False
  with V c show ?thesis by (auto simp: verify_created_def backed_up_def)
next
  case True
  obtain vv y where vv: "rt_verify rt schedule (if bc_kind schedule = WebServerBackup then None else bk_resourceId run)
      d fileKey (bw_ext w1) = (vv, y)" by (meson surj_pair)
  show ?thesis
  proof (cases vv)
    case (Inl e)
    let ?f = "\<lambda>r. r\<lparr>bk_verificationStatus := Some ''failed'', bk_verifiedAt := Some (clock_of w1),
        bk_error := Some (take 1000 (''Backup created but verification failed: '' @ e))\<rparr>"
    have "v = Inl e" "w2 = snd (patch_run (bk_id run) ?f (w1\<lparr>bw_ext := y\<rparr>))"
      using V True vv Inl by (simp_all add: verify_created_def Let_def)
    moreover have "bk_id (?f r) = bk_id r" for r by simp
    note patch_run_result [OF this surjective_pairing, of "bk_id run" "w1\<lparr>bw_ext := y\<rparr>"]
    ultimately show ?thesis using c(1) by simp
  next
    case (Inr u)
    let ?f = "\<lambda>r. r\<lparr>bk_verificationStatus := Some ''verified'', bk_verifiedAt := Some (clock_of w1),
        bk_restoreTestedAt := Some (clock_of w1), bk_recoveryPoint := Some (or_default (bk_completedAt completed) (clock_of w1))\<rparr>"
    have "w2 = snd (patch_run (bk_id run) ?f (w1\<lparr>bw_ext := y\<rparr>))"
      using V True vv Inr by (simp add: verify_created_def Let_def)
    moreover have "bk_id (?f r) = bk_id r" for r by simp
    note patch_run_result [OF this surjective_pairing, of "bk_id run" "w1\<lparr>bw_ext := y\<rparr>"]
    ultimately show ?thesis using c by (simp add: backed_up_def)
  qed
qed

lemma perform_backup_result:
  assumes D: "distinct (map bk_id (runs_of w))" and run: "findById bk_id (bk_id run) (runs_of w) = Some run"
    and P: "perform_backup rt run schedule d w = (res, w')"
  shows "case res of
      Inl e \<Rightarrow> findById bk_id (bk_id run) (runs_of w') \<noteq> None
    | Inr completed \<Rightarrow> \<exists>fileKey. bk_status completed = BSucceeded \<and> bk_fileKey completed = Some fileKey \<and>
        (\<forall>r. findById bk_id (bk_id run) (runs_of w') = Some r \<longrightarrow> backed_up schedule fileKey r)"
proof -
  obtain made x where made: "rt_create rt schedule (if bc_kind schedule = WebServerBackup then None else bk_resourceId run)
      d (bw_ext w) = (made, x)" by (meson surj_pair)
  show ?thesis
  proof (cases made)
    case (Inl e)
    with P made run show ?thesis by (auto simp: perform_backup_def)
  next
    case M: (Inr fileKey)
    let ?f = "\<lambda>r. r\<lparr>bk_status := BSucceeded, bk_fileKey := Some fileKey, bk_error := None, bk_completedAt := Some (clock_of w)\<rparr>"
    obtain c w1 where p1: "patch_run (bk_id run) ?f (w\<lparr>bw_ext := x\<rparr>) = (c, w1)" by (meson surj_pair)
    have "bk_id (?f r) = bk_id r" for r by simp
    note q1 = patch_run_result [OF this p1]
    obtain completed where c: "c = Some completed" "bk_status completed = BSucceeded" "bk_fileKey completed = Some fileKey"
      using q1(1) run by auto
    obtain v w2 where ver: "verify_created rt run schedule d fileKey completed w1 = (v, w2)" by (meson surj_pair)
    note row2 = verify_created_result [OF ver q1(2) [unfolded c(1)] c(2,3)]
    show ?thesis
    proof (cases v)
      case (Inl e)
      with P made M p1 c ver row2 show ?thesis by (auto simp: perform_backup_def)
    next
      case (Inr u)
      obtain ids y where gone: "enforceRetention rt (bc_id schedule) (bc_retentionCount schedule) d w2 = without_runs ids y w2"
        using retention_removes [of w2 rt "bc_id schedule" "bc_retentionCount schedule" d] row2 q1(3) D by auto
      have res: "res = Inr completed" "w' = without_runs ids y w2"
        using P made M p1 c(1) ver Inr gone by (simp_all add: perform_backup_def)
      have "backed_up schedule fileKey r" if "findById bk_id (bk_id run) (runs_of w') = Some r" for r
        using that row2 Inr by (auto simp: res find_without_runs split: if_splits)
      then show ?thesis using res c by auto
    qed
  qed
qed

text \<open>The certificate the destination of a run needs can be found.\<close>

definition certificate_found :: "backup_run \<Rightarrow> backup_tables \<Rightarrow> bool" where
  "certificate_found run t \<longleftrightarrow>
     (case (findById bc_id (bk_scheduleId run) (bt_schedules t), findById sd_id (bk_destinationId run) (bt_destinations t)) of
        (Some schedule, Some destination) \<Rightarrow>
          (case resolveCertificateForOrganization (bt_certificates t) (sd_certificateId destination) (bc_organizationId schedule) of
             Inl _ \<Rightarrow> False | Inr _ \<Rightarrow> True)
      | _ \<Rightarrow> True)"

definition marked_failed :: "string \<Rightarrow> 'x backup_world \<Rightarrow> bool" where
  "marked_failed i w \<longleftrightarrow> (\<exists>r. findById bk_id i (runs_of w) = Some r \<and> bk_status r = BFailed \<and> bk_error r \<noteq> None)"

lemma failBeforeExecution_marks:
  assumes "findById bk_id (bk_id run) (runs_of w) = Some run"
  shows "marked_failed (bk_id run) (snd (failBeforeExecution run message w))"
proof -
  let ?f = "\<lambda>r. r\<lparr>bk_status := BFailed, bk_error := Some message, bk_completedAt := Some (clock_of w)\<rparr>"
  have "bk_id (?f r) = bk_id r" for r by simp
  note patch_run_result [OF this surjective_pairing, of "bk_id run" w]
  then show ?thesis using assms by (simp add: failBeforeExecution_def marked_failed_def)
qed

lemma failBeforeExecution_error [simp]: "fst (failBeforeExecution run message w) = Inl message"
  by (simp add: failBeforeExecution_def)

lemma publishOutcome_tables [simp]: "bw_tables (publishOutcome rt org run name b w) = bw_tables w"
  by (simp add: publishOutcome_def)

definition settled :: "backup_tables \<Rightarrow> backup_run \<Rightarrow> (string + backup_run) \<times> 'x backup_world \<Rightarrow> bool" where
  "settled t run result \<longleftrightarrow>
     (case fst result of
        Inl e \<Rightarrow> marked_failed (bk_id run) (snd result)
      | Inr completed \<Rightarrow>
          \<exists>fileKey schedule. bk_status completed = BSucceeded \<and> bk_fileKey completed = Some fileKey \<and>
            findById bc_id (bk_scheduleId run) (bt_schedules t) = Some schedule \<and>
            (\<forall>r. findById bk_id (bk_id run) (runs_of (snd result)) = Some r \<longrightarrow> backed_up schedule fileKey r))"

lemma settled_failBeforeExecution:
  "findById bk_id (bk_id run) (runs_of w) = Some run \<Longrightarrow> settled t run (failBeforeExecution run message w)"
  by (simp add: settled_def failBeforeExecution_marks)

lemma settled_perform:
  assumes D: "distinct (map bk_id (runs_of w))" and run: "findById bk_id (bk_id run) (runs_of w) = Some run"
    and sch: "findById bc_id (bk_scheduleId run) (bt_schedules t) = Some schedule"
  shows "settled t run
    (case perform_backup rt run schedule d w of
       (Inr completed, w1) \<Rightarrow> (Inr completed, publishOutcome rt org completed name True w1)
     | (Inl e, w1) \<Rightarrow>
         (case patch_run (bk_id run)
                 (\<lambda>r. r\<lparr>bk_status := BFailed, bk_error := Some (take 1000 e), bk_completedAt := Some (clock_of w1)\<rparr>) w1 of
            (failed, w2) \<Rightarrow> (Inl e, publishOutcome rt org (or_default failed run) name False w2)))"
proof -
  obtain res w1 where P: "perform_backup rt run schedule d w = (res, w1)" by (meson surj_pair)
  note r = perform_backup_result [OF D run P]
  show ?thesis
  proof (cases res)
    case (Inr completed)
    with P r sch show ?thesis by (auto simp: settled_def)
  next
    case (Inl e)
    let ?f = "\<lambda>r. r\<lparr>bk_status := BFailed, bk_error := Some (take 1000 e), bk_completedAt := Some (clock_of w1)\<rparr>"
    obtain failed w2 where p: "patch_run (bk_id run) ?f w1 = (failed, w2)" by (meson surj_pair)
    have "bk_id (?f r) = bk_id r" for r by simp
    from patch_run_result [OF this p] r Inl
    have "\<exists>x. findById bk_id (bk_id run) (runs_of w2) = Some x \<and> bk_status x = BFailed \<and> bk_error x \<noteq> None" by auto
    with P Inl p show ?thesis by (simp add: settled_def marked_failed_def)
  qed
qed

lemma run_claimed_settles:
  assumes "distinct (map bk_id (runs_of w))" "findById bk_id (bk_id run) (runs_of w) = Some run"
    "certificate_found run (bw_tables w)"
  shows "settled (bw_tables w) run (run_claimed rt run w)"
  using assms(3) settled_failBeforeExecution [OF assms(2), of "bw_tables w"]
    settled_perform [OF assms(1,2), of "bw_tables w"]
  by (auto simp: run_claimed_def Let_def certificate_found_def split: option.splits sum.splits)


text \<open>
  A certificate that is gone strands the run: execution ends with an error, nothing is
  recorded, and the row stays running.
\<close>

theorem missing_certificate_strands_run:
  assumes "findById bc_id (bk_scheduleId run) (bt_schedules (bw_tables w)) = Some schedule"
    and "bk_status run = BRunning" "bc_kind schedule = WebServerBackup" "bk_organizationId run = bc_organizationId schedule"
    and "bc_organizationId schedule \<noteq> []"
    and "findById sd_id (bk_destinationId run) (bt_destinations (bw_tables w)) = Some destination"
    and "sd_organizationId destination = bc_organizationId schedule" "sd_certificateId destination = Some i" "i \<noteq> []"
    and "findById ce_id i (bt_certificates (bw_tables w)) = None"
  shows "executeBackupRun rt (bk_id run) (Some run) w =
    (Inl ''Selected certificate is not available to this organization'', w)"
  using assms by (simp add: executeBackupRun_def run_claimed_def resolveCertificateForOrganization_def Let_def)

section \<open>Tenants\<close>

definition same_tenant :: "backup_run \<Rightarrow> backup_tables \<Rightarrow> bool" where
  "same_tenant run t \<longleftrightarrow>
     (\<exists>schedule destination. findById bc_id (bk_scheduleId run) (bt_schedules t) = Some schedule \<and>
        findById sd_id (bk_destinationId run) (bt_destinations t) = Some destination \<and>
        bk_organizationId run = bc_organizationId schedule \<and> sd_organizationId destination = bc_organizationId schedule)"

lemma failBeforeExecution_ext [simp]: "bw_ext (snd (failBeforeExecution run m w)) = bw_ext w"
  by (simp add: failBeforeExecution_def patch_run_def split: prod.splits)

lemma run_claimed_same_tenant:
  "\<not> same_tenant run (bw_tables w) \<Longrightarrow> bw_ext (snd (run_claimed rt run w)) = bw_ext w"
  by (auto simp: run_claimed_def Let_def same_tenant_def split: option.splits sum.splits)

lemma owned_destination_same_tenant:
  assumes "findById bc_id (bk_scheduleId run) (bt_schedules t) = Some schedule"
    "findById sd_id (bk_destinationId run) (bt_destinations t) = Some destination" "\<not> same_tenant run t"
  shows "\<exists>e. owned_destination run schedule destination t = Inl e"
  using assms by (auto simp: owned_destination_def same_tenant_def Let_def)

text \<open>
  Tenants stay apart: executing, verifying or restoring a run reaches the runtime, which
  moves data, only when the run, its schedule and its destination belong to one organization.
\<close>

theorem backup_tenant_isolation:
  assumes "findById bk_id runId (runs_of w) = Some run" "\<not> same_tenant run (bw_tables w)"
  shows "bw_ext (snd (executeBackupRun rt runId (Some run) w)) = bw_ext w \<and>
    bw_ext (snd (verifyBackupRun rt runId w)) = bw_ext w \<and>
    bw_ext (snd (restoreBackupRun rt runId time w)) = bw_ext w"
proof (intro conjI)
  show "bw_ext (snd (executeBackupRun rt runId (Some run) w)) = bw_ext w"
    using run_claimed_same_tenant [OF assms(2)] by (simp add: executeBackupRun_def)
  note o = owned_destination_same_tenant [of run "bw_tables w"]
  show "bw_ext (snd (verifyBackupRun rt runId w)) = bw_ext w"
    using assms o by (fastforce simp: verifyBackupRun_def completed_artifact_def Let_def split: option.splits sum.splits)
  show "bw_ext (snd (restoreBackupRun rt runId time w)) = bw_ext w"
    using assms o by (fastforce simp: restoreBackupRun_def completed_artifact_def Let_def split: option.splits sum.splits)
qed

section \<open>Triggering\<close>

definition correlation_ok :: "string option \<Rightarrow> bool" where
  "correlation_ok c \<longleftrightarrow> (case c of Some x \<Rightarrow> x \<noteq> [] \<and> len x \<le> 128 | None \<Rightarrow> True)"

lemma backup_command_published:
  assumes "correlation_ok c" "bk_id run \<noteq> []"
  shows "\<exists>job. publish_job cancelled (new_message (bk_id run) now (backup_command run c)) = Inr (Some job) \<and>
    job_queue job = ''backup-run'' \<and> job_id job = bk_id run \<and> get_prop (job_data job) ''runId'' = JStr (bk_id run)"
  using assms
  by (cases c)
    (simp_all add: publish_job_def new_message_def backup_command_def or_default_def backupRun_type_def deploy_type_def
      backupPayloadSchema_def correlation_field_def get_prop_def correlation_ok_def)

lemma record_run_result:
  assumes "record_run schedule runId c t = Inr (run, t')" "''backup-run:'' @ runId \<notin> om_idempotencyKey ` set (bt_outbox t)"
  shows "run = new_run runId (bt_clock t) schedule" "bt_runs t' = bt_runs t @ [run]"
    "bt_outbox t' = bt_outbox t @ [new_message runId (bt_clock t) (backup_command run c)]"
  using assms
  by (auto simp: record_run_def createRun_def Let_def create_def insert_message_def new_message_def find_key_None
      backup_command_def new_run_def or_default_def split: if_splits sum.splits prod.splits option.splits)

text \<open>
  Triggering a backup, over every Redis server that answers. A new run leaves one queued
  row, one outbox message that the publisher turns into a job of the backup queue, and the lock
  of the schedule held by the run; while another run holds the lock nothing changes; and when
  the rows cannot be written the lock is free again and the tables are as before.
\<close>

theorem triggered_backup_published:
  assumes redis: "redis_server api entry"
    and run: "triggerBackupRun api Answered Answered sid c runId t r = (res, t', r')"
    and sch: "findById bc_id sid (bt_schedules t) = Some schedule"
    and "correlation_ok c" "runId \<noteq> []" and fresh: "''backup-run:'' @ runId \<notin> om_idempotencyKey ` set (bt_outbox t)"
  shows "case res of
      Inr (Some run) \<Rightarrow> live (entry r' (backupRunLockKey sid)) (bt_clock t) = Some runId \<and>
        bt_runs t' = bt_runs t @ [run] \<and> bk_id run = runId \<and> bk_scheduleId run = sid \<and> bk_status run = BQueued \<and>
        (\<exists>message job. bt_outbox t' = bt_outbox t @ [message] \<and> publish_job cancelled message = Inr (Some job) \<and>
           job_queue job = ''backup-run'' \<and> get_prop (job_data job) ''runId'' = JStr runId)
    | Inr None \<Rightarrow> t' = t \<and> r' = r \<and> live (entry r (backupRunLockKey sid)) (bt_clock t) \<noteq> None
    | Inl e \<Rightarrow> t' = t \<and> live (entry r' (backupRunLockKey sid)) (bt_clock t) = None"
proof -
  let ?k = "backupRunLockKey sid" and ?now = "bt_clock t"
  have id: "bc_id schedule = sid" using findById_key [OF sch] by simp
  show ?thesis
  proof (cases "live (entry r ?k) ?now = None")
    case False
    with redis_server.set_taken [OF redis this, of runId BACKUP_LOCK_TTL_MS] run sch id show ?thesis
      by (auto simp: triggerBackupRun_def acquireBackupRunLock_def withTimeout_def)
  next
    case True
    obtain ok r1 where set: "rx_set_nx_px api ?k runId BACKUP_LOCK_TTL_MS ?now r = (ok, r1)" by (meson surj_pair)
    from redis_server.set_free [OF redis True, of runId BACKUP_LOCK_TTL_MS] set
    have ok: "ok" and r1: "entry r1 = (entry r)(?k \<mapsto> (runId, Some (?now + BACKUP_LOCK_TTL_MS)))" by simp_all
    have held: "live (entry r1 ?k) ?now = Some runId" by (simp add: r1 BACKUP_LOCK_TTL_MS_def)
    show ?thesis
    proof (cases "record_run schedule runId c t")
      case (Inl e)
      obtain rel r2 where rel: "RELEASE_SCRIPT api ?k runId ?now r1 = (rel, r2)" by (meson surj_pair)
      have "entry r2 = (entry r1)(?k := None)"
        using redis_server.release_script(1) [OF redis held] rel by simp
      with Inl run sch id set ok rel show ?thesis
        by (auto simp: triggerBackupRun_def acquireBackupRunLock_def releaseBackupRunLock_def withTimeout_def)
    next
      case (Inr p)
      then obtain row t2 where rec: "record_run schedule runId c t = Inr (row, t2)" by (cases p) auto
      note new = record_run_result [OF rec fresh]
      have "res = Inr (Some row)" "t' = t2" "r' = r1"
        using run sch id set ok rec
        by (simp_all add: triggerBackupRun_def acquireBackupRunLock_def withTimeout_def)
      moreover have "bk_id row = runId" "bk_scheduleId row = sid" "bk_status row = BQueued"
        using new(1) id by (simp_all add: new_run_def)
      moreover have "\<exists>job. publish_job cancelled (new_message runId ?now (backup_command row c)) = Inr (Some job) \<and>
          job_queue job = ''backup-run'' \<and> get_prop (job_data job) ''runId'' = JStr runId"
        using backup_command_published [of c row cancelled ?now] assms(4,5) calculation(4) by auto
      ultimately show ?thesis using held new(2,3) by auto
    qed
  qed
qed

section \<open>One schedule\<close>

definition sample_schedule :: backup_schedule where
  "sample_schedule =
     \<lparr>bc_id = ''s'', bc_resourceId = None, bc_organizationId = ''org'', bc_destinationId = ''d'',
      bc_kind = WebServerBackup, bc_retentionCount = Some 1, bc_restoreVerification = True\<rparr>"

definition sample_run :: "string \<Rightarrow> int \<Rightarrow> backup_run" where
  "sample_run i now = (new_run i now sample_schedule)\<lparr>bk_status := BSucceeded, bk_fileKey := Some (''file-'' @ i)\<rparr>"

definition claimed_run :: backup_run where
  "claimed_run = (new_run ''r9'' 9 sample_schedule)\<lparr>bk_status := BRunning\<rparr>"

text \<open>A runtime that records what it is asked to do.\<close>

definition logging_runtime :: "string list backup_runtime" where
  "logging_runtime =
     \<lparr>rt_create = (\<lambda>s r d x. (Inr ''new-file'', x @ [''create''])), rt_verify = (\<lambda>s r d k x. (Inr (), x @ [''verify''])),
      rt_delete = (\<lambda>web d k x. (Inr (), x @ [''delete '' @ k])),
      rt_restore = (\<lambda>s r d k t x. (Inr (), x @ [''restore''])), rt_notify = (\<lambda>n x. x @ [''notify''])\<rparr>"

definition sample_world :: "string option \<Rightarrow> string \<Rightarrow> backup_run list \<Rightarrow> string list backup_world" where
  "sample_world certificate org runs =
     \<lparr>bw_tables = \<lparr>bt_runs = runs, bt_schedules = [sample_schedule],
        bt_destinations = [\<lparr>sd_id = ''d'', sd_organizationId = org, sd_certificateId = certificate\<rparr>],
        bt_certificates = [], bt_resources = [], bt_outbox = [], bt_clock = 10\<rparr>,
      bw_ext = []\<rparr>"

definition sample_target :: effective_destination where
  "sample_target = (\<lparr>sd_id = ''d'', sd_organizationId = ''org'', sd_certificateId = None\<rparr>, None)"

lemmas sample_backup_defs = sample_schedule_def sample_run_def claimed_run_def sample_world_def new_run_def

theorem retention_exact_witness:
  "bw_ext (enforceRetention logging_runtime ''s'' (Some 1) sample_target
     (sample_world None ''org'' [sample_run ''a'' 1, sample_run ''b'' 2, sample_run ''c'' 3])) =
   [''delete file-b'', ''delete file-a'']"
proof -
  let ?w = "sample_world None ''org'' [sample_run ''a'' 1, sample_run ''b'' 2, sample_run ''c'' 3]"
  have h: "drop (nat 1) (filter artifact (history ''s'' (runs_of ?w))) = [sample_run ''b'' 2, sample_run ''a'' 1]"
    by (simp add: history_from_def after_cursor_def newest_first_def run_key_def artifact_def sample_backup_defs)
  have "distinct (map bk_id (runs_of ?w))" by (simp add: sample_backup_defs)
  from retention_exact [OF this, of 1 _ "''s''" logging_runtime sample_target, OF _ h [symmetric]] show ?thesis
    by (simp add: logging_runtime_def sample_backup_defs split: prod.splits)
qed


theorem missing_certificate_strands_run_witness:
  "executeBackupRun logging_runtime ''r9'' (Some claimed_run) (sample_world (Some ''cert'') ''org'' [claimed_run]) =
   (Inl ''Selected certificate is not available to this organization'', sample_world (Some ''cert'') ''org'' [claimed_run])"
  using missing_certificate_strands_run [where run = claimed_run and w = "sample_world (Some ''cert'') ''org'' [claimed_run]"
      and schedule = sample_schedule and i = "''cert''" and rt = logging_runtime]
  by (simp add: sample_backup_defs findById_def)

theorem backup_tenant_isolation_witness:
  "bw_ext (snd (executeBackupRun logging_runtime ''r9'' (Some claimed_run) (sample_world None ''other'' [claimed_run]))) = []"
proof -
  let ?w = "sample_world None ''other'' [claimed_run]"
  have "findById bk_id ''r9'' (runs_of ?w) = Some claimed_run" "\<not> same_tenant claimed_run (bw_tables ?w)"
    by (simp_all add: sample_backup_defs findById_def same_tenant_def)
  from backup_tenant_isolation [OF this, of logging_runtime] show ?thesis by (simp add: sample_backup_defs)
qed

theorem triggered_backup_published_witness:
  "\<exists>run t' r'. triggerBackupRun map_redis Answered Answered ''s'' None ''r1'' (bw_tables (sample_world None ''org'' [])) Map.empty =
     (Inr (Some run), t', r') \<and> live (r' (backupRunLockKey ''s'')) 10 = Some ''r1'' \<and> length (bt_outbox t') = 1"
proof -
  let ?t = "bw_tables (sample_world None ''org'' [])"
  have "\<exists>run t' r'. triggerBackupRun map_redis Answered Answered ''s'' None ''r1'' ?t Map.empty = (Inr (Some run), t', r')"
    by (simp add: triggerBackupRun_def acquireBackupRunLock_def withTimeout_def map_redis_def record_run_def createRun_def
        create_def insert_message_def new_message_def find_key_def or_default_def backup_command_def findById_def Let_def sample_backup_defs)
  then obtain run t' r' where acc:
    "triggerBackupRun map_redis Answered Answered ''s'' None ''r1'' ?t Map.empty = (Inr (Some run), t', r')" by blast
  have "findById bc_id ''s'' (bt_schedules ?t) = Some sample_schedule" "correlation_ok None" "''r1'' \<noteq> ([] :: string)"
    "''backup-run:'' @ ''r1'' \<notin> om_idempotencyKey ` set (bt_outbox ?t)" "bt_outbox ?t = []" "bt_clock ?t = 10"
    by (simp_all add: sample_backup_defs findById_def correlation_ok_def)
  note h = this
  from triggered_backup_published [OF map_redis.redis_server_axioms acc h(1-4), of "\<lambda>_. False"] h(5,6) acc
  show ?thesis by auto
qed

end
