(* ===== verification/Safe_Glob.thy ===== *)
theory Safe_Glob
  imports Prelude
begin

text \<open>
  The glob matcher for watch paths and tags, \<open>usecases/src/deployment/safe-glob.ts\<close>: the
  tokenizer, the closure of a set of automaton states by a worklist, and the simulation over
  the characters of the input. A JavaScript \<open>Set\<close> is the list of its elements in insertion
  order, without repetition. The reference is the language of a token list, and the matcher
  decides exactly it.
\<close>

section \<open>The matcher\<close>

definition MAX_GLOB_PATTERN_LENGTH :: nat where
  "MAX_GLOB_PATTERN_LENGTH = 512"

definition MAX_GLOB_INPUT_LENGTH :: nat where
  "MAX_GLOB_INPUT_LENGTH = 4096"

datatype glob_token = Literal char | SegmentStar | AnyStar

text \<open>The loop of \<open>tokenize\<close>: a run of two or more stars is one \<open>any-star\<close>.\<close>

function glob_tokens :: "string \<Rightarrow> glob_token list" where
  "glob_tokens [] = []"
| "glob_tokens (c # cs) =
     (if c \<noteq> CHR ''*'' then Literal c # glob_tokens cs
      else (if takeWhile (\<lambda>d. d = CHR ''*'') cs \<noteq> [] then AnyStar else SegmentStar) #
        glob_tokens (dropWhile (\<lambda>d. d = CHR ''*'') cs))"
  by pat_completeness auto
termination by (relation "measure length") (auto simp: le_imp_less_Suc length_dropWhile_le)

definition tokenize :: "string \<Rightarrow> glob_token list option" where
  "tokenize pattern =
     (let normalized = trim pattern in
      if normalized = [] \<or> length normalized > MAX_GLOB_PATTERN_LENGTH then None
      else Some (glob_tokens normalized))"

definition is_star :: "glob_token \<Rightarrow> bool" where
  "is_star t \<longleftrightarrow> t = SegmentStar \<or> t = AnyStar"

definition set_add :: "nat \<Rightarrow> nat list \<Rightarrow> nat list" where
  "set_add x s = (if x \<in> set s then s else s @ [x])"

lemma set_set_add [simp]: "set (set_add x s) = insert x (set s)"
  by (auto simp: set_add_def)

lemma distinct_set_add [simp]: "distinct (set_add x s) = distinct s"
  by (auto simp: set_add_def)

text \<open>The stack \<open>pending\<close> has its top first.\<close>

function closure_loop :: "glob_token list \<Rightarrow> nat list \<Rightarrow> nat list \<Rightarrow> nat list" where
  "closure_loop tokens closed [] = closed"
| "closure_loop tokens closed (state # pending) =
     (if state \<ge> length tokens \<or> state + 1 \<in> set closed \<or> \<not> is_star (tokens ! state)
      then closure_loop tokens closed pending
      else closure_loop tokens (set_add (state + 1) closed) ((state + 1) # pending))"
  by pat_completeness auto
termination
proof (relation "measure (\<lambda>(tokens, closed, pending).
    2 * card ({..length tokens} - set closed) + length pending)")
  fix tokens :: "glob_token list" and closed pending :: "nat list" and state :: nat
  assume "\<not> (state \<ge> length tokens \<or> state + 1 \<in> set closed \<or> \<not> is_star (tokens ! state))"
  then have "{..length tokens} - insert (state + 1) (set closed) \<subset> {..length tokens} - set closed"
    by fastforce
  then have "card ({..length tokens} - insert (state + 1) (set closed)) < card ({..length tokens} - set closed)"
    by (intro psubset_card_mono) simp_all
  then show "((tokens, set_add (state + 1) closed, (state + 1) # pending), tokens, closed, state # pending) \<in>
      measure (\<lambda>(tokens, closed, pending). 2 * card ({..length tokens} - set closed) + length pending)"
    by (simp del: Diff_insert0 card_Diff_insert)
qed simp_all

declare closure_loop.simps(2) [simp del]

lemma closure_loop_cases:
  "state \<ge> length ts \<or> state + 1 \<in> set closed \<or> \<not> is_star (ts ! state) \<Longrightarrow>
     closure_loop ts closed (state # pending) = closure_loop ts closed pending"
  "\<not> (state \<ge> length ts \<or> state + 1 \<in> set closed \<or> \<not> is_star (ts ! state)) \<Longrightarrow>
     closure_loop ts closed (state # pending) =
       closure_loop ts (set_add (state + 1) closed) ((state + 1) # pending)"
  by (subst closure_loop.simps(2), erule if_P if_not_P)+

definition epsilonClosure :: "glob_token list \<Rightarrow> nat list \<Rightarrow> nat list" where
  "epsilonClosure tokens states = closure_loop tokens states (rev states)"

text \<open>The body of the loop over the states for one character.\<close>

definition next_state :: "glob_token list \<Rightarrow> bool \<Rightarrow> char \<Rightarrow> nat \<Rightarrow> nat option" where
  "next_state tokens starMatchesSlash character state =
     (if state \<ge> length tokens then None
      else case tokens ! state of
        AnyStar \<Rightarrow> Some state
      | SegmentStar \<Rightarrow> (if starMatchesSlash \<or> character \<noteq> CHR ''/'' then Some state else None)
      | Literal v \<Rightarrow> (if v = character then Some (state + 1) else None))"

fun next_states :: "glob_token list \<Rightarrow> bool \<Rightarrow> char \<Rightarrow> nat list \<Rightarrow> nat list \<Rightarrow> nat list" where
  "next_states tokens starMatchesSlash character [] nxt = nxt"
| "next_states tokens starMatchesSlash character (state # states) nxt =
     next_states tokens starMatchesSlash character states
       (case next_state tokens starMatchesSlash character state of
          None \<Rightarrow> nxt | Some j \<Rightarrow> set_add j nxt)"

fun match_loop :: "glob_token list \<Rightarrow> bool \<Rightarrow> nat list \<Rightarrow> string \<Rightarrow> bool" where
  "match_loop tokens starMatchesSlash states [] \<longleftrightarrow>
     length tokens \<in> set (epsilonClosure tokens states)"
| "match_loop tokens starMatchesSlash states (character # rest) \<longleftrightarrow>
     (let states' = epsilonClosure tokens (next_states tokens starMatchesSlash character states [])
      in if states' = [] then False else match_loop tokens starMatchesSlash states' rest)"

definition matchesSafeGlob :: "string \<Rightarrow> string \<Rightarrow> bool \<Rightarrow> bool" where
  "matchesSafeGlob pattern value starMatchesSlash =
     (if length value > MAX_GLOB_INPUT_LENGTH then False
      else case tokenize pattern of
        None \<Rightarrow> False
      | Some tokens \<Rightarrow> match_loop tokens starMatchesSlash (epsilonClosure tokens [0]) value)"

section \<open>The language of a pattern\<close>

fun glob_language :: "bool \<Rightarrow> glob_token list \<Rightarrow> string \<Rightarrow> bool" where
  "glob_language slash [] s \<longleftrightarrow> s = []"
| "glob_language slash (Literal c # ts) s \<longleftrightarrow> (\<exists>r. s = c # r \<and> glob_language slash ts r)"
| "glob_language slash (SegmentStar # ts) s \<longleftrightarrow>
     (\<exists>u r. s = u @ r \<and> (slash \<or> CHR ''/'' \<notin> set u) \<and> glob_language slash ts r)"
| "glob_language slash (AnyStar # ts) s \<longleftrightarrow> (\<exists>u r. s = u @ r \<and> glob_language slash ts r)"

text \<open>A set of states accepts what the tokens from one of its states denote.\<close>

definition accepts :: "glob_token list \<Rightarrow> bool \<Rightarrow> nat set \<Rightarrow> string \<Rightarrow> bool" where
  "accepts ts slash S s \<longleftrightarrow> (\<exists>i \<in> S. i \<le> length ts \<and> glob_language slash (drop i ts) s)"

definition star_closed :: "glob_token list \<Rightarrow> nat set \<Rightarrow> bool" where
  "star_closed ts S \<longleftrightarrow> (\<forall>i \<in> S. i < length ts \<and> is_star (ts ! i) \<longrightarrow> i + 1 \<in> S)"

lemma glob_language_skip_star:
  "is_star t \<Longrightarrow> glob_language slash ts s \<Longrightarrow> glob_language slash (t # ts) s"
  by (cases t) (fastforce simp: is_star_def)+

lemma segment_star_Cons:
  "glob_language slash (SegmentStar # ts) (c # s) \<longleftrightarrow>
     (slash \<or> c \<noteq> CHR ''/'') \<and> glob_language slash (SegmentStar # ts) s \<or> glob_language slash ts (c # s)"
proof
  assume "glob_language slash (SegmentStar # ts) (c # s)"
  then obtain u r where u: "c # s = u @ r" "slash \<or> CHR ''/'' \<notin> set u" "glob_language slash ts r" by auto
  then show "(slash \<or> c \<noteq> CHR ''/'') \<and> glob_language slash (SegmentStar # ts) s \<or> glob_language slash ts (c # s)"
    by (cases u) auto
next
  assume "(slash \<or> c \<noteq> CHR ''/'') \<and> glob_language slash (SegmentStar # ts) s \<or> glob_language slash ts (c # s)"
  then consider (eat) u r where "slash \<or> c \<noteq> CHR ''/''" "s = u @ r" "slash \<or> CHR ''/'' \<notin> set u"
      "glob_language slash ts r"
    | (skip) "glob_language slash ts (c # s)" by auto
  then show "glob_language slash (SegmentStar # ts) (c # s)"
  proof cases
    case eat
    then have "c # s = (c # u) @ r" "slash \<or> CHR ''/'' \<notin> set (c # u)" by auto
    with eat(4) show ?thesis by (metis glob_language.simps(3))
  next
    case skip
    then show ?thesis by (metis append_Nil empty_iff empty_set glob_language.simps(3))
  qed
qed

lemma any_star_Cons:
  "glob_language slash (AnyStar # ts) (c # s) \<longleftrightarrow>
     glob_language slash (AnyStar # ts) s \<or> glob_language slash ts (c # s)"
proof
  assume "glob_language slash (AnyStar # ts) (c # s)"
  then obtain u r where u: "c # s = u @ r" "glob_language slash ts r" by auto
  then show "glob_language slash (AnyStar # ts) s \<or> glob_language slash ts (c # s)"
    by (cases u) auto
next
  assume "glob_language slash (AnyStar # ts) s \<or> glob_language slash ts (c # s)"
  then show "glob_language slash (AnyStar # ts) (c # s)"
    by (auto intro: exI [of _ "[]"]) (metis append_Cons)
qed

lemma star_Nil:
  "glob_language slash (SegmentStar # ts) [] = glob_language slash ts []"
  "glob_language slash (AnyStar # ts) [] = glob_language slash ts []"
  by auto

lemmas star_languages = segment_star_Cons any_star_Cons star_Nil

declare glob_language.simps(3,4) [simp del]

lemma glob_language_Cons:
  "glob_language slash (t # ts) (c # s) \<longleftrightarrow>
     (case t of
        AnyStar \<Rightarrow> glob_language slash (t # ts) s
      | SegmentStar \<Rightarrow> (slash \<or> c \<noteq> CHR ''/'') \<and> glob_language slash (t # ts) s
      | Literal v \<Rightarrow> v = c \<and> glob_language slash ts s) \<or>
     is_star t \<and> glob_language slash ts (c # s)"
  by (cases t) (auto simp: is_star_def star_languages)

subsection \<open>The closure\<close>

lemma closure_loop_extends: "set closed \<subseteq> set (closure_loop ts closed pending)"
proof (induction ts closed pending rule: closure_loop.induct)
  case (2 ts closed state pending)
  show ?case
  proof (cases "state \<ge> length ts \<or> state + 1 \<in> set closed \<or> \<not> is_star (ts ! state)")
    case True
    from 2(1) [OF True] show ?thesis by (simp only: closure_loop_cases(1) [OF True])
  next
    case False
    from 2(2) [OF False] show ?thesis
      by (simp only: closure_loop_cases(2) [OF False] set_set_add insert_subset)
  qed
qed simp

lemma closure_loop_star_closed:
  "\<forall>i \<in> set closed. i \<notin> set pending \<longrightarrow> i < length ts \<and> is_star (ts ! i) \<longrightarrow> i + 1 \<in> set closed \<Longrightarrow>
   star_closed ts (set (closure_loop ts closed pending))"
proof (induction ts closed pending rule: closure_loop.induct)
  case (1 ts closed)
  then show ?case by (auto simp: star_closed_def)
next
  case (2 ts closed state pending)
  show ?case
  proof (cases "state \<ge> length ts \<or> state + 1 \<in> set closed \<or> \<not> is_star (ts ! state)")
    case True
    with 2(3) have "\<forall>i \<in> set closed. i \<notin> set pending \<longrightarrow> i < length ts \<and> is_star (ts ! i) \<longrightarrow> i + 1 \<in> set closed"
      by auto
    from 2(1) [OF True this] show ?thesis by (simp only: closure_loop_cases(1) [OF True])
  next
    case False
    with 2(3) have "\<forall>i \<in> set (set_add (state + 1) closed). i \<notin> set ((state + 1) # pending) \<longrightarrow>
        i < length ts \<and> is_star (ts ! i) \<longrightarrow> i + 1 \<in> set (set_add (state + 1) closed)"
      by auto
    from 2(2) [OF False this] show ?thesis by (simp only: closure_loop_cases(2) [OF False])
  qed
qed

lemma closure_loop_sound:
  assumes "\<And>i. i < length ts \<Longrightarrow> is_star (ts ! i) \<Longrightarrow> Q i \<Longrightarrow> Q (i + 1)"
  shows "\<forall>i \<in> set closed \<union> set pending. Q i \<Longrightarrow> \<forall>j \<in> set (closure_loop ts closed pending). Q j"
  using assms
proof (induction ts closed pending rule: closure_loop.induct)
  case (2 ts closed state pending)
  show ?case
  proof (cases "state \<ge> length ts \<or> state + 1 \<in> set closed \<or> \<not> is_star (ts ! state)")
    case True
    from 2(1) [OF True] 2(3,4) show ?thesis by (simp add: closure_loop_cases(1) [OF True])
  next
    case False
    with 2(3,4) have "\<forall>i \<in> set (set_add (state + 1) closed) \<union> set ((state + 1) # pending). Q i" by simp
    from 2(2) [OF False this] 2(4)
    have "\<forall>j \<in> set (closure_loop ts (set_add (state + 1) closed) ((state + 1) # pending)). Q j" by blast
    then show ?thesis by (simp only: closure_loop_cases(2) [OF False])
  qed
qed simp

lemma epsilonClosure_extends: "set S \<subseteq> set (epsilonClosure ts S)"
  by (simp add: epsilonClosure_def closure_loop_extends)

lemma epsilonClosure_star_closed: "star_closed ts (set (epsilonClosure ts S))"
  unfolding epsilonClosure_def by (rule closure_loop_star_closed) simp

lemma epsilonClosure_accepts:
  "accepts ts slash (set (epsilonClosure ts S)) s \<longleftrightarrow> accepts ts slash (set S) s"
proof
  assume a: "accepts ts slash (set (epsilonClosure ts S)) s"
  let ?Q = "\<lambda>j. j \<le> length ts \<and> glob_language slash (drop j ts) s \<longrightarrow> accepts ts slash (set S) s"
  have "\<forall>j \<in> set (epsilonClosure ts S). ?Q j"
    unfolding epsilonClosure_def
  proof (rule closure_loop_sound [where Q = "?Q"])
    show "\<forall>i \<in> set S \<union> set (rev S). ?Q i" by (auto simp: accepts_def)
    show "?Q (i + 1)" if "i < length ts" "is_star (ts ! i)" "?Q i" for i
      using that glob_language_skip_star [OF that(2), of slash "drop (i + 1) ts" s]
      by (auto simp: Cons_nth_drop_Suc)
  qed
  with a show "accepts ts slash (set S) s" by (auto simp: accepts_def)
next
  assume "accepts ts slash (set S) s"
  with epsilonClosure_extends show "accepts ts slash (set (epsilonClosure ts S)) s"
    by (fastforce simp: accepts_def)
qed

subsection \<open>One character\<close>

lemma set_next_states:
  "set (next_states ts slash c S nxt) = set nxt \<union> {j. \<exists>i \<in> set S. next_state ts slash c i = Some j}"
  by (induction S arbitrary: nxt) (auto split: option.splits)

lemma next_states_distinct: "distinct nxt \<Longrightarrow> distinct (next_states ts slash c S nxt)"
  by (induction S arbitrary: nxt) (auto split: option.splits)

lemma next_state_bound: "next_state ts slash c i = Some j \<Longrightarrow> j \<le> length ts"
  by (auto simp: next_state_def split: if_splits glob_token.splits)

lemma next_states_sound:
  assumes "i \<le> length ts" "next_state ts slash c i = Some j" "glob_language slash (drop j ts) s"
  shows "glob_language slash (drop i ts) (c # s)"
proof -
  from assms(2) have "i < length ts" by (simp add: next_state_def split: if_splits)
  with assms(2,3) show ?thesis
    by (auto simp: next_state_def glob_language_Cons simp flip: Cons_nth_drop_Suc
        split: glob_token.splits if_splits)
qed

lemma next_states_complete:
  assumes "star_closed ts S" "i \<in> S" "i \<le> length ts" "glob_language slash (drop i ts) (c # s)"
  shows "\<exists>k \<in> S. \<exists>j. next_state ts slash c k = Some j \<and> glob_language slash (drop j ts) s"
  using assms(2-4)
proof (induction "length ts - i" arbitrary: i)
  case 0
  then show ?case by simp
next
  case (Suc n)
  then have i: "i < length ts" by simp
  then have d: "drop i ts = ts ! i # drop (i + 1) ts" by (simp add: Cons_nth_drop_Suc)
  from Suc.prems(3) d consider
    (step) j where "next_state ts slash c i = Some j" "glob_language slash (drop j ts) s"
  | (skip) "is_star (ts ! i)" "glob_language slash (drop (i + 1) ts) (c # s)"
    using i by (auto simp: glob_language_Cons next_state_def split: glob_token.splits)
  then show ?case
  proof cases
    case step
    with Suc.prems show ?thesis by blast
  next
    case skip
    moreover from skip(1) i Suc.prems(1) assms(1) have "i + 1 \<in> S" by (auto simp: star_closed_def)
    ultimately show ?thesis using Suc.hyps(1) [of "i + 1"] Suc.hyps(2) i by simp
  qed
qed

lemma next_states_accepts:
  assumes "star_closed ts (set S)"
  shows "accepts ts slash (set (next_states ts slash c S [])) s \<longleftrightarrow> accepts ts slash (set S) (c # s)"
proof
  assume "accepts ts slash (set (next_states ts slash c S [])) s"
  then obtain i j where "i \<in> set S" "next_state ts slash c i = Some j" "glob_language slash (drop j ts) s"
    by (auto simp: accepts_def set_next_states)
  moreover from this(2) have "i \<le> length ts" by (simp add: next_state_def split: if_splits)
  ultimately show "accepts ts slash (set S) (c # s)"
    using next_states_sound by (auto simp: accepts_def)
next
  assume "accepts ts slash (set S) (c # s)"
  then obtain i where "i \<in> set S" "i \<le> length ts" "glob_language slash (drop i ts) (c # s)"
    by (auto simp: accepts_def)
  from next_states_complete [OF assms this]
  show "accepts ts slash (set (next_states ts slash c S [])) s"
    by (auto simp: accepts_def set_next_states dest: next_state_bound)
qed

lemma accepts_Nil:
  assumes "star_closed ts S"
  shows "length ts \<in> S \<longleftrightarrow> accepts ts slash S []"
proof
  assume "accepts ts slash S []"
  then obtain i where "i \<in> S" "i \<le> length ts" "glob_language slash (drop i ts) []"
    by (auto simp: accepts_def)
  then show "length ts \<in> S"
  proof (induction "length ts - i" arbitrary: i)
    case 0
    then show ?case by simp
  next
    case (Suc n)
    then have i: "i < length ts" by simp
    with Suc.prems have s: "is_star (ts ! i)" "glob_language slash (drop (i + 1) ts) []"
      using Cons_nth_drop_Suc [OF i, symmetric]
      by (cases "ts ! i"; simp add: is_star_def star_languages)+
    with i Suc.prems(1) assms have "i + 1 \<in> S" by (auto simp: star_closed_def)
    then show ?case using Suc.hyps(1) [of "i + 1"] Suc.hyps(2) i s by simp
  qed
qed (auto simp: accepts_def)

lemma match_loop_accepts:
  "star_closed ts (set S) \<Longrightarrow> match_loop ts slash S s \<longleftrightarrow> accepts ts slash (set S) s"
proof (induction s arbitrary: S)
  case Nil
  then show ?case
    using accepts_Nil [OF epsilonClosure_star_closed [of ts S], of slash]
    by (simp only: epsilonClosure_accepts match_loop.simps)
next
  case (Cons c s)
  let ?S = "epsilonClosure ts (next_states ts slash c S [])"
  have "match_loop ts slash S (c # s) \<longleftrightarrow> accepts ts slash (set ?S) s"
    using Cons.IH [OF epsilonClosure_star_closed, of "next_states ts slash c S []"]
    by (cases "?S = []") (simp_all add: Let_def accepts_def)
  with Cons.prems show ?case by (simp add: epsilonClosure_accepts next_states_accepts)
qed

subsection \<open>The work per character\<close>

lemma glob_tokens_length: "length (glob_tokens s) \<le> length s"
proof (induction s rule: glob_tokens.induct)
  case (2 c cs)
  then show ?case
    using length_dropWhile_le [of "\<lambda>d. d = CHR ''*''" cs] by (auto intro: order_trans)
qed simp

definition state_set :: "glob_token list \<Rightarrow> nat list \<Rightarrow> bool" where
  "state_set ts S \<longleftrightarrow> distinct S \<and> set S \<subseteq> {..length ts}"

lemma state_set_length: "state_set ts S \<Longrightarrow> length S \<le> length ts + 1"
  using card_mono [of "{..length ts}" "set S"] by (simp add: state_set_def distinct_card)

lemma closure_loop_distinct: "distinct closed \<Longrightarrow> distinct (closure_loop ts closed pending)"
proof (induction ts closed pending rule: closure_loop.induct)
  case (2 ts closed state pending)
  show ?case
  proof (cases "state \<ge> length ts \<or> state + 1 \<in> set closed \<or> \<not> is_star (ts ! state)")
    case True
    from 2(1) [OF True] 2(3) show ?thesis by (simp only: closure_loop_cases(1) [OF True])
  next
    case False
    from 2(2) [OF False] 2(3) show ?thesis
      by (simp only: closure_loop_cases(2) [OF False] distinct_set_add)
  qed
qed simp

lemma state_set_closure: "state_set ts S \<Longrightarrow> state_set ts (epsilonClosure ts S)"
  using closure_loop_sound [of ts "\<lambda>i. i \<le> length ts" S "rev S"] closure_loop_distinct [of S ts "rev S"]
  by (auto simp: state_set_def epsilonClosure_def)

lemma state_set_next: "state_set ts (next_states ts slash c S [])"
  by (auto simp: state_set_def set_next_states intro: next_states_distinct dest: next_state_bound)

text \<open>The sets of states the loop goes through, one per character consumed.\<close>

fun states_after :: "glob_token list \<Rightarrow> bool \<Rightarrow> nat list \<Rightarrow> string \<Rightarrow> nat list list" where
  "states_after ts slash S [] = [S]"
| "states_after ts slash S (c # s) =
     S # states_after ts slash (epsilonClosure ts (next_states ts slash c S [])) s"

lemma states_after_bounded:
  "state_set ts S \<Longrightarrow> T \<in> set (states_after ts slash S s) \<Longrightarrow> state_set ts T"
proof (induction s arbitrary: S)
  case (Cons c s)
  then show ?case using Cons.IH [OF state_set_closure [OF state_set_next]] by auto
qed simp

section \<open>Properties\<close>

text \<open>
  C33. The matcher decides exactly the language of the pattern: it answers true precisely when
  the trimmed pattern is not empty, both inputs are within their limits, and the value is in
  the language of the pattern's tokens, where a single star does not cross a slash unless
  asked to.
\<close>

theorem glob_decides_language:
  "matchesSafeGlob pattern input slash \<longleftrightarrow>
     length input \<le> 4096 \<and> trim pattern \<noteq> [] \<and> length (trim pattern) \<le> 512 \<and>
     glob_language slash (glob_tokens (trim pattern)) input"
proof -
  have "match_loop ts slash (epsilonClosure ts [0]) input \<longleftrightarrow> glob_language slash ts input" for ts
    using match_loop_accepts [OF epsilonClosure_star_closed [of ts "[0]"], of slash input]
    by (simp add: epsilonClosure_accepts) (simp add: accepts_def)
  then show ?thesis
    by (auto simp: matchesSafeGlob_def tokenize_def Let_def MAX_GLOB_INPUT_LENGTH_def
        MAX_GLOB_PATTERN_LENGTH_def)
qed

text \<open>
  The work per character is bounded, whatever the pattern: none of the state sets the
  matcher goes through has more than 513 elements, and no state occurs twice, so no pattern
  makes the simulation grow with its input.
\<close>

theorem glob_work_bounded:
  assumes "tokenize pattern = Some ts"
    and "T \<in> set (states_after ts slash (epsilonClosure ts [0]) input)"
  shows "distinct T \<and> length T \<le> 513"
proof -
  have "state_set ts T"
    by (rule states_after_bounded [OF state_set_closure assms(2)]) (simp add: state_set_def)
  moreover from assms(1) have "length ts \<le> 512"
    using glob_tokens_length [of "trim pattern"]
    by (auto simp: tokenize_def Let_def MAX_GLOB_PATTERN_LENGTH_def split: if_splits)
  ultimately show ?thesis using state_set_length by (fastforce simp: state_set_def)
qed

theorem glob_work_bounded_witness:
  "tokenize ''**/*'' = Some [AnyStar, Literal (CHR ''/''), SegmentStar] \<and>
   [0, 1] \<in> set (states_after [AnyStar, Literal (CHR ''/''), SegmentStar] False
     (epsilonClosure [AnyStar, Literal (CHR ''/''), SegmentStar] [0]) ''a'') \<and>
   distinct [0 :: nat, 1] \<and> length [0 :: nat, 1] \<le> 513"
proof -
  have t: "tokenize ''**/*'' = Some [AnyStar, Literal (CHR ''/''), SegmentStar]" by code_simp
  have s: "[0, 1] \<in> set (states_after [AnyStar, Literal (CHR ''/''), SegmentStar] False
     (epsilonClosure [AnyStar, Literal (CHR ''/''), SegmentStar] [0]) ''a'')" by code_simp
  from glob_work_bounded [OF t s] t s show ?thesis by blast
qed

end
