(* ===== verification/Rate_Limit.thy ===== *)
theory Rate_Limit
  imports Platform Complex_Main
begin

text \<open>
  Request rate limiting: the limiter of \<open>infrastructure/src/rate-limit.ts\<close>, which counts in
  Redis and falls back to in-process token buckets, and the policies and enforcement of
  \<open>api/src/rate-limiting\<close>.

  The buckets are the insertion-ordered \<open>Map\<close>, an association list with distinct keys. Token
  counts and refill rates are rational numbers, so the rounding of floating point is not
  modelled; times are integers in milliseconds. What a Redis command of one call answers
  (a value, or an error such as a timeout) is a parameter of that call. Log lines are not
  modelled, the fields that throttle them are.
\<close>

section \<open>The limiter\<close>

definition DEFAULT_REDIS_COOLDOWN_MS :: int where "DEFAULT_REDIS_COOLDOWN_MS = 5000"
definition DEFAULT_LOCAL_ENTRY_LIMIT :: int where "DEFAULT_LOCAL_ENTRY_LIMIT = 10000"
definition LOG_INTERVAL_MS :: int where "LOG_INTERVAL_MS = 60000"

record local_bucket =
  lb_capacity :: rat
  lb_refillPerMillisecond :: rat
  lb_tokens :: rat
  lb_lastUpdatedAt :: int

datatype limit_source = RedisSource | LocalSource

record rate_limit_result =
  rr_allowed :: bool
  rr_limit :: rat
  rr_remaining :: int
  rr_resetAt :: int
  rr_source :: limit_source

record rate_limiter =
  rl_buckets :: "(string \<times> local_bucket) list"
  rl_redisCooldownMs :: int
  rl_localEntryLimit :: int
  rl_nextLocalCleanupAt :: int
  rl_fallbackUntil :: int
  rl_lastFailureLogAt :: int
  rl_lastRecoveryLogAt :: int
  rl_redisFailures :: int
  rl_fallbackRequests :: int
  rl_lastRedisFailureAt :: "int option"
  rl_distributed :: bool

definition new_rate_limiter :: "int \<Rightarrow> int \<Rightarrow> int \<Rightarrow> bool \<Rightarrow> string + rate_limiter" where
  "new_rate_limiter redisTimeoutMs redisCooldownMs localEntryLimit distributed =
     (if redisTimeoutMs < 1 \<or> redisCooldownMs < 1
      then Inl ''Redis rate-limit timing values must be positive''
      else if localEntryLimit < 1 then Inl ''Local rate-limit entry limit must be positive''
      else Inr \<lparr>rl_buckets = [], rl_redisCooldownMs = redisCooldownMs, rl_localEntryLimit = localEntryLimit,
        rl_nextLocalCleanupAt = 0, rl_fallbackUntil = 0, rl_lastFailureLogAt = 0, rl_lastRecoveryLogAt = 0,
        rl_redisFailures = 0, rl_fallbackRequests = 0, rl_lastRedisFailureAt = None,
        rl_distributed = distributed\<rparr>)"

text \<open>\<open>Map.set\<close> keeps the place of a key it has, \<open>Map.delete\<close> removes it.\<close>

fun map_set :: "'k \<Rightarrow> 'v \<Rightarrow> ('k \<times> 'v) list \<Rightarrow> ('k \<times> 'v) list" where
  "map_set k v [] = [(k, v)]"
| "map_set k v ((k', v') # m) = (if k' = k then (k, v) # m else (k', v') # map_set k v m)"

definition map_delete :: "'k \<Rightarrow> ('k \<times> 'v) list \<Rightarrow> ('k \<times> 'v) list" where
  "map_delete k m = filter (\<lambda>(k', _). k' \<noteq> k) m"

definition cleanupLocalBuckets :: "int \<Rightarrow> int \<Rightarrow> rate_limiter \<Rightarrow> rate_limiter" where
  "cleanupLocalBuckets now ttlMs rl =
     (if now < rl_nextLocalCleanupAt rl then rl
      else rl\<lparr>rl_buckets := filter (\<lambda>(_, bucket). \<not> (now - lb_lastUpdatedAt bucket \<ge> ttlMs)) (rl_buckets rl),
              rl_nextLocalCleanupAt := now + min ttlMs 5000\<rparr>)"

definition evict_oldest :: "rate_limiter \<Rightarrow> rate_limiter" where
  "evict_oldest rl =
     (if len (rl_buckets rl) \<ge> rl_localEntryLimit rl
      then (case rl_buckets rl of
              [] \<Rightarrow> rl
            | (oldestKey, _) # _ \<Rightarrow> rl\<lparr>rl_buckets := map_delete oldestKey (rl_buckets rl)\<rparr>)
      else rl)"

text \<open>
  The bucket of a key after refilling, stored back. A bucket is a shared object, so the token
  a request takes is taken from the stored one.
\<close>

definition touch_bucket :: "string \<Rightarrow> rat \<Rightarrow> rat \<Rightarrow> int \<Rightarrow> rate_limiter \<Rightarrow> local_bucket \<times> rate_limiter" where
  "touch_bucket key limit refillPerMillisecond now rl =
     (let fresh = \<lparr>lb_capacity = limit, lb_refillPerMillisecond = refillPerMillisecond,
                   lb_tokens = limit, lb_lastUpdatedAt = now\<rparr>
      in case map_of (rl_buckets rl) key of
           None \<Rightarrow> (fresh, (evict_oldest rl)\<lparr>rl_buckets := map_set key fresh (rl_buckets (evict_oldest rl))\<rparr>)
         | Some bucket \<Rightarrow>
             if lb_capacity bucket \<noteq> limit \<or> lb_refillPerMillisecond bucket \<noteq> refillPerMillisecond
             then (fresh, rl\<lparr>rl_buckets := map_set key fresh (rl_buckets rl)\<rparr>)
             else
               let elapsed = max 0 (now - lb_lastUpdatedAt bucket);
                   refilled = bucket\<lparr>
                     lb_tokens := min (lb_capacity bucket)
                       (lb_tokens bucket + rat_of_int elapsed * lb_refillPerMillisecond bucket),
                     lb_lastUpdatedAt := now\<rparr>
               in (refilled, rl\<lparr>rl_buckets := map_set key refilled (map_delete key (rl_buckets rl))\<rparr>))"

definition checkLocal ::
  "string \<Rightarrow> rat \<Rightarrow> int \<Rightarrow> int \<Rightarrow> rate_limiter \<Rightarrow> rate_limit_result \<times> rate_limiter" where
  "checkLocal key limit windowSeconds now rl =
     (let rl1 = (if rl_distributed rl then rl\<lparr>rl_fallbackRequests := rl_fallbackRequests rl + 1\<rparr> else rl);
          rl2 = cleanupLocalBuckets now (windowSeconds * 1000) rl1;
          refillPerMillisecond = limit / (rat_of_int windowSeconds * 1000)
      in case touch_bucket key limit refillPerMillisecond now rl2 of
           (bucket, rl3) \<Rightarrow>
             let allowed = lb_tokens bucket \<ge> 1;
                 taken = (if allowed then bucket\<lparr>lb_tokens := lb_tokens bucket - 1\<rparr> else bucket);
                 waitForToken = max 0 (1 - lb_tokens taken)
             in (\<lparr>rr_allowed = allowed, rr_limit = limit, rr_remaining = \<lfloor>lb_tokens taken\<rfloor>,
                  rr_resetAt = \<lceil>rat_of_int now + waitForToken / lb_refillPerMillisecond taken\<rceil>,
                  rr_source = LocalSource\<rparr>,
                 rl3\<lparr>rl_buckets := map_set key taken (rl_buckets rl3)\<rparr>))"

definition markRedisUnavailable :: "int \<Rightarrow> rate_limiter \<Rightarrow> rate_limiter" where
  "markRedisUnavailable now rl =
     (let wasAvailable = rl_fallbackUntil rl \<le> now;
          rl1 = rl\<lparr>rl_fallbackUntil := now + rl_redisCooldownMs rl, rl_redisFailures := rl_redisFailures rl + 1,
                   rl_lastRedisFailureAt := Some now\<rparr>
      in if wasAvailable \<and> now - rl_lastFailureLogAt rl \<ge> LOG_INTERVAL_MS
         then rl1\<lparr>rl_lastFailureLogAt := now\<rparr> else rl1)"

definition markRedisAvailable :: "int \<Rightarrow> rate_limiter \<Rightarrow> rate_limiter" where
  "markRedisAvailable now rl =
     (let wasUnavailable = rl_fallbackUntil rl > now;
          rl1 = rl\<lparr>rl_fallbackUntil := 0\<rparr>
      in if wasUnavailable \<and> now - rl_lastRecoveryLogAt rl \<ge> LOG_INTERVAL_MS
         then rl1\<lparr>rl_lastRecoveryLogAt := now\<rparr> else rl1)"

text \<open>
  The Redis client: \<open>eval\<close> where the client has it, whose answer is \<open>None\<close> when it is not an
  integer, and \<open>incr\<close> and \<open>expire\<close>. A command that rejects or times out is an error.
\<close>

record rate_limit_redis =
  rd_eval :: "(string \<Rightarrow> int \<Rightarrow> string + int option) option"
  rd_incr :: "string \<Rightarrow> string + int"
  rd_expire :: "string \<Rightarrow> int \<Rightarrow> string + int"

definition MAX_SAFE_INTEGER :: int where
  "MAX_SAFE_INTEGER = 9007199254740991"

definition incrementWithExpiry :: "rate_limit_redis \<Rightarrow> string \<Rightarrow> int \<Rightarrow> string + int" where
  "incrementWithExpiry redis key windowSeconds =
     (case rd_eval redis of
        Some ev \<Rightarrow>
          (case ev key windowSeconds of
             Inl e \<Rightarrow> Inl e
           | Inr None \<Rightarrow> Inl ''Redis returned an invalid rate-limit count''
           | Inr (Some count) \<Rightarrow>
               if \<bar>count\<bar> > MAX_SAFE_INTEGER \<or> count < 1
               then Inl ''Redis returned an invalid rate-limit count'' else Inr count)
      | None \<Rightarrow>
          (case rd_incr redis key of
             Inl e \<Rightarrow> Inl e
           | Inr count \<Rightarrow>
               if count = 1
               then (case rd_expire redis key windowSeconds of Inl e \<Rightarrow> Inl e | Inr _ \<Rightarrow> Inr count)
               else Inr count))"

record check_options =
  ck_key :: string
  ck_limit :: int
  ck_fallbackLimit :: int
  ck_windowSeconds :: int

definition check ::
  "rate_limit_redis \<Rightarrow> int \<Rightarrow> check_options \<Rightarrow> rate_limiter \<Rightarrow> (string + rate_limit_result) \<times> rate_limiter" where
  "check redis now opts rl =
     (if ck_limit opts < 1 \<or> ck_fallbackLimit opts < 1 \<or> ck_windowSeconds opts < 1
      then (Inl ''Rate-limit values must be positive'', rl)
      else if \<not> rl_distributed rl then
        (case checkLocal (ck_key opts) (rat_of_int (ck_limit opts)) (ck_windowSeconds opts) now rl of
           (r, rl') \<Rightarrow> (Inr r, rl'))
      else if rl_fallbackUntil rl > now then
        (case checkLocal (ck_key opts) (rat_of_int (ck_fallbackLimit opts)) (ck_windowSeconds opts) now rl of
           (r, rl') \<Rightarrow> (Inr r, rl'))
      else
        let currentWindow = now div 1000 div ck_windowSeconds opts;
            redisKey = ck_key opts @ '':'' @ show_int currentWindow
        in case incrementWithExpiry redis redisKey (ck_windowSeconds opts) of
             Inr count \<Rightarrow>
               (Inr \<lparr>rr_allowed = count \<le> ck_limit opts, rr_limit = rat_of_int (ck_limit opts),
                     rr_remaining = max 0 (ck_limit opts - count),
                     rr_resetAt = (currentWindow + 1) * ck_windowSeconds opts * 1000,
                     rr_source = RedisSource\<rparr>,
                markRedisAvailable now rl)
           | Inl _ \<Rightarrow>
               (case checkLocal (ck_key opts) (rat_of_int (ck_fallbackLimit opts)) (ck_windowSeconds opts) now
                       (markRedisUnavailable now rl) of
                  (r, rl') \<Rightarrow> (Inr r, rl')))"

datatype limiter_status = Distributed | Fallback | SingleProcess

record rate_limiter_health =
  rh_status :: limiter_status
  rh_redisFailures :: int
  rh_fallbackRequests :: int
  rh_localEntryCount :: int
  rh_lastRedisFailureAt :: "int option"
  rh_fallbackUntil :: "int option"

definition getHealth :: "int \<Rightarrow> rate_limiter \<Rightarrow> rate_limiter_health" where
  "getHealth now rl =
     \<lparr>rh_status = (if \<not> rl_distributed rl then SingleProcess
                   else if rl_fallbackUntil rl > now then Fallback else Distributed),
      rh_redisFailures = rl_redisFailures rl,
      rh_fallbackRequests = rl_fallbackRequests rl,
      rh_localEntryCount = len (rl_buckets rl),
      rh_lastRedisFailureAt = rl_lastRedisFailureAt rl,
      rh_fallbackUntil = (if rl_fallbackUntil rl > now then Some (rl_fallbackUntil rl) else None)\<rparr>"

section \<open>Policies\<close>

definition DISTRIBUTED_LIMIT :: int where "DISTRIBUTED_LIMIT = 60"
definition RATE_LIMIT_WINDOW_SECONDS :: int where "RATE_LIMIT_WINDOW_SECONDS = 60"

datatype rate_limit_profile = DefaultProfile | WebhooksProfile | ScimProfile

record rate_limit_policy =
  rp_limit :: int
  rp_fallbackLimit :: int
  rp_windowSeconds :: int
  rp_failClosedOnRedisFailure :: bool

definition policy_of :: "int \<Rightarrow> int \<Rightarrow> bool \<Rightarrow> rate_limit_policy" where
  "policy_of limit fallbackLimit failClosed =
     \<lparr>rp_limit = limit, rp_fallbackLimit = fallbackLimit, rp_windowSeconds = RATE_LIMIT_WINDOW_SECONDS,
      rp_failClosedOnRedisFailure = failClosed\<rparr>"

definition is_sensitive_path :: "string \<Rightarrow> bool" where
  "is_sensitive_path p \<longleftrightarrow>
     list_ex (\<lambda>s. starts_with (s @ ''.'') p \<or> str_includes (''.'' @ s @ ''.'') p) [''auth'', ''scim''] \<or>
     list_ex (\<lambda>w. str_includes w p)
       [''login'', ''signin'', ''signup'', ''verify'', ''password'', ''token'', ''invite'', ''setup'']"

definition is_expensive_path :: "string \<Rightarrow> bool" where
  "is_expensive_path p \<longleftrightarrow>
     list_ex (\<lambda>w. str_includes w p)
       [''create'', ''update'', ''delete'', ''remove'', ''deploy'', ''control'', ''rebuild'', ''command'',
        ''generate'', ''restore'', ''run'', ''reload'', ''prune'', ''rotate'', ''scan'']"

definition rateLimitPolicy :: "string \<Rightarrow> bool \<Rightarrow> rate_limit_policy" where
  "rateLimitPolicy path hasSession =
     (let normalizedPath = toLowerCase path in
      if is_sensitive_path normalizedPath then policy_of DISTRIBUTED_LIMIT 10 True
      else if is_expensive_path normalizedPath then policy_of DISTRIBUTED_LIMIT 15 True
      else policy_of DISTRIBUTED_LIMIT (if hasSession then 30 else 20) False)"

definition resolveRateLimitPolicy :: "rate_limit_profile \<Rightarrow> string \<Rightarrow> bool \<Rightarrow> rate_limit_policy" where
  "resolveRateLimitPolicy profile path hasSession =
     (case profile of
        DefaultProfile \<Rightarrow> rateLimitPolicy path hasSession
      | WebhooksProfile \<Rightarrow> policy_of 120 30 True
      | ScimProfile \<Rightarrow> policy_of DISTRIBUTED_LIMIT 30 True)"

definition withoutDistributedLimiter :: "rate_limit_policy \<Rightarrow> rate_limit_policy" where
  "withoutDistributedLimiter policy =
     policy\<lparr>rp_fallbackLimit := max (rp_limit policy) (rp_fallbackLimit policy),
            rp_failClosedOnRedisFailure := False\<rparr>"

section \<open>Enforcement\<close>

definition hasDistributedLimiter :: "control_plane_mode \<Rightarrow> bool" where
  "hasDistributedLimiter mode = pc_redis (getPlatformCapabilities mode DEFAULT_RUNTIME_ADAPTER_AVAILABILITY)"

definition assertRateLimitAvailability :: "limit_source \<Rightarrow> rate_limit_policy \<Rightarrow> string + unit" where
  "assertRateLimitAvailability source policy =
     throw_if (source = LocalSource \<and> rp_failClosedOnRedisFailure policy)
       ''Rate limiter temporarily unavailable''"

record enforce_options =
  eo_path :: string
  eo_identifier :: string
  eo_hasSession :: bool
  eo_profile :: "rate_limit_profile option"
  eo_limit :: "int option"
  eo_fallbackLimit :: "int option"

definition the_policy :: "control_plane_mode \<Rightarrow> enforce_options \<Rightarrow> rate_limit_policy" where
  "the_policy mode o1 =
     (let resolved = resolveRateLimitPolicy (case eo_profile o1 of Some p \<Rightarrow> p | None \<Rightarrow> DefaultProfile)
            (eo_path o1) (eo_hasSession o1)
      in if hasDistributedLimiter mode then resolved else withoutDistributedLimiter resolved)"

text \<open>The headers, then the errors, as the code sets and throws them.\<close>

definition enforceRequestRateLimit ::
  "rate_limit_redis \<Rightarrow> int \<Rightarrow> control_plane_mode \<Rightarrow> enforce_options \<Rightarrow> rate_limiter \<Rightarrow>
   (string + rate_limit_result) \<times> (string \<times> int) list \<times> rate_limiter" where
  "enforceRequestRateLimit redis now mode o1 rl =
     (let policy = the_policy mode o1;
          rl0 = rl\<lparr>rl_distributed := hasDistributedLimiter mode\<rparr>
      in case check redis now
           \<lparr>ck_key = ''ratelimit:'' @ eo_path o1 @ '':'' @ eo_identifier o1,
            ck_limit = (case eo_limit o1 of Some l \<Rightarrow> l | None \<Rightarrow> rp_limit policy),
            ck_fallbackLimit = (case eo_fallbackLimit o1 of Some l \<Rightarrow> l | None \<Rightarrow> rp_fallbackLimit policy),
            ck_windowSeconds = rp_windowSeconds policy\<rparr> rl0 of
         (Inl e, rl') \<Rightarrow> (Inl e, [], rl')
       | (Inr result, rl') \<Rightarrow>
           let headers = [(''X-RateLimit-Limit'', \<lfloor>rr_limit result\<rfloor>), (''X-RateLimit-Remaining'', rr_remaining result),
                          (''X-RateLimit-Reset'', rr_resetAt result div 1000)]
           in case assertRateLimitAvailability (rr_source result) policy of
                Inl e \<Rightarrow> (Inl e, headers, rl')
              | Inr _ \<Rightarrow>
                  if \<not> rr_allowed result
                  then (Inl ''Rate limit exceeded. Please try again in a minute.'', headers, rl')
                  else (Inr result, headers, rl'))"

end
