(* ===== verification/Rate_Limit_Guarantees.thy ===== *)
theory Rate_Limit_Guarantees
  imports Rate_Limit
begin

text \<open>
  What rate limiting guarantees. The locale \<open>token_bucket\<close> is the contract of a token bucket
  per key, with the bound on granted requests proved once from it; it is interpreted on the
  local limiter, whose clean-up, refill and storage it abstracts from. The enforcement is
  shown to fail closed.
\<close>

section \<open>The contract of a token bucket\<close>

fun granted :: "('k \<Rightarrow> int \<Rightarrow> 's \<Rightarrow> bool \<times> 's) \<Rightarrow> 'k \<Rightarrow> ('k \<times> int) list \<Rightarrow> 's \<Rightarrow> nat" where
  "granted ask k [] s = 0"
| "granted ask k ((k', t) # requests) s =
     (if k' = k \<and> fst (ask k' t s) then 1 else 0) + granted ask k requests (snd (ask k' t s))"

fun served :: "('k \<Rightarrow> int \<Rightarrow> 's \<Rightarrow> bool \<times> 's) \<Rightarrow> ('k \<times> int) list \<Rightarrow> 's \<Rightarrow> 's" where
  "served ask [] s = s"
| "served ask ((k, t) # requests) s = served ask requests (snd (ask k t s))"

definition in_order :: "int \<Rightarrow> ('k \<times> int) list \<Rightarrow> bool" where
  "in_order t0 requests \<longleftrightarrow> sorted (t0 # map snd requests)"

lemma in_order_Cons [simp]: "in_order t0 ((k, t) # requests) \<longleftrightarrow> t0 \<le> t \<and> in_order t requests"
  by (auto simp: in_order_def)

locale token_bucket =
  fixes ask :: "'c \<Rightarrow> 'k \<Rightarrow> int \<Rightarrow> 's \<Rightarrow> bool \<times> 's"
    and available :: "'c \<Rightarrow> 's \<Rightarrow> 'k \<Rightarrow> int \<Rightarrow> rat"
    and ok :: "'c \<Rightarrow> 's \<Rightarrow> int \<Rightarrow> bool"
    and keys :: "'c \<Rightarrow> 'k set"
    and capacity :: "'c \<Rightarrow> 'k \<Rightarrow> rat"
    and rate :: "'c \<Rightarrow> 'k \<Rightarrow> rat"
  assumes ask_ok: "ok c s t \<Longrightarrow> k \<in> keys c \<Longrightarrow> ok c (snd (ask c k t s)) t"
    and ok_later: "ok c s t \<Longrightarrow> t \<le> t' \<Longrightarrow> ok c s t'"
    and ask_takes: "ok c s t \<Longrightarrow> k \<in> keys c \<Longrightarrow>
      available c (snd (ask c k t s)) k t = available c s k t - (if fst (ask c k t s) then 1 else 0)"
    and ask_others: "ok c s t \<Longrightarrow> k' \<in> keys c \<Longrightarrow> k \<in> keys c \<Longrightarrow> k' \<noteq> k \<Longrightarrow>
      available c (snd (ask c k' t s)) k t = available c s k t"
    and refill: "ok c s t \<Longrightarrow> t \<le> t' \<Longrightarrow> k \<in> keys c \<Longrightarrow>
      available c s k t' \<le> available c s k t + rat_of_int (t' - t) * rate c k"
    and available_nonneg: "ok c s t \<Longrightarrow> k \<in> keys c \<Longrightarrow> 0 \<le> available c s k t"
    and available_cap: "ok c s t \<Longrightarrow> k \<in> keys c \<Longrightarrow> available c s k t \<le> capacity c k"
begin

lemma granted_available:
  assumes "ok c s t0" "k \<in> keys c" "in_order t0 requests" "fst ` set requests \<subseteq> keys c"
    and "\<forall>r \<in> set requests. snd r \<le> T" "t0 \<le> T"
  shows "rat_of_nat (granted (ask c) k requests s) \<le> available c s k t0 + rat_of_int (T - t0) * rate c k"
  using assms
proof (induction requests arbitrary: s t0)
  case Nil
  have "0 \<le> available c s k T" using Nil by (meson available_nonneg ok_later)
  with refill [OF Nil(1) Nil(6) Nil(2)] show ?case by simp
next
  case (Cons r requests)
  obtain k' t where r: "r = (k', t)" by force
  let ?s = "snd (ask c k' t s)" and ?d = "if k' = k \<and> fst (ask c k' t s) then 1 else 0 :: rat"
  have t: "t0 \<le> t" "t \<le> T" and k': "k' \<in> keys c" using Cons.prems r by auto
  have ok: "ok c s t" using Cons.prems(1) t(1) by (rule ok_later)
  have "rat_of_nat (granted (ask c) k requests ?s) \<le> available c ?s k t + rat_of_int (T - t) * rate c k"
    using Cons.prems r t ask_ok [OF ok k'] by (intro Cons.IH) auto
  moreover have "available c ?s k t = available c s k t - ?d"
    using ask_takes [OF ok k'] ask_others [OF ok k' Cons.prems(2)] by (cases "k' = k") auto
  moreover have "available c s k t \<le> available c s k t0 + rat_of_int (t - t0) * rate c k"
    using refill [OF Cons.prems(1) t(1) Cons.prems(2)] .
  moreover have "rat_of_int (T - t0) * rate c k = rat_of_int (T - t) * rate c k + rat_of_int (t - t0) * rate c k"
    by (simp flip: distrib_right)
  moreover have "rat_of_nat (granted (ask c) k (r # requests) s) = ?d + rat_of_nat (granted (ask c) k requests ?s)"
    by (auto simp: r)
  ultimately show ?case by linarith
qed

lemma granted_bound:
  assumes "ok c s t0" "k \<in> keys c" "in_order t0 requests" "fst ` set requests \<subseteq> keys c"
    and "\<forall>r \<in> set requests. snd r \<le> T" "t0 \<le> T"
  shows "rat_of_nat (granted (ask c) k requests s) \<le> capacity c k + rat_of_int (T - t0) * rate c k"
  using granted_available [OF assms] available_cap [OF assms(1,2)] by simp

lemma served_ok:
  assumes "ok c s u" "in_order u requests" "fst ` set requests \<subseteq> keys c" "\<forall>r \<in> set requests. snd r \<le> t" "u \<le> t"
  shows "ok c (served (ask c) requests s) t"
  using assms
proof (induction requests arbitrary: s u)
  case Nil
  then show ?case by (simp add: ok_later)
next
  case (Cons r requests)
  obtain k' t' where r: "r = (k', t')" by force
  then have "ok c (snd (ask c k' t' s)) t'"
    using Cons.prems by (intro ask_ok) (auto intro: ok_later)
  with Cons r show ?case by simp
qed

end

section \<open>The local limiter is a token bucket\<close>

text \<open>The requests a limiter serves: their keys, the limit of each and the common window.\<close>

record bucket_config =
  bc_windowSeconds :: int
  bc_limit :: "string \<Rightarrow> int"
  bc_keys :: "string list"

definition local_ask :: "bucket_config \<Rightarrow> string \<Rightarrow> int \<Rightarrow> rate_limiter \<Rightarrow> bool \<times> rate_limiter" where
  "local_ask c key now rl =
     (case checkLocal key (rat_of_int (bc_limit c key)) (bc_windowSeconds c) now rl of
        (r, rl') \<Rightarrow> (rr_allowed r, rl'))"

definition bucket_rate :: "bucket_config \<Rightarrow> string \<Rightarrow> rat" where
  "bucket_rate c k = rat_of_int (bc_limit c k) / (rat_of_int (bc_windowSeconds c) * 1000)"

definition bucket_ok :: "bucket_config \<Rightarrow> string \<Rightarrow> local_bucket \<Rightarrow> int \<Rightarrow> bool" where
  "bucket_ok c k b t \<longleftrightarrow>
     lb_capacity b = rat_of_int (bc_limit c k) \<and> lb_refillPerMillisecond b = bucket_rate c k \<and>
     0 \<le> lb_tokens b \<and> lb_tokens b \<le> lb_capacity b \<and> lb_lastUpdatedAt b \<le> t"

definition config_ok :: "bucket_config \<Rightarrow> bool" where
  "config_ok c \<longleftrightarrow> 1 \<le> bc_windowSeconds c \<and> list_all (\<lambda>k. 1 \<le> bc_limit c k) (bc_keys c)"

definition limiter_ok :: "bucket_config \<Rightarrow> rate_limiter \<Rightarrow> int \<Rightarrow> bool" where
  "limiter_ok c rl t \<longleftrightarrow>
     config_ok c \<and> distinct (map fst (rl_buckets rl)) \<and> fst ` set (rl_buckets rl) \<subseteq> set (bc_keys c) \<and>
     int (card (set (bc_keys c))) \<le> rl_localEntryLimit rl \<and>
     (\<forall>k b. map_of (rl_buckets rl) k = Some b \<longrightarrow> bucket_ok c k b t)"

definition bucket_available :: "bucket_config \<Rightarrow> rate_limiter \<Rightarrow> string \<Rightarrow> int \<Rightarrow> rat" where
  "bucket_available c rl k t =
     (case map_of (rl_buckets rl) k of
        None \<Rightarrow> rat_of_int (bc_limit c k)
      | Some b \<Rightarrow> min (rat_of_int (bc_limit c k))
          (lb_tokens b + rat_of_int (t - lb_lastUpdatedAt b) * bucket_rate c k))"

subsection \<open>The map\<close>

lemma map_of_map_set [simp]: "map_of (map_set k v m) = (map_of m)(k \<mapsto> v)"
  by (induction m) (auto simp: fun_eq_iff)

lemma map_of_map_delete [simp]: "map_of (map_delete k m) = (map_of m)(k := None)"
  by (induction m) (auto simp: map_delete_def fun_eq_iff)

lemma keys_map_set [simp]: "fst ` set (map_set k v m) = insert k (fst ` set m)"
  by (simp flip: dom_map_of_conv_image_fst)

lemma distinct_map_set [simp]: "distinct (map fst (map_set k v m)) = distinct (map fst m)"
proof (induction m)
  case (Cons x m)
  obtain k' v' where x: "x = (k', v')" by force
  show ?case
  proof (cases "k' = k")
    case False
    have "k' \<in> set (map fst (map_set k v m)) \<longleftrightarrow> k' \<in> set (map fst m)"
      using keys_map_set [of k v m] False by (simp only: set_map) blast
    with Cons.IH False show ?thesis by (simp add: x)
  qed (simp add: x)
qed simp

lemma keys_map_delete: "fst ` set (map_delete k m) = fst ` set m - {k}"
  by (auto simp flip: dom_map_of_conv_image_fst split: if_splits)

lemma distinct_map_delete: "distinct (map fst m) \<Longrightarrow> distinct (map fst (map_delete k m))"
  by (simp add: map_delete_def distinct_map_filter)

lemma map_of_filter_value:
  "distinct (map fst m) \<Longrightarrow>
   map_of (filter (\<lambda>(_, b). P b) m) k = (case map_of m k of None \<Rightarrow> None | Some b \<Rightarrow> if P b then Some b else None)"
proof (induction m)
  case (Cons x m)
  obtain k' b where x: "x = (k', b)" by force
  have n: "map_of m k' = None" using Cons.prems by (simp add: x map_of_eq_None_iff)
  have ih: "map_of (filter (\<lambda>(_, b). P b) m) k = (case map_of m k of None \<Rightarrow> None | Some b \<Rightarrow> if P b then Some b else None)"
    using Cons by simp
  show ?case
  proof (cases "k = k'")
    case True
    with n ih show ?thesis by (simp add: x)
  next
    case False
    with ih show ?thesis by (simp add: x)
  qed
qed simp

subsection \<open>One check\<close>

lemma limiter_ok_bucket:
  "limiter_ok c rl t \<Longrightarrow> map_of (rl_buckets rl) k = Some b \<Longrightarrow> bucket_ok c k b t"
  by (simp add: limiter_ok_def)

lemma limiter_ok_limit: "limiter_ok c rl t \<Longrightarrow> k \<in> set (bc_keys c) \<Longrightarrow> 1 \<le> bc_limit c k"
  by (simp add: limiter_ok_def config_ok_def list_all_iff)

lemma bucket_rate_window:
  "1 \<le> bc_windowSeconds c \<Longrightarrow> rat_of_int (bc_windowSeconds c * 1000) * bucket_rate c k = rat_of_int (bc_limit c k)"
  by (simp add: bucket_rate_def)

lemma bucket_rate_nonneg:
  "1 \<le> bc_windowSeconds c \<Longrightarrow> 1 \<le> bc_limit c k \<Longrightarrow> 0 \<le> bucket_rate c k"
  by (simp add: bucket_rate_def)

text \<open>A bucket the clean-up drops would be full again, so dropping it changes nothing.\<close>

lemma cleanup_available:
  assumes "limiter_ok c rl t" "k \<in> set (bc_keys c)"
  shows "bucket_available c (cleanupLocalBuckets t (bc_windowSeconds c * 1000) rl) k t = bucket_available c rl k t"
proof (cases "map_of (rl_buckets rl) k")
  case None
  then show ?thesis
    using assms by (simp add: bucket_available_def cleanupLocalBuckets_def limiter_ok_def map_of_filter_value)
next
  case (Some b)
  have w: "1 \<le> bc_windowSeconds c" "distinct (map fst (rl_buckets rl))"
    using assms(1) by (auto simp: limiter_ok_def config_ok_def)
  note b = limiter_ok_bucket [OF assms(1) Some]
  have full: "min (rat_of_int (bc_limit c k)) (lb_tokens b + rat_of_int (t - lb_lastUpdatedAt b) * bucket_rate c k) =
      rat_of_int (bc_limit c k)" if "t - lb_lastUpdatedAt b \<ge> bc_windowSeconds c * 1000"
  proof -
    have "rat_of_int (bc_windowSeconds c * 1000) * bucket_rate c k \<le>
        rat_of_int (t - lb_lastUpdatedAt b) * bucket_rate c k"
      using that bucket_rate_nonneg [OF w(1) limiter_ok_limit [OF assms]] by (intro mult_right_mono) (simp_all only: of_int_le_iff)
    with b bucket_rate_window [OF w(1), of k] show ?thesis by (simp add: bucket_ok_def)
  qed
  with Some w show ?thesis
    by (auto simp: bucket_available_def cleanupLocalBuckets_def map_of_filter_value)
qed

lemma cleanup_ok:
  assumes "limiter_ok c rl t"
  shows "limiter_ok c (cleanupLocalBuckets t ttl rl) t"
  using assms
  by (auto simp: limiter_ok_def cleanupLocalBuckets_def map_of_filter_value distinct_map_filter
      split: option.splits if_splits)

lemma limiter_ok_put:
  assumes "limiter_ok c rl t" "k \<in> set (bc_keys c)" "bucket_ok c k b t"
    "rl_localEntryLimit rl' = rl_localEntryLimit rl" "rl_buckets rl' = map_set k b m"
    "m = rl_buckets rl \<or> m = map_delete k (rl_buckets rl) \<or> m = map_set k b' (rl_buckets rl)
      \<or> m = map_set k b' (map_delete k (rl_buckets rl))"
  shows "limiter_ok c rl' t"
proof -
  note l = assms(1) [unfolded limiter_ok_def]
  have keys: "fst ` set m \<subseteq> insert k (fst ` set (rl_buckets rl))"
    using assms(6) by (elim disjE) (simp_all only: keys_map_set keys_map_delete, blast+)
  have dist: "distinct (map fst m)"
    using assms(6) l by (elim disjE) (simp_all add: distinct_map_delete)
  have same: "map_of m j = map_of (rl_buckets rl) j" if "j \<noteq> k" for j
    using assms(6) that by (elim disjE) simp_all
  have "fst ` set (rl_buckets rl') \<subseteq> set (bc_keys c)"
    using keys l assms(2) unfolding assms(5) keys_map_set by blast
  moreover have "bucket_ok c j x t" if "map_of (rl_buckets rl') j = Some x" for j x
    using that same l assms(3) unfolding assms(5) by (cases "j = k") auto
  ultimately show ?thesis
    using l dist unfolding limiter_ok_def assms(4,5) distinct_map_set by blast
qed

lemma no_eviction:
  assumes "limiter_ok c rl t" "k \<in> set (bc_keys c)" "map_of (rl_buckets rl) k = None"
  shows "evict_oldest rl = rl"
proof -
  let ?ks = "fst ` set (rl_buckets rl)"
  have "?ks \<subset> set (bc_keys c)"
    using assms by (auto simp: limiter_ok_def map_of_eq_None_iff)
  then have "card ?ks < card (set (bc_keys c))" by (simp add: psubset_card_mono)
  moreover have "length (rl_buckets rl) = card ?ks"
    using assms(1) distinct_card [of "map fst (rl_buckets rl)"] by (simp add: limiter_ok_def)
  ultimately show ?thesis using assms(1) by (simp add: evict_oldest_def len_def limiter_ok_def)
qed

definition refilled_tokens :: "bucket_config \<Rightarrow> rate_limiter \<Rightarrow> string \<Rightarrow> int \<Rightarrow> local_bucket" where
  "refilled_tokens c rl k t =
     \<lparr>lb_capacity = rat_of_int (bc_limit c k), lb_refillPerMillisecond = bucket_rate c k,
      lb_tokens = bucket_available c rl k t, lb_lastUpdatedAt = t\<rparr>"

text \<open>Refilling gives a bucket with the available tokens, stored under its key.\<close>

lemma touch_bucket_refills:
  assumes "limiter_ok c rl t" "k \<in> set (bc_keys c)"
  obtains rl' where "touch_bucket k (rat_of_int (bc_limit c k)) (bucket_rate c k) t rl = (refilled_tokens c rl k t, rl')"
    "rl_localEntryLimit rl' = rl_localEntryLimit rl"
    "rl_buckets rl' = map_set k (refilled_tokens c rl k t) (rl_buckets rl) \<or>
     rl_buckets rl' = map_set k (refilled_tokens c rl k t) (map_delete k (rl_buckets rl))"
proof (cases "map_of (rl_buckets rl) k")
  case None
  from no_eviction [OF assms None] None show thesis
    by (intro that [of "rl\<lparr>rl_buckets := map_set k (refilled_tokens c rl k t) (rl_buckets rl)\<rparr>"])
      (simp_all add: touch_bucket_def refilled_tokens_def bucket_available_def Let_def)
next
  case (Some b)
  note b = limiter_ok_bucket [OF assms(1) Some, unfolded bucket_ok_def]
  have "b\<lparr>lb_tokens := min (lb_capacity b) (lb_tokens b + rat_of_int (max 0 (t - lb_lastUpdatedAt b)) * lb_refillPerMillisecond b),
      lb_lastUpdatedAt := t\<rparr> = refilled_tokens c rl k t"
    using b Some by (intro local_bucket.equality) (simp_all add: refilled_tokens_def bucket_available_def)
  with b Some show thesis
    by (intro that [of "rl\<lparr>rl_buckets := map_set k (refilled_tokens c rl k t) (map_delete k (rl_buckets rl))\<rparr>"])
      (simp_all add: touch_bucket_def Let_def)
qed

lemma available_range:
  assumes "limiter_ok c rl t" "k \<in> set (bc_keys c)"
  shows "0 \<le> bucket_available c rl k t" "bucket_available c rl k t \<le> rat_of_int (bc_limit c k)"
proof -
  have l: "1 \<le> bc_limit c k" "1 \<le> bc_windowSeconds c"
    using limiter_ok_limit [OF assms] assms(1) by (auto simp: limiter_ok_def config_ok_def)
  show "bucket_available c rl k t \<le> rat_of_int (bc_limit c k)"
    by (simp add: bucket_available_def split: option.splits)
  show "0 \<le> bucket_available c rl k t"
  proof (cases "map_of (rl_buckets rl) k")
    case (Some b)
    note b = limiter_ok_bucket [OF assms(1) Some, unfolded bucket_ok_def]
    then have "0 \<le> rat_of_int (t - lb_lastUpdatedAt b) * bucket_rate c k"
      using bucket_rate_nonneg [OF l(2,1)] by simp
    with Some b l show ?thesis by (simp add: bucket_available_def)
  qed (use l in \<open>simp add: bucket_available_def\<close>)
qed

lemma refilled_ok:
  "limiter_ok c rl t \<Longrightarrow> k \<in> set (bc_keys c) \<Longrightarrow> bucket_ok c k (refilled_tokens c rl k t) t"
  using available_range by (simp add: bucket_ok_def refilled_tokens_def)

text \<open>What one local check does, over the available tokens.\<close>

lemma local_ask_effect:
  assumes "limiter_ok c rl t" "k \<in> set (bc_keys c)"
  defines "a \<equiv> bucket_available c rl k t"
  shows "fst (local_ask c k t rl) \<longleftrightarrow> 1 \<le> a" "limiter_ok c (snd (local_ask c k t rl)) t"
    "bucket_available c (snd (local_ask c k t rl)) k t = a - (if 1 \<le> a then 1 else 0)"
    "k' \<noteq> k \<Longrightarrow> k' \<in> set (bc_keys c) \<Longrightarrow>
      bucket_available c (snd (local_ask c k t rl)) k' t = bucket_available c rl k' t"
proof -
  define rl1 where "rl1 = (if rl_distributed rl then rl\<lparr>rl_fallbackRequests := rl_fallbackRequests rl + 1\<rparr> else rl)"
  define rl2 where "rl2 = cleanupLocalBuckets t (bc_windowSeconds c * 1000) rl1"
  have "limiter_ok c rl1 t" using assms(1) by (simp add: rl1_def limiter_ok_def)
  note ok2 = cleanup_ok [OF this, of "bc_windowSeconds c * 1000", folded rl2_def]
  have av: "bucket_available c rl2 j t = bucket_available c rl j t" if "j \<in> set (bc_keys c)" for j
    using cleanup_available [OF \<open>limiter_ok c rl1 t\<close> that]
    by (simp add: rl2_def rl1_def bucket_available_def)
  let ?b = "refilled_tokens c rl2 k t"
  let ?taken = "if 1 \<le> a then ?b\<lparr>lb_tokens := a - 1\<rparr> else ?b"
  have tok: "lb_tokens ?b = a" using av [OF assms(2)] by (simp add: refilled_tokens_def a_def)
  obtain rl3 where t3: "touch_bucket k (rat_of_int (bc_limit c k)) (bucket_rate c k) t rl2 = (?b, rl3)"
    "rl_localEntryLimit rl3 = rl_localEntryLimit rl2"
    "rl_buckets rl3 = map_set k ?b (rl_buckets rl2) \<or> rl_buckets rl3 = map_set k ?b (map_delete k (rl_buckets rl2))"
    by (rule touch_bucket_refills [OF ok2 assms(2)])
  have ask: "local_ask c k t rl = (1 \<le> a, rl3\<lparr>rl_buckets := map_set k ?taken (rl_buckets rl3)\<rparr>)"
    using t3(1) tok
    by (simp add: local_ask_def checkLocal_def Let_def bucket_rate_def flip: rl1_def rl2_def)
  show "fst (local_ask c k t rl) \<longleftrightarrow> 1 \<le> a" by (simp add: ask)
  have okt: "bucket_ok c k ?taken t"
    using refilled_ok [OF ok2 assms(2)] tok by (auto simp: bucket_ok_def)
  show "limiter_ok c (snd (local_ask c k t rl)) t"
    using t3 by (intro limiter_ok_put [OF ok2 assms(2) okt, where b' = ?b and m = "rl_buckets rl3"]) (auto simp: ask)
  show "bucket_available c (snd (local_ask c k t rl)) k t = a - (if 1 \<le> a then 1 else 0)"
    using available_range [OF assms(1,2)] tok
    by (auto simp: ask bucket_available_def [of c "_ \<lparr>rl_buckets := _\<rparr>"] a_def refilled_tokens_def)
  show "bucket_available c (snd (local_ask c k t rl)) k' t = bucket_available c rl k' t"
    if "k' \<noteq> k" "k' \<in> set (bc_keys c)"
  proof -
    have "map_of (rl_buckets (snd (local_ask c k t rl))) k' = map_of (rl_buckets rl2) k'"
      using t3(3) that(1) by (auto simp: ask)
    then show ?thesis using av [OF that(2)] by (simp add: bucket_available_def)
  qed
qed

interpretation local_limiter: token_bucket local_ask bucket_available limiter_ok
  "\<lambda>c. set (bc_keys c)" "\<lambda>c k. rat_of_int (bc_limit c k)" bucket_rate
proof unfold_locales
  fix c s t t' k k'
  show "limiter_ok c (snd (local_ask c k t s)) t" if "limiter_ok c s t" "k \<in> set (bc_keys c)"
    using that by (rule local_ask_effect)
  show "limiter_ok c s t'" if "limiter_ok c s t" "t \<le> t'"
    using that by (fastforce simp: limiter_ok_def bucket_ok_def)
  show "bucket_available c (snd (local_ask c k t s)) k t =
      bucket_available c s k t - (if fst (local_ask c k t s) then 1 else 0)"
    if "limiter_ok c s t" "k \<in> set (bc_keys c)"
    using local_ask_effect [OF that] by simp
  show "bucket_available c (snd (local_ask c k' t s)) k t = bucket_available c s k t"
    if "limiter_ok c s t" "k' \<in> set (bc_keys c)" "k \<in> set (bc_keys c)" "k' \<noteq> k"
    using local_ask_effect(4) [OF that(1,2)] that by simp
  show "0 \<le> bucket_available c s k t" "bucket_available c s k t \<le> rat_of_int (bc_limit c k)"
    if "limiter_ok c s t" "k \<in> set (bc_keys c)"
    using available_range [OF that] by simp_all
  show "bucket_available c s k t' \<le> bucket_available c s k t + rat_of_int (t' - t) * bucket_rate c k"
    if "limiter_ok c s t" "t \<le> t'" "k \<in> set (bc_keys c)"
  proof -
    have n: "0 \<le> rat_of_int (t' - t) * bucket_rate c k"
      using that bucket_rate_nonneg [of c k] limiter_ok_limit [OF that(1,3)]
      by (simp add: limiter_ok_def config_ok_def)
    have s: "rat_of_int (t' - x) * bucket_rate c k =
        rat_of_int (t - x) * bucket_rate c k + rat_of_int (t' - t) * bucket_rate c k" for x
      by (simp flip: distrib_right)
    show ?thesis
    proof (cases "map_of (rl_buckets s) k")
      case None
      with n show ?thesis by (simp add: bucket_available_def)
    next
      case (Some b)
      then show ?thesis
        using n s [of "lb_lastUpdatedAt b"] unfolding bucket_available_def option.case Some by linarith
    qed
  qed
qed

section \<open>Properties\<close>



lemma checkLocal_source: "checkLocal k l w t rl = (r, rl') \<Longrightarrow> rr_source r = LocalSource"
  by (auto simp: checkLocal_def Let_def split: prod.splits)

lemma check_redis_result:
  assumes "check redis now opts rl = (Inr r, rl')" "rr_source r = RedisSource"
  shows "\<exists>redisKey count. incrementWithExpiry redis redisKey (ck_windowSeconds opts) = Inr count \<and>
    (rr_allowed r \<longleftrightarrow> rat_of_int count \<le> rr_limit r)"
  using assms
  by (auto simp: check_def Let_def dest: checkLocal_source split: if_splits prod.splits sum.splits) blast

text \<open>
  Enforcement fails closed. A request it lets through was either counted in Redis, within
  the limit, or granted by the local limiter, and then only where no Redis counter exists by
  design or the policy allows the fallback. So while the platform has a Redis counter, a
  request for a sensitive or expensive procedure never passes uncounted.
\<close>

theorem rate_limit_fails_closed:
  assumes "enforceRequestRateLimit redis now mode o1 rl = (Inr result, headers, rl')"
  shows "rr_allowed result \<and>
    (rr_source result = RedisSource \<and>
       (\<exists>redisKey count. incrementWithExpiry redis redisKey RATE_LIMIT_WINDOW_SECONDS = Inr count \<and>
          rat_of_int count \<le> rr_limit result) \<or>
     rr_source result = LocalSource \<and>
       (\<not> hasDistributedLimiter mode \<or>
        eo_profile o1 \<in> {None, Some DefaultProfile} \<and>
        \<not> is_sensitive_path (toLowerCase (eo_path o1)) \<and> \<not> is_expensive_path (toLowerCase (eo_path o1))))"
proof -
  let ?p = "the_policy mode o1"
  let ?opts = "\<lparr>ck_key = ''ratelimit:'' @ eo_path o1 @ '':'' @ eo_identifier o1,
            ck_limit = (case eo_limit o1 of Some l \<Rightarrow> l | None \<Rightarrow> rp_limit ?p),
            ck_fallbackLimit = (case eo_fallbackLimit o1 of Some l \<Rightarrow> l | None \<Rightarrow> rp_fallbackLimit ?p),
            ck_windowSeconds = rp_windowSeconds ?p\<rparr>"
  let ?rl = "rl\<lparr>rl_distributed := hasDistributedLimiter mode\<rparr>"
  from assms have c: "check redis now ?opts ?rl = (Inr result, rl')" and
    a: "rr_allowed result" "assertRateLimitAvailability (rr_source result) ?p = Inr ()"
    by (auto simp: enforceRequestRateLimit_def Let_def split: prod.splits sum.splits if_splits)
  have w: "rp_windowSeconds ?p = RATE_LIMIT_WINDOW_SECONDS"
    by (auto simp: the_policy_def resolveRateLimitPolicy_def rateLimitPolicy_def withoutDistributedLimiter_def
        policy_of_def Let_def split: rate_limit_profile.splits option.splits)
  show ?thesis
  proof (cases "rr_source result")
    case RedisSource
    from check_redis_result [OF c this] w a(1) RedisSource show ?thesis by (simp only: check_options.simps) blast
  next
    case LocalSource
    with a(2) have "\<not> rp_failClosedOnRedisFailure ?p"
      by (simp add: assertRateLimitAvailability_def)
    with LocalSource a(1) show ?thesis
      by (auto simp: the_policy_def resolveRateLimitPolicy_def rateLimitPolicy_def policy_of_def Let_def
          split: rate_limit_profile.splits option.splits if_splits)
  qed
qed

theorem rate_limit_fails_closed_witness:
  "\<exists>rl result headers rl'. enforceRequestRateLimit
     \<lparr>rd_eval = Some (\<lambda>_ _. Inr (Some 1)), rd_incr = (\<lambda>_. Inl []), rd_expire = (\<lambda>_ _. Inl [])\<rparr> 0 SelfHosted
     \<lparr>eo_path = ''auth.login'', eo_identifier = ''u'', eo_hasSession = False, eo_profile = None,
      eo_limit = None, eo_fallbackLimit = None\<rparr> rl = (Inr result, headers, rl') \<and> rr_source result = RedisSource"
proof -
  let ?redis = "\<lparr>rd_eval = Some (\<lambda>_ _. Inr (Some 1)), rd_incr = (\<lambda>_. Inl []), rd_expire = (\<lambda>_ _. Inl [])\<rparr>"
  let ?o = "\<lparr>eo_path = ''auth.login'', eo_identifier = ''u'', eo_hasSession = False, eo_profile = None,
      eo_limit = None, eo_fallbackLimit = None\<rparr>"
  obtain rl where "new_rate_limiter 750 5000 10000 True = Inr rl" by (auto simp: new_rate_limiter_def)
  have m: "hasDistributedLimiter SelfHosted" by code_simp
  have s: "is_sensitive_path (toLowerCase ''auth.login'')" by code_simp
  have "\<exists>result headers rl'. enforceRequestRateLimit ?redis 0 SelfHosted ?o
      (rl\<lparr>rl_fallbackUntil := 0\<rparr>) = (Inr result, headers, rl')"
    using m s
    by (simp add: enforceRequestRateLimit_def the_policy_def resolveRateLimitPolicy_def rateLimitPolicy_def
        policy_of_def DISTRIBUTED_LIMIT_def RATE_LIMIT_WINDOW_SECONDS_def check_def incrementWithExpiry_def
        MAX_SAFE_INTEGER_def assertRateLimitAvailability_def Let_def throw_if_def)
  then obtain result headers rl' where r: "enforceRequestRateLimit ?redis 0 SelfHosted ?o
      (rl\<lparr>rl_fallbackUntil := 0\<rparr>) = (Inr result, headers, rl')" by blast
  from rate_limit_fails_closed [OF r] m s have "rr_source result = RedisSource" by simp
  with r show ?thesis by blast
qed

end
