(* ===== verification/Ai_Budget.thy ===== *)
theory Ai_Budget
  imports Redis_Server Complex_Main
begin

text \<open>
  The daily budget of the assistant, \<open>api/src/ai-budget.ts\<close> with the pricing helpers of
  \<open>api/src/ai/model-catalog.ts\<close>: counters of runs, tokens and cents per organization and UTC
  day, reserved by one Redis script before a model is called. Prices are rational numbers;
  the static model catalog, a third-party table, is a parameter. Day names are the first ten
  characters of \<open>toISOString\<close>, by the Gregorian calendar.
\<close>

section \<open>Days\<close>

definition DAY_MS :: int where
  "DAY_MS = 86400000"

definition pad2 :: "int \<Rightarrow> string" where
  "pad2 n = (if n < 10 then ''0'' @ show_int n else show_int n)"

definition pad4 :: "int \<Rightarrow> string" where
  "pad4 n = (if n < 10 then ''000'' else if n < 100 then ''00'' else if n < 1000 then ''0'' else []) @ show_int n"

text \<open>Year, month and day of a day count from 1970-01-01.\<close>

definition civil_from_days :: "int \<Rightarrow> int \<times> int \<times> int" where
  "civil_from_days days =
     (let z = days + 719468;
          era = z div 146097;
          doe = z mod 146097;
          yoe = (doe - doe div 1460 + doe div 36524 - doe div 146096) div 365;
          doy = doe - (365 * yoe + yoe div 4 - yoe div 100);
          mp = (5 * doy + 2) div 153;
          d = doy - (153 * mp + 2) div 5 + 1;
          m = (if mp < 10 then mp + 3 else mp - 9)
      in (yoe + era * 400 + (if m \<le> 2 then 1 else 0), m, d))"

definition iso_day :: "int \<Rightarrow> string" where
  "iso_day now =
     (case civil_from_days (now div DAY_MS) of
        (y, m, d) \<Rightarrow> pad4 y @ ''-'' @ pad2 m @ ''-'' @ pad2 d)"

definition upGalDailyBudgetKey :: "string \<Rightarrow> int \<Rightarrow> string" where
  "upGalDailyBudgetKey organizationId now = ''upgal:daily-runs:'' @ organizationId @ '':'' @ iso_day now"

definition upGalDailyTokenBudgetKey :: "string \<Rightarrow> int \<Rightarrow> string" where
  "upGalDailyTokenBudgetKey organizationId now = ''upgal:daily-tokens:'' @ organizationId @ '':'' @ iso_day now"

definition upGalDailyCostBudgetKey :: "string \<Rightarrow> int \<Rightarrow> string" where
  "upGalDailyCostBudgetKey organizationId now = ''upgal:daily-cost-cents:'' @ organizationId @ '':'' @ iso_day now"

definition next_day :: "int \<Rightarrow> int" where
  "next_day now = (now div DAY_MS + 1) * DAY_MS"

text \<open>\<open>Math.ceil\<close> of a quotient by 1000.\<close>

definition secondsUntilNextUtcDay :: "int \<Rightarrow> int" where
  "secondsUntilNextUtcDay now = max 1 (- ((now - next_day now) div 1000))"

section \<open>Prices\<close>

record pricing =
  pr_input :: "rat option"
  pr_output :: "rat option"
  pr_reasoning :: "rat option"
  pr_cacheRead :: "rat option"
  pr_cacheWrite :: "rat option"

definition MAX_SAFE :: int where
  "MAX_SAFE = 9007199254740991"

definition safe_integer :: "int \<Rightarrow> bool" where
  "safe_integer n \<longleftrightarrow> \<bar>n\<bar> \<le> MAX_SAFE"

definition getUpGalPricingCeiling :: "pricing option \<Rightarrow> rat option" where
  "getUpGalPricingCeiling p =
     (case p of
        None \<Rightarrow> None
      | Some q \<Rightarrow>
          (case filter (\<lambda>v. 0 \<le> v)
             (concat (map (\<lambda>r. case r of Some v \<Rightarrow> [v] | None \<Rightarrow> [])
               [pr_input q, pr_output q, pr_reasoning q, pr_cacheRead q, pr_cacheWrite q])) of
             [] \<Rightarrow> None
           | v # vs \<Rightarrow> Some (fold max vs v)))"

definition after_last_slash :: "string \<Rightarrow> string" where
  "after_last_slash s = rev (takeWhile (\<lambda>c. c \<noteq> CHR ''/'') (rev s))"

text \<open>The models of a provider in the static catalog: identifier and price.\<close>

definition getUpGalStaticModelPricing :: "(string \<times> pricing option) list \<Rightarrow> string \<Rightarrow> pricing option" where
  "getUpGalStaticModelPricing staticModels modelId =
     (let normalizedModelId = (if CHR ''/'' \<in> set modelId then after_last_slash modelId else modelId)
      in case find (\<lambda>(i, _). i = modelId \<or> i = normalizedModelId) staticModels of
           None \<Rightarrow> None | Some (_, p) \<Rightarrow> p)"

definition upGalUsageCostCentsForPricing :: "int \<Rightarrow> int \<Rightarrow> pricing \<Rightarrow> string + int option" where
  "upGalUsageCostCentsForPricing inputTokens outputTokens p =
     (if \<not> safe_integer inputTokens \<or> inputTokens < 0 \<or> \<not> safe_integer outputTokens \<or> outputTokens < 0
      then Inl ''UpGal usage token values must be non-negative safe integers''
      else
        case (pr_input p, if pr_output p \<noteq> None then pr_output p else pr_reasoning p) of
          (Some inputRate, Some outputRate) \<Rightarrow>
            if inputRate < 0 \<or> outputRate < 0 then Inr None
            else
              let cents = \<lceil>((rat_of_int inputTokens * inputRate + rat_of_int outputTokens * outputRate) * 100) / 1000000\<rceil>
              in if \<not> safe_integer cents \<or> cents < 0
                 then Inl ''UpGal usage cost calculation exceeded safe integer range'' else Inr (Some cents)
        | _ \<Rightarrow> Inr None)"

definition upGalConservativeCostPerMillionTokensUsd ::
  "rat \<Rightarrow> ((string \<times> pricing option) list \<times> string) option \<Rightarrow> string + rat" where
  "upGalConservativeCostPerMillionTokensUsd configuredRate model =
     (if configuredRate \<le> 0 then Inl ''UpGal configured cost rate must be positive''
      else
        let knownRate = (case model of
              Some (staticModels, modelId) \<Rightarrow>
                getUpGalPricingCeiling (getUpGalStaticModelPricing staticModels modelId)
            | None \<Rightarrow> None)
        in Inr (max configuredRate (case knownRate of Some k \<Rightarrow> k | None \<Rightarrow> 0)))"

definition upGalCostCentsForTokens :: "int \<Rightarrow> rat \<Rightarrow> string + int" where
  "upGalCostCentsForTokens requestedTokens maxCostPerMillionTokensUsd =
     (if \<not> safe_integer requestedTokens \<or> requestedTokens < 1 \<or> maxCostPerMillionTokensUsd \<le> 0
      then Inl ''UpGal cost budget values must be positive''
      else
        let cents = \<lceil>(rat_of_int requestedTokens * maxCostPerMillionTokensUsd * 100) / 1000000\<rceil>
        in if \<not> safe_integer cents \<or> cents < 1
           then Inl ''UpGal cost budget calculation exceeded safe integer range'' else Inr cents)"

section \<open>Counters\<close>

record budget_counters =
  bg_admitted :: int
  bg_rejected :: int
  bg_reservedTokens :: int
  bg_reservedCostCents :: int
  bg_pricedUsageRequests :: int
  bg_unpricedUsageRequests :: int
  bg_estimatedUsageCostCents :: int

definition recordUpGalUsage ::
  "(string \<times> pricing option) list \<Rightarrow> string \<Rightarrow> int \<Rightarrow> int \<Rightarrow> budget_counters \<Rightarrow> (string + unit) \<times> budget_counters" where
  "recordUpGalUsage staticModels modelId inputTokens outputTokens c =
     (let unpriced = c\<lparr>bg_unpricedUsageRequests := bg_unpricedUsageRequests c + 1\<rparr> in
      case getUpGalStaticModelPricing staticModels modelId of
        None \<Rightarrow> (Inr (), unpriced)
      | Some p \<Rightarrow>
          (case upGalUsageCostCentsForPricing inputTokens outputTokens p of
             Inl e \<Rightarrow> (Inl e, c)
           | Inr None \<Rightarrow> (Inr (), unpriced)
           | Inr (Some estimatedCents) \<Rightarrow>
               (Inr (), c\<lparr>bg_pricedUsageRequests := bg_pricedUsageRequests c + 1,
                          bg_estimatedUsageCostCents := bg_estimatedUsageCostCents c + estimatedCents\<rparr>)))"

section \<open>Reservations\<close>

datatype script_reply = ReplyNumber int | ReplyList "int list"

definition expire_if :: "'r redis_api \<Rightarrow> bool \<Rightarrow> string \<Rightarrow> int \<Rightarrow> int \<Rightarrow> 'r \<Rightarrow> 'r" where
  "expire_if api b key seconds now r = (if b then snd (rx_expire api key seconds now r) else r)"

definition INCREMENT_DAILY_BUDGET_SCRIPT :: "'r redis_api \<Rightarrow> string \<Rightarrow> int \<Rightarrow> int \<Rightarrow> 'r \<Rightarrow> int \<times> 'r" where
  "INCREMENT_DAILY_BUDGET_SCRIPT api key seconds now r =
     (case rx_incrby api key 1 now r of (count, r1) \<Rightarrow> (count, expire_if api (count = 1) key seconds now r1))"

definition RESERVE_DAILY_TOKEN_AND_COST_BUDGET_SCRIPT ::
  "'r redis_api \<Rightarrow> string \<Rightarrow> string \<Rightarrow> int \<Rightarrow> int \<Rightarrow> int \<Rightarrow> int \<Rightarrow> int \<Rightarrow> int \<Rightarrow> 'r \<Rightarrow> script_reply \<times> 'r" where
  "RESERVE_DAILY_TOKEN_AND_COST_BUDGET_SCRIPT api k1 k2 requestedTokens tokenLimit requestedCents costLimit seconds now r =
     (if requestedTokens < 1 \<or> tokenLimit < 1 \<or> requestedCents < 1 \<or> costLimit < 1 then (ReplyNumber (-1), r)
      else
        let currentTokens = number_of (rx_get api k1 now r);
            currentCents = number_of (rx_get api k2 now r)
        in if currentTokens + requestedTokens > tokenLimit \<or> currentCents + requestedCents > costLimit
           then (ReplyNumber 0, r)
           else case rx_incrby api k1 requestedTokens now r of
             (totalTokens, r1) \<Rightarrow> case rx_incrby api k2 requestedCents now r1 of
             (totalCents, r2) \<Rightarrow>
               let r3 = expire_if api (totalTokens = requestedTokens) k1 seconds now r2;
                   r4 = expire_if api (totalCents = requestedCents) k2 seconds now r3
               in (ReplyList [totalTokens, totalCents], r4))"

definition RESERVE_DAILY_RUN_TOKEN_AND_COST_BUDGET_SCRIPT ::
  "'r redis_api \<Rightarrow> string \<Rightarrow> string \<Rightarrow> string \<Rightarrow> int \<Rightarrow> int \<Rightarrow> int \<Rightarrow> int \<Rightarrow> int \<Rightarrow> int \<Rightarrow> int \<Rightarrow> int \<Rightarrow> 'r \<Rightarrow>
   script_reply \<times> 'r" where
  "RESERVE_DAILY_RUN_TOKEN_AND_COST_BUDGET_SCRIPT api k1 k2 k3 requestedRuns runLimit requestedTokens tokenLimit
       requestedCents costLimit seconds now r =
     (if requestedRuns < 1 \<or> runLimit < 1 \<or> requestedTokens < 1 \<or> tokenLimit < 1 \<or> requestedCents < 1 \<or> costLimit < 1
      then (ReplyNumber (-1), r)
      else
        let currentRuns = number_of (rx_get api k1 now r);
            currentTokens = number_of (rx_get api k2 now r);
            currentCents = number_of (rx_get api k3 now r)
        in if currentRuns + requestedRuns > runLimit \<or> currentTokens + requestedTokens > tokenLimit \<or>
              currentCents + requestedCents > costLimit
           then (ReplyNumber 0, r)
           else case rx_incrby api k1 requestedRuns now r of
             (totalRuns, r1) \<Rightarrow> case rx_incrby api k2 requestedTokens now r1 of
             (totalTokens, r2) \<Rightarrow> case rx_incrby api k3 requestedCents now r2 of
             (totalCents, r3) \<Rightarrow>
               let r4 = expire_if api (totalRuns = requestedRuns) k1 seconds now r3;
                   r5 = expire_if api (totalTokens = requestedTokens) k2 seconds now r4;
                   r6 = expire_if api (totalCents = requestedCents) k3 seconds now r5
               in (ReplyList [totalRuns, totalTokens, totalCents], r6))"

definition incrementUpGalDailyBudget :: "'r redis_api \<Rightarrow> string \<Rightarrow> int \<Rightarrow> 'r \<Rightarrow> (string + int) \<times> 'r" where
  "incrementUpGalDailyBudget api organizationId now r =
     (case INCREMENT_DAILY_BUDGET_SCRIPT api (upGalDailyBudgetKey organizationId now) (secondsUntilNextUtcDay now) now r of
        (count, r') \<Rightarrow>
          (if \<not> safe_integer count \<or> count < 1 then Inl ''Redis returned an invalid UpGal budget count''
           else Inr count, r'))"

record token_cost_reservation =
  tr_totalTokens :: int
  tr_tokenLimit :: int
  tr_totalCents :: int
  tr_costLimitCents :: int

definition reserveUpGalDailyTokenAndCostBudget ::
  "'r redis_api \<Rightarrow> string \<Rightarrow> int \<Rightarrow> int \<Rightarrow> int \<Rightarrow> int \<Rightarrow> int \<Rightarrow> budget_counters \<Rightarrow> 'r \<Rightarrow>
   (string + token_cost_reservation option) \<times> budget_counters \<times> 'r" where
  "reserveUpGalDailyTokenAndCostBudget api organizationId requestedTokens tokenLimit requestedCents costLimitCents now c r =
     (if \<not> safe_integer requestedTokens \<or> requestedTokens < 1 \<or> \<not> safe_integer tokenLimit \<or> tokenLimit < 1 \<or>
         \<not> safe_integer requestedCents \<or> requestedCents < 1 \<or> \<not> safe_integer costLimitCents \<or> costLimitCents < 1
      then (Inl ''UpGal token and cost budget values must be positive safe integers'', c, r)
      else case RESERVE_DAILY_TOKEN_AND_COST_BUDGET_SCRIPT api (upGalDailyTokenBudgetKey organizationId now)
                  (upGalDailyCostBudgetKey organizationId now) requestedTokens tokenLimit requestedCents
                  costLimitCents (secondsUntilNextUtcDay now) now r of
          (ReplyNumber n, r') \<Rightarrow>
            if n = 0 then (Inr None, c\<lparr>bg_rejected := bg_rejected c + 1\<rparr>, r')
            else (Inl ''Redis returned an invalid UpGal token and cost reservation'', c, r')
        | (ReplyList [totalTokens, totalCents], r') \<Rightarrow>
            if \<not> safe_integer totalTokens \<or> totalTokens < requestedTokens \<or>
               \<not> safe_integer totalCents \<or> totalCents < requestedCents
            then (Inl ''Redis returned an invalid UpGal token and cost reservation'', c, r')
            else (Inr (Some \<lparr>tr_totalTokens = totalTokens, tr_tokenLimit = tokenLimit, tr_totalCents = totalCents,
                             tr_costLimitCents = costLimitCents\<rparr>), c, r')
        | (ReplyList _, r') \<Rightarrow> (Inl ''Redis returned an invalid UpGal token and cost reservation'', c, r'))"

record budget_reservation =
  br_totalRuns :: int
  br_runLimit :: int
  br_totalTokens :: int
  br_tokenLimit :: int
  br_totalCents :: int
  br_costLimitCents :: int

definition reserveUpGalDailyRunTokenAndCostBudget ::
  "'r redis_api \<Rightarrow> string \<Rightarrow> int \<Rightarrow> int \<Rightarrow> int \<Rightarrow> int \<Rightarrow> int \<Rightarrow> int \<Rightarrow> budget_counters \<Rightarrow> 'r \<Rightarrow>
   (string + budget_reservation option) \<times> budget_counters \<times> 'r" where
  "reserveUpGalDailyRunTokenAndCostBudget api organizationId runLimit requestedTokens tokenLimit requestedCents
       costLimitCents now c r =
     (if \<not> safe_integer runLimit \<or> runLimit < 1 \<or> \<not> safe_integer requestedTokens \<or> requestedTokens < 1 \<or>
         \<not> safe_integer tokenLimit \<or> tokenLimit < 1 \<or> \<not> safe_integer requestedCents \<or> requestedCents < 1 \<or>
         \<not> safe_integer costLimitCents \<or> costLimitCents < 1
      then (Inl ''UpGal run, token, and cost budget values must be positive safe integers'', c, r)
      else case RESERVE_DAILY_RUN_TOKEN_AND_COST_BUDGET_SCRIPT api (upGalDailyBudgetKey organizationId now)
                  (upGalDailyTokenBudgetKey organizationId now) (upGalDailyCostBudgetKey organizationId now)
                  1 runLimit requestedTokens tokenLimit requestedCents costLimitCents
                  (secondsUntilNextUtcDay now) now r of
          (ReplyNumber n, r') \<Rightarrow>
            if n = 0 then (Inr None, c, r')
            else (Inl ''Redis returned an invalid UpGal run, token, and cost reservation'', c, r')
        | (ReplyList [totalRuns, totalTokens, totalCents], r') \<Rightarrow>
            if \<not> safe_integer totalRuns \<or> totalRuns < 1 \<or> \<not> safe_integer totalTokens \<or> totalTokens < requestedTokens \<or>
               \<not> safe_integer totalCents \<or> totalCents < requestedCents
            then (Inl ''Redis returned an invalid UpGal run, token, and cost reservation'', c, r')
            else (Inr (Some \<lparr>br_totalRuns = totalRuns, br_runLimit = runLimit, br_totalTokens = totalTokens,
                             br_tokenLimit = tokenLimit, br_totalCents = totalCents,
                             br_costLimitCents = costLimitCents\<rparr>),
                  c\<lparr>bg_admitted := bg_admitted c + 1, bg_reservedTokens := bg_reservedTokens c + requestedTokens,
                    bg_reservedCostCents := bg_reservedCostCents c + requestedCents\<rparr>, r')
        | (ReplyList _, r') \<Rightarrow> (Inl ''Redis returned an invalid UpGal run, token, and cost reservation'', c, r'))"

end
