(* ===== verification/Ai_Budget_Guarantees.thy ===== *)
theory Ai_Budget_Guarantees
  imports Ai_Budget
begin

text \<open>
  What the daily budget of the assistant guarantees. The three counters of an organization
  refine a ledger of totals that knows neither keys nor deadlines, over every server with the
  documented behaviour of Redis, for any sequence of reservations of one UTC day; from the
  ledger follow the daily bounds.
\<close>

section \<open>A counter of the day\<close>

definition day_counter :: "int \<Rightarrow> (string \<Rightarrow> redis_entry option) \<Rightarrow> string \<Rightarrow> int \<Rightarrow> bool" where
  "day_counter midnight e k n \<longleftrightarrow>
     0 \<le> n \<and> (if n = 0 then e k = None else \<exists>d\<ge>midnight. e k = Some (show_int n, Some d))"

definition kept_deadline :: "redis_entry option \<Rightarrow> int option" where
  "kept_deadline x = (case x of None \<Rightarrow> None | Some (_, d) \<Rightarrow> d)"

definition bumped :: "int \<Rightarrow> int \<Rightarrow> int \<Rightarrow> redis_entry option \<Rightarrow> redis_entry option" where
  "bumped n d deadline x = Some (show_int (n + d), if n = 0 then Some deadline else kept_deadline x)"

lemma day_counter_number:
  "day_counter midnight e k n \<Longrightarrow> now < midnight \<Longrightarrow> number_of (live (e k) now) = n"
  by (cases "n = 0") (auto simp: day_counter_def decimal_show_int)

lemma day_counter_bumped:
  "day_counter midnight e k n \<Longrightarrow> 1 \<le> d \<Longrightarrow> midnight \<le> deadline \<Longrightarrow>
   day_counter midnight (e(k := bumped n d deadline (e k))) k (n + d)"
  by (cases "n = 0") (auto simp: day_counter_def bumped_def kept_deadline_def)

lemma day_counter_other: "j \<noteq> k \<Longrightarrow> day_counter midnight (e(j := x)) k n = day_counter midnight e k n"
  by (simp add: day_counter_def)

context redis_server
begin

lemma incr_counter:
  assumes "day_counter midnight (entry r) k n" "now < midnight" "1 \<le> d"
  shows "fst (rx_incrby api k d now r) = n + d"
    and "entry (snd (rx_incrby api k d now r)) = (entry r)(k \<mapsto> (show_int (n + d), kept_deadline (entry r k)))"
proof -
  have n: "number_of (live (entry r k) now) = n" "0 \<le> n"
    using day_counter_number [OF assms(1,2)] assms(1) by (auto simp: day_counter_def)
  then have up: "0 \<le> number_of (live (entry r k) now) + d"
    using assms(3) by simp
  show "fst (rx_incrby api k d now r) = n + d"
    using incrby [OF up] n by simp
  have "(if live (entry r k) now = None then None else snd (the (entry r k))) = kept_deadline (entry r k)"
    using assms(1,2) by (auto simp: day_counter_def kept_deadline_def split: if_splits)
  then show "entry (snd (rx_incrby api k d now r)) = (entry r)(k \<mapsto> (show_int (n + d), kept_deadline (entry r k)))"
    using incrby [OF up] n by simp
qed

lemma expire_counter:
  assumes "entry r k = Some (show_int (n + d), kept_deadline x)" "n = 0 \<Longrightarrow> x = None" "0 < seconds" "reached = n + d"
  shows "entry (expire_if api (reached = d) k seconds now r) = (entry r)(k := bumped n d (now + seconds * 1000) x)"
proof (cases "n = 0")
  case True
  then have "live (entry r k) now = Some (show_int d)"
    using assms(1,2) by (simp add: kept_deadline_def)
  then show ?thesis
    using expire [of r k now "show_int d" seconds] assms True by (simp add: expire_if_def bumped_def)
next
  case False
  then show ?thesis
    using assms by (auto simp: expire_if_def bumped_def fun_upd_idem)
qed

end

section \<open>The script\<close>

definition fits :: "int \<Rightarrow> int \<Rightarrow> int \<Rightarrow> int \<Rightarrow> int \<Rightarrow> int \<times> int \<times> int \<Rightarrow> bool" where
  "fits runLimit tokenLimit costLimit tokens cents totals =
     (case totals of (runs, toks, cs) \<Rightarrow>
        runs + 1 \<le> runLimit \<and> toks + tokens \<le> tokenLimit \<and> cs + cents \<le> costLimit)"

context redis_server
begin

lemma reserve_script_rejects:
  assumes "day_counter midnight (entry r) k1 a" "day_counter midnight (entry r) k2 b"
    "day_counter midnight (entry r) k3 c" "now < midnight"
    "1 \<le> runlim" "1 \<le> t" "1 \<le> toklim" "1 \<le> cents" "1 \<le> costlim" "\<not> fits runlim toklim costlim t cents (a, b, c)"
  shows "RESERVE_DAILY_RUN_TOKEN_AND_COST_BUDGET_SCRIPT api k1 k2 k3 1 runlim t toklim cents costlim seconds now r = (ReplyNumber 0, r)"
  using assms(5-) day_counter_number [OF assms(1,4)] day_counter_number [OF assms(2,4)]
    day_counter_number [OF assms(3,4)]
  by (auto simp: RESERVE_DAILY_RUN_TOKEN_AND_COST_BUDGET_SCRIPT_def get fits_def)

lemma reserve_script_admits:
  assumes A: "day_counter midnight (entry r) k1 a" and B: "day_counter midnight (entry r) k2 b"
    and C: "day_counter midnight (entry r) k3 c" and now: "now < midnight"
    and pos: "1 \<le> runlim" "1 \<le> t" "1 \<le> toklim" "1 \<le> cents" "1 \<le> costlim" and fit: "fits runlim toklim costlim t cents (a, b, c)"
    and distinct: "k1 \<noteq> k2" "k1 \<noteq> k3" "k2 \<noteq> k3" and seconds: "0 < seconds"
  shows "\<exists>r'. RESERVE_DAILY_RUN_TOKEN_AND_COST_BUDGET_SCRIPT api k1 k2 k3 1 runlim t toklim cents costlim seconds now r =
           (ReplyList [a + 1, b + t, c + cents], r') \<and>
         entry r' = (entry r)(k1 := bumped a 1 (now + seconds * 1000) (entry r k1),
           k2 := bumped b t (now + seconds * 1000) (entry r k2),
           k3 := bumped c cents (now + seconds * 1000) (entry r k3))"
proof -
  note number = day_counter_number [OF A now] day_counter_number [OF B now] day_counter_number [OF C now]
  have guard: "\<not> (runlim < a + 1 \<or> toklim < b + t \<or> costlim < c + cents)"
    using fit by (auto simp: fits_def)
  define r1 where "r1 = snd (rx_incrby api k1 1 now r)"
  have t1: "rx_incrby api k1 1 now r = (a + 1, r1)"
    and e1: "entry r1 = (entry r)(k1 \<mapsto> (show_int (a + 1), kept_deadline (entry r k1)))"
    using incr_counter [OF A now, of 1] by (simp_all add: r1_def prod_eq_iff)
  have B1: "day_counter midnight (entry r1) k2 b"
    using B distinct by (simp add: e1 day_counter_other)
  define r2 where "r2 = snd (rx_incrby api k2 t now r1)"
  have t2: "rx_incrby api k2 t now r1 = (b + t, r2)"
    and e2: "entry r2 = (entry r1)(k2 \<mapsto> (show_int (b + t), kept_deadline (entry r k2)))"
    using incr_counter [OF B1 now pos(2)] distinct by (simp_all add: r2_def prod_eq_iff e1)
  have C2: "day_counter midnight (entry r2) k3 c"
    using C distinct by (simp add: e2 e1 day_counter_other)
  define r3 where "r3 = snd (rx_incrby api k3 cents now r2)"
  have t3: "rx_incrby api k3 cents now r2 = (c + cents, r3)"
    and e3: "entry r3 = (entry r2)(k3 \<mapsto> (show_int (c + cents), kept_deadline (entry r k3)))"
    using incr_counter [OF C2 now pos(4)] distinct by (simp_all add: r3_def prod_eq_iff e1 e2)
  define r4 where "r4 = expire_if api (a + 1 = 1) k1 seconds now r3"
  define r5 where "r5 = expire_if api (b + t = t) k2 seconds now r4"
  define r6 where "r6 = expire_if api (c + cents = cents) k3 seconds now r5"
  have e4: "entry r4 = (entry r3)(k1 := bumped a 1 (now + seconds * 1000) (entry r k1))"
    unfolding r4_def using A seconds distinct
    by (intro expire_counter) (auto simp: e1 e2 e3 day_counter_def)
  have e5: "entry r5 = (entry r4)(k2 := bumped b t (now + seconds * 1000) (entry r k2))"
    unfolding r5_def using B seconds distinct
    by (intro expire_counter) (auto simp: e1 e2 e3 e4 day_counter_def)
  have e6: "entry r6 = (entry r5)(k3 := bumped c cents (now + seconds * 1000) (entry r k3))"
    unfolding r6_def using C seconds distinct
    by (intro expire_counter) (auto simp: e1 e2 e3 e4 e5 day_counter_def)
  have script: "RESERVE_DAILY_RUN_TOKEN_AND_COST_BUDGET_SCRIPT api k1 k2 k3 1 runlim t toklim cents costlim seconds now r =
      (ReplyList [a + 1, b + t, c + cents], r6)"
    unfolding RESERVE_DAILY_RUN_TOKEN_AND_COST_BUDGET_SCRIPT_def get number Let_def r6_def r5_def r4_def
    using guard pos by (simp add: t1 t2 t3)
  have "entry r6 = (entry r)(k1 := bumped a 1 (now + seconds * 1000) (entry r k1),
           k2 := bumped b t (now + seconds * 1000) (entry r k2),
           k3 := bumped c cents (now + seconds * 1000) (entry r k3))"
    using distinct by (auto simp: e1 e2 e3 e4 e5 e6 fun_eq_iff)
  with script show ?thesis by blast
qed

end

section \<open>The ledger\<close>

text \<open>A reservation of one organization: its tokens, its cents and its time.\<close>

type_synonym reservation_request = "int \<times> int \<times> int"

fun reserve_all ::
  "'r redis_api \<Rightarrow> string \<Rightarrow> int \<Rightarrow> int \<Rightarrow> int \<Rightarrow> reservation_request list \<Rightarrow> budget_counters \<Rightarrow> 'r \<Rightarrow>
   (string + budget_reservation option) list \<times> budget_counters \<times> 'r" where
  "reserve_all api org runlim toklim costlim [] c r = ([], c, r)"
| "reserve_all api org runlim toklim costlim ((t, cents, now) # qs) c r =
     (case reserveUpGalDailyRunTokenAndCostBudget api org runlim t toklim cents costlim now c r of
        (reply, c1, r1) \<Rightarrow> (case reserve_all api org runlim toklim costlim qs c1 r1 of
           (replies, c2, r2) \<Rightarrow> (reply # replies, c2, r2)))"

definition positive_safe :: "int \<Rightarrow> bool" where
  "positive_safe n \<longleftrightarrow> 1 \<le> n \<and> n \<le> MAX_SAFE"

definition ledger_step ::
  "int \<Rightarrow> int \<Rightarrow> int \<Rightarrow> int \<Rightarrow> int \<Rightarrow> int \<times> int \<times> int \<Rightarrow>
   (string + budget_reservation option) \<times> (int \<times> int \<times> int)" where
  "ledger_step runlim toklim costlim t cents totals =
     (case totals of (runs, toks, cs) \<Rightarrow>
        if \<not> (positive_safe runlim \<and> positive_safe t \<and> positive_safe toklim \<and> positive_safe cents \<and> positive_safe costlim)
        then (Inl ''UpGal run, token, and cost budget values must be positive safe integers'', totals)
        else if \<not> fits runlim toklim costlim t cents totals then (Inr None, totals)
        else (Inr (Some \<lparr>br_totalRuns = runs + 1, br_runLimit = runlim, br_totalTokens = toks + t, br_tokenLimit = toklim,
                         br_totalCents = cs + cents, br_costLimitCents = costlim\<rparr>),
              (runs + 1, toks + t, cs + cents)))"

fun ledger_run ::
  "int \<Rightarrow> int \<Rightarrow> int \<Rightarrow> reservation_request list \<Rightarrow> int \<times> int \<times> int \<Rightarrow>
   (string + budget_reservation option) list \<times> (int \<times> int \<times> int)" where
  "ledger_run runlim toklim costlim [] totals = ([], totals)"
| "ledger_run runlim toklim costlim ((t, cents, now) # qs) totals =
     (case ledger_step runlim toklim costlim t cents totals of
        (reply, totals1) \<Rightarrow> (case ledger_run runlim toklim costlim qs totals1 of
           (replies, totals2) \<Rightarrow> (reply # replies, totals2)))"

text \<open>The counters of a day stand for the totals of the ledger.\<close>

definition stands_for ::
  "string \<Rightarrow> int \<Rightarrow> (string \<Rightarrow> redis_entry option) \<Rightarrow> int \<times> int \<times> int \<Rightarrow> bool" where
  "stands_for org day e totals \<longleftrightarrow>
     (case totals of (runs, toks, cs) \<Rightarrow>
        day_counter ((day + 1) * DAY_MS) e (upGalDailyBudgetKey org (day * DAY_MS)) runs \<and>
        day_counter ((day + 1) * DAY_MS) e (upGalDailyTokenBudgetKey org (day * DAY_MS)) toks \<and>
        day_counter ((day + 1) * DAY_MS) e (upGalDailyCostBudgetKey org (day * DAY_MS)) cs)"

definition within_limits :: "int \<Rightarrow> int \<Rightarrow> int \<Rightarrow> int \<times> int \<times> int \<Rightarrow> bool" where
  "within_limits runlim toklim costlim totals =
     (case totals of (runs, toks, cs) \<Rightarrow>
        0 \<le> runs \<and> runs \<le> max 0 runlim \<and> 0 \<le> toks \<and> toks \<le> max 0 toklim \<and> 0 \<le> cs \<and> cs \<le> max 0 costlim)"

lemma ledger_step_within:
  "within_limits runlim toklim costlim totals \<Longrightarrow> within_limits runlim toklim costlim (snd (ledger_step runlim toklim costlim t cents totals))"
  by (auto simp: within_limits_def ledger_step_def fits_def positive_safe_def split: prod.splits)

lemma iso_day_of_day: "now div DAY_MS = day \<Longrightarrow> iso_day now = iso_day (day * DAY_MS)"
  by (simp add: iso_day_def DAY_MS_def)

lemma seconds_reach_midnight:
  "now div DAY_MS = day \<Longrightarrow>
   0 < secondsUntilNextUtcDay now \<and> now < (day + 1) * DAY_MS \<and>
   (day + 1) * DAY_MS \<le> now + secondsUntilNextUtcDay now * 1000"
  unfolding secondsUntilNextUtcDay_def next_day_def DAY_MS_def by auto

lemma budget_keys_distinct:
  "upGalDailyBudgetKey org a \<noteq> upGalDailyTokenBudgetKey org b"
  "upGalDailyBudgetKey org a \<noteq> upGalDailyCostBudgetKey org b"
  "upGalDailyTokenBudgetKey org a \<noteq> upGalDailyCostBudgetKey org b"
  by (simp_all add: upGalDailyBudgetKey_def upGalDailyTokenBudgetKey_def upGalDailyCostBudgetKey_def)

lemma keys_of_day:
  "now div DAY_MS = day \<Longrightarrow> upGalDailyBudgetKey org now = upGalDailyBudgetKey org (day * DAY_MS)"
  "now div DAY_MS = day \<Longrightarrow> upGalDailyTokenBudgetKey org now = upGalDailyTokenBudgetKey org (day * DAY_MS)"
  "now div DAY_MS = day \<Longrightarrow> upGalDailyCostBudgetKey org now = upGalDailyCostBudgetKey org (day * DAY_MS)"
  unfolding upGalDailyBudgetKey_def upGalDailyTokenBudgetKey_def upGalDailyCostBudgetKey_def
  by (drule iso_day_of_day, simp only:)+

lemma stands_for_bumped:
  assumes "stands_for org day e (a, b, c)" "1 \<le> t" "1 \<le> cents" "(day + 1) * DAY_MS \<le> deadline"
  shows "stands_for org day
    (e(upGalDailyBudgetKey org (day * DAY_MS) := bumped a 1 deadline (e (upGalDailyBudgetKey org (day * DAY_MS))),
       upGalDailyTokenBudgetKey org (day * DAY_MS) := bumped b t deadline (e (upGalDailyTokenBudgetKey org (day * DAY_MS))),
       upGalDailyCostBudgetKey org (day * DAY_MS) := bumped c cents deadline (e (upGalDailyCostBudgetKey org (day * DAY_MS)))))
    (a + 1, b + t, c + cents)"
proof -
  note keys = budget_keys_distinct [of org "day * DAY_MS" "day * DAY_MS"]
  have parts: "day_counter ((day + 1) * DAY_MS) e (upGalDailyBudgetKey org (day * DAY_MS)) a"
    "day_counter ((day + 1) * DAY_MS) e (upGalDailyTokenBudgetKey org (day * DAY_MS)) b"
    "day_counter ((day + 1) * DAY_MS) e (upGalDailyCostBudgetKey org (day * DAY_MS)) c"
    using assms(1) by (simp_all add: stands_for_def)
  have own: "day_counter ((day + 1) * DAY_MS) (e'(k := bumped n d deadline (e k))) k (n + d)"
    if "day_counter ((day + 1) * DAY_MS) e k n" "1 \<le> d" for e' k n d
    using day_counter_bumped [OF that assms(4)] unfolding day_counter_def by (simp only: fun_upd_same) blast
  show ?thesis
    unfolding stands_for_def prod.case
    using own [OF parts(1), of 1] own [OF parts(2) assms(2)] own [OF parts(3) assms(3)] keys
    by (simp add: day_counter_other del: One_nat_def)
qed

section \<open>The counters refine the ledger\<close>

context redis_server
begin

lemma reservation_refines:
  assumes S: "stands_for org day (entry r) (a, b, c)" and L: "within_limits runlim toklim costlim (a, b, c)"
    and day: "now div DAY_MS = day"
  shows "\<exists>m' r' totals'. reserveUpGalDailyRunTokenAndCostBudget api org runlim t toklim cents costlim now m r =
           (fst (ledger_step runlim toklim costlim t cents (a, b, c)), m', r') \<and>
         totals' = snd (ledger_step runlim toklim costlim t cents (a, b, c)) \<and>
         stands_for org day (entry r') totals' \<and>
         bg_reservedTokens m' - bg_reservedTokens m = fst (snd totals') - b \<and>
         bg_admitted m' - bg_admitted m = fst totals' - a"
proof -
  note keys = keys_of_day [OF day, of org] and seconds = seconds_reach_midnight [OF day]
  have parts: "day_counter ((day + 1) * DAY_MS) (entry r) (upGalDailyBudgetKey org (day * DAY_MS)) a"
    "day_counter ((day + 1) * DAY_MS) (entry r) (upGalDailyTokenBudgetKey org (day * DAY_MS)) b"
    "day_counter ((day + 1) * DAY_MS) (entry r) (upGalDailyCostBudgetKey org (day * DAY_MS)) c"
    using S by (simp_all add: stands_for_def)
  consider (bad) "\<not> (positive_safe runlim \<and> positive_safe t \<and> positive_safe toklim \<and> positive_safe cents \<and> positive_safe costlim)"
    | (full) "positive_safe runlim" "positive_safe t" "positive_safe toklim" "positive_safe cents" "positive_safe costlim"
        "\<not> fits runlim toklim costlim t cents (a, b, c)"
    | (fit) "positive_safe runlim" "positive_safe t" "positive_safe toklim" "positive_safe cents" "positive_safe costlim"
        "fits runlim toklim costlim t cents (a, b, c)" by blast
  then show ?thesis
  proof cases
    case bad
    then have "reserveUpGalDailyRunTokenAndCostBudget api org runlim t toklim cents costlim now m r =
        (Inl ''UpGal run, token, and cost budget values must be positive safe integers'', m, r)"
      by (auto simp: reserveUpGalDailyRunTokenAndCostBudget_def positive_safe_def safe_integer_def)
    then show ?thesis using bad S by (simp add: ledger_step_def)
  next
    case full
    note g = full [unfolded positive_safe_def]
    have "reserveUpGalDailyRunTokenAndCostBudget api org runlim t toklim cents costlim now m r = (Inr None, m, r)"
      using g reserve_script_rejects [OF parts, of now runlim t toklim cents costlim "secondsUntilNextUtcDay now"] seconds
      unfolding reserveUpGalDailyRunTokenAndCostBudget_def keys by (simp add: safe_integer_def)
    then show ?thesis using full S by (simp add: ledger_step_def)
  next
    case fit
    note g = fit [unfolded positive_safe_def]
    let ?deadline = "now + secondsUntilNextUtcDay now * 1000"
    obtain r' where script: "RESERVE_DAILY_RUN_TOKEN_AND_COST_BUDGET_SCRIPT api (upGalDailyBudgetKey org (day * DAY_MS))
        (upGalDailyTokenBudgetKey org (day * DAY_MS)) (upGalDailyCostBudgetKey org (day * DAY_MS))
        1 runlim t toklim cents costlim (secondsUntilNextUtcDay now) now r = (ReplyList [a + 1, b + t, c + cents], r')"
      and e: "stands_for org day (entry r') (a + 1, b + t, c + cents)"
      using reserve_script_admits [OF parts, of now runlim t toklim cents costlim "secondsUntilNextUtcDay now"]
        stands_for_bumped [OF S, of t cents ?deadline] seconds g budget_keys_distinct [of org "day * DAY_MS" "day * DAY_MS"]
      by (metis (no_types, lifting))
    have safe: "safe_integer (a + 1)" "safe_integer (b + t)" "safe_integer (c + cents)"
      "1 \<le> a + 1" "t \<le> b + t" "cents \<le> c + cents"
      using L g by (auto simp: within_limits_def fits_def safe_integer_def)
    have "\<exists>m'. reserveUpGalDailyRunTokenAndCostBudget api org runlim t toklim cents costlim now m r =
        (Inr (Some \<lparr>br_totalRuns = a + 1, br_runLimit = runlim, br_totalTokens = b + t, br_tokenLimit = toklim,
                    br_totalCents = c + cents, br_costLimitCents = costlim\<rparr>), m', r') \<and>
        bg_reservedTokens m' - bg_reservedTokens m = t \<and> bg_admitted m' - bg_admitted m = 1"
      unfolding reserveUpGalDailyRunTokenAndCostBudget_def keys script using safe g
      by (simp add: safe_integer_def)
    then show ?thesis using fit e by (auto simp: ledger_step_def)
  qed
qed

lemma day_refines:
  assumes "stands_for org day (entry r) totals" "within_limits runlim toklim costlim totals"
    "list_all (\<lambda>(t, cents, now). now div DAY_MS = day) qs"
  shows "\<exists>m' r' totals'. reserve_all api org runlim toklim costlim qs m r =
           (fst (ledger_run runlim toklim costlim qs totals), m', r') \<and>
         totals' = snd (ledger_run runlim toklim costlim qs totals) \<and>
         stands_for org day (entry r') totals' \<and> within_limits runlim toklim costlim totals' \<and>
         bg_reservedTokens m' - bg_reservedTokens m = fst (snd totals') - fst (snd totals) \<and>
         bg_admitted m' - bg_admitted m = fst totals' - fst totals"
  using assms
proof (induction qs arbitrary: totals m r)
  case Nil
  then show ?case by simp
next
  case (Cons q qs)
  obtain t cents now a b c where q: "q = (t, cents, now)" and totals: "totals = (a, b, c)"
    by (metis prod_cases3)
  obtain m1 r1 where one: "reserveUpGalDailyRunTokenAndCostBudget api org runlim t toklim cents costlim now m r =
       (fst (ledger_step runlim toklim costlim t cents totals), m1, r1)"
    and S1: "stands_for org day (entry r1) (snd (ledger_step runlim toklim costlim t cents totals))"
    and M1: "bg_reservedTokens m1 - bg_reservedTokens m = fst (snd (snd (ledger_step runlim toklim costlim t cents totals))) - b"
      "bg_admitted m1 - bg_admitted m = fst (snd (ledger_step runlim toklim costlim t cents totals)) - a"
    using reservation_refines [of org day r a b c runlim toklim costlim now t cents m] Cons.prems
    unfolding q totals by auto
  have L1: "within_limits runlim toklim costlim (snd (ledger_step runlim toklim costlim t cents totals))"
    using Cons.prems(2) by (rule ledger_step_within)
  show ?case
    using Cons.IH [OF S1 L1, of m1] Cons.prems(3) M1 one
    by (auto simp: q totals split: prod.splits)
qed

end

section \<open>Guarantees\<close>

lemma fresh_day_stands_for:
  "e (upGalDailyBudgetKey org (day * DAY_MS)) = None \<Longrightarrow> e (upGalDailyTokenBudgetKey org (day * DAY_MS)) = None \<Longrightarrow>
   e (upGalDailyCostBudgetKey org (day * DAY_MS)) = None \<Longrightarrow> stands_for org day e (0, 0, 0)"
  by (simp add: stands_for_def day_counter_def)

text \<open>
  C37. Over every server with the documented behaviour of Redis, a day's reservations of an
  organization are answered exactly as by a ledger of totals: invalid amounts are refused, a
  request is admitted iff the run, its tokens and its cents all fit what is left, and a
  rejected request changes none of the three totals. The admitted counters of the process grow
  with the ledger.
\<close>

theorem daily_budget_refines_ledger:
  assumes "redis_server api entry"
    and "entry r (upGalDailyBudgetKey org (day * DAY_MS)) = None"
    and "entry r (upGalDailyTokenBudgetKey org (day * DAY_MS)) = None"
    and "entry r (upGalDailyCostBudgetKey org (day * DAY_MS)) = None"
    and "list_all (\<lambda>(t, cents, now). now div DAY_MS = day) requests"
  shows "case (reserve_all api org runLimit tokenLimit costLimit requests m r,
               ledger_run runLimit tokenLimit costLimit requests (0, 0, 0)) of
           ((replies, m', r'), (ledger_replies, totals)) \<Rightarrow>
             replies = ledger_replies \<and> stands_for org day (entry r') totals \<and>
             bg_admitted m' = bg_admitted m + fst totals \<and>
             bg_reservedTokens m' = bg_reservedTokens m + fst (snd totals)"
proof -
  have "within_limits runLimit tokenLimit costLimit (0, 0, 0)"
    by (simp add: within_limits_def)
  from redis_server.day_refines [OF assms(1) fresh_day_stands_for [of "entry r" org day, OF assms(2-4)] this assms(5), of m]
  show ?thesis by (auto split: prod.splits)
qed

text \<open>The amounts of the admitted requests.\<close>

fun admitted_amounts :: "(string + budget_reservation option) list \<Rightarrow> reservation_request list \<Rightarrow> (int \<times> int) list" where
  "admitted_amounts (Inr (Some _) # replies) ((t, cents, _) # qs) = (t, cents) # admitted_amounts replies qs"
| "admitted_amounts (_ # replies) (_ # qs) = admitted_amounts replies qs"
| "admitted_amounts _ _ = []"

lemma ledger_totals:
  "case ledger_run runlim toklim costlim qs (a, b, c) of (replies, a', b', c') \<Rightarrow>
     a' = a + int (length (admitted_amounts replies qs)) \<and>
     b' = b + sum_list (map fst (admitted_amounts replies qs)) \<and>
     c' = c + sum_list (map snd (admitted_amounts replies qs))"
proof (induction qs arbitrary: a b c)
  case Nil
  then show ?case by simp
next
  case (Cons q qs)
  obtain t cents now where q: "q = (t, cents, now)" by (metis prod_cases3)
  show ?case
    using Cons.IH [of a b c] Cons.IH [of "a + 1" "b + t" "c + cents"]
    by (auto simp: q ledger_step_def split: prod.splits)
qed

text \<open>
  On one UTC day an organization is admitted at most its limit of runs, and the tokens and
  the cents of its admitted requests add up to at most the daily limits, whatever the requests
  and their order.
\<close>

theorem daily_budget_bounded:
  assumes "redis_server api entry"
    and "entry r (upGalDailyBudgetKey org (day * DAY_MS)) = None"
    and "entry r (upGalDailyTokenBudgetKey org (day * DAY_MS)) = None"
    and "entry r (upGalDailyCostBudgetKey org (day * DAY_MS)) = None"
    and "list_all (\<lambda>(t, cents, now). now div DAY_MS = day) requests"
    and "reserve_all api org runLimit tokenLimit costLimit requests m r = (replies, m', r')"
    and "admitted = admitted_amounts replies requests"
  shows "int (length admitted) \<le> max 0 runLimit \<and> sum_list (map fst admitted) \<le> max 0 tokenLimit \<and>
         sum_list (map snd admitted) \<le> max 0 costLimit"
proof -
  have "within_limits runLimit tokenLimit costLimit (0, 0, 0)"
    by (simp add: within_limits_def)
  from redis_server.day_refines [OF assms(1) fresh_day_stands_for [of "entry r" org day, OF assms(2-4)] this assms(5), of m]
  show ?thesis
    using ledger_totals [where runlim = runLimit and toklim = tokenLimit and costlim = costLimit and qs = requests and a = 0 and b = 0 and c = 0] assms(6,7)
    by (auto simp: within_limits_def split: prod.splits)
qed

text \<open>A reservation never counts as rejected in the process metrics.\<close>

lemma rejected_never_counted:
  "bg_rejected (fst (snd (reserveUpGalDailyRunTokenAndCostBudget api org rlim t tlim cents clim now m r))) = bg_rejected m"
  by (auto simp: reserveUpGalDailyRunTokenAndCostBudget_def split: prod.splits script_reply.splits list.splits)

section \<open>A day\<close>

definition no_counters :: budget_counters where
  "no_counters = \<lparr>bg_admitted = 0, bg_rejected = 0, bg_reservedTokens = 0, bg_reservedCostCents = 0,
     bg_pricedUsageRequests = 0, bg_unpricedUsageRequests = 0, bg_estimatedUsageCostCents = 0\<rparr>"

definition sample_requests :: "reservation_request list" where
  "sample_requests = [(60, 3, 86400000), (50, 1, 86400001), (40, 2, 86400002), (1, 1, 172799999)]"

theorem daily_budget_refines_ledger_witness:
  "case (reserve_all map_redis ''org'' 3 100 9 sample_requests no_counters (\<lambda>_. None),
         ledger_run 3 100 9 sample_requests (0, 0, 0)) of
     ((replies, m', r'), (ledger_replies, totals)) \<Rightarrow>
       replies = ledger_replies \<and> stands_for ''org'' 1 r' totals \<and>
       bg_admitted m' = bg_admitted no_counters + fst totals \<and>
       bg_reservedTokens m' = bg_reservedTokens no_counters + fst (snd totals)"
  by (rule daily_budget_refines_ledger [OF map_redis.redis_server_axioms])
    (simp_all add: sample_requests_def DAY_MS_def)

theorem daily_budget_bounded_witness:
  "int (length (admitted_amounts (fst (reserve_all map_redis ''org'' 3 100 9 sample_requests no_counters (\<lambda>_. None)))
     sample_requests)) \<le> 3"
proof -
  obtain replies m' r' where run:
    "reserve_all map_redis ''org'' 3 100 9 sample_requests no_counters (\<lambda>_. None) = (replies, m', r')"
    by (metis prod_cases3)
  have "list_all (\<lambda>(t, cents, now). now div DAY_MS = 1) sample_requests"
    by (simp add: sample_requests_def DAY_MS_def)
  from daily_budget_bounded [OF map_redis.redis_server_axioms _ _ _ this run refl]
  show ?thesis by (simp add: run)
qed

end
