(* ===== verification/Autoscaling.thy ===== *)
theory Autoscaling
  imports Prelude Complex_Main
begin

text \<open>
  Horizontal autoscaling, \<open>usecases/src/autoscaling/autoscaling.service.ts\<close>, with the
  autoscaling section of the advanced configuration of a resource
  (\<open>domain/src/entities/resource.ts\<close>). Measurements are rational numbers. The container
  runtime, the monitoring agent and the access log are parameters: what a call finds is an
  argument, and a call that throws is an error.
\<close>

section \<open>Configuration\<close>

record autoscaling_config =
  as_enabled :: bool
  as_minReplicas :: int
  as_maxReplicas :: int
  as_targetCpuPercent :: "rat option"
  as_targetMemoryPercent :: "rat option"
  as_targetRequestsPerSecond :: "rat option"
  as_customMetric :: "string option"
  as_customMetricTarget :: "rat option"
  as_scaleUpStep :: int
  as_scaleDownStep :: int
  as_cooldownSeconds :: int

definition in_range :: "'a::linorder \<Rightarrow> 'a \<Rightarrow> 'a \<Rightarrow> bool" where
  "in_range lo hi x \<longleftrightarrow> lo \<le> x \<and> x \<le> hi"

definition optionally :: "('a \<Rightarrow> bool) \<Rightarrow> 'a option \<Rightarrow> bool" where
  "optionally p v \<longleftrightarrow> (case v of Some x \<Rightarrow> p x | None \<Rightarrow> True)"

text \<open>What the schema accepts.\<close>

definition autoscaling_valid :: "autoscaling_config \<Rightarrow> bool" where
  "autoscaling_valid c \<longleftrightarrow>
     in_range 0 1000 (as_minReplicas c) \<and> in_range 1 1000 (as_maxReplicas c) \<and>
     optionally (in_range 1 100) (as_targetCpuPercent c) \<and> optionally (in_range 1 100) (as_targetMemoryPercent c) \<and>
     optionally (\<lambda>x. 0 < x) (as_targetRequestsPerSecond c) \<and>
     optionally (\<lambda>m. length m \<le> 128) (as_customMetric c) \<and>
     in_range 1 100 (as_scaleUpStep c) \<and> in_range 1 100 (as_scaleDownStep c) \<and> in_range 10 86400 (as_cooldownSeconds c) \<and>
     as_minReplicas c \<le> as_maxReplicas c \<and>
     (as_enabled c \<longrightarrow> as_targetCpuPercent c \<noteq> None \<or> as_targetMemoryPercent c \<noteq> None \<or>
        as_targetRequestsPerSecond c \<noteq> None \<or> as_customMetricTarget c \<noteq> None)"

section \<open>Measurements\<close>

datatype metric = MNum rat | MObj "(string \<times> metric) list" | MOther

fun number_along :: "metric \<Rightarrow> string list \<Rightarrow> rat option" where
  "number_along (MNum x) [] = Some x"
| "number_along _ [] = None"
| "number_along (MObj entries) (s # ss) = (case map_of entries s of Some v \<Rightarrow> number_along v ss | None \<Rightarrow> None)"
| "number_along _ (_ # _) = None"

definition numberAt :: "metric \<Rightarrow> string \<Rightarrow> rat option" where
  "numberAt v path = number_along v (split_on CHR ''.'' path)"

definition average :: "metric list \<Rightarrow> string list \<Rightarrow> rat option" where
  "average records paths =
     (let vals = concat (map (\<lambda>r. concat (map (\<lambda>p. case numberAt r p of Some x \<Rightarrow> [x] | None \<Rightarrow> []) paths)) records)
      in if vals = [] then None else Some (sum_list vals / rat_of_nat (length vals)))"

record access_entry =
  ae_host :: string
  ae_timestamp :: int
  ae_durationMs :: rat
  ae_status :: int

text \<open>The hosts of the domains of the resource, and the entries of the access log.\<close>

definition trafficMetricForResource :: "string list \<Rightarrow> access_entry list \<Rightarrow> int \<Rightarrow> metric option" where
  "trafficMetricForResource hosts accessLog now =
     (if hosts = [] then None
      else
        let entries = filter (\<lambda>e. ae_host e \<in> set hosts \<and> ae_timestamp e \<ge> now - 60000) accessLog in
        if entries = [] then None
        else
          let durations = sort (map ae_durationMs entries);
              p95Index = min (len durations - 1) (\<lceil>rat_of_int (len durations) * (95 / 100)\<rceil> - 1);
              errors = len (filter (\<lambda>e. ae_status e \<ge> 500) entries)
          in Some (MObj
               [(''RequestsPerSecond'', MNum (rat_of_int (len entries) / 60)),
                (''errorRate'', MNum (rat_of_int errors / rat_of_int (len entries) * 100)),
                (''p95LatencyMs'', MNum (durations ! nat p95Index))]))"

section \<open>Decisions\<close>

record autoscaling_decision =
  ad_resourceId :: string
  ad_currentReplicas :: int
  ad_desiredReplicas :: int

definition exceeds :: "rat option \<Rightarrow> rat option \<Rightarrow> bool" where
  "exceeds target measured \<longleftrightarrow> (case (target, measured) of (Some t, Some m) \<Rightarrow> m > t | _ \<Rightarrow> False)"

definition well_below :: "rat option \<Rightarrow> rat option \<Rightarrow> bool" where
  "well_below target measured \<longleftrightarrow> (case (target, measured) of (Some t, Some m) \<Rightarrow> m < t * (6 / 10) | _ \<Rightarrow> True)"

definition cpu_of :: "metric list \<Rightarrow> rat option" where
  "cpu_of metrics = average metrics [''CPU'', ''cpu'']"

definition memory_of :: "metric list \<Rightarrow> rat option" where
  "memory_of metrics = average metrics [''Memory.Percentage'', ''memoryPercent'', ''memory.percentage'']"

definition requests_of :: "metric list \<Rightarrow> rat option" where
  "requests_of metrics = average metrics [''RequestsPerSecond'', ''requestsPerSecond'', ''requests.perSecond'']"

definition custom_of :: "autoscaling_config \<Rightarrow> metric list \<Rightarrow> rat option" where
  "custom_of c metrics =
     (case as_customMetric c of Some m \<Rightarrow> if m = [] then None else average metrics [m] | None \<Rightarrow> None)"

definition scaleUp :: "autoscaling_config \<Rightarrow> metric list \<Rightarrow> bool" where
  "scaleUp c metrics \<longleftrightarrow>
     exceeds (as_targetCpuPercent c) (cpu_of metrics) \<or> exceeds (as_targetMemoryPercent c) (memory_of metrics) \<or>
     exceeds (as_targetRequestsPerSecond c) (requests_of metrics) \<or>
     exceeds (as_customMetricTarget c) (custom_of c metrics)"

definition scaleDown :: "autoscaling_config \<Rightarrow> metric list \<Rightarrow> bool" where
  "scaleDown c metrics \<longleftrightarrow>
     \<not> scaleUp c metrics \<and>
     well_below (as_targetCpuPercent c) (cpu_of metrics) \<and> well_below (as_targetMemoryPercent c) (memory_of metrics) \<and>
     well_below (as_targetRequestsPerSecond c) (requests_of metrics) \<and>
     well_below (as_customMetricTarget c) (custom_of c metrics)"

definition desired_replicas :: "autoscaling_config \<Rightarrow> int \<Rightarrow> metric list \<Rightarrow> int" where
  "desired_replicas c current metrics =
     (if scaleUp c metrics then min (as_maxReplicas c) (current + as_scaleUpStep c)
      else if scaleDown c metrics then max (as_minReplicas c) (current - as_scaleDownStep c)
      else current)"

type_synonym scaling_times = "string \<rightharpoonup> int"

text \<open>\<open>scaled\<close> is the outcome of \<open>docker.scaleService\<close>; the textual reason of a decision is left out.\<close>

definition reconcileWithMetrics ::
  "string \<Rightarrow> autoscaling_config \<Rightarrow> int \<Rightarrow> metric list \<Rightarrow> string + unit \<Rightarrow> int \<Rightarrow> scaling_times \<Rightarrow>
   (string + autoscaling_decision option) \<times> scaling_times" where
  "reconcileWithMetrics resourceId c current metrics scaled now lastScaledAt =
     (if metrics = [] then (Inr None, lastScaledAt)
      else
        let desired = desired_replicas c current metrics in
        if desired = current then (Inr None, lastScaledAt)
        else case scaled of
            Inl e \<Rightarrow> (Inl e, lastScaledAt)
          | Inr _ \<Rightarrow>
              (Inr (Some \<lparr>ad_resourceId = resourceId, ad_currentReplicas = current, ad_desiredReplicas = desired\<rparr>),
               lastScaledAt(resourceId \<mapsto> now)))"

record autoscaling_resource =
  ar_id :: string
  ar_type :: string
  ar_config :: autoscaling_config

text \<open>What the ports give during one reconciliation: the containers, the records of the agent
  and of the access log, and the outcome of scaling.\<close>

record observation =
  ob_containers :: "string + int"
  ob_agent :: "string + metric list"
  ob_traffic :: "metric option"
  ob_scaled :: "string + unit"

definition reconcileResource ::
  "autoscaling_resource \<Rightarrow> observation \<Rightarrow> int \<Rightarrow> scaling_times \<Rightarrow>
   (string + autoscaling_decision option) \<times> scaling_times" where
  "reconcileResource resource ob now lastScaledAt =
     (let c = ar_config resource in
      if \<not> as_enabled c \<or> ar_type resource = ''compose'' \<or> ar_type resource = ''database'' then (Inr None, lastScaledAt)
      else if (case lastScaledAt (ar_id resource) of
                 Some t \<Rightarrow> now - t < as_cooldownSeconds c * 1000 | None \<Rightarrow> False) then (Inr None, lastScaledAt)
      else case ob_containers ob of
          Inl e \<Rightarrow> (Inl e, lastScaledAt)
        | Inr current \<Rightarrow>
            (case ob_agent ob of
               Inl e \<Rightarrow> (Inl e, lastScaledAt)
             | Inr records \<Rightarrow>
                 reconcileWithMetrics (ar_id resource) c current
                   (records @ (case ob_traffic ob of Some m \<Rightarrow> [m] | None \<Rightarrow> [])) (ob_scaled ob) now lastScaledAt))"

text \<open>Failures of single resources are dropped; batches keep the order.\<close>

fun reconcile_each ::
  "(autoscaling_resource \<times> observation) list \<Rightarrow> int \<Rightarrow> scaling_times \<Rightarrow> autoscaling_decision list \<times> scaling_times" where
  "reconcile_each [] now stamps = ([], stamps)"
| "reconcile_each ((r, ob) # rs) now stamps =
     (case reconcileResource r ob now stamps of
        (result, times1) \<Rightarrow> (case reconcile_each rs now times1 of
          (ds, times2) \<Rightarrow> ((case result of Inr (Some d) \<Rightarrow> d # ds | _ \<Rightarrow> ds), times2)))"

definition reconcileAll ::
  "(autoscaling_resource \<times> observation) list \<Rightarrow> int \<Rightarrow> scaling_times \<Rightarrow> autoscaling_decision list \<times> scaling_times" where
  "reconcileAll resources now stamps =
     reconcile_each (filter (\<lambda>(r, _). ar_type r \<noteq> ''compose'' \<and> ar_type r \<noteq> ''database'' \<and> as_enabled (ar_config r)) resources)
       now stamps"

section \<open>Facts\<close>

lemma desired_step:
  assumes "autoscaling_valid c" "as_minReplicas c \<le> current" "current \<le> as_maxReplicas c"
  shows "as_minReplicas c \<le> desired_replicas c current m" "desired_replicas c current m \<le> as_maxReplicas c"
    "desired_replicas c current m > current \<Longrightarrow>
       scaleUp c m \<and> desired_replicas c current m \<le> current + as_scaleUpStep c"
    "desired_replicas c current m < current \<Longrightarrow>
       scaleDown c m \<and> desired_replicas c current m \<ge> current - as_scaleDownStep c"
proof -
  have "1 \<le> as_scaleUpStep c" "1 \<le> as_scaleDownStep c" "as_minReplicas c \<le> as_maxReplicas c"
    using assms(1) by (simp_all add: autoscaling_valid_def in_range_def)
  with assms(2,3) show "as_minReplicas c \<le> desired_replicas c current m" "desired_replicas c current m \<le> as_maxReplicas c"
    "desired_replicas c current m > current \<Longrightarrow>
       scaleUp c m \<and> desired_replicas c current m \<le> current + as_scaleUpStep c"
    "desired_replicas c current m < current \<Longrightarrow>
       scaleDown c m \<and> desired_replicas c current m \<ge> current - as_scaleDownStep c"
    unfolding desired_replicas_def by (auto split: if_splits)
qed

definition observed :: "observation \<Rightarrow> metric list" where
  "observed ob =
     (case ob_agent ob of
        Inr records \<Rightarrow> records @ (case ob_traffic ob of Some m \<Rightarrow> [m] | None \<Rightarrow> [])
      | Inl _ \<Rightarrow> [])"

lemma reconcile_decision:
  assumes "reconcileResource r ob now stamps = (Inr (Some d), stamps')"
  shows "ob_containers ob = Inr (ad_currentReplicas d) \<and>
    ad_desiredReplicas d = desired_replicas (ar_config r) (ad_currentReplicas d) (observed ob) \<and>
    ad_desiredReplicas d \<noteq> ad_currentReplicas d \<and> ad_resourceId d = ar_id r \<and> stamps' = stamps(ar_id r \<mapsto> now) \<and>
    as_enabled (ar_config r) \<and> ar_type r \<noteq> ''compose'' \<and> ar_type r \<noteq> ''database'' \<and>
    (\<forall>t. stamps (ar_id r) = Some t \<longrightarrow> as_cooldownSeconds (ar_config r) * 1000 \<le> now - t)"
  using assms
  by (auto simp: reconcileResource_def reconcileWithMetrics_def observed_def Let_def
      split: if_splits sum.splits option.splits)

lemma reconcile_no_decision:
  assumes "reconcileResource r ob now stamps = (res, stamps')" "\<And>d. res \<noteq> Inr (Some d)"
  shows "stamps' = stamps"
  using assms
  by (auto simp: reconcileResource_def reconcileWithMetrics_def Let_def split: if_splits sum.splits option.splits)

section \<open>Rounds of one resource\<close>

text \<open>The times at which successive reconciliations scaled the resource.\<close>

fun scaled_at :: "autoscaling_resource \<Rightarrow> (int \<times> observation) list \<Rightarrow> scaling_times \<Rightarrow> int list" where
  "scaled_at r [] stamps = []"
| "scaled_at r ((now, ob) # rounds) stamps =
     (case reconcileResource r ob now stamps of
        (Inr (Some d), stamps') \<Rightarrow> now # scaled_at r rounds stamps'
      | (_, stamps') \<Rightarrow> scaled_at r rounds stamps')"

lemma scaled_at_spaced:
  "sorted_wrt (\<lambda>a b. as_cooldownSeconds (ar_config r) * 1000 \<le> b - a) (scaled_at r rounds stamps) \<and>
   (\<forall>t. stamps (ar_id r) = Some t \<longrightarrow> (\<forall>b \<in> set (scaled_at r rounds stamps). as_cooldownSeconds (ar_config r) * 1000 \<le> b - t))"
  if "0 \<le> as_cooldownSeconds (ar_config r)"
proof (induction rounds arbitrary: stamps)
  case Nil
  then show ?case by simp
next
  case (Cons x rounds)
  obtain now ob where x: "x = (now, ob)" by (cases x)
  obtain res stamps' where step: "reconcileResource r ob now stamps = (res, stamps')" by (meson surj_pair)
  show ?case
  proof (cases "\<exists>d. res = Inr (Some d)")
    case True
    then obtain d where res: "res = Inr (Some d)" by blast
    note f = reconcile_decision [OF step [unfolded res]]
    then have own: "stamps' (ar_id r) = Some now" by auto
    have later: "as_cooldownSeconds (ar_config r) * 1000 \<le> b - now" if "b \<in> set (scaled_at r rounds stamps')" for b
      using Cons.IH [of stamps'] own that by blast
    have "as_cooldownSeconds (ar_config r) * 1000 \<le> now - t" if "stamps (ar_id r) = Some t" for t
      using f that by blast
    then have "as_cooldownSeconds (ar_config r) * 1000 \<le> b - t"
      if "stamps (ar_id r) = Some t" "b \<in> set (scaled_at r rounds stamps')" for b t
      using later [OF that(2)] that(1) \<open>0 \<le> as_cooldownSeconds (ar_config r)\<close> by fastforce
    moreover have "as_cooldownSeconds (ar_config r) * 1000 \<le> now - t" if "stamps (ar_id r) = Some t" for t
      using f that by blast
    moreover have "scaled_at r (x # rounds) stamps = now # scaled_at r rounds stamps'" by (simp add: x step res)
    ultimately show ?thesis using Cons.IH [of stamps'] later by simp
  next
    case False
    then have "stamps' = stamps" "scaled_at r (x # rounds) stamps = scaled_at r rounds stamps'"
      using reconcile_no_decision [OF step] by (auto simp: x step split: sum.split option.split)
    with Cons.IH [of stamps] show ?thesis by simp
  qed
qed

section \<open>Properties\<close>

text \<open>
  Autoscaling is bounded. A decision about a resource whose replicas are within the
  configured range keeps them there, moves by at most one step, upwards only when a measured
  target is exceeded and downwards only when none is; and between two decisions of any series
  of reconciliations of a resource the cooldown has passed, whatever was observed and however
  the clock moved.
\<close>

theorem autoscaling_bounded:
  assumes "autoscaling_valid (ar_config r)"
  shows "(\<forall>ob now stamps d stamps'. reconcileResource r ob now stamps = (Inr (Some d), stamps') \<longrightarrow>
      as_minReplicas (ar_config r) \<le> ad_currentReplicas d \<longrightarrow> ad_currentReplicas d \<le> as_maxReplicas (ar_config r) \<longrightarrow>
      as_minReplicas (ar_config r) \<le> ad_desiredReplicas d \<and> ad_desiredReplicas d \<le> as_maxReplicas (ar_config r) \<and>
      (ad_desiredReplicas d > ad_currentReplicas d \<longrightarrow> scaleUp (ar_config r) (observed ob) \<and>
         ad_desiredReplicas d \<le> ad_currentReplicas d + as_scaleUpStep (ar_config r)) \<and>
      (ad_desiredReplicas d < ad_currentReplicas d \<longrightarrow> scaleDown (ar_config r) (observed ob) \<and>
         ad_desiredReplicas d \<ge> ad_currentReplicas d - as_scaleDownStep (ar_config r))) \<and>
    sorted_wrt (\<lambda>a b. as_cooldownSeconds (ar_config r) * 1000 \<le> b - a) (scaled_at r rounds times0)"
proof (intro conjI allI impI)
  show "sorted_wrt (\<lambda>a b. as_cooldownSeconds (ar_config r) * 1000 \<le> b - a) (scaled_at r rounds times0)"
    using scaled_at_spaced [of r rounds times0] assms by (auto simp: autoscaling_valid_def in_range_def)
next
  fix ob now stamps d stamps'
  assume "reconcileResource r ob now stamps = (Inr (Some d), stamps')"
    and range: "as_minReplicas (ar_config r) \<le> ad_currentReplicas d" "ad_currentReplicas d \<le> as_maxReplicas (ar_config r)"
  then have "ad_desiredReplicas d = desired_replicas (ar_config r) (ad_currentReplicas d) (observed ob)"
    using reconcile_decision by blast
  with desired_step [OF assms range, of "observed ob"]
  show "as_minReplicas (ar_config r) \<le> ad_desiredReplicas d" "ad_desiredReplicas d \<le> as_maxReplicas (ar_config r)"
    "ad_currentReplicas d < ad_desiredReplicas d \<Longrightarrow> scaleUp (ar_config r) (observed ob)"
    "ad_desiredReplicas d < ad_currentReplicas d \<Longrightarrow> scaleDown (ar_config r) (observed ob)"
    "ad_currentReplicas d < ad_desiredReplicas d \<Longrightarrow>
       ad_desiredReplicas d \<le> ad_currentReplicas d + as_scaleUpStep (ar_config r)"
    "ad_desiredReplicas d < ad_currentReplicas d \<Longrightarrow>
       ad_currentReplicas d - as_scaleDownStep (ar_config r) \<le> ad_desiredReplicas d"
    by simp_all
qed

text \<open>
  Overload can shrink a service: when a target is exceeded while more replicas run than the
  configured maximum, the decision is to reduce them to the maximum at once, whatever the step.
\<close>

theorem overload_above_maximum_scales_down:
  assumes "scaleUp c metrics" "as_maxReplicas c < current" "1 \<le> as_scaleUpStep c"
  shows "desired_replicas c current metrics = as_maxReplicas c \<and> desired_replicas c current metrics < current"
  using assms by (simp add: desired_replicas_def)

text \<open>
  Blindness shrinks a service: when no target of the configuration was measured, the
  replicas go down to the minimum.
\<close>

theorem unmeasured_scales_down:
  assumes "cpu_of metrics = None" "memory_of metrics = None" "requests_of metrics = None" "custom_of c metrics = None"
    and "as_minReplicas c < current" "1 \<le> as_scaleDownStep c"
  shows "desired_replicas c current metrics = max (as_minReplicas c) (current - as_scaleDownStep c) \<and>
    desired_replicas c current metrics < current"
  using assms
  by (auto simp: desired_replicas_def scaleUp_def scaleDown_def exceeds_def well_below_def split: option.splits)

section \<open>One service\<close>

definition sample_config :: autoscaling_config where
  "sample_config =
     \<lparr>as_enabled = True, as_minReplicas = 1, as_maxReplicas = 4, as_targetCpuPercent = Some 50,
      as_targetMemoryPercent = None, as_targetRequestsPerSecond = None, as_customMetric = None,
      as_customMetricTarget = None, as_scaleUpStep = 2, as_scaleDownStep = 1, as_cooldownSeconds = 60\<rparr>"

definition busy :: observation where
  "busy = \<lparr>ob_containers = Inr 3, ob_agent = Inr [MObj [(''CPU'', MNum 90)]], ob_traffic = None, ob_scaled = Inr ()\<rparr>"

theorem autoscaling_bounded_witness:
  "\<exists>d stamps'. reconcileResource \<lparr>ar_id = ''r'', ar_type = ''application'', ar_config = sample_config\<rparr> busy 0 Map.empty =
     (Inr (Some d), stamps') \<and> ad_desiredReplicas d = 4 \<and> ad_desiredReplicas d \<le> as_maxReplicas sample_config"
proof -
  let ?r = "\<lparr>ar_id = ''r'', ar_type = ''application'', ar_config = sample_config\<rparr>"
  have v: "autoscaling_valid (ar_config ?r)"
    by (simp add: sample_config_def autoscaling_valid_def in_range_def optionally_def)
  have m: "numberAt (MObj [(''CPU'', MNum 90)]) ''CPU'' = Some 90" "numberAt (MObj [(''CPU'', MNum 90)]) ''cpu'' = None"
    by (simp_all add: numberAt_def)
  have step: "reconcileResource ?r busy 0 Map.empty =
      (Inr (Some \<lparr>ad_resourceId = ''r'', ad_currentReplicas = 3, ad_desiredReplicas = 4\<rparr>), Map.empty(''r'' \<mapsto> 0))"
    by (simp add: reconcileResource_def busy_def sample_config_def reconcileWithMetrics_def desired_replicas_def
        scaleUp_def exceeds_def cpu_of_def average_def m Let_def)
  from autoscaling_bounded [OF v] step have "(4 :: int) \<le> as_maxReplicas (ar_config ?r)"
    by (auto simp: sample_config_def)
  with step show ?thesis by auto
qed

theorem overload_above_maximum_scales_down_witness:
  "desired_replicas sample_config 9 [MObj [(''CPU'', MNum 90)]] = 4"
proof -
  have "numberAt (MObj [(''CPU'', MNum 90)]) ''CPU'' = Some 90" "numberAt (MObj [(''CPU'', MNum 90)]) ''cpu'' = None"
    by (simp_all add: numberAt_def)
  then have "scaleUp sample_config [MObj [(''CPU'', MNum 90)]]"
    by (simp add: scaleUp_def exceeds_def cpu_of_def average_def sample_config_def)
  from overload_above_maximum_scales_down [OF this, of 9] show ?thesis by (simp add: sample_config_def)
qed

theorem unmeasured_scales_down_witness: "desired_replicas sample_config 3 [MOther] = 2"
proof -
  have n: "numberAt MOther p = None" for p
    by (cases "split_on CHR ''.'' p") (simp_all add: numberAt_def)
  have "cpu_of [MOther] = None" "memory_of [MOther] = None" "requests_of [MOther] = None" "custom_of sample_config [MOther] = None"
    by (simp_all add: cpu_of_def memory_of_def requests_of_def custom_of_def average_def n sample_config_def)
  from unmeasured_scales_down [OF this, of 3] show ?thesis by (simp add: sample_config_def)
qed

end
