(* ===== verification/Environment_Variables.thy ===== *)
theory Environment_Variables
  imports Deployment_Intake
begin

text \<open>
  Environment variables: \<open>usecases/src/resource/resource-environment.ts\<close>,
  \<open>usecases/src/resource/application-build-secrets.ts\<close>,
  \<open>usecases/src/resource/database-environment.ts\<close> and the inheritance of environments in
  \<open>repositories/src/environment/drizzle-environment.repository.ts\<close>. A record of variables is
  the list of its entries in insertion order. \<open>JSON.stringify\<close>, the authenticated
  encryption and base64 are parameters; the initialization vector of an encryption is part of
  the parameter, so one model of it stands for one call. A regular expression that is applied
  everywhere is a matcher that yields its captures and the length of the match.
\<close>

section \<open>Records\<close>

type_synonym variables = "(string \<times> string) list"

text \<open>\<open>o[k] = v\<close> keeps the place of a key the object has.\<close>

fun obj_set :: "string \<Rightarrow> 'v \<Rightarrow> (string \<times> 'v) list \<Rightarrow> (string \<times> 'v) list" where
  "obj_set k v [] = [(k, v)]"
| "obj_set k v ((k', v') # o') = (if k' = k then (k, v) # o' else (k', v') # obj_set k v o')"

text \<open>\<open>Object.assign(a, b)\<close> and the spread \<open>{...a, ...b}\<close>.\<close>

definition obj_assign :: "(string \<times> 'v) list \<Rightarrow> (string \<times> 'v) list \<Rightarrow> (string \<times> 'v) list" where
  "obj_assign a b = fold (\<lambda>(k, v) o'. obj_set k v o') b a"

definition js_strings :: "variables \<Rightarrow> (string \<times> jsval) list" where
  "js_strings vs = map (\<lambda>(k, v). (k, JStr v)) vs"

lemma map_of_obj_set [simp]: "map_of (obj_set k v o') = (map_of o')(k \<mapsto> v)"
  by (induction k v o' rule: obj_set.induct) auto

lemma map_of_obj_assign: "map_of (obj_assign a b) k = (case map_of (rev b) k of Some v \<Rightarrow> Some v | None \<Rightarrow> map_of a k)"
proof (induction b arbitrary: a)
  case (Cons x b)
  obtain k' v where x: "x = (k', v)" by (cases x)
  have "map_of (obj_assign a (x # b)) k = map_of (obj_assign (obj_set k' v a) b) k"
    by (simp add: obj_assign_def x)
  also have "\<dots> = (case map_of (rev b) k of Some v \<Rightarrow> Some v | None \<Rightarrow> map_of (obj_set k' v a) k)"
    by (rule Cons.IH)
  finally show ?case by (simp add: x map_add_def split: option.split)
qed (simp add: obj_assign_def)

lemma map_of_obj_assign_distinct:
  "distinct (map fst b) \<Longrightarrow> map_of (obj_assign a b) k = (case map_of b k of Some v \<Rightarrow> Some v | None \<Rightarrow> map_of a k)"
proof -
  assume "distinct (map fst b)"
  then have "map_of (rev b) = map_of b" by (intro map_of_inject_set [THEN iffD2]) (simp_all add: rev_map [symmetric])
  then show ?thesis by (simp add: map_of_obj_assign)
qed

lemma obj_assign_Nil [simp]: "obj_assign a [] = a"
  by (simp add: obj_assign_def)

lemma keys_obj_set: "fst ` set (obj_set k v o') = insert k (fst ` set o')"
  by (induction k v o' rule: obj_set.induct) auto

lemma distinct_obj_set: "distinct (map fst o') \<Longrightarrow> distinct (map fst (obj_set k v o'))"
proof (induction k v o' rule: obj_set.induct)
  case (2 k v k' v' o')
  have "k' \<notin> fst ` set (obj_set k v o')" if "k' \<noteq> k"
    using that 2(2) by (simp add: keys_obj_set)
  with 2 show ?case by auto
qed simp

lemma distinct_obj_assign: "distinct (map fst a) \<Longrightarrow> distinct (map fst (obj_assign a b))"
  unfolding obj_assign_def by (induction b arbitrary: a) (auto simp: distinct_obj_set)

lemma obj_set_absent: "k \<notin> fst ` set o' \<Longrightarrow> obj_set k v o' = o' @ [(k, v)]"
  by (induction k v o' rule: obj_set.induct) auto

lemma obj_assign_append:
  "distinct (map fst (a @ b)) \<Longrightarrow> obj_assign a b = a @ b"
proof (induction b arbitrary: a)
  case (Cons x b)
  obtain k v where x: "x = (k, v)" by (cases x)
  from Cons.prems have "obj_set k v a = a @ [(k, v)]" by (intro obj_set_absent) (auto simp: x simp flip: set_map)
  moreover have "obj_assign (a @ [(k, v)]) b = (a @ [(k, v)]) @ b"
    using Cons.prems by (intro Cons.IH) (simp add: x)
  ultimately show ?case by (simp add: obj_assign_def x)
qed simp

section \<open>Stored documents\<close>

record codec = surroundings +
  cx_stringify :: "jsval \<Rightarrow> string"
  cx_encrypt :: "string \<Rightarrow> (string \<times> jsval) list"
  cx_base64 :: "string \<Rightarrow> string"

definition variable_name :: "string \<Rightarrow> bool" where
  "variable_name k \<longleftrightarrow> k \<noteq> [] \<and> list_all is_word k \<and> \<not> is_digit (hd k)"

definition ResourceEnvironmentVariableNameSchema :: "string \<Rightarrow> bool" where
  "ResourceEnvironmentVariableNameSchema k \<longleftrightarrow> len k \<le> 256 \<and> variable_name k"

text \<open>The entries when the document is valid.\<close>

definition ResourceEnvironmentVariablesSchema :: "jsval \<Rightarrow> variables option" where
  "ResourceEnvironmentVariablesSchema v =
     (case v of
        JObj kvs \<Rightarrow>
          if list_all (\<lambda>(k, x). ResourceEnvironmentVariableNameSchema k \<and>
               (case x of JStr s \<Rightarrow> len s \<le> 16384 | _ \<Rightarrow> False)) kvs
          then Some (map (\<lambda>(k, x). (k, case x of JStr s \<Rightarrow> s | _ \<Rightarrow> [])) kvs)
          else None
      | _ \<Rightarrow> None)"

definition valid_variables :: "variables \<Rightarrow> bool" where
  "valid_variables vs \<longleftrightarrow> list_all (\<lambda>(k, s). ResourceEnvironmentVariableNameSchema k \<and> len s \<le> 16384) vs"

definition decrypt_document :: "'z codec_scheme \<Rightarrow> jsval \<Rightarrow> jsval option" where
  "decrypt_document cx parsed =
     (case parsed of
        JObj payload \<Rightarrow> (case en_decrypt cx payload of Some text \<Rightarrow> en_json cx text | None \<Rightarrow> None)
      | _ \<Rightarrow> None)"

text \<open>Every exception inside is caught and gives the empty record.\<close>

definition parseResourceEnvironmentVariables :: "'z codec_scheme \<Rightarrow> string option \<Rightarrow> variables" where
  "parseResourceEnvironmentVariables cx v =
     (case v of
        None \<Rightarrow> []
      | Some s \<Rightarrow>
          if s = [] then []
          else case en_json cx s of
              None \<Rightarrow> []
            | Some parsed \<Rightarrow>
                if isEncryptedPayload parsed then
                  (case decrypt_document cx parsed of
                     None \<Rightarrow> []
                   | Some d \<Rightarrow> (case ResourceEnvironmentVariablesSchema d of Some vs \<Rightarrow> vs | None \<Rightarrow> []))
                else [])"

definition encrypt_variables :: "'z codec_scheme \<Rightarrow> jsval \<Rightarrow> string + string" where
  "encrypt_variables cx d =
     (case ResourceEnvironmentVariablesSchema d of
        None \<Rightarrow> Inl ''Invalid environment variables''
      | Some vs \<Rightarrow> Inr (cx_stringify cx (JObj (cx_encrypt cx (cx_stringify cx (JObj (js_strings vs)))))))"

text \<open>\<open>serializeResourceEnvironmentVariables\<close> of a string, and of a record.\<close>

definition serialize_text :: "'z codec_scheme \<Rightarrow> string \<Rightarrow> string + string" where
  "serialize_text cx s =
     (if trim s = [] then encrypt_variables cx (JObj [])
      else case en_json cx s of
          None \<Rightarrow> Inl ''Environment variables must be valid JSON''
        | Some parsed \<Rightarrow> if isEncryptedPayload parsed then Inr s else encrypt_variables cx parsed)"

definition serializeResourceEnvironmentVariables :: "'z codec_scheme \<Rightarrow> variables \<Rightarrow> string + string" where
  "serializeResourceEnvironmentVariables cx vs = encrypt_variables cx (JObj (js_strings vs))"

definition getApplicationBuildSecrets :: "'z codec_scheme \<Rightarrow> string option \<Rightarrow> string + variables" where
  "getApplicationBuildSecrets cx buildSecrets =
     (case buildSecrets of
        None \<Rightarrow> Inr []
      | Some s \<Rightarrow>
          if s = [] then Inr []
          else
            let invalid = ''Stored application build secrets are invalid'';
                document = (case en_json cx s of
                    None \<Rightarrow> None
                  | Some JUndefined \<Rightarrow> None
                  | Some JNull \<Rightarrow> None
                  | Some (JObj payload) \<Rightarrow>
                      if is_string (get_prop payload ''ciphertext'') \<and> is_string (get_prop payload ''iv'') \<and>
                         is_string (get_prop payload ''authTag'')
                      then (case en_decrypt cx payload of Some text \<Rightarrow> en_json cx text | None \<Rightarrow> None)
                      else Some (JObj payload)
                  | Some other \<Rightarrow> Some other)
            in case document of
                 None \<Rightarrow> Inl invalid
               | Some d \<Rightarrow>
                   if \<not> is_record d then Inl ''Stored application build secrets must be an object''
                   else case ResourceEnvironmentVariablesSchema d of Some vs \<Rightarrow> Inr vs | None \<Rightarrow> Inl invalid)"

section \<open>Matching everywhere\<close>

type_synonym 'a matcher = "string \<Rightarrow> ('a \<times> nat) option"

text \<open>\<open>value.replace(pattern, f)\<close> and \<open>value.matchAll(pattern)\<close> for a global pattern.\<close>

fun replace_all :: "'a matcher \<Rightarrow> ('a \<Rightarrow> string) \<Rightarrow> string \<Rightarrow> string" where
  "replace_all m f [] = []"
| "replace_all m f (c # cs) =
     (case m (c # cs) of
        Some (captures, n) \<Rightarrow> f captures @ replace_all m f (drop (n - 1) cs)
      | None \<Rightarrow> c # replace_all m f cs)"

fun match_all :: "'a matcher \<Rightarrow> string \<Rightarrow> 'a list" where
  "match_all m [] = []"
| "match_all m (c # cs) =
     (case m (c # cs) of
        Some (captures, n) \<Rightarrow> captures # match_all m (drop (n - 1) cs)
      | None \<Rightarrow> match_all m cs)"

definition strip :: "string \<Rightarrow> string \<Rightarrow> string option" where
  "strip p s = (if starts_with p s then Some (drop (length p) s) else None)"

lemma strip_Some [simp]: "strip p s = Some t \<longleftrightarrow> s = p @ t"
  by (auto simp: strip_def starts_with_iff)

lemma replace_all_no_match: "match_all m s = [] \<Longrightarrow> replace_all m f s = s"
  by (induction m s rule: match_all.induct) (auto split: option.splits)

text \<open>Only the captures that occur matter.\<close>

lemma replace_all_cong:
  "(\<And>x. x \<in> set (match_all m s) \<Longrightarrow> f x = g x) \<Longrightarrow> replace_all m f s = replace_all m g s"
  by (induction m s rule: match_all.induct) (auto split: option.splits)

lemma replace_all_skip:
  "(\<And>a b. pre = a @ b \<Longrightarrow> b \<noteq> [] \<Longrightarrow> m (b @ s) = None) \<Longrightarrow> replace_all m f (pre @ s) = pre @ replace_all m f s"
proof (induction pre)
  case (Cons c pre)
  from Cons.prems [of "[]" "c # pre"] have "m (c # pre @ s) = None" by simp
  moreover have "replace_all m f (pre @ s) = pre @ replace_all m f s"
  proof (rule Cons.IH)
    fix a b
    assume "pre = a @ b" "b \<noteq> []"
    then show "m (b @ s) = None" using Cons.prems [of "c # a" b] by simp
  qed
  ultimately show ?case by simp
qed simp

section \<open>References to shared variables\<close>

definition scope_name :: "string \<Rightarrow> string option" where
  "scope_name s = (case strip ''project.'' s of Some t \<Rightarrow> Some t | None \<Rightarrow> strip ''env.'' s)"

definition PROJECT_VAR_PATTERN :: "string matcher" where
  "PROJECT_VAR_PATTERN s =
     (case strip ''${{'' s of
        None \<Rightarrow> None
      | Some s1 \<Rightarrow>
          (case scope_name (dropWhile is_space s1) of
             None \<Rightarrow> None
           | Some s2 \<Rightarrow>
               let name = takeWhile is_word s2 in
               if \<not> variable_name name then None
               else case strip ''}}'' (dropWhile is_space (dropWhile is_word s2)) of
                   None \<Rightarrow> None
                 | Some rest \<Rightarrow> Some (name, length s - length rest)))"

definition value_or_empty :: "variables \<Rightarrow> string \<Rightarrow> string" where
  "value_or_empty vs k = (case map_of vs k of Some v \<Rightarrow> v | None \<Rightarrow> [])"

definition substituteProjectEnvVars :: "variables \<Rightarrow> variables \<Rightarrow> variables" where
  "substituteProjectEnvVars resourceEnvVars projectEnvVars =
     map (\<lambda>(k, v). (k, replace_all PROJECT_VAR_PATTERN (value_or_empty projectEnvVars) v)) resourceEnvVars"

definition resolveResourceEnvironmentVariables ::
  "'z codec_scheme \<Rightarrow> string option \<Rightarrow> string option \<Rightarrow> variables" where
  "resolveResourceEnvironmentVariables cx rawResourceEnvVars rawProjectEnvVars =
     substituteProjectEnvVars (parseResourceEnvironmentVariables cx rawResourceEnvVars)
       (parseResourceEnvironmentVariables cx rawProjectEnvVars)"

definition resolveResourceBuildEnvironmentVariables ::
  "'z codec_scheme \<Rightarrow> string option \<Rightarrow> string option \<Rightarrow> string option \<Rightarrow> variables" where
  "resolveResourceBuildEnvironmentVariables cx rawBuildEnvVars rawRuntimeEnvVars rawProjectEnvVars =
     obj_assign (resolveResourceEnvironmentVariables cx rawRuntimeEnvVars rawProjectEnvVars)
       (resolveResourceEnvironmentVariables cx rawBuildEnvVars rawProjectEnvVars)"

section \<open>Databases\<close>

definition credential :: "(string \<times> jsval) list \<Rightarrow> string \<Rightarrow> string option" where
  "credential cs k = (case get_prop cs k of JStr s \<Rightarrow> if s = [] then None else Some s | _ \<Rightarrow> None)"

definition owned_variable :: "(string \<times> jsval) list \<Rightarrow> string \<times> string \<Rightarrow> variables" where
  "owned_variable cs = (\<lambda>(name, field). case credential cs field of Some v \<Rightarrow> [(name, v)] | None \<Rightarrow> [])"

definition getManagedDatabaseEnvironment ::
  "'z codec_scheme \<Rightarrow> string option \<Rightarrow> string option \<Rightarrow> variables" where
  "getManagedDatabaseEnvironment cx resource_credentials resource_dbType =
     (let cs = parseResourceCredentials cx resource_credentials;
          dbType = (case resource_dbType of Some t \<Rightarrow> toLowerCase t | None \<Rightarrow> []);
          from = (\<lambda>fields. concat (map (owned_variable cs) fields))
      in if dbType = ''postgres''
         then from [(''POSTGRES_USER'', ''dbUser''), (''POSTGRES_PASSWORD'', ''dbPassword''), (''POSTGRES_DB'', ''dbName'')]
         else if dbType = ''mysql'' \<or> dbType = ''mariadb''
         then from [(''MYSQL_ROOT_PASSWORD'', ''dbRootPassword''), (''MYSQL_USER'', ''dbUser''),
                    (''MYSQL_PASSWORD'', ''dbPassword''), (''MYSQL_DATABASE'', ''dbName'')]
         else if dbType = ''mongodb''
         then from [(''MONGO_INITDB_ROOT_USERNAME'', ''dbUser''), (''MONGO_INITDB_ROOT_PASSWORD'', ''dbPassword'')]
         else if dbType = ''redis'' then from [(''REDIS_PASSWORD'', ''dbPassword'')]
         else if dbType = ''libsql''
         then (case (credential cs ''dbUser'', credential cs ''dbPassword'') of
                 (Some user, Some password) \<Rightarrow> [(''SQLD_HTTP_AUTH'', ''basic:'' @ cx_base64 cx (user @ '':'' @ password))]
               | _ \<Rightarrow> [])
         else [])"

definition getDatabaseEnvironment ::
  "'z codec_scheme \<Rightarrow> string option \<Rightarrow> string option \<Rightarrow> string option \<Rightarrow> variables" where
  "getDatabaseEnvironment cx resource_credentials resource_dbType resource_envVars =
     obj_assign (getManagedDatabaseEnvironment cx resource_credentials resource_dbType)
       (parseResourceEnvironmentVariables cx resource_envVars)"

section \<open>Inheritance\<close>

record environment =
  ev_id :: string
  ev_projectId :: string
  ev_parentEnvironmentId :: "string option"
  ev_inheritsVariables :: bool
  ev_name :: string
  ev_slug :: string
  ev_description :: "string option"
  ev_isDefault :: bool
  ev_isProtected :: bool
  ev_resourceCount :: int
  ev_envVars :: "string option"

definition unseen :: "environment list \<Rightarrow> string list \<Rightarrow> nat" where
  "unseen tbl seen = card (ev_id ` set tbl - set seen)"

function ancestors_loop :: "environment list \<Rightarrow> string list \<Rightarrow> string option \<Rightarrow> environment list" where
  "ancestors_loop tbl seen currentId =
     (case currentId of
        None \<Rightarrow> []
      | Some i \<Rightarrow>
          if i = [] \<or> i \<in> set seen then []
          else case findById ev_id i tbl of
              None \<Rightarrow> []
            | Some current \<Rightarrow> current # ancestors_loop tbl (i # seen) (ev_parentEnvironmentId current))"
  by pat_completeness auto
termination
proof (relation "measure (\<lambda>(tbl, seen, _). unseen tbl seen)")
  fix tbl :: "environment list" and seen currentId i current
  assume "\<not> (i = [] \<or> i \<in> set seen)" "findById ev_id i tbl = Some current"
  then have "i \<in> ev_id ` set tbl - set seen" by (auto dest: findById_key)
  then have "ev_id ` set tbl - set (i # seen) \<subset> ev_id ` set tbl - set seen" by auto
  then show "((tbl, i # seen, ev_parentEnvironmentId current), (tbl, seen, currentId)) \<in>
      measure (\<lambda>(tbl, seen, _). unseen tbl seen)"
    by (simp add: unseen_def psubset_card_mono)
qed simp

declare ancestors_loop.simps [simp del]

definition findAncestors :: "environment list \<Rightarrow> string \<Rightarrow> environment list" where
  "findAncestors tbl i = ancestors_loop tbl [] (Some i)"

fun inherit_loop ::
  "'z codec_scheme \<Rightarrow> string \<Rightarrow> bool \<Rightarrow> variables \<Rightarrow> environment list \<Rightarrow> variables" where
  "inherit_loop cx environmentId includeParent resolved [] = resolved"
| "inherit_loop cx environmentId includeParent resolved (e # chain) =
     (if \<not> includeParent \<and> ev_id e \<noteq> environmentId then resolved
      else inherit_loop cx environmentId (ev_inheritsVariables e)
             (obj_assign resolved (parseResourceEnvironmentVariables cx (ev_envVars e))) chain)"

definition resolveEnvironmentVariables :: "'z codec_scheme \<Rightarrow> environment list \<Rightarrow> string \<Rightarrow> variables" where
  "resolveEnvironmentVariables cx tbl environmentId =
     inherit_loop cx environmentId True [] (findAncestors tbl environmentId)"

end
