(* ===== verification/Secret_Store.thy ===== *)
theory Secret_Store
  imports Environment_Variables
begin

text \<open>
  Environments, resources and the history of their secrets:
  \<open>repositories/src/environment/drizzle-environment.repository.ts\<close>,
  \<open>repositories/src/resource/drizzle-resource.repository.ts\<close> (the secrets of a resource),
  \<open>repositories/src/secret\<close>,
  \<open>usecases/src/environment/update-environment.usecase.ts\<close> and
  \<open>usecases/src/secrets/secret-version.usecases.ts\<close>. A resource has the row of its secrets
  from its creation on; an environment gets one with its first variables. Every write of
  secrets appends a version; the write and the version are one step here, as when the versions
  of a scope were all issued by its writes, so that the insert of the version cannot fail. The requests the use cases hand to \<open>QueueDeploymentUseCase\<close> are
  recorded in order; which of them that use case refuses, and with which error, is a parameter.
  Random values and identifiers are arguments.
\<close>

section \<open>Tables\<close>

record resource = resource_record +
  rs_appName :: "string option"
  rs_description :: "string option"
  rs_dbType :: "string option"
  rs_composeType :: "string option"
  rs_buildRegistryId :: "string option"
  rs_rollbackActive :: bool
  rs_rollbackRegistryId :: "string option"
  rs_triggerType :: string
  rs_tagPattern :: "string option"
  rs_watchPaths :: string
  rs_buildConfig :: string
  rs_buildSecrets :: "string option"
  rs_buildEnvVars :: "string option"
  rs_envVars :: string
  rs_domains :: string
  rs_isPreviewDeploymentsActive :: bool
  rs_previewLimit :: int
  rs_previewWildcard :: "string option"
  rs_previewHttps :: bool
  rs_previewPort :: int
  rs_cronJobsEnabled :: bool
  rs_secretVersion :: int

datatype secret_scope_type = EnvironmentScope | ResourceScope

record secret_version =
  hv_scopeType :: secret_scope_type
  hv_scopeId :: string
  hv_version :: int
  hv_credentials :: "string option"
  hv_buildSecrets :: "string option"
  hv_buildEnvVars :: "string option"
  hv_envVars :: string

record rotation_schedule =
  ro_id :: string
  ro_organizationId :: string
  ro_scopeType :: secret_scope_type
  ro_scopeId :: string
  ro_keys :: "string list"
  ro_intervalHours :: int
  ro_valueLength :: int
  ro_enabled :: bool
  ro_lastRotatedAt :: "int option"
  ro_rotationClaimedUntil :: "int option"
  ro_createdAt :: int

text \<open>\<open>es_secretVersions\<close> gives the version of the secrets of an environment that has some.\<close>

record secret_store =
  es_projects :: "project_record list"
  es_environments :: "environment list"
  es_secretVersions :: "(string \<times> int) list"
  es_resources :: "resource list"
  es_history :: "secret_version list"
  es_schedules :: "rotation_schedule list"
  es_queued :: "(string \<times> string) list"

section \<open>Versions\<close>

definition getEncryptedPayload :: "'z codec_scheme \<Rightarrow> string \<Rightarrow> (string \<times> jsval) list option" where
  "getEncryptedPayload cx v =
     (case en_json cx v of
        Some (JObj payload) \<Rightarrow> if isEncryptedPayload (JObj payload) then Some payload else None
      | _ \<Rightarrow> None)"

definition decodeSecret :: "'z codec_scheme \<Rightarrow> string option \<Rightarrow> string + string option" where
  "decodeSecret cx v =
     (case v of
        None \<Rightarrow> Inr None
      | Some s \<Rightarrow>
          if s = [] then Inr (Some [])
          else case getEncryptedPayload cx s of
              None \<Rightarrow> Inl ''Secret version payload is not encrypted''
            | Some payload \<Rightarrow>
                (case en_decrypt cx payload of
                   None \<Rightarrow> Inl ''Unable to decrypt secret''
                 | Some text \<Rightarrow> Inr (Some text)))"

definition encodeSecret :: "'z codec_scheme \<Rightarrow> string option \<Rightarrow> string option" where
  "encodeSecret cx v =
     (case v of
        None \<Rightarrow> None
      | Some s \<Rightarrow>
          if s = [] then Some []
          else if getEncryptedPayload cx s \<noteq> None then Some s
          else Some (cx_stringify cx (JObj (cx_encrypt cx s))))"

definition environment_organization :: "secret_store \<Rightarrow> string \<Rightarrow> string option" where
  "environment_organization st environmentId =
     (case findById ev_id environmentId (es_environments st) of
        None \<Rightarrow> None
      | Some e \<Rightarrow> map_option pj_organizationId (findById pj_id (ev_projectId e) (es_projects st)))"

text \<open>The joins of the version queries.\<close>

definition resolveOrganizationId :: "secret_store \<Rightarrow> secret_scope_type \<Rightarrow> string \<Rightarrow> string option" where
  "resolveOrganizationId st scopeType scopeId =
     (case scopeType of
        EnvironmentScope \<Rightarrow> environment_organization st scopeId
      | ResourceScope \<Rightarrow>
          (case findById rr_id scopeId (es_resources st) of
             None \<Rightarrow> None
           | Some r \<Rightarrow> environment_organization st (rr_environmentId r)))"

definition of_scope :: "secret_scope_type \<Rightarrow> string \<Rightarrow> secret_version \<Rightarrow> bool" where
  "of_scope scopeType scopeId h \<longleftrightarrow> hv_scopeType h = scopeType \<and> hv_scopeId h = scopeId"

text \<open>\<open>findByScope\<close>: the newest first; the metadata it selects determines the row.\<close>

definition findByScope ::
  "secret_store \<Rightarrow> secret_scope_type \<Rightarrow> string \<Rightarrow> string \<Rightarrow> string + secret_version list" where
  "findByScope st scopeType scopeId organizationId =
     (if resolveOrganizationId st scopeType scopeId \<noteq> Some organizationId then Inr []
      else let rows = take (nat (MAX_REPOSITORY_READS + 1))
                        (order_desc hv_version (filter (of_scope scopeType scopeId) (es_history st)))
           in if len rows > MAX_REPOSITORY_READS
              then Inl ''Secret version history exceeded the maximum supported row count''
              else Inr rows)"

definition decode_version :: "'z codec_scheme \<Rightarrow> secret_version \<Rightarrow> string + secret_version" where
  "decode_version cx h =
     (case decodeSecret cx (hv_credentials h) of
        Inl e \<Rightarrow> Inl e
      | Inr credentials \<Rightarrow>
          (case decodeSecret cx (hv_buildSecrets h) of
             Inl e \<Rightarrow> Inl e
           | Inr buildSecrets \<Rightarrow>
               (case decodeSecret cx (hv_buildEnvVars h) of
                  Inl e \<Rightarrow> Inl e
                | Inr buildEnvVars \<Rightarrow>
                    (case decodeSecret cx (Some (hv_envVars h)) of
                       Inl e \<Rightarrow> Inl e
                     | Inr envVars \<Rightarrow>
                         Inr (h\<lparr>hv_credentials := credentials, hv_buildSecrets := buildSecrets,
                                hv_buildEnvVars := buildEnvVars, hv_envVars := the envVars\<rparr>)))))"

definition findByScopeVersion ::
  "'z codec_scheme \<Rightarrow> secret_store \<Rightarrow> secret_scope_type \<Rightarrow> string \<Rightarrow> int \<Rightarrow> string \<Rightarrow> string + secret_version option" where
  "findByScopeVersion cx st scopeType scopeId version organizationId =
     (if resolveOrganizationId st scopeType scopeId \<noteq> Some organizationId then Inr None
      else case find (\<lambda>h. of_scope scopeType scopeId h \<and> hv_version h = version) (es_history st) of
          None \<Rightarrow> Inr None
        | Some h \<Rightarrow> map_sum id Some (decode_version cx h))"

definition append_version :: "'z codec_scheme \<Rightarrow> secret_version \<Rightarrow> secret_store \<Rightarrow> string + secret_store" where
  "append_version cx payload st =
     (if resolveOrganizationId st (hv_scopeType payload) (hv_scopeId payload) = None
      then Inl ''Secret scope not found''
      else if list_ex (\<lambda>h. of_scope (hv_scopeType payload) (hv_scopeId payload) h \<and>
                hv_version h = hv_version payload) (es_history st)
      then Inl ''duplicate key value violates unique constraint secret_version_scope_version_uidx''
      else Inr (st\<lparr>es_history := es_history st @
             [payload\<lparr>hv_credentials := encodeSecret cx (hv_credentials payload),
                      hv_buildSecrets := encodeSecret cx (hv_buildSecrets payload),
                      hv_buildEnvVars := encodeSecret cx (hv_buildEnvVars payload),
                      hv_envVars := the (encodeSecret cx (Some (hv_envVars payload)))\<rparr>]\<rparr>))"

section \<open>Writing secrets\<close>

definition environment_version :: "secret_store \<Rightarrow> string \<Rightarrow> int" where
  "environment_version st i = (case map_of (es_secretVersions st) i of Some n \<Rightarrow> n | None \<Rightarrow> 0)"

text \<open>
  \<open>updateEnvironment\<close> of the repository: \<open>f\<close> changes the columns of the row, and
  variables that are given become a new version.
\<close>

definition update_environment ::
  "'z codec_scheme \<Rightarrow> string \<Rightarrow> (environment \<Rightarrow> environment) \<Rightarrow> string option \<Rightarrow> secret_store \<Rightarrow>
   string + environment option \<times> secret_store" where
  "update_environment cx i f envVars st =
     (let st1 = st\<lparr>es_environments := snd (updateById ev_id i f (es_environments st))\<rparr> in
      case envVars of
        None \<Rightarrow> Inr (findById ev_id i (es_environments st1), st1)
      | Some v \<Rightarrow>
          if findById ev_id i (es_environments st1) = None
          then Inl ''insert or update on table environment_secret violates foreign key constraint''
          else
            let nextVersion = environment_version st1 i + 1;
                st2 = st1\<lparr>es_environments :=
                         snd (updateById ev_id i (\<lambda>e. e\<lparr>ev_envVars := Some v\<rparr>) (es_environments st1)),
                       es_secretVersions := obj_set i nextVersion (es_secretVersions st1)\<rparr>
            in map_sum id (\<lambda>st3. (findById ev_id i (es_environments st3), st3))
                 (append_version cx \<lparr>hv_scopeType = EnvironmentScope, hv_scopeId = i, hv_version = nextVersion,
                    hv_credentials = None, hv_buildSecrets = None, hv_buildEnvVars = None, hv_envVars = v\<rparr> st2))"

record secret_patch =
  sp_credentials :: "string option option"
  sp_buildSecrets :: "string option option"
  sp_buildEnvVars :: "string option option"
  sp_envVars :: "string option"

definition no_secret_patch :: secret_patch where
  "no_secret_patch = \<lparr>sp_credentials = None, sp_buildSecrets = None, sp_buildEnvVars = None, sp_envVars = None\<rparr>"

definition patch_secret_columns :: "secret_patch \<Rightarrow> resource \<Rightarrow> resource" where
  "patch_secret_columns p r =
     r\<lparr>rr_credentials := given (sp_credentials p) (rr_credentials r),
       rs_buildSecrets := given (sp_buildSecrets p) (rs_buildSecrets r),
       rs_buildEnvVars := given (sp_buildEnvVars p) (rs_buildEnvVars r),
       rs_envVars := given (sp_envVars p) (rs_envVars r),
       rs_secretVersion := rs_secretVersion r + 1\<rparr>"

definition resource_version :: "resource \<Rightarrow> secret_version" where
  "resource_version r =
     \<lparr>hv_scopeType = ResourceScope, hv_scopeId = rr_id r, hv_version = rs_secretVersion r,
      hv_credentials = rr_credentials r, hv_buildSecrets = rs_buildSecrets r,
      hv_buildEnvVars = rs_buildEnvVars r, hv_envVars = rs_envVars r\<rparr>"

definition patchSecrets :: "'z codec_scheme \<Rightarrow> string \<Rightarrow> secret_patch \<Rightarrow> secret_store \<Rightarrow> string + secret_store" where
  "patchSecrets cx i p st =
     (case updateById rr_id i (patch_secret_columns p) (es_resources st) of
        (None, _) \<Rightarrow> Inl ''insert or update on table resource_secret violates foreign key constraint''
      | (Some updated, rows) \<Rightarrow> append_version cx (resource_version updated) (st\<lparr>es_resources := rows\<rparr>))"

text \<open>\<open>updateById\<close> of the resource repository: \<open>f\<close> changes the other columns.\<close>

definition update_resource ::
  "'z codec_scheme \<Rightarrow> string \<Rightarrow> (resource \<Rightarrow> resource) \<Rightarrow> secret_patch \<Rightarrow> secret_store \<Rightarrow>
   string + resource option \<times> secret_store" where
  "update_resource cx i f p st =
     (let st1 = st\<lparr>es_resources := snd (updateById rr_id i f (es_resources st))\<rparr> in
      case (if p = no_secret_patch then Inr st1 else patchSecrets cx i p st1) of
        Inl e \<Rightarrow> Inl e
      | Inr st2 \<Rightarrow> Inr (findById rr_id i (es_resources st2), st2))"

section \<open>Updating an environment\<close>

record update_environment_input =
  ue_id :: string
  ue_organizationId :: "string option"
  ue_name :: "string option"
  ue_description :: "string option option"
  ue_parentEnvironmentId :: "string option option"
  ue_inheritsVariables :: "bool option"
  ue_envVars :: "variables option"

text \<open>The checks on a new parent.\<close>

definition parent_guards :: "environment list \<Rightarrow> environment \<Rightarrow> update_environment_input \<Rightarrow> string + unit" where
  "parent_guards tbl existing input =
     (case ue_parentEnvironmentId input of
        None \<Rightarrow> Inr ()
      | Some p \<Rightarrow>
          checks
           [throw_if (p = Some (ue_id input)) ''An environment cannot inherit from itself.'',
            (case p of
               Some i \<Rightarrow>
                 throw_if (i \<noteq> [] \<and> (case findById ev_id i tbl of
                      None \<Rightarrow> True | Some parent \<Rightarrow> ev_projectId parent \<noteq> ev_projectId existing))
                   ''Parent environment must belong to the same project.''
             | None \<Rightarrow> Inr ()),
            throw_if (case p of
                Some i \<Rightarrow> i \<noteq> [] \<and> list_ex (\<lambda>e. ev_id e = ue_id input) (findAncestors tbl i)
              | None \<Rightarrow> False)
              ''Environment inheritance cannot contain a cycle.''])"

definition patch_environment :: "update_environment_input \<Rightarrow> environment \<Rightarrow> environment" where
  "patch_environment input e =
     e\<lparr>ev_name := given (ue_name input) (ev_name e),
       ev_description := given (ue_description input) (ev_description e),
       ev_parentEnvironmentId := given (ue_parentEnvironmentId input) (ev_parentEnvironmentId e),
       ev_inheritsVariables := given (ue_inheritsVariables input) (ev_inheritsVariables e)\<rparr>"

definition updateEnvironment ::
  "'z codec_scheme \<Rightarrow> update_environment_input \<Rightarrow> secret_store \<Rightarrow> string + environment \<times> secret_store" where
  "updateEnvironment cx input st =
     (case findById ev_id (ue_id input) (es_environments st) of
        None \<Rightarrow> Inl ''Environment not found.''
      | Some existing \<Rightarrow>
          (case findById pj_id (ev_projectId existing) (es_projects st) of
             None \<Rightarrow> Inl ''Environment not found.''
           | Some project \<Rightarrow>
               if \<not> given_string (ue_organizationId input) \<or> ue_organizationId input \<noteq> Some (pj_organizationId project)
               then Inl ''Environment not found.''
               else case parent_guards (es_environments st) existing input of
                   Inl e \<Rightarrow> Inl e
                 | Inr _ \<Rightarrow>
                     (case (case ue_envVars input of
                              None \<Rightarrow> Inr None
                            | Some vs \<Rightarrow> map_sum id Some (serializeResourceEnvironmentVariables cx vs)) of
                        Inl e \<Rightarrow> Inl e
                      | Inr envVars \<Rightarrow>
                          (case update_environment cx (ue_id input) (patch_environment input) envVars st of
                             Inl e \<Rightarrow> Inl e
                           | Inr (None, _) \<Rightarrow> Inl ''Environment not found after update.''
                           | Inr (Some updated, st') \<Rightarrow> Inr (updated, st')))))"

section \<open>Use cases on secrets\<close>

text \<open>
  \<open>refused\<close> gives the error with which the queueing use case refuses the deployment of a
  resource; the calls before the first refusal stay.
\<close>

fun queue_each :: "(string \<Rightarrow> string option) \<Rightarrow> string \<Rightarrow> string list \<Rightarrow> secret_store \<Rightarrow> (string + unit) \<times> secret_store" where
  "queue_each refused title [] st = (Inr (), st)"
| "queue_each refused title (i # is) st =
     (case refused i of
        Some e \<Rightarrow> (Inl e, st)
      | None \<Rightarrow> queue_each refused title is (st\<lparr>es_queued := es_queued st @ [(i, title)]\<rparr>))"

definition enqueueSecretScopeDeployments ::
  "(string \<Rightarrow> string option) \<Rightarrow> secret_scope_type \<Rightarrow> string \<Rightarrow> string \<Rightarrow> secret_store \<Rightarrow> (string + unit) \<times> secret_store" where
  "enqueueSecretScopeDeployments refused scopeType scopeId title st =
     queue_each refused title
       (case scopeType of
          ResourceScope \<Rightarrow> [scopeId]
        | EnvironmentScope \<Rightarrow> map rr_id (filter (\<lambda>r. rr_environmentId r = scopeId) (es_resources st))) st"

definition restoreSecretVersion ::
  "'z codec_scheme \<Rightarrow> (string \<Rightarrow> string option) \<Rightarrow> secret_scope_type \<Rightarrow> string \<Rightarrow> int \<Rightarrow> string \<Rightarrow> secret_store \<Rightarrow>
   (string + unit) \<times> secret_store" where
  "restoreSecretVersion cx refused scopeType scopeId version organizationId st =
     (case findByScopeVersion cx st scopeType scopeId version organizationId of
        Inl e \<Rightarrow> (Inl e, st)
      | Inr None \<Rightarrow> (Inl ''Secret version not found'', st)
      | Inr (Some payload) \<Rightarrow>
          (case (case scopeType of
                   EnvironmentScope \<Rightarrow> map_sum id snd (update_environment cx scopeId id (Some (hv_envVars payload)) st)
                 | ResourceScope \<Rightarrow>
                     (case update_resource cx scopeId id
                             \<lparr>sp_credentials = Some (hv_credentials payload),
                              sp_buildSecrets = Some (hv_buildSecrets payload),
                              sp_buildEnvVars = Some (hv_buildEnvVars payload),
                              sp_envVars = Some (hv_envVars payload)\<rparr> st of
                        Inl e \<Rightarrow> Inl e
                      | Inr (None, _) \<Rightarrow> Inl ''Resource not found''
                      | Inr (Some _, st1) \<Rightarrow> Inr st1)) of
             Inl e \<Rightarrow> (Inl e, st)
           | Inr st1 \<Rightarrow> enqueueSecretScopeDeployments refused scopeType scopeId ''Restore secret version'' st1))"

text \<open>The stored variables of a scope, and writing them.\<close>

definition scope_variables :: "secret_store \<Rightarrow> secret_scope_type \<Rightarrow> string \<Rightarrow> string option option" where
  "scope_variables st scopeType scopeId =
     (case scopeType of
        EnvironmentScope \<Rightarrow> map_option ev_envVars (findById ev_id scopeId (es_environments st))
      | ResourceScope \<Rightarrow> map_option (\<lambda>r. Some (rs_envVars r)) (findById rr_id scopeId (es_resources st)))"

definition write_variables ::
  "'z codec_scheme \<Rightarrow> secret_scope_type \<Rightarrow> string \<Rightarrow> string \<Rightarrow> secret_store \<Rightarrow> string + secret_store" where
  "write_variables cx scopeType scopeId envVars st =
     (case scopeType of
        EnvironmentScope \<Rightarrow> map_sum id snd (update_environment cx scopeId id (Some envVars) st)
      | ResourceScope \<Rightarrow> map_sum id snd (update_resource cx scopeId id (no_secret_patch\<lparr>sp_envVars := Some envVars\<rparr>) st))"

text \<open>The random text of a key, of at least the given length, cut to it.\<close>

definition rotated_values :: "(string \<Rightarrow> string) \<Rightarrow> string list \<Rightarrow> nat \<Rightarrow> variables" where
  "rotated_values random keys n = map (\<lambda>k. (k, take n (random k))) keys"

definition rotateSecretScope ::
  "'z codec_scheme \<Rightarrow> (string \<Rightarrow> string) \<Rightarrow> secret_scope_type \<Rightarrow> string \<Rightarrow> string list \<Rightarrow> nat \<Rightarrow> secret_store \<Rightarrow>
   string + variables \<times> secret_store" where
  "rotateSecretScope cx random scopeType scopeId keys n st =
     (case scope_variables st scopeType scopeId of
        None \<Rightarrow> Inl ''Secret scope not found''
      | Some stored \<Rightarrow>
          let rotated = rotated_values random keys n;
              values = obj_assign (parseResourceEnvironmentVariables cx stored) rotated
          in case serializeResourceEnvironmentVariables cx values of
               Inl e \<Rightarrow> Inl e
             | Inr envVars \<Rightarrow> map_sum id (\<lambda>st'. (obj_assign [] rotated, st')) (write_variables cx scopeType scopeId envVars st))"

definition rotateSecrets ::
  "'z codec_scheme \<Rightarrow> (string \<Rightarrow> string option) \<Rightarrow> (string \<Rightarrow> string) \<Rightarrow> secret_scope_type \<Rightarrow> string \<Rightarrow> string list \<Rightarrow> nat \<Rightarrow>
   secret_store \<Rightarrow> (string + variables) \<times> secret_store" where
  "rotateSecrets cx refused random scopeType scopeId keys n st =
     (case rotateSecretScope cx random scopeType scopeId keys n st of
        Inl e \<Rightarrow> (Inl e, st)
      | Inr (rotated, st1) \<Rightarrow>
          (case enqueueSecretScopeDeployments refused scopeType scopeId ''Rotate secrets'' st1 of
             (Inl e, st2) \<Rightarrow> (Inl e, st2)
           | (Inr _, st2) \<Rightarrow> (Inr rotated, st2)))"

text \<open>\<open>apply\<close> of the provider synchronization, with the values the provider returned.\<close>

definition syncSecretProvider ::
  "'z codec_scheme \<Rightarrow> (string \<Rightarrow> string option) \<Rightarrow> secret_scope_type \<Rightarrow> string \<Rightarrow> variables \<Rightarrow> bool \<Rightarrow> secret_store \<Rightarrow>
   (string + unit) \<times> secret_store" where
  "syncSecretProvider cx refused scopeType scopeId values merge st =
     (case scope_variables st scopeType scopeId of
        None \<Rightarrow> (Inl (case scopeType of EnvironmentScope \<Rightarrow> ''Environment not found'' | ResourceScope \<Rightarrow> ''Resource not found''), st)
      | Some stored \<Rightarrow>
          let merged = (if merge then obj_assign (parseResourceEnvironmentVariables cx stored) values else values)
          in case (case serializeResourceEnvironmentVariables cx merged of
                     Inl e \<Rightarrow> Inl e
                   | Inr envVars \<Rightarrow> write_variables cx scopeType scopeId envVars st) of
               Inl e \<Rightarrow> (Inl e, st)
             | Inr st1 \<Rightarrow> enqueueSecretScopeDeployments refused scopeType scopeId ''Sync external secrets'' st1)"

section \<open>Scheduled rotation\<close>

definition rotation_due :: "int \<Rightarrow> rotation_schedule \<Rightarrow> bool" where
  "rotation_due now s \<longleftrightarrow>
     (case ro_lastRotatedAt s of None \<Rightarrow> True | Some t \<Rightarrow> t + ro_intervalHours s * 3600000 \<le> now)"

definition unclaimed :: "int \<Rightarrow> rotation_schedule \<Rightarrow> bool" where
  "unclaimed now s \<longleftrightarrow> (case ro_rotationClaimedUntil s of None \<Rightarrow> True | Some t \<Rightarrow> t \<le> now)"

definition findDue :: "int \<Rightarrow> rotation_schedule list \<Rightarrow> string + rotation_schedule list" where
  "findDue now tbl =
     map_sum id (filter (rotation_due now))
       (assertBoundedRepositoryRead (take (nat (MAX_REPOSITORY_READS + 1)) (order_asc ro_createdAt
          (filter (\<lambda>s. ro_enabled s \<and>
             (case ro_lastRotatedAt s of None \<Rightarrow> True | Some t \<Rightarrow> t \<le> now - 60 * 60 * 1000) \<and> unclaimed now s) tbl)))
          ''Due secret rotation schedule'')"

definition claimDue ::
  "string \<Rightarrow> int \<Rightarrow> int \<Rightarrow> rotation_schedule list \<Rightarrow> rotation_schedule option \<times> rotation_schedule list" where
  "claimDue i now claimUntil tbl =
     update_where ro_id i (\<lambda>s. ro_enabled s \<and> rotation_due now s \<and> unclaimed now s)
       (\<lambda>s. s\<lparr>ro_rotationClaimedUntil := Some claimUntil\<rparr>) tbl"

definition finish_rotation :: "string \<Rightarrow> (rotation_schedule \<Rightarrow> rotation_schedule) \<Rightarrow> secret_store \<Rightarrow> secret_store" where
  "finish_rotation i f st = st\<lparr>es_schedules := snd (updateById ro_id i f (es_schedules st))\<rparr>"

text \<open>One schedule of the loop: whether it was rotated.\<close>

definition run_rotation ::
  "'z codec_scheme \<Rightarrow> (string \<Rightarrow> string option) \<Rightarrow> (string \<Rightarrow> string) \<Rightarrow> int \<Rightarrow> rotation_schedule \<Rightarrow> secret_store \<Rightarrow>
   bool \<times> secret_store" where
  "run_rotation cx refused random now schedule st =
     (case claimDue (ro_id schedule) now (now + 60 * 60 * 1000) (es_schedules st) of
        (None, _) \<Rightarrow> (False, st)
      | (Some claimed, tbl) \<Rightarrow>
          let st1 = st\<lparr>es_schedules := tbl\<rparr>;
              release = (\<lambda>s. s\<lparr>ro_rotationClaimedUntil := None\<rparr>)
          in case rotateSecretScope cx random (ro_scopeType claimed) (ro_scopeId claimed) (ro_keys claimed)
                    (nat (ro_valueLength claimed)) st1 of
               Inl e \<Rightarrow> (False, finish_rotation (ro_id claimed) release st1)
             | Inr (_, st2) \<Rightarrow>
                 (case enqueueSecretScopeDeployments refused (ro_scopeType claimed) (ro_scopeId claimed)
                         ''Automatic secret rotation'' st2 of
                    (Inl e, st3) \<Rightarrow> (False, finish_rotation (ro_id claimed) release st3)
                  | (Inr _, st3) \<Rightarrow>
                      (True, finish_rotation (ro_id claimed)
                         (\<lambda>s. s\<lparr>ro_lastRotatedAt := Some now, ro_rotationClaimedUntil := None\<rparr>) st3)))"

fun run_rotations ::
  "'z codec_scheme \<Rightarrow> (string \<Rightarrow> string option) \<Rightarrow> (string \<Rightarrow> string) \<Rightarrow> int \<Rightarrow> rotation_schedule list \<Rightarrow> int \<Rightarrow> secret_store \<Rightarrow>
   int \<times> secret_store" where
  "run_rotations cx refused random now [] rotated st = (rotated, st)"
| "run_rotations cx refused random now (s # ss) rotated st =
     (case run_rotation cx refused random now s st of
        (done, st') \<Rightarrow> run_rotations cx refused random now ss (if done then rotated + 1 else rotated) st')"

definition runDueSecretRotations ::
  "'z codec_scheme \<Rightarrow> (string \<Rightarrow> string option) \<Rightarrow> (string \<Rightarrow> string) \<Rightarrow> int \<Rightarrow> secret_store \<Rightarrow> string + int \<times> secret_store" where
  "runDueSecretRotations cx refused random now st =
     (case findDue now (es_schedules st) of
        Inl e \<Rightarrow> Inl e
      | Inr schedules \<Rightarrow> Inr (run_rotations cx refused random now schedules 0 st))"

end
