(* ===== verification/Environment_Guarantees.thy ===== *)
theory Environment_Guarantees
  imports Secret_Store
begin

text \<open>
  What stored variables, references, inheritance and the history of secrets guarantee. The laws
  of \<open>JSON\<close> and of the encryption are hypotheses on the texts a statement is about: a
  document that was printed parses to itself, and a ciphertext decrypts to its plaintext.
\<close>

section \<open>Documents\<close>

lemma get_prop_js_strings:
  "get_prop (js_strings vs) k = (case map_of vs k of Some s \<Rightarrow> JStr s | None \<Rightarrow> JUndefined)"
  by (induction vs) (auto simp: js_strings_def get_prop_def)

text \<open>A record of strings is never taken for a ciphertext: its key version would be a number.\<close>

lemma strings_not_encrypted [simp]: "\<not> isEncryptedPayload (JObj (js_strings vs))"
  by (auto simp: isEncryptedPayload_def get_prop_js_strings split: option.splits)

lemma schema_js_strings: "ResourceEnvironmentVariablesSchema (JObj (js_strings vs)) =
    (if valid_variables vs then Some vs else None)"
proof -
  have "map ((\<lambda>(k, x). (k, case x of JStr s \<Rightarrow> s | _ \<Rightarrow> [])) \<circ> (\<lambda>(k, v). (k, JStr v))) vs = vs"
    by (induction vs) auto
  then show ?thesis
    by (simp add: ResourceEnvironmentVariablesSchema_def js_strings_def valid_variables_def list_all_iff case_prod_beta)
qed

text \<open>The text is the printed ciphertext of the printed record, and both can be read back.\<close>

definition readable :: "'z codec_scheme \<Rightarrow> variables \<Rightarrow> bool" where
  "readable cx vs \<longleftrightarrow>
     (let plain = cx_stringify cx (JObj (js_strings vs)); payload = cx_encrypt cx plain
      in en_json cx plain = Some (JObj (js_strings vs)) \<and> en_decrypt cx payload = Some plain \<and>
         isEncryptedPayload (JObj payload) \<and> en_json cx (cx_stringify cx (JObj payload)) = Some (JObj payload) \<and>
         trim (cx_stringify cx (JObj payload)) \<noteq> [] \<and> plain \<noteq> [])"

lemma trim_Nil [simp]: "trim [] = []"
  by (simp add: trim_def)

lemma serialize_result:
  "serializeResourceEnvironmentVariables cx vs =
     (if valid_variables vs
      then Inr (cx_stringify cx (JObj (cx_encrypt cx (cx_stringify cx (JObj (js_strings vs))))))
      else Inl ''Invalid environment variables'')"
  by (simp add: serializeResourceEnvironmentVariables_def encrypt_variables_def schema_js_strings)

lemma parse_serialized:
  assumes "serializeResourceEnvironmentVariables cx vs = Inr stored" "readable cx vs"
  shows "parseResourceEnvironmentVariables cx (Some stored) = vs"
  using assms
  by (cases stored) (auto simp: serialize_result parseResourceEnvironmentVariables_def readable_def Let_def decrypt_document_def
      schema_js_strings split: if_splits)

text \<open>
  C16. Stored variables survive: what a valid record is serialized to is never the plain text, is
  read back as the same record, and serializing the stored text again changes nothing.
\<close>

theorem variables_roundtrip:
  assumes "valid_variables vs" "readable cx vs"
  shows "\<exists>stored. serializeResourceEnvironmentVariables cx vs = Inr stored \<and>
    parseResourceEnvironmentVariables cx (Some stored) = vs \<and>
    stored \<noteq> cx_stringify cx (JObj (js_strings vs)) \<and> serialize_text cx stored = Inr stored"
proof -
  obtain stored where t: "serializeResourceEnvironmentVariables cx vs = Inr stored"
    using assms(1) by (simp add: serialize_result)
  have p: "parseResourceEnvironmentVariables cx (Some stored) = vs" by (rule parse_serialized [OF t assms(2)])
  have "stored \<noteq> cx_stringify cx (JObj (js_strings vs))"
  proof
    assume eq: "stored = cx_stringify cx (JObj (js_strings vs))"
    from t assms have j: "\<exists>payload. en_json cx stored = Some (JObj payload) \<and> isEncryptedPayload (JObj payload)"
      by (auto simp: serialize_result readable_def Let_def split: if_splits)
    from assms(2) eq have "en_json cx stored = Some (JObj (js_strings vs))" by (simp add: readable_def Let_def)
    with j show False by auto
  qed
  moreover have "serialize_text cx stored = Inr stored"
    using t assms by (auto simp: serialize_text_def serialize_result readable_def Let_def split: if_splits)
  ultimately show ?thesis using t p by blast
qed

section \<open>References\<close>

lemma dollar_only: "c \<noteq> CHR ''$'' \<Longrightarrow> PROJECT_VAR_PATTERN (c # cs) = None"
  by (auto simp: PROJECT_VAR_PATTERN_def strip_def starts_with_def)

lemma replace_plain:
  assumes "CHR ''$'' \<notin> set pre"
  shows "replace_all PROJECT_VAR_PATTERN f (pre @ s) = pre @ replace_all PROJECT_VAR_PATTERN f s"
proof (rule replace_all_skip)
  fix a b
  assume "pre = a @ b" "b \<noteq> []"
  with assms have "b \<noteq> []" "hd b \<noteq> CHR ''$''" using hd_in_set [of b] by (auto simp del: hd_in_set)
  then show "PROJECT_VAR_PATTERN (b @ s) = None" by (cases b) (simp_all add: dollar_only)
qed

lemma is_word_brace: "\<not> is_word CHR ''}''" "\<not> is_space CHR ''}''"
  by (code_simp, code_simp)

lemma word_not_space: "is_word c \<Longrightarrow> \<not> is_space c"
  by (auto simp: is_word_def is_alnum_def is_alpha_def is_digit_def is_space_def code_def)

lemma dropWhile_spaces [simp]:
  assumes "list_all is_space sp" "\<not> is_space c"
  shows "dropWhile is_space (sp @ c # s) = c # s"
  using assms by (induction sp) auto

lemma takeWhile_word:
  assumes "list_all is_word name" "\<not> is_word c"
  shows "takeWhile is_word (name @ c # s) = name" "dropWhile is_word (name @ c # s) = c # s"
  using assms by (induction name) auto

text \<open>One reference, with white space inside the braces.\<close>

lemma match_reference:
  assumes "variable_name name" "list_all is_space sp1" "list_all is_space sp2" "scope \<in> {''project.'', ''env.''}"
  defines "reference \<equiv> ''${{'' @ sp1 @ scope @ name @ sp2 @ ''}}''"
  shows "PROJECT_VAR_PATTERN (reference @ s) = Some (name, length reference)"
proof -
  have c: "\<not> is_space CHR ''p''" "\<not> is_space CHR ''e''" by (code_simp, code_simp)
  have d: "dropWhile is_space (sp1 @ scope @ t) = scope @ t" for t
    using assms(2,4) c by auto
  have n: "scope_name (scope @ t) = Some t" for t
    using assms(4) by (auto simp: scope_name_def strip_def starts_with_def)
  have w: "list_all is_word name" using assms(1) by (simp add: variable_name_def)
  obtain x y where xy: "sp2 @ ''}}'' @ s = x # y" "\<not> is_word x"
    using assms(3) is_word_brace word_not_space by (cases sp2) auto
  have "takeWhile is_word (name @ sp2 @ ''}}'' @ s) = name \<and> dropWhile is_word (name @ sp2 @ ''}}'' @ s) = sp2 @ ''}}'' @ s"
    using takeWhile_word [OF w xy(2), of y] unfolding xy(1) by simp
  moreover have "dropWhile is_space (sp2 @ ''}}'' @ s) = ''}}'' @ s"
    using assms(3) is_word_brace by simp
  ultimately have "PROJECT_VAR_PATTERN (''${{'' @ sp1 @ scope @ name @ sp2 @ ''}}'' @ s) =
      Some (name, length (''${{'' @ sp1 @ scope @ name @ sp2 @ ''}}'' @ s) - length s)"
    using assms(1) by (simp add: PROJECT_VAR_PATTERN_def strip_def starts_with_def d n Let_def)
  then show ?thesis by (simp add: reference_def)
qed

lemma replace_reference:
  assumes "variable_name name" "list_all is_space sp1" "list_all is_space sp2" "scope \<in> {''project.'', ''env.''}"
  shows "replace_all PROJECT_VAR_PATTERN f (''${{'' @ sp1 @ scope @ name @ sp2 @ ''}}'' @ s) =
    f name @ replace_all PROJECT_VAR_PATTERN f s"
proof -
  let ?r = "''${{'' @ sp1 @ scope @ name @ sp2 @ ''}}''"
  have m: "PROJECT_VAR_PATTERN (?r @ s) = Some (name, length ?r)" by (rule match_reference [OF assms])
  obtain c cs where r: "?r = c # cs" by simp
  have "replace_all PROJECT_VAR_PATTERN f (?r @ s) = f name @ replace_all PROJECT_VAR_PATTERN f (drop (length ?r - 1) (cs @ s))"
    using m unfolding r by simp
  also have "drop (length ?r - 1) (cs @ s) = s" unfolding r by simp
  finally show ?thesis by simp
qed

text \<open>Plain text is not read: a record that was printed but not encrypted counts as empty.\<close>

lemma parse_plain:
  "en_json cx s = Some (JObj (js_strings vs)) \<Longrightarrow> parseResourceEnvironmentVariables cx (Some s) = []"
  by (simp add: parseResourceEnvironmentVariables_def)

section \<open>Inheritance\<close>

definition parent_edges :: "environment list \<Rightarrow> (string \<times> string) set" where
  "parent_edges tbl =
     {(i, j). j \<noteq> [] \<and> (\<exists>e. findById ev_id i tbl = Some e \<and> ev_parentEnvironmentId e = Some j)}"

lemma parent_edgesE:
  assumes "(i, j) \<in> parent_edges tbl"
  obtains e where "findById ev_id i tbl = Some e" "ev_parentEnvironmentId e = Some j" "j \<noteq> []"
  using assms by (auto simp: parent_edges_def)

text \<open>In an acyclic table the walk meets every environment that is reachable.\<close>

lemma ancestors_reach:
  assumes "acyclic (parent_edges tbl)" "\<forall>s \<in> set seen. (s, i) \<in> (parent_edges tbl)\<^sup>+" "i \<noteq> []"
    and "(i, j) \<in> (parent_edges tbl)\<^sup>*" "findById ev_id j tbl \<noteq> None"
  shows "j \<in> ev_id ` set (ancestors_loop tbl seen (Some i))"
  using assms
proof (induction tbl seen "Some i" arbitrary: i rule: ancestors_loop.induct)
  case (1 tbl seen i)
  have ns: "i \<notin> set seen" using 1(2,3) by (auto simp: acyclic_def)
  show ?case
  proof (cases "i = j")
    case True
    then obtain e where "findById ev_id i tbl = Some e" using 1(6) by auto
    then show ?thesis using findById_key [of ev_id i tbl e] ns 1(4) True
      by (subst ancestors_loop.simps) auto
  next
    case False
    with 1(5) obtain k where k: "(i, k) \<in> parent_edges tbl" "(k, j) \<in> (parent_edges tbl)\<^sup>*"
      by (meson converse_rtranclE)
    from k(1) obtain e where e: "findById ev_id i tbl = Some e" "ev_parentEnvironmentId e = Some k" "k \<noteq> []"
      by (rule parent_edgesE)
    have "\<forall>s \<in> set (i # seen). (s, k) \<in> (parent_edges tbl)\<^sup>+"
      using 1(3) k(1) by (auto intro: trancl_into_trancl)
    then have "j \<in> ev_id ` set (ancestors_loop tbl (i # seen) (Some k))"
      using 1(1) [OF refl _ e(1) e(2) 1(2)] ns 1(4) e k(2) 1(6) by auto
    then show ?thesis using ns 1(4) e by (subst ancestors_loop.simps) auto
  qed
qed

lemma find_patched:
  assumes "\<And>e. ev_id (f e) = ev_id e"
  shows "findById ev_id j (snd (updateById ev_id i f tbl)) =
    (if j = i then map_option f (findById ev_id i tbl) else findById ev_id j tbl)"
  using assms by (auto simp: updateById_def update_where_find row_simps split: option.splits)

lemma map_sum_Inr_iff [simp]: "map_sum f g x = Inr y \<longleftrightarrow> (\<exists>z. x = Inr z \<and> y = g z)"
  by (cases x) auto

lemma update_environment_rows:
  assumes "update_environment cx i f envVars st = Inr (e', st')" "\<And>e. ev_id (f e) = ev_id e"
  shows "\<exists>g. (\<forall>e. ev_id (g e) = ev_id e \<and> ev_parentEnvironmentId (g e) = ev_parentEnvironmentId (f e)) \<and>
    (\<forall>j. findById ev_id j (es_environments st') =
       (if j = i then map_option g (findById ev_id i (es_environments st)) else findById ev_id j (es_environments st))) \<and>
    e' = findById ev_id i (es_environments st')"
proof (cases envVars)
  case None
  with assms show ?thesis
    by (intro exI [of _ f]) (auto simp: update_environment_def find_patched)
next
  case (Some v)
  have fin: "es_environments st3 = es_environments st2" if "append_version cx h st2 = Inr st3" for h st2 st3
    using that by (auto simp: append_version_def split: if_splits)
  from Some assms show ?thesis
    by (intro exI [of _ "\<lambda>e. (f e)\<lparr>ev_envVars := Some v\<rparr>"])
      (auto simp: update_environment_def Let_def find_patched option.map_comp comp_def split: if_splits dest!: fin)
qed

lemma parent_edges_patched:
  assumes "\<And>e. ev_id (g e) = ev_id e"
    and "\<And>j. findById ev_id j t' = (if j = i then map_option g (findById ev_id i t) else findById ev_id j t)"
    and "\<And>e. findById ev_id i t = Some e \<Longrightarrow> ev_parentEnvironmentId (g e) \<in> {ev_parentEnvironmentId e, p}"
  shows "parent_edges t' \<subseteq> parent_edges t \<union> {(i, j) | j. p = Some j \<and> j \<noteq> []}"
proof
  fix x
  assume "x \<in> parent_edges t'"
  then obtain k j e where x: "x = (k, j)" "findById ev_id k t' = Some e" "ev_parentEnvironmentId e = Some j" "j \<noteq> []"
    by (auto simp: parent_edges_def)
  show "x \<in> parent_edges t \<union> {(i, j) | j. p = Some j \<and> j \<noteq> []}"
  proof (cases "k = i")
    case True
    with x assms(2) obtain e0 where e0: "findById ev_id i t = Some e0" "e = g e0" by auto
    with assms(3) [OF e0(1)] x True show ?thesis by (auto simp: parent_edges_def)
  next
    case False
    with x assms(2) show ?thesis by (auto simp: parent_edges_def)
  qed
qed

lemma parent_not_below:
  assumes "parent_guards tbl e input = Inr ()" "ue_parentEnvironmentId input = Some (Some p)" "p \<noteq> []"
    and "acyclic (parent_edges tbl)" "findById ev_id (ue_id input) tbl \<noteq> None"
  shows "(p, ue_id input) \<notin> (parent_edges tbl)\<^sup>*"
proof
  assume "(p, ue_id input) \<in> (parent_edges tbl)\<^sup>*"
  then have "ue_id input \<in> ev_id ` set (findAncestors tbl p)"
    unfolding findAncestors_def by (intro ancestors_reach) (use assms in auto)
  with assms(1-3) show False by (auto simp: parent_guards_def list_ex_iff)
qed

text \<open>
  C17. The inheritance of environments stays free of cycles: whatever an update changes, when the
  environments were acyclic before it they are acyclic after it.
\<close>

theorem inheritance_stays_acyclic:
  assumes "acyclic (parent_edges (es_environments st))" "updateEnvironment cx input st = Inr (e', st')"
  shows "acyclic (parent_edges (es_environments st'))"
proof -
  let ?t = "es_environments st" and ?i = "ue_id input"
  from assms(2) obtain e envVars where e: "findById ev_id ?i ?t = Some e" "parent_guards ?t e input = Inr ()"
    and u: "update_environment cx ?i (patch_environment input) envVars st = Inr (Some e', st')"
    by (auto simp: updateEnvironment_def split: option.splits if_splits sum.splits prod.splits)
  from update_environment_rows [OF u] obtain g where g:
    "\<And>e. ev_id (g e) = ev_id e" "\<And>e. ev_parentEnvironmentId (g e) = ev_parentEnvironmentId (patch_environment input e)"
    "\<And>j. findById ev_id j (es_environments st') = (if j = ?i then map_option g (findById ev_id ?i ?t) else findById ev_id j ?t)"
    by (auto simp: patch_environment_def)
  let ?p = "given (ue_parentEnvironmentId input) None"
  have sub: "parent_edges (es_environments st') \<subseteq> parent_edges ?t \<union> {(?i, j) | j. ?p = Some j \<and> j \<noteq> []}"
    by (rule parent_edges_patched [where g = g]) (auto simp: g patch_environment_def given_def split: option.splits)
  show ?thesis
  proof (cases "\<exists>p. ?p = Some p \<and> p \<noteq> []")
    case False
    with sub have "parent_edges (es_environments st') \<subseteq> parent_edges ?t" by auto
    with assms(1) show ?thesis by (rule acyclic_subset)
  next
    case True
    then obtain p where p: "?p = Some p" "p \<noteq> []" by blast
    then have "ue_parentEnvironmentId input = Some (Some p)" by (auto simp: given_def split: option.splits)
    from parent_not_below [OF e(2) this p(2) assms(1)] e(1)
    have "acyclic (insert (?i, p) (parent_edges ?t))" using assms(1) by simp
    moreover from sub p have "parent_edges (es_environments st') \<subseteq> insert (?i, p) (parent_edges ?t)" by auto
    ultimately show ?thesis by (rule acyclic_subset)
  qed
qed

text \<open>The environments whose variables count, from the environment itself outwards.\<close>

fun included :: "environment list \<Rightarrow> environment list" where
  "included [] = []"
| "included (e # es) = e # (if ev_inheritsVariables e then included es else [])"

abbreviation own_variables :: "'z codec_scheme \<Rightarrow> environment \<Rightarrow> variables" where
  "own_variables cx e \<equiv> parseResourceEnvironmentVariables cx (ev_envVars e)"

lemma inherit_loop_outer:
  assumes "\<forall>e \<in> set chain. ev_id e \<noteq> i"
  shows "inherit_loop cx i b r chain =
    (if b then foldl (\<lambda>r e. obj_assign r (own_variables cx e)) r (included chain) else r)"
  using assms
proof (induction chain arbitrary: b r)
  case (Cons e chain)
  then show ?case by (cases b; cases "ev_inheritsVariables e") auto
qed simp

lemma ancestors_unseen: "e \<in> set (ancestors_loop tbl seen c) \<Longrightarrow> ev_id e \<notin> set seen"
proof (induction tbl seen c rule: ancestors_loop.induct)
  case (1 tbl seen c)
  show ?case
  proof (cases c)
    case None
    with 1(2) show ?thesis by (subst (asm) ancestors_loop.simps) simp
  next
    case (Some i)
    show ?thesis
    proof (cases "i = [] \<or> i \<in> set seen \<or> findById ev_id i tbl = None")
      case True
      with 1(2) Some show ?thesis by (subst (asm) ancestors_loop.simps) (auto split: if_splits)
    next
      case False
      then obtain q where q: "findById ev_id i tbl = Some q" by auto
      from 1(2) Some False q have "e = q \<or> e \<in> set (ancestors_loop tbl (i # seen) (ev_parentEnvironmentId q))"
        by (subst (asm) ancestors_loop.simps) auto
      then show ?thesis
        using 1(1) [OF Some _ q] False findById_key [OF q] by auto
    qed
  qed
qed

lemma resolve_included:
  "resolveEnvironmentVariables cx tbl i =
     foldl (\<lambda>r e. obj_assign r (own_variables cx e)) [] (included (findAncestors tbl i))"
proof (cases "findAncestors tbl i")
  case (Cons e chain)
  then have "chain = ancestors_loop tbl [i] (ev_parentEnvironmentId e)"
    unfolding findAncestors_def by (subst (asm) ancestors_loop.simps) (auto split: if_splits option.splits)
  then have "\<forall>x \<in> set chain. ev_id x \<noteq> i" using ancestors_unseen by fastforce
  with Cons show ?thesis by (simp add: resolveEnvironmentVariables_def inherit_loop_outer)
qed (simp add: resolveEnvironmentVariables_def)

text \<open>
  An environment does not override what it inherits: when the outermost environment that counts
  defines a variable, its value is the one that is resolved, whatever the environments below it
  say.
\<close>

theorem outermost_environment_wins:
  assumes "included (findAncestors tbl i) = inner @ [outer]"
    and "distinct (map fst (own_variables cx outer))" "map_of (own_variables cx outer) k = Some v"
  shows "map_of (resolveEnvironmentVariables cx tbl i) k = Some v"
  using assms by (simp add: resolve_included map_of_obj_assign_distinct)

section \<open>Versions of secrets\<close>

lemma queue_each_frame: "queue_each refused title is st = (r, st') \<Longrightarrow>
  es_environments st' = es_environments st \<and> es_resources st' = es_resources st \<and> es_history st' = es_history st"
  by (induction "is" arbitrary: st) (auto split: option.splits)

lemma enqueue_frame: "enqueueSecretScopeDeployments refused t i title st = (r, st') \<Longrightarrow>
  es_environments st' = es_environments st \<and> es_resources st' = es_resources st \<and> es_history st' = es_history st"
  by (auto simp: enqueueSecretScopeDeployments_def dest: queue_each_frame)

text \<open>No version of a scope is above its current one, so no write meets the unique index.\<close>

definition current_version :: "secret_store \<Rightarrow> secret_scope_type \<Rightarrow> string \<Rightarrow> int" where
  "current_version st t i =
     (case t of
        EnvironmentScope \<Rightarrow> environment_version st i
      | ResourceScope \<Rightarrow> (case findById rr_id i (es_resources st) of Some r \<Rightarrow> rs_secretVersion r | None \<Rightarrow> 0))"

definition versions_bounded :: "secret_store \<Rightarrow> bool" where
  "versions_bounded st \<longleftrightarrow> (\<forall>h \<in> set (es_history st). hv_version h \<le> current_version st (hv_scopeType h) (hv_scopeId h))"

lemma find_resource_patched:
  assumes "\<And>r. rr_id (f r) = rr_id r"
  shows "findById rr_id j (snd (updateById rr_id i f tbl)) =
    (if j = i then map_option f (findById rr_id i tbl) else findById rr_id j tbl)"
  using assms by (auto simp: updateById_def update_where_find row_simps split: option.splits)

lemma organization_patched:
  assumes "es_projects st' = es_projects st" "es_environments st' = snd (updateById ev_id i f (es_environments st))"
    and "\<And>e. ev_id (f e) = ev_id e" "\<And>e. ev_projectId (f e) = ev_projectId e" "es_resources st' = es_resources st"
  shows "resolveOrganizationId st' t j = resolveOrganizationId st t j"
  using assms
  by (auto simp: resolveOrganizationId_def environment_organization_def find_patched option.case_eq_if option.map_sel
      split: secret_scope_type.splits)

lemma updateById_id [simp]: "snd (updateById key i id tbl) = tbl"
proof -
  have "map (\<lambda>x. if key x = i then id x else x) tbl = tbl" by (rule map_idI) simp
  then show ?thesis by (simp add: updateById_def update_where_def split: option.splits)
qed

lemma append_version_result:
  assumes "\<And>h. h \<in> set (es_history st) \<Longrightarrow> of_scope t i h \<Longrightarrow> hv_version h < hv_version p"
    and "hv_scopeType p = t" "hv_scopeId p = i" "resolveOrganizationId st t i \<noteq> None"
  shows "\<exists>st' row. append_version cx p st = Inr st' \<and> st' = st\<lparr>es_history := es_history st @ [row]\<rparr> \<and>
    hv_scopeType row = t \<and> hv_scopeId row = i \<and> hv_version row = hv_version p"
proof -
  have "\<not> list_ex (\<lambda>h. of_scope t i h \<and> hv_version h = hv_version p) (es_history st)"
    using assms(1) by (fastforce simp: list_ex_iff)
  with assms(2-4) show ?thesis by (auto simp: append_version_def)
qed

text \<open>A write to a scope that exists goes through and appends the next version.\<close>

lemma write_environment:
  assumes "versions_bounded st" "resolveOrganizationId st EnvironmentScope i \<noteq> None"
  obtains st' row where "write_variables cx EnvironmentScope i v st = Inr st'"
    "es_history st' = es_history st @ [row]" "of_scope EnvironmentScope i row" "hv_version row = environment_version st i + 1"
    "es_environments st' = snd (updateById ev_id i (\<lambda>e. e\<lparr>ev_envVars := Some v\<rparr>) (es_environments st))"
    "es_secretVersions st' = obj_set i (environment_version st i + 1) (es_secretVersions st)"
    "es_resources st' = es_resources st" "es_projects st' = es_projects st"
proof -
  from assms(2) obtain e where e: "findById ev_id i (es_environments st) = Some e"
    by (auto simp: resolveOrganizationId_def environment_organization_def split: option.splits)
  let ?st2 = "st\<lparr>es_environments := snd (updateById ev_id i (\<lambda>e. e\<lparr>ev_envVars := Some v\<rparr>) (es_environments st)),
     es_secretVersions := obj_set i (environment_version st i + 1) (es_secretVersions st)\<rparr>"
  let ?p = "\<lparr>hv_scopeType = EnvironmentScope, hv_scopeId = i, hv_version = environment_version st i + 1,
     hv_credentials = None, hv_buildSecrets = None, hv_buildEnvVars = None, hv_envVars = v\<rparr>"
  have "resolveOrganizationId ?st2 EnvironmentScope i = resolveOrganizationId st EnvironmentScope i"
    by (rule organization_patched [where f = "\<lambda>e. e\<lparr>ev_envVars := Some v\<rparr>" and i = i]) simp_all
  moreover have "hv_version h < hv_version ?p" if "h \<in> set (es_history ?st2)" "of_scope EnvironmentScope i h" for h
    using that assms(1) by (auto simp: versions_bounded_def of_scope_def current_version_def)
  ultimately have "\<exists>st' row. append_version cx ?p ?st2 = Inr st' \<and> st' = ?st2\<lparr>es_history := es_history ?st2 @ [row]\<rparr> \<and>
      hv_scopeType row = EnvironmentScope \<and> hv_scopeId row = i \<and> hv_version row = hv_version ?p"
    using assms(2) by (intro append_version_result) simp_all
  then obtain st' row where a: "append_version cx ?p ?st2 = Inr st'" "st' = ?st2\<lparr>es_history := es_history st @ [row]\<rparr>"
    "hv_scopeType row = EnvironmentScope" "hv_scopeId row = i" "hv_version row = environment_version st i + 1"
    by auto
  have "write_variables cx EnvironmentScope i v st = Inr st'"
    using a(1) e by (simp add: write_variables_def update_environment_def Let_def environment_version_def)
  with a show ?thesis by (intro that [of st' row]) (auto simp: of_scope_def)
qed

lemma write_resource:
  assumes "versions_bounded st" "resolveOrganizationId st ResourceScope i \<noteq> None"
    and "findById rr_id i (es_resources st) = Some r"
  obtains st' row where "write_variables cx ResourceScope i v st = Inr st'"
    "es_history st' = es_history st @ [row]" "of_scope ResourceScope i row" "hv_version row = rs_secretVersion r + 1"
    "es_resources st' = snd (updateById rr_id i (patch_secret_columns (no_secret_patch\<lparr>sp_envVars := Some v\<rparr>)) (es_resources st))"
    "es_environments st' = es_environments st" "es_secretVersions st' = es_secretVersions st" "es_projects st' = es_projects st"
proof -
  let ?q = "no_secret_patch\<lparr>sp_envVars := Some v\<rparr>"
  define rows where rows: "rows = snd (updateById rr_id i (patch_secret_columns ?q) (es_resources st))"
  let ?st2 = "st\<lparr>es_resources := rows\<rparr>"
  let ?p = "resource_version (patch_secret_columns ?q r)"
  have u: "updateById rr_id i (patch_secret_columns ?q) (es_resources st) = (Some (patch_secret_columns ?q r), rows)"
    using assms(3) by (simp add: rows updateById_def update_where_def)
  have k: "\<And>r. rr_id (patch_secret_columns ?q r) = rr_id r" "\<And>r. rr_environmentId (patch_secret_columns ?q r) = rr_environmentId r"
    by (simp_all add: patch_secret_columns_def)
  have i: "rr_id r = i" using findById_key [OF assms(3)] by simp
  have "resolveOrganizationId ?st2 ResourceScope i = resolveOrganizationId st ResourceScope i"
    using assms(3) k
    by (simp add: resolveOrganizationId_def environment_organization_def find_resource_patched rows split: option.split)
  moreover have "hv_version h < hv_version ?p" if "h \<in> set (es_history ?st2)" "of_scope ResourceScope i h" for h
    using that assms(1,3) by (auto simp: versions_bounded_def of_scope_def current_version_def resource_version_def
        patch_secret_columns_def)
  ultimately have "\<exists>st' row. append_version cx ?p ?st2 = Inr st' \<and> st' = ?st2\<lparr>es_history := es_history ?st2 @ [row]\<rparr> \<and>
      hv_scopeType row = ResourceScope \<and> hv_scopeId row = i \<and> hv_version row = hv_version ?p"
    using assms(2) k i by (intro append_version_result) (simp_all add: resource_version_def)
  then obtain st' row where a: "append_version cx ?p ?st2 = Inr st'" "st' = ?st2\<lparr>es_history := es_history st @ [row]\<rparr>"
    "hv_scopeType row = ResourceScope" "hv_scopeId row = i" "hv_version row = rs_secretVersion r + 1"
    by (auto simp: resource_version_def patch_secret_columns_def)
  have "write_variables cx ResourceScope i v st = Inr st'"
    using a(1) u by (auto simp: write_variables_def update_resource_def Let_def patchSecrets_def no_secret_patch_def)
  with a show ?thesis by (intro that [of st' row]) (auto simp: of_scope_def rows)
qed

lemma current_version_environment:
  assumes "es_secretVersions st' = obj_set i n (es_secretVersions st)" "es_resources st' = es_resources st"
  shows "current_version st' t j = (if t = EnvironmentScope \<and> j = i then n else current_version st t j)"
  using assms by (auto simp: current_version_def environment_version_def split: secret_scope_type.splits)

lemma current_version_resource:
  assumes "es_secretVersions st' = es_secretVersions st" "findById rr_id i (es_resources st) = Some r"
    and "es_resources st' = snd (updateById rr_id i (patch_secret_columns p) (es_resources st))"
  shows "current_version st' t j = (if t = ResourceScope \<and> j = i then rs_secretVersion r + 1 else current_version st t j)"
proof -
  have k: "\<And>r. rr_id (patch_secret_columns p r) = rr_id r" by (simp add: patch_secret_columns_def)
  have v: "rs_secretVersion (patch_secret_columns p r) = rs_secretVersion r + 1" by (simp add: patch_secret_columns_def)
  show ?thesis
    using assms k v
    by (cases t) (simp_all add: current_version_def environment_version_def find_resource_patched)
qed

lemma scope_exists:
  assumes "resolveOrganizationId st ResourceScope i \<noteq> None"
  obtains r where "findById rr_id i (es_resources st) = Some r"
  using assms by (auto simp: resolveOrganizationId_def split: option.splits)

lemma bounded_after:
  assumes "versions_bounded st" "es_history st' = es_history st @ [row]" "of_scope t i row"
    and "hv_version row = current_version st t i + 1"
    and "\<And>u j. current_version st' u j = (if u = t \<and> j = i then current_version st t i + 1 else current_version st u j)"
  shows "versions_bounded st'"
  using assms by (fastforce simp: versions_bounded_def of_scope_def)

text \<open>
  C18. Every write of variables is recorded: while no version is above the current one of its scope,
  a write to an environment or resource of some organization succeeds, appends exactly one
  version with the next number, stores the text, and keeps the versions bounded.
\<close>

theorem secret_write_recorded:
  assumes "versions_bounded st" "resolveOrganizationId st t i \<noteq> None"
  shows "\<exists>st' row. write_variables cx t i v st = Inr st' \<and> versions_bounded st' \<and>
    es_history st' = es_history st @ [row] \<and> of_scope t i row \<and> hv_version row = current_version st t i + 1 \<and>
    scope_variables st' t i = Some (Some v)"
proof (cases t)
  case EnvironmentScope
  with assms obtain e where e: "findById ev_id i (es_environments st) = Some e"
    by (auto simp: resolveOrganizationId_def environment_organization_def split: option.splits)
  from EnvironmentScope assms obtain st' row where w: "write_variables cx EnvironmentScope i v st = Inr st'"
    "es_history st' = es_history st @ [row]" "of_scope EnvironmentScope i row" "hv_version row = environment_version st i + 1"
    "es_environments st' = snd (updateById ev_id i (\<lambda>e. e\<lparr>ev_envVars := Some v\<rparr>) (es_environments st))"
    "es_secretVersions st' = obj_set i (environment_version st i + 1) (es_secretVersions st)"
    "es_resources st' = es_resources st"
    by (metis write_environment)
  have c: "current_version st EnvironmentScope i = environment_version st i" by (simp add: current_version_def)
  have "versions_bounded st'"
    by (rule bounded_after [OF assms(1) w(2,3)]) (simp_all add: c w(4) current_version_environment [OF w(6,7)])
  moreover have "scope_variables st' EnvironmentScope i = Some (Some v)"
    using e w(5) by (simp add: scope_variables_def find_patched)
  ultimately show ?thesis using w c EnvironmentScope by auto
next
  case ResourceScope
  with assms obtain r where r: "findById rr_id i (es_resources st) = Some r" by (metis scope_exists)
  let ?p = "no_secret_patch\<lparr>sp_envVars := Some v\<rparr>"
  from ResourceScope assms r obtain st' row where w: "write_variables cx ResourceScope i v st = Inr st'"
    "es_history st' = es_history st @ [row]" "of_scope ResourceScope i row" "hv_version row = rs_secretVersion r + 1"
    "es_resources st' = snd (updateById rr_id i (patch_secret_columns ?p) (es_resources st))"
    "es_secretVersions st' = es_secretVersions st"
    by (metis write_resource)
  have c: "current_version st ResourceScope i = rs_secretVersion r" by (simp add: current_version_def r)
  have "versions_bounded st'"
    by (rule bounded_after [OF assms(1) w(2,3)]) (simp_all add: c w(4) current_version_resource [OF w(6) r w(5)])
  moreover have "scope_variables st' ResourceScope i = Some (Some v)"
    using r w(5) by (simp add: scope_variables_def find_resource_patched patch_secret_columns_def given_def)
  ultimately show ?thesis using w c ResourceScope by auto
qed

lemma rotated_lookup:
  "map_of (rev (rotated_values random keys n)) k = (if k \<in> set keys then Some (take n (random k)) else None)"
  by (induction keys) (auto simp: rotated_values_def map_add_def split: option.split)

text \<open>
  Rotation replaces the given keys and nothing else: afterwards every rotated key has its new
  value and every other variable its old one.
\<close>

theorem rotation_exact:
  assumes "rotateSecretScope cx random t i keys n st = Inr (rotated, st')"
    and "versions_bounded st" "resolveOrganizationId st t i \<noteq> None"
    and "scope_variables st t i = Some stored"
    and "readable cx (obj_assign (parseResourceEnvironmentVariables cx stored) (rotated_values random keys n))"
  shows "\<exists>stored'. scope_variables st' t i = Some stored' \<and>
    map_of (parseResourceEnvironmentVariables cx stored') k =
      (if k \<in> set keys then Some (take n (random k)) else map_of (parseResourceEnvironmentVariables cx stored) k)"
proof -
  let ?vs = "obj_assign (parseResourceEnvironmentVariables cx stored) (rotated_values random keys n)"
  from assms(1,4) obtain v where v: "serializeResourceEnvironmentVariables cx ?vs = Inr v"
    and w: "write_variables cx t i v st = Inr st'"
    by (auto simp: rotateSecretScope_def Let_def split: sum.splits)
  from secret_write_recorded [OF assms(2,3), of cx v] w have "scope_variables st' t i = Some (Some v)" by auto
  moreover have "parseResourceEnvironmentVariables cx (Some v) = ?vs" by (rule parse_serialized [OF v assms(5)])
  ultimately show ?thesis
    by (auto simp: map_of_obj_assign rotated_lookup)
qed

text \<open>
  Restoring a version loses it: the variables of an environment that were stored encrypted in
  the history are written back as plain text, which no later read accepts, so after the restore
  the environment has no variables.
\<close>

theorem restored_variables_lost:
  assumes "versions_bounded st" "resolveOrganizationId st EnvironmentScope i = Some org"
    and "serializeResourceEnvironmentVariables cx vs = Inr stored" "readable cx vs"
    and "find (\<lambda>h. of_scope EnvironmentScope i h \<and> hv_version h = n) (es_history st) =
      Some \<lparr>hv_scopeType = EnvironmentScope, hv_scopeId = i, hv_version = n, hv_credentials = None,
            hv_buildSecrets = None, hv_buildEnvVars = None, hv_envVars = stored\<rparr>"
  shows "\<exists>e. findById ev_id i (es_environments (snd (restoreSecretVersion cx refused EnvironmentScope i n org st))) = Some e \<and>
    ev_envVars e = Some (cx_stringify cx (JObj (js_strings vs))) \<and> parseResourceEnvironmentVariables cx (ev_envVars e) = []"
proof -
  let ?plain = "cx_stringify cx (JObj (js_strings vs))"
  let ?h = "\<lparr>hv_scopeType = EnvironmentScope, hv_scopeId = i, hv_version = n, hv_credentials = None,
     hv_buildSecrets = None, hv_buildEnvVars = None, hv_envVars = stored\<rparr>"
  from assms(3,4) have d: "decodeSecret cx (Some stored) = Inr (Some ?plain)"
    by (cases stored) (auto simp: serialize_result readable_def Let_def decodeSecret_def getEncryptedPayload_def split: if_splits)
  have "decodeSecret cx None = Inr None" by (simp add: decodeSecret_def)
  with d have f: "findByScopeVersion cx st EnvironmentScope i n org = Inr (Some (?h\<lparr>hv_envVars := ?plain\<rparr>))"
    using assms(2,5) by (simp add: findByScopeVersion_def decode_version_def)
  have "resolveOrganizationId st EnvironmentScope i \<noteq> None" using assms(2) by simp
  from secret_write_recorded [OF assms(1) this, of cx ?plain] obtain st1 where
    w: "write_variables cx EnvironmentScope i ?plain st = Inr st1" "scope_variables st1 EnvironmentScope i = Some (Some ?plain)"
    by auto
  from w(2) obtain e where e: "findById ev_id i (es_environments st1) = Some e" "ev_envVars e = Some ?plain"
    by (auto simp: scope_variables_def)
  from w(1) obtain e' where u: "update_environment cx i id (Some ?plain) st = Inr (e', st1)"
    by (auto simp: write_variables_def)
  have "restoreSecretVersion cx refused EnvironmentScope i n org st =
      enqueueSecretScopeDeployments refused EnvironmentScope i ''Restore secret version'' st1"
    using f u by (simp add: restoreSecretVersion_def)
  then have "es_environments (snd (restoreSecretVersion cx refused EnvironmentScope i n org st)) = es_environments st1"
    using enqueue_frame by (metis prod.collapse)
  moreover have "parseResourceEnvironmentVariables cx (Some ?plain) = []"
    using assms(4) by (intro parse_plain) (simp add: readable_def Let_def)
  ultimately show ?thesis using e by auto
qed

section \<open>A sample store\<close>

definition sample_variables :: variables where
  "sample_variables = [(''A'', ''1''), (''B'', ''2'')]"

definition sample_payload :: "(string \<times> jsval) list" where
  "sample_payload = [(''ciphertext'', JStr ''x''), (''iv'', JStr ''y''), (''authTag'', JStr ''z''), (''keyVersion'', JNum ''1'')]"

text \<open>A codec that knows one record: \<open>plain\<close> is its text and \<open>sealed\<close> its ciphertext.\<close>

definition codec_of :: "variables \<Rightarrow> codec" where
  "codec_of vs =
     \<lparr>en_json = (\<lambda>s. if s = ''sealed'' then Some (JObj sample_payload)
                    else if s = ''plain'' then Some (JObj (js_strings vs)) else None),
      en_decrypt = (\<lambda>p. Some ''plain''), en_otherConfig = (\<lambda>_. True), en_scopeSecret = Inr None,
      en_claims = (\<lambda>_ _ _ _ _. []), en_hmac = (\<lambda>_ _. []), en_production = False, en_localTarget = ([], []),
      cx_stringify = (\<lambda>v. if v = JObj sample_payload then ''sealed'' else ''plain''),
      cx_encrypt = (\<lambda>_. sample_payload), cx_base64 = id\<rparr>"

lemma plain_not_payload: "js_strings vs \<noteq> sample_payload"
proof
  assume "js_strings vs = sample_payload"
  moreover have "isEncryptedPayload (JObj sample_payload)"
    by (simp add: isEncryptedPayload_def sample_payload_def get_prop_def)
  ultimately show False using strings_not_encrypted by metis
qed

lemma codec_readable: "readable (codec_of vs) vs"
  by (simp add: readable_def codec_of_def Let_def plain_not_payload)
    (simp add: isEncryptedPayload_def sample_payload_def get_prop_def trim_def is_space_def code_def)

lemma sample_valid: "valid_variables sample_variables"
  by (simp add: valid_variables_def sample_variables_def ResourceEnvironmentVariableNameSchema_def variable_name_def
      len_def is_word_def is_alnum_def is_alpha_def is_digit_def code_def)

definition sample_environment :: "string \<Rightarrow> string option \<Rightarrow> bool \<Rightarrow> string option \<Rightarrow> environment" where
  "sample_environment i p b v =
     \<lparr>ev_id = i, ev_projectId = ''p'', ev_parentEnvironmentId = p, ev_inheritsVariables = b, ev_name = i, ev_slug = i,
      ev_description = None, ev_isDefault = False, ev_isProtected = False, ev_resourceCount = 0, ev_envVars = v\<rparr>"

definition sample_store :: secret_store where
  "sample_store =
     \<lparr>es_projects = [\<lparr>pj_id = ''p'', pj_organizationId = ''org'', pj_archivedAt = None\<rparr>],
      es_environments = [sample_environment ''base'' None False (Some ''sealed''), sample_environment ''child'' (Some ''base'') True None],
      es_secretVersions = [(''base'', 1)], es_resources = [],
      es_history = [\<lparr>hv_scopeType = EnvironmentScope, hv_scopeId = ''base'', hv_version = 1, hv_credentials = None,
         hv_buildSecrets = None, hv_buildEnvVars = None, hv_envVars = ''sealed''\<rparr>],
      es_schedules = [], es_queued = []\<rparr>"

lemmas sample_store_defs = sample_store_def sample_environment_def findById_def

lemma sample_bounded: "versions_bounded sample_store"
  by (simp add: versions_bounded_def current_version_def environment_version_def sample_store_def)

lemma sample_scope: "resolveOrganizationId sample_store EnvironmentScope ''base'' = Some ''org''"
  by (simp add: resolveOrganizationId_def environment_organization_def sample_store_defs)

lemma sample_sealed: "serializeResourceEnvironmentVariables (codec_of sample_variables) sample_variables = Inr ''sealed''"
  by (simp add: serialize_result sample_valid codec_of_def)

section \<open>Witnesses\<close>

theorem variables_roundtrip_witness:
  "parseResourceEnvironmentVariables (codec_of sample_variables) (Some ''sealed'') = sample_variables"
  using variables_roundtrip [OF sample_valid codec_readable] by (auto simp: sample_sealed)

theorem outermost_environment_wins_witness:
  "map_of (resolveEnvironmentVariables (codec_of sample_variables)
     [sample_environment ''base'' None False (Some ''sealed''), sample_environment ''child'' (Some ''base'') True None] ''child'') ''A'' =
   Some ''1''"
proof -
  let ?tbl = "[sample_environment ''base'' None False (Some ''sealed''), sample_environment ''child'' (Some ''base'') True None]"
  have f: "findAncestors ?tbl ''child'' = [?tbl ! 1, ?tbl ! 0]"
    by (simp add: findAncestors_def ancestors_loop.simps findById_def sample_environment_def)
  then have c: "included (findAncestors ?tbl ''child'') = [?tbl ! 1] @ [?tbl ! 0]"
    by (simp add: sample_environment_def)
  have o': "own_variables (codec_of sample_variables) (?tbl ! 0) = sample_variables"
    using parse_serialized [OF sample_sealed codec_readable] by (simp add: sample_environment_def)
  show ?thesis
    by (rule outermost_environment_wins [OF c]) (unfold o', simp_all add: sample_variables_def)
qed

theorem inheritance_stays_acyclic_witness:
  "\<exists>e' st'. updateEnvironment (codec_of sample_variables)
     \<lparr>ue_id = ''child'', ue_organizationId = Some ''org'', ue_name = None, ue_description = None,
      ue_parentEnvironmentId = Some None, ue_inheritsVariables = None, ue_envVars = None\<rparr> sample_store = Inr (e', st') \<and>
     acyclic (parent_edges (es_environments st'))"
proof -
  let ?input = "\<lparr>ue_id = ''child'', ue_organizationId = Some ''org'', ue_name = None, ue_description = None,
      ue_parentEnvironmentId = Some None, ue_inheritsVariables = None, ue_envVars = None\<rparr>"
  have "parent_edges (es_environments sample_store) \<subseteq> {(''child'', ''base'')}"
    by (auto simp: parent_edges_def sample_store_defs split: if_splits)
  then have a: "acyclic (parent_edges (es_environments sample_store))"
    by (rule acyclic_subset [rotated]) (simp add: acyclic_insert, simp add: acyclic_def)
  have "\<exists>e' st'. updateEnvironment (codec_of sample_variables) ?input sample_store = Inr (e', st')"
    by (simp add: updateEnvironment_def sample_store_defs parent_guards_def given_string_def update_environment_def
        updateById_def update_where_def patch_environment_def checks.simps throw_if_def given_def)
  with inheritance_stays_acyclic [OF a] show ?thesis by blast
qed

theorem secret_write_recorded_witness:
  "\<exists>st'. write_variables (codec_of sample_variables) EnvironmentScope ''base'' ''sealed'' sample_store = Inr st' \<and>
     scope_variables st' EnvironmentScope ''base'' = Some (Some ''sealed'')"
  using secret_write_recorded [OF sample_bounded, of EnvironmentScope "''base''" "codec_of sample_variables" "''sealed''"] sample_scope
  by auto

theorem restored_variables_lost_witness:
  "\<exists>e. findById ev_id ''base'' (es_environments (snd (restoreSecretVersion (codec_of sample_variables) (\<lambda>_. None)
     EnvironmentScope ''base'' 1 ''org'' sample_store))) = Some e \<and> ev_envVars e = Some ''plain'' \<and>
     parseResourceEnvironmentVariables (codec_of sample_variables) (ev_envVars e) = []"
proof -
  have p: "cx_stringify (codec_of sample_variables) (JObj (js_strings sample_variables)) = ''plain''"
    by (simp add: codec_of_def plain_not_payload)
  have "find (\<lambda>h. of_scope EnvironmentScope ''base'' h \<and> hv_version h = 1) (es_history sample_store) =
      Some \<lparr>hv_scopeType = EnvironmentScope, hv_scopeId = ''base'', hv_version = 1, hv_credentials = None,
            hv_buildSecrets = None, hv_buildEnvVars = None, hv_envVars = ''sealed''\<rparr>"
    by (simp add: sample_store_def of_scope_def)
  from restored_variables_lost [OF sample_bounded sample_scope sample_sealed codec_readable this] show ?thesis
    unfolding p by blast
qed

theorem rotation_exact_witness:
  "\<exists>rotated st' stored'. rotateSecretScope (codec_of sample_variables) (\<lambda>k. if k = ''A'' then ''12'' else ''23'')
     EnvironmentScope ''child'' [''A'', ''B''] 1 sample_store = Inr (rotated, st') \<and>
     scope_variables st' EnvironmentScope ''child'' = Some stored' \<and>
     map_of (parseResourceEnvironmentVariables (codec_of sample_variables) stored') ''B'' = Some ''2''"
proof -
  let ?cx = "codec_of sample_variables" and ?r = "\<lambda>k. if k = ''A'' then ''12'' else ''23''"
  have sc: "resolveOrganizationId sample_store EnvironmentScope ''child'' \<noteq> None"
    by (simp add: resolveOrganizationId_def environment_organization_def sample_store_defs)
  have sv: "scope_variables sample_store EnvironmentScope ''child'' = Some None"
    by (simp add: scope_variables_def sample_store_defs)
  have vs: "obj_assign (parseResourceEnvironmentVariables ?cx None) (rotated_values ?r [''A'', ''B''] 1) = sample_variables"
    by (simp add: parseResourceEnvironmentVariables_def rotated_values_def obj_assign_def sample_variables_def)
  obtain st' where "write_variables ?cx EnvironmentScope ''child'' ''sealed'' sample_store = Inr st'"
    using secret_write_recorded [OF sample_bounded sc] by blast
  then have rot: "rotateSecretScope ?cx ?r EnvironmentScope ''child'' [''A'', ''B''] 1 sample_store =
      Inr (obj_assign [] (rotated_values ?r [''A'', ''B''] 1), st')"
    by (simp add: rotateSecretScope_def sv vs [unfolded One_nat_def] sample_sealed Let_def)
  have rd: "readable ?cx (obj_assign (parseResourceEnvironmentVariables ?cx None) (rotated_values ?r [''A'', ''B''] 1))"
    unfolding vs by (rule codec_readable)
  from rotation_exact [OF rot sample_bounded sc sv rd, of "''B''"] rot show ?thesis by auto
qed

end
