(* ===== verification/Effects.thy ===== *)
theory Effects
  imports Prelude
begin

text \<open>
  Asynchronous functions that read and change a world and may throw: a computation maps the
  world to an error or a result and the new world, which an error does not undo. The locale
  \<open>step_relation\<close> is the contract of a reflexive and transitive relation between worlds: a
  computation built from parts that respect it respects it.
\<close>

named_theorems io_simps \<open>running a computation\<close>
named_theorems keeps_intros \<open>computations that respect a relation\<close>

type_synonym ('w, 'a) io = "'w \<Rightarrow> (string + 'a) \<times> 'w"

definition io_return :: "'a \<Rightarrow> ('w, 'a) io" where
  "io_return a w = (Inr a, w)"

definition io_throw :: "string \<Rightarrow> ('w, 'a) io" where
  "io_throw e w = (Inl e, w)"

definition io_bind :: "('w, 'a) io \<Rightarrow> ('a \<Rightarrow> ('w, 'b) io) \<Rightarrow> ('w, 'b) io" where
  "io_bind m f w = (case m w of (Inl e, w') \<Rightarrow> (Inl e, w') | (Inr a, w') \<Rightarrow> f a w')"

definition io_then :: "('w, 'a) io \<Rightarrow> ('w, 'b) io \<Rightarrow> ('w, 'b) io" where
  "io_then m n = io_bind m (\<lambda>_. n)"

definition io_catch :: "('w, 'a) io \<Rightarrow> (string \<Rightarrow> ('w, 'a) io) \<Rightarrow> ('w, 'a) io" where
  "io_catch m h w = (case m w of (Inl e, w') \<Rightarrow> h e w' | (Inr a, w') \<Rightarrow> (Inr a, w'))"

definition io_lift :: "string + 'a \<Rightarrow> ('w, 'a) io" where
  "io_lift r w = (r, w)"

definition io_get :: "('w \<Rightarrow> 'a) \<Rightarrow> ('w, 'a) io" where
  "io_get f w = (Inr (f w), w)"

definition io_modify :: "('w \<Rightarrow> 'w) \<Rightarrow> ('w, unit) io" where
  "io_modify f w = (Inr (), f w)"

definition io_when :: "bool \<Rightarrow> ('w, unit) io \<Rightarrow> ('w, unit) io" where
  "io_when b m = (if b then m else io_return ())"

text \<open>\<open>.catch(() => ...)\<close> of a call whose failure is only logged.\<close>

definition io_ignore :: "('w, unit) io \<Rightarrow> ('w, unit) io" where
  "io_ignore m = io_catch m (\<lambda>_. io_return ())"

text \<open>\<open>try ... finally\<close>: an error of the last block replaces the outcome.\<close>

definition io_finally :: "('w, 'a) io \<Rightarrow> ('w, unit) io \<Rightarrow> ('w, 'a) io" where
  "io_finally m f w =
     (case m w of (r, w') \<Rightarrow> (case f w' of (Inl e, w'') \<Rightarrow> (Inl e, w'') | (Inr _, w'') \<Rightarrow> (r, w'')))"

text \<open>One statement of a \<open>try\<close> block: its handler on an error, what follows it otherwise.\<close>

definition io_try :: "('w, 'a) io \<Rightarrow> (string \<Rightarrow> ('w, 'b) io) \<Rightarrow> ('a \<Rightarrow> ('w, 'b) io) \<Rightarrow> ('w, 'b) io" where
  "io_try m h f w = (case m w of (Inl e, w') \<Rightarrow> h e w' | (Inr a, w') \<Rightarrow> f a w')"

fun io_for :: "('a \<Rightarrow> ('w, unit) io) \<Rightarrow> 'a list \<Rightarrow> ('w, unit) io" where
  "io_for f [] = io_return ()"
| "io_for f (x # xs) = io_then (f x) (io_for f xs)"

lemma io_run [io_simps]:
  "io_return a w = (Inr a, w)" "io_throw e w = (Inl e, w)" "io_lift r w = (r, w)" "io_get g w = (Inr (g w), w)"
  "io_modify h w = (Inr (), h w)"
  by (simp_all add: io_return_def io_throw_def io_lift_def io_get_def io_modify_def)

lemma io_bind_Inr [io_simps]: "m w = (Inr a, w') \<Longrightarrow> io_bind m f w = f a w'"
  by (simp add: io_bind_def)

lemma io_bind_Inl [io_simps]: "m w = (Inl e, w') \<Longrightarrow> io_bind m f w = (Inl e, w')"
  by (simp add: io_bind_def)

lemma io_bind_result: "io_bind m f w = (Inr b, w') \<longleftrightarrow> (\<exists>a v. m w = (Inr a, v) \<and> f a v = (Inr b, w'))"
  by (auto simp: io_bind_def split: prod.splits sum.splits)

lemma io_then_result: "io_then m n w = (Inr b, w') \<longleftrightarrow> (\<exists>a v. m w = (Inr a, v) \<and> n v = (Inr b, w'))"
  by (simp add: io_then_def io_bind_result)

lemma io_bind_error: "io_bind m f w = (Inl e, w') \<longleftrightarrow> m w = (Inl e, w') \<or> (\<exists>a v. m w = (Inr a, v) \<and> f a v = (Inl e, w'))"
  by (auto simp: io_bind_def split: prod.splits sum.splits)

lemma io_catch_result: "io_catch m h w = (r, w') \<longleftrightarrow>
  (\<exists>a. m w = (Inr a, w') \<and> r = Inr a) \<or> (\<exists>e v. m w = (Inl e, v) \<and> h e v = (r, w'))"
  by (auto simp: io_catch_def split: prod.splits sum.splits)

lemma io_ignore_ok: "\<exists>v. io_ignore m w = (Inr (), v)"
  by (cases "m w"; cases "fst (m w)") (auto simp: io_ignore_def io_catch_def io_return_def)

section \<open>Relations a computation respects\<close>

definition keeps :: "('w \<Rightarrow> 'w \<Rightarrow> bool) \<Rightarrow> ('w, 'a) io \<Rightarrow> bool" where
  "keeps R m \<longleftrightarrow> (\<forall>w. R w (snd (m w)))"

lemma keepsD: "keeps R m \<Longrightarrow> m w = (r, w') \<Longrightarrow> R w w'"
  by (metis keeps_def snd_conv)

locale step_relation =
  fixes R :: "'w \<Rightarrow> 'w \<Rightarrow> bool"
  assumes refl: "R w w"
    and trans: "R u v \<Longrightarrow> R v w \<Longrightarrow> R u w"
begin

lemma keeps_return [keeps_intros]: "keeps R (io_return a)"
  by (simp add: keeps_def io_return_def refl)

lemma keeps_throw [keeps_intros]: "keeps R (io_throw e)"
  by (simp add: keeps_def io_throw_def refl)

lemma keeps_lift [keeps_intros]: "keeps R (io_lift r)"
  by (simp add: keeps_def io_lift_def refl)

lemma keeps_get [keeps_intros]: "keeps R (io_get f)"
  by (simp add: keeps_def io_get_def refl)

lemma keeps_bind [keeps_intros]: "keeps R m \<Longrightarrow> (\<And>a. keeps R (f a)) \<Longrightarrow> keeps R (io_bind m f)"
  unfolding keeps_def io_bind_def by (auto split: prod.splits sum.splits) (metis snd_conv trans)+

lemma keeps_then [keeps_intros]: "keeps R m \<Longrightarrow> keeps R n \<Longrightarrow> keeps R (io_then m n)"
  unfolding io_then_def by (rule keeps_bind)

lemma keeps_catch [keeps_intros]: "keeps R m \<Longrightarrow> (\<And>e. keeps R (h e)) \<Longrightarrow> keeps R (io_catch m h)"
  unfolding keeps_def io_catch_def by (auto split: prod.splits sum.splits) (metis snd_conv trans)+

lemma keeps_try [keeps_intros]:
  "keeps R m \<Longrightarrow> (\<And>e. keeps R (h e)) \<Longrightarrow> (\<And>a. keeps R (f a)) \<Longrightarrow> keeps R (io_try m h f)"
  unfolding keeps_def io_try_def by (auto split: prod.splits sum.splits) (metis snd_conv trans)+

lemma keeps_ignore [keeps_intros]: "keeps R m \<Longrightarrow> keeps R (io_ignore m)"
  unfolding io_ignore_def by (intro keeps_catch keeps_return)

lemma keeps_finally [keeps_intros]: "keeps R m \<Longrightarrow> keeps R f \<Longrightarrow> keeps R (io_finally m f)"
  unfolding keeps_def io_finally_def by (auto split: prod.splits sum.splits) (metis snd_conv trans)+

lemma keeps_modify: "(\<And>w. R w (h w)) \<Longrightarrow> keeps R (io_modify h)"
  by (simp add: keeps_def io_modify_def)

lemma keeps_when [keeps_intros]: "keeps R m \<Longrightarrow> keeps R (io_when b m)"
  by (simp add: io_when_def keeps_return)

lemma keeps_for [keeps_intros]: "(\<And>x. keeps R (f x)) \<Longrightarrow> keeps R (io_for f xs)"
  by (induction xs) (auto intro: keeps_return keeps_then)

lemma keeps_if [keeps_intros]: "keeps R m \<Longrightarrow> keeps R n \<Longrightarrow> keeps R (if b then m else n)"
  by simp

lemma keeps_option [keeps_intros]:
  "keeps R m \<Longrightarrow> (\<And>a. keeps R (f a)) \<Longrightarrow> keeps R (case x of None \<Rightarrow> m | Some a \<Rightarrow> f a)"
  by (cases x) auto

lemma keeps_sum [keeps_intros]:
  "(\<And>a. keeps R (f a)) \<Longrightarrow> (\<And>b. keeps R (g b)) \<Longrightarrow> keeps R (case x of Inl a \<Rightarrow> f a | Inr b \<Rightarrow> g b)"
  by (cases x) auto

lemma keeps_prod [keeps_intros]: "(\<And>a b. keeps R (f a b)) \<Longrightarrow> keeps R (case x of (a, b) \<Rightarrow> f a b)"
  by (cases x) auto

lemma keeps_let [keeps_intros]: "keeps R (f x) \<Longrightarrow> keeps R (let y = x in f y)"
  by simp

end

end
