(* ===== verification/Advanced_Config.thy ===== *)
theory Advanced_Config
  imports Secret_Store Complex_Main
begin

text \<open>
  The parts of the advanced configuration of a resource that steer a deployment:
  \<open>parseResourceAdvancedConfig\<close> of \<open>domain/src/entities/resource.ts\<close>. A configuration
  that is not valid as a whole counts as the default one; whether the parts that are not
  modelled are valid is the parameter \<open>en_otherConfig\<close>. Numbers are read from their text
  without an exponent.
\<close>

section \<open>Numbers\<close>

definition js_rat :: "string \<Rightarrow> rat option" where
  "js_rat s =
     (let (sign, digits) = (case s of c # t \<Rightarrow> if c = CHR ''-'' then (-1, t) else (1, s) | [] \<Rightarrow> (1, s)) in
      case split_on CHR ''.'' digits of
        [i] \<Rightarrow> if i \<noteq> [] \<and> list_all is_digit i then Some (sign * rat_of_int (decimal i)) else None
      | [i, f] \<Rightarrow>
          if i \<noteq> [] \<and> f \<noteq> [] \<and> list_all is_digit i \<and> list_all is_digit f
          then Some (sign * (rat_of_int (decimal i) + rat_of_int (decimal f) / 10 ^ length f)) else None
      | _ \<Rightarrow> None)"

definition number_in :: "rat \<Rightarrow> rat \<Rightarrow> jsval \<Rightarrow> rat option" where
  "number_in lo hi v =
     (case v of JNum n \<Rightarrow> (case js_rat n of Some x \<Rightarrow> if lo \<le> x \<and> x \<le> hi then Some x else None | None \<Rightarrow> None) | _ \<Rightarrow> None)"

definition integer_in :: "int \<Rightarrow> int \<Rightarrow> jsval \<Rightarrow> int option" where
  "integer_in lo hi v =
     (case number_in (rat_of_int lo) (rat_of_int hi) v of
        Some x \<Rightarrow> if x \<in> \<int> then Some \<lfloor>x\<rfloor> else None | None \<Rightarrow> None)"

text \<open>An optional field, and one with a default: \<open>None\<close> when the value is not valid.\<close>

definition optional_field :: "(jsval \<Rightarrow> 'a option) \<Rightarrow> jsval \<Rightarrow> 'a option option" where
  "optional_field p v = (if v = JUndefined then Some None else map_option Some (p v))"

definition default_field :: "'a \<Rightarrow> (jsval \<Rightarrow> 'a option) \<Rightarrow> jsval \<Rightarrow> 'a option" where
  "default_field d p v = (if v = JUndefined then Some d else p v)"

definition boolean :: "jsval \<Rightarrow> bool option" where
  "boolean v = (case v of JBool b \<Rightarrow> Some b | _ \<Rightarrow> None)"

definition enum_value :: "string list \<Rightarrow> jsval \<Rightarrow> string option" where
  "enum_value names v = (case v of JStr s \<Rightarrow> if s \<in> set names then Some s else None | _ \<Rightarrow> None)"

definition SafeCommandTextSchema :: "int \<Rightarrow> jsval \<Rightarrow> string option" where
  "SafeCommandTextSchema n v =
     (case v of
        JStr s \<Rightarrow>
          (let t = trim s in if len t \<le> n \<and> \<not> list_ex (\<lambda>c. code c < 32 \<or> code c = 127) t then Some t else None)
      | _ \<Rightarrow> None)"

section \<open>Strategy and hooks\<close>

record deployment_strategy =
  ds_type :: string
  ds_canaryReplicas :: "int option"
  ds_canaryPercent :: "rat option"
  ds_bakeTimeSeconds :: int
  ds_steps :: "int list"
  ds_automaticRollback :: bool

definition default_strategy :: deployment_strategy where
  "default_strategy =
     \<lparr>ds_type = ''rolling'', ds_canaryReplicas = None, ds_canaryPercent = None, ds_bakeTimeSeconds = 60,
      ds_steps = [], ds_automaticRollback = True\<rparr>"

definition parse_steps :: "jsval \<Rightarrow> int list option" where
  "parse_steps v =
     (case v of
        JArr xs \<Rightarrow>
          if len xs \<le> 20 \<and> list_all (\<lambda>x. integer_in 1 100 x \<noteq> None) xs
          then Some (map (\<lambda>x. the (integer_in 1 100 x)) xs) else None
      | _ \<Rightarrow> None)"

definition parse_strategy :: "jsval \<Rightarrow> deployment_strategy option" where
  "parse_strategy v =
     (case v of
        JUndefined \<Rightarrow> Some default_strategy
      | JObj c \<Rightarrow>
          (case (default_field ''rolling'' (enum_value [''rolling'', ''canary'', ''blue-green'', ''progressive'']) (get_prop c ''type''),
                 optional_field (integer_in 1 1000) (get_prop c ''canaryReplicas''),
                 optional_field (number_in 1 99) (get_prop c ''canaryPercent''),
                 default_field 60 (integer_in 0 86400) (get_prop c ''bakeTimeSeconds''),
                 default_field [] parse_steps (get_prop c ''steps''),
                 default_field True boolean (get_prop c ''automaticRollback'')) of
             (Some t, Some r, Some p, Some b, Some s, Some a) \<Rightarrow>
               Some \<lparr>ds_type = t, ds_canaryReplicas = r, ds_canaryPercent = p, ds_bakeTimeSeconds = b,
                     ds_steps = s, ds_automaticRollback = a\<rparr>
           | _ \<Rightarrow> None)
      | _ \<Rightarrow> None)"

record deploy_hook =
  dh_command :: "string option"
  dh_enabled :: bool
  dh_timeoutSeconds :: int
  dh_onFailure :: string

definition default_hook :: deploy_hook where
  "default_hook = \<lparr>dh_command = None, dh_enabled = False, dh_timeoutSeconds = 300, dh_onFailure = ''warn''\<rparr>"

text \<open>Only the hook after a deployment has a failure policy.\<close>

definition parse_hook :: "bool \<Rightarrow> jsval \<Rightarrow> deploy_hook option" where
  "parse_hook policy v =
     (case v of
        JUndefined \<Rightarrow> Some default_hook
      | JObj c \<Rightarrow>
          (case (optional_field (SafeCommandTextSchema 1024) (get_prop c ''command''),
                 default_field False boolean (get_prop c ''enabled''),
                 default_field 300 (integer_in 10 1800) (get_prop c ''timeoutSeconds''),
                 if policy then default_field ''warn'' (enum_value [''warn'', ''fail'']) (get_prop c ''onFailure'') else Some ''warn'') of
             (Some m, Some e, Some t, Some f) \<Rightarrow>
               Some \<lparr>dh_command = m, dh_enabled = e, dh_timeoutSeconds = t, dh_onFailure = f\<rparr>
           | _ \<Rightarrow> None)
      | _ \<Rightarrow> None)"

definition parse_replication :: "jsval \<Rightarrow> bool option" where
  "parse_replication v =
     (case v of
        JUndefined \<Rightarrow> Some False
      | JObj c \<Rightarrow> default_field False boolean (get_prop c ''enabled'')
      | _ \<Rightarrow> None)"

type_synonym traffic_split = "string \<times> rat"

definition parse_split :: "jsval \<Rightarrow> traffic_split option" where
  "parse_split v =
     (case v of
        JObj c \<Rightarrow>
          (case (get_prop c ''serviceName'', integer_in 1 100 (get_prop c ''weight'')) of
             (JStr s, Some n) \<Rightarrow>
               if trim s \<noteq> [] \<and> len (trim s) \<le> 253 then Some (trim s, rat_of_int n) else None
           | _ \<Rightarrow> None)
      | _ \<Rightarrow> None)"

definition parse_splits :: "jsval \<Rightarrow> traffic_split list option" where
  "parse_splits v =
     (case v of
        JUndefined \<Rightarrow> Some []
      | JArr xs \<Rightarrow>
          if len xs \<le> 8 \<and> list_all (\<lambda>x. parse_split x \<noteq> None) xs then Some (map (\<lambda>x. the (parse_split x)) xs) else None
      | _ \<Rightarrow> None)"

text \<open>\<open>ac_document\<close> holds the entries that print back to the configuration.\<close>

record advanced_config =
  ac_reliability :: deployment_reliability
  ac_strategy :: deployment_strategy
  ac_preDeployHook :: deploy_hook
  ac_postDeployHook :: deploy_hook
  ac_replicationEnabled :: bool
  ac_replicas :: "int option"
  ac_trafficSplits :: "traffic_split list"
  ac_document :: "(string \<times> jsval) list"

definition DEFAULT_RESOURCE_ADVANCED_CONFIG :: advanced_config where
  "DEFAULT_RESOURCE_ADVANCED_CONFIG =
     \<lparr>ac_reliability = default_reliability, ac_strategy = default_strategy, ac_preDeployHook = default_hook,
      ac_postDeployHook = default_hook, ac_replicationEnabled = False, ac_replicas = None, ac_trafficSplits = [],
      ac_document = []\<rparr>"

definition ResourceAdvancedConfigSchema :: "'z codec_scheme \<Rightarrow> (string \<times> jsval) list \<Rightarrow> advanced_config option" where
  "ResourceAdvancedConfigSchema cx c =
     (if \<not> en_otherConfig cx c then None
      else case (parse_reliability (get_prop c ''deploymentReliability''), parse_strategy (get_prop c ''deploymentStrategy''),
                 parse_hook False (get_prop c ''preDeployHook''), parse_hook True (get_prop c ''postDeployHook''),
                 parse_replication (get_prop c ''databaseReplication''),
                 optional_field (integer_in 0 1000) (get_prop c ''replicas''), parse_splits (get_prop c ''trafficSplits'')) of
          (Some r, Some s, Some pre, Some post, Some d, Some n, Some t) \<Rightarrow>
            Some \<lparr>ac_reliability = r, ac_strategy = s, ac_preDeployHook = pre, ac_postDeployHook = post,
                  ac_replicationEnabled = d, ac_replicas = n, ac_trafficSplits = t, ac_document = c\<rparr>
        | _ \<Rightarrow> None)"

definition parse_advanced_config :: "'z codec_scheme \<Rightarrow> string option \<Rightarrow> advanced_config" where
  "parse_advanced_config cx v =
     (case v of
        None \<Rightarrow> DEFAULT_RESOURCE_ADVANCED_CONFIG
      | Some s \<Rightarrow>
          if s = [] then DEFAULT_RESOURCE_ADVANCED_CONFIG
          else case en_json cx s of
              Some (JObj c) \<Rightarrow>
                (case ResourceAdvancedConfigSchema cx c of Some a \<Rightarrow> a | None \<Rightarrow> DEFAULT_RESOURCE_ADVANCED_CONFIG)
            | _ \<Rightarrow> DEFAULT_RESOURCE_ADVANCED_CONFIG)"

section \<open>Traffic\<close>

definition stagedTrafficPercentages :: "string \<Rightarrow> rat option \<Rightarrow> int list \<Rightarrow> rat list" where
  "stagedTrafficPercentages strategy canaryPercent steps =
     (if strategy = ''rolling'' \<or> strategy = ''blue-green'' then [100]
      else if strategy = ''canary'' then unique [or_default canaryPercent 10, 100]
      else unique (sort (unique (map rat_of_int (filter (\<lambda>step. 0 < step \<and> step \<le> 100) steps))) @ [100]))"

text \<open>The weights of the two services.\<close>

definition traffic_splits :: "string \<Rightarrow> string \<Rightarrow> rat \<Rightarrow> traffic_split list" where
  "traffic_splits baseServiceName revisionServiceName revisionPercent =
     (if revisionPercent \<ge> 100 then [(revisionServiceName, 100)]
      else [(baseServiceName, max 1 (100 - revisionPercent)), (revisionServiceName, max 1 revisionPercent)])"

end
