(* ===== verification/Secret_References.thy ===== *)
theory Secret_References
  imports Environment_Guarantees
begin

text \<open>
  References to external secret providers:
  \<open>usecases/src/secrets/secret-reference-resolver.ts\<close>, the provider queries of
  \<open>repositories/src/secret/drizzle-secret-provider.repository.ts\<close> and the provider use cases
  of \<open>usecases/src/secrets/secret-version.usecases.ts\<close>. The providers are called one after
  the other, in the order in which their first references occur; the code starts the calls
  together and reports the first failure. The port that reads a provider is a parameter,
  \<open>None\<close> when it does not offer reading by reference.
\<close>

section \<open>The pattern\<close>

definition provider_char :: "char \<Rightarrow> bool" where
  "provider_char c \<longleftrightarrow> is_alnum c \<or> c = CHR ''_'' \<or> c = CHR ''-''"

definition reference_char :: "char \<Rightarrow> bool" where
  "reference_char c \<longleftrightarrow> c \<noteq> CHR ''}'' \<and> code c \<noteq> 13 \<and> code c \<noteq> 10"

definition SECRET_PROVIDER_REFERENCE_PATTERN :: "(string \<times> string) matcher" where
  "SECRET_PROVIDER_REFERENCE_PATTERN s =
     (case strip ''${{vault.'' s of
        None \<Rightarrow> None
      | Some s1 \<Rightarrow>
          let name = takeWhile provider_char s1 in
          case strip ''.'' (dropWhile provider_char s1) of
            None \<Rightarrow> None
          | Some s2 \<Rightarrow>
              let reference = takeWhile reference_char s2 in
              if name = [] \<or> reference = [] \<or> len reference > 512 then None
              else case strip ''}}'' (dropWhile reference_char s2) of
                  None \<Rightarrow> None
                | Some rest \<Rightarrow> Some ((name, reference), length s - length rest))"

definition containsSecretProviderReference :: "string \<Rightarrow> bool" where
  "containsSecretProviderReference v \<longleftrightarrow> match_all SECRET_PROVIDER_REFERENCE_PATTERN v \<noteq> []"

section \<open>Providers\<close>

record secret_provider =
  pv_id :: string
  pv_organizationId :: string
  pv_name :: string
  pv_provider :: string
  pv_enabled :: bool
  pv_encryptedConfiguration :: string

record resolution_scope =
  sc_organizationId :: string
  sc_projectId :: string
  sc_environmentId :: "string option"

type_synonym reference_reader = "string \<Rightarrow> (string \<times> jsval) list \<Rightarrow> string list \<Rightarrow> string + variables"

definition findEnabledConfigurationsByOrganizationId ::
  "string \<Rightarrow> secret_provider list \<Rightarrow> string + secret_provider list" where
  "findEnabledConfigurationsByOrganizationId organizationId tbl =
     (let rows = take (nat (MAX_REPOSITORY_READS + 1)) (filter (\<lambda>p. pv_organizationId p = organizationId \<and> pv_enabled p) tbl)
      in if len rows > MAX_REPOSITORY_READS
         then Inl ''Secret provider discovery exceeded the maximum supported row count'' else Inr rows)"

definition decryptConfiguration :: "'z codec_scheme \<Rightarrow> string \<Rightarrow> string + (string \<times> jsval) list" where
  "decryptConfiguration cx v =
     (case (case en_json cx v of Some parsed \<Rightarrow> decrypt_document cx parsed | None \<Rightarrow> None) of
        Some (JObj decoded) \<Rightarrow> Inr decoded
      | _ \<Rightarrow> Inl ''Secret provider configuration could not be decrypted'')"

definition parse_assignment :: "jsval \<Rightarrow> (string \<times> string list) option" where
  "parse_assignment v =
     (case v of
        JObj c \<Rightarrow>
          (case (get_prop c ''projectId'', get_prop c ''environmentIds'') of
             (JStr p, JUndefined) \<Rightarrow> if p = [] then None else Some (p, [])
           | (JStr p, JArr es) \<Rightarrow>
               if p = [] \<or> \<not> list_all (\<lambda>e. is_string e \<and> e \<noteq> JStr []) es then None
               else Some (p, map js_string es)
           | _ \<Rightarrow> None)
      | _ \<Rightarrow> None)"

definition assigns :: "resolution_scope \<Rightarrow> string \<times> string list \<Rightarrow> bool" where
  "assigns scope assignment \<longleftrightarrow>
     fst assignment = sc_projectId scope \<and>
     (snd assignment = [] \<or> \<not> given_string (sc_environmentId scope) \<or>
      the (sc_environmentId scope) \<in> set (snd assignment))"

definition isProviderAssigned :: "jsval \<Rightarrow> resolution_scope \<Rightarrow> string + bool" where
  "isProviderAssigned assignments scope =
     (case assignments of
        JUndefined \<Rightarrow> Inr True
      | JArr vs \<Rightarrow>
          if list_all (\<lambda>v. parse_assignment v \<noteq> None) vs
          then Inr (list_ex (\<lambda>v. assigns scope (the (parse_assignment v))) vs)
          else Inl ''Secret provider assignments are invalid''
      | _ \<Rightarrow> Inl ''Secret provider assignments are invalid'')"

definition referenceKey :: "string \<Rightarrow> string \<Rightarrow> string" where
  "referenceKey providerName reference = providerName @ CHR 0x00 # reference"

section \<open>Resolution\<close>

text \<open>Every reference of the values: provider name and trimmed reference.\<close>

definition references :: "string list \<Rightarrow> (string \<times> string) list" where
  "references values =
     concat (map (\<lambda>v. map (\<lambda>(p, r). (p, trim r)) (match_all SECRET_PROVIDER_REFERENCE_PATTERN v)) values)"

definition not_found :: "string \<Rightarrow> string \<Rightarrow> string" where
  "not_found reference providerName = ''Secret \"'' @ reference @ ''\" not found in provider \"'' @ providerName @ ''\"''"

fun collect :: "string \<Rightarrow> variables \<Rightarrow> string list \<Rightarrow> variables \<Rightarrow> string + variables" where
  "collect providerName fetched [] resolved = Inr resolved"
| "collect providerName fetched (r # rs) resolved =
     (case map_of fetched r of
        None \<Rightarrow> Inl (not_found r providerName)
      | Some v \<Rightarrow> collect providerName fetched rs (obj_set (referenceKey providerName r) v resolved))"

definition resolve_provider ::
  "'z codec_scheme \<Rightarrow> reference_reader \<Rightarrow> resolution_scope \<Rightarrow> secret_provider list \<Rightarrow> string \<Rightarrow> string list \<Rightarrow>
   variables \<Rightarrow> string + variables" where
  "resolve_provider cx read scope providers providerName refs resolved =
     (case find (\<lambda>p. pv_name p = providerName) providers of
        None \<Rightarrow> Inl (''Secret provider \"'' @ providerName @ ''\" not found. Configure it in Settings > Secret Providers.'')
      | Some provider \<Rightarrow>
          (case decryptConfiguration cx (pv_encryptedConfiguration provider) of
             Inl e \<Rightarrow> Inl e
           | Inr stored \<Rightarrow>
               (case isProviderAssigned (get_prop stored ''__upstandAssignments'') scope of
                  Inl e \<Rightarrow> Inl e
                | Inr False \<Rightarrow> Inl (''Secret provider \"'' @ providerName @ ''\" is not enabled for this project/environment.'')
                | Inr True \<Rightarrow>
                    (case read (pv_provider provider) (filter (\<lambda>(k, _). k \<noteq> ''__upstandAssignments'') stored) refs of
                       Inl e \<Rightarrow> Inl e
                     | Inr fetched \<Rightarrow> collect providerName fetched refs resolved))))"

fun resolve_providers ::
  "'z codec_scheme \<Rightarrow> reference_reader \<Rightarrow> resolution_scope \<Rightarrow> secret_provider list \<Rightarrow> (string \<times> string) list \<Rightarrow>
   string list \<Rightarrow> variables \<Rightarrow> string + variables" where
  "resolve_providers cx read scope providers refs [] resolved = Inr resolved"
| "resolve_providers cx read scope providers refs (name # names) resolved =
     (case resolve_provider cx read scope providers name (unique (map snd (filter (\<lambda>x. fst x = name) refs))) resolved of
        Inl e \<Rightarrow> Inl e
      | Inr resolved' \<Rightarrow> resolve_providers cx read scope providers refs names resolved')"

definition replace_reference :: "variables \<Rightarrow> string \<times> string \<Rightarrow> string" where
  "replace_reference resolved = (\<lambda>(p, r). value_or_empty resolved (referenceKey p (trim r)))"

definition resolveValues ::
  "'z codec_scheme \<Rightarrow> reference_reader option \<Rightarrow> secret_provider list \<Rightarrow> resolution_scope \<Rightarrow> string list \<Rightarrow>
   string + string list" where
  "resolveValues cx readReferences tbl scope values =
     (let refs = references values in
      if refs = [] then Inr values
      else case readReferences of
          None \<Rightarrow> Inl ''External secret reference resolution is unavailable''
        | Some read \<Rightarrow>
            if list_ex (\<lambda>x. snd x = []) refs then Inl ''External secret references must include a provider reference''
            else case findEnabledConfigurationsByOrganizationId (sc_organizationId scope) tbl of
                Inl e \<Rightarrow> Inl e
              | Inr providers \<Rightarrow>
                  (case resolve_providers cx read scope providers refs (unique (map fst refs)) [] of
                     Inl e \<Rightarrow> Inl e
                   | Inr resolved \<Rightarrow>
                       if list_all (\<lambda>(p, r). map_of resolved (referenceKey p r) \<noteq> None) refs
                       then Inr (map (replace_all SECRET_PROVIDER_REFERENCE_PATTERN (replace_reference resolved)) values)
                       else Inl ''Secret was not resolved from provider''))"

definition resolveSecretProviderReferences ::
  "'z codec_scheme \<Rightarrow> reference_reader option \<Rightarrow> secret_provider list \<Rightarrow> resolution_scope \<Rightarrow> string option \<Rightarrow>
   string + string option" where
  "resolveSecretProviderReferences cx readReferences tbl scope v =
     (case v of
        None \<Rightarrow> Inr None
      | Some s \<Rightarrow> map_sum id (\<lambda>rs. Some (hd rs)) (resolveValues cx readReferences tbl scope [s]))"

definition resolveSecretProviderReferencesInValues ::
  "'z codec_scheme \<Rightarrow> reference_reader option \<Rightarrow> secret_provider list \<Rightarrow> resolution_scope \<Rightarrow> variables \<Rightarrow>
   string + variables" where
  "resolveSecretProviderReferencesInValues cx readReferences tbl scope values =
     map_sum id (zip (map fst values)) (resolveValues cx readReferences tbl scope (map snd values))"

section \<open>Provider use cases\<close>

definition createSecretProvider ::
  "'z codec_scheme \<Rightarrow> string \<Rightarrow> string \<Rightarrow> string \<Rightarrow> string \<Rightarrow> variables \<Rightarrow> jsval option \<Rightarrow> secret_provider list \<Rightarrow>
   secret_provider \<times> secret_provider list" where
  "createSecretProvider cx uuid organizationId name provider configuration assignments tbl =
     (let stored = obj_set ''providerType'' (JStr provider) (js_strings configuration);
          stored' = (case assignments of Some a \<Rightarrow> obj_set ''__upstandAssignments'' a stored | None \<Rightarrow> stored);
          row = \<lparr>pv_id = uuid, pv_organizationId = organizationId, pv_name = name, pv_provider = provider,
                 pv_enabled = True,
                 pv_encryptedConfiguration = cx_stringify cx (JObj (cx_encrypt cx (cx_stringify cx (JObj stored'))))\<rparr>
      in (row, tbl @ [row]))"

definition owned_provider :: "string \<Rightarrow> string option \<Rightarrow> secret_provider list \<Rightarrow> string + secret_provider" where
  "owned_provider i organizationId tbl =
     (case findById pv_id i tbl of
        None \<Rightarrow> Inl ''Secret provider not found''
      | Some current \<Rightarrow>
          if organizationId \<noteq> Some (pv_organizationId current)
          then Inl ''Secret provider belongs to another organization'' else Inr current)"

definition deleteSecretProvider ::
  "string \<Rightarrow> string option \<Rightarrow> secret_provider list \<Rightarrow> (string + bool) \<times> secret_provider list" where
  "deleteSecretProvider i organizationId tbl =
     (case owned_provider i organizationId tbl of
        Inl e \<Rightarrow> (Inl e, tbl)
      | Inr _ \<Rightarrow> (case deleteById pv_id i tbl of (deleted, tbl') \<Rightarrow> (Inr deleted, tbl')))"

text \<open>A stored configuration that cannot be read counts as empty here.\<close>

definition updateSecretProvider ::
  "'z codec_scheme \<Rightarrow> string \<Rightarrow> string option \<Rightarrow> string option \<Rightarrow> variables option \<Rightarrow> jsval option \<Rightarrow> bool option \<Rightarrow>
   secret_provider list \<Rightarrow> (string + secret_provider option) \<times> secret_provider list" where
  "updateSecretProvider cx i organizationId name configuration assignments enabled tbl =
     (case owned_provider i organizationId tbl of
        Inl e \<Rightarrow> (Inl e, tbl)
      | Inr current \<Rightarrow>
          let existing = (case decryptConfiguration cx (pv_encryptedConfiguration current) of Inr c \<Rightarrow> c | Inl _ \<Rightarrow> []);
              merged = obj_assign existing (js_strings (given configuration []));
              assigned = (case assignments of Some a \<Rightarrow> obj_set ''__upstandAssignments'' a merged | None \<Rightarrow> merged);
              next = obj_set ''providerType'' (JStr (pv_provider current)) assigned;
              stored = (if configuration = None \<and> assignments = None then None
                        else Some (cx_stringify cx (JObj (cx_encrypt cx (cx_stringify cx (JObj next))))))
          in case updateById pv_id i (\<lambda>p. p\<lparr>pv_name := given name (pv_name p), pv_enabled := given enabled (pv_enabled p),
                    pv_encryptedConfiguration := given stored (pv_encryptedConfiguration p)\<rparr>) tbl of
               (updated, tbl') \<Rightarrow> (Inr updated, tbl'))"

section \<open>Where a resolved value comes from\<close>

text \<open>A provider without assignments serves its organization, one with assignments the projects it names.\<close>

definition assigned_to :: "jsval \<Rightarrow> resolution_scope \<Rightarrow> bool" where
  "assigned_to assignments scope \<longleftrightarrow>
     assignments = JUndefined \<or>
     (\<exists>vs v a. assignments = JArr vs \<and> v \<in> set vs \<and> parse_assignment v = Some a \<and> assigns scope a)"

lemma provider_assigned: "isProviderAssigned assignments scope = Inr True \<Longrightarrow> assigned_to assignments scope"
  by (auto simp: isProviderAssigned_def assigned_to_def list_ex_iff list_all_iff split: jsval.splits if_splits) fastforce

text \<open>The provider a reference may be read from, and the value it gives.\<close>

definition provider_value ::
  "'z codec_scheme \<Rightarrow> reference_reader \<Rightarrow> resolution_scope \<Rightarrow> secret_provider list \<Rightarrow> string \<Rightarrow> string \<Rightarrow> string \<Rightarrow> bool" where
  "provider_value cx read scope tbl providerName reference v \<longleftrightarrow>
     (\<exists>p stored refs fetched. p \<in> set tbl \<and> pv_organizationId p = sc_organizationId scope \<and> pv_enabled p \<and> pv_name p = providerName \<and>
        decryptConfiguration cx (pv_encryptedConfiguration p) = Inr stored \<and>
        assigned_to (get_prop stored ''__upstandAssignments'') scope \<and>
        read (pv_provider p) (filter (\<lambda>(k, _). k \<noteq> ''__upstandAssignments'') stored) refs = Inr fetched \<and>
        map_of fetched reference = Some v)"

lemma takeWhile_provider_char: "c \<in> set (takeWhile provider_char s) \<Longrightarrow> c \<noteq> CHR 0x00"
  by (auto dest!: set_takeWhileD simp: provider_char_def is_alnum_def is_alpha_def is_digit_def code_def)

lemma pattern_name: "SECRET_PROVIDER_REFERENCE_PATTERN s = Some ((p, r), n) \<Longrightarrow> CHR 0x00 \<notin> set p"
  using takeWhile_provider_char
  by (fastforce simp: SECRET_PROVIDER_REFERENCE_PATTERN_def Let_def split: option.splits if_splits)

lemma match_all_matched: "x \<in> set (match_all m s) \<Longrightarrow> \<exists>t n. m t = Some (x, n)"
  by (induction m s rule: match_all.induct) (auto split: option.splits)

lemma references_name: "(p, r) \<in> set (references values) \<Longrightarrow> CHR 0x00 \<notin> set p"
  by (auto simp: references_def dest!: match_all_matched dest: pattern_name)

lemma referenceKey_inj:
  assumes "CHR 0x00 \<notin> set p" "CHR 0x00 \<notin> set q" "referenceKey p r = referenceKey q s"
  shows "p = q \<and> r = s"
  using assms unfolding referenceKey_def
proof (induction p arbitrary: q)
  case Nil
  then show ?case by (cases q) auto
next
  case (Cons c p)
  then show ?case by (cases q) auto
qed

lemma referenceKey_same [simp]: "referenceKey p r = referenceKey p s \<longleftrightarrow> r = s"
  by (simp add: referenceKey_def)

lemma collect_other:
  "collect name fetched rs resolved = Inr resolved' \<Longrightarrow> \<forall>r \<in> set rs. referenceKey name r \<noteq> k \<Longrightarrow>
   map_of resolved' k = map_of resolved k"
  by (induction rs arbitrary: resolved) (auto split: option.splits)

lemma collect_found:
  "collect name fetched rs resolved = Inr resolved' \<Longrightarrow> r \<in> set rs \<Longrightarrow>
   \<exists>v. map_of fetched r = Some v \<and> map_of resolved' (referenceKey name r) = Some v"
proof (induction rs arbitrary: resolved)
  case (Cons q rs)
  from Cons.prems(1) obtain v where v: "map_of fetched q = Some v"
    "collect name fetched rs (obj_set (referenceKey name q) v resolved) = Inr resolved'"
    by (auto split: option.splits)
  show ?case
  proof (cases "r \<in> set rs")
    case True
    with Cons.IH v(2) show ?thesis by blast
  next
    case False
    with Cons.prems(2) have "r = q" by simp
    with collect_other [OF v(2), of "referenceKey name q"] v(1) False show ?thesis by auto
  qed
qed simp

lemma enabled_providers:
  "findEnabledConfigurationsByOrganizationId org tbl = Inr ps \<Longrightarrow> p \<in> set ps \<Longrightarrow>
   p \<in> set tbl \<and> pv_organizationId p = org \<and> pv_enabled p"
  by (auto simp: findEnabledConfigurationsByOrganizationId_def Let_def split: if_splits dest: in_set_takeD)

lemma resolve_provider_sound:
  assumes "resolve_provider cx read scope ps name rs resolved = Inr resolved'"
    and "\<And>p. p \<in> set ps \<Longrightarrow> p \<in> set tbl \<and> pv_organizationId p = sc_organizationId scope \<and> pv_enabled p"
  shows "r \<in> set rs \<Longrightarrow> \<exists>v. map_of resolved' (referenceKey name r) = Some v \<and> provider_value cx read scope tbl name r v"
    and "\<forall>r \<in> set rs. referenceKey name r \<noteq> k \<Longrightarrow> map_of resolved' k = map_of resolved k"
proof -
  from assms(1) obtain p stored fetched where p: "find (\<lambda>p. pv_name p = name) ps = Some p"
    "decryptConfiguration cx (pv_encryptedConfiguration p) = Inr stored"
    "isProviderAssigned (get_prop stored ''__upstandAssignments'') scope = Inr True"
    "read (pv_provider p) (filter (\<lambda>(k, _). k \<noteq> ''__upstandAssignments'') stored) rs = Inr fetched"
    "collect name fetched rs resolved = Inr resolved'"
    by (auto simp: resolve_provider_def split: option.splits sum.splits bool.splits)
  from p(1) have "p \<in> set ps" "pv_name p = name" by (auto simp: find_Some_iff)
  with assms(2) have "p \<in> set tbl" "pv_organizationId p = sc_organizationId scope" "pv_enabled p" "pv_name p = name" by auto
  with p have "provider_value cx read scope tbl name r v" if "map_of fetched r = Some v" for r v
    unfolding provider_value_def using that
    by (intro exI [of _ p] exI [of _ stored] exI [of _ rs] exI [of _ fetched]) (simp add: provider_assigned)
  then show "\<exists>v. map_of resolved' (referenceKey name r) = Some v \<and> provider_value cx read scope tbl name r v"
    if "r \<in> set rs" using collect_found [OF p(5) that] by blast
  from collect_other [OF p(5)] show "map_of resolved' k = map_of resolved k" if "\<forall>r \<in> set rs. referenceKey name r \<noteq> k"
    using that by blast
qed

lemma resolve_providers_sound:
  assumes "resolve_providers cx read scope ps refs names resolved = Inr resolved'" "distinct names"
    and "\<And>p. p \<in> set ps \<Longrightarrow> p \<in> set tbl \<and> pv_organizationId p = sc_organizationId scope \<and> pv_enabled p"
    and "\<And>n. n \<in> set names \<Longrightarrow> CHR 0x00 \<notin> set n" "CHR 0x00 \<notin> set name"
  shows "if name \<in> set names \<and> (name, r) \<in> set refs
    then \<exists>v. map_of resolved' (referenceKey name r) = Some v \<and> provider_value cx read scope tbl name r v
    else name \<in> set names \<or> map_of resolved' (referenceKey name r) = map_of resolved (referenceKey name r)"
  using assms
proof (induction names arbitrary: resolved)
  case (Cons n names)
  let ?rs = "unique (map snd (filter (\<lambda>x. fst x = n) refs))"
  from Cons.prems(1) obtain mid where mid: "resolve_provider cx read scope ps n ?rs resolved = Inr mid"
    "resolve_providers cx read scope ps refs names mid = Inr resolved'"
    by (auto split: sum.splits)
  have IH: "if name \<in> set names \<and> (name, r) \<in> set refs
    then \<exists>v. map_of resolved' (referenceKey name r) = Some v \<and> provider_value cx read scope tbl name r v
    else name \<in> set names \<or> map_of resolved' (referenceKey name r) = map_of mid (referenceKey name r)"
    using Cons.IH [OF mid(2)] Cons.prems by simp
  show ?case
  proof (cases "name = n")
    case True
    with Cons.prems(2) have out: "name \<notin> set names" by auto
    with IH have eq: "map_of resolved' (referenceKey name r) = map_of mid (referenceKey name r)" by simp
    have "r \<in> set ?rs" if "(name, r) \<in> set refs" using that True by force
    with resolve_provider_sound(1) [OF mid(1) Cons.prems(3)] True eq show ?thesis by auto
  next
    case False
    have "referenceKey n q \<noteq> referenceKey name r" for q
      using False Cons.prems(4,5) referenceKey_inj [of n name q r] by auto
    then have "map_of mid (referenceKey name r) = map_of resolved (referenceKey name r)"
      using resolve_provider_sound(2) [OF mid(1) Cons.prems(3)] by blast
    with IH False show ?thesis by auto
  qed
qed simp

text \<open>
  C19. A resolved value comes from a provider that may be used: when resolution succeeds, every
  reference of the values was read from an enabled provider of the organization that is
  assigned to the project and environment, and the values are the originals with each reference
  replaced by what was read for it.
\<close>

theorem secrets_from_assigned_providers:
  assumes "resolveValues cx (Some read) tbl scope values = Inr result"
  shows "\<exists>f. result = map (replace_all SECRET_PROVIDER_REFERENCE_PATTERN (\<lambda>(p, r). f p (trim r))) values \<and>
    (\<forall>(p, r) \<in> set (references values). provider_value cx read scope tbl p r (f p r))"
proof (cases "references values = []")
  case True
  with assms have "result = values" by (simp add: resolveValues_def)
  moreover have "replace_all SECRET_PROVIDER_REFERENCE_PATTERN g v = v" if "v \<in> set values" for v g
    using True that by (intro replace_all_no_match) (auto simp: references_def)
  ultimately show ?thesis using True by (intro exI [of _ "\<lambda>_ _. []"]) (simp add: map_idI)
next
  case False
  let ?refs = "references values"
  from False assms obtain ps resolved where r:
    "findEnabledConfigurationsByOrganizationId (sc_organizationId scope) tbl = Inr ps"
    "resolve_providers cx read scope ps ?refs (unique (map fst ?refs)) [] = Inr resolved"
    "result = map (replace_all SECRET_PROVIDER_REFERENCE_PATTERN (replace_reference resolved)) values"
    by (auto simp: resolveValues_def Let_def split: sum.splits if_splits)
  let ?f = "\<lambda>p r. value_or_empty resolved (referenceKey p r)"
  have "provider_value cx read scope tbl p q (?f p q)" if "(p, q) \<in> set ?refs" for p q
  proof -
    from that have "p \<in> set (unique (map fst ?refs))" by force
    moreover have "\<And>n. n \<in> set (unique (map fst ?refs)) \<Longrightarrow> CHR 0x00 \<notin> set n" using references_name by auto
    ultimately show ?thesis
      using resolve_providers_sound [OF r(2) distinct_unique, where tbl = tbl and name = p and r = q]
        enabled_providers [OF r(1)] that by (auto simp: value_or_empty_def)
  qed
  then show ?thesis using r(3) by (intro exI [of _ ?f]) (auto simp: replace_reference_def)
qed

text \<open>
  Resolution fails closed: a reference to a provider that the organization does not have
  enabled is an error, whatever other organizations have.
\<close>

theorem unknown_provider_refused:
  assumes "(name, r) \<in> set (references values)"
    and "\<forall>p \<in> set tbl. pv_name p = name \<longrightarrow> pv_organizationId p \<noteq> sc_organizationId scope \<or> \<not> pv_enabled p"
  shows "\<exists>e. resolveValues cx readReferences tbl scope values = Inl e"
proof (rule ccontr)
  assume "\<nexists>e. resolveValues cx readReferences tbl scope values = Inl e"
  then obtain result where ok: "resolveValues cx readReferences tbl scope values = Inr result"
    by (cases "resolveValues cx readReferences tbl scope values") auto
  show False
  proof (cases readReferences)
    case None
    with ok assms(1) show ?thesis by (auto simp: resolveValues_def Let_def split: if_splits)
  next
    case (Some read)
    with secrets_from_assigned_providers ok assms(1) obtain v where "provider_value cx read scope tbl name r v" by blast
    with assms(2) show ?thesis by (auto simp: provider_value_def)
  qed
qed

section \<open>Witnesses\<close>

definition sample_provider :: secret_provider where
  "sample_provider =
     \<lparr>pv_id = ''1'', pv_organizationId = ''org'', pv_name = ''main'', pv_provider = ''vault'', pv_enabled = True,
      pv_encryptedConfiguration = ''sealed''\<rparr>"

definition sample_reader :: reference_reader where
  "sample_reader provider configuration refs = Inr (map (\<lambda>r. (r, ''v-'' @ r)) refs)"

definition sample_scope :: resolution_scope where
  "sample_scope = \<lparr>sc_organizationId = ''org'', sc_projectId = ''p'', sc_environmentId = None\<rparr>"

lemma sample_references: "references [''a=${{vault.main.k}}''] = [(''main'', ''k'')]"
  by code_simp

theorem secrets_from_assigned_providers_witness:
  "\<exists>result v. resolveValues (codec_of sample_variables) (Some sample_reader) [sample_provider] sample_scope [''a=${{vault.main.k}}''] =
     Inr result \<and> provider_value (codec_of sample_variables) sample_reader sample_scope [sample_provider] ''main'' ''k'' v"
proof -
  let ?cx = "codec_of sample_variables"
  have d: "decryptConfiguration ?cx ''sealed'' = Inr (js_strings sample_variables)"
    by (simp add: decryptConfiguration_def decrypt_document_def codec_of_def)
  have "get_prop (js_strings sample_variables) ''__upstandAssignments'' = JUndefined"
    by (simp add: get_prop_js_strings sample_variables_def)
  then have "resolve_provider ?cx sample_reader sample_scope [sample_provider] ''main'' [''k''] [] = Inr [(referenceKey ''main'' ''k'', ''v-k'')]"
    by (simp add: resolve_provider_def sample_provider_def d isProviderAssigned_def sample_reader_def)
  then have "\<exists>result. resolveValues ?cx (Some sample_reader) [sample_provider] sample_scope [''a=${{vault.main.k}}''] = Inr result"
    by (simp add: resolveValues_def sample_references Let_def findEnabledConfigurationsByOrganizationId_def sample_scope_def
        sample_provider_def MAX_REPOSITORY_READS_def len_def unique_def)
  then obtain result where ok:
    "resolveValues ?cx (Some sample_reader) [sample_provider] sample_scope [''a=${{vault.main.k}}''] = Inr result" ..
  from secrets_from_assigned_providers [OF this] ok show ?thesis by (auto simp: sample_references)
qed

theorem unknown_provider_refused_witness:
  "\<exists>e. resolveValues (codec_of sample_variables) (Some sample_reader) [sample_provider\<lparr>pv_organizationId := ''other''\<rparr>] sample_scope
     [''a=${{vault.main.k}}''] = Inl e"
  by (rule unknown_provider_refused [where name = "''main''" and r = "''k''"])
    (simp_all add: sample_references sample_provider_def sample_scope_def)

end
