(* ===== verification/Git_Source.thy ===== *)
theory Git_Source
  imports Net_Policy Secret_Store
begin

text \<open>
  Where a deployment gets its source and its image, and what it logs:
  \<open>usecases/src/git-provider/git-url-sanitizer.ts\<close>,
  \<open>usecases/src/deployment/git-source-auth.ts\<close>,
  \<open>usecases/src/deployment/build-registry.ts\<close>,
  \<open>usecases/src/deployment/deployment-log-safety.ts\<close> and
  \<open>usecases/src/deployment/deployment-cancellation.ts\<close>. The URL parser, its printer,
  \<open>decodeURIComponent\<close> (\<open>None\<close> when it throws) and base64 are parameters.
\<close>

section \<open>Repository addresses\<close>

record url_library =
  ul_parse :: url_parser
  ul_print :: "url \<Rightarrow> string"
  ul_decode :: "string \<Rightarrow> string option"
  ul_base64 :: "string \<Rightarrow> string"

definition control_character :: "char \<Rightarrow> bool" where
  "control_character c \<longleftrightarrow> code c = 13 \<or> code c = 10 \<or> code c = 0"

definition scp_user_char :: "char \<Rightarrow> bool" where
  "scp_user_char c \<longleftrightarrow> c \<noteq> CHR ''/'' \<and> c \<noteq> CHR ''@'' \<and> \<not> is_space c \<and> c \<noteq> CHR '':''"

definition scp_host_char :: "char \<Rightarrow> bool" where
  "scp_host_char c \<longleftrightarrow> c \<noteq> CHR ''/'' \<and> \<not> is_space c \<and> c \<noteq> CHR '':''"

text \<open>The text after \<open>[...]:\<close>, and after a host without brackets and a colon.\<close>

definition bracket_host :: "string \<Rightarrow> string option" where
  "bracket_host s =
     (case s of
        [] \<Rightarrow> None
      | c # t \<Rightarrow>
          if c = CHR ''['' \<and> takeWhile (\<lambda>x. x \<noteq> CHR '']'') t \<noteq> []
          then strip '']:'' (dropWhile (\<lambda>x. x \<noteq> CHR '']'') t) else None)"

definition plain_host :: "string \<Rightarrow> string option" where
  "plain_host s = (if takeWhile scp_host_char s = [] then None else strip '':'' (dropWhile scp_host_char s))"

definition scp_path :: "string \<Rightarrow> string option" where
  "scp_path s =
     (if takeWhile scp_user_char s = [] then None
      else case strip ''@'' (dropWhile scp_user_char s) of
          None \<Rightarrow> None
        | Some t \<Rightarrow> (case bracket_host t of Some p \<Rightarrow> Some p | None \<Rightarrow> plain_host t))"

definition isScpStyleSshUrl :: "string \<Rightarrow> bool" where
  "isScpStyleSshUrl s \<longleftrightarrow> (case scp_path s of Some p \<Rightarrow> p \<noteq> [] | None \<Rightarrow> False)"

definition isSshGitUrl :: "string \<Rightarrow> bool" where
  "isSshGitUrl s \<longleftrightarrow> starts_with ''ssh://'' s \<or> scp_path s \<noteq> None"

definition sanitizeGitUrl :: "url_library \<Rightarrow> string \<Rightarrow> string + string" where
  "sanitizeGitUrl ul rawUrl =
     (if list_ex control_character rawUrl then Inl ''Git URL contains invalid control characters''
      else let url = trim rawUrl in
        if url = [] then Inl ''Git URL cannot be empty''
        else if starts_with ''-'' url then Inl ''Git URL cannot start with a dash or flag parameter''
        else if list_ex is_space url then Inl ''Git URL cannot contain whitespace''
        else if isScpStyleSshUrl url then Inr url
        else case ul_parse ul url of
            None \<Rightarrow> Inl ''Git URL must use HTTPS or SSH''
          | Some parsed \<Rightarrow>
              if url_protocol parsed \<notin> {''https:'', ''ssh:''} \<or> url_hostname parsed = []
              then Inl ''Git URL must use HTTPS or SSH'' else Inr (ul_print ul parsed))"

definition git_ref_char :: "char \<Rightarrow> bool" where
  "git_ref_char c \<longleftrightarrow> is_alnum c \<or> c \<in> {CHR ''.'', CHR ''_'', CHR ''/'', CHR ''-''}"

definition assertSafeGitRef :: "string \<Rightarrow> string + string" where
  "assertSafeGitRef v =
     (let ref = trim v in
      if ref = [] \<or> len ref > 255 \<or> starts_with ''-'' ref \<or> str_includes ''..'' ref \<or> str_includes [CHR ''@'', CHR 0x7B] ref \<or>
         CHR 0x5C \<in> set ref \<or> str_includes ''//'' ref \<or>
         list_ex (\<lambda>part. part = [] \<or> part = ''.'' \<or> part = ''..'') (split_on (CHR ''/'') ref) \<or>
         ends_with ''.'' ref \<or> ends_with ''.lock'' ref \<or>
         list_ex (\<lambda>c. code c \<le> 31 \<or> code c = 127) ref \<or> \<not> list_all git_ref_char ref
      then Inl ''Git branch or tag is not a valid Git reference'' else Inr ref)"

section \<open>Credentials of a repository\<close>

definition incomplete_credentials :: string where
  "incomplete_credentials = ''Git provider credentials are incomplete''"

definition createGitBasicAuthEnvironment :: "url_library \<Rightarrow> string \<Rightarrow> string \<Rightarrow> string + variables" where
  "createGitBasicAuthEnvironment ul username password =
     (if username = [] \<or> password = [] then Inl incomplete_credentials
      else Inr [(''GIT_CONFIG_COUNT'', ''1''), (''GIT_CONFIG_KEY_0'', ''http.extraHeader''),
                (''GIT_CONFIG_VALUE_0'', ''Authorization: Basic '' @ ul_base64 ul (username @ '':'' @ password)),
                (''GIT_TERMINAL_PROMPT'', ''0'')])"

definition invalid_repository :: string where
  "invalid_repository = ''Git repository URL is invalid''"

text \<open>
  The address to clone and the environment that carries the credentials. The catch block passes
  on the error about incomplete credentials and replaces every other one.
\<close>

definition removeGitUrlCredentials :: "url_library \<Rightarrow> string \<Rightarrow> string + string \<times> variables option" where
  "removeGitUrlCredentials ul v =
     (case sanitizeGitUrl ul v of
        Inl e \<Rightarrow> Inl e
      | Inr _ \<Rightarrow>
          (case ul_parse ul v of
             None \<Rightarrow> Inl invalid_repository
           | Some url \<Rightarrow>
               if url_protocol url \<notin> {''http:'', ''https:''} then Inr (v, None)
               else if url_username url = [] \<and> url_password url = [] then Inr (v, None)
               else case (ul_decode ul (url_username url), ul_decode ul (url_password url)) of
                   (Some username, Some password) \<Rightarrow>
                     (case createGitBasicAuthEnvironment ul username password of
                        Inl e \<Rightarrow> Inl e
                      | Inr g \<Rightarrow> Inr (ul_print ul (url\<lparr>url_username := [], url_password := []\<rparr>), Some g))
                 | _ \<Rightarrow> Inl invalid_repository))"

section \<open>Image tags\<close>

fun drop_leading :: "char set \<Rightarrow> string \<Rightarrow> string" where
  "drop_leading cs [] = []"
| "drop_leading cs (c # s) = (if c \<in> cs then drop_leading cs s else c # s)"

definition drop_trailing :: "char set \<Rightarrow> string \<Rightarrow> string" where
  "drop_trailing cs s = rev (drop_leading cs (rev s))"

definition trimProtocolAndSlashes :: "string \<Rightarrow> string" where
  "trimProtocolAndSlashes v =
     (let s = trim v;
          t = (if starts_with ''https://'' s then drop 8 s else if starts_with ''http://'' s then drop 7 s else s)
      in drop_trailing {CHR ''/''} t)"

definition trimSlashes :: "string \<Rightarrow> string" where
  "trimSlashes v = drop_trailing {CHR ''/''} (drop_leading {CHR ''/''} (trim v))"

definition tag_char :: "char \<Rightarrow> bool" where
  "tag_char c \<longleftrightarrow> (97 \<le> code c \<and> code c \<le> 122) \<or> is_digit c \<or> c = CHR ''_'' \<or> c = CHR ''.'' \<or> c = CHR ''-''"

text \<open>The loop over the characters, with its early exit at 120.\<close>

fun normalize_tag :: "string \<Rightarrow> string \<Rightarrow> string" where
  "normalize_tag normalized [] = normalized"
| "normalize_tag normalized (c # cs) =
     (let normalized' = (if tag_char c then normalized @ [c]
                         else if ends_with ''-'' normalized then normalized else normalized @ ''-'')
      in if len normalized' \<ge> 120 then normalized' else normalize_tag normalized' cs)"

definition normalizeBuildImageTag :: "string option \<Rightarrow> string" where
  "normalizeBuildImageTag v =
     (let source = toLowerCase (trim (or_default v []));
          normalized = drop_trailing {CHR ''.'', CHR ''-''} (drop_leading {CHR ''.'', CHR ''-''} (normalize_tag [] source))
      in if normalized = [] then ''latest'' else normalized)"

text \<open>\<open>.replace(/[^a-z0-9._-]+/g, "-")\<close>.\<close>

fun dash_runs :: "bool \<Rightarrow> string \<Rightarrow> string" where
  "dash_runs inRun [] = []"
| "dash_runs inRun (c # cs) =
     (if tag_char c then c # dash_runs False cs
      else if inRun then dash_runs True cs else CHR ''-'' # dash_runs True cs)"

definition buildRegistryImageTag :: "string option \<Rightarrow> string option \<Rightarrow> string \<Rightarrow> string option \<Rightarrow> string" where
  "buildRegistryImageTag registryUrl imagePrefix serviceName deploymentId =
     (let host = trimProtocolAndSlashes (or_default registryUrl []);
          prefix = trimSlashes (or_default imagePrefix []);
          repository = join ''/'' (filter (\<lambda>s. s \<noteq> []) [host, prefix, dash_runs False (toLowerCase (trim serviceName))])
      in (if repository = [] then ''upstand'' else repository) @ '':'' @ normalizeBuildImageTag deploymentId)"

definition sanitizeName :: "string \<Rightarrow> string" where
  "sanitizeName name =
     map (\<lambda>c. if (97 \<le> code c \<and> code c \<le> 122) \<or> is_digit c \<or> c = CHR ''_'' \<or> c = CHR ''-'' then c else CHR ''-'')
       (trim (toLowerCase name))"

section \<open>Bounded logs\<close>

definition MAX_DEPLOYMENT_LOG_BYTES :: int where
  "MAX_DEPLOYMENT_LOG_BYTES = 2 * 1024 * 1024"

definition TRUNCATION_MARKER :: string where
  "TRUNCATION_MARKER = ''[Earlier deployment logs truncated]'' @ [CHR 0x0A]"

text \<open>A pattern with a word boundary also looks at the character before the match.\<close>

fun replace_after :: "(char option \<Rightarrow> 'a matcher) \<Rightarrow> ('a \<Rightarrow> string) \<Rightarrow> char option \<Rightarrow> string \<Rightarrow> string" where
  "replace_after m f previous [] = []"
| "replace_after m f previous (c # cs) =
     (case m previous (c # cs) of
        Some (captures, n) \<Rightarrow> f captures @ replace_after m f (Some ((c # cs) ! (n - 1))) (drop (n - 1) cs)
      | None \<Rightarrow> c # replace_after m f (Some c) cs)"

definition boundary_before :: "char option \<Rightarrow> bool" where
  "boundary_before previous \<longleftrightarrow> (case previous of Some c \<Rightarrow> \<not> is_word c | None \<Rightarrow> True)"

definition boundary_after :: "string \<Rightarrow> bool" where
  "boundary_after s \<longleftrightarrow> (case s of c # _ \<Rightarrow> \<not> is_word c | [] \<Rightarrow> True)"

text \<open>A literal, whatever the case of the letters.\<close>

definition strip_nocase :: "string \<Rightarrow> string \<Rightarrow> string option" where
  "strip_nocase p s = (if length p \<le> length s \<and> toLowerCase (take (length p) s) = p then Some (drop (length p) s) else None)"

fun first_some :: "'b option list \<Rightarrow> 'b option" where
  "first_some [] = None"
| "first_some (x # xs) = (case x of Some y \<Rightarrow> Some y | None \<Rightarrow> first_some xs)"

text \<open>\<open>-----BEGIN [A-Z ]*PRIVATE KEY-----\<close>, and with \<open>END\<close>.\<close>

definition upper_or_space :: "char \<Rightarrow> bool" where
  "upper_or_space c \<longleftrightarrow> (65 \<le> code c \<and> code c \<le> 90) \<or> c = CHR '' ''"

definition key_line :: "string \<Rightarrow> string \<Rightarrow> string option" where
  "key_line word s =
     (case strip (''-----'' @ word @ '' '') s of
        None \<Rightarrow> None
      | Some t \<Rightarrow>
          if ends_with ''PRIVATE KEY'' (takeWhile upper_or_space t)
          then strip ''-----'' (dropWhile upper_or_space t) else None)"

fun key_end :: "string \<Rightarrow> string option" where
  "key_end [] = None"
| "key_end (c # cs) = (case key_line ''END'' (c # cs) of Some rest \<Rightarrow> Some rest | None \<Rightarrow> key_end cs)"

definition PRIVATE_KEY :: "unit matcher" where
  "PRIVATE_KEY s =
     (case key_line ''BEGIN'' s of
        None \<Rightarrow> None
      | Some t \<Rightarrow> map_option (\<lambda>rest. ((), length s - length rest)) (key_end t))"

definition URL_CREDENTIALS :: "string matcher" where
  "URL_CREDENTIALS s =
     (case first_some [map_option (\<lambda>t. (take 8 s, t)) (strip_nocase ''https://'' s),
                       map_option (\<lambda>t. (take 7 s, t)) (strip_nocase ''http://'' s)] of
        None \<Rightarrow> None
      | Some (scheme, t) \<Rightarrow>
          let user_char = (\<lambda>c. \<not> is_space c \<and> c \<noteq> CHR ''/'' \<and> c \<noteq> CHR ''@'' \<and> c \<noteq> CHR '':'');
              password_char = (\<lambda>c. \<not> is_space c \<and> c \<noteq> CHR ''/'' \<and> c \<noteq> CHR ''@'')
          in if takeWhile user_char t = [] then None
             else case strip '':'' (dropWhile user_char t) of
                 None \<Rightarrow> None
               | Some u \<Rightarrow>
                   if takeWhile password_char u = [] then None
                   else map_option (\<lambda>rest. (scheme, length s - length rest)) (strip ''@'' (dropWhile password_char u)))"

text \<open>\<open>\s*[:=]\s*\<close>, keeping what follows.\<close>

definition assignment_sign :: "string \<Rightarrow> string option" where
  "assignment_sign s =
     (case dropWhile is_space s of
        c # t \<Rightarrow> if c = CHR '':'' \<or> c = CHR ''='' then Some (dropWhile is_space t) else None
      | [] \<Rightarrow> None)"

definition AUTHORIZATION :: "char option \<Rightarrow> string matcher" where
  "AUTHORIZATION previous s =
     (if \<not> boundary_before previous then None
      else case strip_nocase ''authorization'' s of
          None \<Rightarrow> None
        | Some t \<Rightarrow>
            (case assignment_sign t of
               None \<Rightarrow> None
             | Some u \<Rightarrow>
                 (case first_some [strip_nocase ''bearer'' u, strip_nocase ''basic'' u] of
                    None \<Rightarrow> None
                  | Some v \<Rightarrow>
                      let w = dropWhile is_space v in
                      if w = v \<or> w = [] then None
                      else Some (take (length s - length u) s, length s - length (dropWhile (\<lambda>c. \<not> is_space c) w)))))"

definition sensitive_words :: "string list" where
  "sensitive_words =
     [''password'', ''passwd'', ''secret'', ''token'', ''api_key'', ''api-key'', ''apikey'',
      ''private_key'', ''private-key'', ''privatekey'', ''database_url'']"

definition SENSITIVE_ASSIGNMENT :: "char option \<Rightarrow> string matcher" where
  "SENSITIVE_ASSIGNMENT previous s =
     (if \<not> boundary_before previous then None
      else case first_some (map (\<lambda>p. case strip_nocase p s of
                 Some t \<Rightarrow> if boundary_after t then Some t else None | None \<Rightarrow> None) sensitive_words) of
          None \<Rightarrow> None
        | Some t \<Rightarrow>
            (case assignment_sign t of
               None \<Rightarrow> None
             | Some u \<Rightarrow>
                 let value_char = (\<lambda>c. \<not> is_space c \<and> c \<noteq> CHR '','' \<and> c \<noteq> CHR '';'') in
                 if takeWhile value_char u = [] then None
                 else Some (take (length s - length t) s, length s - length (dropWhile value_char u))))"

definition redactDeploymentLog :: "string \<Rightarrow> string" where
  "redactDeploymentLog input =
     (let a = replace_all PRIVATE_KEY (\<lambda>_. ''[REDACTED PRIVATE KEY]'') input;
          b = replace_all URL_CREDENTIALS (\<lambda>scheme. scheme @ ''[REDACTED]@'') a;
          c = replace_after AUTHORIZATION (\<lambda>lead. lead @ ''[REDACTED]'') None b
      in replace_after SENSITIVE_ASSIGNMENT (\<lambda>name. name @ ''=[REDACTED]'') None c)"

fun shrink :: "int \<Rightarrow> string \<Rightarrow> string" where
  "shrink budget [] = []"
| "shrink budget (c # cs) = (if utf8_length (c # cs) > budget then shrink budget cs else c # cs)"

definition appendBoundedDeploymentLog :: "string \<Rightarrow> string \<Rightarrow> string" where
  "appendBoundedDeploymentLog current piece =
     (let combined = current @ redactDeploymentLog piece in
      if utf8_length combined \<le> MAX_DEPLOYMENT_LOG_BYTES then combined
      else let budget = MAX_DEPLOYMENT_LOG_BYTES - utf8_length TRUNCATION_MARKER;
               last_part = drop (length combined - nat budget) combined
           in TRUNCATION_MARKER @ shrink budget last_part)"

section \<open>Cancellation in memory\<close>

definition LOCAL_CANCELLATION_TTL_MS :: int where
  "LOCAL_CANCELLATION_TTL_MS = 3600000"

definition deploymentCancellationKey :: "string \<Rightarrow> string" where
  "deploymentCancellationKey deploymentId = ''upstand:deployment:cancel:'' @ deploymentId"

definition requestLocalDeploymentCancellation :: "string \<Rightarrow> int \<Rightarrow> (string \<times> int) list \<Rightarrow> (string \<times> int) list" where
  "requestLocalDeploymentCancellation key now m =
     obj_set key (now + LOCAL_CANCELLATION_TTL_MS) (filter (\<lambda>(_, expiresAt). \<not> expiresAt \<le> now) m)"

definition isLocalDeploymentCancellationRequested ::
  "string \<Rightarrow> int \<Rightarrow> (string \<times> int) list \<Rightarrow> bool \<times> (string \<times> int) list" where
  "isLocalDeploymentCancellationRequested key now m =
     (case map_of m key of
        None \<Rightarrow> (False, m)
      | Some expiresAt \<Rightarrow> if expiresAt \<le> now then (False, filter (\<lambda>(k, _). k \<noteq> key) m) else (True, m))"

definition clearLocalDeploymentCancellation :: "string \<Rightarrow> (string \<times> int) list \<Rightarrow> (string \<times> int) list" where
  "clearLocalDeploymentCancellation key m = filter (\<lambda>(k, _). k \<noteq> key) m"

section \<open>Guarantees\<close>

lemma utf8_length_append [simp]: "utf8_length (a @ b) = utf8_length a + utf8_length b"
  by (simp add: utf8_length_def)

lemma utf8_length_nonneg [simp]: "0 \<le> utf8_length s"
  unfolding utf8_length_def by (rule sum_list_nonneg) auto

lemma shrink_bound: "0 \<le> budget \<Longrightarrow> utf8_length (shrink budget s) \<le> budget"
  by (induction budget s rule: shrink.induct) (auto simp: utf8_length_def)

lemma shrink_suffix: "\<exists>p. s = p @ shrink budget s"
proof (induction budget s rule: shrink.induct)
  case (2 budget c cs)
  show ?case
  proof (cases "utf8_length (c # cs) > budget")
    case True
    with 2 obtain p where "cs = p @ shrink budget cs" by blast
    then have "c # cs = (c # p) @ shrink budget cs" by simp
    with True show ?thesis by (metis shrink.simps(2))
  qed auto
qed simp

lemma marker_length: "utf8_length TRUNCATION_MARKER = 36"
  by code_simp

text \<open>
  The stored log is bounded and keeps its newest part: after any line is appended to any log,
  the result has at most two mebibytes, and it is the whole log or the truncation marker
  followed by an end of it.
\<close>

theorem deployment_log_bounded:
  "utf8_length (appendBoundedDeploymentLog current piece) \<le> MAX_DEPLOYMENT_LOG_BYTES \<and>
   (\<exists>p kept. current @ redactDeploymentLog piece = p @ kept \<and>
      appendBoundedDeploymentLog current piece \<in> {kept, TRUNCATION_MARKER @ kept} \<and>
      (p = [] \<or> utf8_length (current @ redactDeploymentLog piece) > MAX_DEPLOYMENT_LOG_BYTES))"
proof (cases "utf8_length (current @ redactDeploymentLog piece) \<le> MAX_DEPLOYMENT_LOG_BYTES")
  case True
  then show ?thesis by (auto simp: appendBoundedDeploymentLog_def Let_def)
next
  case False
  define combined where "combined = current @ redactDeploymentLog piece"
  define budget where "budget = MAX_DEPLOYMENT_LOG_BYTES - utf8_length TRUNCATION_MARKER"
  define rest where "rest = drop (length combined - nat budget) combined"
  have r: "appendBoundedDeploymentLog current piece = TRUNCATION_MARKER @ shrink budget rest"
    using False by (simp add: appendBoundedDeploymentLog_def Let_def combined_def budget_def rest_def)
  have "0 \<le> budget" by (simp add: budget_def marker_length MAX_DEPLOYMENT_LOG_BYTES_def)
  then have "utf8_length (TRUNCATION_MARKER @ shrink budget rest) \<le> MAX_DEPLOYMENT_LOG_BYTES"
    using shrink_bound [of budget rest] by (simp add: budget_def)
  moreover obtain p where "rest = p @ shrink budget rest" using shrink_suffix by blast
  then have "combined = (take (length combined - nat budget) combined @ p) @ shrink budget rest"
    unfolding rest_def by (metis append.assoc append_take_drop_id)
  then have "\<exists>p. combined = p @ shrink budget rest" by blast
  ultimately show ?thesis unfolding r using False by (simp flip: combined_def) blast
qed

text \<open>
  A repository address in the form \<open>user@host:path\<close> is accepted by the sanitizer and then
  always refused, since the URL parser does not read it.
\<close>

theorem scp_address_refused:
  assumes "isScpStyleSshUrl v" "\<not> list_ex control_character v" "\<not> list_ex is_space v" "\<not> starts_with ''-'' v"
    and "ul_parse ul v = None"
  shows "sanitizeGitUrl ul v = Inr v \<and> isSshGitUrl v \<and> removeGitUrlCredentials ul v = Inl invalid_repository"
proof -
  have "trim v = v" using assms(3) by (intro trim_id) (auto simp: list_ex_iff)
  moreover have "v \<noteq> []" using assms(1) by (auto simp: isScpStyleSshUrl_def scp_path_def)
  ultimately have "sanitizeGitUrl ul v = Inr v" using assms by (simp add: sanitizeGitUrl_def Let_def)
  with assms show ?thesis by (auto simp: removeGitUrlCredentials_def isSshGitUrl_def isScpStyleSshUrl_def split: option.splits)
qed

theorem scp_address_refused_witness:
  "removeGitUrlCredentials \<lparr>ul_parse = \<lambda>_. None, ul_print = \<lambda>_. [], ul_decode = Some, ul_base64 = id\<rparr> ''git@host:shop'' =
     Inl invalid_repository"
proof -
  let ?ul = "\<lparr>ul_parse = \<lambda>_. None, ul_print = \<lambda>_. [], ul_decode = Some, ul_base64 = id\<rparr>"
  have "isScpStyleSshUrl ''git@host:shop''" "\<not> list_ex control_character ''git@host:shop''"
    "\<not> list_ex is_space ''git@host:shop''" "\<not> starts_with ''-'' ''git@host:shop''" by code_simp+
  from scp_address_refused [OF this, of ?ul] show ?thesis by simp
qed

text \<open>
  Credentials never stay in an address that is cloned over HTTP: what is passed to git parses to
  a URL without user and password, and a password that was there travels in the environment.
\<close>

theorem clone_url_without_credentials:
  assumes "removeGitUrlCredentials ul v = Inr (cloneUrl, environment)"
    and "ul_parse ul v = Some url" "url_protocol url \<in> {''http:'', ''https:''}"
    and "\<And>s u. ul_parse ul s = Some u \<Longrightarrow>
      ul_parse ul (ul_print ul (u\<lparr>url_username := [], url_password := []\<rparr>)) = Some (u\<lparr>url_username := [], url_password := []\<rparr>)"
  shows "\<exists>u. ul_parse ul cloneUrl = Some u \<and> url_username u = [] \<and> url_password u = [] \<and>
    (url_password url \<noteq> [] \<longrightarrow> environment \<noteq> None)"
  using assms by (auto simp: removeGitUrlCredentials_def split: sum.splits if_splits option.splits)

definition sample_repository :: url where
  "sample_repository = \<lparr>url_protocol = ''https:'', url_hostname = ''git'', url_port = [], url_username = [], url_password = []\<rparr>"

text \<open>A parser that knows one repository, with and without credentials.\<close>

definition sample_library :: url_library where
  "sample_library =
     \<lparr>ul_parse = (\<lambda>s. if s = ''https://u:p@git'' then Some (sample_repository\<lparr>url_username := ''u'', url_password := ''p''\<rparr>)
         else if s = ''https://git'' then Some sample_repository else None),
      ul_print = (\<lambda>u. if url_username u = [] then ''https://git'' else ''https://u:p@git''), ul_decode = Some, ul_base64 = id\<rparr>"

theorem clone_url_without_credentials_witness:
  "\<exists>u environment. removeGitUrlCredentials sample_library ''https://u:p@git'' = Inr (''https://git'', Some environment) \<and>
     ul_parse sample_library ''https://git'' = Some u \<and> url_username u = [] \<and> url_password u = []"
proof -
  let ?url = "sample_repository\<lparr>url_username := ''u'', url_password := ''p''\<rparr>"
  define e where "e = [(''GIT_CONFIG_COUNT'', ''1''), (''GIT_CONFIG_KEY_0'', ''http.extraHeader''),
    (''GIT_CONFIG_VALUE_0'', ''Authorization: Basic u:p''), (''GIT_TERMINAL_PROMPT'', ''0'')]"
  have r: "removeGitUrlCredentials sample_library ''https://u:p@git'' = Inr (''https://git'', Some e)"
    unfolding e_def by code_simp
  moreover have "ul_parse sample_library ''https://u:p@git'' = Some ?url" "url_protocol ?url \<in> {''http:'', ''https:''}"
    by (simp_all add: sample_library_def sample_repository_def)
  moreover have "ul_parse sample_library s = Some u \<Longrightarrow>
      ul_parse sample_library (ul_print sample_library (u\<lparr>url_username := [], url_password := []\<rparr>)) =
        Some (u\<lparr>url_username := [], url_password := []\<rparr>)" for s u
    by (auto simp: sample_library_def sample_repository_def split: if_splits)
  ultimately show ?thesis using clone_url_without_credentials [of sample_library] by blast
qed

lemma drop_leading_spec: "\<exists>p. s = p @ drop_leading cs s" "drop_leading cs s \<noteq> [] \<Longrightarrow> hd (drop_leading cs s) \<notin> cs"
  by (induction s) (auto intro: exI [of _ "[]"] exI [of _ "_ # _"])

lemma drop_leading_set: "set (drop_leading cs s) \<subseteq> set s" "length (drop_leading cs s) \<le> length s"
  by (induction s) auto

lemma normalize_tag_chars:
  "list_all tag_char n \<Longrightarrow> len n < 120 \<Longrightarrow> list_all tag_char (normalize_tag n cs) \<and> len (normalize_tag n cs) \<le> 120"
proof (induction cs arbitrary: n)
  case (Cons c cs)
  have d: "tag_char CHR ''-''" by (simp add: tag_char_def)
  show ?case using Cons d by (auto simp: Let_def len_def)
qed simp

text \<open>
  The tag of a built image is a valid image tag, whatever the identifier of the deployment is:
  at most 120 lower-case letters, digits and separators, not starting with a separator dot or
  dash.
\<close>

theorem image_tag_valid:
  "normalizeBuildImageTag v \<noteq> [] \<and> len (normalizeBuildImageTag v) \<le> 120 \<and> list_all tag_char (normalizeBuildImageTag v) \<and>
   hd (normalizeBuildImageTag v) \<notin> {CHR ''.'', CHR ''-''}"
proof -
  let ?sep = "{CHR ''.'', CHR ''-''}"
  define a where "a = normalize_tag [] (toLowerCase (trim (or_default v [])))"
  define b where "b = drop_leading ?sep a"
  define c where "c = drop_trailing ?sep b"
  have a: "list_all tag_char a" "len a \<le> 120"
    using normalize_tag_chars [of "[]"] by (simp_all add: a_def len_def)
  have "list_all tag_char c" "len c \<le> 120"
    using a drop_leading_set [of ?sep a] drop_leading_set [of ?sep "rev b"]
    by (auto simp: b_def c_def drop_trailing_def list_all_iff len_def)
  moreover have "hd c \<notin> ?sep" if "c \<noteq> []"
  proof -
    obtain p where "rev b = p @ rev c" using drop_leading_spec(1) [of "rev b" ?sep] by (auto simp: c_def drop_trailing_def)
    then have "b = c @ rev p" by (metis rev_append rev_rev_ident)
    with that have "b \<noteq> []" "hd b = hd c" by auto
    with drop_leading_spec(2) [where s = a and cs = ?sep] show ?thesis by (simp add: b_def)
  qed
  moreover have "normalizeBuildImageTag v = (if c = [] then ''latest'' else c)"
    by (simp add: normalizeBuildImageTag_def a_def b_def c_def Let_def)
  moreover have "list_all tag_char ''latest''" by (simp add: tag_char_def code_def)
  ultimately show ?thesis by (auto simp: len_def)
qed

end
