(* ===== verification/Worker_World.thy ===== *)
theory Worker_World
  imports Effects Advanced_Config Secret_References Git_Source
begin

text \<open>
  What the deployment worker of \<open>usecases/src/deployment/deployment-worker.ts\<close> reads and
  changes. The tables of the database are shared with other processes: whenever the worker
  awaits something, the others may have changed the tables (\<open>rt_others\<close>), the heartbeat
  interval may have fired, the timer that stores the log may have run and the lock of the
  resource may have been lost. Docker, Caddy, the monitoring agent, git hosting, Redis and the
  file system are ports: a call is a value of \<open>worker_call\<close>, its outcome a function of the call
  and of a state \<open>'x\<close> of the surroundings, and \<open>ww_trace\<close> lists the calls made and
  whether each one succeeded. The text of the log is the parameter \<open>rt_log\<close>.
\<close>

section \<open>Tables\<close>

record server = server_record +
  sv_port :: int
  sv_username :: string
  sv_sshHostKeyFingerprint :: "string option"

record ssh_key =
  sk_id :: string
  sk_organizationId :: string
  sk_privateKeyCiphertext :: string
  sk_privateKeyIv :: string
  sk_privateKeyAuthTag :: string
  sk_privateKeyVersion :: int

record docker_registry =
  dr_id :: string
  dr_organizationId :: string
  dr_username :: "string option"
  dr_password :: "string option"
  dr_imagePrefix :: "string option"
  dr_registryUrl :: "string option"

record git_connection = git_provider +
  gp_organizationId :: string

record preview_deployment =
  pd_id :: string
  pd_resourceId :: string
  pd_branchName :: string
  pd_appName :: string
  pd_status :: string
  pd_domain :: string

record tables =
  tb_clock :: int
  tb_deployments :: "deployment list"
  tb_resources :: "resource list"
  tb_previews :: "preview_deployment list"
  tb_environments :: "environment list"
  tb_projects :: "project_record list"
  tb_servers :: "server list"
  tb_sshKeys :: "ssh_key list"
  tb_registries :: "docker_registry list"
  tb_gitProviders :: "git_connection list"
  tb_secretProviders :: "secret_provider list"
  tb_webServerSettings :: "string option"
  tb_certificates :: "string list"

section \<open>Ports\<close>

record connection =
  cn_host :: string
  cn_port :: int
  cn_username :: string
  cn_privateKey :: "string option"
  cn_password :: "string option"
  cn_hostKeyFingerprint :: "string option"

datatype docker = LocalDocker | RemoteDocker connection

record registry_info =
  ri_url :: string
  ri_username :: "string option"
  ri_password :: "string option"
  ri_imageTag :: string

record registry_auth =
  au_username :: "string option"
  au_password :: "string option"
  au_serveraddress :: string

record revision_options =
  rv_imageTagSuffix :: string
  rv_serviceNameOverride :: "string option"
  rv_replicasOverride :: "int option"

record git_source =
  gs_cloneUrl :: string
  gs_sshKeyPath :: "string option"
  gs_gitEnvironment :: "variables option"
  gs_sshHostKeyFingerprint :: "string option"

record build_artifact =
  ar_sourceRevision :: string
  ar_configurationVersion :: string
  ar_buildConfig :: string
  ar_detectorVersion :: "string option"
  ar_digest :: string
  ar_reference :: string

record convergence =
  cv_healthy :: bool
  cv_message :: "string option"

record hook_result =
  hr_exitCode :: "int option"
  hr_stderr :: "string option"

record caddy_resource =
  ca_id :: string
  ca_name :: string
  ca_type :: string
  ca_appName :: "string option"
  ca_domains :: string
  ca_composeType :: "string option"
  ca_advancedConfig :: "string option"

text \<open>
  \<open>deployAppGit\<close> calls back between building the image and creating the service, so it
  counts as the two calls \<open>BuildImage\<close> and \<open>CreateService\<close>. What applying an
  \<open>upstand.json\<close> of the repository writes to the row of the resource during the build is among
  the changes of \<open>rt_others\<close>.
\<close>

datatype worker_call =
  AcquireLock string
| ReleaseLock string
| MoveToDelayed int
| CreateScope
| DisposeScope
| CancellationRequested string
| ClearCancellation string
| OpenRemote connection
| CloseRemote docker
| ServiceExists docker resource
| DeployDatabase docker resource variables "string list option"
| ConfigureReplication docker resource variables
| ReadComposeFile docker resource git_source "string option"
| DeployComposeStack docker resource string "string list option" variables "registry_auth option"
| SmokeTest docker resource
| DeployAppImage docker resource variables "string list option" "registry_auth option" revision_options
| InstallationToken string string string
| WriteKeyFile string string
| RemoveKeyFile string
| BuildImage docker resource git_source "docker option" "registry_info option" "string option" "string option"
    variables variables "variables option" "string list option" revision_options
| CreateService docker resource "docker option" variables "string list option" revision_options
| WaitForConvergence docker resource "string option"
| RemoveRevision docker resource string
| RollbackService docker resource
| PromoteRevision docker resource string
| ExecCommand docker string string int string
| Sleep int
| ContainerMetrics string string
| SyncRouting docker "caddy_resource list" "string option" "string list"
| PublishNotification string string string string

datatype heartbeat = NoBeat | Beat | BeatFails

record 'x runtime =
  rt_others :: "'x \<Rightarrow> tables \<Rightarrow> tables"
  rt_turn :: "'x \<Rightarrow> 'x"
  rt_beat :: "'x \<Rightarrow> heartbeat"
  rt_flushes :: "'x \<Rightarrow> bool"
  rt_lockLost :: "'x \<Rightarrow> bool"
  rt_log :: "'x \<Rightarrow> string"
  rt_unit :: "worker_call \<Rightarrow> 'x \<Rightarrow> (string + unit) \<times> 'x"
  rt_bool :: "worker_call \<Rightarrow> 'x \<Rightarrow> (string + bool) \<times> 'x"
  rt_text :: "worker_call \<Rightarrow> 'x \<Rightarrow> (string + string) \<times> 'x"
  rt_health :: "worker_call \<Rightarrow> 'x \<Rightarrow> (string + convergence) \<times> 'x"
  rt_smoke :: "worker_call \<Rightarrow> 'x \<Rightarrow> (string + convergence option) \<times> 'x"
  rt_hook :: "worker_call \<Rightarrow> 'x \<Rightarrow> (string + hook_result) \<times> 'x"
  rt_build :: "worker_call \<Rightarrow> 'x \<Rightarrow> (string + build_artifact) \<times> 'x"
  rt_metrics :: "worker_call \<Rightarrow> 'x \<Rightarrow> (string + jsval) \<times> 'x"
  rt_mode :: control_plane_mode
  rt_hostAddress :: "string \<Rightarrow> bool"
  rt_codec :: codec
  rt_urls :: url_library
  rt_external :: "reference_reader option option"
  rt_number :: "rat \<Rightarrow> string"

text \<open>
  A job of the queue with the random execution token of this run. Retry settings that are not
  positive numbers count as absent.
\<close>

record deployment_job =
  jb_resourceId :: string
  jb_deploymentId :: string
  jb_previewDeploymentId :: "string option"
  jb_sourceRevision :: "string option"
  jb_retryBaseSeconds :: "rat option"
  jb_retryMaxSeconds :: "rat option"
  jb_attemptsMade :: nat
  jb_executionToken :: string

text \<open>
  The state of a run: the tables, the surroundings, the trace, and the variables of
  \<open>processJob\<close> that its last blocks and its timers use.
\<close>

record 'x world =
  ww_tables :: tables
  ww_ext :: 'x
  ww_trace :: "(worker_call \<times> bool) list"
  ww_executionLeaseLost :: bool
  ww_heartbeatTimer :: bool
  ww_lockLost :: bool
  ww_resource :: "resource option"
  ww_tempSshKeyPath :: "string option"
  ww_cliCleanups :: "docker list"

section \<open>Awaiting\<close>

definition beat :: "heartbeat \<Rightarrow> deployment_job \<Rightarrow> tables \<Rightarrow> bool \<times> tables" where
  "beat h j t =
     (case h of
        NoBeat \<Rightarrow> (False, t)
      | BeatFails \<Rightarrow> (True, t)
      | Beat \<Rightarrow>
          (case heartbeatOwned (jb_deploymentId j) (jb_executionToken j) (tb_clock t) (tb_deployments t) of
             (renewed, ds) \<Rightarrow> (renewed = None, t\<lparr>tb_deployments := ds\<rparr>)))"

definition flush_logs :: "string \<Rightarrow> deployment_job \<Rightarrow> tables \<Rightarrow> tables" where
  "flush_logs logs j t =
     t\<lparr>tb_deployments := snd (updateByIdOwned (tb_clock t) (jb_deploymentId j) (jb_executionToken j)
         (no_deployment_update\<lparr>ud_logs := Some logs\<rparr>) (tb_deployments t))\<rparr>"

definition await_turn :: "'x runtime \<Rightarrow> deployment_job \<Rightarrow> 'x world \<Rightarrow> 'x world" where
  "await_turn rt j w =
     (let x = ww_ext w;
          (lost, t) = beat (if ww_heartbeatTimer w then rt_beat rt x else NoBeat) j (rt_others rt x (ww_tables w))
      in w\<lparr>ww_tables := (if rt_flushes rt x then flush_logs (rt_log rt x) j t else t),
           ww_executionLeaseLost := ww_executionLeaseLost w \<or> lost,
           ww_lockLost := ww_lockLost w \<or> rt_lockLost rt x, ww_ext := rt_turn rt x\<rparr>)"

definition await :: "'x runtime \<Rightarrow> deployment_job \<Rightarrow> ('x world, unit) io" where
  "await rt j = io_modify (await_turn rt j)"

definition query :: "'x runtime \<Rightarrow> deployment_job \<Rightarrow> (tables \<Rightarrow> 'a) \<Rightarrow> ('x world, 'a) io" where
  "query rt j f = io_then (await rt j) (io_get (\<lambda>w. f (ww_tables w)))"

definition transact :: "'x runtime \<Rightarrow> deployment_job \<Rightarrow> (tables \<Rightarrow> 'a \<times> tables) \<Rightarrow> ('x world, 'a) io" where
  "transact rt j f =
     io_then (await rt j) (\<lambda>w. case f (ww_tables w) of (a, t) \<Rightarrow> (Inr a, w\<lparr>ww_tables := t\<rparr>))"

definition answered :: "('a \<Rightarrow> bool) \<Rightarrow> string + 'a \<Rightarrow> bool" where
  "answered good r \<longleftrightarrow> (case r of Inl _ \<Rightarrow> False | Inr a \<Rightarrow> good a)"

definition perform ::
  "('a \<Rightarrow> bool) \<Rightarrow> (worker_call \<Rightarrow> 'x \<Rightarrow> (string + 'a) \<times> 'x) \<Rightarrow> worker_call \<Rightarrow> ('x world, 'a) io" where
  "perform good port c w =
     (case port c (ww_ext w) of
        (r, x) \<Rightarrow> (r, w\<lparr>ww_ext := x, ww_trace := ww_trace w @ [(c, answered good r)]\<rparr>))"

definition call ::
  "'x runtime \<Rightarrow> deployment_job \<Rightarrow> ('x runtime \<Rightarrow> worker_call \<Rightarrow> 'x \<Rightarrow> (string + 'a) \<times> 'x) \<Rightarrow> worker_call \<Rightarrow> ('x world, 'a) io" where
  "call rt j port c = io_then (await rt j) (perform (\<lambda>_. True) (port rt) c)"

text \<open>A health check counts as successful when the service is healthy.\<close>

definition check_health :: "'x runtime \<Rightarrow> deployment_job \<Rightarrow> worker_call \<Rightarrow> ('x world, convergence) io" where
  "check_health rt j c = io_then (await rt j) (perform cv_healthy (rt_health rt) c)"

end
