(* ===== verification/Deployment_Source.thy ===== *)
theory Deployment_Source
  imports Worker_World
begin

text \<open>
  What a deployment is made of: the parts of \<open>deployment-worker.ts\<close> that find the server to
  deploy to and the one to build on, the registry, the variables, and the source to build.
\<close>

section \<open>Servers\<close>

definition decrypt_columns :: "'z codec_scheme \<Rightarrow> string \<Rightarrow> string \<Rightarrow> string \<Rightarrow> int \<Rightarrow> string + string" where
  "decrypt_columns cx ciphertext iv authTag keyVersion =
     (case en_decrypt cx [(''ciphertext'', JStr ciphertext), (''iv'', JStr iv), (''authTag'', JStr authTag),
             (''keyVersion'', JNum (show_int keyVersion))] of
        Some s \<Rightarrow> Inr s
      | None \<Rightarrow> Inl ''Unable to decrypt secret'')"

definition decrypt_key :: "'z codec_scheme \<Rightarrow> ssh_key \<Rightarrow> string + string" where
  "decrypt_key cx k =
     decrypt_columns cx (sk_privateKeyCiphertext k) (sk_privateKeyIv k) (sk_privateKeyAuthTag k) (sk_privateKeyVersion k)"

definition connect_with :: "server \<Rightarrow> string option \<Rightarrow> string option \<Rightarrow> connection" where
  "connect_with s privateKey password =
     \<lparr>cn_host = sv_ipAddress s, cn_port = sv_port s, cn_username = sv_username s, cn_privateKey = privateKey,
      cn_password = password, cn_hostKeyFingerprint = sv_sshHostKeyFingerprint s\<rparr>"

text \<open>The credentials of a server; \<open>role\<close> is \<open>deployment\<close> or \<open>build\<close>.\<close>

definition server_connection :: "'x runtime \<Rightarrow> deployment_job \<Rightarrow> string \<Rightarrow> server \<Rightarrow> ('x world, connection) io" where
  "server_connection rt j role s =
     (let cx = rt_codec rt in
      if is_password_auth s then
        (if \<not> given_string (sv_passwordCiphertext s) \<or> \<not> given_string (sv_passwordIv s) \<or>
            \<not> given_string (sv_passwordAuthTag s) \<or> sv_passwordVersion s = None
         then io_throw (''Target '' @ role @ '' server '' @ sq (sv_name s) @ '' password credentials are missing'')
         else io_lift (map_sum id (\<lambda>p. connect_with s None (Some p))
                (decrypt_columns cx (the (sv_passwordCiphertext s)) (the (sv_passwordIv s)) (the (sv_passwordAuthTag s))
                   (the (sv_passwordVersion s)))))
      else if \<not> given_string (sv_sshKeyId s)
      then io_throw (''Target '' @ role @ '' server has no SSH key configured'')
      else io_bind (query rt j (\<lambda>t. findById sk_id (the (sv_sshKeyId s)) (tb_sshKeys t)))
             (\<lambda>key. case key of
                None \<Rightarrow> io_throw (''Target '' @ role @ '' server SSH key not found'')
              | Some k \<Rightarrow> io_lift (map_sum id (\<lambda>p. connect_with s (Some p) None) (decrypt_key cx k))))"

definition open_remote :: "'x runtime \<Rightarrow> connection \<Rightarrow> ('x world, docker) io" where
  "open_remote rt c =
     io_then (perform (\<lambda>_. True) (rt_unit rt) (OpenRemote c))
       (io_then (io_modify (\<lambda>w. w\<lparr>ww_cliCleanups := ww_cliCleanups w @ [RemoteDocker c]\<rparr>)) (io_return (RemoteDocker c)))"

definition isLocalServerIp :: "'x runtime \<Rightarrow> string \<Rightarrow> bool" where
  "isLocalServerIp rt ip \<longleftrightarrow>
     ip \<noteq> [] \<and> (ip \<in> set [''127.0.0.1'', ''localhost'', ''::1'', ''0.0.0.0''] \<or> rt_hostAddress rt ip)"

definition not_ready :: "string \<Rightarrow> server \<Rightarrow> string" where
  "not_ready role s = ''Target '' @ role @ '' server '' @ sq (sv_name s) @ '' is not ready. Run server setup before deploying.''"

definition on_remote_server :: "string option \<Rightarrow> bool" where
  "on_remote_server serverId \<longleftrightarrow> given_string serverId \<and> \<not> local_or_manager (the serverId)"

text \<open>The Docker service to deploy with, and the Docker engine images are sent to.\<close>

definition resolve_placement :: "'x runtime \<Rightarrow> deployment_job \<Rightarrow> resource \<Rightarrow> ('x world, docker \<times> docker option) io" where
  "resolve_placement rt j r =
     (if \<not> on_remote_server (rr_serverId r) then io_return (LocalDocker, None)
      else io_bind (query rt j (\<lambda>t. findById sv_id (the (rr_serverId r)) (tb_servers t)))
        (\<lambda>found. case found of
           None \<Rightarrow> io_return (LocalDocker, None)
         | Some s \<Rightarrow>
             if isLocalServerIp rt (sv_ipAddress s) then io_return (LocalDocker, None)
             else io_then (io_lift (checks [assertDeploymentServerSupportsResource s (rr_type r),
                              throw_if (sv_status s \<noteq> ''ready'') (not_ready ''deployment'' s)]))
               (io_bind (server_connection rt j ''deployment'' s)
                 (\<lambda>c. io_bind (open_remote rt c) (\<lambda>d. io_return (d, Some d))))))"

section \<open>Registries\<close>

definition string_field :: "(string \<times> jsval) list \<Rightarrow> string \<Rightarrow> string option" where
  "string_field c field = (case get_prop c field of JStr s \<Rightarrow> Some s | _ \<Rightarrow> None)"

text \<open>\<open>.replace(/https?:\/\//, "")\<close> removes the first occurrence, wherever it is.\<close>

fun remove_protocol :: "string \<Rightarrow> string" where
  "remove_protocol [] = []"
| "remove_protocol (c # cs) =
     (if starts_with ''https://'' (c # cs) then drop 8 (c # cs)
      else if starts_with ''http://'' (c # cs) then drop 7 (c # cs) else c # remove_protocol cs)"

definition strip_protocol :: "string \<Rightarrow> string" where
  "strip_protocol s =
     (if starts_with ''https://'' s then drop 8 s else if starts_with ''http://'' s then drop 7 s else s)"

definition resolveConfiguredRegistryAuth ::
  "'x runtime \<Rightarrow> deployment_job \<Rightarrow> resource \<Rightarrow> string \<Rightarrow> ('x world, registry_auth option) io" where
  "resolveConfiguredRegistryAuth rt j r organizationId =
     (let registryId = string_field (parseResourceCredentials (rt_codec rt) (rr_credentials r)) ''registryId'' in
      if \<not> given_string registryId then io_return None
      else io_bind (query rt j (\<lambda>t. findById dr_id (the registryId) (tb_registries t)))
        (\<lambda>found. case found of
           None \<Rightarrow> io_throw ''Selected Docker registry not found''
         | Some g \<Rightarrow>
             if dr_organizationId g \<noteq> organizationId
             then io_throw ''Selected Docker registry belongs to another organization''
             else io_return (Some \<lparr>au_username = (if given_string (dr_username g) then dr_username g else None),
                    au_password = dr_password g,
                    au_serveraddress = drop_trailing {CHR ''/''} (strip_protocol (or_default (dr_registryUrl g) []))\<rparr>)))"

definition service_name :: "resource \<Rightarrow> string" where
  "service_name r = (if given_string (rs_appName r) then the (rs_appName r) else rr_name r)"

definition registry_for :: "string \<Rightarrow> resource \<Rightarrow> docker_registry \<Rightarrow> registry_info" where
  "registry_for deploymentId r g =
     \<lparr>ri_url = drop_trailing {CHR ''/''} (remove_protocol (or_default (dr_registryUrl g) [])),
      ri_username = dr_username g, ri_password = dr_password g,
      ri_imageTag = buildRegistryImageTag (dr_registryUrl g) (dr_imagePrefix g) (sanitizeName (service_name r)) (Some deploymentId)\<rparr>"

definition select_registry :: "'x runtime \<Rightarrow> resource \<Rightarrow> string \<Rightarrow> tables \<Rightarrow> docker_registry option" where
  "select_registry rt r organizationId t =
     (let configured = (if given_string (rs_buildRegistryId r) then rs_buildRegistryId r
            else string_field (parseResourceCredentials (rt_codec rt) (rr_credentials r)) ''buildRegistryId'')
      in if given_string configured then findById dr_id (the configured) (tb_registries t)
         else find (\<lambda>g. dr_organizationId g = organizationId) (tb_registries t))"

definition build_registry ::
  "'x runtime \<Rightarrow> deployment_job \<Rightarrow> resource \<Rightarrow> ('x world, registry_info option) io" where
  "build_registry rt j r =
     io_bind (query rt j (\<lambda>t. findById ev_id (rr_environmentId r) (tb_environments t)))
       (\<lambda>e. case e of
          None \<Rightarrow> io_throw ''Environment not found''
        | Some envRecord \<Rightarrow>
            io_bind (query rt j (\<lambda>t. findById pj_id (ev_projectId envRecord) (tb_projects t)))
              (\<lambda>p. case p of
                 None \<Rightarrow> io_throw ''Project not found''
               | Some project \<Rightarrow>
                   io_bind (query rt j (select_registry rt r (pj_organizationId project)))
                     (\<lambda>g. case g of
                        None \<Rightarrow> io_return None
                      | Some registry \<Rightarrow>
                          if dr_organizationId registry \<noteq> pj_organizationId project
                          then io_throw ''Selected build registry belongs to another organization''
                          else io_return (Some (registry_for (jb_deploymentId j) r registry)))))"

text \<open>The Docker service to build with and the registry the image goes through.\<close>

definition resolve_builder ::
  "'x runtime \<Rightarrow> deployment_job \<Rightarrow> resource \<Rightarrow> ('x world, docker \<times> registry_info option) io" where
  "resolve_builder rt j r =
     (if \<not> given_string (rr_buildServerId r) \<or> rr_buildServerId r = rr_serverId r then io_return (LocalDocker, None)
      else io_bind (query rt j (\<lambda>t. findById sv_id (the (rr_buildServerId r)) (tb_servers t)))
        (\<lambda>found. case found of
           None \<Rightarrow> io_throw ''Target build server not found''
         | Some s \<Rightarrow>
             io_then (io_lift (checks [assertBuildServerSupportsResource s (rr_type r),
                         throw_if (sv_status s \<noteq> ''ready'') (not_ready ''build'' s)]))
               (io_bind (server_connection rt j ''build'' s)
                 (\<lambda>c. io_bind (open_remote rt c)
                    (\<lambda>d. io_bind (build_registry rt j r) (\<lambda>g. io_return (d, g)))))))"

section \<open>Variables\<close>

definition unresolvable :: string where
  "unresolvable = ''External secret references cannot be resolved in this deployment worker''"

definition resolveExternalValues ::
  "'x runtime \<Rightarrow> deployment_job \<Rightarrow> resolution_scope \<Rightarrow> variables \<Rightarrow> ('x world, variables) io" where
  "resolveExternalValues rt j scope values =
     (case rt_external rt of
        None \<Rightarrow>
          if list_ex (\<lambda>(_, v). containsSecretProviderReference v) values then io_throw unresolvable else io_return values
      | Some reader \<Rightarrow>
          io_bind (query rt j (\<lambda>t. resolveSecretProviderReferencesInValues (rt_codec rt) reader (tb_secretProviders t) scope values))
            io_lift)"

record run_variables =
  va_envVars :: variables
  va_buildEnvVars :: variables
  va_buildSecrets :: "variables option"
  va_scope :: resolution_scope

definition resolve_variables ::
  "'x runtime \<Rightarrow> deployment_job \<Rightarrow> resource \<Rightarrow> project_record \<Rightarrow> ('x world, run_variables) io" where
  "resolve_variables rt j r project =
     (let cx = rt_codec rt in
      io_bind (query rt j (\<lambda>t. findById ev_id (rr_environmentId r) (tb_environments t)))
       (\<lambda>deployEnvironment.
         let scope = \<lparr>sc_organizationId = pj_organizationId project, sc_projectId = pj_id project,
                      sc_environmentId = map_option ev_id deployEnvironment\<rparr> in
         io_bind (case deployEnvironment of
                    None \<Rightarrow> io_return []
                  | Some e \<Rightarrow> query rt j (\<lambda>t. resolveEnvironmentVariables cx (tb_environments t) (ev_id e)))
          (\<lambda>projectVars. io_bind (resolveExternalValues rt j scope projectVars)
            (\<lambda>resolvedProject.
              let projectText = Some (cx_stringify cx (JObj (js_strings resolvedProject))) in
              io_bind (resolveExternalValues rt j scope
                         (resolveResourceEnvironmentVariables cx (Some (rs_envVars r)) projectText))
               (\<lambda>envVars. io_bind (resolveExternalValues rt j scope
                    (resolveResourceBuildEnvironmentVariables cx (rs_buildEnvVars r) (Some (rs_envVars r)) projectText))
                 (\<lambda>buildEnvVars.
                   if rr_type r \<noteq> ''application''
                   then io_return \<lparr>va_envVars = envVars, va_buildEnvVars = buildEnvVars, va_buildSecrets = None, va_scope = scope\<rparr>
                   else io_bind (io_lift (getApplicationBuildSecrets cx (rs_buildSecrets r)))
                     (\<lambda>secrets. io_bind (resolveExternalValues rt j scope secrets)
                       (\<lambda>buildSecrets. io_return \<lparr>va_envVars = envVars, va_buildEnvVars = buildEnvVars,
                          va_buildSecrets = Some buildSecrets, va_scope = scope\<rparr>))))))))"

section \<open>Sources\<close>

text \<open>\<open>String(v ?? d)\<close>.\<close>

definition string_or :: "string \<Rightarrow> jsval \<Rightarrow> string" where
  "string_or d v = (case v of JUndefined \<Rightarrow> d | JNull \<Rightarrow> d | _ \<Rightarrow> js_string v)"

definition plain_source :: "string \<Rightarrow> git_source" where
  "plain_source url = \<lparr>gs_cloneUrl = url, gs_sshKeyPath = None, gs_gitEnvironment = None, gs_sshHostKeyFingerprint = None\<rparr>"

definition basic_source :: "'x runtime \<Rightarrow> string \<Rightarrow> string \<Rightarrow> string \<Rightarrow> string + git_source" where
  "basic_source rt url username password =
     map_sum id (\<lambda>g. (plain_source url)\<lparr>gs_gitEnvironment := Some g\<rparr>)
       (createGitBasicAuthEnvironment (rt_urls rt) username password)"

text \<open>The hosted providers, with the configuration of the connection.\<close>

definition hosted_source ::
  "'x runtime \<Rightarrow> deployment_job \<Rightarrow> string \<Rightarrow> (string \<times> jsval) list \<Rightarrow> string \<Rightarrow> ('x world, git_source) io" where
  "hosted_source rt j provider config repository =
     (if provider = ''github'' then
        io_bind (call rt j rt_text (InstallationToken (js_string (get_prop config ''githubAppId''))
                   (string_or [] (get_prop config ''githubPrivateKey'')) (string_or [] (get_prop config ''githubInstallationId''))))
          (\<lambda>token. io_lift (basic_source rt (''https://github.com/'' @ repository @ ''.git'') ''x-access-token'' token))
      else if provider = ''gitlab'' then
        io_lift (basic_source rt (''https://'' @ remove_protocol (string_or ''https://gitlab.com'' (get_prop config ''gitlabUrl'')) @
            ''/'' @ repository @ ''.git'') ''oauth2'' (string_or [] (get_prop config ''accessToken'')))
      else if provider = ''gitea'' then
        io_lift (basic_source rt (''https://'' @ remove_protocol (string_or [] (get_prop config ''giteaUrl'')) @
            ''/'' @ repository @ ''.git'') ''oauth2'' (string_or [] (get_prop config ''accessToken'')))
      else
        io_lift (basic_source rt (''https://bitbucket.org/'' @ repository @ ''.git'')
            (string_or [] (get_prop config ''bitbucketUsername'')) (string_or [] (get_prop config ''appPassword''))))"

definition key_path :: "resource \<Rightarrow> string" where
  "key_path r = ''.builds/ssh-key-'' @ rr_id r"

text \<open>
  The private key is written to a file. \<open>track\<close> is true where the file is entered in
  \<open>tempSshKeyPath\<close>, which the last block removes, before it is written.
\<close>

definition write_key ::
  "'x runtime \<Rightarrow> deployment_job \<Rightarrow> bool \<Rightarrow> resource \<Rightarrow> string \<Rightarrow> string \<Rightarrow> ('x world, string) io" where
  "write_key rt j track r sshKeyId missing =
     io_bind (query rt j (\<lambda>t. findById sk_id sshKeyId (tb_sshKeys t)))
       (\<lambda>key. case key of
          None \<Rightarrow> io_throw missing
        | Some k \<Rightarrow>
            io_bind (io_lift (decrypt_key (rt_codec rt) k))
              (\<lambda>privateKey.
                io_then (io_when track (io_modify (\<lambda>w. w\<lparr>ww_tempSshKeyPath := Some (key_path r)\<rparr>)))
                  (io_then (perform (\<lambda>_. True) (rt_unit rt) (WriteKeyFile (key_path r) (trim privateKey @ [CHR 0x0A])))
                    (io_return (key_path r)))))"

text \<open>A repository address of its own, with a key or with credentials in the address.\<close>

definition direct_source ::
  "'x runtime \<Rightarrow> deployment_job \<Rightarrow> bool \<Rightarrow> resource \<Rightarrow> string \<Rightarrow> string option \<Rightarrow> string option \<Rightarrow> string \<Rightarrow> ('x world, git_source) io" where
  "direct_source rt j track r url fingerprint sshKeyId missing =
     io_bind (io_lift (removeGitUrlCredentials (rt_urls rt) url))
       (\<lambda>(cloneUrl, gitEnvironment).
         let source = \<lparr>gs_cloneUrl = cloneUrl, gs_sshKeyPath = None, gs_gitEnvironment = gitEnvironment,
                       gs_sshHostKeyFingerprint = fingerprint\<rparr> in
         if \<not> given_string sshKeyId then io_return source
         else io_bind (write_key rt j track r (the sshKeyId) missing)
                (\<lambda>path. io_return (source\<lparr>gs_sshKeyPath := Some path\<rparr>)))"

definition connected ::
  "'x runtime \<Rightarrow> deployment_job \<Rightarrow> (string \<times> jsval) list \<Rightarrow> ('x world, (string \<times> jsval) list \<times> string) io" where
  "connected rt j credentials =
     (let gitProviderId = string_field credentials ''githubAccount'' in
      if \<not> given_string gitProviderId
      then io_throw ''Git Provider not associated. Please configure repository connection.''
      else io_bind (query rt j (\<lambda>t. findById gp_id (the gitProviderId) (tb_gitProviders t)))
        (\<lambda>found. case found of
           None \<Rightarrow> io_throw ''Associated Git Provider not found''
         | Some g \<Rightarrow>
             (case en_json (rt_codec rt) (gp_config g) of
                None \<Rightarrow> io_throw ''Unexpected token in JSON''
              | Some parsed \<Rightarrow>
                  let config = (case parsed of JObj c \<Rightarrow> c | _ \<Rightarrow> []);
                      repository = string_field credentials ''repository''
                  in if \<not> given_string repository then io_throw ''Repository is empty in configuration''
                     else io_return (config, the repository))))"

definition pinned_host :: "git_source \<Rightarrow> string + unit" where
  "pinned_host s =
     throw_if (isSshGitUrl (gs_cloneUrl s) \<and> \<not> given_string (gs_sshHostKeyFingerprint s))
       ''SSH Git deployments require a pinned host-key fingerprint''"

definition first_given :: "string option \<Rightarrow> string option \<Rightarrow> string option" where
  "first_given a b = (case a of Some _ \<Rightarrow> a | None \<Rightarrow> b)"

definition generic_source ::
  "'x runtime \<Rightarrow> deployment_job \<Rightarrow> resource \<Rightarrow> (string \<times> jsval) list \<Rightarrow> (string \<times> jsval) list \<Rightarrow> ('x world, git_source) io" where
  "generic_source rt j r credentials config =
     (let url = or_default (first_given (string_field credentials ''repositoryUrl'') (string_field config ''gitUrl'')) [];
          sshKeyId = first_given (string_field credentials ''sshKeyId'') (string_field config ''sshKeyId'');
          token = string_field config ''accessToken''
      in if url = [] then io_throw ''Repository URL is empty in generic Git configuration''
         else io_bind (direct_source rt j False r url
                (first_given (string_field credentials ''sshHostKeyFingerprint'') (string_field config ''sshHostKeyFingerprint''))
                sshKeyId ''Configured SSH key for generic Git provider was not found'')
           (\<lambda>s. if given_string sshKeyId \<or> \<not> given_string token then io_return s
                else io_bind (io_lift (createGitBasicAuthEnvironment (rt_urls rt) ''oauth2'' (the token)))
                       (\<lambda>g. io_return (s\<lparr>gs_gitEnvironment := Some g\<rparr>))))"

definition configured_source ::
  "'x runtime \<Rightarrow> deployment_job \<Rightarrow> bool \<Rightarrow> resource \<Rightarrow> (string \<times> jsval) list \<Rightarrow> ('x world, git_source) io" where
  "configured_source rt j track r credentials =
     (let url = or_default (string_field credentials ''repositoryUrl'') [] in
      if url = [] then io_throw ''Repository URL is empty in configuration''
      else direct_source rt j track r url (string_field credentials ''sshHostKeyFingerprint'')
             (string_field credentials ''sshKeyId'') ''Configured SSH key not found in workspace'')"

definition resolveGitSource :: "'x runtime \<Rightarrow> deployment_job \<Rightarrow> resource \<Rightarrow> ('x world, git_source) io" where
  "resolveGitSource rt j r =
     (let credentials = parseResourceCredentials (rt_codec rt) (rr_credentials r); provider = rr_provider r in
      io_bind
        (if provider \<in> set [''github'', ''gitlab'', ''bitbucket'', ''gitea'', ''generic''] then
           io_bind (connected rt j credentials)
             (\<lambda>(config, repository).
               if provider = ''generic'' then generic_source rt j r credentials config
               else hosted_source rt j provider config repository)
         else if provider = ''git'' then configured_source rt j False r credentials
         else io_throw (''Unsupported Compose deployment provider: '' @ provider))
        (\<lambda>s. io_then (io_lift (pinned_host s)) (io_return s)))"

text \<open>The source of an application, and the local folder when it is one.\<close>

definition application_source ::
  "'x runtime \<Rightarrow> deployment_job \<Rightarrow> resource \<Rightarrow> ('x world, git_source \<times> string option) io" where
  "application_source rt j r =
     (let credentials = parseResourceCredentials (rt_codec rt) (rr_credentials r); provider = rr_provider r in
      io_bind
        (if provider \<in> set [''github'', ''gitlab'', ''bitbucket'', ''gitea''] then
           io_bind (connected rt j credentials)
             (\<lambda>(config, repository). io_bind (hosted_source rt j provider config repository) (\<lambda>s. io_return (s, None)))
         else if provider = ''git'' then
           io_bind (configured_source rt j True r credentials) (\<lambda>s. io_return (s, None))
         else if provider = ''drop'' then io_return (plain_source [], None)
         else if provider = ''local'' then
           (if rt_mode rt \<noteq> Desktop
            then io_throw ''Local project folders are only supported by the desktop runtime''
            else if \<not> given_string (string_field credentials ''localPath'')
            then io_throw ''Local project folder is missing. Select a folder before deploying.''
            else io_return (plain_source [], string_field credentials ''localPath''))
         else io_throw (''Unsupported deployment provider: '' @ provider))
        (\<lambda>(s, localPath). io_then (io_lift (pinned_host s)) (io_return (s, localPath))))"

end
