(* ===== verification/Deployment_Pipeline.thy ===== *)
theory Deployment_Pipeline
  imports Deployment_Source
begin

text \<open>
  Deploying a claimed job: the branches for databases, Compose projects and applications of
  \<open>deployment-worker.ts\<close>, the plan an application build is locked to, the checks before
  traffic is switched, staged delivery, hooks and the routing of the proxy.
\<close>

record run =
  rn_resource :: resource
  rn_deployedResource :: resource
  rn_project :: project_record
  rn_docker :: docker
  rn_destination :: "docker option"
  rn_builder :: docker
  rn_registry :: "registry_info option"
  rn_variables :: run_variables
  rn_config :: advanced_config
  rn_staged :: bool
  rn_baseServiceName :: string
  rn_revisionServiceName :: "string option"
  rn_sourceRevision :: "string option"

definition run_constraints :: "run \<Rightarrow> string list option" where
  "run_constraints n = (if rn_registry n = None then Some [''node.role==manager''] else None)"

definition revisionOptions :: "deployment_job \<Rightarrow> run \<Rightarrow> revision_options" where
  "revisionOptions j n =
     \<lparr>rv_imageTagSuffix = jb_deploymentId j,
      rv_serviceNameOverride = (if rn_staged n then rn_revisionServiceName n else None),
      rv_replicasOverride =
        (if \<not> rn_staged n then None
         else Some (if ds_type (ac_strategy (rn_config n)) = ''canary''
                    then or_default (ds_canaryReplicas (ac_strategy (rn_config n))) 1
                    else or_default (ac_replicas (rn_config n)) 1))\<rparr>"

section \<open>Databases and Compose projects\<close>

definition deploy_database :: "'x runtime \<Rightarrow> deployment_job \<Rightarrow> run \<Rightarrow> ('x world, unit) io" where
  "deploy_database rt j n =
     (let r = rn_resource n; cx = rt_codec rt;
          finalEnv = getDatabaseEnvironment cx (rr_credentials r) (rs_dbType r)
            (Some (cx_stringify cx (JObj (js_strings (va_envVars (rn_variables n))))))
      in io_then (call rt j rt_unit (DeployDatabase (rn_docker n) r finalEnv (run_constraints n)))
           (io_when (ac_replicationEnabled (parse_advanced_config cx (rr_advancedConfig r)))
              (call rt j rt_unit (ConfigureReplication (rn_docker n) r finalEnv))))"

definition compose_file :: "'x runtime \<Rightarrow> deployment_job \<Rightarrow> run \<Rightarrow> ('x world, string) io" where
  "compose_file rt j n =
     (let r = rn_resource n in
      if rr_provider r = ''raw''
      then io_return (or_default (string_field (parseResourceCredentials (rt_codec rt) (rr_credentials r)) ''composeFile'') [])
      else io_bind (resolveGitSource rt j r)
        (\<lambda>s. io_then (io_modify (\<lambda>w. w\<lparr>ww_tempSshKeyPath := gs_sshKeyPath s\<rparr>))
               (call rt j rt_text (ReadComposeFile (rn_docker n) r s (rn_sourceRevision n)))))"

definition resolve_compose :: "'x runtime \<Rightarrow> deployment_job \<Rightarrow> run \<Rightarrow> string \<Rightarrow> ('x world, string) io" where
  "resolve_compose rt j n file =
     (case rt_external rt of
        None \<Rightarrow> if containsSecretProviderReference file then io_throw unresolvable else io_return file
      | Some reader \<Rightarrow>
          io_bind (query rt j (\<lambda>t. resolveSecretProviderReferences (rt_codec rt) reader (tb_secretProviders t)
                     (va_scope (rn_variables n)) (Some file)))
            (\<lambda>r. io_lift (map_sum id (\<lambda>v. or_default v file) r)))"

definition deploy_compose :: "'x runtime \<Rightarrow> deployment_job \<Rightarrow> run \<Rightarrow> ('x world, unit) io" where
  "deploy_compose rt j n =
     io_bind (compose_file rt j n)
      (\<lambda>file. if file = [] then io_throw ''No compose file content found in configuration''
        else io_bind (resolve_compose rt j n file)
         (\<lambda>resolved. io_bind (resolveConfiguredRegistryAuth rt j (rn_deployedResource n) (pj_organizationId (rn_project n)))
           (\<lambda>auth. io_then (call rt j rt_unit (DeployComposeStack (rn_docker n) (rn_deployedResource n) resolved
                       (run_constraints n) (va_envVars (rn_variables n)) auth))
             (io_bind (call rt j rt_smoke (SmokeTest (rn_docker n) (rn_deployedResource n)))
               (\<lambda>test. case test of
                  Some c \<Rightarrow>
                    if cv_healthy c then io_return ()
                    else io_throw (''Compose deployment smoke test failed: '' @
                           (if given_string (cv_message c) then the (cv_message c) else ''unhealthy service''))
                | None \<Rightarrow> io_return ())))))"

section \<open>The plan of a build\<close>

definition hex_digest :: "string \<Rightarrow> bool" where
  "hex_digest d \<longleftrightarrow>
     (case strip ''sha256:'' d of
        None \<Rightarrow> False
      | Some h \<Rightarrow> length h = 64 \<and> list_all (\<lambda>c. is_digit c \<or> 97 \<le> code c \<and> code c \<le> 102) h)"

text \<open>
  \<open>DeploymentPlanSchema.parse\<close> of the plan the worker builds. The build location is given
  without a server.
\<close>

definition DeploymentPlanSchema :: "deployment_plan \<Rightarrow> string option \<Rightarrow> string + deployment_plan" where
  "DeploymentPlanSchema p builderServerId =
     (if pl_target_kind p = ''remote-server'' \<and> \<not> given_string (pl_target_serverId p) \<or>
         pl_buildLocation_kind p = ''remote-builder'' \<and> \<not> given_string builderServerId \<or>
         pl_sourceRevision p = [] \<or> pl_configurationVersion p = [] \<or> pl_detectorVersion p = Some [] \<or>
         \<not> hex_digest (pl_artifact_digest p) \<or> pl_artifact_reference p = []
      then Inl ''Invalid deployment plan'' else Inr p)"

definition ownership_name :: "data_ownership \<Rightarrow> string" where
  "ownership_name d = (case d of LocalControlPlane \<Rightarrow> ''local-control-plane'' | CloudControlPlane \<Rightarrow> ''cloud-control-plane'')"

definition plan_target :: "resource \<Rightarrow> deploy_target \<times> string option" where
  "plan_target r = (if on_remote_server (rr_serverId r) then (RemoteServer, rr_serverId r) else (LocalTarget, None))"

definition plan_of :: "'x runtime \<Rightarrow> resource \<Rightarrow> build_artifact \<Rightarrow> int \<Rightarrow> string + deployment_plan" where
  "plan_of rt r a now =
     (let (target, serverId) = plan_target r;
          location = resolveBuildLocation (rr_buildServerId r) (rr_serverId r);
          av = DEFAULT_RUNTIME_ADAPTER_AVAILABILITY
      in case assertRuntimeCapability (rt_mode rt) target DockerRuntime location av of
           Inl e \<Rightarrow> Inl e
         | Inr _ \<Rightarrow>
             DeploymentPlanSchema
               \<lparr>pl_target_kind = target_name target, pl_runtime = ''docker'', pl_buildLocation_kind = location_name location,
                pl_ownership = ownership_name (pc_dataOwnership (getPlatformCapabilities (rt_mode rt) av)),
                pl_artifact_digest = ar_digest a, pl_configurationVersion = ar_configurationVersion a,
                pl_target_serverId = serverId, pl_sourceRevision = ar_sourceRevision a,
                pl_buildConfig = ar_buildConfig a, pl_detectorVersion = ar_detectorVersion a,
                pl_artifact_reference = ar_reference a, pl_createdAt = now\<rparr> None)"

definition comparable :: "deployment_plan \<Rightarrow> deployment_plan" where
  "comparable p = p\<lparr>pl_createdAt := 0\<rparr>"

definition plan_changed :: string where
  "plan_changed = ''Deployment plan is immutable and the resolved build no longer matches it''"

text \<open>\<open>onBuildResolved\<close>: the callback between building and creating the service.\<close>

definition lock_plan :: "'x runtime \<Rightarrow> deployment_job \<Rightarrow> run \<Rightarrow> build_artifact \<Rightarrow> ('x world, unit) io" where
  "lock_plan rt j n a =
     io_bind (io_get (\<lambda>w. plan_of rt (rn_deployedResource n) a (tb_clock (ww_tables w))))
      (\<lambda>parsed. case parsed of
         Inl e \<Rightarrow> io_throw e
       | Inr plan \<Rightarrow>
           io_bind (transact rt j (\<lambda>t. case setPlanIfAbsent (tb_clock t) (jb_deploymentId j) plan (tb_deployments t) of
                      (stored, ds) \<Rightarrow> (stored, t\<lparr>tb_deployments := ds\<rparr>)))
            (\<lambda>stored. if stored \<noteq> None then io_return ()
              else io_bind (query rt j (\<lambda>t. findById dep_id (jb_deploymentId j) (tb_deployments t)))
                (\<lambda>existing. case existing of
                   None \<Rightarrow> io_throw plan_changed
                 | Some d \<Rightarrow>
                     (case dep_deploymentPlan d of
                        None \<Rightarrow> io_throw plan_changed
                      | Some p \<Rightarrow> if comparable p = comparable plan then io_return () else io_throw plan_changed))))"

section \<open>Applications\<close>

definition deploy_image :: "'x runtime \<Rightarrow> deployment_job \<Rightarrow> run \<Rightarrow> ('x world, unit) io" where
  "deploy_image rt j n =
     io_bind (resolveConfiguredRegistryAuth rt j (rn_resource n) (pj_organizationId (rn_project n)))
      (\<lambda>auth. call rt j rt_unit (DeployAppImage (rn_docker n) (rn_resource n) (va_envVars (rn_variables n))
                (run_constraints n) auth (revisionOptions j n)))"

definition deploy_git :: "'x runtime \<Rightarrow> deployment_job \<Rightarrow> run \<Rightarrow> ('x world, unit) io" where
  "deploy_git rt j n =
     io_bind (application_source rt j (rn_resource n))
      (\<lambda>(source, localSourcePath).
        io_bind (call rt j rt_build (BuildImage (rn_builder n) (rn_resource n) source (rn_destination n) (rn_registry n)
                   (rn_sourceRevision n) localSourcePath (va_envVars (rn_variables n)) (va_buildEnvVars (rn_variables n))
                   (va_buildSecrets (rn_variables n)) (run_constraints n) (revisionOptions j n)))
         (\<lambda>artifact. io_then (lock_plan rt j n artifact)
           (call rt j rt_unit (CreateService (rn_builder n) (rn_resource n) (rn_destination n)
              (va_envVars (rn_variables n)) (run_constraints n) (revisionOptions j n)))))"

definition deploy_application :: "'x runtime \<Rightarrow> deployment_job \<Rightarrow> run \<Rightarrow> ('x world, unit) io" where
  "deploy_application rt j n =
     (if rr_provider (rn_resource n) = ''docker-registry'' then deploy_image rt j n else deploy_git rt j n)"

text \<open>Undo a revision or the service, where an error is only logged.\<close>

definition revert_service :: "'x runtime \<Rightarrow> deployment_job \<Rightarrow> run \<Rightarrow> ('x world, unit) io" where
  "revert_service rt j n =
     io_ignore (case (rn_staged n, rn_revisionServiceName n) of
        (True, Some revision) \<Rightarrow> call rt j rt_unit (RemoveRevision (rn_docker n) (rn_deployedResource n) revision)
      | _ \<Rightarrow> call rt j rt_unit (RollbackService (rn_docker n) (rn_deployedResource n)))"

definition verify_convergence :: "'x runtime \<Rightarrow> deployment_job \<Rightarrow> run \<Rightarrow> ('x world, unit) io" where
  "verify_convergence rt j n =
     io_bind (check_health rt j (WaitForConvergence (rn_docker n) (rn_deployedResource n) (rn_revisionServiceName n)))
      (\<lambda>c. if cv_healthy c then io_return ()
           else io_then (revert_service rt j n)
             (io_throw (''Container failed convergence verification within monitor window: '' @
                (if given_string (cv_message c) then the (cv_message c) else ''Unhealthy status'') @
                ''. Automated Rollback Engine executed.'')))"

section \<open>Hooks\<close>

fun truthy :: "jsval \<Rightarrow> bool" where
  "truthy JUndefined = False"
| "truthy JNull = False"
| "truthy (JBool b) = b"
| "truthy (JNum n) = (js_rat n \<noteq> Some 0)"
| "truthy (JStr s) = (s \<noteq> [])"
| "truthy _ = True"

text \<open>
  The hook before traffic is read from the raw text: the command and its time limit when it is
  enabled. The limit is an integer here.
\<close>

definition raw_pre_hook :: "'z codec_scheme \<Rightarrow> string option \<Rightarrow> string + (string \<times> int) option" where
  "raw_pre_hook cx advancedConfig =
     (case advancedConfig of
        None \<Rightarrow> Inr None
      | Some s \<Rightarrow>
          (case en_json cx s of
             None \<Rightarrow> Inl ''Unexpected token in JSON''
           | Some JNull \<Rightarrow> Inl ''Cannot read properties of null''
           | Some (JObj c) \<Rightarrow>
               (case get_prop c ''preDeployHook'' of
                  JObj h \<Rightarrow>
                    if truthy (get_prop h ''enabled'') \<and> truthy (get_prop h ''command'')
                    then Inr (Some (js_string (get_prop h ''command''),
                           case get_prop h ''timeoutSeconds'' of JNum n \<Rightarrow> decimal n | _ \<Rightarrow> 300))
                    else Inr None
                | _ \<Rightarrow> Inr None)
           | Some _ \<Rightarrow> Inr None))"

text \<open>The message of a command that ended with an exit code, if it did not succeed.\<close>

definition hook_failure :: "hook_result \<Rightarrow> int option" where
  "hook_failure h = (case hr_exitCode h of Some c \<Rightarrow> if c = 0 then None else Some c | None \<Rightarrow> None)"

definition run_pre_hook :: "'x runtime \<Rightarrow> deployment_job \<Rightarrow> run \<Rightarrow> ('x world, unit) io" where
  "run_pre_hook rt j n =
     (case raw_pre_hook (rt_codec rt) (rr_advancedConfig (rn_deployedResource n)) of
        Inl e \<Rightarrow> io_throw e
      | Inr None \<Rightarrow> io_return ()
      | Inr (Some (command, timeout)) \<Rightarrow>
          io_catch
           (io_bind (call rt j rt_hook (ExecCommand (rn_docker n)
                       (case rn_revisionServiceName n of Some s \<Rightarrow> s | None \<Rightarrow> rn_baseServiceName n) command timeout
                       (rr_id (rn_deployedResource n))))
             (\<lambda>h. case hook_failure h of
                None \<Rightarrow> io_return ()
              | Some c \<Rightarrow> io_throw (if given_string (hr_stderr h) then the (hr_stderr h)
                                     else ''Command exited with code '' @ show_int c)))
           (\<lambda>e. io_then (revert_service rt j n) (io_throw (''Pre-Deploy Hook execution failed: '' @ e))))"

definition run_post_hook :: "'x runtime \<Rightarrow> deployment_job \<Rightarrow> run \<Rightarrow> ('x world, unit) io" where
  "run_post_hook rt j n =
     (let hook = ac_postDeployHook (rn_config n) in
      if \<not> dh_enabled hook \<or> \<not> given_string (dh_command hook) then io_return ()
      else io_catch
        (io_bind (call rt j rt_hook (ExecCommand (rn_docker n) (rn_baseServiceName n) (the (dh_command hook))
                    (dh_timeoutSeconds hook) (rr_id (rn_deployedResource n))))
          (\<lambda>h. case hook_failure h of
             None \<Rightarrow> io_return ()
           | Some c \<Rightarrow>
               if dh_onFailure hook = ''fail''
               then io_throw (''Post-Deploy Hook exited with code '' @ show_int c @
                      (if given_string (hr_stderr h) then '': '' @ the (hr_stderr h) else []))
               else io_return ()))
        (\<lambda>e. if dh_onFailure hook = ''fail'' then io_throw (''Post-Deploy Hook failed: '' @ e) else io_return ()))"

section \<open>Routing\<close>

definition resourceMatchesServer :: "string option \<Rightarrow> string option \<Rightarrow> bool" where
  "resourceMatchesServer resource_serverId serverId \<longleftrightarrow>
     (if on_remote_server serverId then resource_serverId = serverId else \<not> on_remote_server resource_serverId)"

definition parseFirstDomain :: "'z codec_scheme \<Rightarrow> string \<Rightarrow> (string \<times> jsval) list" where
  "parseFirstDomain cx v = (case en_json cx v of Some (JArr (JObj c # _)) \<Rightarrow> c | _ \<Rightarrow> [])"

definition routed_resource :: "resource \<Rightarrow> caddy_resource" where
  "routed_resource r =
     \<lparr>ca_id = rr_id r, ca_name = rr_name r, ca_type = rr_type r, ca_appName = rs_appName r, ca_domains = rs_domains r,
      ca_composeType = rs_composeType r, ca_advancedConfig = rr_advancedConfig r\<rparr>"

definition routed_preview :: "'z codec_scheme \<Rightarrow> resource \<Rightarrow> preview_deployment \<Rightarrow> caddy_resource" where
  "routed_preview cx parent p =
     (let d = parseFirstDomain cx (if rs_domains parent = [] then ''[]'' else rs_domains parent);
          port = (case get_prop d ''port'' of JNum n \<Rightarrow> JNum n | _ \<Rightarrow> JNum ''80'');
          certificateType = (case get_prop d ''certificateType'' of JStr s \<Rightarrow> s | _ \<Rightarrow> ''letsencrypt'');
          certificateId = (case get_prop d ''certificateId'' of JStr s \<Rightarrow> [(''certificateId'', JStr s)] | _ \<Rightarrow> []);
          middlewares = (case get_prop d ''middlewares'' of JArr ms \<Rightarrow> filter is_string ms | _ \<Rightarrow> [])
      in \<lparr>ca_id = pd_id p, ca_name = pd_appName p, ca_type = ''application'', ca_appName = Some (pd_appName p),
          ca_domains = cx_stringify cx (JArr [JObj ([(''host'', JStr (pd_domain p)), (''path'', JStr ''/''), (''port'', port),
            (''https'', JBool (get_prop d ''https'' = JBool True)), (''certificateType'', JStr certificateType)] @
            certificateId @ [(''middlewares'', JArr middlewares)])]),
          ca_composeType = rs_composeType parent, ca_advancedConfig = rr_advancedConfig parent\<rparr>)"

definition MAX_CADDY_ROUTING :: nat where
  "MAX_CADDY_ROUTING = 10000"

definition findForCaddyByDeploymentServerId :: "string option \<Rightarrow> resource list \<Rightarrow> string + resource list" where
  "findForCaddyByDeploymentServerId serverId tbl =
     (let rows = filter (\<lambda>r. if on_remote_server serverId then rr_serverId r = serverId
                             else rr_serverId r = None \<or> local_or_manager (the (rr_serverId r))) tbl
      in if length rows > MAX_CADDY_ROUTING then Inl ''Caddy routing exceeded the maximum supported resource count'' else Inr rows)"

definition findForCaddy :: "string option \<Rightarrow> preview_deployment list \<Rightarrow> string + preview_deployment list" where
  "findForCaddy includePreviewId tbl =
     (let rows = filter (\<lambda>p. pd_status p = ''success'' \<or> given_string includePreviewId \<and> Some (pd_id p) = includePreviewId) tbl
      in if length rows > MAX_CADDY_ROUTING then Inl ''Caddy preview discovery exceeded the maximum supported preview count'' else Inr rows)"

definition routing_table ::
  "'z codec_scheme \<Rightarrow> resource \<Rightarrow> string option \<Rightarrow> string option \<Rightarrow> tables \<Rightarrow>
   string + caddy_resource list" where
  "routing_table cx r previewDeploymentId override t =
     (case findForCaddyByDeploymentServerId (rr_serverId r) (tb_resources t) of
        Inl e \<Rightarrow> Inl e
      | Inr resources \<Rightarrow>
          (case findForCaddy previewDeploymentId (tb_previews t) of
             Inl e \<Rightarrow> Inl e
           | Inr previews \<Rightarrow>
               Inr (map (\<lambda>c. if rr_id c = rr_id r
                             then (routed_resource r)\<lparr>ca_advancedConfig := first_given override (rr_advancedConfig r)\<rparr>
                             else routed_resource c)
                      (filter (\<lambda>c. resourceMatchesServer (rr_serverId c) (rr_serverId r)) resources) @
                    concat (map (\<lambda>p. case findById rr_id (pd_resourceId p) resources of
                        None \<Rightarrow> []
                      | Some parent \<Rightarrow>
                          if resourceMatchesServer (rr_serverId parent) (rr_serverId r) then [routed_preview cx parent p] else [])
                      (filter (\<lambda>p. pd_status p = ''success'' \<or> Some (pd_id p) = previewDeploymentId) previews)))))"

definition syncCaddyRouting ::
  "'x runtime \<Rightarrow> deployment_job \<Rightarrow> docker \<Rightarrow> resource \<Rightarrow> string option \<Rightarrow> ('x world, unit) io" where
  "syncCaddyRouting rt j d r override =
     (if rs_domains r = [] \<and> \<not> given_string (jb_previewDeploymentId j) then io_return ()
      else io_bind (query rt j (\<lambda>t. (routing_table (rt_codec rt) r (jb_previewDeploymentId j) override t, tb_webServerSettings t)))
        (\<lambda>(rows, settings). io_bind (io_lift rows)
           (\<lambda>resources. io_bind (query rt j tb_certificates)
              (\<lambda>certificates. call rt j rt_unit (SyncRouting d resources settings certificates)))))"

section \<open>Staged delivery\<close>

definition traffic_document :: "'x runtime \<Rightarrow> string option \<Rightarrow> string \<Rightarrow> string \<Rightarrow> rat \<Rightarrow> (string \<times> jsval) list" where
  "traffic_document rt original baseServiceName revisionServiceName revisionPercent =
     obj_set ''trafficSplits''
       (JArr (map (\<lambda>(s, n). JObj [(''serviceName'', JStr s), (''weight'', JNum (rt_number rt n))])
          (traffic_splits baseServiceName revisionServiceName revisionPercent)))
       (ac_document (parse_advanced_config (rt_codec rt) original))"

definition trafficSplitConfig :: "'x runtime \<Rightarrow> string option \<Rightarrow> string \<Rightarrow> string \<Rightarrow> rat \<Rightarrow> string" where
  "trafficSplitConfig rt original baseServiceName revisionServiceName revisionPercent =
     cx_stringify (rt_codec rt) (JObj (traffic_document rt original baseServiceName revisionServiceName revisionPercent))"

fun numericMetric :: "(string \<times> jsval) list \<Rightarrow> string list \<Rightarrow> rat option" where
  "numericMetric c [] = None"
| "numericMetric c (name # names) =
     (case get_prop c name of
        JNum n \<Rightarrow> (case js_rat n of Some x \<Rightarrow> Some x | None \<Rightarrow> numericMetric c names)
      | _ \<Rightarrow> numericMetric c names)"

definition above :: "rat option \<Rightarrow> rat \<Rightarrow> bool" where
  "above m limit \<longleftrightarrow> (case m of Some x \<Rightarrow> x > limit | None \<Rightarrow> False)"

definition metric_failure :: "(string \<times> jsval) list \<Rightarrow> string option" where
  "metric_failure c =
     (if above (numericMetric c [''errorRate'', ''ErrorRate'', ''http5xxRate'', ''Http5xxRate'']) 5
      then Some ''error rate exceeded 5%''
      else if above (numericMetric c [''p95LatencyMs'', ''P95LatencyMs'', ''latency.p95'']) 5000
      then Some ''p95 latency exceeded 5000ms''
      else if above (numericMetric c [''CPU'', ''cpu'', ''Cpu.Percent'']) 95
      then Some ''cpu utilization exceeded 95%''
      else if above (numericMetric c [''Memory.Percentage'', ''memoryPercent'', ''memory.percentage'', ''Memory'']) 95
      then Some ''memory utilization exceeded 95%'' else None)"

fun first_failure :: "jsval list \<Rightarrow> string option" where
  "first_failure [] = None"
| "first_failure (JObj c # rest) = (case metric_failure c of Some m \<Rightarrow> Some m | None \<Rightarrow> first_failure rest)"
| "first_failure (_ # rest) = first_failure rest"

text \<open>Metrics that cannot be read do not stop a delivery.\<close>

definition verifyProgressiveDeliveryMetrics ::
  "'x runtime \<Rightarrow> deployment_job \<Rightarrow> resource \<Rightarrow> string \<Rightarrow> int \<Rightarrow> ('x world, string option) io" where
  "verifyProgressiveDeliveryMetrics rt j r revision bakeTimeSeconds =
     io_then (io_when (0 < bakeTimeSeconds) (call rt j rt_unit (Sleep bakeTimeSeconds)))
       (io_catch
         (io_bind (call rt j rt_metrics (ContainerMetrics
                     (if given_string (rr_serverId r) then the (rr_serverId r) else ''local'') revision))
           (\<lambda>v. io_return (case v of JArr records \<Rightarrow> first_failure records | _ \<Rightarrow> None)))
         (\<lambda>_. io_return None))"

definition shift_traffic :: "'x runtime \<Rightarrow> deployment_job \<Rightarrow> run \<Rightarrow> string \<Rightarrow> rat \<Rightarrow> ('x world, unit) io" where
  "shift_traffic rt j n revision percentage =
     (let r = rn_deployedResource n; strategy = ac_strategy (rn_config n) in
      io_then (syncCaddyRouting rt j (rn_docker n) r
                 (Some (trafficSplitConfig rt (rr_advancedConfig r) (rn_baseServiceName n) revision percentage)))
        (io_bind (verifyProgressiveDeliveryMetrics rt j r revision (ds_bakeTimeSeconds strategy))
          (\<lambda>failure. case failure of
             None \<Rightarrow> io_return ()
           | Some m \<Rightarrow>
               if ds_automaticRollback strategy
               then io_throw (''Progressive delivery rolled back after metric gate failure: '' @ m)
               else io_return ())))"

text \<open>After the promotion: the stable service has to converge, then gets the traffic back.\<close>

definition finish_promotion :: "'x runtime \<Rightarrow> deployment_job \<Rightarrow> run \<Rightarrow> string \<Rightarrow> ('x world, unit) io" where
  "finish_promotion rt j n revision =
     io_bind (check_health rt j (WaitForConvergence (rn_docker n) (rn_deployedResource n) None))
      (\<lambda>c. if \<not> cv_healthy c
           then io_throw (''Stable service failed after revision promotion: '' @
                  (if given_string (cv_message c) then the (cv_message c) else ''unhealthy service''))
           else io_then (syncCaddyRouting rt j (rn_docker n) (rn_deployedResource n) (rr_advancedConfig (rn_deployedResource n)))
                  (io_ignore (call rt j rt_unit (RemoveRevision (rn_docker n) (rn_deployedResource n) revision))))"

definition abandon_revision :: "'x runtime \<Rightarrow> deployment_job \<Rightarrow> run \<Rightarrow> string \<Rightarrow> bool \<Rightarrow> string \<Rightarrow> ('x world, unit) io" where
  "abandon_revision rt j n revision promoted e =
     io_then (io_when promoted (io_ignore (call rt j rt_unit (RollbackService (rn_docker n) (rn_deployedResource n)))))
       (io_then (io_ignore (syncCaddyRouting rt j (rn_docker n) (rn_deployedResource n) (rr_advancedConfig (rn_deployedResource n))))
         (io_then (io_ignore (call rt j rt_unit (RemoveRevision (rn_docker n) (rn_deployedResource n) revision)))
           (io_throw e)))"

definition staged_delivery :: "'x runtime \<Rightarrow> deployment_job \<Rightarrow> run \<Rightarrow> string \<Rightarrow> ('x world, unit) io" where
  "staged_delivery rt j n revision =
     (let strategy = ac_strategy (rn_config n);
          percentages = stagedTrafficPercentages (ds_type strategy) (ds_canaryPercent strategy) (ds_steps strategy)
      in io_then
           (io_catch (io_then (io_for (shift_traffic rt j n revision) percentages)
                        (call rt j rt_unit (PromoteRevision (rn_docker n) (rn_deployedResource n) revision)))
              (abandon_revision rt j n revision False))
           (io_catch (finish_promotion rt j n revision) (abandon_revision rt j n revision True)))"

section \<open>The whole deployment\<close>

definition release_traffic :: "'x runtime \<Rightarrow> deployment_job \<Rightarrow> run \<Rightarrow> ('x world, unit) io" where
  "release_traffic rt j n =
     io_then (verify_convergence rt j n)
       (io_then (run_pre_hook rt j n)
         (case (rn_staged n, rn_revisionServiceName n) of
            (True, Some revision) \<Rightarrow> staged_delivery rt j n revision
          | _ \<Rightarrow> io_return ()))"

definition route_resource :: "'x runtime \<Rightarrow> deployment_job \<Rightarrow> run \<Rightarrow> ('x world, unit) io" where
  "route_resource rt j n =
     io_bind (query rt j (\<lambda>t. findById rr_id (jb_resourceId j) (tb_resources t)))
      (\<lambda>updated. case updated of None \<Rightarrow> io_return () | Some r \<Rightarrow> syncCaddyRouting rt j (rn_docker n) r None)"

definition deploy_workload :: "'x runtime \<Rightarrow> deployment_job \<Rightarrow> run \<Rightarrow> ('x world, unit) io" where
  "deploy_workload rt j n =
     (let kind = rr_type (rn_resource n) in
      if kind = ''database'' then deploy_database rt j n
      else if kind = ''compose'' then deploy_compose rt j n
      else if kind = ''application'' then io_then (deploy_application rt j n) (release_traffic rt j n)
      else io_return ())"

definition run_deployment :: "'x runtime \<Rightarrow> deployment_job \<Rightarrow> run \<Rightarrow> ('x world, unit) io" where
  "run_deployment rt j n =
     io_then (deploy_workload rt j n) (io_then (route_resource rt j n) (run_post_hook rt j n))"

end
