(* ===== verification/Deployment_Worker.thy ===== *)
theory Deployment_Worker
  imports Deployment_Pipeline
begin

text \<open>
  \<open>processJob\<close> of \<open>deployment-worker.ts\<close>: the lock of the resource, the claim of the
  deployment, the run with its context, the outcome that is recorded and the last block. The
  branches for repositories without leases, which the test doubles use, are left out. Where the
  desktop runtime asks its own map of cancellations and the others ask Redis, there is one port.
\<close>

definition lock_key :: "deployment_job \<Rightarrow> string" where
  "lock_key j = ''upstand:resource:lock:'' @ jb_resourceId j"

section \<open>Outcome\<close>

definition set_resource_status :: "string \<Rightarrow> string \<Rightarrow> tables \<Rightarrow> tables" where
  "set_resource_status i status t =
     t\<lparr>tb_resources := snd (updateById rr_id i (\<lambda>r. r\<lparr>rr_status := status\<rparr>) (tb_resources t))\<rparr>"

definition set_preview_status :: "string \<Rightarrow> string \<Rightarrow> tables \<Rightarrow> tables" where
  "set_preview_status i status t =
     t\<lparr>tb_previews := snd (updateById pd_id i (\<lambda>p. p\<lparr>pd_status := status\<rparr>) (tb_previews t))\<rparr>"

definition resource_outcome :: "deployment_status \<Rightarrow> string" where
  "resource_outcome status =
     (if status = DSuccess then ''running'' else if status = DRetrying then ''queued'' else ''stopped'')"

definition preview_outcome :: "deployment_status \<Rightarrow> string" where
  "preview_outcome status =
     (if status = DSuccess then ''success'' else if status = DRetrying then ''running'' else ''failed'')"

definition final_patch ::
  "string \<Rightarrow> deployment_status \<Rightarrow> string option \<Rightarrow> int option \<Rightarrow> update_deployment" where
  "final_patch logs status lastError retryAt =
     no_deployment_update\<lparr>ud_logs := Some logs, ud_status := Some status, ud_executionToken := Some None,
       ud_lastError := Some lastError, ud_retryAt := Some retryAt, ud_heartbeatAt := Some None\<rparr>"

text \<open>The transaction of \<open>flushFinalLogs\<close>: whether the deployment was still owned.\<close>

definition record_final ::
  "deployment_job \<Rightarrow> string \<Rightarrow> deployment_status \<Rightarrow> string option \<Rightarrow> rat option \<Rightarrow> tables \<Rightarrow> bool \<times> tables" where
  "record_final j logs status lastError retryDelaySeconds t =
     (let retryAt = (if status = DRetrying then map_option (\<lambda>s. tb_clock t + \<lfloor>s * 1000\<rfloor>) retryDelaySeconds else None)
      in case updateByIdOwned (tb_clock t) (jb_deploymentId j) (jb_executionToken j)
                (final_patch logs status lastError retryAt) (tb_deployments t) of
           (None, _) \<Rightarrow> (False, t)
         | (Some _, ds) \<Rightarrow>
             let t1 = t\<lparr>tb_deployments := ds\<rparr> in
             (True,
              case (if given_string (jb_previewDeploymentId j) then jb_previewDeploymentId j else None) of
                Some p \<Rightarrow> set_preview_status p (preview_outcome status) t1
              | None \<Rightarrow> set_resource_status (jb_resourceId j) (resource_outcome status) t1))"

text \<open>\<open>ResourceLock.assertOwned\<close>; the reason of the failed renewal is left out of the message.\<close>

definition assertLockOwned :: "deployment_job \<Rightarrow> ('x world, unit) io" where
  "assertLockOwned j =
     io_bind (io_get ww_lockLost)
       (\<lambda>lost. io_lift (throw_if lost (''Lost resource deployment lock '' @ sq (lock_key j))))"

definition lease_lost_error :: string where
  "lease_lost_error = ''Deployment execution lease was lost''"

definition flushFinalLogs ::
  "'x runtime \<Rightarrow> deployment_job \<Rightarrow> deployment_status \<Rightarrow> string option \<Rightarrow> rat option \<Rightarrow> ('x world, unit) io" where
  "flushFinalLogs rt j status lastError retryDelaySeconds =
     io_then (await rt j)
      (io_then (assertLockOwned j)
        (io_bind (io_get (\<lambda>w. rt_log rt (ww_ext w)))
          (\<lambda>logs. io_bind (transact rt j (record_final j logs status lastError retryDelaySeconds))
            (\<lambda>updated. if updated then io_return ()
               else io_then (io_modify (\<lambda>w. w\<lparr>ww_executionLeaseLost := True\<rparr>)) (io_throw lease_lost_error)))))"

definition publishDeploymentOutcome :: "'x runtime \<Rightarrow> deployment_job \<Rightarrow> bool \<Rightarrow> ('x world, unit) io" where
  "publishDeploymentOutcome rt j succeeded =
     io_bind (io_get ww_resource)
      (\<lambda>loaded. case loaded of
         None \<Rightarrow> io_return ()
       | Some r \<Rightarrow>
           io_bind (query rt j (\<lambda>t. findById ev_id (rr_environmentId r) (tb_environments t)))
            (\<lambda>e. case e of
               None \<Rightarrow> io_return ()
             | Some environment \<Rightarrow>
                 io_bind (query rt j (\<lambda>t. findById pj_id (ev_projectId environment) (tb_projects t)))
                  (\<lambda>p. case p of
                     None \<Rightarrow> io_return ()
                   | Some project \<Rightarrow>
                       call rt j rt_unit (PublishNotification (pj_organizationId project)
                         (if succeeded then ''deployment_succeeded'' else ''deployment_failed'')
                         (''deployment:'' @ jb_deploymentId j @ '':'' @ (if succeeded then ''success'' else ''failed''))
                         (rr_name r)))))"

section \<open>Claiming\<close>

definition execution_lease_ms :: int where
  "execution_lease_ms = 30 * 60000"

definition claim_job :: "deployment_job \<Rightarrow> tables \<Rightarrow> deployment option \<times> tables" where
  "claim_job j t =
     (case claimForExecution (tb_clock t) execution_lease_ms (jb_deploymentId j) (jb_executionToken j) (tb_deployments t) of
        (None, ds) \<Rightarrow> (None, t\<lparr>tb_deployments := ds\<rparr>)
      | (Some d, ds) \<Rightarrow> (Some d, set_resource_status (jb_resourceId j) ''running'' (t\<lparr>tb_deployments := ds\<rparr>)))"

definition parseResourceCredentialInput :: "'z codec_scheme \<Rightarrow> string option \<Rightarrow> (string \<times> jsval) list" where
  "parseResourceCredentialInput cx v =
     (case v of
        None \<Rightarrow> []
      | Some s \<Rightarrow>
          if s = [] then []
          else case en_json cx s of
              None \<Rightarrow> []
            | Some parsed \<Rightarrow>
                if isEncryptedPayload parsed then (case parseCredentialDocument cx s of Some c \<Rightarrow> c | None \<Rightarrow> [])
                else (case parsed of JObj c \<Rightarrow> c | _ \<Rightarrow> []))"

definition validateResourceCredentialReferences ::
  "'x runtime \<Rightarrow> deployment_job \<Rightarrow> string \<Rightarrow> string option \<Rightarrow> ('x world, unit) io" where
  "validateResourceCredentialReferences rt j organizationId credentials =
     (let parsed = parseResourceCredentialInput (rt_codec rt) credentials in
      io_then
       (case string_field parsed ''githubAccount'' of
          None \<Rightarrow> io_return ()
        | Some i \<Rightarrow>
            io_bind (query rt j (\<lambda>t. findById gp_id i (tb_gitProviders t)))
              (\<lambda>g. io_lift (throw_if (case g of Some v \<Rightarrow> gp_organizationId v \<noteq> organizationId | None \<Rightarrow> True)
                    ''Selected Git provider is not available to this organization'')))
       (case string_field parsed ''sshKeyId'' of
          None \<Rightarrow> io_return ()
        | Some i \<Rightarrow>
            io_bind (query rt j (\<lambda>t. findById sk_id i (tb_sshKeys t)))
              (\<lambda>k. io_lift (throw_if (case k of Some v \<Rightarrow> sk_organizationId v \<noteq> organizationId | None \<Rightarrow> True)
                    ''Selected SSH key is not available to this organization''))))"

section \<open>The context of a run\<close>

definition parseResourceCredentialsStrict :: "'z codec_scheme \<Rightarrow> string option \<Rightarrow> string + (string \<times> jsval) list" where
  "parseResourceCredentialsStrict cx v =
     (case v of
        None \<Rightarrow> Inr []
      | Some s \<Rightarrow>
          if s = [] then Inr []
          else case parseCredentialDocument cx s of Some c \<Rightarrow> Inr c | None \<Rightarrow> Inl ''Resource credentials are invalid'')"

text \<open>The copy of the resource a preview deploys: its names and its branch.\<close>

definition preview_resource :: "'z codec_scheme \<Rightarrow> resource \<Rightarrow> preview_deployment \<Rightarrow> string + resource" where
  "preview_resource cx r p =
     map_sum id (\<lambda>creds. r\<lparr>rr_name := pd_appName p, rs_appName := Some (pd_appName p),
         rr_credentials := Some (cx_stringify cx (JObj (cx_encrypt cx (cx_stringify cx
           (JObj (obj_set ''branch'' (JStr (pd_branchName p)) creds))))))\<rparr>)
       (parseResourceCredentialsStrict cx (rr_credentials r))"

definition deployed_resource :: "'x runtime \<Rightarrow> deployment_job \<Rightarrow> resource \<Rightarrow> ('x world, resource) io" where
  "deployed_resource rt j r =
     (if \<not> given_string (jb_previewDeploymentId j) then io_return r
      else io_bind (query rt j (\<lambda>t. findById pd_id (the (jb_previewDeploymentId j)) (tb_previews t)))
        (\<lambda>found. case found of
           None \<Rightarrow> io_return r
         | Some p \<Rightarrow>
             io_then (transact rt j (\<lambda>t. ((), set_preview_status (pd_id p) ''running'' t)))
               (io_lift (preview_resource (rt_codec rt) r p))))"

definition load_project :: "'x runtime \<Rightarrow> deployment_job \<Rightarrow> resource \<Rightarrow> ('x world, project_record) io" where
  "load_project rt j r =
     io_bind (query rt j (\<lambda>t. findById ev_id (rr_environmentId r) (tb_environments t)))
      (\<lambda>e. case e of
         None \<Rightarrow> io_throw ''Resource project not found''
       | Some environment \<Rightarrow>
           io_bind (query rt j (\<lambda>t. findById pj_id (ev_projectId environment) (tb_projects t)))
             (\<lambda>p. case p of None \<Rightarrow> io_throw ''Resource project not found'' | Some project \<Rightarrow> io_return project))"

definition admit_run :: "'x runtime \<Rightarrow> deployment_job \<Rightarrow> resource \<Rightarrow> project_record \<Rightarrow> ('x world, unit) io" where
  "admit_run rt j r project =
     io_then (validateResourceCredentialReferences rt j (pj_organizationId project) (rr_credentials r))
      (io_bind (io_get ww_executionLeaseLost)
        (\<lambda>lost. io_lift (checks
          [throw_if lost ''Deployment canceled: execution lease was lost to another worker.'',
           throw_if (requiresRemoteDeploymentServer (rt_mode rt) \<and> \<not> on_remote_server (rr_serverId r))
             ''Desktop and cloud control planes require a remote deployment server''])))"

definition revision_name :: "string \<Rightarrow> string \<Rightarrow> string" where
  "revision_name baseServiceName deploymentId = take 48 baseServiceName @ ''-upstand-'' @ take 8 deploymentId"

definition prepare_run ::
  "'x runtime \<Rightarrow> deployment_job \<Rightarrow> resource \<Rightarrow> resource \<Rightarrow> project_record \<Rightarrow> string option \<Rightarrow> ('x world, run) io" where
  "prepare_run rt j r deployed project sourceRevision =
     io_bind (resolve_placement rt j deployed)
      (\<lambda>(d, destination). io_bind (resolve_builder rt j deployed)
        (\<lambda>(builder, registry). io_bind (resolve_variables rt j r project)
          (\<lambda>variables.
            let config = parse_advanced_config (rt_codec rt) (rr_advancedConfig deployed) in
            io_bind (if rr_type deployed = ''application'' then call rt j rt_bool (ServiceExists d deployed) else io_return False)
             (\<lambda>stableServiceExists.
               let staged = (rr_type deployed = ''application'' \<and> \<not> given_string (jb_previewDeploymentId j) \<and>
                     stableServiceExists \<and> ds_type (ac_strategy config) \<noteq> ''rolling'');
                   base = sanitizeName (service_name deployed)
               in io_then (io_lift (throw_if (staged \<and> service_name deployed = [])
                              ''Progressive delivery requires a stable application service name''))
                    (io_return
                      \<lparr>rn_resource = r, rn_deployedResource = deployed, rn_project = project, rn_docker = d,
                       rn_destination = destination, rn_builder = builder, rn_registry = registry,
                       rn_variables = variables, rn_config = config, rn_staged = staged, rn_baseServiceName = base,
                       rn_revisionServiceName = (if staged then Some (revision_name base (jb_deploymentId j)) else None),
                       rn_sourceRevision = sourceRevision\<rparr>)))))"

definition execute_claimed :: "'x runtime \<Rightarrow> deployment_job \<Rightarrow> deployment \<Rightarrow> ('x world, unit) io" where
  "execute_claimed rt j claimed =
     io_bind (query rt j (\<lambda>t. findById rr_id (jb_resourceId j) (tb_resources t)))
      (\<lambda>found. io_then (io_modify (\<lambda>w. w\<lparr>ww_resource := found\<rparr>))
        (case found of
           None \<Rightarrow> io_throw ''Resource not found''
         | Some r \<Rightarrow>
             io_bind (load_project rt j r)
              (\<lambda>project. io_then (admit_run rt j r project)
                (io_bind (deployed_resource rt j r)
                  (\<lambda>deployed. io_bind (prepare_run rt j r deployed project
                      (first_given (dep_sourceRevision claimed) (jb_sourceRevision j)))
                    (run_deployment rt j))))))"

section \<open>A job\<close>

definition complete_run :: "'x runtime \<Rightarrow> deployment_job \<Rightarrow> ('x world, unit) io" where
  "complete_run rt j =
     io_then (assertLockOwned j)
      (io_then (flushFinalLogs rt j DSuccess None None) (io_ignore (publishDeploymentOutcome rt j True)))"

text \<open>The \<open>try\<close> block.\<close>

definition run_job :: "'x runtime \<Rightarrow> deployment_job \<Rightarrow> ('x world, unit) io" where
  "run_job rt j =
     io_bind (query rt j (\<lambda>t. findById dep_id (jb_deploymentId j) (tb_deployments t)))
      (\<lambda>found. case found of
         None \<Rightarrow> io_throw ''Deployment record does not match the queued job''
       | Some d \<Rightarrow>
           if dep_resourceId d \<noteq> jb_resourceId j then io_throw ''Deployment record does not match the queued job''
           else if dep_status d \<in> {DSuccess, DFailed, DStale, DCancelled} then io_return ()
           else io_bind (transact rt j (claim_job j))
             (\<lambda>claimed. case claimed of
                None \<Rightarrow> io_return ()
              | Some c \<Rightarrow>
                  io_then (io_modify (\<lambda>w. w\<lparr>ww_heartbeatTimer := True\<rparr>))
                    (io_then (execute_claimed rt j c) (complete_run rt j))))"

definition numberField :: "rat option \<Rightarrow> rat \<Rightarrow> rat" where
  "numberField v fallback = (case v of Some x \<Rightarrow> if x > 0 then x else fallback | None \<Rightarrow> fallback)"

definition retry_delay_seconds :: "deployment_job \<Rightarrow> rat" where
  "retry_delay_seconds j =
     (let baseSeconds = numberField (jb_retryBaseSeconds j) 2;
          maxSeconds = numberField (jb_retryMaxSeconds j) (max baseSeconds 60)
      in min maxSeconds (baseSeconds * 2 ^ (jb_attemptsMade j - 1)))"

text \<open>The \<open>catch\<close> block.\<close>

definition fail_job :: "'x runtime \<Rightarrow> deployment_job \<Rightarrow> string \<Rightarrow> ('x world, unit) io" where
  "fail_job rt j e =
     io_bind (io_get ww_executionLeaseLost)
      (\<lambda>lost. if lost then io_return ()
        else io_bind (call rt j rt_bool (CancellationRequested (deploymentCancellationKey (jb_deploymentId j))))
          (\<lambda>cancelled. io_bind (query rt j (\<lambda>t. findById dep_id (jb_deploymentId j) (tb_deployments t)))
            (\<lambda>current.
              let shouldRetry = (\<not> cancelled \<and> (case current of Some d \<Rightarrow> dep_attempt d < dep_maxAttempts d | None \<Rightarrow> False)) in
              if shouldRetry
              then io_then (flushFinalLogs rt j DRetrying (Some e) (Some (retry_delay_seconds j))) (io_throw e)
              else io_then (flushFinalLogs rt j (if cancelled then DCancelled else DFailed) (Some e) None)
                     (io_when (\<not> cancelled) (io_ignore (publishDeploymentOutcome rt j False))))))"

text \<open>The \<open>finally\<close> block.\<close>

definition clean_up :: "'x runtime \<Rightarrow> deployment_job \<Rightarrow> ('x world, unit) io" where
  "clean_up rt j =
     io_then (io_modify (\<lambda>w. w\<lparr>ww_heartbeatTimer := False\<rparr>))
      (io_then (io_bind (io_get ww_tempSshKeyPath)
                 (\<lambda>path. case path of
                    None \<Rightarrow> io_return ()
                  | Some p \<Rightarrow> io_ignore (perform (\<lambda>_. True) (rt_unit rt) (RemoveKeyFile p))))
        (io_then (call rt j rt_unit DisposeScope)
          (io_then (io_bind (io_get ww_cliCleanups) (io_for (\<lambda>d. perform (\<lambda>_. True) (rt_unit rt) (CloseRemote d))))
            (io_then (call rt j rt_unit (ClearCancellation (deploymentCancellationKey (jb_deploymentId j))))
              (io_ignore (call rt j rt_unit (ReleaseLock (lock_key j))))))))"

definition processJob :: "'x runtime \<Rightarrow> deployment_job \<Rightarrow> ('x world, unit) io" where
  "processJob rt j =
     (if jb_resourceId j = [] \<or> jb_deploymentId j = []
      then io_throw ''Deployment job is missing resourceId or deploymentId''
      else io_bind (call rt j rt_bool (AcquireLock (lock_key j)))
        (\<lambda>acquired. if \<not> acquired
           then io_bind (io_get (\<lambda>w. tb_clock (ww_tables w) + 5000))
                  (\<lambda>until. io_then (call rt j rt_unit (MoveToDelayed until))
                     (io_throw (''Resource '' @ jb_resourceId j @ '' is already building; retry scheduled.'')))
           else io_then (call rt j rt_unit CreateScope)
                  (io_finally (io_catch (run_job rt j) (fail_job rt j)) (clean_up rt j))))"

end
