(* ===== verification/Worker_Relations.thy ===== *)
theory Worker_Relations
  imports Deployment_Worker
begin

text \<open>
  Relations between the world before and after that every part of a run respects, proved once
  in locales: \<open>worker_base\<close> for what awaits and calls ports, \<open>worker_step\<close> for a run
  up to the switch of traffic, \<open>worker_run\<close> for all of it. They are interpreted for the
  lease of the deployment, for a settled deployment and for the calls made.
\<close>

definition routing :: "worker_call \<Rightarrow> bool" where
  "routing c \<longleftrightarrow> (case c of SyncRouting _ _ _ _ \<Rightarrow> True | _ \<Rightarrow> False)"

lemma routing_simps [simp]:
  "routing (SyncRouting d rs s cs)" "\<not> routing (AcquireLock k)" "\<not> routing (ReleaseLock k)" "\<not> routing (MoveToDelayed n)"
  "\<not> routing CreateScope" "\<not> routing DisposeScope" "\<not> routing (CancellationRequested k)" "\<not> routing (ClearCancellation k)"
  "\<not> routing (OpenRemote c)" "\<not> routing (CloseRemote d)" "\<not> routing (ServiceExists d r)"
  "\<not> routing (DeployDatabase d r v cs1)" "\<not> routing (ConfigureReplication d r v)" "\<not> routing (ReadComposeFile d r g so)"
  "\<not> routing (DeployComposeStack d r f cs1 v a)" "\<not> routing (SmokeTest d r)" "\<not> routing (DeployAppImage d r v cs1 a ro)"
  "\<not> routing (InstallationToken s1 s2 s3)" "\<not> routing (WriteKeyFile s1 s2)" "\<not> routing (RemoveKeyFile s1)"
  "\<not> routing (BuildImage d r g od ri so lo v bv bs cs1 ro)" "\<not> routing (CreateService d r od v cs1 ro)"
  "\<not> routing (WaitForConvergence d r so)" "\<not> routing (RemoveRevision d r s1)" "\<not> routing (RollbackService d r)"
  "\<not> routing (PromoteRevision d r s1)" "\<not> routing (ExecCommand d s1 s2 n s3)" "\<not> routing (Sleep n)"
  "\<not> routing (ContainerMetrics s1 s2)" "\<not> routing (PublishNotification s1 s2 s3 s4)"
  by (simp_all add: routing_def)

section \<open>Contracts\<close>

locale worker_base = step_relation R for R :: "'x world \<Rightarrow> 'x world \<Rightarrow> bool" +
  fixes rt :: "'x runtime" and j :: deployment_job
  assumes awaits [keeps_intros]: "keeps R (await rt j)"
    and answers: "\<not> routing c \<Longrightarrow> R w (w\<lparr>ww_ext := x, ww_trace := ww_trace w @ [(c, b)]\<rparr>)"
begin

lemma performs: "\<not> routing c \<Longrightarrow> keeps R (perform good port c)"
  unfolding keeps_def perform_def by (auto split: prod.split intro: answers)

lemma queries [keeps_intros]: "keeps R (query rt j f)"
  unfolding query_def by (intro keeps_intros)

lemma calls: "\<not> routing c \<Longrightarrow> keeps R (call rt j port c)"
  unfolding call_def by (intro keeps_intros performs)

lemma health_checks: "\<not> routing c \<Longrightarrow> keeps R (check_health rt j c)"
  unfolding check_health_def by (intro keeps_intros performs)

lemma publishes [keeps_intros]: "keeps R (publishDeploymentOutcome rt j b)"
  unfolding publishDeploymentOutcome_def by (intro keeps_intros calls routing_simps)

lemma owned_checks [keeps_intros]: "keeps R (assertLockOwned j)"
  unfolding assertLockOwned_def by (intro keeps_intros)

end

locale worker_step = worker_base R rt j for R :: "'x world \<Rightarrow> 'x world \<Rightarrow> bool" and rt j +
  assumes loads [keeps_intros]: "keeps R (io_modify (\<lambda>w. w\<lparr>ww_resource := v\<rparr>))"
    and key_paths [keeps_intros]: "keeps R (io_modify (\<lambda>w. w\<lparr>ww_tempSshKeyPath := p\<rparr>))"
    and cleanups [keeps_intros]: "keeps R (io_modify (\<lambda>w. w\<lparr>ww_cliCleanups := ww_cliCleanups w @ ds\<rparr>))"
    and previews: "keeps R (transact rt j (\<lambda>t. ((), set_preview_status i st t)))"
    and plans: "keeps R (transact rt j (\<lambda>t. case setPlanIfAbsent (tb_clock t) (jb_deploymentId j) plan (tb_deployments t) of
                  (stored, tbl) \<Rightarrow> (stored, t\<lparr>tb_deployments := tbl\<rparr>)))"
begin

lemma placements [keeps_intros]: "keeps R (resolve_placement rt j r)"
  unfolding resolve_placement_def server_connection_def open_remote_def Let_def
  by (intro keeps_intros performs routing_simps)

lemma builders [keeps_intros]: "keeps R (resolve_builder rt j r)"
  unfolding resolve_builder_def server_connection_def open_remote_def build_registry_def Let_def
  by (intro keeps_intros performs routing_simps)

lemma externals [keeps_intros]: "keeps R (resolveExternalValues rt j scope vs)"
  unfolding resolveExternalValues_def by (intro keeps_intros)

lemma variable_steps [keeps_intros]: "keeps R (resolve_variables rt j r p)"
  unfolding resolve_variables_def Let_def by (intro keeps_intros)

lemma registry_auths [keeps_intros]: "keeps R (resolveConfiguredRegistryAuth rt j r org)"
  unfolding resolveConfiguredRegistryAuth_def Let_def by (intro keeps_intros)

lemma key_files [keeps_intros]: "keeps R (write_key rt j track r i e)"
  unfolding write_key_def by (intro keeps_intros performs routing_simps)

lemma direct_sources [keeps_intros]: "keeps R (direct_source rt j track r url f i e)"
  unfolding direct_source_def Let_def by (intro keeps_intros)

lemma hosted_sources [keeps_intros]: "keeps R (hosted_source rt j p c g)"
  unfolding hosted_source_def by (intro keeps_intros calls routing_simps)

lemma connections [keeps_intros]: "keeps R (connected rt j c)"
  unfolding connected_def Let_def by (intro keeps_intros)

lemma git_sources [keeps_intros]: "keeps R (resolveGitSource rt j r)"
  unfolding resolveGitSource_def generic_source_def configured_source_def Let_def by (intro keeps_intros)

lemma application_sources [keeps_intros]: "keeps R (application_source rt j r)"
  unfolding application_source_def configured_source_def Let_def by (intro keeps_intros)

lemma databases [keeps_intros]: "keeps R (deploy_database rt j n)"
  unfolding deploy_database_def Let_def by (intro keeps_intros calls routing_simps)

lemma composes [keeps_intros]: "keeps R (deploy_compose rt j n)"
  unfolding deploy_compose_def compose_file_def resolve_compose_def Let_def by (intro keeps_intros calls routing_simps)

lemma plan_locks [keeps_intros]: "keeps R (lock_plan rt j n a)"
  unfolding lock_plan_def by (intro keeps_intros plans)

lemma applications [keeps_intros]: "keeps R (deploy_application rt j n)"
  unfolding deploy_application_def deploy_image_def deploy_git_def by (intro keeps_intros calls routing_simps)

lemma reverts [keeps_intros]: "keeps R (revert_service rt j n)"
  unfolding revert_service_def
  by (intro keeps_intros) (auto split: bool.split option.split intro: calls)

lemma admissions [keeps_intros]: "keeps R (admit_run rt j r p)"
  unfolding admit_run_def validateResourceCredentialReferences_def Let_def by (intro keeps_intros)

lemma projects [keeps_intros]: "keeps R (load_project rt j r)"
  unfolding load_project_def by (intro keeps_intros)

lemma deployed_resources [keeps_intros]: "keeps R (deployed_resource rt j r)"
  unfolding deployed_resource_def by (intro keeps_intros previews)

lemma preparations [keeps_intros]: "keeps R (prepare_run rt j r d p s)"
  unfolding prepare_run_def Let_def by (intro keeps_intros calls routing_simps)

lemma metric_checks [keeps_intros]: "keeps R (verifyProgressiveDeliveryMetrics rt j r rv s)"
  unfolding verifyProgressiveDeliveryMetrics_def by (intro keeps_intros calls routing_simps)

lemma pre_hooks [keeps_intros]: "keeps R (run_pre_hook rt j n)"
  unfolding run_pre_hook_def by (intro keeps_intros calls routing_simps)

lemma post_hooks [keeps_intros]: "keeps R (run_post_hook rt j n)"
  unfolding run_post_hook_def Let_def by (intro keeps_intros calls routing_simps)

lemma convergence_checks [keeps_intros]: "keeps R (verify_convergence rt j n)"
  unfolding verify_convergence_def by (intro keeps_intros health_checks routing_simps)

end

locale worker_run = worker_step R rt j for R :: "'x world \<Rightarrow> 'x world \<Rightarrow> bool" and rt j +
  assumes routing_answers: "routing c \<Longrightarrow> R w (w\<lparr>ww_ext := x, ww_trace := ww_trace w @ [(c, b)]\<rparr>)"
begin

lemma routes: "keeps R (perform good port (SyncRouting d rs s cs))"
  unfolding keeps_def perform_def by (auto split: prod.split intro: routing_answers)

lemma routing_steps [keeps_intros]: "keeps R (syncCaddyRouting rt j d r ov)"
  unfolding syncCaddyRouting_def call_def by (intro keeps_intros routes)

lemma shifts [keeps_intros]: "keeps R (shift_traffic rt j n rv p)"
  unfolding shift_traffic_def Let_def by (intro keeps_intros)

lemma abandons [keeps_intros]: "keeps R (abandon_revision rt j n rv b e)"
  unfolding abandon_revision_def by (intro keeps_intros calls routing_simps)

lemma promotions [keeps_intros]: "keeps R (finish_promotion rt j n rv)"
  unfolding finish_promotion_def by (intro keeps_intros calls health_checks routing_simps)

lemma deliveries [keeps_intros]: "keeps R (staged_delivery rt j n rv)"
  unfolding staged_delivery_def Let_def by (intro keeps_intros calls routing_simps)

lemma releases [keeps_intros]: "keeps R (release_traffic rt j n)"
  unfolding release_traffic_def
  by (intro keeps_intros) (auto split: bool.split option.split intro: keeps_intros)

lemma workloads [keeps_intros]: "keeps R (deploy_workload rt j n)"
  unfolding deploy_workload_def Let_def by (intro keeps_intros)

lemma deployments [keeps_intros]: "keeps R (run_deployment rt j n)"
  unfolding run_deployment_def route_resource_def by (intro keeps_intros)

lemma executions [keeps_intros]: "keeps R (execute_claimed rt j c)"
  unfolding execute_claimed_def by (intro keeps_intros)

end

end
