(* ===== verification/Worker_Samples.thy ===== *)
theory Worker_Samples
  imports Deployment_Worker
begin

text \<open>
  A small installation the guarantees of the worker are evaluated on: one application with a
  domain, deployed from an image on the control plane, whose ports all succeed.
\<close>

definition shop_resource :: resource where
  "shop_resource =
     \<lparr>rr_id = ''r1'', rr_environmentId = ''e1'', rr_name = ''shop'', rr_type = ''application'', rr_provider = ''docker-registry'',
      rr_dockerImage = Some ''shop:1'', rr_credentials = None, rr_serverId = None, rr_buildServerId = None,
      rr_advancedConfig = None, rr_status = ''queued'', rs_appName = None, rs_description = None, rs_dbType = None,
      rs_composeType = None, rs_buildRegistryId = None, rs_rollbackActive = False, rs_rollbackRegistryId = None,
      rs_triggerType = ''push'', rs_tagPattern = None, rs_watchPaths = ''[]'', rs_buildConfig = ''{}'', rs_buildSecrets = None,
      rs_buildEnvVars = None, rs_envVars = [], rs_domains = ''[]'', rs_isPreviewDeploymentsActive = False, rs_previewLimit = 1,
      rs_previewWildcard = None, rs_previewHttps = False, rs_previewPort = 80, rs_cronJobsEnabled = True, rs_secretVersion = 1\<rparr>"

definition shop_tables :: tables where
  "shop_tables =
     \<lparr>tb_clock = 100, tb_deployments = [sample_deployment], tb_resources = [shop_resource], tb_previews = [],
      tb_environments = [\<lparr>ev_id = ''e1'', ev_projectId = ''p1'', ev_parentEnvironmentId = None, ev_inheritsVariables = False,
        ev_name = ''prod'', ev_slug = ''prod'', ev_description = None, ev_isDefault = True, ev_isProtected = False,
        ev_resourceCount = 1, ev_envVars = None\<rparr>],
      tb_projects = [\<lparr>pj_id = ''p1'', pj_organizationId = ''o1'', pj_archivedAt = None\<rparr>],
      tb_servers = [], tb_sshKeys = [], tb_registries = [], tb_gitProviders = [], tb_secretProviders = [],
      tb_webServerSettings = None, tb_certificates = []\<rparr>"

definition shop_codec :: codec where
  "shop_codec =
     \<lparr>en_json = (\<lambda>_. None), en_decrypt = (\<lambda>_. None), en_otherConfig = (\<lambda>_. True), en_scopeSecret = Inr None,
      en_claims = (\<lambda>_ _ _ _ _. []), en_hmac = (\<lambda>_ _. []), en_production = False, en_localTarget = ([], []),
      cx_stringify = (\<lambda>_. ''{}''), cx_encrypt = (\<lambda>_. []), cx_base64 = id\<rparr>"

definition shop_urls :: url_library where
  "shop_urls = \<lparr>ul_parse = (\<lambda>_. None), ul_print = (\<lambda>_. []), ul_decode = Some, ul_base64 = id\<rparr>"

definition shop_artifact :: build_artifact where
  "shop_artifact =
     \<lparr>ar_sourceRevision = ''main'', ar_configurationVersion = ''1'', ar_buildConfig = ''{}'', ar_detectorVersion = None,
      ar_digest = ''sha256:'' @ replicate 64 (CHR ''0''), ar_reference = ''shop''\<rparr>"

definition shop_runtime :: "unit runtime" where
  "shop_runtime =
     \<lparr>rt_others = (\<lambda>_ t. t), rt_turn = id, rt_beat = (\<lambda>_. Beat), rt_flushes = (\<lambda>_. True), rt_lockLost = (\<lambda>_. False),
      rt_log = (\<lambda>_. ''log''), rt_unit = (\<lambda>_ x. (Inr (), x)),
      rt_bool = (\<lambda>c x. (Inr (case c of AcquireLock _ \<Rightarrow> True | _ \<Rightarrow> False), x)), rt_text = (\<lambda>_ x. (Inr ''text'', x)),
      rt_health = (\<lambda>_ x. (Inr \<lparr>cv_healthy = True, cv_message = None\<rparr>, x)), rt_smoke = (\<lambda>_ x. (Inr None, x)),
      rt_hook = (\<lambda>_ x. (Inr \<lparr>hr_exitCode = Some 0, hr_stderr = None\<rparr>, x)),
      rt_build = (\<lambda>_ x. (Inr shop_artifact, x)),
      rt_metrics = (\<lambda>_ x. (Inr (JArr []), x)), rt_mode = SelfHosted, rt_hostAddress = (\<lambda>_. False), rt_codec = shop_codec,
      rt_urls = shop_urls, rt_external = None, rt_number = (\<lambda>_. ''12.5'')\<rparr>"

definition shop_job :: deployment_job where
  "shop_job =
     \<lparr>jb_resourceId = ''r1'', jb_deploymentId = ''d1'', jb_previewDeploymentId = None, jb_sourceRevision = None,
      jb_retryBaseSeconds = None, jb_retryMaxSeconds = None, jb_attemptsMade = 0, jb_executionToken = ''k1''\<rparr>"

definition shop_world :: "unit world" where
  "shop_world =
     \<lparr>ww_tables = shop_tables, ww_ext = (), ww_trace = [], ww_executionLeaseLost = False, ww_heartbeatTimer = False,
      ww_lockLost = False, ww_resource = None, ww_tempSshKeyPath = None, ww_cliCleanups = []\<rparr>"

definition shop_run :: run where
  "shop_run =
     \<lparr>rn_resource = shop_resource, rn_deployedResource = shop_resource,
      rn_project = \<lparr>pj_id = ''p1'', pj_organizationId = ''o1'', pj_archivedAt = None\<rparr>, rn_docker = LocalDocker,
      rn_destination = None, rn_builder = LocalDocker, rn_registry = None,
      rn_variables = \<lparr>va_envVars = [], va_buildEnvVars = [], va_buildSecrets = None,
        va_scope = \<lparr>sc_organizationId = ''o1'', sc_projectId = ''p1'', sc_environmentId = Some ''e1''\<rparr>\<rparr>,
      rn_config = DEFAULT_RESOURCE_ADVANCED_CONFIG, rn_staged = False, rn_baseServiceName = ''shop'',
      rn_revisionServiceName = None, rn_sourceRevision = None\<rparr>"

definition route_call :: "resource \<Rightarrow> worker_call" where
  "route_call r = SyncRouting LocalDocker [routed_resource r] None []"

definition image_call :: worker_call where
  "image_call = DeployAppImage LocalDocker shop_resource [] (Some [''node.role==manager'']) None (revisionOptions shop_job shop_run)"

lemmas shop_simps = shop_runtime_def shop_job_def shop_world_def shop_tables_def shop_resource_def shop_run_def

lemma shop_found: "findById dep_id (jb_deploymentId shop_job) (tb_deployments (ww_tables shop_world)) = Some sample_deployment"
  by (simp add: shop_simps sample_deployment_def findById_def)

lemma shop_trace:
  "ww_trace (snd (run_deployment shop_runtime shop_job shop_run shop_world)) =
     [(image_call, True), (WaitForConvergence LocalDocker shop_resource None, True), (route_call shop_resource, True)]"
  by code_simp

end
