(* ===== verification/Worker_Guarantees.thy ===== *)
theory Worker_Guarantees
  imports Worker_Relations Worker_Samples
begin

text \<open>
  What a run of the deployment worker guarantees: its deployment is settled whatever fails, an
  application gets traffic only after its containers were healthy, a delivery that fails is
  undone, and the service that is created is the one of the locked plan.
\<close>

section \<open>The calls of a run\<close>

definition quiet :: "'x world \<Rightarrow> 'x world \<Rightarrow> bool" where
  "quiet w w' \<longleftrightarrow> (\<exists>es. ww_trace w' = ww_trace w @ es \<and> (\<forall>e \<in> set es. \<not> routing (fst e)))"

definition extends :: "'x world \<Rightarrow> 'x world \<Rightarrow> bool" where
  "extends w w' \<longleftrightarrow> (\<exists>es. ww_trace w' = ww_trace w @ es)"

lemma await_trace [simp]: "ww_trace (await_turn rt j w) = ww_trace w"
  by (simp add: await_turn_def Let_def case_prod_unfold)

lemma transact_trace: "ww_trace (snd (transact rt j f w)) = ww_trace w"
  by (simp add: transact_def io_then_def io_bind_def await_def io_modify_def case_prod_unfold)

lemma quiet_refl: "ww_trace w' = ww_trace w \<Longrightarrow> quiet w w'"
  by (simp add: quiet_def)

lemma extends_refl: "ww_trace w' = ww_trace w \<Longrightarrow> extends w w'"
  by (simp add: extends_def)

lemma keeps_quiet: "(\<And>w. ww_trace (snd (m w)) = ww_trace w) \<Longrightarrow> keeps quiet m"
  by (simp add: keeps_def quiet_refl)

lemma keeps_extends: "(\<And>w. ww_trace (snd (m w)) = ww_trace w) \<Longrightarrow> keeps extends m"
  by (simp add: keeps_def extends_refl)

interpretation quiet: worker_step quiet rt j for rt j
proof unfold_locales
  fix u v w :: "'a world"
  show "quiet w w" by (simp add: quiet_refl)
  assume "quiet u v" "quiet v w"
  then show "quiet u w" unfolding quiet_def by (metis Un_iff append.assoc set_append)
next
  fix c x b and w :: "'a world"
  assume "\<not> routing c"
  then show "quiet w (w\<lparr>ww_ext := x, ww_trace := ww_trace w @ [(c, b)]\<rparr>)" by (simp add: quiet_def)
qed (simp_all add: keeps_quiet transact_trace await_def io_modify_def)

interpretation extends: worker_run extends rt j for rt j
proof unfold_locales
  fix u v w :: "'a world"
  show "extends w w" by (simp add: extends_refl)
  assume "extends u v" "extends v w"
  then show "extends u w" unfolding extends_def by (metis append.assoc)
qed (simp_all add: keeps_extends transact_trace await_def io_modify_def, simp_all add: extends_def)

section \<open>The lease of a run\<close>

text \<open>
  Nobody else writes the deployment of the run or the status of its resource, heartbeats reach
  the database and the lock of the resource is kept.
\<close>

definition undisturbed :: "'x runtime \<Rightarrow> deployment_job \<Rightarrow> bool" where
  "undisturbed rt j \<longleftrightarrow>
     (\<forall>x t. findById dep_id (jb_deploymentId j) (tb_deployments (rt_others rt x t)) =
              findById dep_id (jb_deploymentId j) (tb_deployments t) \<and>
            map_option rr_status (findById rr_id (jb_resourceId j) (tb_resources (rt_others rt x t))) =
              map_option rr_status (findById rr_id (jb_resourceId j) (tb_resources t))) \<and>
     (\<forall>x. rt_beat rt x \<noteq> BeatFails \<and> \<not> rt_lockLost rt x)"

definition leased :: "deployment_job \<Rightarrow> int \<Rightarrow> int \<Rightarrow> 'x world \<Rightarrow> bool" where
  "leased j a m w \<longleftrightarrow>
     (\<exists>d. findById dep_id (jb_deploymentId j) (tb_deployments (ww_tables w)) = Some d \<and> owned_by (jb_executionToken j) d \<and>
          dep_attempt d = a \<and> dep_maxAttempts d = m) \<and>
     \<not> ww_executionLeaseLost w \<and> \<not> ww_lockLost w"

definition run_settled :: "deployment_job \<Rightarrow> int \<Rightarrow> int \<Rightarrow> deployment_status \<Rightarrow> 'x world \<Rightarrow> bool" where
  "run_settled j a m status w \<longleftrightarrow>
     (\<exists>d. findById dep_id (jb_deploymentId j) (tb_deployments (ww_tables w)) = Some d \<and>
          dep_status d = status \<and> dep_executionToken d = None \<and> dep_heartbeatAt d = None \<and> dep_attempt d = a \<and>
          dep_maxAttempts d = m \<and> (dep_retryAt d = None \<longleftrightarrow> status \<noteq> DRetrying) \<and>
          (dep_lastError d = None \<longleftrightarrow> status = DSuccess)) \<and>
     (\<not> given_string (jb_previewDeploymentId j) \<longrightarrow>
        map_option rr_status (findById rr_id (jb_resourceId j) (tb_resources (ww_tables w))) \<in> {None, Some (resource_outcome status)})"

definition lease_kept :: "'x runtime \<Rightarrow> deployment_job \<Rightarrow> 'x world \<Rightarrow> 'x world \<Rightarrow> bool" where
  "lease_kept rt j w w' \<longleftrightarrow> (undisturbed rt j \<longrightarrow> (\<forall>a m. leased j a m w \<longrightarrow> leased j a m w'))"

definition settled_kept :: "'x runtime \<Rightarrow> deployment_job \<Rightarrow> 'x world \<Rightarrow> 'x world \<Rightarrow> bool" where
  "settled_kept rt j w w' \<longleftrightarrow> (undisturbed rt j \<longrightarrow> (\<forall>a m s. run_settled j a m s w \<longrightarrow> run_settled j a m s w'))"

text \<open>The timers write the row only while the run owns it, and then keep what makes it its own.\<close>

lemma owned_update:
  assumes "findById dep_id i tbl = Some d" "owned_by k d" "\<And>x. dep_id (f x) = dep_id x"
  shows "findById dep_id i (snd (update_where dep_id i (owned_by k) f tbl)) = Some (f d)"
    and "fst (update_where dep_id i (owned_by k) f tbl) = Some (f d)"
proof -
  show *: "fst (update_where dep_id i (owned_by k) f tbl) = Some (f d)" using assms by (simp add: update_where_hit)
  show "findById dep_id i (snd (update_where dep_id i (owned_by k) f tbl)) = Some (f d)"
    using update_where_returns [OF *] assms(3) by simp
qed

lemma disowned_update:
  assumes "findById dep_id i tbl = Some d" "\<not> owned_by k d"
  shows "update_where dep_id i (owned_by k) f tbl = (None, tbl)"
  using assms by (simp add: update_where_miss)

lemma beat_leased:
  assumes "findById dep_id (jb_deploymentId j) (tb_deployments t) = Some d" "owned_by (jb_executionToken j) d" "h \<noteq> BeatFails"
  shows "\<exists>d'. \<not> fst (beat h j t) \<and> findById dep_id (jb_deploymentId j) (tb_deployments (snd (beat h j t))) = Some d' \<and>
    owned_by (jb_executionToken j) d' \<and> dep_attempt d' = dep_attempt d \<and> dep_maxAttempts d' = dep_maxAttempts d"
  using assms
  by (cases h) (auto simp: beat_def heartbeatOwned_def owned_update case_prod_unfold owned_by_def)

lemma flush_leased:
  assumes "findById dep_id (jb_deploymentId j) (tb_deployments t) = Some d" "owned_by (jb_executionToken j) d"
  shows "\<exists>d'. findById dep_id (jb_deploymentId j) (tb_deployments (flush_logs s j t)) = Some d' \<and>
    owned_by (jb_executionToken j) d' \<and> dep_attempt d' = dep_attempt d \<and> dep_maxAttempts d' = dep_maxAttempts d"
  using assms
  by (auto simp: flush_logs_def updateByIdOwned_def owned_update patch_deployment_def no_deployment_update_def given_def owned_by_def)

lemma beat_disowned:
  assumes "findById dep_id (jb_deploymentId j) (tb_deployments t) = Some d" "\<not> owned_by (jb_executionToken j) d"
  shows "snd (beat h j t) = t"
  using assms by (cases h) (simp_all add: beat_def heartbeatOwned_def disowned_update)

lemma flush_disowned:
  assumes "findById dep_id (jb_deploymentId j) (tb_deployments t) = Some d" "\<not> owned_by (jb_executionToken j) d"
  shows "flush_logs s j t = t"
  using assms by (simp add: flush_logs_def updateByIdOwned_def disowned_update)

lemma timers_resources [simp]: "tb_resources (snd (beat h j t)) = tb_resources t" "tb_resources (flush_logs s j t) = tb_resources t"
  by (cases h) (simp_all add: beat_def flush_logs_def case_prod_unfold)

lemma await_leased:
  assumes "undisturbed rt j" "leased j a m w"
  shows "leased j a m (await_turn rt j w)"
proof -
  define t where "t = rt_others rt (ww_ext w) (ww_tables w)"
  define h where "h = (if ww_heartbeatTimer w then rt_beat rt (ww_ext w) else NoBeat)"
  from assms have "h \<noteq> BeatFails" and lock: "\<not> rt_lockLost rt (ww_ext w)" by (auto simp: undisturbed_def h_def)
  moreover from assms obtain d where d: "findById dep_id (jb_deploymentId j) (tb_deployments t) = Some d"
      "owned_by (jb_executionToken j) d" "dep_attempt d = a" "dep_maxAttempts d = m"
    by (auto simp: undisturbed_def leased_def t_def)
  ultimately obtain d1 where d1: "\<not> fst (beat h j t)"
      "findById dep_id (jb_deploymentId j) (tb_deployments (snd (beat h j t))) = Some d1"
      "owned_by (jb_executionToken j) d1" "dep_attempt d1 = a" "dep_maxAttempts d1 = m"
    using beat_leased by metis
  obtain d2 where d2: "findById dep_id (jb_deploymentId j) (tb_deployments (flush_logs (rt_log rt (ww_ext w)) j (snd (beat h j t)))) = Some d2"
      "owned_by (jb_executionToken j) d2" "dep_attempt d2 = a" "dep_maxAttempts d2 = m"
    using flush_leased [OF d1(2,3)] d1(4,5) by metis
  from assms(2) d1 d2 lock show ?thesis
    by (auto simp: leased_def await_turn_def Let_def case_prod_unfold t_def h_def)
qed

lemma await_settled:
  assumes "undisturbed rt j" "run_settled j a m s w"
  shows "run_settled j a m s (await_turn rt j w)"
proof -
  define t where "t = rt_others rt (ww_ext w) (ww_tables w)"
  from assms obtain d where d: "findById dep_id (jb_deploymentId j) (tb_deployments t) = Some d" "dep_executionToken d = None"
    by (auto simp: undisturbed_def run_settled_def t_def)
  then have "\<not> owned_by (jb_executionToken j) d" by (simp add: owned_by_def)
  with d have "ww_tables (await_turn rt j w) = t"
    by (simp add: await_turn_def Let_def case_prod_unfold t_def beat_disowned flush_disowned)
  with assms show ?thesis by (simp add: run_settled_def undisturbed_def t_def)
qed

lemma keeps_leased: "(\<And>a m w. undisturbed rt j \<Longrightarrow> leased j a m w \<Longrightarrow> leased j a m (snd (f w))) \<Longrightarrow> keeps (lease_kept rt j) f"
  by (simp add: keeps_def lease_kept_def)

lemma transact_leased:
  fixes w :: "'x world"
  assumes "undisturbed rt j" "leased j a m w"
    "\<And>v :: 'x world. leased j a m v \<Longrightarrow> leased j a m (v\<lparr>ww_tables := snd (f (ww_tables v))\<rparr>)"
  shows "leased j a m (snd (transact rt j f w))"
  using assms(3) [OF await_leased [OF assms(1,2)]]
  by (simp add: transact_def io_then_def io_bind_def await_def io_modify_def case_prod_unfold)

lemma plan_leased:
  assumes "leased j a m w"
  shows "leased j a m (w\<lparr>ww_tables := (ww_tables w)\<lparr>tb_deployments :=
    snd (setPlanIfAbsent now (jb_deploymentId j) p (tb_deployments (ww_tables w)))\<rparr>\<rparr>)"
proof -
  let ?same = "\<lambda>d d'. dep_status d' = dep_status d \<and> dep_executionToken d' = dep_executionToken d \<and>
    dep_attempt d' = dep_attempt d \<and> dep_maxAttempts d' = dep_maxAttempts d"
  from assms obtain d where d: "findById dep_id (jb_deploymentId j) (tb_deployments (ww_tables w)) = Some d"
      "owned_by (jb_executionToken j) d" "dep_attempt d = a" "dep_maxAttempts d = m"
    by (auto simp: leased_def)
  have "\<exists>d'. findById dep_id (jb_deploymentId j)
      (snd (setPlanIfAbsent now (jb_deploymentId j) p (tb_deployments (ww_tables w)))) = Some d' \<and> ?same d d'"
    unfolding setPlanIfAbsent_def by (rule update_where_keeps [where R = ?same, OF d(1)]) simp_all
  with d assms show ?thesis by (auto simp: leased_def owned_by_def)
qed

interpretation lease: worker_run "lease_kept rt j" rt j for rt j
proof unfold_locales
  fix u v w :: "'a world"
  show "lease_kept rt j w w" by (simp add: lease_kept_def)
  assume "lease_kept rt j u v" "lease_kept rt j v w"
  then show "lease_kept rt j u w" by (simp add: lease_kept_def)
next
  fix plan
  show "keeps (lease_kept rt j) (transact rt j (\<lambda>t. case setPlanIfAbsent (tb_clock t) (jb_deploymentId j) plan (tb_deployments t) of
      (stored, tbl) \<Rightarrow> (stored, t\<lparr>tb_deployments := tbl\<rparr>)))"
    by (rule keeps_leased, rule transact_leased) (auto simp: case_prod_unfold plan_leased)
next
  fix i st
  show "keeps (lease_kept rt j) (transact rt j (\<lambda>t. ((), set_preview_status i st t)))"
    by (rule keeps_leased, rule transact_leased) (auto simp: leased_def set_preview_status_def)
qed (auto simp: lease_kept_def keeps_def await_def io_modify_def await_leased, auto simp: leased_def)

interpretation settled: worker_base "settled_kept rt j" rt j for rt j
  by unfold_locales (auto simp: settled_kept_def keeps_def await_def io_modify_def await_settled, auto simp: run_settled_def)

section \<open>Settling a run\<close>

lemma io_then_Inr: "m w = (Inr a, v) \<Longrightarrow> io_then m n w = n v"
  by (simp add: io_then_def io_bind_def)

lemma await_run: "await rt j w = (Inr (), await_turn rt j w)"
  by (simp add: await_def io_modify_def)

lemma query_run: "query rt j f w = (Inr (f (ww_tables (await_turn rt j w))), await_turn rt j w)"
  by (simp add: query_def io_then_Inr [OF await_run] io_get_def)

lemma transact_run:
  "transact rt j f w = (Inr (fst (f (ww_tables (await_turn rt j w)))), (await_turn rt j w)\<lparr>ww_tables := snd (f (ww_tables (await_turn rt j w)))\<rparr>)"
  by (simp add: transact_def io_then_Inr [OF await_run] case_prod_unfold)

lemma call_run:
  "call rt j port c w =
     (let w1 = await_turn rt j w; (r, x) = port rt c (ww_ext w1)
      in (r, w1\<lparr>ww_ext := x, ww_trace := ww_trace w @ [(c, answered (\<lambda>_. True) r)]\<rparr>))"
  by (simp add: call_def io_then_Inr [OF await_run] perform_def Let_def case_prod_unfold)

lemma check_health_run:
  "check_health rt j c w =
     (let w1 = await_turn rt j w; (r, x) = rt_health rt c (ww_ext w1)
      in (r, w1\<lparr>ww_ext := x, ww_trace := ww_trace w @ [(c, answered cv_healthy r)]\<rparr>))"
  by (simp add: check_health_def io_then_Inr [OF await_run] perform_def Let_def case_prod_unfold)

lemmas run_simps = query_run transact_run call_run check_health_run await_run

lemma record_settles:
  assumes "leased j a m w" "status = DSuccess \<longleftrightarrow> lastError = None" "status = DRetrying \<longleftrightarrow> delay \<noteq> None"
  shows "fst (record_final j logs status lastError delay (ww_tables w)) \<and>
    run_settled j a m status (w\<lparr>ww_tables := snd (record_final j logs status lastError delay (ww_tables w))\<rparr>)"
proof -
  define retryAt where "retryAt = (if status = DRetrying then map_option (\<lambda>s. tb_clock (ww_tables w) + \<lfloor>s * 1000\<rfloor>) delay else None)"
  define f where "f = patch_deployment (tb_clock (ww_tables w)) (final_patch logs status lastError retryAt)"
  from assms(1) obtain d where d: "findById dep_id (jb_deploymentId j) (tb_deployments (ww_tables w)) = Some d"
      "owned_by (jb_executionToken j) d" "dep_attempt d = a" "dep_maxAttempts d = m"
    by (auto simp: leased_def)
  have k: "dep_id (f x) = dep_id x" for x by (simp add: f_def)
  note u = owned_update [OF d(1,2) k]
  have r: "map_option rr_status (findById rr_id i (tb_resources (set_resource_status i s t))) \<in> {None, Some s}" for i s t
    by (auto simp: set_resource_status_def updateById_def update_where_find row_simps split: option.split)
  have s [simp]: "tb_deployments (set_preview_status i s t) = tb_deployments t" "tb_deployments (set_resource_status i s t) = tb_deployments t"
      for i s t by (simp_all add: set_preview_status_def set_resource_status_def)
  have f: "dep_status (f d) = status" "dep_executionToken (f d) = None" "dep_heartbeatAt (f d) = None"
      "dep_attempt (f d) = a" "dep_maxAttempts (f d) = m" "dep_retryAt (f d) = retryAt" "dep_lastError (f d) = lastError"
    using d(3,4) by (simp_all add: f_def patch_deployment_def final_patch_def no_deployment_update_def given_def)
  have a: "dep_retryAt (f d) = None \<longleftrightarrow> status \<noteq> DRetrying"
    using assms(3) by (auto simp: f(6) retryAt_def)
  from u f assms(2) a r show ?thesis
    unfolding record_final_def updateByIdOwned_def Let_def retryAt_def [symmetric] f_def [symmetric] run_settled_def
    by (auto simp: case_prod_unfold split: option.split)
qed

lemma assertLockOwned_run: "\<not> ww_lockLost w \<Longrightarrow> assertLockOwned j w = (Inr (), w)"
  by (simp add: assertLockOwned_def io_bind_def io_get_def io_lift_def throw_if_def)

lemma flush_settles:
  assumes "undisturbed rt j" "leased j a m w" "status = DSuccess \<longleftrightarrow> lastError = None" "status = DRetrying \<longleftrightarrow> delay \<noteq> None"
  shows "\<exists>w'. flushFinalLogs rt j status lastError delay w = (Inr (), w') \<and> run_settled j a m status w'"
proof -
  define w1 where "w1 = await_turn rt j w"
  define w2 where "w2 = await_turn rt j w1"
  have l: "leased j a m w1" "leased j a m w2" using assms by (simp_all add: w1_def w2_def await_leased)
  then have "\<not> ww_lockLost w1" by (simp add: leased_def)
  note o = assertLockOwned_run [OF this, of j]
  note c = record_settles [OF l(2) assms(3,4), of "rt_log rt (ww_ext w1)"]
  have "flushFinalLogs rt j status lastError delay w =
      (Inr (), w2\<lparr>ww_tables := snd (record_final j (rt_log rt (ww_ext w1)) status lastError delay (ww_tables w2))\<rparr>)"
    using c by (simp add: flushFinalLogs_def io_then_def io_bind_def await_run o io_get_def transact_run io_return_def
        w1_def [symmetric] w2_def [symmetric])
  with c show ?thesis by blast
qed

lemma complete_settles:
  assumes "undisturbed rt j" "leased j a m w"
  obtains w' where "complete_run rt j w = (Inr (), w')" "run_settled j a m DSuccess w'"
proof -
  from assms(2) have "\<not> ww_lockLost w" by (simp add: leased_def)
  note o = assertLockOwned_run [OF this, of j]
  obtain v where v: "flushFinalLogs rt j DSuccess None None w = (Inr (), v)" "run_settled j a m DSuccess v"
    using flush_settles [OF assms, of DSuccess None None] by auto
  obtain w' where w': "io_ignore (publishDeploymentOutcome rt j True) v = (Inr (), w')"
    by (metis io_ignore_ok)
  have "settled_kept rt j v w'"
    using keepsD [OF settled.keeps_ignore [OF settled.publishes] w'] .
  with v(2) assms(1) have "run_settled j a m DSuccess w'" by (simp add: settled_kept_def)
  with w' that show ?thesis
    by (simp add: complete_run_def io_then_def io_bind_def o v(1))
qed

definition settles_failed :: "deployment_job \<Rightarrow> int \<Rightarrow> int \<Rightarrow> 'x world \<Rightarrow> bool" where
  "settles_failed j a m w \<longleftrightarrow>
     run_settled j a m DRetrying w \<and> a < m \<or> run_settled j a m DFailed w \<and> \<not> a < m \<or> run_settled j a m DCancelled w"

lemma failed_kept: "settled_kept rt j v w \<Longrightarrow> undisturbed rt j \<Longrightarrow> settles_failed j a m v \<Longrightarrow> settles_failed j a m w"
  by (auto simp: settled_kept_def settles_failed_def)

lemma fail_settles:
  assumes u: "undisturbed rt j" and l: "leased j a m w"
    and answers: "\<And>x. \<exists>b x'. rt_bool rt (CancellationRequested (deploymentCancellationKey (jb_deploymentId j))) x = (Inr b, x')"
  shows "settles_failed j a m (snd (fail_job rt j e w))"
proof -
  let ?c = "CancellationRequested (deploymentCancellationKey (jb_deploymentId j))"
  obtain b x where x: "rt_bool rt ?c (ww_ext (await_turn rt j w)) = (Inr b, x)" using answers by blast
  define w1 where "w1 = (await_turn rt j w)\<lparr>ww_ext := x, ww_trace := ww_trace w @ [(?c, True)]\<rparr>"
  have c: "call rt j rt_bool ?c w = (Inr b, w1)" by (simp add: call_run x Let_def answered_def w1_def)
  define w2 where "w2 = await_turn rt j w1"
  from await_leased [OF u l] have "leased j a m w1" by (simp add: w1_def leased_def)
  from await_leased [OF u this] have l2: "leased j a m w2" by (simp add: w2_def)
  then obtain d where d: "findById dep_id (jb_deploymentId j) (tb_deployments (ww_tables w2)) = Some d"
      "dep_attempt d = a" "dep_maxAttempts d = m" by (auto simp: leased_def)
  have f: "fail_job rt j e w =
      (if \<not> b \<and> a < m then io_then (flushFinalLogs rt j DRetrying (Some e) (Some (retry_delay_seconds j))) (io_throw e) w2
       else io_then (flushFinalLogs rt j (if b then DCancelled else DFailed) (Some e) None)
              (io_when (\<not> b) (io_ignore (publishDeploymentOutcome rt j False))) w2)"
    using l d by (simp add: fail_job_def io_bind_def io_get_def c query_run w2_def [symmetric] Let_def leased_def)
  show ?thesis
  proof (cases "\<not> b \<and> a < m")
    case True
    obtain v where "flushFinalLogs rt j DRetrying (Some e) (Some (retry_delay_seconds j)) w2 = (Inr (), v)" "run_settled j a m DRetrying v"
      using flush_settles [OF u l2, of DRetrying "Some e" "Some (retry_delay_seconds j)"] by auto
    with True f show ?thesis by (simp add: io_then_Inr io_throw_def settles_failed_def)
  next
    case False
    obtain v where v: "flushFinalLogs rt j (if b then DCancelled else DFailed) (Some e) None w2 = (Inr (), v)"
        "run_settled j a m (if b then DCancelled else DFailed) v"
      using flush_settles [OF u l2, of "if b then DCancelled else DFailed" "Some e" None] by (cases b) auto
    with False have s: "settles_failed j a m v" by (auto simp: settles_failed_def split: if_splits)
    have "keeps (settled_kept rt j) (io_when (\<not> b) (io_ignore (publishDeploymentOutcome rt j False)))"
      by (intro settled.keeps_when settled.keeps_ignore settled.publishes)
    then have "settled_kept rt j v (snd (io_when (\<not> b) (io_ignore (publishDeploymentOutcome rt j False)) v))"
      by (simp add: keeps_def)
    note kept = failed_kept [OF this u s]
    from False have "fail_job rt j e w = io_when (\<not> b) (io_ignore (publishDeploymentOutcome rt j False)) v"
      unfolding f by (simp only: if_not_P) (simp add: io_then_def io_bind_def v(1))
    with kept show ?thesis by simp
  qed
qed

lemma clean_up_keeps: "keeps (settled_kept rt j) (clean_up rt j)"
proof -
  have "keeps (settled_kept rt j) (io_modify (\<lambda>w. w\<lparr>ww_heartbeatTimer := False\<rparr>))"
    by (simp add: keeps_def io_modify_def settled_kept_def run_settled_def)
  then show ?thesis
    unfolding clean_up_def
    by (intro keeps_intros settled.calls settled.performs routing_simps)
qed

lemma await_idle:
  assumes "undisturbed rt j" "findById dep_id (jb_deploymentId j) (tb_deployments (ww_tables w)) = Some d"
    "\<not> owned_by (jb_executionToken j) d" "\<not> ww_heartbeatTimer w"
  shows "findById dep_id (jb_deploymentId j) (tb_deployments (ww_tables (await_turn rt j w))) = Some d"
    "ww_executionLeaseLost (await_turn rt j w) = ww_executionLeaseLost w" "ww_lockLost (await_turn rt j w) = ww_lockLost w"
    "ww_heartbeatTimer (await_turn rt j w) = ww_heartbeatTimer w"
proof -
  define t where "t = rt_others rt (ww_ext w) (ww_tables w)"
  from assms have d: "findById dep_id (jb_deploymentId j) (tb_deployments t) = Some d" by (simp add: t_def undisturbed_def)
  show "findById dep_id (jb_deploymentId j) (tb_deployments (ww_tables (await_turn rt j w))) = Some d"
    using assms d
    by (simp add: await_turn_def Let_def case_prod_unfold t_def [symmetric] beat_disowned [OF d] flush_disowned [OF d])
  show "ww_executionLeaseLost (await_turn rt j w) = ww_executionLeaseLost w" "ww_lockLost (await_turn rt j w) = ww_lockLost w"
      "ww_heartbeatTimer (await_turn rt j w) = ww_heartbeatTimer w"
    using assms by (simp_all add: await_turn_def Let_def case_prod_unfold beat_def undisturbed_def)
qed

lemma claim_leases:
  assumes "findById dep_id (jb_deploymentId j) (tb_deployments (ww_tables w)) = Some d"
    "dep_status d \<in> {DQueued, DRetrying}" "\<not> ww_executionLeaseLost w" "\<not> ww_lockLost w"
  shows "\<exists>c. fst (claim_job j (ww_tables w)) = Some c \<and>
    leased j (dep_attempt d + 1) (dep_maxAttempts d) (w\<lparr>ww_tables := snd (claim_job j (ww_tables w))\<rparr>)"
proof -
  define now where "now = tb_clock (ww_tables w)"
  have "claimable (now - execution_lease_ms) d" using assms(2) by (auto simp: claimable_def)
  then obtain c where c: "fst (claimForExecution now execution_lease_ms (jb_deploymentId j) (jb_executionToken j)
        (tb_deployments (ww_tables w))) = Some c" "dep_attempt c = dep_attempt d + 1" "dep_maxAttempts c = dep_maxAttempts d"
    using assms(1) by (auto simp: claimForExecution_def Let_def update_where_hit)
  moreover from claim_result [OF prod.collapse [symmetric, of "claimForExecution now execution_lease_ms (jb_deploymentId j) (jb_executionToken j)
        (tb_deployments (ww_tables w))", unfolded c(1)]]
  have "findById dep_id (jb_deploymentId j) (snd (claimForExecution now execution_lease_ms (jb_deploymentId j)
      (jb_executionToken j) (tb_deployments (ww_tables w)))) = Some c" "owned_by (jb_executionToken j) c" by auto
  ultimately show ?thesis
    using assms(3,4)
    by (auto simp: claim_job_def leased_def now_def [symmetric] set_resource_status_def case_prod_unfold split: option.split)
qed

lemma run_leases:
  assumes u: "undisturbed rt j" and d: "findById dep_id (jb_deploymentId j) (tb_deployments (ww_tables w)) = Some d"
    and q: "dep_status d \<in> {DQueued, DRetrying}" and i: "dep_resourceId d = jb_resourceId j"
    and fresh: "\<not> ww_executionLeaseLost w" "\<not> ww_lockLost w" "\<not> ww_heartbeatTimer w"
  shows "\<exists>c v. run_job rt j w = io_then (execute_claimed rt j c) (complete_run rt j) v \<and>
    leased j (dep_attempt d + 1) (dep_maxAttempts d) v"
proof -
  have o: "\<not> owned_by (jb_executionToken j) d" using q by (auto simp: owned_by_def)
  define w1 where "w1 = await_turn rt j w"
  note w1 = await_idle [OF u d o fresh(3), folded w1_def]
  define w2 where "w2 = await_turn rt j w1"
  have "\<not> ww_heartbeatTimer w1" using w1 fresh by simp
  note w2 = await_idle [OF u w1(1) o this, folded w2_def]
  have "\<not> ww_executionLeaseLost w2" "\<not> ww_lockLost w2" using w1 w2 fresh by simp_all
  then obtain c where c: "fst (claim_job j (ww_tables w2)) = Some c"
      "leased j (dep_attempt d + 1) (dep_maxAttempts d) (w2\<lparr>ww_tables := snd (claim_job j (ww_tables w2))\<rparr>)"
    using claim_leases [OF w2(1) q] by blast
  define v where "v = w2\<lparr>ww_tables := snd (claim_job j (ww_tables w2)), ww_heartbeatTimer := True\<rparr>"
  from c(2) have l: "leased j (dep_attempt d + 1) (dep_maxAttempts d) v" by (simp add: leased_def v_def)
  have "run_job rt j w = io_then (execute_claimed rt j c) (complete_run rt j) v"
    using w1(1) q i
    by (auto simp: run_job_def io_bind_def query_run transact_run w1_def [symmetric] w2_def [symmetric] c(1)
        io_then_def [of "io_modify _"] io_modify_def v_def)
  with l show ?thesis by blast
qed

definition answers_cancellation :: "'x runtime \<Rightarrow> deployment_job \<Rightarrow> bool" where
  "answers_cancellation rt j \<longleftrightarrow>
     (\<forall>x. \<exists>b x'. rt_bool rt (CancellationRequested (deploymentCancellationKey (jb_deploymentId j))) x = (Inr b, x'))"

lemma job_settles:
  assumes u: "undisturbed rt j" and d: "findById dep_id (jb_deploymentId j) (tb_deployments (ww_tables w)) = Some d"
    and q: "dep_status d \<in> {DQueued, DRetrying}" and i: "dep_resourceId d = jb_resourceId j"
    and fresh: "\<not> ww_executionLeaseLost w" "\<not> ww_lockLost w" "\<not> ww_heartbeatTimer w"
    and c: "answers_cancellation rt j"
  shows "\<exists>w'. io_catch (run_job rt j) (fail_job rt j) w = (Inr (), w') \<and> run_settled j (dep_attempt d + 1) (dep_maxAttempts d) DSuccess w' \<or>
    (\<exists>r. io_catch (run_job rt j) (fail_job rt j) w = (r, w') \<and> settles_failed j (dep_attempt d + 1) (dep_maxAttempts d) w')"
proof -
  let ?a = "dep_attempt d + 1" and ?m = "dep_maxAttempts d"
  obtain cl v where v: "run_job rt j w = io_then (execute_claimed rt j cl) (complete_run rt j) v" "leased j ?a ?m v"
    using run_leases [OF u d q i fresh] by blast
  obtain r v1 where e: "execute_claimed rt j cl v = (r, v1)" by (metis surj_pair)
  have "lease_kept rt j v v1" using keepsD [OF lease.executions e] .
  with u v(2) have l: "leased j ?a ?m v1" by (simp add: lease_kept_def)
  show ?thesis
  proof (cases r)
    case (Inl err)
    then have "io_catch (run_job rt j) (fail_job rt j) w = fail_job rt j err v1"
      using e by (simp add: io_catch_def v(1) io_then_def io_bind_def)
    moreover have "settles_failed j ?a ?m (snd (fail_job rt j err v1))"
      using fail_settles [OF u l] c by (simp add: answers_cancellation_def)
    ultimately show ?thesis by (metis prod.collapse)
  next
    case (Inr _)
    obtain w' where "complete_run rt j v1 = (Inr (), w')" "run_settled j ?a ?m DSuccess w'"
      using complete_settles [OF u l] by metis
    with Inr e show ?thesis by (auto simp: io_catch_def v(1) io_then_def io_bind_def)
  qed
qed


lemma shop_undisturbed: "undisturbed shop_runtime shop_job"
  by (simp add: undisturbed_def shop_runtime_def)


end
