(* ===== verification/Delivery_Guarantees.thy ===== *)
theory Delivery_Guarantees
  imports Worker_Guarantees
begin

text \<open>
  What users of a deployed application see: when it gets traffic and in which shares, what a
  failed delivery leaves behind, and which build its service runs.
\<close>

section \<open>Traffic after health\<close>

definition health_check :: "run \<Rightarrow> worker_call \<times> bool" where
  "health_check n = (WaitForConvergence (rn_docker n) (rn_deployedResource n) (rn_revisionServiceName n), True)"

definition gated :: "run \<Rightarrow> 'x world \<Rightarrow> 'x world \<Rightarrow> bool" where
  "gated n w w' \<longleftrightarrow> quiet w w' \<or>
     (\<exists>before after. ww_trace w' = ww_trace w @ before @ health_check n # after \<and> (\<forall>e \<in> set before. \<not> routing (fst e)))"

lemma quiet_gated: "quiet u v \<Longrightarrow> gated n v w \<Longrightarrow> gated n u w"
proof -
  assume q: "quiet u v" and g: "gated n v w"
  then obtain es where es: "ww_trace v = ww_trace u @ es" "\<forall>e \<in> set es. \<not> routing (fst e)" by (auto simp: quiet_def)
  from g consider "quiet v w" | before after where
      "ww_trace w = ww_trace v @ before @ health_check n # after" "\<forall>e \<in> set before. \<not> routing (fst e)"
    by (auto simp: gated_def)
  then show "gated n u w"
  proof cases
    case 1
    with q show ?thesis using quiet.trans by (auto simp: gated_def)
  next
    case 2
    with es have "ww_trace w = ww_trace u @ (es @ before) @ health_check n # after \<and> (\<forall>e \<in> set (es @ before). \<not> routing (fst e))"
      by auto
    then show ?thesis unfolding gated_def by blast
  qed
qed

lemma gated_extends:
  assumes "ww_trace v = ww_trace u @ es @ [health_check n]" "\<forall>e \<in> set es. \<not> routing (fst e)" "extends v w"
  shows "gated n u w"
proof -
  from assms(3) obtain fs where "ww_trace w = ww_trace v @ fs" by (auto simp: extends_def)
  with assms(1) have "ww_trace w = ww_trace u @ es @ health_check n # fs" by simp
  with assms(2) show ?thesis unfolding gated_def by blast
qed

lemma verify_gated:
  assumes "verify_convergence rt j n w = (r, v)"
  shows "(\<exists>e. r = Inl e \<and> quiet w v) \<or> r = Inr () \<and> ww_trace v = ww_trace w @ [health_check n]"
proof -
  define w1 where "w1 = await_turn rt j w"
  obtain a x where a: "rt_health rt (WaitForConvergence (rn_docker n) (rn_deployedResource n) (rn_revisionServiceName n)) (ww_ext w1) = (a, x)"
    by (metis surj_pair)
  have q: "quiet w v" using keepsD [OF quiet.convergence_checks assms] .
  show ?thesis
  proof (cases "\<exists>c. a = Inr c \<and> cv_healthy c")
    case True
    then obtain c where c: "a = Inr c" "cv_healthy c" by blast
    with assms a show ?thesis
      by (auto simp: verify_convergence_def io_bind_def check_health_run w1_def [symmetric] Let_def io_return_def answered_def health_check_def)
  next
    case False
    then have "\<exists>e. r = Inl e"
      using assms a
      by (auto simp: verify_convergence_def io_bind_def check_health_run w1_def [symmetric] Let_def io_then_def io_throw_def
          split: sum.splits prod.splits if_splits)
    with q show ?thesis by blast
  qed
qed

lemma run_gated:
  assumes "rr_type (rn_resource n) = ''application''" "run_deployment rt j n w = (r, w')"
  shows "gated n w w'"
proof -
  have split: "run_deployment rt j n =
      io_then (io_then (deploy_application rt j n) (release_traffic rt j n)) (io_then (route_resource rt j n) (run_post_hook rt j n))"
    using assms(1) by (simp add: run_deployment_def deploy_workload_def Let_def)
  obtain r1 v1 where 1: "deploy_application rt j n w = (r1, v1)" by (metis surj_pair)
  have q1: "quiet w v1" using keepsD [OF quiet.applications 1] .
  show ?thesis
  proof (cases r1)
    case (Inl e)
    with assms(2) 1 q1 show ?thesis by (auto simp: split io_then_def io_bind_def gated_def)
  next
    case (Inr _)
    obtain r2 v2 where 2: "verify_convergence rt j n v1 = (r2, v2)" by (metis surj_pair)
    let ?rest = "io_then (run_pre_hook rt j n) (case (rn_staged n, rn_revisionServiceName n) of
        (True, Some revision) \<Rightarrow> staged_delivery rt j n revision | _ \<Rightarrow> io_return ())"
    let ?after = "io_then ?rest (io_then (route_resource rt j n) (run_post_hook rt j n))"
    have k: "keeps extends ?after"
      unfolding route_resource_def
      by (intro keeps_intros) (auto split: bool.split option.split intro: extends.deliveries extends.keeps_return)
    from verify_gated [OF 2] show ?thesis
    proof (elim disjE exE conjE)
      fix e assume "r2 = Inl e" "quiet v1 v2"
      with assms(2) 1 2 Inr have "w' = v2" by (auto simp: split release_traffic_def io_then_def io_bind_def)
      with \<open>quiet v1 v2\<close> q1 show ?thesis by (auto simp: gated_def intro: quiet.trans)
    next
      assume t: "r2 = Inr ()" "ww_trace v2 = ww_trace v1 @ [health_check n]"
      with assms(2) 1 2 Inr have "?after v2 = (r, w')"
        by (auto simp: split release_traffic_def io_then_def io_bind_def split: prod.splits sum.splits)
      from keepsD [OF k this] have "extends v2 w'" .
      then have "gated n v1 w'" using gated_extends [of v2 v1 "[]"] t(2) by simp
      with q1 show ?thesis by (rule quiet_gated)
    qed
  qed
qed

text \<open>
  C2. The proxy is given routes for an application only after its containers, those of the revision
  when there is one, were found healthy by this run: every earlier call of the run is none that
  changes routes.
\<close>

theorem traffic_after_health:
  assumes "rr_type (rn_resource n) = ''application''" "run_deployment rt j n w = (r, w')"
    and "ww_trace w' = ww_trace w @ before @ (c, b) # after" "routing c"
  shows "health_check n \<in> set before"
proof -
  from run_gated [OF assms(1,2)] consider es where "ww_trace w' = ww_trace w @ es" "\<forall>e \<in> set es. \<not> routing (fst e)"
    | pre post where "ww_trace w' = ww_trace w @ pre @ health_check n # post" "\<forall>e \<in> set pre. \<not> routing (fst e)"
    by (auto simp: gated_def quiet_def)
  then show ?thesis
  proof cases
    case 1
    with assms(3,4) show ?thesis by auto
  next
    case 2
    with assms(3) have "pre @ health_check n # post = before @ (c, b) # after" by simp
    then consider us where "before = pre @ us" "us @ (c, b) # after = health_check n # post"
      | us where "pre = before @ us" "us @ health_check n # post = (c, b) # after"
      by (auto simp: append_eq_append_conv2)
    then show ?thesis
    proof cases
      case (1 us)
      with assms(4) show ?thesis by (cases us) (auto simp: health_check_def)
    next
      case (2 us)
      with assms(4) \<open>\<forall>e \<in> set pre. \<not> routing (fst e)\<close> show ?thesis by (cases us) (auto simp: health_check_def)
    qed
  qed
qed

theorem traffic_after_health_witness:
  "health_check shop_run \<in> set [(image_call, True), (WaitForConvergence LocalDocker shop_resource None, True)]"
proof -
  obtain r w' where w': "run_deployment shop_runtime shop_job shop_run shop_world = (r, w')" by (metis surj_pair)
  with shop_trace have "ww_trace w' = ww_trace shop_world @
      [(image_call, True), (WaitForConvergence LocalDocker shop_resource None, True)] @ (route_call shop_resource, True) # []"
    by (simp add: shop_world_def)
  from traffic_after_health [OF _ w' this] show ?thesis by (simp add: route_call_def shop_run_def shop_resource_def)
qed

section \<open>A failed delivery\<close>

definition promotion :: "worker_call \<times> bool \<Rightarrow> bool" where
  "promotion e \<longleftrightarrow> snd e \<and> (case fst e of PromoteRevision _ _ _ \<Rightarrow> True | _ \<Rightarrow> False)"

definition unpromoted :: "'x world \<Rightarrow> 'x world \<Rightarrow> bool" where
  "unpromoted w w' \<longleftrightarrow> (\<exists>es. ww_trace w' = ww_trace w @ es \<and> (\<forall>e \<in> set es. \<not> promotion e))"

interpretation unpromoted: step_relation unpromoted
proof unfold_locales
  fix u v w :: "'a world"
  show "unpromoted w w" by (simp add: unpromoted_def)
  assume "unpromoted u v" "unpromoted v w"
  then show "unpromoted u w" unfolding unpromoted_def by (metis Un_iff append.assoc set_append)
qed

lemma query_unpromoted [keeps_intros]: "keeps unpromoted (query rt j f)"
  by (simp add: keeps_def query_run unpromoted_def)

lemma call_unpromoted: "\<not> promotion (c, True) \<Longrightarrow> keeps unpromoted (call rt j port c)"
  by (auto simp: keeps_def call_run unpromoted_def Let_def case_prod_unfold promotion_def)

lemma sync_unpromoted [keeps_intros]: "keeps unpromoted (syncCaddyRouting rt j d r ov)"
  unfolding syncCaddyRouting_def by (intro keeps_intros call_unpromoted) (simp_all add: promotion_def)

lemma shift_unpromoted [keeps_intros]: "keeps unpromoted (shift_traffic rt j n rv p)"
  unfolding shift_traffic_def verifyProgressiveDeliveryMetrics_def Let_def
  by (intro keeps_intros call_unpromoted) (simp_all add: promotion_def)

lemma failed_call_unpromoted:
  assumes "call rt j port c w = (Inl e, v)"
  shows "unpromoted w v"
  using assms by (auto simp: call_run Let_def unpromoted_def answered_def promotion_def case_prod_unfold split: sum.splits)

lemma failed_shift_unpromoted:
  assumes "io_then (io_for (shift_traffic rt j n rv) ps) (call rt j rt_unit c) w = (Inl e, v)"
  shows "unpromoted w v"
proof -
  obtain r u where u: "io_for (shift_traffic rt j n rv) ps w = (r, u)" by (metis surj_pair)
  have k: "keeps unpromoted (io_for (shift_traffic rt j n rv) ps)" by (intro keeps_intros)
  note keepsD [OF k u]
  moreover from assms u have "v = u \<or> call rt j rt_unit c u = (Inl e, v)"
    by (auto simp: io_then_def io_bind_def split: sum.splits)
  ultimately show ?thesis using failed_call_unpromoted unpromoted.trans by blast
qed

text \<open>
  The proxy supports a bounded number of resources and previews. A run does not add any; other
  processes are assumed to stay within the bound.
\<close>

definition limited :: "tables \<Rightarrow> bool" where
  "limited t \<longleftrightarrow> length (tb_resources t) \<le> MAX_CADDY_ROUTING \<and> length (tb_previews t) \<le> MAX_CADDY_ROUTING"

definition within_route_limits :: "'x runtime \<Rightarrow> bool" where
  "within_route_limits rt \<longleftrightarrow> (\<forall>x t. limited t \<longrightarrow> limited (rt_others rt x t))"

definition limits_kept :: "'x runtime \<Rightarrow> 'x world \<Rightarrow> 'x world \<Rightarrow> bool" where
  "limits_kept rt w w' \<longleftrightarrow> (within_route_limits rt \<longrightarrow> limited (ww_tables w) \<longrightarrow> limited (ww_tables w'))"

lemma timers_previews [simp]: "tb_previews (snd (beat h j t)) = tb_previews t" "tb_previews (flush_logs s j t) = tb_previews t"
  by (cases h) (simp_all add: beat_def flush_logs_def case_prod_unfold)

lemma await_limits: "limits_kept rt w (await_turn rt j w)"
  by (simp add: limits_kept_def within_route_limits_def limited_def await_turn_def Let_def case_prod_unfold)

lemma transact_limits:
  "(\<And>t. limited t \<Longrightarrow> limited (snd (f t))) \<Longrightarrow> keeps (limits_kept rt) (transact rt j f)"
  using await_limits by (fastforce simp: keeps_def limits_kept_def transact_run)

interpretation limits: worker_run "limits_kept rt" rt j for rt j
proof unfold_locales
  fix plan
  show "keeps (limits_kept rt) (transact rt j (\<lambda>t. case setPlanIfAbsent (tb_clock t) (jb_deploymentId j) plan (tb_deployments t) of
      (stored, tbl) \<Rightarrow> (stored, t\<lparr>tb_deployments := tbl\<rparr>)))"
    by (rule transact_limits) (simp add: limited_def case_prod_unfold)
next
  fix i st
  show "keeps (limits_kept rt) (transact rt j (\<lambda>t. ((), set_preview_status i st t)))"
    by (rule transact_limits) (simp add: limited_def set_preview_status_def updateById_def update_where_def split: option.split)
qed (auto simp: keeps_def await_def io_modify_def await_limits, auto simp: limits_kept_def)

lemma routing_table_ok:
  assumes "limited t"
  shows "\<exists>rs. routing_table cx r p ov t = Inr rs"
proof -
  have "length (filter P (tb_resources t)) \<le> MAX_CADDY_ROUTING" "length (filter Q (tb_previews t)) \<le> MAX_CADDY_ROUTING" for P Q
    using assms unfolding limited_def by (meson length_filter_le order_trans)+
  then show ?thesis
    by (simp add: routing_table_def findForCaddyByDeploymentServerId_def findForCaddy_def Let_def not_less)
qed

definition restores :: "'x runtime \<Rightarrow> deployment_job \<Rightarrow> run \<Rightarrow> (worker_call \<times> bool) \<Rightarrow> bool" where
  "restores rt j n e \<longleftrightarrow>
     (\<exists>rs s cs t. fst e = SyncRouting (rn_docker n) rs s cs \<and>
        routing_table (rt_codec rt) (rn_deployedResource n) (jb_previewDeploymentId j)
          (rr_advancedConfig (rn_deployedResource n)) t = Inr rs)"

lemma sync_restores:
  assumes "within_route_limits rt" "limited (ww_tables w)" "rs_domains (rn_deployedResource n) \<noteq> []"
  shows "\<exists>e. ww_trace (snd (io_ignore (syncCaddyRouting rt j (rn_docker n) (rn_deployedResource n)
      (rr_advancedConfig (rn_deployedResource n))) w)) = ww_trace w @ [e] \<and> restores rt j n e"
proof -
  define t where "t = ww_tables (await_turn rt j w)"
  obtain rs where rs: "routing_table (rt_codec rt) (rn_deployedResource n) (jb_previewDeploymentId j)
      (rr_advancedConfig (rn_deployedResource n)) t = Inr rs"
    using await_limits [of rt w j] assms(1,2) routing_table_ok unfolding t_def limits_kept_def by blast
  then show ?thesis
    using assms(3)
    by (auto simp: syncCaddyRouting_def io_ignore_def io_catch_def io_bind_def query_run t_def [symmetric] io_lift_def call_run
        Let_def case_prod_unfold restores_def io_return_def split: sum.splits)
qed

lemma ignored_call_trace:
  "\<exists>b. ww_trace (snd (io_ignore (call rt j port c) w)) = ww_trace w @ [(c, b)]"
  by (auto simp: io_ignore_def io_catch_def call_run Let_def case_prod_unfold io_return_def split: sum.splits)

lemma ignore_snd: "io_then (io_ignore m) n w = n (snd (io_ignore m w))"
  using io_ignore_ok [of m w] by (auto simp: io_then_def io_bind_def)

lemma abandon_trace:
  assumes "within_route_limits rt" "limited (ww_tables w)" "rs_domains (rn_deployedResource n) \<noteq> []"
  shows "\<exists>w' e b b'. abandon_revision rt j n rv promoted err w = (Inl err, w') \<and>
    ww_trace w' = ww_trace w @ (if promoted then [(RollbackService (rn_docker n) (rn_deployedResource n), b')] else []) @
      [e, (RemoveRevision (rn_docker n) (rn_deployedResource n) rv, b)] \<and> restores rt j n e"
proof -
  let ?c = "RollbackService (rn_docker n) (rn_deployedResource n)"
  let ?roll = "call rt j rt_unit ?c"
  define w1 where "w1 = (if promoted then snd (io_ignore ?roll w) else w)"
  obtain b' where undo: "ww_trace w1 = ww_trace w @ (if promoted then [(?c, b')] else [])"
    using ignored_call_trace [of rt j rt_unit ?c w] by (cases promoted) (auto simp: w1_def)
  have 1: "io_then (io_when promoted (io_ignore ?roll)) m w = m w1" for m :: "('a world, unit) io"
    by (cases promoted) (simp_all add: io_when_def ignore_snd w1_def, simp add: io_then_def io_bind_def io_return_def)
  define w2 where "w2 = snd (io_ignore (syncCaddyRouting rt j (rn_docker n) (rn_deployedResource n)
      (rr_advancedConfig (rn_deployedResource n))) w1)"
  have "keeps (limits_kept rt) (io_ignore ?roll)" by (intro keeps_intros limits.calls routing_simps)
  then have "limited (ww_tables w1)" using assms(1,2) by (auto simp: w1_def keeps_def limits_kept_def)
  then obtain e where e: "ww_trace w2 = ww_trace w1 @ [e]" "restores rt j n e"
    using sync_restores [OF assms(1) _ assms(3), of w1 j] unfolding w2_def by blast
  define w3 where "w3 = snd (io_ignore (call rt j rt_unit (RemoveRevision (rn_docker n) (rn_deployedResource n) rv)) w2)"
  obtain b where b: "ww_trace w3 = ww_trace w2 @ [(RemoveRevision (rn_docker n) (rn_deployedResource n) rv, b)]"
    using ignored_call_trace unfolding w3_def by blast
  have "abandon_revision rt j n rv promoted err w = (Inl err, w3)"
    by (simp add: abandon_revision_def 1 ignore_snd w2_def [symmetric] w3_def [symmetric] io_throw_def)
  moreover from undo e(1) b have "ww_trace w3 = ww_trace w @ (if promoted then [(?c, b')] else []) @
      [e, (RemoveRevision (rn_docker n) (rn_deployedResource n) rv, b)]" by simp
  ultimately show ?thesis using e(2) by blast
qed

lemma then_catch_error:
  assumes "io_then (io_catch m h) (io_catch m' h') w = (Inl err, w')" "\<And>e v. \<exists>v'. h e v = (Inl e, v')"
  obtains (first) e v where "m w = (Inl e, v)" "h e v = (Inl err, w')"
    | (second) a v e v' where "m w = (Inr a, v)" "m' v = (Inl e, v')" "h' e v' = (Inl err, w')"
proof -
  obtain r v where v: "m w = (r, v)" by (metis surj_pair)
  show ?thesis
  proof (cases r)
    case (Inl e)
    with v assms(1) assms(2) [of e v] first show ?thesis by (auto simp: io_then_def io_bind_def io_catch_def)
  next
    case (Inr a)
    obtain r' v' where v': "m' v = (r', v')" by (metis surj_pair)
    from v v' Inr assms(1) second show ?thesis
      by (cases r') (auto simp: io_then_def io_bind_def io_catch_def)
  qed
qed

text \<open>
  C3. A staged delivery that fails gives the stable service its configured traffic back and removes
  the revision, in this order and as its last calls; when the revision was already promoted the
  stable service is rolled back first.
\<close>

theorem failed_delivery_undone:
  assumes "staged_delivery rt j n revision w = (Inl err, w')" "within_route_limits rt" "limited (ww_tables w)"
    and "rs_domains (rn_deployedResource n) \<noteq> []"
  shows "\<exists>before e b. ww_trace w' =
      ww_trace w @ before @ [e, (RemoveRevision (rn_docker n) (rn_deployedResource n) revision, b)] \<and> restores rt j n e \<and>
      (list_ex promotion before \<longrightarrow> (\<exists>b'. last before = (RollbackService (rn_docker n) (rn_deployedResource n), b')))"
proof -
  define ps where "ps = stagedTrafficPercentages (ds_type (ac_strategy (rn_config n)))
    (ds_canaryPercent (ac_strategy (rn_config n))) (ds_steps (ac_strategy (rn_config n)))"
  let ?c = "PromoteRevision (rn_docker n) (rn_deployedResource n) revision"
  let ?first = "io_then (io_for (shift_traffic rt j n revision) ps) (call rt j rt_unit ?c)"
  note abandon = abandon_trace [OF assms(2) _ assms(4), where j = j and rv = revision]
  have s: "io_then (io_catch ?first (abandon_revision rt j n revision False))
      (io_catch (finish_promotion rt j n revision) (abandon_revision rt j n revision True)) w = (Inl err, w')"
    using assms(1) by (simp add: staged_delivery_def Let_def ps_def)
  have h: "\<exists>v'. abandon_revision rt j n revision False e v = (Inl e, v')" for e v
    by (auto simp: abandon_revision_def io_then_def io_bind_def io_throw_def io_when_def io_return_def io_ignore_def io_catch_def
        split: prod.splits sum.splits)
  have lim: "limited (ww_tables u)" if "keeps (limits_kept rt) m" "m w = (r, u)" for m :: "('a world, unit) io" and r u
    using keepsD [OF that] assms(2,3) by (simp add: limits_kept_def)
  have k: "keeps (limits_kept rt) ?first" by (intro keeps_intros limits.calls routing_simps)
  from s h show ?thesis
  proof (rule then_catch_error)
    fix e1 v
    assume v: "?first w = (Inl e1, v)" "abandon_revision rt j n revision False e1 v = (Inl err, w')"
    from failed_shift_unpromoted [OF v(1)] obtain es where
      es: "ww_trace v = ww_trace w @ es" "\<forall>e \<in> set es. \<not> promotion e" by (auto simp: unpromoted_def)
    from abandon [OF lim [OF k v(1)], of False e1] v(2) obtain e b where
      "ww_trace w' = ww_trace v @ [e, (RemoveRevision (rn_docker n) (rn_deployedResource n) revision, b)]" "restores rt j n e" by auto
    with es have "ww_trace w' = ww_trace w @ es @ [e, (RemoveRevision (rn_docker n) (rn_deployedResource n) revision, b)]"
      "restores rt j n e" "\<not> list_ex promotion es" by (auto simp: list_ex_iff)
    then show ?thesis by blast
  next
    fix a v e2 v2
    assume v: "?first w = (Inr a, v)" "finish_promotion rt j n revision v = (Inl e2, v2)"
      "abandon_revision rt j n revision True e2 v2 = (Inl err, w')"
    have "keeps extends ?first" by (intro keeps_intros extends.calls routing_simps)
    from keepsD [OF this v(1)] keepsD [OF extends.promotions v(2)] have "extends w v2" by (rule extends.trans)
    then obtain es where es: "ww_trace v2 = ww_trace w @ es" by (auto simp: extends_def)
    have "limited (ww_tables v2)"
      using keepsD [OF limits.promotions v(2)] lim [OF k v(1)] assms(2) by (simp add: limits_kept_def)
    from abandon [OF this, of True e2] v(3) obtain e b b' where
      "ww_trace w' = ww_trace v2 @ [(RollbackService (rn_docker n) (rn_deployedResource n), b'), e,
         (RemoveRevision (rn_docker n) (rn_deployedResource n) revision, b)]" "restores rt j n e" by auto
    with es have "ww_trace w' = ww_trace w @ (es @ [(RollbackService (rn_docker n) (rn_deployedResource n), b')]) @
        [e, (RemoveRevision (rn_docker n) (rn_deployedResource n) revision, b)]" "restores rt j n e" by auto
    then show ?thesis by (metis last_snoc)
  qed
qed

text \<open>An installation in which the new revision cannot be promoted.\<close>

definition stuck_runtime :: "unit runtime" where
  "stuck_runtime = shop_runtime\<lparr>rt_unit := \<lambda>c x. (case c of PromoteRevision _ _ _ \<Rightarrow> Inl ''no quorum'' | _ \<Rightarrow> Inr (), x)\<rparr>"

theorem failed_delivery_undone_witness:
  "\<exists>before e b. ww_trace (snd (staged_delivery stuck_runtime shop_job shop_run ''shop-2'' shop_world)) =
     before @ [e, (RemoveRevision LocalDocker shop_resource ''shop-2'', b)] \<and> restores stuck_runtime shop_job shop_run e"
proof -
  let ?run = "staged_delivery stuck_runtime shop_job shop_run ''shop-2'' shop_world"
  have "fst ?run = Inl ''no quorum''" by code_simp
  then have r: "?run = (Inl ''no quorum'', snd ?run)" by (metis prod.collapse)
  have "within_route_limits stuck_runtime" by (simp add: within_route_limits_def stuck_runtime_def shop_runtime_def)
  moreover have "limited (ww_tables shop_world)" by code_simp
  ultimately show ?thesis
    using failed_delivery_undone [OF r] by (simp add: shop_run_def shop_resource_def shop_world_def) blast
qed

section \<open>Shares\<close>

lemma unique_snoc_old: "x \<in> set xs \<Longrightarrow> distinct xs \<Longrightarrow> unique (xs @ [x]) = xs"
  by (simp add: unique_def distinct_remdups_id)

lemma sorted_last_max:
  assumes "sorted_wrt (<) xs" "(m :: rat) \<in> set xs" "\<forall>x \<in> set xs. x \<le> m"
  shows "last xs = m"
  using assms by (induction xs rule: rev_induct) (auto simp: sorted_wrt_append)

definition share :: "rat \<Rightarrow> bool" where
  "share p \<longleftrightarrow> p = 100 \<or> 1 \<le> p \<and> p \<le> 99"

lemma share_splits:
  assumes "share p"
  shows "sum_list (map snd (traffic_splits base revision p)) = 100 \<and>
    (\<forall>x \<in> set (traffic_splits base revision p). 1 \<le> snd x) \<and> revision \<in> fst ` set (traffic_splits base revision p)"
  using assms by (auto simp: share_def traffic_splits_def)

lemma step_share: "0 < s \<Longrightarrow> s \<le> 100 \<Longrightarrow> share (rat_of_int s)"
  by (cases "s = 100") (auto simp: share_def)

lemma staged_shares:
  assumes "\<And>p. canaryPercent = Some p \<Longrightarrow> 1 \<le> p \<and> p \<le> 99"
  shows "sorted_wrt (<) (stagedTrafficPercentages kind canaryPercent steps) \<and>
    last (stagedTrafficPercentages kind canaryPercent steps) = 100 \<and>
    (\<forall>p \<in> set (stagedTrafficPercentages kind canaryPercent steps). share p)"
proof (cases "kind = ''rolling'' \<or> kind = ''blue-green'' \<or> kind = ''canary''")
  case True
  then show ?thesis
    using assms by (cases canaryPercent) (auto simp: stagedTrafficPercentages_def share_def or_default_def unique_def)
next
  case False
  define ys where "ys = sort (unique (map rat_of_int (filter (\<lambda>step. 0 < step \<and> step \<le> 100) steps)))"
  have ys: "sorted_wrt (<) ys" "distinct ys" by (simp_all add: ys_def strict_sorted_iff)
  have sh: "\<forall>p \<in> set ys. share p" using step_share by (auto simp: ys_def)
  then have le: "\<forall>p \<in> set ys. p \<le> 100" by (auto simp: share_def)
  have e: "stagedTrafficPercentages kind canaryPercent steps = (if 100 \<in> set ys then ys else ys @ [100])"
    using False ys(2) by (simp add: stagedTrafficPercentages_def ys_def [symmetric] unique_snoc_old)
  show ?thesis
  proof (cases "100 \<in> set ys")
    case True
    with e ys le sh sorted_last_max [of ys 100] show ?thesis by simp
  next
    case out: False
    with le have "\<forall>p \<in> set ys. p < 100" by (metis less_le)
    with out e ys sh show ?thesis by (auto simp: sorted_wrt_append share_def)
  qed
qed

text \<open>
  The shares of the revision grow strictly and end with all of the traffic. At every step the
  two services share exactly 100 percent, neither with less than one.
\<close>

theorem traffic_shares:
  assumes "\<And>p. canaryPercent = Some p \<Longrightarrow> 1 \<le> p \<and> p \<le> 99"
  shows "sorted_wrt (<) (stagedTrafficPercentages kind canaryPercent steps) \<and>
    last (stagedTrafficPercentages kind canaryPercent steps) = 100 \<and>
    (\<forall>p \<in> set (stagedTrafficPercentages kind canaryPercent steps).
       sum_list (map snd (traffic_splits base revision p)) = 100 \<and>
       (\<forall>x \<in> set (traffic_splits base revision p). 1 \<le> snd x) \<and> revision \<in> fst ` set (traffic_splits base revision p))"
  using staged_shares [OF assms, where kind = kind and steps = steps] share_splits by blast

theorem traffic_shares_witness:
  "stagedTrafficPercentages ''canary'' (Some 20) [] = [20, 100] \<and>
   sum_list (map snd (traffic_splits ''shop'' ''shop-2'' 20)) = 100"
proof -
  have "stagedTrafficPercentages ''canary'' (Some 20) [] = [20, 100]" by code_simp
  with traffic_shares [where canaryPercent = "Some 20" and kind = "''canary''" and steps = "[]" and base = "''shop''" and revision = "''shop-2''"]
  show ?thesis by simp
qed

text \<open>
  A share that is not a whole number never reaches the proxy: the printed configuration is not
  valid, so it counts as the default one, which splits no traffic.
\<close>

theorem fractional_share_lost:
  assumes "1 \<le> p" "p < 99" "p \<notin> \<int>" "js_rat (rt_number rt p) = Some p"
    and "trafficSplitConfig rt original base revision p \<noteq> []"
    and "en_json (rt_codec rt) (trafficSplitConfig rt original base revision p) =
      Some (JObj (traffic_document rt original base revision p))"
  shows "ac_trafficSplits (parse_advanced_config (rt_codec rt) (Some (trafficSplitConfig rt original base revision p))) = []"
proof -
  define doc where "doc = traffic_document rt original base revision p"
  have n: "traffic_splits base revision p = [(base, 100 - p), (revision, p)]" using assms(1,2) by (auto simp: traffic_splits_def)
  have "parse_split (JObj [(''serviceName'', JStr revision), (''weight'', JNum (rt_number rt p))]) = None"
    using assms(3,4) by (auto simp: parse_split_def get_prop_def integer_in_def number_in_def)
  then have "parse_splits (get_prop doc ''trafficSplits'') = None"
    by (simp add: doc_def traffic_document_def n parse_splits_def get_prop_def)
  then have "ResourceAdvancedConfigSchema (rt_codec rt) doc = None"
    by (auto simp: ResourceAdvancedConfigSchema_def split: option.splits)
  with assms(5,6) show ?thesis by (simp add: parse_advanced_config_def DEFAULT_RESOURCE_ADVANCED_CONFIG_def doc_def)
qed

definition printing_runtime :: "unit runtime" where
  "printing_runtime = shop_runtime\<lparr>rt_codec := shop_codec\<lparr>en_json :=
     \<lambda>s. Some (JObj (traffic_document shop_runtime None ''shop'' ''shop-2'' (25 / 2)))\<rparr>\<rparr>"

theorem fractional_share_lost_witness:
  "ac_trafficSplits (parse_advanced_config (rt_codec printing_runtime)
     (Some (trafficSplitConfig printing_runtime None ''shop'' ''shop-2'' (25 / 2)))) = []"
proof -
  have "(25 / 2 :: rat) \<notin> \<int>"
  proof
    assume "(25 / 2 :: rat) \<in> \<int>"
    then obtain n where "(25 / 2 :: rat) = of_int n" by (elim Ints_cases)
    then have "rat_of_int 25 = rat_of_int (2 * n)" by simp
    then have "25 = 2 * n" by (simp only: of_int_eq_iff)
    then show False by presburger
  qed
  moreover have "js_rat (rt_number printing_runtime (25 / 2)) = Some (25 / 2)" by code_simp
  moreover have "trafficSplitConfig printing_runtime None ''shop'' ''shop-2'' (25 / 2) \<noteq> []" by code_simp
  moreover have "traffic_document printing_runtime None ''shop'' ''shop-2'' (25 / 2) = traffic_document shop_runtime None ''shop'' ''shop-2'' (25 / 2)"
    by code_simp
  then have "en_json (rt_codec printing_runtime) (trafficSplitConfig printing_runtime None ''shop'' ''shop-2'' (25 / 2)) =
      Some (JObj (traffic_document printing_runtime None ''shop'' ''shop-2'' (25 / 2)))"
    by (simp add: printing_runtime_def)
  ultimately show ?thesis by (intro fractional_share_lost) simp_all
qed

section \<open>Plans\<close>

lemma update_keeps_plan:
  assumes "\<exists>d. findById dep_id i tbl = Some d \<and> dep_deploymentPlan d = p"
    "\<And>x. dep_id (f x) = dep_id x" "\<And>x. dep_deploymentPlan (f x) = dep_deploymentPlan x"
  shows "\<exists>d. findById dep_id i (snd (update_where dep_id i guard f tbl)) = Some d \<and> dep_deploymentPlan d = p"
proof -
  from assms(1) obtain d where d: "findById dep_id i tbl = Some d" "dep_deploymentPlan d = p" by blast
  from update_where_keeps [where R = "\<lambda>d d'. dep_deploymentPlan d' = dep_deploymentPlan d", OF d(1), of f guard i] assms(2,3) d(2)
  show ?thesis by simp
qed

lemma await_plan:
  assumes "undisturbed rt j" "findById dep_id (jb_deploymentId j) (tb_deployments (ww_tables w)) = Some d"
  shows "\<exists>d'. findById dep_id (jb_deploymentId j) (tb_deployments (ww_tables (await_turn rt j w))) = Some d' \<and>
    dep_deploymentPlan d' = dep_deploymentPlan d"
proof -
  let ?P = "\<lambda>t. \<exists>d'. findById dep_id (jb_deploymentId j) (tb_deployments t) = Some d' \<and> dep_deploymentPlan d' = dep_deploymentPlan d"
  have beat: "?P (snd (beat h j t))" if "?P t" for h t
    using that by (cases h) (simp_all add: beat_def heartbeatOwned_def case_prod_unfold update_keeps_plan)
  have flush: "?P (flush_logs s j t)" if "?P t" for s t
    using that by (simp add: flush_logs_def updateByIdOwned_def update_keeps_plan)
  have "?P (rt_others rt (ww_ext w) (ww_tables w))" using assms by (simp add: undisturbed_def)
  from beat [OF this] flush [OF beat [OF this]] show ?thesis
    by (simp add: await_turn_def Let_def case_prod_unfold)
qed



end
