(* ===== verification/Worker_Divergences.thy ===== *)
theory Worker_Divergences
  imports Delivery_Guarantees
begin

text \<open>Where the worker does not do what it is meant to do.\<close>

section \<open>Builds on another server\<close>

lemma remote_plan_invalid:
  assumes "given_string (rr_buildServerId r)" "rr_buildServerId r \<noteq> rr_serverId r"
  shows "\<exists>e. plan_of rt r a now = Inl e"
proof -
  have "resolveBuildLocation (rr_buildServerId r) (rr_serverId r) = RemoteBuilder"
    using assms by (auto simp: resolveBuildLocation_def given_string_def)
  then show ?thesis
    by (auto simp: plan_of_def Let_def DeploymentPlanSchema_def location_name_def given_string_def split: prod.splits sum.splits)
qed

text \<open>
  An application with a build server of its own is never deployed: the plan names the build
  location without its server, which the schema of plans requires, so the run fails after the
  build whatever the ports answer.
\<close>

theorem remote_build_refused:
  assumes "given_string (rr_buildServerId (rn_deployedResource n))"
    and "rr_buildServerId (rn_deployedResource n) \<noteq> rr_serverId (rn_deployedResource n)"
  shows "\<exists>e. fst (deploy_git rt j n w) = Inl e"
proof -
  have "\<exists>e. fst (lock_plan rt j n a v) = Inl e" for a v
  proof -
    obtain e where "plan_of rt (rn_deployedResource n) a (tb_clock (ww_tables v)) = Inl e"
      using remote_plan_invalid [OF assms] by blast
    then show ?thesis by (simp add: lock_plan_def io_bind_def io_get_def io_throw_def)
  qed
  then show ?thesis
    by (auto simp: deploy_git_def io_bind_def io_then_def split: prod.splits sum.splits) (metis Inl_Inr_False fst_conv)+
qed

theorem remote_build_refused_witness:
  "\<exists>e. fst (deploy_git shop_runtime shop_job
      (shop_run\<lparr>rn_deployedResource := shop_resource\<lparr>rr_buildServerId := Some ''b1''\<rparr>\<rparr>) shop_world) = Inl e"
  by (rule remote_build_refused) (simp_all add: shop_run_def shop_resource_def given_string_def)

section \<open>Variables\<close>

text \<open>Printing a record of strings does not give an encrypted document.\<close>

definition prints_plainly :: "'z codec_scheme \<Rightarrow> bool" where
  "prints_plainly cx \<longleftrightarrow>
     (\<forall>vs. case en_json cx (cx_stringify cx (JObj (js_strings vs))) of Some v \<Rightarrow> \<not> isEncryptedPayload v | None \<Rightarrow> True)"

lemma printed_variables_lost:
  "prints_plainly cx \<Longrightarrow> parseResourceEnvironmentVariables cx (Some (cx_stringify cx (JObj (js_strings vs)))) = []"
  by (auto simp: prints_plainly_def parseResourceEnvironmentVariables_def split: option.splits dest: spec [where x = vs])

text \<open>
  The shared variables of a project reach no container: the worker prints them before it hands
  them to a function that accepts only encrypted text, so that every reference to one of them
  in the variables of a resource becomes empty.
\<close>

theorem project_variables_lost:
  assumes "prints_plainly (rt_codec rt)" "rt_external rt = None" "resolve_variables rt j r project w = (Inr v, w')"
  shows "va_envVars v = substituteProjectEnvVars (parseResourceEnvironmentVariables (rt_codec rt) (Some (rs_envVars r))) []"
  using assms(3)
  by (auto simp: resolve_variables_def Let_def io_bind_result resolveExternalValues_def assms(2) query_run io_run io_throw_def
      resolveResourceEnvironmentVariables_def printed_variables_lost [OF assms(1)] split: if_splits option.splits)

text \<open>A reader of documents that gives the printed variables back.\<close>

definition variables_runtime :: "unit runtime" where
  "variables_runtime = shop_runtime\<lparr>rt_codec := shop_codec\<lparr>en_json := \<lambda>_. Some (JObj [(''PORT'', JStr ''80'')])\<rparr>\<rparr>"

lemma variables_plain: "prints_plainly (rt_codec variables_runtime)"
  by (simp add: prints_plainly_def variables_runtime_def isEncryptedPayload_def get_prop_def)

theorem project_variables_lost_witness:
  "\<exists>v w. resolve_variables variables_runtime shop_job shop_resource (rn_project shop_run) shop_world = (Inr v, w) \<and>
     va_envVars v = substituteProjectEnvVars (parseResourceEnvironmentVariables (rt_codec variables_runtime) (Some (rs_envVars shop_resource))) []"
proof -
  let ?run = "resolve_variables variables_runtime shop_job shop_resource (rn_project shop_run) shop_world"
  have "\<not> isl (fst ?run)" by code_simp
  then obtain v w where "?run = (Inr v, w)" by (cases ?run; cases "fst ?run") auto
  with project_variables_lost [OF variables_plain _ this] show ?thesis
    by (simp add: variables_runtime_def shop_runtime_def)
qed

text \<open>A database is deployed without the variables configured for it, for the same reason.\<close>

theorem database_variables_lost:
  assumes "prints_plainly (rt_codec rt)" "deploy_database rt j n w = (Inr (), w')"
  shows "ww_trace w' ! length (ww_trace w) =
    (DeployDatabase (rn_docker n) (rn_resource n)
       (getManagedDatabaseEnvironment (rt_codec rt) (rr_credentials (rn_resource n)) (rs_dbType (rn_resource n)))
       (run_constraints n), True)"
proof -
  let ?env = "getManagedDatabaseEnvironment (rt_codec rt) (rr_credentials (rn_resource n)) (rs_dbType (rn_resource n))"
  let ?c = "DeployDatabase (rn_docker n) (rn_resource n) ?env (run_constraints n)"
  have e: "getDatabaseEnvironment (rt_codec rt) (rr_credentials (rn_resource n)) (rs_dbType (rn_resource n))
      (Some (cx_stringify (rt_codec rt) (JObj (js_strings vs)))) = ?env" for vs
    by (simp add: getDatabaseEnvironment_def printed_variables_lost [OF assms(1)] obj_assign_def)
  from assms(2) obtain v where v: "call rt j rt_unit ?c w = (Inr (), v)" and k: "extends v w'"
  proof -
    obtain r v where v: "call rt j rt_unit ?c w = (r, v)" by (metis surj_pair)
    let ?rest = "io_when (ac_replicationEnabled (parse_advanced_config (rt_codec rt) (rr_advancedConfig (rn_resource n))))
        (call rt j rt_unit (ConfigureReplication (rn_docker n) (rn_resource n) ?env))"
    from assms(2) v have "r = Inr () \<and> ?rest v = (Inr (), w')"
      by (auto simp: deploy_database_def Let_def e io_then_result)
    moreover have "keeps extends ?rest" by (intro keeps_intros extends.calls routing_simps)
    ultimately show ?thesis using v that keepsD by metis
  qed
  from v have "ww_trace v = ww_trace w @ [(?c, True)]"
    by (auto simp: call_run Let_def case_prod_unfold answered_def)
  with k show ?thesis by (auto simp: extends_def nth_append)
qed

theorem database_variables_lost_witness:
  "ww_trace (snd (deploy_database variables_runtime shop_job shop_run shop_world)) ! 0 =
    (DeployDatabase LocalDocker shop_resource
       (getManagedDatabaseEnvironment (rt_codec variables_runtime) None None) (run_constraints shop_run), True)"
proof -
  let ?run = "deploy_database variables_runtime shop_job shop_run shop_world"
  have "fst ?run = Inr ()" by code_simp
  then have "?run = (Inr (), snd ?run)" by (metis prod.collapse)
  from database_variables_lost [OF variables_plain this] show ?thesis
    by (simp add: shop_run_def shop_resource_def shop_world_def)
qed

section \<open>Leases and locks\<close>

text \<open>
  The plan is not guarded by the lease: a worker whose deployment was taken over by another one
  still stores the plan of its own build, which the new owner then has to match.
\<close>

theorem lost_lease_locks_plan:
  assumes "undisturbed rt j" "findById dep_id (jb_deploymentId j) (tb_deployments (ww_tables w)) = Some d"
    and "dep_executionToken d \<noteq> Some (jb_executionToken j)" "dep_deploymentPlan d = None"
    and "plan_of rt (rn_deployedResource n) a (tb_clock (ww_tables w)) = Inr plan"
  shows "fst (lock_plan rt j n a w) = Inr () \<and>
    (\<exists>d'. findById dep_id (jb_deploymentId j) (tb_deployments (ww_tables (snd (lock_plan rt j n a w)))) = Some d' \<and>
      dep_deploymentPlan d' = Some plan \<and> dep_executionToken d' = dep_executionToken d)"
proof -
  define w1 where "w1 = await_turn rt j w"
  have o: "\<not> owned_by (jb_executionToken j) d" using assms(3) by (simp add: owned_by_def)
  define t where "t = rt_others rt (ww_ext w) (ww_tables w)"
  have t: "findById dep_id (jb_deploymentId j) (tb_deployments t) = Some d" using assms(1,2) by (simp add: t_def undisturbed_def)
  have d1: "findById dep_id (jb_deploymentId j) (tb_deployments (ww_tables w1)) = Some d"
    using t by (simp add: w1_def await_turn_def Let_def case_prod_unfold t_def [symmetric] beat_disowned [OF t o] flush_disowned [OF t o])
  define st where "st = setPlanIfAbsent (tb_clock (ww_tables w1)) (jb_deploymentId j) plan (tb_deployments (ww_tables w1))"
  obtain d' where d': "fst st = Some d'" "dep_deploymentPlan d' = Some plan" "dep_executionToken d' = dep_executionToken d"
    using d1 assms(4) by (auto simp: st_def setPlanIfAbsent_def update_where_Some)
  then have "findById dep_id (jb_deploymentId j) (snd st) = Some d'"
    unfolding st_def setPlanIfAbsent_def by (simp add: update_where_returns)
  with d' assms(5) show ?thesis
    by (simp add: lock_plan_def io_bind_def io_get_def transact_run w1_def [symmetric] case_prod_unfold st_def [symmetric] io_return_def)
qed

theorem lost_lease_locks_plan_witness:
  "\<exists>d plan. findById dep_id ''d1'' (tb_deployments (ww_tables (snd (lock_plan shop_runtime shop_job shop_run shop_artifact shop_world)))) = Some d \<and>
     dep_deploymentPlan d = Some plan \<and> dep_executionToken d = None"
proof -
  let ?p = "plan_of shop_runtime (rn_deployedResource shop_run) shop_artifact (tb_clock (ww_tables shop_world))"
  have "\<not> isl ?p" by code_simp
  then obtain plan where "?p = Inr plan" by (cases ?p) auto
  from lost_lease_locks_plan [OF shop_undisturbed shop_found _ _ this] show ?thesis
    by (auto simp: sample_deployment_def shop_job_def)
qed

text \<open>
  A scope that cannot be created leaves the lock of the resource behind: it is created after the
  lock is taken and outside the block that releases it.
\<close>

theorem failed_scope_keeps_lock:
  assumes "jb_resourceId j \<noteq> []" "jb_deploymentId j \<noteq> []"
    and "\<And>x. \<exists>x'. rt_bool rt (AcquireLock (lock_key j)) x = (Inr True, x')"
    and "\<And>x. \<exists>e x'. rt_unit rt CreateScope x = (Inl e, x')"
  shows "ww_trace (snd (processJob rt j w)) = ww_trace w @ [(AcquireLock (lock_key j), True), (CreateScope, False)]"
proof -
  obtain x where x: "rt_bool rt (AcquireLock (lock_key j)) (ww_ext (await_turn rt j w)) = (Inr True, x)" using assms(3) by blast
  define w1 where "w1 = (await_turn rt j w)\<lparr>ww_ext := x, ww_trace := ww_trace w @ [(AcquireLock (lock_key j), True)]\<rparr>"
  have 1: "call rt j rt_bool (AcquireLock (lock_key j)) w = (Inr True, w1)" by (simp add: call_run x Let_def answered_def w1_def)
  obtain e y where y: "rt_unit rt CreateScope (ww_ext (await_turn rt j w1)) = (Inl e, y)" using assms(4) by blast
  have 2: "call rt j rt_unit CreateScope w1 =
      (Inl e, (await_turn rt j w1)\<lparr>ww_ext := y, ww_trace := ww_trace w1 @ [(CreateScope, False)]\<rparr>)"
    by (simp add: call_run y Let_def answered_def)
  have "processJob rt j w = call rt j rt_unit CreateScope w1"
    using assms(1,2) by (simp add: processJob_def io_bind_def 1 io_then_def 2)
  then have "ww_trace (snd (processJob rt j w)) = ww_trace w1 @ [(CreateScope, False)]" by (simp add: 2)
  then show ?thesis by (simp add: w1_def)
qed

definition unscoped_runtime :: "unit runtime" where
  "unscoped_runtime = shop_runtime\<lparr>rt_unit := \<lambda>c x. (if c = CreateScope then Inl ''no connection'' else Inr (), x)\<rparr>"

theorem failed_scope_keeps_lock_witness:
  "ww_trace (snd (processJob unscoped_runtime shop_job shop_world)) =
     [(AcquireLock (lock_key shop_job), True), (CreateScope, False)]"
  using failed_scope_keeps_lock [of shop_job unscoped_runtime shop_world]
  by (simp add: unscoped_runtime_def shop_runtime_def shop_job_def shop_world_def)

section \<open>Previews\<close>

text \<open>
  A preview of an application deployed from an image replaces the service of the application
  itself: the image is deployed for the stored resource, while health is then checked for the
  copy that carries the name of the preview.
\<close>

theorem preview_replaces_production:
  assumes "rr_provider (rn_resource n) = ''docker-registry''" "deploy_application rt j n w = (Inr (), w')"
  shows "\<exists>auth. ww_trace w' = ww_trace w @
    [(DeployAppImage (rn_docker n) (rn_resource n) (va_envVars (rn_variables n)) (run_constraints n) auth (revisionOptions j n), True)]"
proof -
  have t: "ww_trace (snd (resolveConfiguredRegistryAuth rt j r org v)) = ww_trace v" for r org v
    by (auto simp: resolveConfiguredRegistryAuth_def Let_def io_bind_def query_run io_return_def io_throw_def split: option.split)
  obtain a v where a: "resolveConfiguredRegistryAuth rt j (rn_resource n) (pj_organizationId (rn_project n)) w = (a, v)"
    by (metis surj_pair)
  with t [of "rn_resource n" "pj_organizationId (rn_project n)" w] have "ww_trace v = ww_trace w" by simp
  with a assms show ?thesis
    by (cases a) (auto simp: deploy_application_def deploy_image_def io_bind_def call_run Let_def case_prod_unfold answered_def)
qed

theorem preview_replaces_production_witness:
  "\<exists>auth. ww_trace (snd (deploy_application shop_runtime (shop_job\<lparr>jb_previewDeploymentId := Some ''p1''\<rparr>)
      (shop_run\<lparr>rn_deployedResource := shop_resource\<lparr>rr_name := ''shop-pr-1''\<rparr>\<rparr>) shop_world)) =
    [(DeployAppImage LocalDocker shop_resource [] (Some [''node.role==manager'']) auth (revisionOptions (shop_job\<lparr>jb_previewDeploymentId := Some ''p1''\<rparr>)
      (shop_run\<lparr>rn_deployedResource := shop_resource\<lparr>rr_name := ''shop-pr-1''\<rparr>\<rparr>)), True)]"
proof -
  let ?n = "shop_run\<lparr>rn_deployedResource := shop_resource\<lparr>rr_name := ''shop-pr-1''\<rparr>\<rparr>"
  let ?run = "deploy_application shop_runtime (shop_job\<lparr>jb_previewDeploymentId := Some ''p1''\<rparr>) ?n shop_world"
  have "fst ?run = Inr ()" by code_simp
  then have r: "?run = (Inr (), snd ?run)" by (metis prod.collapse)
  have "rr_provider (rn_resource ?n) = ''docker-registry''" by (simp add: shop_run_def shop_resource_def)
  moreover have "run_constraints ?n = Some [''node.role==manager'']" by code_simp
  ultimately show ?thesis
    using preview_replaces_production [OF _ r] by (simp add: shop_run_def shop_resource_def shop_world_def)
qed

section \<open>Key files\<close>

lemma untracked_key:
  "ww_tempSshKeyPath (snd (write_key rt j False r i e w)) = ww_tempSshKeyPath w"
  by (auto simp: write_key_def io_bind_def query_run io_throw_def io_lift_def io_then_def io_when_def io_return_def perform_def
      await_turn_def Let_def case_prod_unfold split: option.splits sum.splits)

lemma await_key [simp]: "ww_tempSshKeyPath (await_turn rt j w) = ww_tempSshKeyPath w"
  by (simp add: await_turn_def Let_def case_prod_unfold)

definition same_key :: "'x world \<Rightarrow> 'x world \<Rightarrow> bool" where
  "same_key w w' \<longleftrightarrow> ww_tempSshKeyPath w' = ww_tempSshKeyPath w"

interpretation same_key: worker_base same_key rt j for rt j
  by unfold_locales (auto simp: same_key_def keeps_def await_def io_modify_def)

lemma source_same_key: "keeps same_key (resolveGitSource rt j r)"
proof -
  have d: "keeps same_key (direct_source rt j False r url f i e)" for url f i e
    unfolding direct_source_def Let_def
    by (intro keeps_intros) (simp add: keeps_def same_key_def untracked_key)
  show ?thesis
    unfolding resolveGitSource_def generic_source_def configured_source_def hosted_source_def connected_def Let_def
    by (intro keeps_intros d same_key.calls routing_simps)
qed

text \<open>
  When the source of a Compose project is refused, a private key that was already written for
  it stays on disk: only the caller of \<open>resolveGitSource\<close> notes the file for removal.
\<close>

theorem refused_source_keeps_key_file:
  assumes "rr_provider (rn_resource n) \<noteq> ''raw''" "resolveGitSource rt j (rn_resource n) w = (Inl e, w')"
  shows "\<exists>v. deploy_compose rt j n w = (Inl e, v) \<and> ww_trace v = ww_trace w' \<and> ww_tempSshKeyPath v = ww_tempSshKeyPath w"
  using assms keepsD [OF source_same_key assms(2)]
  by (auto simp: deploy_compose_def compose_file_def Let_def io_bind_def same_key_def)

text \<open>A Compose project in a repository reached by SSH, whose host key is not pinned.\<close>

definition ssh_runtime :: "unit runtime" where
  "ssh_runtime = shop_runtime\<lparr>
     rt_codec := shop_codec\<lparr>
       en_json := \<lambda>s. Some (JObj (if s = ''sealed''
         then [(''ciphertext'', JStr ''c''), (''iv'', JStr ''i''), (''authTag'', JStr ''t''), (''keyVersion'', JNum ''1'')]
         else [(''repositoryUrl'', JStr ''ssh://git''), (''sshKeyId'', JStr ''k1'')])),
       en_decrypt := \<lambda>_. Some ''open''\<rparr>,
     rt_urls := shop_urls\<lparr>ul_parse := \<lambda>_. Some \<lparr>url_protocol = ''ssh:'', url_hostname = ''git'', url_port = [], url_username = [], url_password = []\<rparr>\<rparr>\<rparr>"

definition ssh_run :: run where
  "ssh_run = shop_run\<lparr>rn_resource := shop_resource\<lparr>rr_provider := ''git'', rr_credentials := Some ''sealed''\<rparr>\<rparr>"

definition ssh_world :: "unit world" where
  "ssh_world = shop_world\<lparr>ww_tables := shop_tables\<lparr>tb_sshKeys :=
     [\<lparr>sk_id = ''k1'', sk_organizationId = ''o1'', sk_privateKeyCiphertext = [], sk_privateKeyIv = [], sk_privateKeyAuthTag = [],
       sk_privateKeyVersion = 1\<rparr>]\<rparr>\<rparr>"

theorem refused_source_keeps_key_file_witness:
  "\<exists>v e. deploy_compose ssh_runtime shop_job ssh_run ssh_world = (Inl e, v) \<and>
     ww_trace v = [(WriteKeyFile ''.builds/ssh-key-r1'' (''open'' @ [CHR 0x0A]), True)] \<and> ww_tempSshKeyPath v = None"
proof -
  let ?run = "resolveGitSource ssh_runtime shop_job (rn_resource ssh_run) ssh_world"
  have "isl (fst ?run)" by code_simp
  then obtain e where "?run = (Inl e, snd ?run)" by (metis isl_def prod.collapse)
  moreover have "ww_trace (snd ?run) = [(WriteKeyFile ''.builds/ssh-key-r1'' (''open'' @ [CHR 0x0A]), True)]" by code_simp
  moreover have "rr_provider (rn_resource ssh_run) \<noteq> ''raw''" by (simp add: ssh_run_def)
  moreover have "ww_tempSshKeyPath ssh_world = None" by (simp add: ssh_world_def shop_world_def)
  ultimately show ?thesis using refused_source_keeps_key_file by fastforce
qed

end
