(* ===== verification/Device_Auth.thy ===== *)
theory Device_Auth
  imports Effects Redis_Locks Capability_Catalog
begin

text \<open>
  Signing the command line in: the device authorization of \<open>api/src/cli-device-auth.ts\<close> and its
  routes in \<open>apps/server/src/http/routes/cli-device-auth.ts\<close>. A device asks for a pair of
  codes and polls with the long one; a signed-in user types the short one, and the key minted for
  the user is handed to the device once. Requests, the index of short codes and the sealed keys
  are entries of a Redis server. Whenever a handler awaits a command or a port, other requests
  may run (\<open>de_await\<close>), and a command may fail, executed or not. The log is not part of the
  program: it notes which requests were issued, which keys were attached and delivered, and the
  keys minted and removed. JSON, the digest and encryption are parameters.
\<close>

section \<open>Requests and keys\<close>

datatype cli_device_status = DevicePending | DeviceClaiming | DeviceApproved | DeviceDenied

record cli_device_state =
  cs_clientId :: string
  cs_userCode :: string
  cs_status :: cli_device_status
  cs_userId :: "string option"
  cs_organizationId :: "string option"
  cs_preset :: "api_key_preset option"
  cs_createdAt :: string

datatype cli_device_poll_result =
  AuthorizationPending
| AccessDenied
| ExpiredToken
| ApprovedToken string string

record device_codec =
  dc_digest :: "string \<Rightarrow> string"
  dc_print :: "cli_device_state \<Rightarrow> string"
  dc_parse :: "string \<Rightarrow> cli_device_state option"
  dc_seal :: "string \<Rightarrow> string"
  dc_open :: "string \<Rightarrow> string option"

definition CLI_DEVICE_CLIENT_ID :: string where
  "CLI_DEVICE_CLIENT_ID = ''upstand-cli''"

definition CLI_DEVICE_AUTH_TTL_SECONDS :: int where
  "CLI_DEVICE_AUTH_TTL_SECONDS = 10 * 60"

definition DEVICE_KEY_PREFIX :: string where
  "DEVICE_KEY_PREFIX = ''upstand:cli-device''"

text \<open>\<open>redisKey\<close> of \<open>packages/redis/src/utils.ts\<close>.\<close>

definition redisKey :: "string list \<Rightarrow> string" where
  "redisKey parts = join '':'' (filter (\<lambda>part. part \<noteq> []) (map trim parts))"

definition request_key :: "string \<Rightarrow> string" where
  "request_key deviceDigest = redisKey [DEVICE_KEY_PREFIX, ''request'', deviceDigest]"

definition secret_key :: "string \<Rightarrow> string" where
  "secret_key deviceDigest = redisKey [DEVICE_KEY_PREFIX, ''secret'', deviceDigest]"

definition deviceKey :: "device_codec \<Rightarrow> string \<Rightarrow> string" where
  "deviceKey cx deviceCode = request_key (dc_digest cx deviceCode)"

definition userCodeIndexKey :: "device_codec \<Rightarrow> string \<Rightarrow> string" where
  "userCodeIndexKey cx userCode = redisKey [DEVICE_KEY_PREFIX, ''user'', dc_digest cx userCode]"

definition upper_ascii :: "char \<Rightarrow> char" where
  "upper_ascii c = (if 97 \<le> code c \<and> code c \<le> 122 then char_of (code c - 32) else c)"

definition normalizeUserCode :: "string \<Rightarrow> string" where
  "normalizeUserCode v = map upper_ascii (filter is_alnum v)"

definition user_code_alphabet :: string where
  "user_code_alphabet = ''ABCDEFGHJKLMNPQRSTUVWXYZ23456789''"

text \<open>The bytes are random.\<close>

definition createUserCode :: "nat list \<Rightarrow> string" where
  "createUserCode bytes = map (\<lambda>byte. user_code_alphabet ! (byte mod length user_code_alphabet)) bytes"

section \<open>The surroundings\<close>

datatype device_event =
  Issued string
| Attached string string string string
| Delivered string string
| KeyMinted string string string api_key_preset
| KeyRemoval string

record ('r, 'x) device_world =
  dw_redis :: 'r
  dw_clock :: int
  dw_ext :: 'x
  dw_log :: "device_event list"

record ('r, 'x) device_env =
  de_api :: "'r redis_api"
  de_codec :: device_codec
  de_await :: "('r, 'x) device_world \<Rightarrow> ('r, 'x) device_world"
  de_fate :: "'x \<Rightarrow> fate"
  de_permits :: "string \<Rightarrow> string \<Rightarrow> 'x \<Rightarrow> (string + unit) \<times> 'x"
  de_mint :: "string \<Rightarrow> string \<Rightarrow> api_key_preset \<Rightarrow> 'x \<Rightarrow> (string + string \<times> string) \<times> 'x"
  de_remove :: "string \<Rightarrow> 'x \<Rightarrow> (string + unit) \<times> 'x"

type_synonym ('r, 'a) redis_op = "int \<Rightarrow> 'r \<Rightarrow> (string + 'a) \<times> 'r \<times> device_event list"

definition connection_lost :: string where
  "connection_lost = ''Connection is closed.''"

definition command :: "('r, 'x) device_env \<Rightarrow> ('r, 'a) redis_op \<Rightarrow> (('r, 'x) device_world, 'a) io" where
  "command e opr w =
     (let w1 = de_await e w in
      case opr (dw_clock w1) (dw_redis w1) of
        (a, r, evs) \<Rightarrow>
          let w2 = w1\<lparr>dw_redis := r, dw_log := dw_log w1 @ evs\<rparr> in
          (case de_fate e (dw_ext w1) of
             Answered \<Rightarrow> (a, w2)
           | TimedOut executed \<Rightarrow> (Inl connection_lost, if executed then w2 else w1)))"

definition key_port ::
  "('r, 'x) device_env \<Rightarrow> ('x \<Rightarrow> (string + 'a) \<times> 'x) \<Rightarrow> (string + 'a \<Rightarrow> device_event list) \<Rightarrow> (('r, 'x) device_world, 'a) io" where
  "key_port e port noted w =
     (let w1 = de_await e w in
      case port (dw_ext w1) of (a, x) \<Rightarrow> (a, w1\<lparr>dw_ext := x, dw_log := dw_log w1 @ noted a\<rparr>))"

section \<open>Commands and scripts\<close>

definition GET :: "'r redis_api \<Rightarrow> string \<Rightarrow> ('r, string option) redis_op" where
  "GET api key now r = (Inr (filled (rx_get api key now r)), r, [])"

definition SET_EX :: "'r redis_api \<Rightarrow> string \<Rightarrow> string \<Rightarrow> device_event list \<Rightarrow> ('r, unit) redis_op" where
  "SET_EX api key v evs now r = (Inr (), rx_set_ex api key v CLI_DEVICE_AUTH_TTL_SECONDS now r, evs)"

definition script_error :: string where
  "script_error = ''Expected value but found invalid token''"

text \<open>What the scripts share: the state of the request, where it satisfies a condition.\<close>

definition guarded_script ::
  "'r redis_api \<Rightarrow> device_codec \<Rightarrow> string \<Rightarrow> (cli_device_state \<Rightarrow> bool) \<Rightarrow> 'a \<Rightarrow> ('r, 'a) redis_op \<Rightarrow> ('r, 'a) redis_op" where
  "guarded_script api cx key guard refused body now r =
     (case rx_get api key now r of
        None \<Rightarrow> (Inr refused, r, [])
      | Some current \<Rightarrow>
          (case dc_parse cx current of
             None \<Rightarrow> (Inl script_error, r, [])
           | Some state \<Rightarrow> if guard state then body now r else (Inr refused, r, [])))"

definition replace_request ::
  "'r redis_api \<Rightarrow> string \<Rightarrow> string \<Rightarrow> ('r, bool) redis_op" where
  "replace_request api key v now r = (Inr True, rx_set_ex api key v CLI_DEVICE_AUTH_TTL_SECONDS now r, [])"

definition CLAIM_SCRIPT ::
  "'r redis_api \<Rightarrow> device_codec \<Rightarrow> string \<Rightarrow> string \<Rightarrow> string \<Rightarrow> ('r, bool) redis_op" where
  "CLAIM_SCRIPT api cx d userCode claimingState =
     guarded_script api cx (request_key d) (\<lambda>s. cs_status s = DevicePending \<and> cs_userCode s = userCode) False
       (replace_request api (request_key d) claimingState)"

definition held_by :: "string \<Rightarrow> string \<Rightarrow> cli_device_state \<Rightarrow> bool" where
  "held_by userCode userId s \<longleftrightarrow>
     cs_status s = DeviceClaiming \<and> cs_userCode s = userCode \<and> cs_userId s = Some userId"

definition COMPLETE_SCRIPT ::
  "'r redis_api \<Rightarrow> device_codec \<Rightarrow> string \<Rightarrow> string \<Rightarrow> string \<Rightarrow> string \<Rightarrow> string \<Rightarrow> string \<Rightarrow> ('r, bool) redis_op" where
  "COMPLETE_SCRIPT api cx d userCode userId organizationId secret approvedState =
     guarded_script api cx (request_key d) (held_by userCode userId) False
       (\<lambda>now r. (Inr True,
          rx_set_ex api (request_key d) approvedState CLI_DEVICE_AUTH_TTL_SECONDS now
            (rx_set_ex api (secret_key d) secret CLI_DEVICE_AUTH_TTL_SECONDS now r),
          [Attached (trim d) userId organizationId secret]))"

definition RELEASE_CLAIM_SCRIPT ::
  "'r redis_api \<Rightarrow> device_codec \<Rightarrow> string \<Rightarrow> string \<Rightarrow> string \<Rightarrow> string \<Rightarrow> ('r, bool) redis_op" where
  "RELEASE_CLAIM_SCRIPT api cx d userCode userId pendingState =
     guarded_script api cx (request_key d) (held_by userCode userId) False
       (replace_request api (request_key d) pendingState)"

definition TAKE_SCRIPT ::
  "'r redis_api \<Rightarrow> device_codec \<Rightarrow> string \<Rightarrow> string \<Rightarrow> ('r, string option) redis_op" where
  "TAKE_SCRIPT api cx d indexKey =
     guarded_script api cx (request_key d) (\<lambda>s. cs_status s = DeviceApproved) None
       (\<lambda>now r. case rx_get api (secret_key d) now r of
          None \<Rightarrow> (Inr None, r, [])
        | Some secret \<Rightarrow>
            (Inr (Some secret),
             snd (rx_del api indexKey now (snd (rx_del api (secret_key d) now (snd (rx_del api (request_key d) now r))))),
             [Delivered (trim d) secret]))"

section \<open>The store\<close>

definition device_create ::
  "('r, 'x) device_env \<Rightarrow> string \<Rightarrow> string \<Rightarrow> string \<Rightarrow> (('r, 'x) device_world, cli_device_state) io" where
  "device_create e deviceCode userCode createdAt =
     (let cx = de_codec e;
          state = \<lparr>cs_clientId = CLI_DEVICE_CLIENT_ID, cs_userCode = userCode, cs_status = DevicePending,
                   cs_userId = None, cs_organizationId = None, cs_preset = None, cs_createdAt = createdAt\<rparr>
      in io_then (command e (SET_EX (de_api e) (deviceKey cx deviceCode) (dc_print cx state) [Issued (trim (dc_digest cx deviceCode))]))
          (io_then (command e (SET_EX (de_api e) (userCodeIndexKey cx userCode) (dc_digest cx deviceCode) []))
            (io_return state)))"

definition getByDeviceCode ::
  "('r, 'x) device_env \<Rightarrow> string \<Rightarrow> (('r, 'x) device_world, cli_device_state option) io" where
  "getByDeviceCode e deviceCode =
     io_bind (command e (GET (de_api e) (deviceKey (de_codec e) deviceCode)))
       (\<lambda>v. io_return (case v of None \<Rightarrow> None | Some s \<Rightarrow> dc_parse (de_codec e) s))"

text \<open>The digest found for a code and the state of its request, the start of every operation of a user.\<close>

definition find_request ::
  "('r, 'x) device_env \<Rightarrow> string \<Rightarrow> (('r, 'x) device_world, (string \<times> cli_device_state) option) io" where
  "find_request e normalizedUserCode =
     io_bind (command e (GET (de_api e) (userCodeIndexKey (de_codec e) normalizedUserCode)))
       (\<lambda>digest. case digest of
          None \<Rightarrow> io_return None
        | Some d \<Rightarrow>
            io_bind (command e (GET (de_api e) (request_key d)))
              (\<lambda>current. io_return (case current of
                 None \<Rightarrow> None | Some v \<Rightarrow> map_option (Pair d) (dc_parse (de_codec e) v))))"

definition device_claim ::
  "('r, 'x) device_env \<Rightarrow> string \<Rightarrow> string \<Rightarrow> string \<Rightarrow> api_key_preset \<Rightarrow> (('r, 'x) device_world, bool) io" where
  "device_claim e userCode userId organizationId preset =
     (let normalized = normalizeUserCode userCode in
      io_bind (find_request e normalized)
       (\<lambda>found. case found of
          None \<Rightarrow> io_return False
        | Some (d, state) \<Rightarrow>
            if cs_status state \<noteq> DevicePending \<or> cs_userCode state \<noteq> normalized then io_return False
            else command e (CLAIM_SCRIPT (de_api e) (de_codec e) d normalized
                   (dc_print (de_codec e) (state\<lparr>cs_status := DeviceClaiming, cs_userId := Some userId,
                      cs_organizationId := Some organizationId, cs_preset := Some preset\<rparr>)))))"

definition completeApproval ::
  "('r, 'x) device_env \<Rightarrow> string \<Rightarrow> string \<Rightarrow> string \<Rightarrow> api_key_preset \<Rightarrow> string \<Rightarrow> (('r, 'x) device_world, bool) io" where
  "completeApproval e userCode userId organizationId preset accessToken =
     (let normalized = normalizeUserCode userCode in
      io_bind (find_request e normalized)
       (\<lambda>found. case found of
          None \<Rightarrow> io_return False
        | Some (d, state) \<Rightarrow>
            if \<not> held_by normalized userId state \<or> cs_organizationId state \<noteq> Some organizationId \<or> cs_preset state \<noteq> Some preset
            then io_return False
            else command e (COMPLETE_SCRIPT (de_api e) (de_codec e) d normalized userId organizationId
                   (dc_seal (de_codec e) accessToken)
                   (dc_print (de_codec e) (state\<lparr>cs_status := DeviceApproved\<rparr>)))))"

definition releaseClaim ::
  "('r, 'x) device_env \<Rightarrow> string \<Rightarrow> string \<Rightarrow> (('r, 'x) device_world, bool) io" where
  "releaseClaim e userCode userId =
     (let normalized = normalizeUserCode userCode in
      io_bind (find_request e normalized)
       (\<lambda>found. case found of
          None \<Rightarrow> io_return False
        | Some (d, state) \<Rightarrow>
            if \<not> held_by normalized userId state then io_return False
            else command e (RELEASE_CLAIM_SCRIPT (de_api e) (de_codec e) d normalized userId
                   (dc_print (de_codec e) \<lparr>cs_clientId = cs_clientId state, cs_userCode = cs_userCode state,
                      cs_status = DevicePending, cs_userId = None, cs_organizationId = None, cs_preset = None,
                      cs_createdAt = cs_createdAt state\<rparr>))))"

definition device_approve ::
  "('r, 'x) device_env \<Rightarrow> string \<Rightarrow> string \<Rightarrow> string \<Rightarrow> api_key_preset \<Rightarrow> string \<Rightarrow> (('r, 'x) device_world, bool) io" where
  "device_approve e userCode userId organizationId preset accessToken =
     io_bind (device_claim e userCode userId organizationId preset)
      (\<lambda>claimed. if \<not> claimed then io_return False
        else io_bind (completeApproval e userCode userId organizationId preset accessToken)
          (\<lambda>approved. io_then (if approved then io_return False else releaseClaim e userCode userId) (io_return approved)))"

text \<open>The write of a refusal is not guarded by a script; its errors count as not refused.\<close>

definition device_deny :: "('r, 'x) device_env \<Rightarrow> string \<Rightarrow> (('r, 'x) device_world, bool) io" where
  "device_deny e userCode =
     io_bind (find_request e (normalizeUserCode userCode))
      (\<lambda>found. case found of
         None \<Rightarrow> io_return False
       | Some (d, state) \<Rightarrow>
           if cs_status state \<noteq> DevicePending then io_return False
           else io_catch (io_then (command e (SET_EX (de_api e) (request_key d)
                  (dc_print (de_codec e) (state\<lparr>cs_status := DeviceDenied\<rparr>)) [])) (io_return True))
             (\<lambda>_. io_return False))"

definition device_poll :: "('r, 'x) device_env \<Rightarrow> string \<Rightarrow> (('r, 'x) device_world, cli_device_poll_result) io" where
  "device_poll e deviceCode =
     io_bind (getByDeviceCode e deviceCode)
      (\<lambda>found. case found of
         None \<Rightarrow> io_return ExpiredToken
       | Some state \<Rightarrow>
           if cs_status state = DevicePending \<or> cs_status state = DeviceClaiming then io_return AuthorizationPending
           else if cs_status state = DeviceDenied then io_return AccessDenied
           else case filled (cs_organizationId state) of
               None \<Rightarrow> io_return ExpiredToken
             | Some organizationId \<Rightarrow>
                 io_bind (command e (TAKE_SCRIPT (de_api e) (de_codec e) (dc_digest (de_codec e) deviceCode)
                            (userCodeIndexKey (de_codec e) (cs_userCode state))))
                   (\<lambda>taken. io_return (case taken of
                      None \<Rightarrow> AuthorizationPending
                    | Some secret \<Rightarrow>
                        (case dc_open (de_codec e) secret of
                           Some accessToken \<Rightarrow> ApprovedToken accessToken organizationId
                         | None \<Rightarrow> ExpiredToken))))"

section \<open>Routes\<close>

datatype device_reply =
  Refused int
| Authorized string string
| Polled cli_device_poll_result
| ApprovedReply
| DeniedReply

definition rateLimitScript :: "'r redis_api \<Rightarrow> string \<Rightarrow> int \<Rightarrow> ('r, int) redis_op" where
  "rateLimitScript api key ttlSeconds now r =
     (case rx_incrby api key 1 now r of
        (count, r1) \<Rightarrow> (Inr count, if count = 1 then snd (rx_expire api key ttlSeconds now r1) else r1, []))"

definition rateLimited ::
  "('r, 'x) device_env \<Rightarrow> string \<Rightarrow> int \<Rightarrow> int \<Rightarrow> (('r, 'x) device_world, bool) io" where
  "rateLimited e key limit ttlSeconds =
     io_catch (io_bind (command e (rateLimitScript (de_api e) (''upstand:rate:'' @ key) ttlSeconds))
                (\<lambda>count. io_return (count \<le> limit)))
       (\<lambda>_. io_return False)"

text \<open>The codes are random; the body has been parsed as JSON, and its client is an argument.\<close>

definition authorizeRoute ::
  "('r, 'x) device_env \<Rightarrow> string \<Rightarrow> string \<Rightarrow> nat list \<Rightarrow> string \<Rightarrow> (('r, 'x) device_world, device_reply) io" where
  "authorizeRoute e clientId deviceCode bytes createdAt =
     (if clientId \<noteq> CLI_DEVICE_CLIENT_ID then io_return (Refused 400)
      else io_bind (rateLimited e ''cli-device-authorize'' 20 60)
        (\<lambda>permitted. if \<not> permitted then io_return (Refused 429)
          else io_then (device_create e deviceCode (createUserCode bytes) createdAt)
                 (io_return (Authorized deviceCode (createUserCode bytes)))))"

definition tokenRoute :: "('r, 'x) device_env \<Rightarrow> string \<Rightarrow> string \<Rightarrow> (('r, 'x) device_world, device_reply) io" where
  "tokenRoute e clientId deviceCode =
     (if clientId \<noteq> CLI_DEVICE_CLIENT_ID \<or> len deviceCode < 32 \<or> len deviceCode > 256 then io_return (Refused 400)
      else io_bind (rateLimited e (''cli-device-token:'' @ deviceCode) 120 600)
        (\<lambda>permitted. if \<not> permitted then io_return (Refused 429)
          else io_bind (device_poll e deviceCode) (\<lambda>result. io_return (Polled result))))"

definition user_code_valid :: "string \<Rightarrow> bool" where
  "user_code_valid userCode \<longleftrightarrow> 5 \<le> len userCode \<and> len userCode \<le> 16"

text \<open>The catch block: a key that was created is deleted and the claim given back.\<close>

definition approval_failed ::
  "('r, 'x) device_env \<Rightarrow> string \<Rightarrow> string \<Rightarrow> string option \<Rightarrow> string \<Rightarrow> (('r, 'x) device_world, device_reply) io" where
  "approval_failed e userCode userId createdKeyId err =
     io_then (case createdKeyId of
         None \<Rightarrow> io_return ()
       | Some keyId \<Rightarrow> io_ignore (key_port e (de_remove e keyId) (\<lambda>_. [KeyRemoval keyId])))
       (io_then (io_ignore (io_then (releaseClaim e userCode userId) (io_return ())))
         (io_return (Refused 403)))"

text \<open>The statements of the try block after the key was created.\<close>

definition attach_key ::
  "('r, 'x) device_env \<Rightarrow> string \<Rightarrow> string \<Rightarrow> string \<Rightarrow> api_key_preset \<Rightarrow> string \<Rightarrow> string \<Rightarrow> (('r, 'x) device_world, device_reply) io" where
  "attach_key e userCode userId organizationId preset keyId key =
     io_try (completeApproval e userCode userId organizationId preset key)
       (approval_failed e userCode userId (Some keyId))
       (\<lambda>approved. if approved then io_return ApprovedReply
         else io_try (key_port e (de_remove e keyId) (\<lambda>_. [KeyRemoval keyId])) (approval_failed e userCode userId (Some keyId))
           (\<lambda>_. io_try (releaseClaim e userCode userId) (approval_failed e userCode userId (Some keyId))
             (\<lambda>_. io_return (Refused 400))))"

text \<open>
  The session and the answer of the second factor are arguments; \<open>userCode\<close> stands for
  \<open>cliDeviceUserCode(input.userCode)\<close>.
\<close>

definition approveRoute ::
  "('r, 'x) device_env \<Rightarrow> string option \<Rightarrow> bool \<Rightarrow> string \<Rightarrow> string \<Rightarrow> string \<Rightarrow> api_key_preset \<Rightarrow> (('r, 'x) device_world, device_reply) io" where
  "approveRoute e session stepUp clientId input_userCode organizationId preset =
     (let userCode = normalizeUserCode input_userCode in
      if clientId \<noteq> CLI_DEVICE_CLIENT_ID \<or> \<not> user_code_valid input_userCode \<or> organizationId = [] then io_return (Refused 400)
      else io_bind (rateLimited e (''cli-device-approve:'' @ userCode) 10 60)
        (\<lambda>permitted. if \<not> permitted then io_return (Refused 429)
          else case session of
              None \<Rightarrow> io_return (Refused 401)
            | Some userId \<Rightarrow>
                if \<not> stepUp then io_return (Refused 403)
                else io_try (key_port e (de_permits e userId organizationId) (\<lambda>_. [])) (approval_failed e userCode userId None)
                  (\<lambda>_. io_try (device_claim e userCode userId organizationId preset) (approval_failed e userCode userId None)
                    (\<lambda>claimed. if \<not> claimed then io_return (Refused 400)
                      else io_try (key_port e (de_mint e userId organizationId preset)
                                     (\<lambda>a. case a of Inl _ \<Rightarrow> [] | Inr (keyId, _) \<Rightarrow> [KeyMinted keyId userId organizationId preset]))
                             (approval_failed e userCode userId None)
                             (\<lambda>(keyId, key). attach_key e userCode userId organizationId preset keyId key)))))"

definition denyRoute ::
  "('r, 'x) device_env \<Rightarrow> string option \<Rightarrow> string \<Rightarrow> string \<Rightarrow> (('r, 'x) device_world, device_reply) io" where
  "denyRoute e session clientId input_userCode =
     (let userCode = normalizeUserCode input_userCode in
      if clientId \<noteq> CLI_DEVICE_CLIENT_ID \<or> \<not> user_code_valid input_userCode then io_return (Refused 400)
      else io_bind (rateLimited e (''cli-device-deny:'' @ userCode) 10 60)
        (\<lambda>permitted. if \<not> permitted then io_return (Refused 429)
          else if session = None then io_return (Refused 401)
          else io_bind (device_deny e userCode)
            (\<lambda>denied. io_return (if denied then DeniedReply else Refused 400))))"

section \<open>Serving requests\<close>

datatype device_request =
  AuthorizeRequest string string "nat list" string
| TokenRequest string string
| ApproveRequest "string option" bool string string string api_key_preset
| DenyRequest "string option" string string

fun serve :: "('r, 'x) device_env \<Rightarrow> device_request \<Rightarrow> (('r, 'x) device_world, device_reply) io" where
  "serve e (AuthorizeRequest c d b t) = authorizeRoute e c d b t"
| "serve e (TokenRequest c d) = tokenRoute e c d"
| "serve e (ApproveRequest s u c k i p) = approveRoute e s u c k i p"
| "serve e (DenyRequest s c k) = denyRoute e s c k"

text \<open>An error a handler does not catch ends its request only.\<close>

fun serve_all :: "('r, 'x) device_env \<Rightarrow> device_request list \<Rightarrow> ('r, 'x) device_world \<Rightarrow> (string + device_reply) list \<times> ('r, 'x) device_world" where
  "serve_all e [] w = ([], w)"
| "serve_all e (q # qs) w =
     (case serve e q w of (a, w1) \<Rightarrow> (case serve_all e qs w1 of (as, w2) \<Rightarrow> (a # as, w2)))"

end
