(* ===== verification/Device_Guarantees.thy ===== *)
theory Device_Guarantees
  imports Device_Auth
begin

text \<open>
  What device authorization guarantees while any number of requests interleave. Every command a
  handler sends is a step of \<open>device_step\<close>, with whatever the handler read before it; the
  invariant of the steps bounds the keys attached and delivered per request. The locale
  \<open>device_store\<close> is the contract of the Redis server together with a JSON codec.
\<close>

section \<open>Keys of the store\<close>

lemma redisKey_device:
  assumes "trim kind = kind" "kind \<noteq> []"
  shows "redisKey [DEVICE_KEY_PREFIX, kind, d] = DEVICE_KEY_PREFIX @ '':'' @ kind @ (if trim d = [] then [] else '':'' @ trim d)"
proof -
  have "trim DEVICE_KEY_PREFIX = DEVICE_KEY_PREFIX" "DEVICE_KEY_PREFIX \<noteq> []" by code_simp+
  with assms show ?thesis by (simp add: redisKey_def)
qed

lemma device_kinds: "trim ''request'' = ''request''" "trim ''secret'' = ''secret''" "trim ''user'' = ''user''"
  by code_simp+

lemma device_key_forms:
  "request_key d = DEVICE_KEY_PREFIX @ '':request'' @ (if trim d = [] then [] else '':'' @ trim d)"
  "secret_key d = DEVICE_KEY_PREFIX @ '':secret'' @ (if trim d = [] then [] else '':'' @ trim d)"
  "userCodeIndexKey cx c = DEVICE_KEY_PREFIX @ '':user'' @ (if trim (dc_digest cx c) = [] then [] else '':'' @ trim (dc_digest cx c))"
  by (simp_all add: request_key_def secret_key_def userCodeIndexKey_def redisKey_device device_kinds)

lemma request_key_eq [simp]: "request_key d = request_key d' \<longleftrightarrow> trim d = trim d'"
  by (auto simp: device_key_forms split: if_splits)

lemma secret_key_eq [simp]: "secret_key d = secret_key d' \<longleftrightarrow> trim d = trim d'"
  by (auto simp: device_key_forms split: if_splits)

lemma device_keys_apart [simp]:
  "request_key d \<noteq> secret_key d'" "secret_key d' \<noteq> request_key d" "request_key d \<noteq> userCodeIndexKey cx c"
  "secret_key d \<noteq> userCodeIndexKey cx c"
  by (simp_all add: device_key_forms)

definition rate_key :: "string \<Rightarrow> string" where
  "rate_key k = ''upstand:rate:'' @ k"

lemma rate_keys_apart [simp]:
  "request_key d \<noteq> rate_key k" "rate_key k \<noteq> request_key d" "secret_key d \<noteq> rate_key k" "rate_key k \<noteq> secret_key d"
  "rate_key k \<noteq> userCodeIndexKey cx c"
  by (simp_all add: device_key_forms DEVICE_KEY_PREFIX_def rate_key_def)

section \<open>Steps\<close>

definition effect :: "('r, 'a) redis_op \<Rightarrow> ('r, 'x) device_world \<Rightarrow> ('r, 'x) device_world" where
  "effect opr w = (case opr (dw_clock w) (dw_redis w) of (a, r, evs) \<Rightarrow> w\<lparr>dw_redis := r, dw_log := dw_log w @ evs\<rparr>)"

definition key_event :: "device_event \<Rightarrow> bool" where
  "key_event ev \<longleftrightarrow> (case ev of KeyMinted _ _ _ _ \<Rightarrow> True | KeyRemoval _ \<Rightarrow> True | _ \<Rightarrow> False)"

inductive device_step :: "('r, 'x) device_env \<Rightarrow> ('r, 'x) device_world \<Rightarrow> ('r, 'x) device_world \<Rightarrow> bool" for e where
  Elapse: "dw_redis w' = dw_redis w \<Longrightarrow> dw_log w' = dw_log w @ evs \<Longrightarrow> list_all key_event evs \<Longrightarrow> device_step e w w'"
| Issue: "cs_status s = DevicePending \<Longrightarrow>
    device_step e w (effect (SET_EX (de_api e) (request_key d) (dc_print (de_codec e) s) [Issued (trim d)]) w)"
| Index: "device_step e w (effect (SET_EX (de_api e) (userCodeIndexKey (de_codec e) c) v []) w)"
| Claim: "cs_status s = DeviceClaiming \<Longrightarrow>
    device_step e w (effect (CLAIM_SCRIPT (de_api e) (de_codec e) d c (dc_print (de_codec e) s)) w)"
| Complete: "cs_status s = DeviceApproved \<Longrightarrow> cs_organizationId s = Some i \<Longrightarrow>
    device_step e w (effect (COMPLETE_SCRIPT (de_api e) (de_codec e) d c u i v (dc_print (de_codec e) s)) w)"
| Release: "cs_status s = DevicePending \<Longrightarrow>
    device_step e w (effect (RELEASE_CLAIM_SCRIPT (de_api e) (de_codec e) d c u (dc_print (de_codec e) s)) w)"
| Refuse: "cs_status s = DeviceDenied \<Longrightarrow>
    device_step e w (effect (SET_EX (de_api e) (request_key d) (dc_print (de_codec e) s) []) w)"
| Take: "device_step e w (effect (TAKE_SCRIPT (de_api e) (de_codec e) d (userCodeIndexKey (de_codec e) c)) w)"
| Limit: "0 < n \<Longrightarrow> device_step e w (effect (rateLimitScript (de_api e) (rate_key k) n) w)"

interpretation device_run: step_relation "(device_step e)\<^sup>*\<^sup>*" for e
  by unfold_locales auto

text \<open>Other requests are served by the same code.\<close>

definition served_alike :: "('r, 'x) device_env \<Rightarrow> bool" where
  "served_alike e \<longleftrightarrow> (\<forall>w. (device_step e)\<^sup>*\<^sup>* w (de_await e w))"

lemma keeps_command:
  assumes "served_alike e" "\<And>w. (device_step e)\<^sup>*\<^sup>* w (effect opr w)"
  shows "keeps (device_step e)\<^sup>*\<^sup>* (command e opr)"
proof -
  have "(device_step e)\<^sup>*\<^sup>* w (de_await e w)" "(device_step e)\<^sup>*\<^sup>* w (effect opr (de_await e w))" for w
    using assms device_run.trans unfolding served_alike_def by blast+
  moreover have "snd (command e opr w) = de_await e w \<or> snd (command e opr w) = effect opr (de_await e w)" for w
    by (simp add: command_def effect_def Let_def case_prod_unfold split: fate.split)
  ultimately show ?thesis unfolding keeps_def by metis
qed

lemma keeps_key_port:
  assumes "served_alike e" "\<And>a. list_all key_event (noted a)"
  shows "keeps (device_step e)\<^sup>*\<^sup>* (key_port e port noted)"
proof -
  have "device_step e w (w\<lparr>dw_ext := x, dw_log := dw_log w @ noted a\<rparr>)" for w x a
    using assms(2) by (intro Elapse) auto
  then show ?thesis
    using assms(1) by (auto simp: keeps_def key_port_def served_alike_def Let_def split: prod.split) (meson rtranclp.rtrancl_into_rtrancl)
qed

lemma effect_GET [simp]: "effect (GET api k) w = w"
  by (simp add: effect_def GET_def)

lemmas device_intros = keeps_intros keeps_command r_into_rtranclp device_step.intros

lemma find_request_keeps: "served_alike e \<Longrightarrow> keeps (device_step e)\<^sup>*\<^sup>* (find_request e c)"
  unfolding find_request_def by (intro keeps_intros keeps_command) simp_all

lemma limited_keeps: "served_alike e \<Longrightarrow> 0 < n \<Longrightarrow> keeps (device_step e)\<^sup>*\<^sup>* (rateLimited e k l n)"
  unfolding rateLimited_def rate_key_def [symmetric] by (intro device_intros)

lemma create_keeps: "served_alike e \<Longrightarrow> keeps (device_step e)\<^sup>*\<^sup>* (device_create e d c t)"
  unfolding device_create_def Let_def deviceKey_def by (intro device_intros) simp_all

lemma claim_keeps: "served_alike e \<Longrightarrow> keeps (device_step e)\<^sup>*\<^sup>* (device_claim e c u i p)"
  unfolding device_claim_def Let_def by (intro device_intros find_request_keeps) simp_all

lemma complete_keeps: "served_alike e \<Longrightarrow> keeps (device_step e)\<^sup>*\<^sup>* (completeApproval e c u i p t)"
proof -
  assume a: "served_alike e"
  have "keeps (device_step e)\<^sup>*\<^sup>* (if \<not> held_by n u s \<or> cs_organizationId s \<noteq> Some i \<or> cs_preset s \<noteq> Some p then io_return False
      else command e (COMPLETE_SCRIPT (de_api e) (de_codec e) d n u i v (dc_print (de_codec e) (s\<lparr>cs_status := DeviceApproved\<rparr>))))"
    for n s d v
    using a by (auto intro!: device_intros)
  with a show ?thesis
    unfolding completeApproval_def Let_def
    by (intro device_run.keeps_bind find_request_keeps) (auto split: option.split intro: device_run.keeps_return)
qed

lemma release_keeps: "served_alike e \<Longrightarrow> keeps (device_step e)\<^sup>*\<^sup>* (releaseClaim e c u)"
  unfolding releaseClaim_def Let_def by (intro device_intros find_request_keeps) simp_all

lemma deny_keeps: "served_alike e \<Longrightarrow> keeps (device_step e)\<^sup>*\<^sup>* (device_deny e c)"
  unfolding device_deny_def by (intro keeps_intros keeps_command r_into_rtranclp Refuse find_request_keeps) simp_all

lemma get_keeps: "served_alike e \<Longrightarrow> keeps (device_step e)\<^sup>*\<^sup>* (getByDeviceCode e c)"
  unfolding getByDeviceCode_def by (intro keeps_intros keeps_command) simp_all

lemma poll_keeps: "served_alike e \<Longrightarrow> keeps (device_step e)\<^sup>*\<^sup>* (device_poll e c)"
  unfolding device_poll_def by (intro device_intros get_keeps)

lemma failed_keeps: "served_alike e \<Longrightarrow> keeps (device_step e)\<^sup>*\<^sup>* (approval_failed e c u k err)"
  unfolding approval_failed_def by (intro keeps_intros keeps_key_port release_keeps) (simp_all add: key_event_def)

lemma attach_keeps: "served_alike e \<Longrightarrow> keeps (device_step e)\<^sup>*\<^sup>* (attach_key e c u i p k t)"
  unfolding attach_key_def
  by (intro keeps_intros keeps_key_port complete_keeps failed_keeps release_keeps) (simp_all add: key_event_def)

lemma serve_keeps: "served_alike e \<Longrightarrow> keeps (device_step e)\<^sup>*\<^sup>* (serve e q)"
  by (cases q; simp only: serve.simps authorizeRoute_def tokenRoute_def approveRoute_def denyRoute_def Let_def)
    (intro keeps_intros keeps_key_port limited_keeps create_keeps poll_keeps claim_keeps failed_keeps attach_keeps deny_keeps;
      simp add: key_event_def split: sum.split)+

section \<open>The invariant\<close>

definition issued :: "string \<Rightarrow> device_event list \<Rightarrow> nat" where
  "issued d L = length (filter (\<lambda>ev. ev = Issued d) L)"

definition attached :: "string \<Rightarrow> device_event list \<Rightarrow> nat" where
  "attached d L = length (filter (\<lambda>ev. case ev of Attached d' _ _ _ \<Rightarrow> d' = d | _ \<Rightarrow> False) L)"

definition delivered :: "string \<Rightarrow> device_event list \<Rightarrow> nat" where
  "delivered d L = length (filter (\<lambda>ev. case ev of Delivered d' _ \<Rightarrow> d' = d | _ \<Rightarrow> False) L)"

lemma count_append [simp]:
  "issued d (L @ M) = issued d L + issued d M" "attached d (L @ M) = attached d L + attached d M"
  "delivered d (L @ M) = delivered d L + delivered d M"
  by (simp_all add: issued_def attached_def delivered_def)

lemma count_simps [simp]:
  "issued d [] = 0" "attached d [] = 0" "delivered d [] = 0"
  "issued d (ev # L) = (if ev = Issued d then 1 else 0) + issued d L"
  "attached d (ev # L) = (case ev of Attached d' _ _ _ \<Rightarrow> if d' = d then 1 else 0 | _ \<Rightarrow> 0) + attached d L"
  "delivered d (ev # L) = (case ev of Delivered d' _ \<Rightarrow> if d' = d then 1 else 0 | _ \<Rightarrow> 0) + delivered d L"
  by (simp_all add: issued_def attached_def delivered_def split: device_event.split)

lemma attached_unique:
  "Attached d u i v \<in> set L \<Longrightarrow> Attached d u' i' v' \<in> set L \<Longrightarrow> attached d L \<le> 1 \<Longrightarrow> u' = u \<and> i' = i \<and> v' = v"
proof (induction L)
  case (Cons ev L)
  have "attached d L \<ge> 1" if "Attached d x y z \<in> set L" for x y z
    using that by (induction L) (auto split: device_event.split)
  with Cons show ?case by (auto split: device_event.splits if_splits)
qed simp

text \<open>
  What one slot, a request and its sealed key, says about the log: every key attached belongs to
  an issue of the request, an open request has an issue to spare, and a sealed key has not been
  delivered yet.
\<close>

definition device_slot_ok ::
  "device_codec \<Rightarrow> redis_entry option \<Rightarrow> redis_entry option \<Rightarrow> string \<Rightarrow> device_event list \<Rightarrow> bool" where
  "device_slot_ok cx request secret d L \<longleftrightarrow>
     delivered d L \<le> attached d L \<and> attached d L \<le> issued d L \<and>
     (\<forall>v. Delivered d v \<in> set L \<longrightarrow> (\<exists>u i. Attached d u i v \<in> set L)) \<and>
     (\<forall>t x. request = Some (t, x) \<longrightarrow>
        (\<exists>s. dc_parse cx t = Some s \<and>
           (cs_status s \<in> {DevicePending, DeviceClaiming} \<longrightarrow> attached d L < issued d L) \<and>
           (cs_status s = DeviceApproved \<longrightarrow> (\<exists>u i v. Attached d u i v \<in> set L \<and> cs_organizationId s = Some i)))) \<and>
     (\<forall>v x. secret = Some (v, x) \<longrightarrow> (\<exists>u i. Attached d u i v \<in> set L) \<and> delivered d L < attached d L)"

definition device_ok :: "device_codec \<Rightarrow> (string \<Rightarrow> redis_entry option) \<Rightarrow> device_event list \<Rightarrow> bool" where
  "device_ok cx E L \<longleftrightarrow> (\<forall>d. device_slot_ok cx (E (request_key d)) (E (secret_key d)) (trim d) L)"

text \<open>The counters of the limits are numbers.\<close>

definition counters_ok :: "(string \<Rightarrow> redis_entry option) \<Rightarrow> bool" where
  "counters_ok E \<longleftrightarrow> (\<forall>k t x. E (rate_key k) = Some (t, x) \<longrightarrow> 0 \<le> decimal t)"

definition concerns :: "string \<Rightarrow> device_event \<Rightarrow> bool" where
  "concerns d ev \<longleftrightarrow>
     (case ev of Issued d' \<Rightarrow> d' = d | Attached d' _ _ _ \<Rightarrow> d' = d | Delivered d' _ \<Rightarrow> d' = d | _ \<Rightarrow> True)"

lemma unconcerned:
  assumes "list_all (concerns d) evs" "d' \<noteq> d"
  shows "issued d' evs = 0" "attached d' evs = 0" "delivered d' evs = 0" "Delivered d' v \<notin> set evs" "Attached d' u i v \<notin> set evs"
  using assms by (induction evs) (auto simp: concerns_def split: device_event.splits)

lemma device_slot_ok_unconcerned:
  "list_all (concerns d) evs \<Longrightarrow> d' \<noteq> d \<Longrightarrow> device_slot_ok cx q s d' (L @ evs) = device_slot_ok cx q s d' L"
  by (simp add: device_slot_ok_def unconcerned)

lemma device_okI:
  assumes "device_ok cx E L" "list_all (concerns (trim d)) evs"
    and "\<And>d'. trim d' \<noteq> trim d \<Longrightarrow> E' (request_key d') = E (request_key d') \<and> E' (secret_key d') = E (secret_key d')"
    and "device_slot_ok cx (E' (request_key d)) (E' (secret_key d)) (trim d) (L @ evs)"
  shows "device_ok cx E' (L @ evs)"
  unfolding device_ok_def
proof
  fix d'
  show "device_slot_ok cx (E' (request_key d')) (E' (secret_key d')) (trim d') (L @ evs)"
  proof (cases "trim d' = trim d")
    case True
    then have "request_key d' = request_key d" "secret_key d' = secret_key d" by simp_all
    with True assms(4) show ?thesis by (simp only:)
  next
    case False
    with assms show ?thesis by (simp add: device_slot_ok_unconcerned device_ok_def)
  qed
qed

lemma device_ok_elsewhere:
  assumes "device_ok cx E L" "\<And>d. E' (request_key d) = E (request_key d) \<and> E' (secret_key d) = E (secret_key d)" "list_all key_event evs"
  shows "device_ok cx E' (L @ evs)"
proof -
  have "issued d evs = 0" "attached d evs = 0" "delivered d evs = 0" "Delivered d v \<notin> set evs" "Attached d u i v \<notin> set evs" for d u i v
    using assms(3) by (induction evs) (auto simp: key_event_def split: device_event.splits)
  with assms(1,2) show ?thesis by (simp add: device_ok_def device_slot_ok_def)
qed

locale device_store = redis_server api entry for api :: "'r redis_api" and entry :: "'r \<Rightarrow> string \<Rightarrow> redis_entry option" +
  fixes cx :: device_codec
  assumes parse_print: "dc_parse cx (dc_print cx s) = Some s"
begin

lemma script_result:
  assumes "guarded_script api cx key guard refused body now r = (a, r', evs)"
  shows "r' = r \<and> evs = [] \<or>
    (\<exists>t x s. entry r key = Some (t, x) \<and> dc_parse cx t = Some s \<and> guard s \<and> body now r = (a, r', evs))"
  using assms
  by (auto simp: guarded_script_def get live_def split: option.splits if_splits prod.splits)

lemma entry_set [simp]:
  "entry (rx_set_ex api k v CLI_DEVICE_AUTH_TTL_SECONDS now r) = (entry r)(k \<mapsto> (v, Some (now + CLI_DEVICE_AUTH_TTL_SECONDS * 1000)))"
  by (rule set_ex) (simp add: CLI_DEVICE_AUTH_TTL_SECONDS_def)

lemma entry_del [simp]: "entry (snd (rx_del api k now r)) = (entry r)(k := None)"
  using del [of r k now] del_gone [of r k now] by (cases "live (entry r k) now") auto

text \<open>A request that is replaced by one with a harmless status.\<close>

lemma replaced_ok:
  assumes "device_ok cx (entry r) L" "entry r (request_key d) = Some (t, x)" "dc_parse cx t = Some s"
    and "cs_status s' \<in> {DevicePending, DeviceClaiming} \<Longrightarrow> cs_status s \<in> {DevicePending, DeviceClaiming}"
    and "cs_status s' \<noteq> DeviceApproved"
  shows "device_ok cx ((entry r)(request_key d \<mapsto> (dc_print cx s', y))) L"
proof -
  have "device_slot_ok cx (Some (dc_print cx s', y)) (entry r (secret_key d)) (trim d) L"
    using assms(1) [unfolded device_ok_def, rule_format, of d] assms(2-5) by (auto simp: device_slot_ok_def parse_print)
  with device_okI [OF assms(1), of d "[]" "(entry r)(request_key d \<mapsto> (dc_print cx s', y))"] show ?thesis by simp
qed

lemma issue_ok:
  assumes "device_ok cx (entry r) L" "cs_status s = DevicePending"
  shows "device_ok cx ((entry r)(request_key d \<mapsto> (dc_print cx s, y))) (L @ [Issued (trim d)])"
proof (rule device_okI [OF assms(1), of d])
  show "device_slot_ok cx (((entry r)(request_key d \<mapsto> (dc_print cx s, y))) (request_key d))
      (((entry r)(request_key d \<mapsto> (dc_print cx s, y))) (secret_key d)) (trim d) (L @ [Issued (trim d)])"
    using assms(1) [unfolded device_ok_def, rule_format, of d] assms(2) by (auto simp: device_slot_ok_def parse_print)
qed (simp_all add: concerns_def)

lemma refuse_ok:
  assumes "device_ok cx (entry r) L" "cs_status s = DeviceDenied"
  shows "device_ok cx ((entry r)(request_key d \<mapsto> (dc_print cx s, y))) L"
proof -
  have "device_slot_ok cx (Some (dc_print cx s, y)) (entry r (secret_key d)) (trim d) L"
    using assms(1) [unfolded device_ok_def, rule_format, of d] assms(2) by (auto simp: device_slot_ok_def parse_print)
  with device_okI [OF assms(1), of d "[]" "(entry r)(request_key d \<mapsto> (dc_print cx s, y))"] show ?thesis by simp
qed

lemma complete_ok:
  assumes "device_ok cx (entry r) L" "entry r (request_key d) = Some (t, x)" "dc_parse cx t = Some s" "held_by c u s"
    and "cs_status s' = DeviceApproved" "cs_organizationId s' = Some i"
  shows "device_ok cx ((entry r)(secret_key d \<mapsto> (v, y), request_key d \<mapsto> (dc_print cx s', y))) (L @ [Attached (trim d) u i v])"
proof (rule device_okI [OF assms(1), of d])
  show "device_slot_ok cx (((entry r)(secret_key d \<mapsto> (v, y), request_key d \<mapsto> (dc_print cx s', y))) (request_key d))
      (((entry r)(secret_key d \<mapsto> (v, y), request_key d \<mapsto> (dc_print cx s', y))) (secret_key d)) (trim d) (L @ [Attached (trim d) u i v])"
    using assms(1) [unfolded device_ok_def, rule_format, of d] assms(2-6) by (auto simp: device_slot_ok_def parse_print held_by_def) blast+
qed (simp_all add: concerns_def)

lemma take_ok:
  assumes "device_ok cx (entry r) L" "entry r (secret_key d) = Some (v, x)"
  shows "device_ok cx ((entry r)(request_key d := None, secret_key d := None, userCodeIndexKey cx c := None)) (L @ [Delivered (trim d) v])"
proof (rule device_okI [OF assms(1), of d])
  show "device_slot_ok cx (((entry r)(request_key d := None, secret_key d := None, userCodeIndexKey cx c := None)) (request_key d))
      (((entry r)(request_key d := None, secret_key d := None, userCodeIndexKey cx c := None)) (secret_key d)) (trim d)
      (L @ [Delivered (trim d) v])"
    using assms(1) [unfolded device_ok_def, rule_format, of d] assms(2) by (auto simp: device_slot_ok_def)
qed (simp_all add: concerns_def)

lemma limit_entry:
  assumes "counters_ok (entry r)" "0 < n" "rateLimitScript api (rate_key k) n now r = (a, r', evs)"
  shows "evs = [] \<and> (\<exists>t x. entry r' = (entry r)(rate_key k \<mapsto> (t, x)) \<and> 0 \<le> decimal t)"
proof -
  let ?c = "number_of (live (entry r (rate_key k)) now) + 1"
  let ?x = "if live (entry r (rate_key k)) now = None then None else snd (the (entry r (rate_key k)))"
  obtain count r1 where i: "rx_incrby api (rate_key k) 1 now r = (count, r1)" by fastforce
  have "0 \<le> number_of (live (entry r (rate_key k)) now)"
    using assms(1) by (auto simp: counters_ok_def live_def number_of_def split: option.splits)
  then have "0 \<le> ?c" by simp
  from incrby [OF this] i have e: "count = ?c" "entry r1 = (entry r)(rate_key k \<mapsto> (show_int ?c, ?x))" by simp_all
  have "live (entry r1 (rate_key k)) now = Some (show_int ?c)"
    using e(2) by (auto simp: live_def split: option.splits if_splits)
  from expire [OF this assms(2)] e assms(3) i \<open>0 \<le> ?c\<close> show ?thesis
    by (auto simp: rateLimitScript_def split: if_splits)
qed

text \<open>Every command keeps the invariant.\<close>

definition store_ok :: "'r \<Rightarrow> device_event list \<Rightarrow> bool" where
  "store_ok r L \<longleftrightarrow> device_ok cx (entry r) L \<and> counters_ok (entry r)"

definition op_ok :: "('r, 'a) redis_op \<Rightarrow> bool" where
  "op_ok opr \<longleftrightarrow> (\<forall>now r a r' evs L. store_ok r L \<longrightarrow> opr now r = (a, r', evs) \<longrightarrow> store_ok r' (L @ evs))"

lemma script_ok:
  assumes "\<And>now r L t x s a r' evs. store_ok r L \<Longrightarrow> entry r key = Some (t, x) \<Longrightarrow> dc_parse cx t = Some s \<Longrightarrow> guard s \<Longrightarrow>
    body now r = (a, r', evs) \<Longrightarrow> store_ok r' (L @ evs)"
  shows "op_ok (guarded_script api cx key guard refused body)"
  unfolding op_ok_def using assms script_result by (metis append_Nil2)

lemma issue_op: "cs_status s = DevicePending \<Longrightarrow> op_ok (SET_EX api (request_key d) (dc_print cx s) [Issued (trim d)])"
  using issue_ok by (auto simp: op_ok_def store_ok_def SET_EX_def counters_ok_def)

lemma index_op: "op_ok (SET_EX api (userCodeIndexKey cx c) v [])"
proof -
  have "device_ok cx ((entry r)(userCodeIndexKey cx c \<mapsto> y)) L" if "device_ok cx (entry r) L" for r y L
    using device_ok_elsewhere [OF that, of _ "[]"] by simp
  then show ?thesis by (auto simp: op_ok_def store_ok_def SET_EX_def counters_ok_def)
qed

lemma claim_op: "cs_status s = DeviceClaiming \<Longrightarrow> op_ok (CLAIM_SCRIPT api cx d c (dc_print cx s))"
  unfolding CLAIM_SCRIPT_def
  by (rule script_ok) (auto simp: replace_request_def store_ok_def counters_ok_def intro: replaced_ok)

lemma complete_op:
  "cs_status s = DeviceApproved \<Longrightarrow> cs_organizationId s = Some i \<Longrightarrow> op_ok (COMPLETE_SCRIPT api cx d c u i v (dc_print cx s))"
  unfolding COMPLETE_SCRIPT_def
  by (rule script_ok) (auto simp: store_ok_def counters_ok_def intro: complete_ok)

lemma release_op: "cs_status s = DevicePending \<Longrightarrow> op_ok (RELEASE_CLAIM_SCRIPT api cx d c u (dc_print cx s))"
  unfolding RELEASE_CLAIM_SCRIPT_def
  by (rule script_ok) (auto simp: replace_request_def store_ok_def counters_ok_def held_by_def intro: replaced_ok)

lemma refuse_op: "cs_status s = DeviceDenied \<Longrightarrow> op_ok (SET_EX api (request_key d) (dc_print cx s) [])"
  using refuse_ok by (auto simp: op_ok_def store_ok_def SET_EX_def counters_ok_def)

lemma counters_del: "counters_ok E \<Longrightarrow> counters_ok (E(k := None))"
  by (auto simp: counters_ok_def)

lemma take_op: "op_ok (TAKE_SCRIPT api cx d (userCodeIndexKey cx c))"
proof -
  have "store_ok r' (L @ evs)"
    if "store_ok r L" "(case rx_get api (secret_key d) now r of None \<Rightarrow> (Inr None, r, [])
        | Some secret \<Rightarrow> (Inr (Some secret),
             snd (rx_del api (userCodeIndexKey cx c) now (snd (rx_del api (secret_key d) now (snd (rx_del api (request_key d) now r))))),
             [Delivered (trim d) secret])) = (a, r', evs)" for r L now a r' evs
  proof (cases "rx_get api (secret_key d) now r")
    case (Some v)
    then obtain x where "entry r (secret_key d) = Some (v, x)"
      by (auto simp: get live_def split: option.splits if_splits)
    with that Some take_ok show ?thesis by (auto simp: store_ok_def intro!: counters_del)
  qed (use that in auto)
  then show ?thesis unfolding TAKE_SCRIPT_def by (intro script_ok) blast
qed

lemma limit_op:
  assumes "0 < n"
  shows "op_ok (rateLimitScript api (rate_key k) n)"
proof -
  have "device_ok cx ((entry r)(rate_key k \<mapsto> y)) L" if "device_ok cx (entry r) L" for r y L
    using device_ok_elsewhere [OF that, of _ "[]"] by simp
  moreover have "counters_ok ((entry r)(rate_key k \<mapsto> (t, x)))" if "counters_ok (entry r)" "0 \<le> decimal t" for r t x
    using that by (auto simp: counters_ok_def)
  ultimately show ?thesis
    unfolding op_ok_def store_ok_def using limit_entry [OF _ assms] by (metis append_Nil2)
qed

lemma effect_ok: "op_ok opr \<Longrightarrow> store_ok (dw_redis w) (dw_log w) \<Longrightarrow> store_ok (dw_redis (effect opr w)) (dw_log (effect opr w))"
  by (auto simp: op_ok_def effect_def split: prod.split)

lemma step_ok:
  assumes "device_step e w w'" "de_api e = api" "de_codec e = cx" "store_ok (dw_redis w) (dw_log w)"
  shows "store_ok (dw_redis w') (dw_log w')"
  using assms(1)
proof cases
  case (Elapse evs)
  with assms(4) show ?thesis by (auto simp: store_ok_def intro: device_ok_elsewhere)
qed (simp_all only: assms(2,3) effect_ok [OF _ assms(4)] issue_op index_op claim_op complete_op release_op refuse_op take_op limit_op)

lemma run_ok:
  assumes "(device_step e)\<^sup>*\<^sup>* w w'" "de_api e = api" "de_codec e = cx" "store_ok (dw_redis w) (dw_log w)"
  shows "store_ok (dw_redis w') (dw_log w')"
  using assms(1)
proof (induction rule: rtranclp_induct)
  case (step v v')
  with assms(2,3) step_ok show ?case by blast
qed (rule assms(4))

lemma request_approved:
  assumes "store_ok r L" "entry r (request_key d) = Some (t, x)" "dc_parse cx t = Some s" "cs_status s = DeviceApproved"
  obtains u i v where "Attached (trim d) u i v \<in> set L" "cs_organizationId s = Some i"
proof -
  have "device_slot_ok cx (Some (t, x)) (entry r (secret_key d)) (trim d) L"
    using assms(1,2) unfolding store_ok_def device_ok_def by metis
  with assms(3,4) that show ?thesis by (auto simp: device_slot_ok_def)
qed

lemma key_delivered:
  assumes "store_ok r L" "Delivered (trim d) v \<in> set L"
  obtains u i where "Attached (trim d) u i v \<in> set L"
proof -
  have "device_slot_ok cx (entry r (request_key d)) (entry r (secret_key d)) (trim d) L"
    using assms(1) unfolding store_ok_def device_ok_def by metis
  with assms(2) that show ?thesis unfolding device_slot_ok_def by blast
qed

lemma counts_ok: "store_ok r L \<Longrightarrow> delivered (trim d) L \<le> attached (trim d) L \<and> attached (trim d) L \<le> issued (trim d) L"
  unfolding store_ok_def device_ok_def device_slot_ok_def by blast

lemma initial_ok:
  assumes "\<And>d. entry r (request_key d) = None \<and> entry r (secret_key d) = None" "counters_ok (entry r)"
  shows "store_ok r []"
  using assms by (simp add: store_ok_def device_ok_def device_slot_ok_def)

end

section \<open>What a device gets\<close>

lemma step_log: "device_step e w w' \<Longrightarrow> \<exists>evs. dw_log w' = dw_log w @ evs"
  by (cases rule: device_step.cases) (auto simp: effect_def split: prod.split)

lemma run_log: "(device_step e)\<^sup>*\<^sup>* w w' \<Longrightarrow> \<exists>evs. dw_log w' = dw_log w @ evs"
  by (induction rule: rtranclp_induct) (auto dest!: step_log)

lemma command_result:
  assumes "command e opr w = (Inr a, w')" "served_alike e"
  obtains w1 r evs where "(device_step e)\<^sup>*\<^sup>* w w1" "opr (dw_clock w1) (dw_redis w1) = (Inr a, r, evs)"
    "w' = w1\<lparr>dw_redis := r, dw_log := dw_log w1 @ evs\<rparr>"
  using assms by (auto simp: command_def served_alike_def Let_def split: prod.splits fate.splits)

text \<open>Computations whose results satisfy a predicate.\<close>

definition answers :: "('a \<Rightarrow> bool) \<Rightarrow> ('w, 'a) io \<Rightarrow> bool" where
  "answers P m \<longleftrightarrow> (\<forall>w a w'. m w = (Inr a, w') \<longrightarrow> P a)"

lemma answers_intros:
  "P a \<Longrightarrow> answers P (io_return a)"
  "(\<And>a. answers P (f a)) \<Longrightarrow> answers P (io_bind m f)"
  "answers P n \<Longrightarrow> answers P (io_then m' n)"
  "(\<And>err. answers P (h err)) \<Longrightarrow> (\<And>a. answers P (f a)) \<Longrightarrow> answers P (io_try m h f)"
  "(b \<Longrightarrow> answers P p) \<Longrightarrow> (\<not> b \<Longrightarrow> answers P q) \<Longrightarrow> answers P (if b then p else q)"
  "answers P g \<Longrightarrow> (\<And>a. answers P (k a)) \<Longrightarrow> answers P (case y of None \<Rightarrow> g | Some a \<Rightarrow> k a)"
  "(\<And>a b. answers P (l a b)) \<Longrightarrow> answers P (case z of (a, b) \<Rightarrow> l a b)"
  by (auto simp: answers_def io_run io_bind_def io_then_def io_try_def split: prod.splits sum.splits option.splits)

context device_store
begin

lemma poll_approved:
  assumes e: "served_alike e" "de_api e = api" "de_codec e = cx"
    and ok: "store_ok (dw_redis w) (dw_log w)"
    and poll: "device_poll e deviceCode w = (Inr (ApprovedToken token org), w')"
    and once: "attached (trim (dc_digest cx deviceCode)) (dw_log w') \<le> 1"
  shows "\<exists>u v. Attached (trim (dc_digest cx deviceCode)) u org v \<in> set (dw_log w') \<and>
    Delivered (trim (dc_digest cx deviceCode)) v \<in> set (dw_log w') \<and> dc_open cx v = Some token"
proof -
  let ?d = "dc_digest cx deviceCode"
  from poll obtain found w1 where got: "getByDeviceCode e deviceCode w = (Inr found, w1)"
    unfolding device_poll_def io_bind_result by blast
  with poll obtain s where s: "found = Some s"
    by (cases found) (auto simp: device_poll_def io_bind_def io_run)
  from poll got s have approved: "cs_status s = DeviceApproved"
    by (cases "cs_status s") (auto simp: device_poll_def io_bind_def io_run)
  from poll got s approved obtain o' where o': "filled (cs_organizationId s) = Some o'"
    by (cases "filled (cs_organizationId s)") (auto simp: device_poll_def io_bind_def io_run)
  from poll got s approved o' obtain taken' where
    taken': "command e (TAKE_SCRIPT api cx ?d (userCodeIndexKey cx (cs_userCode s))) w1 = (Inr taken', w')"
    by (auto simp: device_poll_def io_bind_result io_run e(2,3))
  from poll got s approved o' taken' obtain v where "taken' = Some v" and org: "filled (cs_organizationId s) = Some org"
    and opened: "dc_open cx v = Some token"
    by (cases taken'; cases "dc_open cx (the taken')") (auto simp: device_poll_def io_bind_def io_run e(2,3))
  with taken' have taken: "command e (TAKE_SCRIPT api cx ?d (userCodeIndexKey cx (cs_userCode s))) w1 = (Inr (Some v), w')" by simp
  from got obtain t where "command e (GET api (request_key ?d)) w = (Inr (Some t), w1)" and t: "dc_parse cx t = Some s"
    unfolding getByDeviceCode_def io_bind_result e(2,3) deviceKey_def s by (auto simp: io_run split: option.splits)
  then have run: "(device_step e)\<^sup>*\<^sup>* w w1" and "rx_get api (request_key ?d) (dw_clock w1) (dw_redis w1) = Some t"
    by (auto simp: GET_def filled_def split: option.splits if_splits elim!: command_result [OF _ e(1)])
  then obtain x where "entry (dw_redis w1) (request_key ?d) = Some (t, x)"
    by (auto simp: get live_def split: option.splits if_splits)
  from request_approved [OF run_ok [OF run e(2,3) ok] this t approved] obtain u i v0 where
    a0: "Attached (trim ?d) u i v0 \<in> set (dw_log w1)" and "cs_organizationId s = Some i" .
  with org have "i = org" by (auto simp: filled_def split: if_splits)
  have run': "(device_step e)\<^sup>*\<^sup>* w1 w'"
    using keepsD [OF keeps_command [OF e(1)] taken] Take [of e _ ?d "cs_userCode s"] unfolding e(2,3) by blast
  from taken have del: "Delivered (trim ?d) v \<in> set (dw_log w')"
    by (auto simp: TAKE_SCRIPT_def guarded_script_def split: option.splits if_splits elim!: command_result [OF _ e(1)])
  from key_delivered [OF run_ok [OF rtranclp_trans [OF run run'] e(2,3) ok] this] obtain u' i' where
    a1: "Attached (trim ?d) u' i' v \<in> set (dw_log w')" .
  have "Attached (trim ?d) u i v0 \<in> set (dw_log w')" using a0 run_log [OF run'] by auto
  from attached_unique [OF this a1 once] \<open>i = org\<close> a1 del opened show ?thesis by blast
qed

lemma serve_approved:
  assumes e: "served_alike e" "de_api e = api" "de_codec e = cx"
    and ok: "store_ok (dw_redis w) (dw_log w)"
    and served: "serve e q w = (Inr (Polled (ApprovedToken token org)), w')"
    and once: "\<And>d. attached (trim d) (dw_log w') \<le> 1"
  shows "\<exists>d u v. Attached d u org v \<in> set (dw_log w') \<and> Delivered d v \<in> set (dw_log w') \<and> dc_open cx v = Some token"
proof (cases q)
  case (TokenRequest clientId deviceCode)
  with served obtain w1 k where "rateLimited e k 120 600 w = (Inr True, w1)"
    and poll: "device_poll e deviceCode w1 = (Inr (ApprovedToken token org), w')"
    by (auto simp: tokenRoute_def io_bind_result io_run split: if_splits)
  with limited_keeps [OF e(1), of 600] have "(device_step e)\<^sup>*\<^sup>* w w1" by (auto dest: keepsD)
  from run_ok [OF this e(2,3) ok] have "store_ok (dw_redis w1) (dw_log w1)" .
  from poll_approved [OF e this poll once] show ?thesis by blast
next
  case (ApproveRequest session stepUp clientId code i p)
  have "answers (\<lambda>a. \<forall>z. a \<noteq> Polled z) (approveRoute e session stepUp clientId code i p)"
    unfolding approveRoute_def attach_key_def approval_failed_def Let_def by (intro answers_intros) simp_all
  with served ApproveRequest show ?thesis unfolding answers_def by (metis serve.simps(3))
qed (use served in \<open>auto simp: authorizeRoute_def denyRoute_def Let_def io_bind_result io_then_result io_run split: if_splits\<close>)

lemma serve_all_keeps:
  assumes "served_alike e" "serve_all e qs w = (replies, w')"
  shows "(device_step e)\<^sup>*\<^sup>* w w'"
  using assms(2)
proof (induction qs arbitrary: w replies)
  case (Cons q qs)
  then show ?case
    using keepsD [OF serve_keeps [OF assms(1)], of q w] by (auto split: prod.splits) (meson rtranclp_trans)
qed simp

lemma serve_all_approved:
  assumes e: "served_alike e" "de_api e = api" "de_codec e = cx"
    and "store_ok (dw_redis w) (dw_log w)" "serve_all e qs w = (replies, w')" "\<And>d. attached (trim d) (dw_log w') \<le> 1"
    and "Inr (Polled (ApprovedToken token org)) \<in> set replies"
  shows "\<exists>d u v. Attached d u org v \<in> set (dw_log w') \<and> Delivered d v \<in> set (dw_log w') \<and> dc_open cx v = Some token"
  using assms(4-)
proof (induction qs arbitrary: w replies)
  case (Cons q qs)
  obtain a w1 as where q: "serve e q w = (a, w1)" and qs: "serve_all e qs w1 = (as, w')" and replies: "replies = a # as"
    using Cons.prems(2) by (auto split: prod.splits)
  have ok: "store_ok (dw_redis w1) (dw_log w1)"
    using run_ok [OF keepsD [OF serve_keeps [OF e(1)] q] e(2,3)] Cons.prems(1) by blast
  obtain evs where evs: "dw_log w' = dw_log w1 @ evs" using run_log [OF serve_all_keeps [OF e(1) qs]] by blast
  with Cons.prems(3) have once: "attached (trim d) (dw_log w1) \<le> 1" for d by (metis add_leD1 count_append(2))
  consider "a = Inr (Polled (ApprovedToken token org))" | "Inr (Polled (ApprovedToken token org)) \<in> set as"
    using Cons.prems(4) replies by auto
  then show ?case
  proof cases
    case 1
    with serve_approved [OF e Cons.prems(1) _ once] q evs show ?thesis by fastforce
  next
    case 2
    from Cons.IH [OF ok qs Cons.prems(3) 2] show ?thesis .
  qed
qed simp

end

text \<open>
  C12. A device gets at most one key per request: however requests interleave and whichever commands
  fail, a request that was issued once has at most one key attached and at most as many delivered,
  and a device that is told it was approved gets a key that a user attached to its request, for
  the organization the user chose.
\<close>

theorem device_key_delivered_once:
  assumes "device_store (de_api e) entry (de_codec e)" "served_alike e" "serve_all e requests w = (replies, w')"
    and "dw_log w = []" "\<forall>d. entry (dw_redis w) (request_key d) = None \<and> entry (dw_redis w) (secret_key d) = None"
    and "counters_ok (entry (dw_redis w))" "\<forall>d. issued (trim d) (dw_log w') \<le> 1"
  shows "(\<forall>d. delivered (trim d) (dw_log w') \<le> attached (trim d) (dw_log w') \<and> attached (trim d) (dw_log w') \<le> 1) \<and>
    (\<forall>token org. Inr (Polled (ApprovedToken token org)) \<in> set replies \<longrightarrow>
      (\<exists>d u v. Attached d u org v \<in> set (dw_log w') \<and> Delivered d v \<in> set (dw_log w') \<and> dc_open (de_codec e) v = Some token))"
proof -
  note store = assms(1)
  have ok: "device_store.store_ok entry (de_codec e) (dw_redis w) (dw_log w)"
    using device_store.initial_ok [OF store] assms(4-6) by auto
  have ok': "device_store.store_ok entry (de_codec e) (dw_redis w') (dw_log w')"
    using device_store.run_ok [OF store device_store.serve_all_keeps [OF store assms(2,3)] _ _ ok] by simp
  have counts: "delivered (trim d) (dw_log w') \<le> attached (trim d) (dw_log w') \<and> attached (trim d) (dw_log w') \<le> 1" for d
    using device_store.counts_ok [OF store ok', of d] assms(7) le_trans by blast
  with device_store.serve_all_approved [OF store assms(2) _ _ ok assms(3)] show ?thesis by blast
qed

section \<open>Keys that are not handed over\<close>

lemma command_log: "served_alike e \<Longrightarrow> (\<And>w. (device_step e)\<^sup>*\<^sup>* w (effect opr w)) \<Longrightarrow> command e opr w = (a, w') \<Longrightarrow> set (dw_log w) \<subseteq> set (dw_log w')"
  using run_log [OF keepsD [OF keeps_command]] by fastforce

lemma removal_noted: "key_port e (de_remove e k) (\<lambda>_. [KeyRemoval k]) w = (a, w') \<Longrightarrow> KeyRemoval k \<in> set (dw_log w')"
  by (auto simp: key_port_def Let_def split: prod.splits)

lemma release_log: "served_alike e \<Longrightarrow> releaseClaim e c u w = (a, w') \<Longrightarrow> set (dw_log w) \<subseteq> set (dw_log w')"
  using run_log [OF keepsD [OF release_keeps]] by fastforce

lemma failed_removes:
  assumes "served_alike e"
  shows "\<exists>w'. approval_failed e c u (Some k) err w = (Inr (Refused 403), w') \<and> KeyRemoval k \<in> set (dw_log w')"
proof -
  let ?release = "io_then (releaseClaim e c u) (io_return ())"
  obtain w1 where w1: "io_ignore (key_port e (de_remove e k) (\<lambda>_. [KeyRemoval k])) w = (Inr (), w1)" using io_ignore_ok by metis
  then have "KeyRemoval k \<in> set (dw_log w1)"
    by (auto simp: io_ignore_def io_catch_result io_run dest: removal_noted)
  obtain w2 where w2: "io_ignore ?release w1 = (Inr (), w2)" using io_ignore_ok by metis
  have "keeps (device_step e)\<^sup>*\<^sup>* (io_ignore ?release)" by (intro keeps_intros release_keeps assms)
  from run_log [OF keepsD [OF this w2]] \<open>KeyRemoval k \<in> set (dw_log w1)\<close> have "KeyRemoval k \<in> set (dw_log w2)" by auto
  with w1 w2 show ?thesis by (simp add: approval_failed_def io_then_def io_bind_def io_run)
qed

lemma completed_attaches:
  assumes "served_alike e" "completeApproval e c u i p key w = (Inr True, w')"
  shows "\<exists>d. Attached d u i (dc_seal (de_codec e) key) \<in> set (dw_log w')"
proof -
  let ?n = "normalizeUserCode c"
  obtain found w1 where f: "find_request e ?n w = (Inr found, w1)"
    using assms(2) by (auto simp: completeApproval_def Let_def io_bind_result)
  with assms(2) obtain d s where s: "found = Some (d, s)"
    by (cases found) (auto simp: completeApproval_def Let_def io_bind_def io_run)
  let ?v = "dc_print (de_codec e) (s\<lparr>cs_status := DeviceApproved\<rparr>)"
  have "command e (COMPLETE_SCRIPT (de_api e) (de_codec e) d ?n u i (dc_seal (de_codec e) key) ?v) w1 = (Inr True, w')"
    using assms(2) f s by (auto simp: completeApproval_def Let_def io_bind_def io_run split: if_splits)
  then show ?thesis
    by (auto simp: COMPLETE_SCRIPT_def guarded_script_def split: option.splits if_splits elim!: command_result [OF _ assms(1)])
qed

text \<open>
  C13. A key that was minted is not lost: once a key exists for an approval, the handler answers, and
  either the key was attached to a request for its user and organization, or the handler has asked
  for the key to be deleted, whatever fails in between.
\<close>

theorem minted_key_accounted:
  assumes "served_alike e"
  shows "\<exists>reply w'. attach_key e userCode userId organizationId preset keyId key w = (Inr reply, w') \<and>
    (reply = ApprovedReply \<and> (\<exists>d. Attached d userId organizationId (dc_seal (de_codec e) key) \<in> set (dw_log w')) \<or>
     reply \<in> {Refused 400, Refused 403} \<and> KeyRemoval keyId \<in> set (dw_log w'))"
proof -
  let ?failed = "\<lambda>err. approval_failed e userCode userId (Some keyId) err"
  let ?remove = "key_port e (de_remove e keyId) (\<lambda>_. [KeyRemoval keyId])"
  let ?attach = "attach_key e userCode userId organizationId preset keyId key w"
  have failed: ?thesis if "?attach = ?failed err v" for err v
    using failed_removes [OF assms, of userCode userId keyId err v] unfolding that by blast
  obtain c w1 where c: "completeApproval e userCode userId organizationId preset key w = (c, w1)" by fastforce
  obtain m w2 where m: "?remove w1 = (m, w2)" by fastforce
  obtain l w3 where l: "releaseClaim e userCode userId w2 = (l, w3)" by fastforce
  have removed: "KeyRemoval keyId \<in> set (dw_log w3)" using removal_noted [OF m] release_log [OF assms l] by blast
  consider err where "c = Inl err" | "c = Inr True" | err where "c = Inr False" "m = Inl err"
    | err where "c = Inr False" "m = Inr ()" "l = Inl err" | "c = Inr False" "m = Inr ()" "\<exists>b. l = Inr b"
    by (metis old.sum.exhaust old.unit.exhaust)
  then show ?thesis
  proof cases
    case 2
    with c completed_attaches [OF assms] show ?thesis by (simp add: attach_key_def io_try_def io_run)
  next
    case (1 err)
    with c show ?thesis by (intro failed [of err w1]) (simp add: attach_key_def io_try_def)
  next
    case (3 err)
    with c m show ?thesis by (intro failed [of err w2]) (simp add: attach_key_def io_try_def)
  next
    case (4 err)
    with c m l show ?thesis by (intro failed [of err w3]) (simp add: attach_key_def io_try_def)
  qed (use c m l removed in \<open>auto simp: attach_key_def io_try_def io_run\<close>)
qed

section \<open>Codes\<close>

lemma alphabet_plain: "list_all (\<lambda>c. is_alnum c \<and> upper_ascii c = c) user_code_alphabet"
  by code_simp

text \<open>
  The code a device shows is its own normal form, so what a user types, in any case and with any
  separators between the characters, finds the request.
\<close>

theorem user_code_recognised:
  assumes "filter is_alnum typed = map lowered (createUserCode bytes)" "\<And>c. upper_ascii (lowered c) = upper_ascii c"
  shows "normalizeUserCode typed = createUserCode bytes"
proof -
  have "upper_ascii (user_code_alphabet ! (b mod length user_code_alphabet)) = user_code_alphabet ! (b mod length user_code_alphabet)" for b
    using alphabet_plain by (simp add: list_all_length user_code_alphabet_def)
  with assms show ?thesis by (simp add: normalizeUserCode_def createUserCode_def)
qed

section \<open>A codec and a race\<close>

text \<open>
  The locale holds of the map of entries with a codec that writes every field with its length in
  unary; the digest and the sealing are the identity.
\<close>

definition put_field :: "string \<Rightarrow> string" where
  "put_field s = replicate (length s) CHR ''|'' @ '':'' @ s"

definition get_field :: "string \<Rightarrow> string \<times> string" where
  "get_field t = (let n = length (takeWhile (\<lambda>c. c = CHR ''|'') t); r = drop (n + 1) t in (take n r, drop n r))"

definition put_opt :: "string option \<Rightarrow> string" where
  "put_opt v = (case v of None \<Rightarrow> ''0'' | Some s \<Rightarrow> ''1'' @ put_field s)"

definition get_opt :: "string \<Rightarrow> string option \<times> string" where
  "get_opt t = (if take 1 t = ''1'' then (let (s, r) = get_field (drop 1 t) in (Some s, r)) else (None, drop 1 t))"

definition device_presets :: "(api_key_preset \<times> string) list" where
  "device_presets = [(ReadOnly, ''read''), (Deployment, ''deploy''), (Operations, ''operate''), (McpReadOnly, ''mcp''), (FullAccess, ''full'')]"

definition device_statuses :: "(cli_device_status \<times> string) list" where
  "device_statuses = [(DevicePending, ''pending''), (DeviceClaiming, ''claiming''), (DeviceApproved, ''approved''), (DeviceDenied, ''denied'')]"

definition sample_print :: "cli_device_state \<Rightarrow> string" where
  "sample_print s =
     put_field (cs_clientId s) @ put_field (cs_userCode s) @ put_field (the (map_of device_statuses (cs_status s))) @
     put_opt (cs_userId s) @ put_opt (cs_organizationId s) @
     put_opt (map_option (\<lambda>p. the (map_of device_presets p)) (cs_preset s)) @ put_field (cs_createdAt s)"

definition sample_parse :: "string \<Rightarrow> cli_device_state option" where
  "sample_parse t =
     (let (c, t1) = get_field t; (u, t2) = get_field t1; (st, t3) = get_field t2; (us, t4) = get_opt t3;
          (org, t5) = get_opt t4; (pr, t6) = get_opt t5; (cr, t7) = get_field t6
      in map_option (\<lambda>status. \<lparr>cs_clientId = c, cs_userCode = u, cs_status = status, cs_userId = us, cs_organizationId = org,
           cs_preset = Option.bind pr (map_of (map prod.swap device_presets)), cs_createdAt = cr\<rparr>)
         (map_of (map prod.swap device_statuses) st))"

definition sample_codec :: device_codec where
  "sample_codec = \<lparr>dc_digest = (\<lambda>s. s), dc_print = sample_print, dc_parse = sample_parse, dc_seal = (\<lambda>s. s), dc_open = Some\<rparr>"

lemma get_field_put [simp]: "get_field (put_field s @ r) = (s, r)"
proof -
  have "takeWhile (\<lambda>c. c = CHR ''|'') (put_field s @ r) = replicate (length s) CHR ''|''"
    unfolding put_field_def by (subst append_assoc, subst takeWhile_append2) auto
  then show ?thesis by (simp add: get_field_def put_field_def)
qed

lemma get_field_end [simp]: "get_field (put_field s) = (s, [])"
  using get_field_put [of s "[]"] by simp

lemma get_opt_put [simp]: "get_opt (put_opt v @ r) = (v, r)"
  by (cases v) (simp_all add: get_opt_def put_opt_def)

lemma device_names [simp]:
  "map_of (map prod.swap device_statuses) (the (map_of device_statuses st)) = Some st"
  "map_of (map prod.swap device_presets) (the (map_of device_presets p)) = Some p"
  by (cases st; simp add: device_statuses_def) (cases p; simp add: device_presets_def)

lemma sample_parse_print: "sample_parse (sample_print s) = Some s"
  by (cases "cs_preset s") (simp_all add: sample_parse_def sample_print_def)

interpretation sample_devices: device_store list_redis map_of sample_codec
  by unfold_locales (simp add: sample_codec_def sample_parse_print)

text \<open>An approved request, delivered to its device; time passes with every command.\<close>

type_synonym sample_device_world = "((string \<times> redis_entry) list, nat) device_world"

definition sample_device :: "((string \<times> redis_entry) list, nat) device_env" where
  "sample_device =
     \<lparr>de_api = list_redis, de_codec = sample_codec, de_await = (\<lambda>w. w\<lparr>dw_clock := dw_clock w + 1, dw_ext := dw_ext w + 1\<rparr>),
      de_fate = (\<lambda>_. Answered), de_permits = (\<lambda>_ _ x. (Inr (), x)), de_mint = (\<lambda>_ _ _ x. (Inr (''key-1'', ''upk''), x)),
      de_remove = (\<lambda>_ x. (Inr (), x))\<rparr>"

definition sample_device_code :: string where
  "sample_device_code = ''0123456789abcdef0123456789abcdef''"

definition sample_device_start :: sample_device_world where
  "sample_device_start = \<lparr>dw_redis = [], dw_clock = 0, dw_ext = 0, dw_log = []\<rparr>"

definition sample_user_code :: string where
  "sample_user_code = createUserCode [0, 1, 2, 3, 4]"

definition sample_device_requests :: "device_request list" where
  "sample_device_requests =
     [AuthorizeRequest CLI_DEVICE_CLIENT_ID sample_device_code [0, 1, 2, 3, 4] ''now'',
      ApproveRequest (Some ''user'') True CLI_DEVICE_CLIENT_ID sample_user_code ''org'' ReadOnly,
      TokenRequest CLI_DEVICE_CLIENT_ID sample_device_code,
      TokenRequest CLI_DEVICE_CLIENT_ID sample_device_code]"

lemma sample_device_alike: "served_alike sample_device"
  unfolding served_alike_def sample_device_def by (auto intro!: r_into_rtranclp Elapse [of _ _ "[]"])

definition sample_device_log :: "device_event list" where
  "sample_device_log =
     [Issued sample_device_code, KeyMinted ''key-1'' ''user'' ''org'' ReadOnly,
      Attached sample_device_code ''user'' ''org'' ''upk'', Delivered sample_device_code ''upk'']"

lemma sample_device_run:
  "map_prod id dw_log (serve_all sample_device sample_device_requests sample_device_start) =
     ([Inr (Authorized sample_device_code sample_user_code), Inr ApprovedReply,
       Inr (Polled (ApprovedToken ''upk'' ''org'')), Inr (Polled ExpiredToken)], sample_device_log)"
  by code_simp

theorem device_key_delivered_once_witness:
  "\<exists>d u v. Attached d u ''org'' v \<in> set sample_device_log \<and> Delivered d v \<in> set sample_device_log \<and> v = ''upk''"
proof -
  obtain replies w where run: "serve_all sample_device sample_device_requests sample_device_start = (replies, w)" by fastforce
  with sample_device_run have replies: "Inr (Polled (ApprovedToken ''upk'' ''org'')) \<in> set replies" and "dw_log w = sample_device_log"
    by auto
  moreover have "issued d sample_device_log \<le> 1" for d by (simp add: sample_device_log_def)
  moreover have "counters_ok (map_of (dw_redis sample_device_start))"
    by (simp add: counters_ok_def sample_device_start_def)
  ultimately show ?thesis
    using device_key_delivered_once [OF _ sample_device_alike run, of map_of] sample_devices.device_store_axioms
    by (auto simp: sample_device_def sample_device_start_def sample_codec_def)
qed

theorem minted_key_accounted_witness:
  "\<exists>reply w'. attach_key sample_device sample_user_code ''user'' ''org'' ReadOnly ''key-1'' ''upk'' sample_device_start = (Inr reply, w') \<and>
    (reply = ApprovedReply \<and> (\<exists>d. Attached d ''user'' ''org'' (dc_seal (de_codec sample_device) ''upk'') \<in> set (dw_log w')) \<or>
     reply \<in> {Refused 400, Refused 403} \<and> KeyRemoval ''key-1'' \<in> set (dw_log w'))"
  by (rule minted_key_accounted) (rule sample_device_alike)

theorem user_code_recognised_witness:
  "normalizeUserCode ''a-bc de'' = createUserCode [0, 1, 2, 3, 4]"
proof (rule user_code_recognised [where lowered = "\<lambda>c. if 65 \<le> code c \<and> code c \<le> 90 then char_of (code c + 32) else c"])
  show "filter is_alnum ''a-bc de'' =
      map (\<lambda>c. if 65 \<le> code c \<and> code c \<le> 90 then char_of (code c + 32) else c) (createUserCode [0, 1, 2, 3, 4])"
    by code_simp
next
  have "\<forall>c. upper_ascii (if 65 \<le> code c \<and> code c \<le> 90 then char_of (code c + 32) else c) = upper_ascii c" by code_simp
  then show "upper_ascii (if 65 \<le> code c \<and> code c \<le> 90 then char_of (code c + 32) else c) = upper_ascii c" for c by blast
qed

text \<open>Steps depend on the store only, so requests that run while a handler waits may have ports of their own.\<close>

lemma step_ports: "device_step e w w' \<Longrightarrow> de_api e' = de_api e \<Longrightarrow> de_codec e' = de_codec e \<Longrightarrow> device_step e' w w'"
  by (induction rule: device_step.induct) (metis device_step.intros)+

lemma run_ports: "(device_step e)\<^sup>*\<^sup>* w w' \<Longrightarrow> de_api e' = de_api e \<Longrightarrow> de_codec e' = de_codec e \<Longrightarrow> (device_step e')\<^sup>*\<^sup>* w w'"
  by (induction rule: rtranclp_induct) (auto intro: rtranclp.rtrancl_into_rtrancl step_ports)

definition raced_device :: "((string \<times> redis_entry) list, nat) device_env" where
  "raced_device = sample_device\<lparr>de_await := (\<lambda>w.
     if dw_ext w = 6
     then snd (approveRoute sample_device (Some ''user'') True CLI_DEVICE_CLIENT_ID sample_user_code ''org'' ReadOnly w)
     else de_await sample_device w)\<rparr>"

lemma raced_device_alike: "served_alike raced_device"
proof -
  have "(device_step sample_device)\<^sup>*\<^sup>* w (snd (serve sample_device (ApproveRequest s u c k i p) w))" for w s u c k i p
    using serve_keeps [OF sample_device_alike] unfolding keeps_def by blast
  then have "(device_step sample_device)\<^sup>*\<^sup>* w (de_await raced_device w)" for w
    using sample_device_alike by (simp add: raced_device_def served_alike_def)
  moreover have "de_api raced_device = de_api sample_device" "de_codec raced_device = de_codec sample_device"
    by (simp_all add: raced_device_def)
  ultimately show ?thesis unfolding served_alike_def by (blast intro: run_ports)
qed

text \<open>
  A refusal overwrites an approval: \<open>deny\<close> reads the request and then writes it without the
  guard the other operations have, so an approval that completes in between is lost. The user who
  approved was told so, the device is told that access was denied, and the key minted for it stays.
\<close>

theorem deny_overwrites_approval:
  "served_alike raced_device \<and>
   map_prod id dw_log
     (serve_all raced_device
       [AuthorizeRequest CLI_DEVICE_CLIENT_ID sample_device_code [0, 1, 2, 3, 4] ''now'',
        DenyRequest (Some ''other'') CLI_DEVICE_CLIENT_ID sample_user_code,
        TokenRequest CLI_DEVICE_CLIENT_ID sample_device_code] sample_device_start) =
     ([Inr (Authorized sample_device_code sample_user_code), Inr DeniedReply, Inr (Polled AccessDenied)],
      [Issued sample_device_code, KeyMinted ''key-1'' ''user'' ''org'' ReadOnly, Attached sample_device_code ''user'' ''org'' ''upk''])"
proof
  show "served_alike raced_device" by (rule raced_device_alike)
qed code_simp

end
