(* ===== verification/Source_Webhook.thy ===== *)
theory Source_Webhook
  imports Effects Redis_Locks Safe_Glob Deployment_Intake
begin

text \<open>
  Deliveries of source providers: \<open>usecases/src/deployment/process-source-webhook.usecase.ts\<close>,
  \<open>usecases/src/deployment/docker-image-webhook.ts\<close>, the topology of an organization in
  \<open>usecases/src/deployment/organization-resources.helper.ts\<close> and the delivery store of
  \<open>apps/server/src/http/routes/webhooks.ts\<close>. A delivery that its provider signed queues a
  deployment for every resource of the organization that follows the pushed reference, once per
  delivery. The tables are those of the intake; the columns of a resource that only webhooks read
  and the columns of a provider are kept beside them. A command to the delivery store may time
  out, executed or not. HMAC and SHA-256 are parameters, as are JSON parsing and decryption.
\<close>

section \<open>A pool of readers\<close>

text \<open>
  \<open>mapWithConcurrency\<close>: sixteen workers take the next index and await the mapper, in any order.
\<close>

definition REPOSITORY_READ_CONCURRENCY :: nat where
  "REPOSITORY_READ_CONCURRENCY = 16"

datatype pool_worker = PoolReady | PoolBusy nat | PoolDone

record 'b pool =
  po_nextIndex :: nat
  po_workers :: "pool_worker list"
  po_results :: "'b option list"

definition pool_start :: "'a list \<Rightarrow> 'b pool" where
  "pool_start values =
     \<lparr>po_nextIndex = 0, po_workers = replicate (min REPOSITORY_READ_CONCURRENCY (length values)) PoolReady,
      po_results = replicate (length values) None\<rparr>"

definition pool_advance :: "('a \<Rightarrow> 'b) \<Rightarrow> 'a list \<Rightarrow> nat \<Rightarrow> 'b pool \<Rightarrow> 'b pool" where
  "pool_advance mapper values k p =
     (case po_workers p ! k of
        PoolReady \<Rightarrow>
          let index = po_nextIndex p in
          p\<lparr>po_nextIndex := index + 1,
            po_workers := (po_workers p)[k := if index \<ge> length values then PoolDone else PoolBusy index]\<rparr>
      | PoolBusy index \<Rightarrow>
          p\<lparr>po_results := (po_results p)[index := Some (mapper (values ! index))],
            po_workers := (po_workers p)[k := PoolReady]\<rparr>
      | PoolDone \<Rightarrow> p)"

inductive pool_step :: "('a \<Rightarrow> 'b) \<Rightarrow> 'a list \<Rightarrow> 'b pool \<Rightarrow> 'b pool \<Rightarrow> bool" for mapper "values" where
  Advance: "k < length (po_workers p) \<Longrightarrow> po_workers p ! k \<noteq> PoolDone \<Longrightarrow>
    pool_step mapper values p (pool_advance mapper values k p)"

text \<open>What the caller gets: one result per value, in order, or nothing yet.\<close>

definition pool_result :: "'b pool \<Rightarrow> 'b list option" where
  "pool_result p = (if list_all (\<lambda>w. w = PoolDone) (po_workers p) then those (po_results p) else None)"

text \<open>Every way the workers take turns ends with this list.\<close>

definition mapWithConcurrency :: "'a list \<Rightarrow> ('a \<Rightarrow> 'b) \<Rightarrow> 'b list" where
  "mapWithConcurrency vs mapper = map mapper vs"

section \<open>The resources of an organization\<close>

text \<open>The first error, or all the values.\<close>

fun all_results :: "('e + 'a) list \<Rightarrow> 'e + 'a list" where
  "all_results [] = Inr []"
| "all_results (x # xs) =
     (case x of Inl e \<Rightarrow> Inl e | Inr a \<Rightarrow> (case all_results xs of Inl e \<Rightarrow> Inl e | Inr as \<Rightarrow> Inr (a # as)))"

text \<open>Archived projects are left out.\<close>

definition findByOrganizationId :: "string \<Rightarrow> intake \<Rightarrow> string + project_record list" where
  "findByOrganizationId organizationId s =
     findMany (\<lambda>p. pj_organizationId p = organizationId \<and> pj_archivedAt p = None) (\<lambda>ps. ps) None None (it_projects s)"

definition findByProjectId :: "string \<Rightarrow> intake \<Rightarrow> string + (string \<times> string) list" where
  "findByProjectId projectId s =
     assertReadLimit (filter (\<lambda>env. snd env = projectId) (it_environments s)) 10000 environment_limit"

definition findByEnvironmentId :: "string \<Rightarrow> intake \<Rightarrow> string + resource_record list" where
  "findByEnvironmentId environmentId s =
     assertReadLimit (filter (\<lambda>r. rr_environmentId r = environmentId) (it_resources s)) 10000 resource_limit"

definition findOrganizationResourceTopology ::
  "intake \<Rightarrow> string \<Rightarrow> string + project_record list \<times> (string \<times> string) list \<times> resource_record list" where
  "findOrganizationResourceTopology s organizationId =
     (case findByOrganizationId organizationId s of
        Inl e \<Rightarrow> Inl e
      | Inr projects \<Rightarrow>
          let projectIds = unique (map pj_id projects) in
          (case all_results (mapWithConcurrency projectIds (\<lambda>projectId. findByProjectId projectId s)) of
             Inl e \<Rightarrow> Inl e
           | Inr environmentGroups \<Rightarrow>
               let environments = concat environmentGroups; environmentIds = unique (map fst environments) in
               (case all_results (mapWithConcurrency environmentIds (\<lambda>environmentId. findByEnvironmentId environmentId s)) of
                  Inl e \<Rightarrow> Inl e
                | Inr resourceGroups \<Rightarrow> Inr (projects, environments, concat resourceGroups))))"

definition findOrganizationResources :: "intake \<Rightarrow> string \<Rightarrow> string + resource_record list" where
  "findOrganizationResources s organizationId =
     (case findOrganizationResourceTopology s organizationId of Inl e \<Rightarrow> Inl e | Inr (_, _, resources) \<Rightarrow> Inr resources)"

text \<open>The query of the resource repository joins the three tables; the join lists a resource per matching project.\<close>

definition findIdsByOrganizationId :: "string \<Rightarrow> intake \<Rightarrow> string + string list" where
  "findIdsByOrganizationId organizationId s =
     assertReadLimit
       (concat (map (\<lambda>r. concat (map (\<lambda>env. map (\<lambda>_. rr_id r)
            (filter (\<lambda>p. pj_id p = snd env \<and> pj_organizationId p = organizationId \<and> pj_archivedAt p = None) (it_projects s)))
          (filter (\<lambda>env. fst env = rr_environmentId r) (it_environments s)))) (it_resources s)))
       10000 resource_limit"

definition findOrganizationResourceIds :: "intake \<Rightarrow> string \<Rightarrow> string + string list" where
  "findOrganizationResourceIds s organizationId = findIdsByOrganizationId organizationId s"

section \<open>Images\<close>

definition nonempty_or :: "string \<Rightarrow> string \<Rightarrow> string" where
  "nonempty_or a b = (if a = [] then b else a)"

text \<open>\<open>.replace(/^https?:\/\//, "")\<close>.\<close>

definition strip_scheme :: "string \<Rightarrow> string" where
  "strip_scheme s =
     (if starts_with ''https://'' s then drop 8 s else if starts_with ''http://'' s then drop 7 s else s)"

definition before_digest :: "string \<Rightarrow> string" where
  "before_digest s = nonempty_or (hd (split_on CHR ''@'' s)) s"

definition normalizeImageRepository :: "string \<Rightarrow> string" where
  "normalizeImageRepository v =
     (let image = before_digest (strip_scheme (toLowerCase (trim v)));
          segments = filter (\<lambda>s. s \<noteq> []) (split_on CHR ''/'' image);
          shifted = (if length segments > 1 \<and> (CHR ''.'' \<in> set (hd segments) \<or> CHR '':'' \<in> set (hd segments))
                     then drop 1 segments else segments);
          named = (if length shifted = 1 then ''library'' # shifted else shifted)
      in join ''/'' named)"

text \<open>\<open>lastIndexOf\<close>, with -1 where there is none.\<close>

definition lastIndexOf :: "char \<Rightarrow> string \<Rightarrow> int" where
  "lastIndexOf c s = (case index_where (\<lambda>d. d = c) (rev s) of None \<Rightarrow> -1 | Some i \<Rightarrow> len s - 1 - int i)"

definition dockerImageRepositoryAndTag :: "string \<Rightarrow> string \<times> string" where
  "dockerImageRepositoryAndTag v =
     (let withoutDigest = before_digest (trim v);
          slashIndex = lastIndexOf CHR ''/'' withoutDigest;
          colonIndex = lastIndexOf CHR '':'' withoutDigest;
          hasTag = (colonIndex > slashIndex);
          repository = (if hasTag then take (nat colonIndex) withoutDigest else withoutDigest)
      in (normalizeImageRepository repository,
          if hasTag then nonempty_or (drop (nat colonIndex + 1) withoutDigest) ''latest'' else ''latest''))"

definition matchesDockerImageWebhook :: "string \<Rightarrow> string \<Rightarrow> string option \<Rightarrow> bool" where
  "matchesDockerImageWebhook configuredImage webhookRepository webhookTag =
     (let configured = dockerImageRepositoryAndTag configuredImage;
          receivedRepository = normalizeImageRepository webhookRepository
      in receivedRepository \<noteq> [] \<and> fst configured = receivedRepository \<and>
         (case webhookTag of None \<Rightarrow> True | Some tag \<Rightarrow> tag = [] \<or> snd configured = toLowerCase (trim tag)))"

section \<open>Data\<close>

datatype source_webhook_provider = GithubSource | GitlabSource | GiteaSource | BitbucketSource | DockerhubSource

primrec provider_name :: "source_webhook_provider \<Rightarrow> string" where
  "provider_name GithubSource = ''github''"
| "provider_name GitlabSource = ''gitlab''"
| "provider_name GiteaSource = ''gitea''"
| "provider_name BitbucketSource = ''bitbucket''"
| "provider_name DockerhubSource = ''dockerhub''"

record source_provider =
  sp_id :: string
  sp_provider :: string
  sp_organizationId :: string
  sp_config :: string

record webhook_columns =
  wc_triggerType :: "string option"
  wc_tagPattern :: "string option"
  wc_watchPaths :: jsval

record webhook_input =
  wi_providerId :: string
  wi_provider :: source_webhook_provider
  wi_bodyText :: string
  wi_headers :: "string \<Rightarrow> string option"
  wi_deliveryId :: "string option"

record webhook_result =
  wr_accepted :: bool
  wr_queued :: int
  wr_ignored :: int
  wr_reason :: "string option"

record parsed_webhook =
  pw_repository :: "string option"
  pw_ref :: "string option"
  pw_isTag :: bool
  pw_changedFiles :: "string list"
  pw_title :: string
  pw_sourceRevision :: "string option"

record 'r webhook_world =
  ww_tables :: intake
  ww_columns :: "string \<Rightarrow> webhook_columns"
  ww_providers :: "source_provider list"
  ww_redis :: 'r
  ww_fates :: "fate list"

record 'r webhook_env =
  we_surroundings :: surroundings
  we_mode :: control_plane_mode
  we_api :: "'r redis_api"
  we_hmac :: "string \<Rightarrow> string \<Rightarrow> string"
  we_sha256 :: "string \<Rightarrow> string"
  we_uuid :: "intake \<Rightarrow> string"

definition asRecord :: "jsval \<Rightarrow> (string \<times> jsval) list" where
  "asRecord v = (case v of JObj c \<Rightarrow> c | _ \<Rightarrow> [])"

definition readString :: "jsval \<Rightarrow> string option" where
  "readString v = (case v of JStr s \<Rightarrow> if s = [] then None else Some s | _ \<Rightarrow> None)"

definition or_else :: "'a option \<Rightarrow> 'a option \<Rightarrow> 'a option" where
  "or_else a b = (case a of Some x \<Rightarrow> Some x | None \<Rightarrow> b)"

section \<open>Signatures\<close>

text \<open>Texts are equal when their bytes are.\<close>

definition safeEqual :: "string \<Rightarrow> string \<Rightarrow> bool" where
  "safeEqual left right \<longleftrightarrow> length left = length right \<and> left = right"

definition verifyHmac :: "(string \<Rightarrow> string \<Rightarrow> string) \<Rightarrow> string \<Rightarrow> string option \<Rightarrow> string \<Rightarrow> bool" where
  "verifyHmac hmac bodyText received secret =
     (case received of
        None \<Rightarrow> False
      | Some r \<Rightarrow>
          r \<noteq> [] \<and>
          safeEqual (if starts_with ''sha256='' r then ''sha256='' @ hmac secret bodyText else hmac secret bodyText) r)"

definition webhook_secret :: "(string \<times> jsval) list \<Rightarrow> string option" where
  "webhook_secret config =
     or_else (readString (get_prop config ''webhookSecret'')) (readString (get_prop config ''githubWebhookSecret''))"

definition verifyWebhook ::
  "(string \<Rightarrow> string \<Rightarrow> string) \<Rightarrow> source_webhook_provider \<Rightarrow> string \<Rightarrow> (string \<Rightarrow> string option) \<Rightarrow> (string \<times> jsval) list \<Rightarrow> bool" where
  "verifyWebhook hmac provider bodyText headers config =
     (case webhook_secret config of
        None \<Rightarrow> False
      | Some secret \<Rightarrow>
          (case provider of
             GitlabSource \<Rightarrow>
               (case headers ''x-gitlab-token'' of None \<Rightarrow> False | Some token \<Rightarrow> token \<noteq> [] \<and> safeEqual secret token)
           | GithubSource \<Rightarrow> verifyHmac hmac bodyText (headers ''x-hub-signature-256'') secret
           | _ \<Rightarrow> verifyHmac hmac bodyText (or_else (headers ''x-hub-signature'') (headers ''x-gitea-signature'')) secret))"

section \<open>Events\<close>

definition array_items :: "jsval \<Rightarrow> jsval list" where
  "array_items v = (case v of JArr vs \<Rightarrow> vs | _ \<Rightarrow> [])"

definition strings_in :: "jsval list \<Rightarrow> string list" where
  "strings_in vs = concat (map (\<lambda>v. case v of JStr s \<Rightarrow> [s] | _ \<Rightarrow> []) vs)"

definition collectCommitFiles :: "jsval \<Rightarrow> string list" where
  "collectCommitFiles commits =
     unique (concat (map (\<lambda>commit.
       concat (map (\<lambda>key. strings_in (array_items (get_prop (asRecord commit) key))) [''added'', ''modified'', ''removed'']))
       (array_items commits)))"

definition with_ref :: "string \<Rightarrow> string option \<Rightarrow> string" where
  "with_ref title ref = title @ (case ref of Some r \<Rightarrow> if r = [] then [] else '' ('' @ r @ '')'' | None \<Rightarrow> [])"

text \<open>\<open>ref.replace(/^refs\/(heads|tags)\//, "")\<close>.\<close>

definition ref_name :: "string \<Rightarrow> string" where
  "ref_name ref =
     (if starts_with ''refs/heads/'' ref then drop 11 ref else if starts_with ''refs/tags/'' ref then drop 10 ref else ref)"

text \<open>What the events of the three Git servers share.\<close>

definition git_push :: "string \<Rightarrow> string option \<Rightarrow> (string \<times> jsval) list \<Rightarrow> parsed_webhook" where
  "git_push title repository payload =
     (let ref = readString (get_prop payload ''ref''); refName = map_option ref_name ref in
      \<lparr>pw_repository = repository, pw_ref = refName,
       pw_isTag = (case ref of Some r \<Rightarrow> starts_with ''refs/tags/'' r | None \<Rightarrow> False),
       pw_changedFiles = collectCommitFiles (get_prop payload ''commits''),
       pw_title = with_ref title refName, pw_sourceRevision = readString (get_prop payload ''after'')\<rparr>)"

definition parseWebhook ::
  "source_webhook_provider \<Rightarrow> (string \<times> jsval) list \<Rightarrow> (string \<Rightarrow> string option) \<Rightarrow> parsed_webhook option" where
  "parseWebhook provider payload headers =
     (let repository = asRecord (get_prop payload ''repository'');
          full_or_name = or_else (readString (get_prop repository ''full_name'')) (readString (get_prop repository ''name''))
      in case provider of
        DockerhubSource \<Rightarrow>
          let tag = readString (get_prop (asRecord (get_prop payload ''push_data'')) ''tag'') in
          Some \<lparr>pw_repository = or_else (readString (get_prop repository ''repo_name'')) (readString (get_prop repository ''name'')),
                pw_ref = tag, pw_isTag = True, pw_changedFiles = [],
                pw_title = with_ref ''Docker Hub image update'' tag, pw_sourceRevision = None\<rparr>
      | GithubSource \<Rightarrow>
          if headers ''x-github-event'' \<noteq> Some ''push'' then None
          else Some (git_push ''GitHub webhook deployment'' (readString (get_prop repository ''full_name'')) payload)
      | GitlabSource \<Rightarrow>
          if readString (get_prop payload ''object_kind'') \<noteq> Some ''push'' then None
          else Some (git_push ''GitLab webhook deployment''
                 (readString (get_prop (asRecord (get_prop payload ''project'')) ''path_with_namespace'')) payload)
      | GiteaSource \<Rightarrow> Some (git_push ''Gitea webhook deployment'' full_or_name payload)
      | BitbucketSource \<Rightarrow>
          let changes = (if is_array (get_prop payload ''push'') then array_items (get_prop payload ''push'')
                         else array_items (get_prop payload ''changes''));
              firstChange = asRecord (case changes of [] \<Rightarrow> JUndefined | c # _ \<Rightarrow> c);
              newRef = asRecord (get_prop firstChange ''new'');
              ref = readString (get_prop newRef ''name'');
              commits = concat (map (\<lambda>change. array_items (get_prop (asRecord change) ''commits'')) changes)
          in Some \<lparr>pw_repository = full_or_name, pw_ref = ref,
                   pw_isTag = (readString (get_prop newRef ''type'') = Some ''tag''),
                   pw_changedFiles = collectCommitFiles (JArr commits),
                   pw_title = with_ref ''Bitbucket webhook deployment'' ref,
                   pw_sourceRevision = readString (get_prop (asRecord (get_prop newRef ''target'')) ''hash'')\<rparr>)"

section \<open>Resources that follow an event\<close>

text \<open>\<open>String(value ?? "push")\<close> mentions a tag.\<close>

definition normalizeTrigger :: "jsval \<Rightarrow> bool" where
  "normalizeTrigger v =
     str_includes ''tag'' (toLowerCase (if v = JUndefined \<or> v = JNull then ''push'' else js_string v))"

definition matchesTagPattern :: "string option \<Rightarrow> string \<Rightarrow> bool" where
  "matchesTagPattern pattern tag =
     (case pattern of None \<Rightarrow> True | Some p \<Rightarrow> if trim p = [] then True else matchesSafeGlob p tag True)"

definition watch_paths :: "surroundings \<Rightarrow> webhook_columns \<Rightarrow> (string \<times> jsval) list \<Rightarrow> string list" where
  "watch_paths en columns config =
     (let typed = (case wc_watchPaths columns of
                     JStr s \<Rightarrow> (case en_json en s of Some v \<Rightarrow> v | None \<Rightarrow> JArr [])
                   | v \<Rightarrow> v);
          normalized = strings_in (array_items typed)
      in if normalized \<noteq> [] then normalized else strings_in (array_items (get_prop config ''watchPaths'')))"

text \<open>Whether the trigger of the resource accepts the reference.\<close>

definition follows_ref :: "webhook_columns \<Rightarrow> (string \<times> jsval) list \<Rightarrow> parsed_webhook \<Rightarrow> bool" where
  "follows_ref columns config parsed =
     (let tagged = normalizeTrigger (if wc_triggerType columns = Some ''tag'' then JStr ''tag'' else get_prop config ''triggerType'');
          branch = readString (get_prop config ''branch'')
      in tagged = pw_isTag parsed \<and>
         (if tagged
          then \<not> (given_string (pw_ref parsed) \<and> \<not> matchesTagPattern (wc_tagPattern columns) (the (pw_ref parsed)))
          else \<not> (branch \<noteq> None \<and> given_string (pw_ref parsed) \<and> branch \<noteq> pw_ref parsed)))"

definition matchesResource ::
  "surroundings \<Rightarrow> webhook_columns \<Rightarrow> resource_record \<Rightarrow> source_webhook_provider \<Rightarrow> string \<Rightarrow> parsed_webhook \<Rightarrow> bool" where
  "matchesResource en columns resource provider providerId parsed =
     (let expectedProvider = (if provider = DockerhubSource then ''docker-registry'' else provider_name provider);
          config = parseResourceCredentials en (rr_credentials resource);
          configuredRepository = readString (get_prop config ''repository'');
          image = or_else (readString (get_prop config ''dockerImage'')) (rr_dockerImage resource);
          watchPaths = watch_paths en columns config
      in rr_provider resource = expectedProvider \<and> rr_type resource \<in> {''application'', ''compose''} \<and>
         get_prop config ''autoDeploy'' \<noteq> JBool False \<and>
         (is_string (get_prop config ''githubAccount'') \<longrightarrow> get_prop config ''githubAccount'' = JStr providerId) \<and>
         (if provider = DockerhubSource
          then given_string image \<and> given_string (pw_repository parsed) \<and>
               matchesDockerImageWebhook (the image) (the (pw_repository parsed)) (pw_ref parsed)
          else configuredRepository \<noteq> None \<and> given_string (pw_repository parsed) \<and>
               toLowerCase (the configuredRepository) = toLowerCase (the (pw_repository parsed)) \<and>
               follows_ref columns config parsed) \<and>
         \<not> (watchPaths \<noteq> [] \<and> pw_changedFiles parsed \<noteq> [] \<and>
            \<not> list_ex (\<lambda>file. list_ex (\<lambda>path. matchesSafeGlob path file False) watchPaths) (pw_changedFiles parsed)))"

section \<open>The delivery store\<close>

definition redis_timeout :: string where
  "redis_timeout = ''Redis operation timed out''"

definition store_command ::
  "(int \<Rightarrow> 'r \<Rightarrow> 'a \<times> 'r) \<Rightarrow> ('r webhook_world, 'a) io" where
  "store_command opr w =
     (case opr (it_clock (ww_tables w)) (ww_redis w) of
        (a, r) \<Rightarrow>
          (case ww_fates w of
             [] \<Rightarrow> (Inr a, w\<lparr>ww_redis := r\<rparr>)
           | Answered # fs \<Rightarrow> (Inr a, w\<lparr>ww_redis := r, ww_fates := fs\<rparr>)
           | TimedOut executed # fs \<Rightarrow> (Inl redis_timeout, w\<lparr>ww_redis := if executed then r else ww_redis w, ww_fates := fs\<rparr>)))"

text \<open>\<open>SET key 1 EX ttl NX\<close>, a lifetime of so many thousand milliseconds, and \<open>DEL key\<close>.\<close>

definition delivery_claim :: "'r redis_api \<Rightarrow> string \<Rightarrow> int \<Rightarrow> ('r webhook_world, bool) io" where
  "delivery_claim api key ttlSeconds = store_command (rx_set_nx_px api key ''1'' (ttlSeconds * 1000))"

definition delivery_release :: "'r redis_api \<Rightarrow> string \<Rightarrow> ('r webhook_world, unit) io" where
  "delivery_release api key = store_command (\<lambda>now r. ((), snd (rx_del api key now r)))"

section \<open>Processing a delivery\<close>

definition enqueue :: "'r webhook_env \<Rightarrow> parsed_webhook \<Rightarrow> resource_record \<Rightarrow> ('r webhook_world, unit) io" where
  "enqueue e parsed resource w =
     (case queueDeployment (we_surroundings e) (we_mode e)
             \<lparr>qi_resourceId = rr_id resource, qi_correlationId = None, qi_title = Some (pw_title parsed),
              qi_previewDeploymentId = None, qi_sourceRevision = pw_sourceRevision parsed, qi_deploymentId = None\<rparr>
             (we_uuid e (ww_tables w)) (ww_tables w) of
        (Inl err, s) \<Rightarrow> (Inl err, w\<lparr>ww_tables := s\<rparr>)
      | (Inr _, s) \<Rightarrow> (Inr (), w\<lparr>ww_tables := s\<rparr>))"

definition event_ignored :: webhook_result where
  "event_ignored = \<lparr>wr_accepted = True, wr_queued = 0, wr_ignored = 1, wr_reason = Some ''event_ignored''\<rparr>"

definition duplicate_delivery :: webhook_result where
  "duplicate_delivery = \<lparr>wr_accepted = True, wr_queued = 0, wr_ignored = 1, wr_reason = Some ''duplicate_delivery''\<rparr>"

definition delivery_key :: "'r webhook_env \<Rightarrow> webhook_input \<Rightarrow> string" where
  "delivery_key e input =
     (let given = (case wi_deliveryId input of Some d \<Rightarrow> trim d | None \<Rightarrow> []);
          deliveryId = nonempty_or given (we_sha256 e (wi_bodyText input))
      in ''upstand:webhook:'' @ provider_name (wi_provider input) @ '':'' @ wi_providerId input @ '':'' @ deliveryId)"

definition webhook_matches ::
  "'r webhook_env \<Rightarrow> webhook_input \<Rightarrow> parsed_webhook \<Rightarrow> resource_record list \<Rightarrow> 'r webhook_world \<Rightarrow> resource_record list" where
  "webhook_matches e input parsed ownedResources w =
     filter (\<lambda>resource. matchesResource (we_surroundings e) (ww_columns w (rr_id resource)) resource (wi_provider input)
               (wi_providerId input) parsed) ownedResources"

definition queue_matches ::
  "'r webhook_env \<Rightarrow> webhook_input \<Rightarrow> parsed_webhook \<Rightarrow> string \<Rightarrow> ('r webhook_world, webhook_result) io" where
  "queue_matches e input parsed organizationId w =
     (case findOrganizationResources (ww_tables w) organizationId of
        Inl err \<Rightarrow> (Inl err, w)
      | Inr ownedResources \<Rightarrow>
          let matches = webhook_matches e input parsed ownedResources w in
          io_then (io_for (enqueue e parsed) matches)
            (io_return \<lparr>wr_accepted = True, wr_queued = len matches, wr_ignored = len ownedResources - len matches,
                        wr_reason = None\<rparr>) w)"

definition deliver ::
  "'r webhook_env \<Rightarrow> bool \<Rightarrow> webhook_input \<Rightarrow> parsed_webhook \<Rightarrow> string \<Rightarrow> ('r webhook_world, webhook_result) io" where
  "deliver e stored input parsed organizationId =
     (let key = delivery_key e input in
      io_bind (if stored
               then io_catch (delivery_claim (we_api e) key 86400) (\<lambda>_. io_throw ''Webhook delivery store unavailable'')
               else io_return False)
        (\<lambda>deliveryClaimed.
           if stored \<and> \<not> deliveryClaimed then io_return duplicate_delivery
           else io_catch (queue_matches e input parsed organizationId)
             (\<lambda>err. io_then (io_when deliveryClaimed (io_ignore (delivery_release (we_api e) key))) (io_throw err))))"

definition processSourceWebhook ::
  "'r webhook_env \<Rightarrow> bool \<Rightarrow> webhook_input \<Rightarrow> ('r webhook_world, webhook_result) io" where
  "processSourceWebhook e stored input w =
     (case findById sp_id (wi_providerId input) (ww_providers w) of
        None \<Rightarrow> (Inl ''Git provider not found'', w)
      | Some provider \<Rightarrow>
          if sp_provider provider \<noteq> provider_name (wi_provider input) then (Inl ''Git provider not found'', w)
          else case (en_json (we_surroundings e) (sp_config provider), en_json (we_surroundings e) (wi_bodyText input)) of
              (Some c, Some p) \<Rightarrow>
                if \<not> verifyWebhook (we_hmac e) (wi_provider input) (wi_bodyText input) (wi_headers input) (asRecord c)
                then (Inl ''Invalid webhook signature'', w)
                else (case parseWebhook (wi_provider input) (asRecord p) (wi_headers input) of
                        None \<Rightarrow> (Inr event_ignored, w)
                      | Some parsed \<Rightarrow> deliver e stored input parsed (sp_organizationId provider) w)
            | _ \<Rightarrow> (Inl ''Invalid webhook JSON payload'', w))"

end
