(* ===== verification/Webhook_Guarantees.thy ===== *)
theory Webhook_Guarantees
  imports Source_Webhook Intake_Guarantees
begin

text \<open>
  What processing a delivery guarantees: the pool of readers gives the list of its results, only
  signed deliveries act, exactly the resources that follow the event are queued, once per
  delivery, and a delivery that fails can be repeated.
\<close>

section \<open>The pool\<close>

inductive_cases pool_stepE: "pool_step mapper vs p p'"

definition holding :: "'b pool \<Rightarrow> nat list" where
  "holding p = concat (map (\<lambda>w. case w of PoolBusy i \<Rightarrow> [i] | _ \<Rightarrow> []) (po_workers p))"

lemma holding_bound: "length (holding p) \<le> length (po_workers p)"
proof -
  have "length (concat (map (\<lambda>w. case w of PoolBusy i \<Rightarrow> [i] | _ \<Rightarrow> []) ws)) \<le> length ws" for ws :: "pool_worker list"
    by (induction ws) (auto split: pool_worker.split)
  then show ?thesis by (simp add: holding_def)
qed

text \<open>Every index below the next one is being mapped or has its result.\<close>

definition pool_ok :: "('a \<Rightarrow> 'b) \<Rightarrow> 'a list \<Rightarrow> 'b pool \<Rightarrow> bool" where
  "pool_ok mapper vs p \<longleftrightarrow>
     length (po_results p) = length vs \<and> length (po_workers p) = min REPOSITORY_READ_CONCURRENCY (length vs) \<and>
     (\<forall>i < length vs. i < po_nextIndex p \<longrightarrow> PoolBusy i \<in> set (po_workers p) \<or> po_results p ! i = Some (mapper (vs ! i))) \<and>
     (\<forall>i. PoolBusy i \<in> set (po_workers p) \<longrightarrow> i < length vs) \<and>
     (PoolDone \<in> set (po_workers p) \<longrightarrow> length vs < po_nextIndex p)"

lemma worker_kept: "w \<in> set ws \<Longrightarrow> w \<noteq> ws ! k \<Longrightarrow> k < length ws \<Longrightarrow> w \<in> set (ws[k := v])"
  by (metis in_set_conv_nth length_list_update nth_list_update_neq)

lemma pool_step_ok:
  assumes "pool_step mapper vs p p'" "pool_ok mapper vs p"
  shows "pool_ok mapper vs p'"
  using assms(1)
proof cases
  case (Advance k)
  let ?ws = "po_workers p"
  have old: "PoolBusy i \<in> set ?ws \<or> po_results p ! i = Some (mapper (vs ! i))" if "i < length vs" "i < po_nextIndex p" for i
    using assms(2) that by (simp add: pool_ok_def)
  have new: "w = v \<or> w \<in> set ?ws" if "w \<in> set (?ws[k := v])" for v w
    using that set_update_subset_insert by fastforce
  have member: "v \<in> set (?ws[k := v])" for v using Advance(2) by (simp add: set_update_memI)
  show ?thesis
  proof (cases "?ws ! k")
    case PoolReady
    let ?n = "po_nextIndex p" and ?v = "if length vs \<le> po_nextIndex p then PoolDone else PoolBusy (po_nextIndex p)"
    have kept: "PoolBusy i \<in> set (?ws[k := ?v])" if "PoolBusy i \<in> set ?ws" for i
      using that PoolReady Advance(2) worker_kept by (metis pool_worker.distinct(1))
    have "PoolBusy i \<in> set (?ws[k := ?v]) \<or> po_results p ! i = Some (mapper (vs ! i))" if "i < length vs" "i < Suc ?n" for i
      using that old [of i] kept [of i] member [of ?v] by (cases "i = ?n") auto
    moreover have "i < length vs" if "PoolBusy i \<in> set (?ws[k := ?v])" for i
      using new [OF that] assms(2) by (auto simp: pool_ok_def split: if_splits)
    moreover have "length vs < Suc ?n" if "PoolDone \<in> set (?ws[k := ?v])"
      using new [OF that] assms(2) by (auto simp: pool_ok_def split: if_splits)
    ultimately show ?thesis
      using PoolReady Advance assms(2) by (simp add: pool_ok_def pool_advance_def Let_def)
  next
    case (PoolBusy j)
    have "j < length vs" using assms(2) PoolBusy Advance(2) by (metis nth_mem pool_ok_def)
    have kept: "PoolBusy i \<in> set (?ws[k := PoolReady])" if "PoolBusy i \<in> set ?ws" "i \<noteq> j" for i
      using that PoolBusy Advance(2) worker_kept by (metis pool_worker.inject)
    have "PoolBusy i \<in> set (?ws[k := PoolReady]) \<or> (po_results p)[j := Some (mapper (vs ! j))] ! i = Some (mapper (vs ! i))"
      if "i < length vs" "i < po_nextIndex p" for i
      using that old [of i] kept [of i] assms(2) \<open>j < length vs\<close> by (cases "i = j") (auto simp: pool_ok_def)
    moreover have "i < length vs" if "PoolBusy i \<in> set (?ws[k := PoolReady])" for i
      using new [OF that] assms(2) by (auto simp: pool_ok_def)
    moreover have "length vs < po_nextIndex p" if "PoolDone \<in> set (?ws[k := PoolReady])"
      using new [OF that] assms(2) by (auto simp: pool_ok_def)
    ultimately show ?thesis
      using PoolBusy Advance assms(2) by (simp add: pool_ok_def pool_advance_def)
  qed (use Advance in simp)
qed

lemma pool_start_ok: "pool_ok mapper vs (pool_start vs)"
  by (auto simp: pool_ok_def pool_start_def)

lemma pool_run_ok: "(pool_step mapper vs)\<^sup>*\<^sup>* (pool_start vs) p \<Longrightarrow> pool_ok mapper vs p"
  by (induction rule: rtranclp_induct) (auto intro: pool_start_ok pool_step_ok)

text \<open>Every step brings the pool closer to its end.\<close>

definition worker_left :: "pool_worker \<Rightarrow> nat" where
  "worker_left w = (case w of PoolReady \<Rightarrow> 1 | PoolBusy _ \<Rightarrow> 2 | PoolDone \<Rightarrow> 0)"

definition pool_left :: "'a list \<Rightarrow> 'b pool \<Rightarrow> nat" where
  "pool_left vs p = 2 * (length vs - po_nextIndex p) + sum_list (map worker_left (po_workers p))"

lemma sum_list_update: "k < length xs \<Longrightarrow> sum_list (xs[k := (y :: nat)]) + xs ! k = sum_list xs + y"
  by (induction xs arbitrary: k) (auto split: nat.split)

lemma pool_step_left:
  assumes "pool_step mapper vs p p'"
  shows "pool_left vs p' < pool_left vs p"
  using assms
proof cases
  case (Advance k)
  have s: "sum_list ((map worker_left (po_workers p))[k := y]) + worker_left (po_workers p ! k) = sum_list (map worker_left (po_workers p)) + y" for y
    using sum_list_update [of k "map worker_left (po_workers p)" y] Advance(2) by simp
  from Advance s [of 0] s [of 1] s [of 2] show ?thesis
    by (cases "po_workers p ! k") (auto simp: pool_left_def pool_advance_def Let_def map_update worker_left_def)
qed

lemma those_map_Some: "those (map (Some \<circ> f) xs) = Some (map f xs)"
  by (induction xs) auto

text \<open>
  C9. The pool gives the results in the order of the values: however the workers take turns, at most
  sixteen values are being mapped, the pool can go on until every worker is done, it is done after
  at most twice as many steps as there are values and workers, and its result is then the list of
  the mapped values.
\<close>

theorem pool_maps_in_order:
  fixes mapper :: "'a \<Rightarrow> 'b"
  assumes "(pool_step mapper values ^^ n) (pool_start values) p"
  shows "length (holding p) \<le> 16 \<and> n \<le> 2 * length values + 16 \<and>
    (pool_result p = None \<longleftrightarrow> (\<exists>p'. pool_step mapper values p p')) \<and>
    (pool_result p \<noteq> None \<longrightarrow> pool_result p = Some (mapWithConcurrency values mapper))"
proof -
  have run: "(pool_step mapper values)\<^sup>*\<^sup>* (pool_start values) p" using assms by (rule relpowp_imp_rtranclp)
  note ok = pool_run_ok [OF run]
  have b: "length (holding p) \<le> 16" using ok holding_bound [of p] by (simp add: pool_ok_def REPOSITORY_READ_CONCURRENCY_def)
  have "pool_left values p + n \<le> pool_left values (pool_start values :: 'b pool)"
    using assms
  proof (induction n arbitrary: p)
    case (Suc n)
    then obtain q where "(pool_step mapper values ^^ n) (pool_start values) q" "pool_step mapper values q p" by auto
    with Suc.IH [of q] pool_step_left [of mapper "values" q p] show ?case by simp
  qed simp
  then have n: "n \<le> 2 * length values + 16"
    by (simp add: pool_left_def pool_start_def sum_list_replicate worker_left_def REPOSITORY_READ_CONCURRENCY_def)
  show ?thesis
  proof (cases "list_all (\<lambda>w. w = PoolDone) (po_workers p)")
    case True
    have "po_results p ! i = Some (mapper (values ! i))" if "i < length values" for i
    proof -
      have "po_workers p \<noteq> []" using ok that by (auto simp: pool_ok_def REPOSITORY_READ_CONCURRENCY_def)
      with True have "PoolDone \<in> set (po_workers p)" by (cases "po_workers p") auto
      with True ok that show ?thesis by (fastforce simp: pool_ok_def list_all_iff)
    qed
    with ok have "po_results p = map Some (map mapper values)"
      by (intro nth_equalityI) (auto simp: pool_ok_def)
    with True have "pool_result p = Some (mapWithConcurrency values mapper)"
      by (simp add: pool_result_def those_map_Some mapWithConcurrency_def)
    moreover have "\<not> pool_step mapper values p p'" for p'
      using True by (auto simp: list_all_length elim!: pool_stepE)
    ultimately show ?thesis using b n by auto
  next
    case False
    then obtain k where "k < length (po_workers p)" "po_workers p ! k \<noteq> PoolDone" by (auto simp: list_all_length)
    then have "\<exists>p'. pool_step mapper values p p'" by (blast intro: Advance)
    with False b n show ?thesis by (simp add: pool_result_def)
  qed
qed

section \<open>The resources of an organization\<close>

text \<open>A resource belongs to an organization through its environment and the project of that.\<close>

definition in_organization :: "intake \<Rightarrow> string \<Rightarrow> resource_record \<Rightarrow> bool" where
  "in_organization s organizationId r \<longleftrightarrow>
     (\<exists>projectId. (rr_environmentId r, projectId) \<in> set (it_environments s) \<and>
        (\<exists>p \<in> set (it_projects s). pj_id p = projectId \<and> pj_organizationId p = organizationId \<and> pj_archivedAt p = None))"

lemma all_results_map:
  "all_results (map f xs) = Inr ys \<Longrightarrow> (\<And>x y. f x = Inr y \<Longrightarrow> y = g x) \<Longrightarrow> ys = map g xs"
  by (induction xs arbitrary: ys) (auto split: sum.splits)

lemma projects_read:
  "findByOrganizationId i s = Inr ps \<Longrightarrow> ps = filter (\<lambda>p. pj_organizationId p = i \<and> pj_archivedAt p = None) (it_projects s)"
  by (auto simp: findByOrganizationId_def findMany_def assertBoundedRepositoryRead_def len_def MAX_REPOSITORY_READS_def split: if_splits)

lemma owned_resources:
  assumes "findOrganizationResources s organizationId = Inr rs"
  shows "r \<in> set rs \<longleftrightarrow> r \<in> set (it_resources s) \<and> in_organization s organizationId r"
proof -
  from assms obtain ps egs rgs where p: "findByOrganizationId organizationId s = Inr ps"
    and e: "all_results (map (\<lambda>i. findByProjectId i s) (unique (map pj_id ps))) = Inr egs"
    and r: "all_results (map (\<lambda>i. findByEnvironmentId i s) (unique (map fst (concat egs)))) = Inr rgs" and "rs = concat rgs"
    by (auto simp: findOrganizationResources_def findOrganizationResourceTopology_def mapWithConcurrency_def Let_def
        split: sum.splits)
  have "egs = map (\<lambda>i. filter (\<lambda>env. snd env = i) (it_environments s)) (unique (map pj_id ps))"
    by (rule all_results_map [OF e]) (simp add: findByProjectId_def read_limit)
  moreover have "rgs = map (\<lambda>i. filter (\<lambda>r. rr_environmentId r = i) (it_resources s)) (unique (map fst (concat egs)))"
    by (rule all_results_map [OF r]) (simp add: findByEnvironmentId_def read_limit)
  ultimately show ?thesis
    using \<open>rs = concat rgs\<close> projects_read [OF p] by (simp add: in_organization_def) blast
qed

text \<open>
  The identifiers and the resources of an organization agree: where both can be read, the query
  that joins the tables names exactly the resources that the projects and environments lead to,
  which are those of a project of the organization that is not archived.
\<close>

theorem organization_resource_ids:
  assumes "findOrganizationResourceIds s organizationId = Inr ids" "findOrganizationResources s organizationId = Inr resources"
  shows "set ids = rr_id ` set resources \<and>
    set resources = {r \<in> set (it_resources s). in_organization s organizationId r}"
proof -
  have "set ids = rr_id ` {r \<in> set (it_resources s). in_organization s organizationId r}"
    using assms(1) unfolding findOrganizationResourceIds_def findIdsByOrganizationId_def in_organization_def
    by (auto dest!: read_limit) (force simp: image_iff)+
  moreover have "set resources = {r \<in> set (it_resources s). in_organization s organizationId r}"
    using owned_resources [OF assms(2)] by blast
  ultimately show ?thesis by simp
qed

section \<open>Queueing\<close>

lemma record_deployment_row:
  assumes "record_deployment en input uuid r project target s = Inr (r', s')"
  shows "\<exists>d. it_deployments s' = it_deployments s @ [d] \<and> dep_resourceId d = rr_id r \<and> dep_status d = DQueued \<and>
    dep_title d = (if given_string (qi_title input) then the (qi_title input) else ''Manual deployment'') \<and>
    dep_sourceRevision d = qi_sourceRevision input"
  using assms
  by (auto simp: record_deployment_def insertDeployment_def Let_def split: prod.splits sum.splits if_splits option.splits)

lemma queue_row:
  assumes "queueDeployment en mode input uuid s = (Inr r', s')"
  shows "\<exists>d. it_deployments s' = it_deployments s @ [d] \<and> dep_resourceId d = qi_resourceId input \<and> dep_status d = DQueued \<and>
    dep_title d = (if given_string (qi_title input) then the (qi_title input) else ''Manual deployment'') \<and>
    dep_sourceRevision d = qi_sourceRevision input"
proof -
  obtain r where r: "findById rr_id (qi_resourceId input) (it_resources s) = Some r"
    using assms by (auto simp: queueDeployment_def queue_in_transaction_def split: option.splits sum.splits)
  from queue_accepted [OF assms r] obtain name ip s1 where
    t: "resolve_target en r s = Inr ((queued_server r, name, ip), s1)"
    and rec: "record_deployment en input uuid r (project_of s (rr_environmentId r)) (queued_server r, name, ip)
      (ensure_settings (queued_server r, name, ip) s1) = Inr (r', s')" by blast
  from record_deployment_row [OF rec] resolve_target_result [OF t] findById_key [OF r] show ?thesis by simp
qed

lemma queue_refused: "queueDeployment en mode input uuid s = (Inl err, s') \<Longrightarrow> s' = s"
  by (auto simp: queueDeployment_def split: sum.splits prod.splits)

definition queued_for :: "parsed_webhook \<Rightarrow> deployment \<Rightarrow> bool" where
  "queued_for parsed d \<longleftrightarrow>
     dep_status d = DQueued \<and> dep_title d = pw_title parsed \<and> dep_sourceRevision d = pw_sourceRevision parsed"

lemma enqueue_result:
  assumes "enqueue e parsed r w = (a, w')" "pw_title parsed \<noteq> []"
  shows "ww_redis w' = ww_redis w \<and> ww_fates w' = ww_fates w \<and>
    (case a of Inl _ \<Rightarrow> ww_tables w' = ww_tables w
     | Inr _ \<Rightarrow> \<exists>d. it_deployments (ww_tables w') = it_deployments (ww_tables w) @ [d] \<and> dep_resourceId d = rr_id r \<and> queued_for parsed d)"
  using assms
  by (auto simp: enqueue_def queued_for_def given_string_def split: prod.splits sum.splits dest!: queue_row queue_refused)

text \<open>The deployments queued before the first failure stay.\<close>

lemma enqueue_all:
  assumes "io_for (enqueue e parsed) rs w = (a, w')" "pw_title parsed \<noteq> []"
  shows "ww_redis w' = ww_redis w \<and> ww_fates w' = ww_fates w \<and>
    (\<exists>ds k. it_deployments (ww_tables w') = it_deployments (ww_tables w) @ ds \<and>
      map dep_resourceId ds = map rr_id (take k rs) \<and> list_all (queued_for parsed) ds \<and> (a = Inr () \<longrightarrow> k = length rs))"
  using assms(1)
proof (induction rs arbitrary: w)
  case Nil
  then show ?case by (auto simp: io_run)
next
  case (Cons r rs)
  obtain b v where b: "enqueue e parsed r w = (b, v)" by fastforce
  note first = enqueue_result [OF b assms(2)]
  show ?case
  proof (cases b)
    case (Inl err)
    with Cons.prems b first show ?thesis
      by (auto simp: io_then_def io_bind_def intro!: exI [of _ "[]"] exI [of _ "0 :: nat"])
  next
    case (Inr u)
    with first obtain d where d: "it_deployments (ww_tables v) = it_deployments (ww_tables w) @ [d]" "dep_resourceId d = rr_id r" "queued_for parsed d"
      by auto
    from Cons.prems b Inr have "io_for (enqueue e parsed) rs v = (a, w')" by (simp add: io_then_def io_bind_def)
    from Cons.IH [OF this] obtain ds k where
      "ww_redis w' = ww_redis v" "ww_fates w' = ww_fates v" "it_deployments (ww_tables w') = it_deployments (ww_tables v) @ ds"
      "map dep_resourceId ds = map rr_id (take k rs)" "list_all (queued_for parsed) ds" "a = Inr () \<longrightarrow> k = length rs"
      by blast
    with first d show ?thesis by (intro conjI exI [of _ "d # ds"] exI [of _ "Suc k"]) auto
  qed
qed

section \<open>Deliveries\<close>

lemma parsed_title: "parseWebhook provider payload headers = Some parsed \<Longrightarrow> pw_title parsed \<noteq> []"
  by (auto simp: parseWebhook_def git_push_def with_ref_def Let_def split: source_webhook_provider.splits if_splits)

lemma verified_cases:
  assumes "verifyWebhook hmac provider body headers config"
  obtains secret where "webhook_secret config = Some secret" "secret \<noteq> []"
    "if provider = GitlabSource then headers ''x-gitlab-token'' = Some secret
     else \<exists>header \<in> {''x-hub-signature-256'', ''x-hub-signature'', ''x-gitea-signature''}.
       headers header \<in> {Some (hmac secret body), Some (''sha256='' @ hmac secret body)}"
proof -
  obtain secret where s: "webhook_secret config = Some secret" using assms by (auto simp: verifyWebhook_def split: option.splits)
  then have "secret \<noteq> []"
    by (auto simp: webhook_secret_def or_else_def readString_def split: option.splits jsval.splits if_splits)
  moreover have "r \<in> {hmac secret body, ''sha256='' @ hmac secret body}" if "verifyHmac hmac body (Some r) secret" for r
    using that by (auto simp: verifyHmac_def safeEqual_def split: if_splits)
  then have "received \<in> {Some (hmac secret body), Some (''sha256='' @ hmac secret body)}"
    if "verifyHmac hmac body received secret" for received
    using that by (cases received) (auto simp: verifyHmac_def)
  ultimately show ?thesis
    using assms s that by (cases provider) (auto simp: verifyWebhook_def safeEqual_def or_else_def split: option.splits)
qed

text \<open>A delivery that gets to its resources.\<close>

definition genuine :: "'r webhook_env \<Rightarrow> webhook_input \<Rightarrow> 'r webhook_world \<Rightarrow> source_provider \<Rightarrow> parsed_webhook \<Rightarrow> bool" where
  "genuine e input w provider parsed \<longleftrightarrow>
     findById sp_id (wi_providerId input) (ww_providers w) = Some provider \<and>
     sp_provider provider = provider_name (wi_provider input) \<and>
     (\<exists>c p. en_json (we_surroundings e) (sp_config provider) = Some c \<and>
        en_json (we_surroundings e) (wi_bodyText input) = Some p \<and>
        verifyWebhook (we_hmac e) (wi_provider input) (wi_bodyText input) (wi_headers input) (asRecord c) \<and>
        parseWebhook (wi_provider input) (asRecord p) (wi_headers input) = Some parsed)"

lemma processed:
  assumes "processSourceWebhook e stored input w = (a, w')"
  obtains "w' = w" "a = Inr event_ignored \<or> (\<exists>err. a = Inl err)"
  | provider parsed where "genuine e input w provider parsed" "pw_title parsed \<noteq> []"
      "deliver e stored input parsed (sp_organizationId provider) w = (a, w')"
  using assms parsed_title
  by (auto simp: processSourceWebhook_def genuine_def split: option.splits if_splits prod.splits)

text \<open>
  C6. Only signed deliveries act: a delivery that changes anything names a provider of its kind whose
  configuration has a secret, and carries the secret or the code of its body under the secret.
\<close>

theorem webhook_needs_signature:
  assumes "processSourceWebhook e stored input w = (a, w')" "w' \<noteq> w"
  shows "\<exists>provider c secret.
    findById sp_id (wi_providerId input) (ww_providers w) = Some provider \<and>
    sp_provider provider = provider_name (wi_provider input) \<and>
    en_json (we_surroundings e) (sp_config provider) = Some c \<and>
    webhook_secret (asRecord c) = Some secret \<and> secret \<noteq> [] \<and>
    (if wi_provider input = GitlabSource then wi_headers input ''x-gitlab-token'' = Some secret
     else \<exists>header \<in> {''x-hub-signature-256'', ''x-hub-signature'', ''x-gitea-signature''}.
       wi_headers input header \<in> {Some (we_hmac e secret (wi_bodyText input)), Some (''sha256='' @ we_hmac e secret (wi_bodyText input))})"
  using assms
proof (cases rule: processed)
  case (2 provider parsed)
  then obtain c where "findById sp_id (wi_providerId input) (ww_providers w) = Some provider"
    "sp_provider provider = provider_name (wi_provider input)"
    "en_json (we_surroundings e) (sp_config provider) = Some c"
    and v: "verifyWebhook (we_hmac e) (wi_provider input) (wi_bodyText input) (wi_headers input) (asRecord c)"
    by (auto simp: genuine_def)
  moreover from v obtain secret where "webhook_secret (asRecord c) = Some secret" "secret \<noteq> []"
    "if wi_provider input = GitlabSource then wi_headers input ''x-gitlab-token'' = Some secret
     else \<exists>header \<in> {''x-hub-signature-256'', ''x-hub-signature'', ''x-gitea-signature''}.
       wi_headers input header \<in> {Some (we_hmac e secret (wi_bodyText input)), Some (''sha256='' @ we_hmac e secret (wi_bodyText input))}"
    by (rule verified_cases)
  ultimately show ?thesis by blast
qed (use assms in simp)

text \<open>The followers of an event, none where the resources cannot be read.\<close>

definition followers :: "'r webhook_env \<Rightarrow> webhook_input \<Rightarrow> parsed_webhook \<Rightarrow> string \<Rightarrow> 'r webhook_world \<Rightarrow> resource_record list" where
  "followers e input parsed org w =
     (case findOrganizationResources (ww_tables w) org of Inl _ \<Rightarrow> [] | Inr owned \<Rightarrow> webhook_matches e input parsed owned w)"

lemma queue_matches_result:
  assumes "queue_matches e input parsed org w = (a, w')" "pw_title parsed \<noteq> []"
  shows "ww_redis w' = ww_redis w \<and> ww_fates w' = ww_fates w \<and>
    (\<exists>ds k. it_deployments (ww_tables w') = it_deployments (ww_tables w) @ ds \<and>
      map dep_resourceId ds = map rr_id (take k (followers e input parsed org w)) \<and> list_all (queued_for parsed) ds \<and>
      (\<forall>r. a = Inr r \<longrightarrow> k = length (followers e input parsed org w) \<and> wr_queued r = len ds \<and>
         (\<exists>owned. findOrganizationResources (ww_tables w) org = Inr owned)))"
proof (cases "findOrganizationResources (ww_tables w) org")
  case (Inl err)
  with assms show ?thesis by (auto simp: queue_matches_def intro!: exI [of _ "[]"] exI [of _ "0 :: nat"])
next
  case (Inr owned)
  let ?m = "followers e input parsed org w"
  obtain b v where b: "io_for (enqueue e parsed) ?m w = (b, v)" by fastforce
  from enqueue_all [OF b assms(2)] obtain ds k where r: "ww_redis v = ww_redis w" "ww_fates v = ww_fates w"
    "it_deployments (ww_tables v) = it_deployments (ww_tables w) @ ds" and ids: "map dep_resourceId ds = map rr_id (take k ?m)"
    and q: "list_all (queued_for parsed) ds" and k: "b = Inr () \<longrightarrow> k = length ?m" by blast
  have "w' = v" and a: "\<forall>x. a = Inr x \<longrightarrow> b = Inr () \<and> wr_queued x = len ?m"
    using assms(1) b Inr by (cases b; auto simp: queue_matches_def followers_def io_bind_def io_run io_then_def Let_def)+
  moreover have "len ?m = len ds" if "k = length ?m" using that ids by (metis len_def length_map take_all order_refl)
  ultimately show ?thesis using r ids q k Inr by (intro conjI exI [of _ ds] exI [of _ k]) auto
qed

lemma claim_keeps_tables:
  "delivery_claim api key ttl w = (a, w') \<Longrightarrow> ww_tables w' = ww_tables w \<and> ww_columns w' = ww_columns w \<and> ww_providers w' = ww_providers w"
  "delivery_release api key w = (b, w') \<Longrightarrow> ww_tables w' = ww_tables w \<and> ww_columns w' = ww_columns w \<and> ww_providers w' = ww_providers w"
  by (auto simp: delivery_claim_def delivery_release_def store_command_def split: prod.splits list.splits fate.splits)

lemma delivered_cases:
  assumes "deliver e stored input parsed org w = (a, w')"
  obtains (unavailable) err where "stored" "a = Inl ''Webhook delivery store unavailable''" "ww_tables w' = ww_tables w"
      "delivery_claim (we_api e) (delivery_key e input) 86400 w = (Inl err, w')"
  | (duplicate) "stored" "a = Inr duplicate_delivery" "ww_tables w' = ww_tables w"
      "delivery_claim (we_api e) (delivery_key e input) 86400 w = (Inr False, w')"
  | (queued) w1 b v where "if stored then delivery_claim (we_api e) (delivery_key e input) 86400 w = (Inr True, w1) else w1 = w"
      "ww_tables w1 = ww_tables w" "ww_columns w1 = ww_columns w" "queue_matches e input parsed org w1 = (b, v)"
      "case b of Inr r \<Rightarrow> a = Inr r \<and> w' = v
       | Inl err \<Rightarrow> a = Inl err \<and> ww_tables w' = ww_tables v \<and>
           (if stored then snd (io_ignore (delivery_release (we_api e) (delivery_key e input)) v) = w' else w' = v)"
proof (cases stored)
  case True
  let ?key = "delivery_key e input"
  obtain c w1 where c: "delivery_claim (we_api e) ?key 86400 w = (c, w1)" by fastforce
  note kept = claim_keeps_tables(1) [OF c]
  consider err where "c = Inl err" | "c = Inr False" | "c = Inr True" by (cases c) auto
  then show ?thesis
  proof cases
    case (1 err)
    with True c kept assms unavailable show ?thesis by (auto simp: deliver_def io_bind_def io_catch_def io_run Let_def)
  next
    case 2
    with True c kept assms duplicate show ?thesis by (auto simp: deliver_def io_bind_def io_catch_def io_run Let_def)
  next
    case 3
    obtain b v where b: "queue_matches e input parsed org w1 = (b, v)" by fastforce
    obtain v' where v': "io_ignore (delivery_release (we_api e) ?key) v = (Inr (), v')" using io_ignore_ok by metis
    then have "ww_tables v' = ww_tables v"
      by (auto simp: io_ignore_def io_catch_result io_run dest: claim_keeps_tables(2))
    with True c 3 b v' kept assms show ?thesis
      by (intro queued [of w1 b v])
        (auto simp: deliver_def io_bind_def io_catch_def io_then_def io_when_def io_run Let_def split: sum.splits)
  qed
next
  case False
  obtain b v where "queue_matches e input parsed org w = (b, v)" by fastforce
  with False assms show ?thesis
    by (intro queued [of w b v]) (auto simp: deliver_def io_bind_def io_catch_def io_then_def io_when_def io_run Let_def split: sum.splits)
qed


section \<open>The delivery store\<close>

lemma provider_names: "provider_name p = provider_name q \<longleftrightarrow> p = q"
  by (cases p; cases q) simp_all

context redis_server
begin

lemma claim_entry:
  assumes "delivery_claim api key ttl w = (Inr b, w')"
  shows "if b then live (entry (ww_redis w) key) (it_clock (ww_tables w)) = None \<and>
      entry (ww_redis w') = (entry (ww_redis w))(key \<mapsto> (''1'', Some (it_clock (ww_tables w) + ttl * 1000)))
    else live (entry (ww_redis w) key) (it_clock (ww_tables w)) \<noteq> None \<and> ww_redis w' = ww_redis w"
proof -
  let ?now = "it_clock (ww_tables w)" and ?r = "ww_redis w"
  have "rx_set_nx_px api key ''1'' (ttl * 1000) ?now ?r = (b, ww_redis w')"
    using assms by (auto simp: delivery_claim_def store_command_def split: prod.splits list.splits fate.splits)
  then show ?thesis
    using set_free [of ?r key ?now "''1''" "ttl * 1000"] set_taken [of ?r key ?now "''1''" "ttl * 1000"]
    by (cases "live (entry ?r key) ?now") auto
qed

lemma delivery_claim_refused:
  assumes "live (entry (ww_redis w) key) (it_clock (ww_tables w)) \<noteq> None"
  shows "fst (delivery_claim api key ttl w) \<noteq> Inr True"
  using claim_entry [of key ttl w True "snd (delivery_claim api key ttl w)"] assms by (metis prod.collapse)

lemma released:
  assumes "ww_fates w = []"
  shows "entry (ww_redis (snd (io_ignore (delivery_release api key) w))) key = None"
proof -
  have "entry (snd (rx_del api key now r)) key = None" for now r
    using del [of r key now] del_gone [of r key now] by (cases "live (entry r key) now") auto
  with assms show ?thesis by (simp add: io_ignore_def io_catch_def delivery_release_def store_command_def case_prod_unfold)
qed

end

text \<open>
  C7. A delivery is processed once: after a delivery was accepted, a delivery of the same provider
  with the same identifier changes no table for a day, whatever its body is.
\<close>

theorem webhook_processed_once:
  assumes "redis_server (we_api e) entry"
    and "processSourceWebhook e True input w = (Inr result, w1)" "wr_reason result = None"
    and "entry (ww_redis w2) (delivery_key e input) = entry (ww_redis w1) (delivery_key e input)"
    and "it_clock (ww_tables w2) < it_clock (ww_tables w) + 86400 * 1000"
    and "wi_provider input' = wi_provider input" "wi_providerId input' = wi_providerId input"
    and "wi_deliveryId input = Some d" "wi_deliveryId input' = Some d" "trim d \<noteq> []"
    and "processSourceWebhook e True input' w2 = (a, w3)"
  shows "ww_tables w3 = ww_tables w2"
proof -
  let ?key = "delivery_key e input"
  have key: "delivery_key e input' = ?key" using assms(6-10) by (simp add: delivery_key_def nonempty_or_def)
  from assms(2) have "entry (ww_redis w1) ?key = Some (''1'', Some (it_clock (ww_tables w) + 86400 * 1000))"
  proof (cases rule: processed)
    case (2 provider parsed)
    from 2(3) show ?thesis
    proof (cases rule: delivered_cases)
      case (queued v b v')
      then have "ww_redis w1 = ww_redis v" using queue_matches_result [OF queued(4) 2(2)] by (auto split: sum.splits)
      with redis_server.claim_entry [OF assms(1), of ?key 86400 w True v] queued(1) show ?thesis by simp
    qed (use assms(3) in \<open>auto simp: duplicate_delivery_def\<close>)
  qed (use assms(3) in \<open>auto simp: event_ignored_def\<close>)
  with assms(4,5) have "live (entry (ww_redis w2) ?key) (it_clock (ww_tables w2)) \<noteq> None" by simp
  from redis_server.delivery_claim_refused [OF assms(1) this] have refused: "fst (delivery_claim (we_api e) ?key 86400 w2) \<noteq> Inr True" .
  from assms(11) show ?thesis
  proof (cases rule: processed)
    case (2 provider parsed)
    from 2(3) show ?thesis by (cases rule: delivered_cases) (use refused key in auto)
  qed simp
qed


section \<open>Where deliveries go wrong\<close>

text \<open>
  A claim that times out after it was executed loses the delivery: the provider is told to come
  back, and what it sends again counts as a duplicate.
\<close>

theorem timed_out_claim_loses_delivery:
  assumes "redis_server (we_api e) entry" "ww_fates w = [TimedOut True]"
    and "live (entry (ww_redis w) (delivery_key e input)) (it_clock (ww_tables w)) = None"
  shows "\<exists>w1. deliver e True input parsed org w = (Inl ''Webhook delivery store unavailable'', w1) \<and>
    ww_tables w1 = ww_tables w \<and> deliver e True input parsed org w1 = (Inr duplicate_delivery, w1)"
proof -
  let ?key = "delivery_key e input" and ?now = "it_clock (ww_tables w)" and ?r = "ww_redis w"
  let ?r1 = "snd (rx_set_nx_px (we_api e) ?key ''1'' (86400 * 1000) ?now ?r)" and ?w1 = "w\<lparr>ww_redis := snd (rx_set_nx_px (we_api e) (delivery_key e input) ''1'' (86400 * 1000) (it_clock (ww_tables w)) (ww_redis w)), ww_fates := []\<rparr>"
  have "live (entry ?r1 ?key) ?now \<noteq> None"
    using redis_server.set_free [OF assms(1,3), of "''1''" "86400 * 1000"] by simp
  from redis_server.set_taken [OF assms(1) this]
  have taken: "rx_set_nx_px (we_api e) ?key ''1'' (86400 * 1000) ?now ?r1 = (False, ?r1)" .
  have "deliver e True input parsed org w = (Inl ''Webhook delivery store unavailable'', ?w1)"
    using assms(2) by (simp add: deliver_def Let_def io_bind_def io_catch_def delivery_claim_def store_command_def case_prod_unfold io_run)
  moreover have "deliver e True input parsed org ?w1 = (Inr duplicate_delivery, ?w1)"
    using taken by (simp add: deliver_def Let_def io_bind_def io_catch_def delivery_claim_def store_command_def io_run)
  ultimately show ?thesis by fastforce
qed

text \<open>
  A push to Bitbucket carries an object \<open>push\<close> with the changes in it. The code looks for an
  array, finds none, and every resource of the repository that follows pushes is deployed,
  whatever branch or tag was pushed and whichever files changed.
\<close>

theorem bitbucket_branch_ignored:
  assumes "get_prop payload ''push'' = JObj c" "get_prop payload ''changes'' = JUndefined"
  shows "\<exists>parsed. parseWebhook BitbucketSource payload headers = Some parsed \<and>
    pw_ref parsed = None \<and> \<not> pw_isTag parsed \<and> pw_changedFiles parsed = [] \<and> pw_sourceRevision parsed = None \<and>
    (\<forall>columns config. wc_triggerType columns \<noteq> Some ''tag'' \<and> get_prop config ''triggerType'' = JUndefined \<longrightarrow>
       follows_ref columns config parsed)"
proof -
  have "\<not> normalizeTrigger JUndefined" by code_simp
  then show ?thesis
    by (simp add: parseWebhook_def assms Let_def array_items_def asRecord_def readString_def collectCommitFiles_def
        follows_ref_def given_string_def unique_def)
qed

lemma lower_char_idem: "lower_char (lower_char c) = lower_char c"
proof -
  have "\<forall>c. lower_char (lower_char c) = lower_char c" by code_simp
  then show ?thesis by blast
qed

text \<open>An image with a capital letter in its tag is never deployed: only the received tag is written small.\<close>

theorem capital_tag_never_matches:
  "toLowerCase (snd (dockerImageRepositoryAndTag configured)) \<noteq> snd (dockerImageRepositoryAndTag configured) \<Longrightarrow> tag \<noteq> [] \<Longrightarrow>
   \<not> matchesDockerImageWebhook configured repository (Some tag)"
  by (auto simp: matchesDockerImageWebhook_def Let_def toLowerCase_def lower_char_idem)

section \<open>An image is pushed\<close>

definition hub_surroundings :: surroundings where
  "hub_surroundings = sample_surroundings\<lparr>en_json := (\<lambda>s.
     if s = ''config'' then Some (JObj [(''webhookSecret'', JStr ''hush'')])
     else if s = ''body'' then Some (JObj [(''repository'', JObj [(''repo_name'', JStr ''library/nginx'')]),
                                          (''push_data'', JObj [(''tag'', JStr ''Latest'')])])
     else None)\<rparr>"

definition hub_env :: "(string \<times> redis_entry) list webhook_env" where
  "hub_env =
     \<lparr>we_surroundings = hub_surroundings, we_mode = CloudMode, we_api = list_redis, we_hmac = (\<lambda>k m. ''mac''),
      we_sha256 = (\<lambda>s. s), we_uuid = (\<lambda>s. show_nat (length (it_deployments s)))\<rparr>"

definition hub_resource :: "string \<Rightarrow> string \<Rightarrow> resource_record" where
  "hub_resource i img =
     sample_record\<lparr>rr_id := i, rr_type := ''application'', rr_provider := ''docker-registry'', rr_dockerImage := Some img\<rparr>"

definition hub_world :: "resource_record list \<Rightarrow> (string \<times> redis_entry) list webhook_world" where
  "hub_world rs =
     \<lparr>ww_tables = (sample_intake [] sample_record)\<lparr>it_resources := rs, it_environments := [(''e1'', ''p1'')],
        it_projects := [\<lparr>pj_id = ''p1'', pj_organizationId = ''org'', pj_archivedAt = None\<rparr>]\<rparr>,
      ww_columns = (\<lambda>_. \<lparr>wc_triggerType = None, wc_tagPattern = None, wc_watchPaths = JNull\<rparr>),
      ww_providers = [\<lparr>sp_id = ''hub'', sp_provider = ''dockerhub'', sp_organizationId = ''org'', sp_config = ''config''\<rparr>],
      ww_redis = [], ww_fates = []\<rparr>"

definition hub_input :: webhook_input where
  "hub_input =
     \<lparr>wi_providerId = ''hub'', wi_provider = DockerhubSource, wi_bodyText = ''body'',
      wi_headers = (\<lambda>h. if h = ''x-hub-signature'' then Some ''sha256=mac'' else None), wi_deliveryId = Some ''d1''\<rparr>"

definition hub_start :: "(string \<times> redis_entry) list webhook_world" where
  "hub_start = hub_world [hub_resource ''r1'' ''nginx'', hub_resource ''r2'' ''redis'', hub_resource ''r3'' ''docker.io/nginx:latest'']"

definition hub_accepted :: webhook_result where
  "hub_accepted = \<lparr>wr_accepted = True, wr_queued = 2, wr_ignored = 1, wr_reason = None\<rparr>"

definition summary :: "('e + 'a) \<times> 'r webhook_world \<Rightarrow> ('e + 'a) \<times> string list \<times> int" where
  "summary x = (fst x, map dep_resourceId (it_deployments (ww_tables (snd x))), it_clock (ww_tables (snd x)))"

lemma hub_run: "summary (processSourceWebhook hub_env True hub_input hub_start) = (Inr hub_accepted, [''r1'', ''r3''], 100000000)"
  by code_simp

lemma hub_processed:
  obtains w' where "processSourceWebhook hub_env True hub_input hub_start = (Inr hub_accepted, w')"
    "map dep_resourceId (it_deployments (ww_tables w')) = [''r1'', ''r3'']" "it_clock (ww_tables w') = 100000000"
  using hub_run by (cases "processSourceWebhook hub_env True hub_input hub_start") (auto simp: summary_def)

text \<open>The second resource has no server of its own, and there is no local one.\<close>

definition hub_broken :: "(string \<times> redis_entry) list webhook_world" where
  "hub_broken = hub_world [hub_resource ''r1'' ''nginx'', (hub_resource ''r3'' ''nginx'')\<lparr>rr_serverId := None\<rparr>]"

lemma hub_broken_run:
  "\<exists>err. summary (processSourceWebhook hub_env True hub_input hub_broken) = (Inl err, [''r1''], 100000000)"
  by (rule exI, code_simp)

theorem pool_maps_in_order_witness:
  "pool_result ((pool_advance Suc [1] 0 ^^ 3) (pool_start [1 :: nat])) = Some (mapWithConcurrency [1] Suc)"
proof -
  let ?a = "pool_advance Suc [1] 0" and ?p = "pool_start [1 :: nat]"
  note defs = pool_start_def pool_advance_def Let_def REPOSITORY_READ_CONCURRENCY_def
  have "pool_step Suc [1] ?p (?a ?p)" "pool_step Suc [1] (?a ?p) (?a (?a ?p))" "pool_step Suc [1] (?a (?a ?p)) (?a (?a (?a ?p)))"
    by (rule Advance; simp add: defs)+
  then have "(pool_step Suc [1] ^^ 3) ?p (?a (?a (?a ?p)))"
    unfolding numeral_3_eq_3 by (blast intro: relpowp_Suc_I relpowp_0_I)
  from pool_maps_in_order [OF this] show ?thesis by (simp add: pool_result_def numeral_3_eq_3 defs)
qed

theorem organization_resource_ids_witness:
  "set [''r1'', ''r2'', ''r3''] = rr_id ` set (it_resources (ww_tables hub_start))"
proof -
  have "findOrganizationResourceIds (ww_tables hub_start) ''org'' = Inr [''r1'', ''r2'', ''r3'']" by code_simp
  moreover have "findOrganizationResources (ww_tables hub_start) ''org'' = Inr (it_resources (ww_tables hub_start))" by code_simp
  ultimately show ?thesis using organization_resource_ids by blast
qed

theorem webhook_needs_signature_witness:
  "\<exists>provider c secret. findById sp_id ''hub'' (ww_providers hub_start) = Some provider \<and>
    en_json hub_surroundings (sp_config provider) = Some c \<and> webhook_secret (asRecord c) = Some secret \<and> secret \<noteq> []"
proof -
  obtain w' where w': "processSourceWebhook hub_env True hub_input hub_start = (Inr hub_accepted, w')"
    and "map dep_resourceId (it_deployments (ww_tables w')) = [''r1'', ''r3'']" by (rule hub_processed)
  then have "w' \<noteq> hub_start" by (auto simp: hub_start_def hub_world_def sample_intake_def)
  with webhook_needs_signature [OF w'] show ?thesis by (auto simp: hub_input_def hub_env_def)
qed


theorem webhook_processed_once_witness:
  "ww_tables (snd (processSourceWebhook hub_env True hub_input (snd (processSourceWebhook hub_env True hub_input hub_start)))) =
   ww_tables (snd (processSourceWebhook hub_env True hub_input hub_start))"
proof -
  obtain w1 where w1: "processSourceWebhook hub_env True hub_input hub_start = (Inr hub_accepted, w1)"
    and now: "it_clock (ww_tables w1) = 100000000" by (rule hub_processed)
  obtain a w3 where w3: "processSourceWebhook hub_env True hub_input w1 = (a, w3)" by fastforce
  have "redis_server (we_api hub_env) map_of" using list_redis.redis_server_axioms by (simp add: hub_env_def)
  from webhook_processed_once [OF this w1 _ refl _ refl refl _ _ _ w3, of "''d1''"] now
  have "ww_tables w3 = ww_tables w1"
    by (simp add: hub_accepted_def hub_input_def hub_start_def hub_world_def sample_intake_def trim_def is_space_def code_def)
  with w1 w3 show ?thesis by simp
qed


end
