(* ===== verification/Preview_Webhook.thy ===== *)
theory Preview_Webhook
  imports Source_Webhook
begin

text \<open>
  The webhook routes of \<open>apps/server/src/http/routes/webhooks.ts\<close> and the previews of pull
  requests: \<open>usecases/src/resource/create-preview-deployment.usecase.ts\<close>,
  \<open>usecases/src/resource/reconcile-preview-cleanups.usecase.ts\<close>,
  \<open>usecases/src/resource/get-resource-previews.usecase.ts\<close> and the table of previews in
  \<open>repositories/src/preview-deployment\<close>. A delivery is checked against the secret of its
  provider; a pull request that is opened or changed gets a preview and a deployment of it, one
  that is closed loses its preview. The insert obeys the not-null constraint of the primary key
  in \<open>db/src/schema/preview-deployment.ts\<close>. Docker is a port with a state of its own; metrics,
  the rate limit in front of the routes and the proxy that is synchronised after a removal are not
  modelled.
\<close>

section \<open>Previews\<close>

record preview_row =
  pv_id :: string
  pv_resourceId :: string
  pv_pullRequestId :: string
  pv_branchName :: string
  pv_appName :: string
  pv_status :: string
  pv_domain :: string
  pv_updatedAt :: int

record create_preview =
  cp_id :: "string option"
  cp_resourceId :: string
  cp_pullRequestId :: string
  cp_branchName :: string
  cp_appName :: string
  cp_status :: string
  cp_domain :: string
  cp_previewLimit :: int

record preview_columns =
  pc_active :: bool
  pc_previewLimit :: "int option"
  pc_previewWildcard :: "string option"

record ('r, 'x) preview_world =
  px_base :: "'r webhook_world"
  px_previews :: "preview_row list"
  px_columns :: "string \<Rightarrow> preview_columns"
  px_docker :: 'x

record ('r, 'x) preview_env =
  pe_webhook :: "'r webhook_env"
  pe_remove :: "resource_record option \<Rightarrow> string \<Rightarrow> string \<Rightarrow> 'x \<Rightarrow> (string + unit) \<times> 'x"
  pe_randomHex :: "('r, 'x) preview_world \<Rightarrow> string"

definition on_base :: "('r webhook_world, 'a) io \<Rightarrow> (('r, 'x) preview_world, 'a) io" where
  "on_base m w = (case m (px_base w) of (a, b) \<Rightarrow> (a, w\<lparr>px_base := b\<rparr>))"

definition preview_clock :: "('r, 'x) preview_world \<Rightarrow> int" where
  "preview_clock w = it_clock (ww_tables (px_base w))"

section \<open>The table of previews\<close>

definition findByPullRequestId :: "string \<Rightarrow> string \<Rightarrow> preview_row list \<Rightarrow> preview_row option" where
  "findByPullRequestId resourceId pullRequestId tbl =
     find (\<lambda>p. pv_resourceId p = resourceId \<and> pv_pullRequestId p = pullRequestId) tbl"

definition findPreviewsByResourceId :: "string \<Rightarrow> preview_row list \<Rightarrow> string + preview_row list" where
  "findPreviewsByResourceId resourceId tbl = findMany (\<lambda>p. pv_resourceId p = resourceId) (\<lambda>ps. ps) None None tbl"

text \<open>Some rows with the status, the oldest first.\<close>

definition findPreviewsByStatus :: "string \<Rightarrow> int \<Rightarrow> preview_row list \<Rightarrow> string + preview_row list" where
  "findPreviewsByStatus status limit tbl =
     findMany (\<lambda>p. pv_status p = status) (sort_key pv_updatedAt) (Some (min (max limit 1) 500)) None tbl"

text \<open>\<open>create\<close> of the base repository: the primary key has no default.\<close>

definition insertPreview :: "create_preview \<Rightarrow> int \<Rightarrow> preview_row list \<Rightarrow> string + preview_row \<times> preview_row list" where
  "insertPreview data now tbl =
     (case cp_id data of
        None \<Rightarrow> Inl ''null value in column \"id\" violates not-null constraint''
      | Some i \<Rightarrow>
          if list_ex (\<lambda>p. pv_id p = i \<or> pv_appName p = cp_appName data \<or>
               pv_resourceId p = cp_resourceId data \<and> pv_pullRequestId p = cp_pullRequestId data) tbl
          then Inl ''duplicate key value violates unique constraint''
          else
            let row = \<lparr>pv_id = i, pv_resourceId = cp_resourceId data, pv_pullRequestId = cp_pullRequestId data,
                       pv_branchName = cp_branchName data, pv_appName = cp_appName data, pv_status = cp_status data,
                       pv_domain = cp_domain data, pv_updatedAt = now\<rparr>
            in Inr (row, tbl @ [row]))"

definition patchPreview ::
  "string \<Rightarrow> (preview_row \<Rightarrow> preview_row) \<Rightarrow> (('r, 'x) preview_world, unit) io" where
  "patchPreview i f = io_modify (\<lambda>w. w\<lparr>px_previews :=
     snd (updateById pv_id i (\<lambda>p. (f p)\<lparr>pv_updatedAt := preview_clock w\<rparr>) (px_previews w))\<rparr>)"

definition getResourcePreviews :: "string \<Rightarrow> ('r, 'x) preview_world \<Rightarrow> string + preview_row list" where
  "getResourcePreviews i w =
     (case findById rr_id i (it_resources (ww_tables (px_base w))) of
        None \<Rightarrow> Inl ''Resource not found''
      | Some r \<Rightarrow> findPreviewsByResourceId (rr_id r) (px_previews w))"

section \<open>Creating a preview\<close>

definition MAX_PREVIEW_LIMIT :: int where
  "MAX_PREVIEW_LIMIT = 100"

text \<open>The result names the preview, or tells that the limit is reached; a transaction that throws changes nothing.\<close>

definition createPreviewDeployment ::
  "create_preview \<Rightarrow> (('r, 'x) preview_world, preview_row option) io" where
  "createPreviewDeployment input w =
     (if cp_previewLimit input < 0 \<or> cp_previewLimit input > MAX_PREVIEW_LIMIT then (Inl ''Invalid preview limit'', w)
      else if findById rr_id (cp_resourceId input) (it_resources (ww_tables (px_base w))) = None then (Inl ''Resource not found'', w)
      else case findPreviewsByResourceId (cp_resourceId input) (px_previews w) of
          Inl err \<Rightarrow> (Inl err, w)
        | Inr existingPreviews \<Rightarrow>
            if len (filter (\<lambda>p. pv_status p \<noteq> ''failed'') existingPreviews) \<ge> cp_previewLimit input then (Inr None, w)
            else (case insertPreview input (preview_clock w) (px_previews w) of
                    Inl err \<Rightarrow> (Inl err, w)
                  | Inr (row, tbl) \<Rightarrow> (Inr (Some row), w\<lparr>px_previews := tbl\<rparr>)))"

section \<open>Pull requests\<close>

record pull_request =
  pr_action :: string
  pr_number :: string
  pr_branchName :: string
  pr_repoFullName :: string

definition string_at :: "jsval \<Rightarrow> string \<Rightarrow> string" where
  "string_at v k = (case get_prop (asRecord v) k of JStr s \<Rightarrow> s | _ \<Rightarrow> [])"

text \<open>
  The fields of the payload; \<open>None\<close> where the branch, the repository or the number is missing.
  Numbers are kept as the texts that print them.
\<close>

definition parse_pull_request :: "jsval \<Rightarrow> pull_request option" where
  "parse_pull_request payload =
     (let top = asRecord payload;
          number = (case get_prop top ''number'' of JNum n \<Rightarrow> n | _ \<Rightarrow> ''0'');
          branchName = string_at (get_prop (asRecord (get_prop top ''pull_request'')) ''head'') ''ref'';
          repoFullName = string_at (get_prop top ''repository'') ''full_name''
      in if branchName = [] \<or> repoFullName = [] \<or> number = ''0'' then None
         else Some \<lparr>pr_action = string_at payload ''action'', pr_number = number, pr_branchName = branchName,
                    pr_repoFullName = repoFullName\<rparr>)"

definition preview_candidate ::
  "surroundings \<Rightarrow> preview_columns \<Rightarrow> string \<Rightarrow> pull_request \<Rightarrow> resource_record \<Rightarrow> bool" where
  "preview_candidate en columns providerId pr resource =
     (let creds = parseResourceCredentials en (rr_credentials resource) in
      get_prop creds ''repository'' = JStr (pr_repoFullName pr) \<and>
      (pc_active columns \<or> get_prop creds ''enablePrPreviews'' = JBool True) \<and>
      get_prop creds ''githubAccount'' = JStr providerId)"

definition findByProvider :: "string \<Rightarrow> intake \<Rightarrow> string + resource_record list" where
  "findByProvider provider s = assertReadLimit (filter (\<lambda>r. rr_provider r = provider) (it_resources s)) 10000 resource_limit"

definition preview_resources ::
  "surroundings \<Rightarrow> source_provider \<Rightarrow> pull_request \<Rightarrow> ('r, 'x) preview_world \<Rightarrow> string + resource_record list" where
  "preview_resources en provider pr w =
     (let s = ww_tables (px_base w) in
      case findByProvider ''github'' s of
        Inl err \<Rightarrow> Inl err
      | Inr githubResources \<Rightarrow>
          let candidates = filter (\<lambda>r. preview_candidate en (px_columns w (rr_id r)) (sp_id provider) pr r) githubResources
          in Inr (filter (\<lambda>r. map_option pj_organizationId (project_of s (rr_environmentId r)) = Some (sp_organizationId provider)) candidates))"

definition app_name_char :: "char \<Rightarrow> char" where
  "app_name_char c = (if (is_alnum c \<and> lower_char c = c) \<or> c = CHR ''_'' \<or> c = CHR ''-'' then c else CHR ''-'')"

definition preview_app_name :: "pull_request \<Rightarrow> resource_record \<Rightarrow> string \<Rightarrow> string" where
  "preview_app_name pr resource hash =
     map app_name_char (toLowerCase (''pr-'' @ pr_number pr @ ''-'' @ rr_name resource @ ''-'' @ hash))"

definition queue_preview :: "('r, 'x) preview_env \<Rightarrow> pull_request \<Rightarrow> resource_record \<Rightarrow> preview_row \<Rightarrow> (('r, 'x) preview_world, unit) io" where
  "queue_preview e pr resource preview =
     on_base (\<lambda>w. case queueDeployment (we_surroundings (pe_webhook e)) (we_mode (pe_webhook e))
             \<lparr>qi_resourceId = rr_id resource, qi_correlationId = None,
              qi_title = Some (''PR #'' @ pr_number pr @ '' preview deployment ('' @ pr_action pr @ '')''),
              qi_previewDeploymentId = Some (pv_id preview), qi_sourceRevision = None, qi_deploymentId = None\<rparr>
             (we_uuid (pe_webhook e) (ww_tables w)) (ww_tables w) of
        (Inl err, s) \<Rightarrow> (Inl err, w\<lparr>ww_tables := s\<rparr>)
      | (Inr _, s) \<Rightarrow> (Inr (), w\<lparr>ww_tables := s\<rparr>))"

text \<open>
  The preview of an opened pull request; \<open>None\<close> where the limit is reached. What the use case
  throws is caught, and the preview is looked up again.
\<close>

definition obtain_preview :: "('r, 'x) preview_env \<Rightarrow> pull_request \<Rightarrow> resource_record \<Rightarrow> (('r, 'x) preview_world, preview_row option) io" where
  "obtain_preview e pr resource w =
     (let existing = (\<lambda>w. findByPullRequestId (rr_id resource) (pr_number pr) (px_previews w)) in
      case existing w of
        Some preview \<Rightarrow>
          io_then (patchPreview (pv_id preview) (\<lambda>p. p\<lparr>pv_status := ''idle'', pv_branchName := pr_branchName pr\<rparr>))
            (io_return (Some preview)) w
      | None \<Rightarrow>
          let columns = px_columns w (rr_id resource);
              appName = preview_app_name pr resource (pe_randomHex e w);
              wildcard = (if given_string (pc_previewWildcard columns) then the (pc_previewWildcard columns) else ''sslip.io'')
          in io_catch (createPreviewDeployment
                 \<lparr>cp_id = None, cp_resourceId = rr_id resource, cp_pullRequestId = pr_number pr, cp_branchName = pr_branchName pr,
                  cp_appName = appName, cp_status = ''idle'', cp_domain = appName @ ''.'' @ wildcard,
                  cp_previewLimit = or_default (pc_previewLimit columns) 3\<rparr>)
               (\<lambda>_ w'. case existing w' of Some preview \<Rightarrow> (Inr (Some preview), w') | None \<Rightarrow> (Inl ''Preview creation failed'', w')) w)"

definition open_preview :: "('r, 'x) preview_env \<Rightarrow> pull_request \<Rightarrow> resource_record \<Rightarrow> (('r, 'x) preview_world, unit) io" where
  "open_preview e pr resource =
     io_bind (obtain_preview e pr resource)
       (\<lambda>preview. case preview of None \<Rightarrow> io_return () | Some p \<Rightarrow> queue_preview e pr resource p)"

definition docker_remove ::
  "('r, 'x) preview_env \<Rightarrow> resource_record option \<Rightarrow> preview_row \<Rightarrow> (('r, 'x) preview_world, unit) io" where
  "docker_remove e target preview w =
     (case pe_remove e target (pv_appName preview) (pv_resourceId preview) (px_docker w) of (a, x) \<Rightarrow> (a, w\<lparr>px_docker := x\<rparr>))"

definition remove_row :: "string \<Rightarrow> (('r, 'x) preview_world, unit) io" where
  "remove_row i = io_modify (\<lambda>w. w\<lparr>px_previews := snd (deleteById pv_id i (px_previews w))\<rparr>)"

text \<open>The row is kept for a later attempt where the service could not be removed.\<close>

definition close_preview :: "('r, 'x) preview_env \<Rightarrow> pull_request \<Rightarrow> resource_record \<Rightarrow> (('r, 'x) preview_world, unit) io" where
  "close_preview e pr resource =
     io_bind (io_get (\<lambda>w. findByPullRequestId (rr_id resource) (pr_number pr) (px_previews w)))
       (\<lambda>found. case found of
          None \<Rightarrow> io_return ()
        | Some preview \<Rightarrow>
            io_bind (io_catch (io_then (docker_remove e None preview) (io_return True)) (\<lambda>_. io_return False))
              (\<lambda>serviceRemoved.
                 if serviceRemoved then remove_row (pv_id preview)
                 else patchPreview (pv_id preview) (\<lambda>p. p\<lparr>pv_status := ''cleanup_pending''\<rparr>)))"

definition handle_preview :: "('r, 'x) preview_env \<Rightarrow> pull_request \<Rightarrow> resource_record \<Rightarrow> (('r, 'x) preview_world, unit) io" where
  "handle_preview e pr resource =
     (if pr_action pr \<in> {''opened'', ''synchronize''} then open_preview e pr resource
      else if pr_action pr = ''closed'' then close_preview e pr resource
      else io_return ())"

section \<open>The routes\<close>

datatype webhook_reply =
  WebhookRefused int
| WebhookAccepted webhook_result
| PreviewDuplicate
| PreviewAccepted

definition MAX_WEBHOOK_BODY_BYTES :: int where
  "MAX_WEBHOOK_BODY_BYTES = 2 * 1024 * 1024"

definition headerNames :: "source_webhook_provider \<Rightarrow> string list" where
  "headerNames provider =
     (case provider of
        GithubSource \<Rightarrow> [''x-github-delivery'']
      | GitlabSource \<Rightarrow> [''x-gitlab-event-uuid'']
      | GiteaSource \<Rightarrow> [''x-gitea-delivery'', ''x-gitea-delivery-id'']
      | BitbucketSource \<Rightarrow> [''x-request-uuid'']
      | DockerhubSource \<Rightarrow> [''x-dockerhub-delivery'', ''x-webhook-id''])"

definition readWebhookDeliveryId :: "(string \<Rightarrow> string option) \<Rightarrow> source_webhook_provider \<Rightarrow> string option" where
  "readWebhookDeliveryId headers provider =
     find (\<lambda>v. v \<noteq> []) (concat (map (\<lambda>name. case headers name of Some v \<Rightarrow> [trim v] | None \<Rightarrow> []) (headerNames provider)))"

definition too_large :: "int \<Rightarrow> string \<Rightarrow> bool" where
  "too_large contentLength bodyText \<longleftrightarrow>
     contentLength > MAX_WEBHOOK_BODY_BYTES \<or> utf8_length bodyText > MAX_WEBHOOK_BODY_BYTES"

definition status_of_error :: "bool \<Rightarrow> string \<Rightarrow> int" where
  "status_of_error github err =
     (if err = ''Invalid webhook signature'' then 401
      else if \<not> github \<and> err = ''Git provider not found'' then 404
      else if err = ''Webhook delivery store unavailable'' then 503
      else 400)"

definition answer_webhook :: "bool \<Rightarrow> (('r, 'x) preview_world, webhook_result) io \<Rightarrow> (('r, 'x) preview_world, webhook_reply) io" where
  "answer_webhook github m =
     io_catch (io_bind m (\<lambda>r. io_return (WebhookAccepted r))) (\<lambda>err. io_return (WebhookRefused (status_of_error github err)))"

text \<open>The part of a GitHub delivery that concerns a pull request.\<close>

definition processPullRequest ::
  "('r, 'x) preview_env \<Rightarrow> source_provider \<Rightarrow> (string \<Rightarrow> string option) \<Rightarrow> string \<Rightarrow> (('r, 'x) preview_world, webhook_reply) io" where
  "processPullRequest e provider headers bodyText =
     (let en = we_surroundings (pe_webhook e); api = we_api (pe_webhook e) in
      case en_json en bodyText of
        None \<Rightarrow> io_return (WebhookRefused 400)
      | Some JNull \<Rightarrow> io_throw ''Cannot read properties of null''
      | Some payload \<Rightarrow>
          (case parse_pull_request payload of
             None \<Rightarrow> io_return (WebhookRefused 400)
           | Some pr \<Rightarrow>
               let deliveryId = (case filled (headers ''x-github-delivery'') of
                                   Some d \<Rightarrow> d | None \<Rightarrow> we_hmac (pe_webhook e) (sp_id provider) bodyText);
                   deliveryKey = ''github-webhook:'' @ sp_id provider @ '':'' @ deliveryId
               in io_try (on_base (delivery_claim api deliveryKey 86400)) (\<lambda>_. io_return (WebhookRefused 503))
                    (\<lambda>accepted.
                       if \<not> accepted then io_return PreviewDuplicate
                       else io_try (io_bind (\<lambda>w. (preview_resources en provider pr w, w)) (io_for (handle_preview e pr)))
                              (\<lambda>_. io_then (io_ignore (on_base (delivery_release api deliveryKey))) (io_return (WebhookRefused 500)))
                              (\<lambda>_. io_return PreviewAccepted))))"

text \<open>
  The secret of the provider and the signature: a secret that counts as true and is not a text is
  refused by \<open>createHmac\<close>.
\<close>

definition github_signed :: "'r webhook_env \<Rightarrow> jsval \<Rightarrow> string option \<Rightarrow> string \<Rightarrow> string + bool" where
  "github_signed e webhookSecret signature bodyText =
     (case filled signature of
        None \<Rightarrow> Inr False
      | Some received \<Rightarrow>
          if webhookSecret \<in> {JUndefined, JNull, JBool False, JNum ''0'', JStr []} then Inr False
          else (case webhookSecret of
                  JStr secret \<Rightarrow> Inr (safeEqual (''sha256='' @ we_hmac e secret bodyText) received)
                | _ \<Rightarrow> Inl ''The key argument must be of type string''))"

definition processGithubWebhook ::
  "('r, 'x) preview_env \<Rightarrow> string \<Rightarrow> int \<Rightarrow> (string \<Rightarrow> string option) \<Rightarrow> string \<Rightarrow> (('r, 'x) preview_world, webhook_reply) io" where
  "processGithubWebhook e providerId contentLength headers bodyText w =
     (let en = we_surroundings (pe_webhook e) in
      if contentLength > MAX_WEBHOOK_BODY_BYTES then (Inr (WebhookRefused 413), w)
      else case findById sp_id providerId (ww_providers (px_base w)) of
          None \<Rightarrow> (Inr (WebhookRefused 404), w)
        | Some provider \<Rightarrow>
            (case en_json en (sp_config provider) of
               None \<Rightarrow> (Inl ''Unexpected token in JSON'', w)
             | Some config \<Rightarrow>
                 if config = JNull then (Inl ''Cannot read properties of null'', w)
                 else if utf8_length bodyText > MAX_WEBHOOK_BODY_BYTES then (Inr (WebhookRefused 413), w)
                 else (case github_signed (pe_webhook e) (get_prop (asRecord config) ''githubWebhookSecret'')
                              (headers ''x-hub-signature-256'') bodyText of
                         Inl err \<Rightarrow> (Inl err, w)
                       | Inr signed \<Rightarrow>
                           if \<not> signed then (Inr (WebhookRefused 401), w)
                           else if headers ''x-github-event'' \<noteq> Some ''pull_request''
                           then answer_webhook True (on_base (processSourceWebhook (pe_webhook e) True
                                  \<lparr>wi_providerId = providerId, wi_provider = GithubSource, wi_bodyText = bodyText,
                                   wi_headers = (\<lambda>h. if h = ''x-github-event'' \<or> h = ''x-hub-signature-256'' then headers h else None),
                                   wi_deliveryId = readWebhookDeliveryId headers GithubSource\<rparr>)) w
                           else processPullRequest e provider headers bodyText w)))"

definition processNonGithubWebhook ::
  "('r, 'x) preview_env \<Rightarrow> source_webhook_provider \<Rightarrow> string \<Rightarrow> int \<Rightarrow> (string \<Rightarrow> string option) \<Rightarrow> string \<Rightarrow> (('r, 'x) preview_world, webhook_reply) io" where
  "processNonGithubWebhook e provider providerId contentLength headers bodyText =
     (if providerId = [] then io_return (WebhookRefused 400)
      else if too_large contentLength bodyText then io_return (WebhookRefused 413)
      else answer_webhook False (on_base (processSourceWebhook (pe_webhook e) True
             \<lparr>wi_providerId = providerId, wi_provider = provider, wi_bodyText = bodyText,
              wi_headers = (\<lambda>h. if h \<in> {''x-gitlab-token'', ''x-hub-signature'', ''x-gitea-signature''} then headers h else None),
              wi_deliveryId = readWebhookDeliveryId headers provider\<rparr>)))"

section \<open>Repeating the removal of previews\<close>

record cleanup_result =
  cr_inspected :: int
  cr_cleaned :: int
  cr_failed :: int
  cr_skipped :: int
  cr_previewIds :: "string list"

text \<open>Finding the Docker host of a resource is part of the port, as is what it throws.\<close>

definition cleanup_one :: "('r, 'x) preview_env \<Rightarrow> preview_row \<Rightarrow> cleanup_result \<Rightarrow> (('r, 'x) preview_world, cleanup_result) io" where
  "cleanup_one e preview result w =
     (case findById rr_id (pv_resourceId preview) (it_resources (ww_tables (px_base w))) of
        None \<Rightarrow> (Inr (result\<lparr>cr_skipped := cr_skipped result + 1\<rparr>), w)
      | Some resource \<Rightarrow>
          io_catch (io_then (docker_remove e (Some resource) preview)
              (io_then (remove_row (pv_id preview))
                (io_return (result\<lparr>cr_cleaned := cr_cleaned result + 1, cr_previewIds := cr_previewIds result @ [pv_id preview]\<rparr>))))
            (\<lambda>_. io_return (result\<lparr>cr_failed := cr_failed result + 1\<rparr>)) w)"

fun cleanup_all :: "('r, 'x) preview_env \<Rightarrow> preview_row list \<Rightarrow> cleanup_result \<Rightarrow> (('r, 'x) preview_world, cleanup_result) io" where
  "cleanup_all e [] result = io_return result"
| "cleanup_all e (p # ps) result = io_bind (cleanup_one e p result) (cleanup_all e ps)"

definition reconcilePreviewCleanups :: "('r, 'x) preview_env \<Rightarrow> int option \<Rightarrow> (('r, 'x) preview_world, cleanup_result) io" where
  "reconcilePreviewCleanups e requested w =
     (let limit = min (max (or_default requested 100) 1) 500 in
      case findPreviewsByStatus ''cleanup_pending'' limit (px_previews w) of
        Inl err \<Rightarrow> (Inl err, w)
      | Inr candidates \<Rightarrow>
          cleanup_all e candidates
            \<lparr>cr_inspected = len candidates, cr_cleaned = 0, cr_failed = 0, cr_skipped = 0, cr_previewIds = []\<rparr> w)"

definition isPreviewCleanupPending :: "preview_row \<Rightarrow> bool" where
  "isPreviewCleanupPending preview \<longleftrightarrow> pv_status preview = ''cleanup_pending''"

end
