(* ===== verification/Preview_Guarantees.thy ===== *)
theory Preview_Guarantees
  imports Preview_Webhook Webhook_Guarantees
begin

text \<open>
  What the handling of pull requests guarantees: a delivery touches only the previews and the
  resources of its pull request in the organization of its provider, a preview whose service
  could not be removed is kept for another attempt, and every attempt is accounted for. It also
  shows that no preview is ever created.
\<close>

section \<open>Rows\<close>

lemma patched_rows:
  assumes "distinct (map pv_id tbl)" "p \<in> set tbl" "pv_id (f p) = pv_id p"
  shows "snd (updateById pv_id (pv_id p) f tbl) = map (\<lambda>q. if q = p then f p else q) tbl"
proof -
  have "findById pv_id (pv_id p) tbl = Some p" using assms by (simp add: distinct_key_found)
  moreover have "pv_id q = pv_id p \<longleftrightarrow> q = p" if "q \<in> set tbl" for q
    using that assms(1,2) by (metis distinct_map inj_onD)
  ultimately show ?thesis by (auto simp: updateById_def update_where_def cong: map_cong)
qed

lemma removed_rows:
  assumes "distinct (map pv_id tbl)" "p \<in> set tbl"
  shows "snd (deleteById pv_id (pv_id p) tbl) = filter (\<lambda>q. q \<noteq> p) tbl"
proof -
  have "pv_id q = pv_id p \<longleftrightarrow> q = p" if "q \<in> set tbl" for q
    using that assms by (metis distinct_map inj_onD)
  then show ?thesis by (auto simp: deleteById_def intro: filter_cong)
qed

lemma pull_request_row: "findByPullRequestId i n tbl = Some p \<Longrightarrow> p \<in> set tbl \<and> pv_resourceId p = i \<and> pv_pullRequestId p = n"
  by (auto simp: findByPullRequestId_def find_Some_iff dest: nth_mem)

lemma kept_rows:
  assumes "filter P ys = filter P xs" "(p \<in> set xs) \<noteq> (p \<in> set ys)"
  shows "\<not> P p"
proof -
  have "p \<in> set (filter P xs) \<longleftrightarrow> p \<in> set (filter P ys)" using assms(1) by simp
  with assms(2) show ?thesis by auto
qed

section \<open>Creating previews\<close>

lemma create_without_id:
  assumes "cp_id input = None"
  shows "snd (createPreviewDeployment input w) = w \<and> (\<forall>p. fst (createPreviewDeployment input w) \<noteq> Inr (Some p))"
  using assms by (auto simp: createPreviewDeployment_def insertPreview_def split: sum.splits)

lemma no_new_preview:
  assumes "findByPullRequestId (rr_id r) (pr_number pr) (px_previews w) = None"
  shows "obtain_preview e pr r w \<in> {(Inr None, w), (Inl ''Preview creation failed'', w)}"
proof -
  let ?input = "\<lparr>cp_id = None, cp_resourceId = rr_id r, cp_pullRequestId = pr_number pr, cp_branchName = pr_branchName pr,
      cp_appName = preview_app_name pr r (pe_randomHex e w), cp_status = ''idle'',
      cp_domain = preview_app_name pr r (pe_randomHex e w) @ ''.'' @
        (if given_string (pc_previewWildcard (px_columns w (rr_id r))) then the (pc_previewWildcard (px_columns w (rr_id r))) else ''sslip.io''),
      cp_previewLimit = or_default (pc_previewLimit (px_columns w (rr_id r))) 3\<rparr>"
  obtain a where "createPreviewDeployment ?input w = (a, w)" "\<forall>p. a \<noteq> Inr (Some p)"
    using create_without_id [of ?input w] by (metis create_preview.select_convs(1) prod.collapse)
  then show ?thesis
    using assms by (cases a) (auto simp: obtain_preview_def io_catch_def Let_def)
qed

text \<open>
  No preview is ever created: the row is inserted without an identifier, which the table does not
  supply, so a pull request without a preview ends in an error, or in nothing where the limit of
  the resource is reached.
\<close>

theorem preview_never_created:
  assumes "findByPullRequestId (rr_id r) (pr_number pr) (px_previews w) = None"
  shows "open_preview e pr r w \<in> {(Inr (), w), (Inl ''Preview creation failed'', w)}"
  using no_new_preview [OF assms, of e] by (auto simp: open_preview_def io_bind_def io_run)

section \<open>What a pull request touches\<close>

text \<open>Rows of other pull requests stay, and deployments are added for the resource only.\<close>

definition touches :: "string set \<Rightarrow> string \<Rightarrow> ('r, 'x) preview_world \<Rightarrow> ('r, 'x) preview_world \<Rightarrow> bool" where
  "touches ids n w w' \<longleftrightarrow>
     (distinct (map pv_id (px_previews w)) \<longrightarrow>
        distinct (map pv_id (px_previews w')) \<and>
        filter (\<lambda>p. \<not> (pv_resourceId p \<in> ids \<and> pv_pullRequestId p = n)) (px_previews w') =
        filter (\<lambda>p. \<not> (pv_resourceId p \<in> ids \<and> pv_pullRequestId p = n)) (px_previews w)) \<and>
     (\<exists>ds. it_deployments (ww_tables (px_base w')) = it_deployments (ww_tables (px_base w)) @ ds \<and> dep_resourceId ` set ds \<subseteq> ids)"

interpretation touches: step_relation "touches ids n" for ids n
proof
  show "touches ids n w w" for w by (auto simp: touches_def)
  show "touches ids n u w" if "touches ids n u v" "touches ids n v w" for u v w
    using that unfolding touches_def by (auto simp: image_Un)
qed

lemma touches_base:
  "(\<And>b. it_deployments (ww_tables (snd (m b))) = it_deployments (ww_tables b)) \<Longrightarrow> keeps (touches ids n) (on_base m)"
  by (simp add: keeps_def on_base_def touches_def case_prod_unfold)

lemma touches_remove: "keeps (touches ids n) (docker_remove e target p)"
  by (auto simp: keeps_def docker_remove_def touches_def split: prod.splits)

lemma touches_patch:
  assumes "p \<in> set (px_previews w)" "pv_resourceId p \<in> ids" "pv_pullRequestId p = n"
    and "\<And>q. pv_id (f q) = pv_id q \<and> pv_resourceId (f q) = pv_resourceId q \<and> pv_pullRequestId (f q) = pv_pullRequestId q"
  shows "touches ids n w (snd (patchPreview (pv_id p) f w))"
proof -
  let ?f = "\<lambda>q. (f q)\<lparr>pv_updatedAt := preview_clock w\<rparr>" and ?other = "\<lambda>p. \<not> (pv_resourceId p \<in> ids \<and> pv_pullRequestId p = n)"
  let ?rows = "map (\<lambda>q. if q = p then ?f p else q) (px_previews w)"
  have "filter ?other (map (\<lambda>q. if q = p then ?f p else q) tbl) = filter ?other tbl" for tbl
    using assms(2-4) by (induction tbl) auto
  then have other: "filter ?other ?rows = filter ?other (px_previews w)" .
  have ids: "map pv_id ?rows = map pv_id (px_previews w)" using assms(4) by simp
  have rows: "px_previews (snd (patchPreview (pv_id p) f w)) = ?rows" if "distinct (map pv_id (px_previews w))"
    using patched_rows [OF that assms(1), of ?f] assms(4) by (simp add: patchPreview_def io_run)
  have base: "px_base (snd (patchPreview (pv_id p) f w)) = px_base w" by (simp add: patchPreview_def io_run)
  show ?thesis
    unfolding touches_def base
  proof (intro conjI impI exI [of _ "[]"])
    assume d: "distinct (map pv_id (px_previews w))"
    show "distinct (map pv_id (px_previews (snd (patchPreview (pv_id p) f w))))" unfolding rows [OF d] ids by (rule d)
    show "filter ?other (px_previews (snd (patchPreview (pv_id p) f w))) = filter ?other (px_previews w)"
      unfolding rows [OF d] by (rule other)
  qed simp_all
qed

lemma touches_delete:
  assumes "p \<in> set (px_previews w)" "pv_resourceId p \<in> ids" "pv_pullRequestId p = n"
  shows "touches ids n w (snd (remove_row (pv_id p) w))"
proof -
  have "filter (\<lambda>p. \<not> (pv_resourceId p \<in> ids \<and> pv_pullRequestId p = n)) (filter (\<lambda>q. q \<noteq> p) tbl) =
      filter (\<lambda>p. \<not> (pv_resourceId p \<in> ids \<and> pv_pullRequestId p = n)) tbl" for tbl
    using assms by (induction tbl) auto
  then show ?thesis
    using assms removed_rows [of "px_previews w" p] by (auto simp: touches_def remove_row_def io_run distinct_map_filter)
qed

lemma queue_touches: "rr_id r \<in> ids \<Longrightarrow> keeps (touches ids n) (queue_preview e pr r p)"
  by (auto simp: keeps_def queue_preview_def on_base_def touches_def split: prod.splits sum.splits dest!: queue_row queue_refused)

lemma close_keeps:
  assumes "rr_id r \<in> ids"
  shows "keeps (touches ids (pr_number pr)) (close_preview e pr r)"
  unfolding keeps_def
proof
  fix w
  show "touches ids (pr_number pr) w (snd (close_preview e pr r w))"
  proof (cases "findByPullRequestId (rr_id r) (pr_number pr) (px_previews w)")
    case None
    then show ?thesis by (simp add: close_preview_def io_bind_def io_run touches.refl)
  next
    case (Some p)
    note row = pull_request_row [OF Some]
    obtain a x where a: "pe_remove e None (pv_appName p) (pv_resourceId p) (px_docker w) = (a, x)" by fastforce
    let ?v = "w\<lparr>px_docker := x\<rparr>"
    have "touches ids (pr_number pr) w ?v" by (simp add: touches_def)
    moreover have "touches ids (pr_number pr) ?v (snd (remove_row (pv_id p) ?v))"
      using row assms by (intro touches_delete) auto
    moreover have "touches ids (pr_number pr) ?v (snd (patchPreview (pv_id p) (\<lambda>p. p\<lparr>pv_status := ''cleanup_pending''\<rparr>) ?v))"
      using row assms by (intro touches_patch) auto
    moreover have "snd (close_preview e pr r w) \<in> {snd (remove_row (pv_id p) ?v),
        snd (patchPreview (pv_id p) (\<lambda>p. p\<lparr>pv_status := ''cleanup_pending''\<rparr>) ?v)}"
      using Some a by (cases a) (auto simp: close_preview_def docker_remove_def io_bind_def io_then_def io_catch_def io_run)
    ultimately show ?thesis using touches.trans by auto
  qed
qed

lemma obtain_keeps:
  assumes "rr_id r \<in> ids"
  shows "keeps (touches ids (pr_number pr)) (obtain_preview e pr r)"
  unfolding keeps_def
proof
  fix w
  show "touches ids (pr_number pr) w (snd (obtain_preview e pr r w))"
  proof (cases "findByPullRequestId (rr_id r) (pr_number pr) (px_previews w)")
    case None
    from no_new_preview [OF this, of e] show ?thesis by (auto simp: touches.refl)
  next
    case (Some p)
    let ?f = "\<lambda>p. p\<lparr>pv_status := ''idle'', pv_branchName := pr_branchName pr\<rparr>"
    have "snd (obtain_preview e pr r w) = snd (patchPreview (pv_id p) ?f w)"
      using Some by (simp add: obtain_preview_def io_then_def io_bind_def io_run patchPreview_def)
    moreover have "touches ids (pr_number pr) w (snd (patchPreview (pv_id p) ?f w))"
      using pull_request_row [OF Some] assms by (intro touches_patch) auto
    ultimately show ?thesis by simp
  qed
qed

lemma handle_keeps: "rr_id r \<in> ids \<Longrightarrow> keeps (touches ids (pr_number pr)) (handle_preview e pr r)"
  unfolding handle_preview_def open_preview_def
  by (auto intro!: keeps_intros obtain_keeps queue_touches close_keeps split: option.split)

lemma for_keeps: "rr_id ` set rs \<subseteq> ids \<Longrightarrow> keeps (touches ids (pr_number pr)) (io_for (handle_preview e pr) rs)"
  by (induction rs) (auto intro!: keeps_intros handle_keeps)

text \<open>The resources a pull request of a provider concerns.\<close>

definition concerned ::
  "surroundings \<Rightarrow> source_provider \<Rightarrow> pull_request \<Rightarrow> ('r, 'x) preview_world \<Rightarrow> resource_record \<Rightarrow> bool" where
  "concerned en provider pr w r \<longleftrightarrow>
     r \<in> set (it_resources (ww_tables (px_base w))) \<and> rr_provider r = ''github'' \<and>
     preview_candidate en (px_columns w (rr_id r)) (sp_id provider) pr r \<and>
     (\<exists>project. project_of (ww_tables (px_base w)) (rr_environmentId r) = Some project \<and>
        pj_organizationId project = sp_organizationId provider)"

lemma preview_resources_concerned: "preview_resources en provider pr w = Inr rs \<Longrightarrow> r \<in> set rs \<Longrightarrow> concerned en provider pr w r"
  by (auto simp: preview_resources_def findByProvider_def concerned_def Let_def split: sum.splits dest!: read_limit)

lemma store_keeps:
  "keeps (touches ids n) (on_base (delivery_claim api key ttl))" "keeps (touches ids n) (on_base (delivery_release api key))"
  by (rule touches_base, metis claim_keeps_tables(1) prod.collapse) (rule touches_base, metis claim_keeps_tables(2) prod.collapse)

lemma pull_request_touches:
  assumes "en_json (we_surroundings (pe_webhook e)) body = Some payload" "payload \<noteq> JNull" "parse_pull_request payload = Some pr"
    and "processPullRequest e provider headers body w = (a, w')"
  shows "touches (rr_id ` {r. concerned (we_surroundings (pe_webhook e)) provider pr w r}) (pr_number pr) w w'"
proof -
  let ?en = "we_surroundings (pe_webhook e)" and ?api = "we_api (pe_webhook e)"
  let ?ids = "rr_id ` {r. concerned ?en provider pr w r}"
  obtain key where p: "processPullRequest e provider headers body =
      io_try (on_base (delivery_claim ?api key 86400)) (\<lambda>_. io_return (WebhookRefused 503))
        (\<lambda>accepted. if \<not> accepted then io_return PreviewDuplicate
           else io_try (io_bind (\<lambda>w. (preview_resources ?en provider pr w, w)) (io_for (handle_preview e pr)))
             (\<lambda>_. io_then (io_ignore (on_base (delivery_release ?api key))) (io_return (WebhookRefused 500)))
             (\<lambda>_. io_return PreviewAccepted))"
    using assms(1-3) by (cases payload) (auto simp: processPullRequest_def Let_def)
  obtain c b where c: "delivery_claim ?api key 86400 (px_base w) = (c, b)" by fastforce
  let ?w1 = "w\<lparr>px_base := b\<rparr>"
  have w1: "on_base (delivery_claim ?api key 86400) w = (c, ?w1)" using c by (simp add: on_base_def)
  from keepsD [OF store_keeps(1) this] have claim: "touches ?ids (pr_number pr) w ?w1" .
  have same: "concerned ?en provider pr ?w1 r = concerned ?en provider pr w r" for r
    using claim_keeps_tables(1) [OF c] by (simp add: concerned_def)
  show ?thesis
  proof (cases "c = Inr True")
    case True
    show ?thesis
    proof (cases "preview_resources ?en provider pr ?w1")
      case (Inl err)
      then have "w' = snd (io_then (io_ignore (on_base (delivery_release ?api key))) (io_return (WebhookRefused 500)) ?w1)"
        using assms(4) True w1 by (simp add: p io_try_def io_bind_def)
      moreover have "keeps (touches ?ids (pr_number pr)) (io_then (io_ignore (on_base (delivery_release ?api key))) (io_return (WebhookRefused 500)))"
        by (intro keeps_intros store_keeps)
      ultimately show ?thesis using claim touches.trans unfolding keeps_def by blast
    next
      case (Inr rs)
      have "rr_id ` set rs \<subseteq> ?ids" using preview_resources_concerned [OF Inr] same by auto
      then have "keeps (touches ?ids (pr_number pr)) (io_try (io_for (handle_preview e pr) rs)
          (\<lambda>_. io_then (io_ignore (on_base (delivery_release ?api key))) (io_return (WebhookRefused 500))) (\<lambda>_. io_return PreviewAccepted))"
        by (intro keeps_intros for_keeps store_keeps)
      moreover have "io_try (io_for (handle_preview e pr) rs)
          (\<lambda>_. io_then (io_ignore (on_base (delivery_release ?api key))) (io_return (WebhookRefused 500))) (\<lambda>_. io_return PreviewAccepted) ?w1 = (a, w')"
        using assms(4) True w1 Inr by (simp add: p io_try_def io_bind_def)
      ultimately show ?thesis using claim touches.trans keepsD by metis
    qed
  next
    case False
    then have "w' = ?w1" using assms(4) w1 by (cases c) (auto simp: p io_try_def io_run)
    with claim show ?thesis by simp
  qed
qed

lemma github_cases:
  assumes "processGithubWebhook e providerId contentLength headers body w = (a, w')"
    and "headers ''x-github-event'' = Some ''pull_request''" "w' \<noteq> w"
  obtains provider config secret payload pr where "findById sp_id providerId (ww_providers (px_base w)) = Some provider"
    "en_json (we_surroundings (pe_webhook e)) (sp_config provider) = Some config"
    "get_prop (asRecord config) ''githubWebhookSecret'' = JStr secret" "secret \<noteq> []"
    "headers ''x-hub-signature-256'' = Some (''sha256='' @ we_hmac (pe_webhook e) secret body)"
    "en_json (we_surroundings (pe_webhook e)) body = Some payload" "payload \<noteq> JNull" "parse_pull_request payload = Some pr"
    "processPullRequest e provider headers body w = (a, w')"
proof -
  from assms obtain provider config where r: "findById sp_id providerId (ww_providers (px_base w)) = Some provider"
    "en_json (we_surroundings (pe_webhook e)) (sp_config provider) = Some config"
    and signed: "github_signed (pe_webhook e) (get_prop (asRecord config) ''githubWebhookSecret'') (headers ''x-hub-signature-256'') body = Inr True"
    and p: "processPullRequest e provider headers body w = (a, w')"
    by (auto simp: processGithubWebhook_def Let_def split: if_splits option.splits sum.splits)
  from signed obtain secret where s: "get_prop (asRecord config) ''githubWebhookSecret'' = JStr secret" "secret \<noteq> []"
    "headers ''x-hub-signature-256'' = Some (''sha256='' @ we_hmac (pe_webhook e) secret body)"
    by (auto simp: github_signed_def filled_def safeEqual_def split: option.splits if_splits jsval.splits)
  from p assms(3) obtain payload pr where "en_json (we_surroundings (pe_webhook e)) body = Some payload" "payload \<noteq> JNull"
    "parse_pull_request payload = Some pr"
    by (auto simp: processPullRequest_def Let_def io_run split: option.splits jsval.splits)
  with r s p that show ?thesis by blast
qed

text \<open>
  C10. A pull request touches its own previews: a delivery about a pull request that changes anything
  was signed with the secret of its provider, every preview that appears, changes or goes belongs
  to that pull request and to a resource that follows its repository through that provider, in a
  project of the organization of the provider, and so does every deployment it queues.
\<close>

theorem pull_request_confined:
  assumes "processGithubWebhook e providerId contentLength headers body w = (a, w')"
    and "headers ''x-github-event'' = Some ''pull_request''" "w' \<noteq> w" "distinct (map pv_id (px_previews w))"
  shows "\<exists>provider config secret pr ds.
    findById sp_id providerId (ww_providers (px_base w)) = Some provider \<and>
    en_json (we_surroundings (pe_webhook e)) (sp_config provider) = Some config \<and>
    get_prop (asRecord config) ''githubWebhookSecret'' = JStr secret \<and> secret \<noteq> [] \<and>
    headers ''x-hub-signature-256'' = Some (''sha256='' @ we_hmac (pe_webhook e) secret body) \<and>
    (\<forall>p. (p \<in> set (px_previews w)) \<noteq> (p \<in> set (px_previews w')) \<longrightarrow>
       pv_pullRequestId p = pr_number pr \<and>
       (\<exists>r. concerned (we_surroundings (pe_webhook e)) provider pr w r \<and> pv_resourceId p = rr_id r)) \<and>
    it_deployments (ww_tables (px_base w')) = it_deployments (ww_tables (px_base w)) @ ds \<and>
    (\<forall>d \<in> set ds. \<exists>r. concerned (we_surroundings (pe_webhook e)) provider pr w r \<and> dep_resourceId d = rr_id r)"
proof -
  let ?en = "we_surroundings (pe_webhook e)"
  from assms(1-3) obtain provider config secret payload pr where r: "findById sp_id providerId (ww_providers (px_base w)) = Some provider"
    "en_json ?en (sp_config provider) = Some config" "get_prop (asRecord config) ''githubWebhookSecret'' = JStr secret" "secret \<noteq> []"
    "headers ''x-hub-signature-256'' = Some (''sha256='' @ we_hmac (pe_webhook e) secret body)"
    and q: "en_json ?en body = Some payload" "payload \<noteq> JNull" "parse_pull_request payload = Some pr"
    "processPullRequest e provider headers body w = (a, w')" by (rule github_cases)
  let ?ids = "rr_id ` {r. concerned ?en provider pr w r}"
  from pull_request_touches [OF q] assms(4) obtain ds where
    same: "filter (\<lambda>p. \<not> (pv_resourceId p \<in> ?ids \<and> pv_pullRequestId p = pr_number pr)) (px_previews w') =
      filter (\<lambda>p. \<not> (pv_resourceId p \<in> ?ids \<and> pv_pullRequestId p = pr_number pr)) (px_previews w)"
    and ds: "it_deployments (ww_tables (px_base w')) = it_deployments (ww_tables (px_base w)) @ ds" "dep_resourceId ` set ds \<subseteq> ?ids"
    unfolding touches_def by blast
  have "pv_resourceId p \<in> ?ids \<and> pv_pullRequestId p = pr_number pr" if "(p \<in> set (px_previews w)) \<noteq> (p \<in> set (px_previews w'))" for p
    using kept_rows [OF same that] by (rule notnotD)
  then have "\<forall>p. (p \<in> set (px_previews w)) \<noteq> (p \<in> set (px_previews w')) \<longrightarrow>
      pv_pullRequestId p = pr_number pr \<and> (\<exists>r. concerned ?en provider pr w r \<and> pv_resourceId p = rr_id r)" by fast
  moreover have "\<forall>d \<in> set ds. \<exists>r. concerned ?en provider pr w r \<and> dep_resourceId d = rr_id r" using ds(2) by auto
  ultimately show ?thesis
    using r ds(1) by (intro exI [of _ provider] exI [of _ config] exI [of _ secret] exI [of _ pr] exI [of _ ds] conjI) assumption+
qed

section \<open>Removing previews\<close>

text \<open>
  C11. A preview is forgotten only with its service: closing a pull request removes the row where the
  service was removed, and marks it for another attempt otherwise; every other row stays.
\<close>

theorem closed_preview_retained:
  assumes "findByPullRequestId (rr_id r) (pr_number pr) (px_previews w) = Some p" "distinct (map pv_id (px_previews w))"
  shows "\<exists>w'. close_preview e pr r w = (Inr (), w') \<and>
    px_previews w' =
      (if \<exists>x. pe_remove e None (pv_appName p) (pv_resourceId p) (px_docker w) = (Inr (), x)
       then filter (\<lambda>q. q \<noteq> p) (px_previews w)
       else map (\<lambda>q. if q = p then p\<lparr>pv_status := ''cleanup_pending'', pv_updatedAt := preview_clock w\<rparr> else q) (px_previews w))"
proof -
  have row: "p \<in> set (px_previews w)" using pull_request_row [OF assms(1)] by blast
  obtain a x where "pe_remove e None (pv_appName p) (pv_resourceId p) (px_docker w) = (a, x)" by fastforce
  then show ?thesis
    using assms removed_rows [OF assms(2) row]
      patched_rows [OF assms(2) row, of "\<lambda>q. q\<lparr>pv_status := ''cleanup_pending'', pv_updatedAt := preview_clock w\<rparr>"]
    by (cases a) (auto simp: close_preview_def docker_remove_def remove_row_def patchPreview_def preview_clock_def io_bind_def
        io_then_def io_catch_def io_run)
qed

lemma cleanup_all_result:
  assumes "cleanup_all e ps result w = (a, w')"
  shows "\<exists>result' done. a = Inr result' \<and> set done \<subseteq> pv_id ` set ps \<and> cr_previewIds result' = cr_previewIds result @ done \<and>
    px_previews w' = filter (\<lambda>q. pv_id q \<notin> set done) (px_previews w) \<and> cr_cleaned result' = cr_cleaned result + len done \<and>
    cr_cleaned result' + cr_failed result' + cr_skipped result' = cr_cleaned result + cr_failed result + cr_skipped result + len ps \<and>
    cr_inspected result' = cr_inspected result"
  using assms
proof (induction ps arbitrary: result w)
  case Nil
  then show ?case by (auto simp: io_run len_def intro!: exI [of _ "[]"])
next
  case (Cons p ps)
  obtain b v where b: "cleanup_one e p result w = (b, v)" by fastforce
  have "\<exists>result1 done. b = Inr result1 \<and> set done \<subseteq> {pv_id p} \<and> cr_previewIds result1 = cr_previewIds result @ done \<and>
      px_previews v = filter (\<lambda>q. pv_id q \<notin> set done) (px_previews w) \<and> cr_cleaned result1 = cr_cleaned result + len done \<and>
      cr_cleaned result1 + cr_failed result1 + cr_skipped result1 = cr_cleaned result + cr_failed result + cr_skipped result + 1 \<and>
      cr_inspected result1 = cr_inspected result"
    using b
    by (auto simp: cleanup_one_def docker_remove_def remove_row_def deleteById_def io_catch_def io_then_def io_bind_def io_run len_def
        split: option.splits prod.splits sum.splits intro: exI [of _ "[]"] exI [of _ "[pv_id p]"])
  then obtain result1 done1 where 1: "b = Inr result1" "set done1 \<subseteq> {pv_id p}" "cr_previewIds result1 = cr_previewIds result @ done1"
    "px_previews v = filter (\<lambda>q. pv_id q \<notin> set done1) (px_previews w)" "cr_cleaned result1 = cr_cleaned result + len done1"
    "cr_cleaned result1 + cr_failed result1 + cr_skipped result1 = cr_cleaned result + cr_failed result + cr_skipped result + 1"
    "cr_inspected result1 = cr_inspected result" by blast
  from Cons.prems b 1(1) have "cleanup_all e ps result1 v = (a, w')" by (simp add: io_bind_def)
  from Cons.IH [OF this] obtain result' done2 where "a = Inr result'" "set done2 \<subseteq> pv_id ` set ps"
    "cr_previewIds result' = cr_previewIds result1 @ done2" "px_previews w' = filter (\<lambda>q. pv_id q \<notin> set done2) (px_previews v)"
    "cr_cleaned result' = cr_cleaned result1 + len done2"
    "cr_cleaned result' + cr_failed result' + cr_skipped result' = cr_cleaned result1 + cr_failed result1 + cr_skipped result1 + len ps"
    "cr_inspected result' = cr_inspected result1" by blast
  with 1 show ?case
    by (intro exI [of _ result'] exI [of _ "done1 @ done2"]) (auto simp: len_def conj_commute)
qed

text \<open>
  Every attempt is accounted for: at most five hundred previews are tried again, each is cleaned,
  failed or skipped, the previews that are cleaned are those that go, and only previews that were
  waiting for it are.
\<close>

theorem preview_cleanup_accounts:
  assumes "reconcilePreviewCleanups e requested w = (Inr result, w')"
  shows "cr_inspected result \<le> 500 \<and> cr_cleaned result + cr_failed result + cr_skipped result = cr_inspected result \<and>
    cr_cleaned result = len (cr_previewIds result) \<and>
    px_previews w' = filter (\<lambda>p. pv_id p \<notin> set (cr_previewIds result)) (px_previews w) \<and>
    set (cr_previewIds result) \<subseteq> pv_id ` {p \<in> set (px_previews w). isPreviewCleanupPending p}"
proof -
  let ?limit = "min (max (or_default requested 100) 1) 500"
  from assms obtain ps where ps: "findPreviewsByStatus ''cleanup_pending'' ?limit (px_previews w) = Inr ps"
    and run: "cleanup_all e ps \<lparr>cr_inspected = len ps, cr_cleaned = 0, cr_failed = 0, cr_skipped = 0, cr_previewIds = []\<rparr> w = (Inr result, w')"
    by (auto simp: reconcilePreviewCleanups_def Let_def split: sum.splits)
  have "len ps \<le> 500" "set ps \<subseteq> {p \<in> set (px_previews w). isPreviewCleanupPending p}"
    using ps by (auto simp: findPreviewsByStatus_def findMany_def assertBoundedRepositoryRead_def Let_def len_def MAX_REPOSITORY_READS_def
        isPreviewCleanupPending_def split: if_splits dest!: in_set_takeD)
  moreover from cleanup_all_result [OF run] have "cr_inspected result = len ps" "cr_cleaned result = len (cr_previewIds result)"
    "cr_cleaned result + cr_failed result + cr_skipped result = len ps"
    "px_previews w' = filter (\<lambda>p. pv_id p \<notin> set (cr_previewIds result)) (px_previews w)" "set (cr_previewIds result) \<subseteq> pv_id ` set ps"
    by auto
  ultimately show ?thesis by (metis (no_types, lifting) image_mono subset_trans)
qed

section \<open>A pull request is closed\<close>

definition pr_surroundings :: surroundings where
  "pr_surroundings = sample_surroundings\<lparr>
     en_json := (\<lambda>s.
       if s = ''config'' then Some (JObj [(''githubWebhookSecret'', JStr ''hush'')])
       else if s = ''body'' then Some (JObj [(''action'', JStr ''closed''), (''number'', JNum ''7''),
         (''pull_request'', JObj [(''head'', JObj [(''ref'', JStr ''topic'')])]), (''repository'', JObj [(''full_name'', JStr ''acme/app'')])])
       else if s = ''sealed'' then Some (JObj [(''ciphertext'', JStr ''c''), (''iv'', JStr ''i''), (''authTag'', JStr ''t''), (''keyVersion'', JNum ''1'')])
       else if s = ''plain'' then Some (JObj [(''repository'', JStr ''acme/app''), (''githubAccount'', JStr ''gh''), (''enablePrPreviews'', JBool True)])
       else None),
     en_decrypt := (\<lambda>_. Some ''plain'')\<rparr>"

text \<open>The state of Docker is whether it answers.\<close>

definition pr_env :: "((string \<times> redis_entry) list, bool) preview_env" where
  "pr_env =
     \<lparr>pe_webhook = hub_env\<lparr>we_surroundings := pr_surroundings\<rparr>,
      pe_remove = (\<lambda>target name resource up. (if up then Inr () else Inl ''unreachable'', up)), pe_randomHex = (\<lambda>_. ''00ff00'')\<rparr>"

definition pr_resource :: resource_record where
  "pr_resource = (hub_resource ''r1'' ''nginx'')\<lparr>rr_provider := ''github'', rr_credentials := Some ''sealed''\<rparr>"

definition pr_preview :: "string \<Rightarrow> string \<Rightarrow> string \<Rightarrow> preview_row" where
  "pr_preview i n status =
     \<lparr>pv_id = i, pv_resourceId = ''r1'', pv_pullRequestId = n, pv_branchName = ''topic'', pv_appName = ''pr-app'', pv_status = status,
      pv_domain = ''pr-app.sslip.io'', pv_updatedAt = 0\<rparr>"

definition pr_world :: "bool \<Rightarrow> ((string \<times> redis_entry) list, bool) preview_world" where
  "pr_world up =
     \<lparr>px_base = (hub_world [pr_resource])\<lparr>ww_providers :=
        [\<lparr>sp_id = ''gh'', sp_provider = ''github'', sp_organizationId = ''org'', sp_config = ''config''\<rparr>]\<rparr>,
      px_previews = [pr_preview ''v1'' ''7'' ''success'', pr_preview ''v2'' ''8'' ''cleanup_pending''],
      px_columns = (\<lambda>_. \<lparr>pc_active = False, pc_previewLimit = None, pc_previewWildcard = None\<rparr>), px_docker = up\<rparr>"

definition pr_headers :: "string \<Rightarrow> string option" where
  "pr_headers h =
     (if h = ''x-github-event'' then Some ''pull_request'' else if h = ''x-hub-signature-256'' then Some ''sha256=mac'' else None)"

definition pr_request :: pull_request where
  "pr_request = \<lparr>pr_action = ''closed'', pr_number = ''7'', pr_branchName = ''topic'', pr_repoFullName = ''acme/app''\<rparr>"

lemma pr_run:
  "map_prod id (\<lambda>w. map pv_id (px_previews w)) (processGithubWebhook pr_env ''gh'' 0 pr_headers ''body'' (pr_world True)) = (Inr PreviewAccepted, [''v2''])"
  by code_simp

theorem pull_request_confined_witness:
  "\<exists>provider pr r. findById sp_id ''gh'' (ww_providers (px_base (pr_world True))) = Some provider \<and>
    concerned pr_surroundings provider pr (pr_world True) r \<and> rr_id r = ''r1''"
proof -
  let ?p = "pr_preview ''v1'' ''7'' ''success''"
  obtain w' where run: "processGithubWebhook pr_env ''gh'' 0 pr_headers ''body'' (pr_world True) = (Inr PreviewAccepted, w')"
    and rows: "map pv_id (px_previews w') = [''v2'']"
    using pr_run by (cases "processGithubWebhook pr_env ''gh'' 0 pr_headers ''body'' (pr_world True)") auto
  from rows have gone: "(?p \<in> set (px_previews (pr_world True))) \<noteq> (?p \<in> set (px_previews w'))" and "w' \<noteq> pr_world True"
    by (auto simp: pr_world_def pr_preview_def)
  moreover have "distinct (map pv_id (px_previews (pr_world True)))" "pr_headers ''x-github-event'' = Some ''pull_request''"
    by (simp_all add: pr_world_def pr_preview_def pr_headers_def)
  ultimately obtain provider pr r where "findById sp_id ''gh'' (ww_providers (px_base (pr_world True))) = Some provider"
    "concerned (we_surroundings (pe_webhook pr_env)) provider pr (pr_world True) r" "pv_resourceId ?p = rr_id r"
    using pull_request_confined [OF run] gone by metis
  then show ?thesis by (auto simp: pr_env_def pr_preview_def)
qed

theorem closed_preview_retained_witness:
  "\<exists>w'. close_preview pr_env pr_request pr_resource (pr_world False) = (Inr (), w') \<and>
    map pv_status (px_previews w') = [''cleanup_pending'', ''cleanup_pending'']"
proof -
  have "findByPullRequestId (rr_id pr_resource) (pr_number pr_request) (px_previews (pr_world False)) = Some (pr_preview ''v1'' ''7'' ''success'')"
    "distinct (map pv_id (px_previews (pr_world False)))"
    by (simp_all add: findByPullRequestId_def pr_resource_def hub_resource_def pr_request_def pr_world_def pr_preview_def)
  from closed_preview_retained [OF this, of pr_env] show ?thesis
    by (auto simp: pr_env_def pr_world_def pr_preview_def)
qed

theorem preview_cleanup_accounts_witness:
  "\<exists>result w'. reconcilePreviewCleanups pr_env None (pr_world True) = (Inr result, w') \<and>
    cr_cleaned result + cr_failed result + cr_skipped result = 1 \<and> cr_previewIds result = [''v2'']"
proof -
  obtain a w' where run: "reconcilePreviewCleanups pr_env None (pr_world True) = (a, w')" by fastforce
  moreover have "fst (reconcilePreviewCleanups pr_env None (pr_world True)) =
      Inr \<lparr>cr_inspected = 1, cr_cleaned = 1, cr_failed = 0, cr_skipped = 0, cr_previewIds = [''v2'']\<rparr>" by code_simp
  ultimately show ?thesis using preview_cleanup_accounts [of pr_env None "pr_world True"] by auto
qed

end
