(* ===== verification/Environment_Workflows.thy ===== *)
theory Environment_Workflows
  imports Secret_Store "HOL-Library.Char_ord" "HOL-Library.List_Lexorder"
begin

text \<open>
  Creating, deleting, cloning, comparing and promoting environments:
  \<open>usecases/src/environment/create-environment.usecase.ts\<close>,
  \<open>delete-environment.usecase.ts\<close>, \<open>get-environment.usecase.ts\<close>,
  \<open>get-environments.usecase.ts\<close> and \<open>environment-workflows.usecase.ts\<close>, with the inserts of
  \<open>repositories/src/environment/drizzle-environment.repository.ts\<close> and
  \<open>repositories/src/resource/drizzle-resource.repository.ts\<close> and the unique indexes of
  \<open>db/src/migrations\<close> on slugs and service names. A use case runs in a transaction: an error
  leaves the store as it was. Random identifiers are an argument, a function of how many were
  drawn. JSON and encryption are those of the environment variables.
\<close>

section \<open>Names\<close>

definition slug_char :: "char \<Rightarrow> bool" where
  "slug_char c \<longleftrightarrow> is_digit c \<or> (97 \<le> code c \<and> code c \<le> 122)"

text \<open>\<open>.replace(/[^a-z0-9]+/g, "-")\<close>.\<close>

function collapse_others :: "string \<Rightarrow> string" where
  "collapse_others [] = []"
| "collapse_others (c # cs) =
     (if slug_char c then c # collapse_others cs
      else CHR ''-'' # collapse_others (dropWhile (\<lambda>d. \<not> slug_char d) cs))"
  by pat_completeness auto
termination
  by (relation "measure length") (auto simp: le_imp_less_Suc length_dropWhile_le)

text \<open>\<open>.replace(/(^-|-$)/g, "")\<close>.\<close>

definition strip_dashes :: "string \<Rightarrow> string" where
  "strip_dashes s =
     (let t = (if starts_with ''-'' s then drop 1 s else s) in if ends_with ''-'' t then butlast t else t)"

definition slugify :: "string \<Rightarrow> string" where
  "slugify v = (let s = strip_dashes (collapse_others (toLowerCase v)) in if s = [] then ''environment'' else s)"

definition numbered :: "string \<Rightarrow> nat \<Rightarrow> string" where
  "numbered baseSlug suffix = baseSlug @ ''-'' @ show_nat suffix"

lemma show_nat_inj: "show_nat m = show_nat n \<Longrightarrow> m = n"
  by (metis of_nat_eq_iff show_nat_text)

lemma numbered_inj: "inj (numbered baseSlug)"
  unfolding numbered_def by (rule injI) (metis same_append_eq show_nat_inj)

text \<open>How many numbered slugs from a suffix on are taken.\<close>

definition taken_from :: "string list \<Rightarrow> string \<Rightarrow> nat \<Rightarrow> nat" where
  "taken_from slugs baseSlug suffix = card {n. suffix \<le> n \<and> numbered baseSlug n \<in> set slugs}"

lemma taken_finite: "finite {n. suffix \<le> n \<and> numbered baseSlug n \<in> set slugs}"
proof -
  have "finite (numbered baseSlug -` set slugs)" using numbered_inj by (intro finite_vimageI) simp_all
  then show ?thesis by (rule finite_subset [rotated]) auto
qed

lemma taken_step: "numbered baseSlug suffix \<in> set slugs \<Longrightarrow> taken_from slugs baseSlug suffix = Suc (taken_from slugs baseSlug (Suc suffix))"
proof -
  assume "numbered baseSlug suffix \<in> set slugs"
  then have "{n. suffix \<le> n \<and> numbered baseSlug n \<in> set slugs} = insert suffix {n. Suc suffix \<le> n \<and> numbered baseSlug n \<in> set slugs}"
    by (auto simp: Suc_le_eq order.order_iff_strict)
  then show ?thesis using taken_finite by (simp add: taken_from_def)
qed

lemma taken_mono: "taken_from slugs baseSlug (Suc suffix) \<le> taken_from slugs baseSlug suffix"
  unfolding taken_from_def by (rule card_mono [OF taken_finite]) auto

text \<open>The loop over the numbered slugs.\<close>

function free_slug :: "string list \<Rightarrow> string \<Rightarrow> nat \<Rightarrow> string \<Rightarrow> string" where
  "free_slug slugs baseSlug suffix slug =
     (if slug \<in> set slugs then free_slug slugs baseSlug (Suc suffix) (numbered baseSlug suffix) else slug)"
  by pat_completeness auto
termination
proof (relation "measure (\<lambda>(slugs, baseSlug, suffix, slug). taken_from slugs baseSlug suffix + (if slug \<in> set slugs then 1 else 0))")
  fix slugs and baseSlug :: string and suffix and slug :: string
  assume "slug \<in> set slugs"
  then show "((slugs, baseSlug, Suc suffix, numbered baseSlug suffix), slugs, baseSlug, suffix, slug) \<in>
      measure (\<lambda>(slugs, baseSlug, suffix, slug). taken_from slugs baseSlug suffix + (if slug \<in> set slugs then 1 else 0))"
    using taken_step [of baseSlug suffix slugs] taken_mono [of slugs baseSlug suffix] by auto
qed simp

declare free_slug.simps [simp del]

definition resourceKey :: "resource \<Rightarrow> string" where
  "resourceKey r = toLowerCase (trim (rr_name r))"

section \<open>Inserts\<close>

definition insert_environment :: "environment \<Rightarrow> secret_store \<Rightarrow> string + secret_store" where
  "insert_environment e st =
     (if findById ev_id (ev_id e) (es_environments st) \<noteq> None then Inl ''duplicate key value violates unique constraint environment_pkey''
      else if list_ex (\<lambda>x. ev_projectId x = ev_projectId e \<and> ev_slug x = ev_slug e) (es_environments st)
      then Inl ''duplicate key value violates unique constraint environment_project_slug_uidx''
      else if findById pj_id (ev_projectId e) (es_projects st) = None
      then Inl ''insert or update on table environment violates foreign key constraint''
      else Inr (st\<lparr>es_environments := es_environments st @ [e]\<rparr>))"

text \<open>\<open>regexp_replace(lower(trim(app_name)), '[^a-z0-9_-]', '-', 'g')\<close>.\<close>

definition service_key :: "string \<Rightarrow> string" where
  "service_key appName =
     map (\<lambda>c. if slug_char c \<or> c = CHR ''_'' \<or> c = CHR ''-'' then c else CHR ''-'')
       (toLowerCase (rev (dropWhile (\<lambda>c. c = CHR '' '') (rev (dropWhile (\<lambda>c. c = CHR '' '') appName)))))"

definition service_taken :: "string option \<Rightarrow> resource list \<Rightarrow> bool" where
  "service_taken appName tbl \<longleftrightarrow>
     (case appName of
        None \<Rightarrow> False
      | Some a \<Rightarrow> list_ex (\<lambda>r. case rs_appName r of None \<Rightarrow> False | Some b \<Rightarrow> service_key b = service_key a) tbl)"

text \<open>\<open>create\<close> of the resource repository; the secrets start with version one.\<close>

definition insert_resource :: "'z codec_scheme \<Rightarrow> resource \<Rightarrow> secret_store \<Rightarrow> string + secret_store" where
  "insert_resource cx r st =
     (if [] \<in> {rr_id r, rr_environmentId r, rr_name r, rr_type r, rr_provider r}
      then Inl ''Resource inserts require id, environmentId, name, type, and provider''
      else if findById rr_id (rr_id r) (es_resources st) \<noteq> None then Inl ''duplicate key value violates unique constraint resource_pkey''
      else if service_taken (rs_appName r) (es_resources st) then Inl ''Docker service name is already used by another resource.''
      else let row = r\<lparr>rs_secretVersion := 1\<rparr> in
           append_version cx (resource_version row) (st\<lparr>es_resources := es_resources st @ [row]\<rparr>))"

definition resources_of :: "string \<Rightarrow> secret_store \<Rightarrow> string + resource list" where
  "resources_of environmentId st =
     assertReadLimit (filter (\<lambda>r. rr_environmentId r = environmentId) (es_resources st)) 10000 resource_limit"

section \<open>Creating, deleting and reading\<close>

record create_environment_input =
  ce_projectId :: string
  ce_name :: string
  ce_description :: "string option"
  ce_parentEnvironmentId :: "string option"
  ce_inheritsVariables :: "bool option"

definition createEnvironment ::
  "string \<Rightarrow> create_environment_input \<Rightarrow> secret_store \<Rightarrow> string + environment \<times> secret_store" where
  "createEnvironment uuid input st =
     (if given_string (ce_parentEnvironmentId input) \<and>
         (case findById ev_id (the (ce_parentEnvironmentId input)) (es_environments st) of
            None \<Rightarrow> True | Some parent \<Rightarrow> ev_projectId parent \<noteq> ce_projectId input)
      then Inl ''Parent environment must belong to the same project''
      else let slug = strip_dashes (collapse_others (toLowerCase (ce_name input)));
               row = \<lparr>ev_id = uuid, ev_projectId = ce_projectId input, ev_parentEnvironmentId = ce_parentEnvironmentId input,
                      ev_inheritsVariables = or_default (ce_inheritsVariables input) False, ev_name = ce_name input,
                      ev_slug = (if slug = [] then ''env'' else slug), ev_description = ce_description input, ev_isDefault = False,
                      ev_isProtected = False, ev_resourceCount = 0, ev_envVars = None\<rparr>
           in map_sum id (Pair row) (insert_environment row st))"

text \<open>
  Deleting a row deletes the resources and the secrets of the environment with it, and its
  children lose their parent: \<open>onDelete\<close> in \<open>db/src/schema\<close>.
\<close>

definition delete_environment_row :: "string \<Rightarrow> secret_store \<Rightarrow> bool \<times> secret_store" where
  "delete_environment_row i st =
     (list_ex (\<lambda>e. ev_id e = i) (es_environments st),
      st\<lparr>es_environments := map (\<lambda>e. if ev_parentEnvironmentId e = Some i then e\<lparr>ev_parentEnvironmentId := None\<rparr> else e)
            (snd (deleteById ev_id i (es_environments st))),
         es_secretVersions := filter (\<lambda>(j, _). j \<noteq> i) (es_secretVersions st),
         es_resources := filter (\<lambda>r. rr_environmentId r \<noteq> i) (es_resources st)\<rparr>)"

definition deleteEnvironment :: "string \<Rightarrow> string option \<Rightarrow> secret_store \<Rightarrow> string + bool \<times> secret_store" where
  "deleteEnvironment i organizationId st =
     (case findById ev_id i (es_environments st) of
        None \<Rightarrow> Inl ''Environment not found''
      | Some env \<Rightarrow>
          (case findById pj_id (ev_projectId env) (es_projects st) of
             None \<Rightarrow> Inl ''Environment not found''
           | Some project \<Rightarrow>
               if \<not> given_string organizationId \<or> Some (pj_organizationId project) \<noteq> organizationId then Inl ''Environment not found''
               else if ev_isDefault env \<or> ev_isProtected env then Inl ''Cannot delete the default/production environment.''
               else if ev_resourceCount env > 0
               then Inl ''Cannot delete environment. Please delete all services/resources inside it first.''
               else Inr (delete_environment_row i st)))"

record environment_summary =
  su_environment :: environment
  su_envVarsConfigured :: bool

text \<open>A summary leaves the variables out, and tells whether there are some.\<close>

definition summary_of :: "secret_store \<Rightarrow> environment \<Rightarrow> environment_summary" where
  "summary_of st e =
     \<lparr>su_environment = e\<lparr>ev_envVars := None\<rparr>, su_envVarsConfigured = (map_of (es_secretVersions st) (ev_id e) \<noteq> None)\<rparr>"

definition getEnvironmentSummary :: "string \<Rightarrow> secret_store \<Rightarrow> environment_summary option" where
  "getEnvironmentSummary i st = map_option (summary_of st) (findById ev_id i (es_environments st))"

definition getEnvironments :: "string \<Rightarrow> secret_store \<Rightarrow> string + environment_summary list" where
  "getEnvironments projectId st =
     map_sum id (map (summary_of st))
       (assertReadLimit (filter (\<lambda>e. ev_projectId e = projectId) (es_environments st)) 10000 environment_limit)"

text \<open>\<open>GREATEST(0, resource_count + delta)\<close>.\<close>

definition incrementResourceCount :: "string \<Rightarrow> int \<Rightarrow> secret_store \<Rightarrow> secret_store" where
  "incrementResourceCount i delta st =
     st\<lparr>es_environments := snd (updateById ev_id i (\<lambda>e. e\<lparr>ev_resourceCount := max 0 (ev_resourceCount e + delta)\<rparr>) (es_environments st))\<rparr>"

section \<open>Cloning\<close>

record clone_input =
  cl_sourceEnvironmentId :: string
  cl_name :: string
  cl_includeResources :: bool
  cl_includeSecrets :: bool

definition cloned_environment :: "clone_input \<Rightarrow> string \<Rightarrow> string \<Rightarrow> environment \<Rightarrow> environment" where
  "cloned_environment input i slug source =
     \<lparr>ev_id = i, ev_projectId = ev_projectId source, ev_parentEnvironmentId = Some (ev_id source),
      ev_inheritsVariables = cl_includeSecrets input, ev_name = cl_name input, ev_slug = slug,
      ev_description = ev_description source, ev_isDefault = False, ev_isProtected = False, ev_resourceCount = 0,
      ev_envVars = None\<rparr>"

definition cloned_resource :: "bool \<Rightarrow> string \<Rightarrow> string \<Rightarrow> string \<Rightarrow> resource \<Rightarrow> resource" where
  "cloned_resource includeSecrets i environmentId slug r =
     r\<lparr>rr_id := i, rr_environmentId := environmentId, rr_status := ''idle'',
       rs_appName := (if given_string (rs_appName r) then Some (take 63 (the (rs_appName r) @ ''-'' @ slug)) else None),
       rr_credentials := (if includeSecrets then rr_credentials r else Some ''{}''),
       rs_buildSecrets := (if includeSecrets then rs_buildSecrets r else None),
       rs_buildEnvVars := (if includeSecrets then rs_buildEnvVars r else None),
       rs_envVars := (if includeSecrets then rs_envVars r else ''{}''), rs_domains := ''[]'',
       rs_isPreviewDeploymentsActive := False, rs_previewWildcard := None\<rparr>"

fun clone_resources ::
  "'z codec_scheme \<Rightarrow> (nat \<Rightarrow> string) \<Rightarrow> nat \<Rightarrow> bool \<Rightarrow> string \<Rightarrow> string \<Rightarrow> resource list \<Rightarrow> secret_store \<Rightarrow> string + secret_store" where
  "clone_resources cx uuid n includeSecrets environmentId slug [] st = Inr st"
| "clone_resources cx uuid n includeSecrets environmentId slug (r # rs) st =
     (case insert_resource cx (cloned_resource includeSecrets (uuid n) environmentId slug r) st of
        Inl e \<Rightarrow> Inl e
      | Inr st1 \<Rightarrow> clone_resources cx uuid (Suc n) includeSecrets environmentId slug rs st1)"

definition reread :: "string \<Rightarrow> secret_store \<Rightarrow> environment option \<times> secret_store" where
  "reread i st = (findById ev_id i (es_environments st), st)"

text \<open>What follows the insert of the environment.\<close>

definition fill_clone ::
  "'z codec_scheme \<Rightarrow> (nat \<Rightarrow> string) \<Rightarrow> clone_input \<Rightarrow> environment \<Rightarrow> string \<Rightarrow> string \<Rightarrow> secret_store \<Rightarrow> string + environment option \<times> secret_store" where
  "fill_clone cx uuid input source i slug st =
     (case (if cl_includeSecrets input \<and> given_string (ev_envVars source)
            then map_sum id snd (update_environment cx i id (ev_envVars source) st) else Inr st) of
        Inl e \<Rightarrow> Inl e
      | Inr st1 \<Rightarrow>
          if \<not> cl_includeResources input then Inr (reread i st1)
          else case resources_of (ev_id source) st1 of
              Inl e \<Rightarrow> Inl e
            | Inr resources \<Rightarrow>
                (case clone_resources cx uuid 1 (cl_includeSecrets input) i slug resources st1 of
                   Inl e \<Rightarrow> Inl e
                 | Inr st2 \<Rightarrow>
                     Inr (reread i (st2\<lparr>es_environments :=
                       snd (updateById ev_id i (\<lambda>e. e\<lparr>ev_resourceCount := len resources\<rparr>) (es_environments st2))\<rparr>))))"

definition cloneEnvironment ::
  "'z codec_scheme \<Rightarrow> (nat \<Rightarrow> string) \<Rightarrow> clone_input \<Rightarrow> secret_store \<Rightarrow> string + environment option \<times> secret_store" where
  "cloneEnvironment cx uuid input st =
     (case findById ev_id (cl_sourceEnvironmentId input) (es_environments st) of
        None \<Rightarrow> Inl ''Source environment not found''
      | Some source \<Rightarrow>
          (case assertReadLimit (filter (\<lambda>e. ev_projectId e = ev_projectId source) (es_environments st)) 10000 environment_limit of
             Inl e \<Rightarrow> Inl e
           | Inr environments \<Rightarrow>
               let baseSlug = slugify (cl_name input);
                   slug = free_slug (map ev_slug environments) baseSlug 2 baseSlug
               in case insert_environment (cloned_environment input (uuid 0) slug source) st of
                    Inl e \<Rightarrow> Inl e
                  | Inr st1 \<Rightarrow> fill_clone cx uuid input source (uuid 0) slug st1))"

section \<open>Comparing\<close>

datatype diff_action = DiffAdd | DiffUpdate | DiffRemove | DiffUnchanged

record diff_variable =
  dv_key :: string
  dv_source :: bool
  dv_target :: bool

record diff_resource =
  dr_key :: string
  dr_source :: bool
  dr_target :: bool
  dr_action :: diff_action
  dr_changed :: bool
  dr_secretsChanged :: bool

record environment_diff =
  ed_sourceEnvironmentId :: string
  ed_targetEnvironmentId :: string
  ed_variables :: "diff_variable list"
  ed_resources :: "diff_resource list"

definition compared_variables :: "variables \<Rightarrow> variables \<Rightarrow> diff_variable list" where
  "compared_variables sourceVars targetVars =
     map (\<lambda>key. \<lparr>dv_key = key, dv_source = (map_of sourceVars key \<noteq> None), dv_target = (map_of targetVars key \<noteq> None)\<rparr>)
       (filter (\<lambda>key. map_of sourceVars key \<noteq> map_of targetVars key)
         (sort (unique (map fst sourceVars @ map fst targetVars))))"

text \<open>A map built from a list keeps the last value of a key.\<close>

definition by_key :: "resource list \<Rightarrow> string \<Rightarrow> resource option" where
  "by_key rs = map_of (rev (map (\<lambda>r. (resourceKey r, r)) rs))"

definition secret_part :: "'z codec_scheme \<Rightarrow> resource \<Rightarrow> string option \<times> string option \<times> string option \<times> variables" where
  "secret_part cx r = (rr_credentials r, rs_buildSecrets r, rs_buildEnvVars r, parseResourceEnvironmentVariables cx (Some (rs_envVars r)))"

definition config_part :: "resource \<Rightarrow> string \<times> string option" where
  "config_part r = (rs_buildConfig r, rr_advancedConfig r)"

definition compared_resource :: "'z codec_scheme \<Rightarrow> resource option \<Rightarrow> resource option \<Rightarrow> string \<Rightarrow> diff_resource" where
  "compared_resource cx left right key =
     (let both = (left \<noteq> None \<and> right \<noteq> None);
          secretsChanged = (both \<and> secret_part cx (the left) \<noteq> secret_part cx (the right));
          configurationChanged = (both \<and> config_part (the left) \<noteq> config_part (the right));
          action = (if right = None then DiffAdd else if left = None then DiffRemove
                    else if configurationChanged \<or> secretsChanged then DiffUpdate else DiffUnchanged)
      in \<lparr>dr_key = key, dr_source = (left \<noteq> None), dr_target = (right \<noteq> None), dr_action = action,
          dr_changed = (action \<noteq> DiffUnchanged), dr_secretsChanged = secretsChanged\<rparr>)"

definition diffEnvironments ::
  "'z codec_scheme \<Rightarrow> string \<Rightarrow> string \<Rightarrow> secret_store \<Rightarrow> string + environment_diff" where
  "diffEnvironments cx sourceId targetId st =
     (if findById ev_id sourceId (es_environments st) = None \<or> findById ev_id targetId (es_environments st) = None
      then Inl ''Environment not found''
      else case (resources_of sourceId st, resources_of targetId st) of
          (Inr sourceResources, Inr targetResources) \<Rightarrow>
            Inr \<lparr>ed_sourceEnvironmentId = sourceId, ed_targetEnvironmentId = targetId,
                 ed_variables = compared_variables (resolveEnvironmentVariables cx (es_environments st) sourceId)
                    (resolveEnvironmentVariables cx (es_environments st) targetId),
                 ed_resources = map (\<lambda>key. compared_resource cx (by_key sourceResources key) (by_key targetResources key) key)
                    (sort (unique (map resourceKey sourceResources @ map resourceKey targetResources)))\<rparr>
        | _ \<Rightarrow> Inl resource_limit)"

section \<open>Promoting\<close>

record promote_input =
  pm_sourceEnvironmentId :: string
  pm_targetEnvironmentId :: string
  pm_includeResources :: bool
  pm_includeSecrets :: bool

definition promoted_columns :: "resource \<Rightarrow> resource \<Rightarrow> resource" where
  "promoted_columns s t =
     t\<lparr>rr_provider := rr_provider s, rs_dbType := rs_dbType s, rr_dockerImage := rr_dockerImage s,
       rs_buildRegistryId := rs_buildRegistryId s, rs_rollbackActive := rs_rollbackActive s,
       rs_rollbackRegistryId := rs_rollbackRegistryId s, rs_triggerType := rs_triggerType s, rs_tagPattern := rs_tagPattern s,
       rs_watchPaths := rs_watchPaths s, rs_buildConfig := rs_buildConfig s, rr_advancedConfig := rr_advancedConfig s\<rparr>"

definition promoted_secrets :: "bool \<Rightarrow> resource \<Rightarrow> secret_patch" where
  "promoted_secrets includeSecrets s =
     (if includeSecrets
      then \<lparr>sp_credentials = Some (rr_credentials s), sp_buildSecrets = Some (rs_buildSecrets s),
            sp_buildEnvVars = Some (rs_buildEnvVars s), sp_envVars = Some (rs_envVars s)\<rparr>
      else no_secret_patch)"

fun promote_resources ::
  "'z codec_scheme \<Rightarrow> bool \<Rightarrow> (string \<Rightarrow> resource option) \<Rightarrow> resource list \<Rightarrow> secret_store \<Rightarrow> string + secret_store" where
  "promote_resources cx includeSecrets targetByKey [] st = Inr st"
| "promote_resources cx includeSecrets targetByKey (s # ss) st =
     (case targetByKey (resourceKey s) of
        None \<Rightarrow> promote_resources cx includeSecrets targetByKey ss st
      | Some target \<Rightarrow>
          (case update_resource cx (rr_id target) (promoted_columns s) (promoted_secrets includeSecrets s) st of
             Inl e \<Rightarrow> Inl e
           | Inr (_, st1) \<Rightarrow> promote_resources cx includeSecrets targetByKey ss st1))"

definition promote_transaction :: "'z codec_scheme \<Rightarrow> promote_input \<Rightarrow> secret_store \<Rightarrow> string + secret_store" where
  "promote_transaction cx input st =
     (case (findById ev_id (pm_sourceEnvironmentId input) (es_environments st),
            findById ev_id (pm_targetEnvironmentId input) (es_environments st)) of
        (Some source, Some target) \<Rightarrow>
          if ev_isProtected target then Inl ''Protected environments require an explicit deployment approval''
          else (case (if pm_includeSecrets input
                      then (case serializeResourceEnvironmentVariables cx (resolveEnvironmentVariables cx (es_environments st) (ev_id source)) of
                              Inl e \<Rightarrow> Inl e
                            | Inr envVars \<Rightarrow> map_sum id snd (update_environment cx (ev_id target) id (Some envVars) st))
                      else Inr st) of
                  Inl e \<Rightarrow> Inl e
                | Inr st1 \<Rightarrow>
                    if \<not> pm_includeResources input then Inr st1
                    else (case (resources_of (ev_id source) st1, resources_of (ev_id target) st1) of
                            (Inr sourceResources, Inr targetResources) \<Rightarrow>
                              promote_resources cx (pm_includeSecrets input) (by_key targetResources) sourceResources st1
                          | _ \<Rightarrow> Inl resource_limit))
      | _ \<Rightarrow> Inl ''Environment not found'')"

definition promoteEnvironment ::
  "'z codec_scheme \<Rightarrow> promote_input \<Rightarrow> secret_store \<Rightarrow> (string + environment_diff) \<times> secret_store" where
  "promoteEnvironment cx input st =
     (if pm_sourceEnvironmentId input = pm_targetEnvironmentId input
      then (Inl ''Source and target environments must differ'', st)
      else case promote_transaction cx input st of
          Inl e \<Rightarrow> (Inl e, st)
        | Inr st' \<Rightarrow> (diffEnvironments cx (pm_sourceEnvironmentId input) (pm_targetEnvironmentId input) st', st'))"

end
