(* ===== verification/Workflow_Guarantees.thy ===== *)
theory Workflow_Guarantees
  imports Environment_Workflows Environment_Guarantees
begin

text \<open>
  What cloning and promoting environments guarantees: the slug of a clone is the first that is
  free, a clone without secrets carries none, and promoting makes the resources of two
  environments agree.
\<close>

section \<open>Slugs\<close>

lemma free_slug_fresh: "free_slug slugs b n s \<notin> set slugs"
proof (induction slugs b n s rule: free_slug.induct)
  case (1 slugs b n s)
  then show ?case by (subst free_slug.simps) simp
qed

lemma free_slug_least:
  "s \<in> set slugs \<Longrightarrow> \<exists>k \<ge> n. free_slug slugs b n s = numbered b k \<and> (\<forall>j. n \<le> j \<longrightarrow> j < k \<longrightarrow> numbered b j \<in> set slugs)"
proof (induction slugs b n s rule: free_slug.induct)
  case (1 slugs b n s)
  show ?case
  proof (cases "numbered b n \<in> set slugs")
    case True
    with 1 obtain k where k: "k \<ge> Suc n" "free_slug slugs b (Suc n) (numbered b n) = numbered b k"
      "\<forall>j. Suc n \<le> j \<longrightarrow> j < k \<longrightarrow> numbered b j \<in> set slugs" by blast
    have "numbered b j \<in> set slugs" if "n \<le> j" "j < k" for j using that True k(3) by (cases "j = n") auto
    moreover have "free_slug slugs b n s = free_slug slugs b (Suc n) (numbered b n)"
      using 1(2) by (subst free_slug.simps) simp
    ultimately show ?thesis using k(1,2) by (intro exI [of _ k]) auto
  next
    case False
    have "free_slug slugs b n s = free_slug slugs b (Suc n) (numbered b n)"
      using 1(2) by (subst free_slug.simps) simp
    also have "\<dots> = numbered b n" using False by (subst free_slug.simps) simp
    finally show ?thesis by (intro exI [of _ n]) auto
  qed
qed

text \<open>
  The slug of a clone is free: the search ends, with the slug of the name itself where no
  environment has it, and otherwise with the first number from two on that is not taken.
\<close>

theorem clone_slug_free:
  "free_slug slugs baseSlug 2 baseSlug \<notin> set slugs \<and>
   free_slug slugs baseSlug 2 baseSlug =
     (if baseSlug \<notin> set slugs then baseSlug else numbered baseSlug (LEAST k. 2 \<le> k \<and> numbered baseSlug k \<notin> set slugs))"
proof (intro conjI)
  show fresh: "free_slug slugs baseSlug 2 baseSlug \<notin> set slugs" by (rule free_slug_fresh)
  show "free_slug slugs baseSlug 2 baseSlug =
     (if baseSlug \<notin> set slugs then baseSlug else numbered baseSlug (LEAST k. 2 \<le> k \<and> numbered baseSlug k \<notin> set slugs))"
  proof (cases "baseSlug \<in> set slugs")
    case True
    from free_slug_least [OF this, of 2 baseSlug] obtain k where k: "2 \<le> k" "free_slug slugs baseSlug 2 baseSlug = numbered baseSlug k"
      "\<forall>j. 2 \<le> j \<longrightarrow> j < k \<longrightarrow> numbered baseSlug j \<in> set slugs" by blast
    have "(LEAST k. 2 \<le> k \<and> numbered baseSlug k \<notin> set slugs) = k"
      using k fresh by (intro Least_equality) (auto simp: not_le [symmetric])
    with k True show ?thesis by simp
  qed (subst free_slug.simps, simp)
qed

section \<open>Clones\<close>

lemma patched_table:
  "snd (updateById key i f tbl) = map (\<lambda>x. if key x = i then f x else x) tbl"
proof (cases "findById key i tbl")
  case None
  then have "\<forall>x \<in> set tbl. key x \<noteq> i" by (simp add: findById_def find_None_iff)
  then show ?thesis using None by (simp add: updateById_def update_where_def map_idI cong: map_cong)
qed (simp add: updateById_def update_where_def)

lemma find_snoc: "findById key i xs = None \<Longrightarrow> findById key i (xs @ [x]) = (if key x = i then Some x else None)"
  by (induction xs) (auto simp: findById_def split: if_splits)

lemma append_version_rows:
  "append_version cx h st = Inr st' \<Longrightarrow> es_environments st' = es_environments st \<and> es_resources st' = es_resources st"
  by (auto simp: append_version_def split: if_splits)

lemma insert_resource_rows:
  assumes "insert_resource cx r st = Inr st'"
  shows "es_environments st' = es_environments st \<and> es_resources st' = es_resources st @ [r\<lparr>rs_secretVersion := 1\<rparr>]"
  using assms by (auto simp: insert_resource_def Let_def split: if_splits dest!: append_version_rows)

lemma clone_resources_rows:
  assumes "clone_resources cx uuid n b i slug rs st = Inr st'"
  shows "\<exists>clones. es_environments st' = es_environments st \<and> es_resources st' = es_resources st @ clones \<and>
    list_all2 (\<lambda>r c. \<exists>j. c = (cloned_resource b j i slug r)\<lparr>rs_secretVersion := 1\<rparr>) rs clones"
  using assms
proof (induction rs arbitrary: n st)
  case (Cons r rs)
  from Cons.prems obtain st1 where 1: "insert_resource cx (cloned_resource b (uuid n) i slug r) st = Inr st1"
    "clone_resources cx uuid (Suc n) b i slug rs st1 = Inr st'" by (auto split: sum.splits)
  from Cons.IH [OF 1(2)] insert_resource_rows [OF 1(1)] show ?case by (fastforce intro: list_all2_Cons [THEN iffD2])
qed auto

text \<open>What carries a secret of a resource, or leads the world to it.\<close>

definition bare :: "string \<Rightarrow> resource \<Rightarrow> bool" where
  "bare i r \<longleftrightarrow>
     rr_environmentId r = i \<and> rr_credentials r = Some ''{}'' \<and> rs_buildSecrets r = None \<and> rs_buildEnvVars r = None \<and>
     rs_envVars r = ''{}'' \<and> rs_domains r = ''[]'' \<and> \<not> rs_isPreviewDeploymentsActive r"

lemma no_inherited_variables:
  assumes "findById ev_id i tbl = Some e" "\<not> ev_inheritsVariables e" "ev_envVars e = None"
  shows "resolveEnvironmentVariables cx tbl i = []"
proof (cases "i = []")
  case True
  then show ?thesis by (simp add: resolveEnvironmentVariables_def findAncestors_def ancestors_loop.simps)
next
  case False
  have none: "parseResourceEnvironmentVariables cx None = []" by (simp add: parseResourceEnvironmentVariables_def)
  let ?chain = "ancestors_loop tbl [i] (ev_parentEnvironmentId e)"
  have "findAncestors tbl i = e # ?chain"
    using False assms(1) unfolding findAncestors_def by (subst ancestors_loop.simps) simp
  moreover have "\<forall>x \<in> set ?chain. ev_id x \<noteq> i" using ancestors_unseen by fastforce
  moreover have "obj_assign [] [] = []" by (simp add: obj_assign_def)
  ultimately show ?thesis
    using assms none findById_key [OF assms(1)] inherit_loop_outer [of ?chain i cx False "[]"]
    by (simp add: resolveEnvironmentVariables_def)
qed

text \<open>
  C15. A clone without secrets carries none: the existing environments and resources stay as they are,
  the new environment has a slug of its own in the project and resolves no variable, although the
  source is its parent, and its resources, one for every resource of the source where they are
  cloned, have no credentials, build secrets, variables, domains or previews.
\<close>

theorem clone_without_secrets:
  assumes "cloneEnvironment cx uuid input st = Inr (created, st')" "\<not> cl_includeSecrets input"
  shows "\<exists>e clones. created = Some e \<and> es_environments st' = es_environments st @ [e] \<and>
    es_resources st' = es_resources st @ clones \<and> list_all (bare (ev_id e)) clones \<and>
    map rr_name clones = (if cl_includeResources input
      then map rr_name (filter (\<lambda>r. rr_environmentId r = cl_sourceEnvironmentId input) (es_resources st)) else []) \<and>
    (\<forall>x \<in> set (es_environments st). ev_projectId x = ev_projectId e \<longrightarrow> ev_slug x \<noteq> ev_slug e) \<and>
    resolveEnvironmentVariables cx (es_environments st') (ev_id e) = []"
proof -
  from assms(1) obtain source slug st1 where source: "findById ev_id (cl_sourceEnvironmentId input) (es_environments st) = Some source"
    and ins: "insert_environment (cloned_environment input (uuid 0) slug source) st = Inr st1"
    and fill: "fill_clone cx uuid input source (uuid 0) slug st1 = Inr (created, st')"
    by (auto simp: cloneEnvironment_def Let_def split: option.splits sum.splits)
  let ?i = "uuid 0" and ?e = "cloned_environment input (uuid 0) slug source"
  have id: "ev_id source = cl_sourceEnvironmentId input" using findById_key [OF source] by blast
  from ins have none: "findById ev_id ?i (es_environments st) = None" and st1: "st1 = st\<lparr>es_environments := es_environments st @ [?e]\<rparr>"
    and slugs: "\<forall>x \<in> set (es_environments st). ev_projectId x = ev_projectId ?e \<longrightarrow> ev_slug x \<noteq> ev_slug ?e"
    by (auto simp: insert_environment_def cloned_environment_def list_ex_iff split: if_splits)
  have absent: "\<forall>x \<in> set (es_environments st). ev_id x \<noteq> ?i" using none by (simp add: findById_def find_None_iff)
  have found: "findById ev_id ?i (es_environments st @ [x]) = Some x" if "ev_id x = ?i" for x
    using none that by (simp add: find_snoc)
  have fixed: "map (\<lambda>x. if ev_id x = ?i then f x else x) (es_environments st @ [?e]) = es_environments st @ [f ?e]" for f
    using absent by (simp add: cloned_environment_def map_idI cong: map_cong)
  have bare: "resolveEnvironmentVariables cx (es_environments st @ [x]) ?i = []" if "x = ?e \<or> (\<exists>n. x = ?e\<lparr>ev_resourceCount := n\<rparr>)" for x
    using that assms(2) by (intro no_inherited_variables [OF found]) (auto simp: cloned_environment_def)
  show ?thesis
  proof (cases "cl_includeResources input")
    case False
    with fill assms(2) st1 have r: "created = Some ?e" "es_environments st' = es_environments st @ [?e]" "es_resources st' = es_resources st"
      using found [of ?e] by (auto simp: fill_clone_def reread_def cloned_environment_def)
    have "resolveEnvironmentVariables cx (es_environments st') ?i = []"
      using bare [of ?e] r(2) by simp
    with r slugs False show ?thesis by (intro exI [of _ ?e] exI [of _ "[]"]) (simp add: cloned_environment_def)
  next
    case True
    let ?rs = "filter (\<lambda>r. rr_environmentId r = ev_id source) (es_resources st)" and ?x = "?e\<lparr>ev_resourceCount := len (filter (\<lambda>r. rr_environmentId r = ev_id source) (es_resources st))\<rparr>"
    from fill assms(2) True st1 obtain st2 where cl: "clone_resources cx uuid 1 False ?i slug ?rs st1 = Inr st2"
      and st': "(created, st') = reread ?i (st2\<lparr>es_environments :=
          snd (updateById ev_id ?i (\<lambda>e. e\<lparr>ev_resourceCount := len ?rs\<rparr>) (es_environments st2))\<rparr>)"
      by (auto simp: fill_clone_def resources_of_def split: sum.splits dest!: read_limit)
    from clone_resources_rows [OF cl] st1 obtain clones where c: "es_environments st2 = es_environments st @ [?e]"
      "es_resources st2 = es_resources st @ clones"
      "list_all2 (\<lambda>r c. \<exists>j. c = (cloned_resource False j ?i slug r)\<lparr>rs_secretVersion := 1\<rparr>) ?rs clones" by auto
    have rows: "created = Some ?x" "es_environments st' = es_environments st @ [?x]" "es_resources st' = es_resources st @ clones"
      using st' c(1,2) found [of ?x] fixed by (simp_all add: reread_def patched_table cloned_environment_def)
    have "list_all (bare ?i) clones \<and> map rr_name clones = map rr_name ?rs"
      using c(3) by (induction rule: list_all2_induct) (auto simp: bare_def cloned_resource_def)
    moreover have "resolveEnvironmentVariables cx (es_environments st') ?i = []"
      using bare [of ?x] rows(2) by auto
    ultimately show ?thesis
      using rows slugs True id by (intro exI [of _ ?x] exI [of _ clones]) (simp add: cloned_environment_def)
  qed
qed

text \<open>
  An application whose service name fills a label cannot be cloned: the name of its copy is cut to
  63 characters, which leaves the name of the original.
\<close>

lemma long_name_refused:
  assumes "r \<in> set rs" "r \<in> set (es_resources st)" "rs_appName r = Some a" "length a = 63"
  shows "\<exists>err. clone_resources cx uuid n b i slug rs st = Inl err"
  using assms(1,2)
proof (induction rs arbitrary: n st)
  case (Cons x xs)
  show ?case
  proof (cases "insert_resource cx (cloned_resource b (uuid n) i slug x) st")
    case (Inr st1)
    have "x \<noteq> r"
    proof
      assume "x = r"
      have "rs_appName (cloned_resource b (uuid n) i slug r) = Some a"
        using assms(3,4) by (auto simp: cloned_resource_def given_string_def)
      with \<open>x = r\<close> Cons.prems(2) assms(3) have "service_taken (rs_appName (cloned_resource b (uuid n) i slug x)) (es_resources st)"
        by (auto simp: service_taken_def list_ex_iff intro!: bexI [of _ r])
      with Inr show False by (auto simp: insert_resource_def Let_def split: if_splits)
    qed
    with Cons.prems insert_resource_rows [OF Inr] Cons.IH [of st1 "Suc n"] Inr show ?thesis by simp
  qed simp
qed simp

theorem long_name_not_cloned:
  assumes "r \<in> set (es_resources st)" "rr_environmentId r = cl_sourceEnvironmentId input" "cl_includeResources input"
    and "rs_appName r = Some a" "length a = 63"
  shows "\<exists>err. cloneEnvironment cx uuid input st = Inl err"
proof (rule ccontr)
  assume "\<nexists>err. cloneEnvironment cx uuid input st = Inl err"
  then obtain x where "cloneEnvironment cx uuid input st = Inr x" by (cases "cloneEnvironment cx uuid input st") auto
  then obtain source slug st0 st1 st2 where source: "findById ev_id (cl_sourceEnvironmentId input) (es_environments st) = Some source"
    and ins: "insert_environment (cloned_environment input (uuid 0) slug source) st = Inr st0"
    and up: "st1 = st0 \<or> (\<exists>z v. update_environment cx (uuid 0) id v st0 = Inr (z, st1))"
    and cl: "clone_resources cx uuid 1 (cl_includeSecrets input) (uuid 0) slug
      (filter (\<lambda>r. rr_environmentId r = ev_id source) (es_resources st1)) st1 = Inr st2"
    using assms(3)
    by (auto simp: cloneEnvironment_def fill_clone_def resources_of_def Let_def split: option.splits sum.splits if_splits dest!: read_limit)
      (metis snd_conv)+
  have "es_resources st1 = es_resources st"
    using up ins by (auto simp: update_environment_def insert_environment_def Let_def split: option.splits if_splits dest!: append_version_rows)
  with assms(1,2) findById_key [OF source] have "r \<in> set (filter (\<lambda>r. rr_environmentId r = ev_id source) (es_resources st1))"
    "r \<in> set (es_resources st1)" by simp_all
  from long_name_refused [OF this assms(4,5)] cl show False by (metis sum.distinct(1))
qed

section \<open>Counters\<close>

definition rows_in :: "string \<Rightarrow> secret_store \<Rightarrow> resource list" where
  "rows_in i st = filter (\<lambda>r. rr_environmentId r = i) (es_resources st)"

text \<open>Every environment counts its resources, and every resource has an environment.\<close>

definition counted :: "secret_store \<Rightarrow> bool" where
  "counted st \<longleftrightarrow>
     distinct (map ev_id (es_environments st)) \<and>
     (\<forall>e \<in> set (es_environments st). ev_resourceCount e = len (rows_in (ev_id e) st)) \<and>
     rr_environmentId ` set (es_resources st) \<subseteq> ev_id ` set (es_environments st)"

lemma counted_insert:
  assumes "insert_environment e st = Inr st'" "counted st" "ev_resourceCount e = 0"
  shows "counted st'"
proof -
  from assms(1) have st': "st' = st\<lparr>es_environments := es_environments st @ [e]\<rparr>" and "findById ev_id (ev_id e) (es_environments st) = None"
    by (auto simp: insert_environment_def split: if_splits)
  then have new: "ev_id e \<notin> ev_id ` set (es_environments st)" by (auto simp: findById_def find_None_iff)
  with assms(2) have "rows_in (ev_id e) st = []" unfolding rows_in_def filter_empty_conv counted_def by (metis image_eqI subset_iff)
  with new assms(2,3) st' show ?thesis by (auto simp: counted_def rows_in_def len_def)
qed

lemma counted_clones:
  assumes "counted st" "es_environments st' = map (\<lambda>e. if ev_id e = i then e\<lparr>ev_resourceCount := len rs\<rparr> else e) (es_environments st)"
    and "es_resources st' = es_resources st @ rs" "\<forall>r \<in> set rs. rr_environmentId r = i" "i \<in> ev_id ` set (es_environments st)"
    and "rows_in i st = []"
  shows "counted st'"
proof -
  have "filter (\<lambda>r. rr_environmentId r = j) rs = (if j = i then rs else [])" for j using assms(4) by (induction rs) auto
  then have rows: "rows_in j st' = (if j = i then rs else rows_in j st)" for j using assms(3,6) by (simp add: rows_in_def)
  have ids: "map ev_id (es_environments st') = map ev_id (es_environments st)" using assms(2) by simp
  then have "ev_id ` set (es_environments st') = ev_id ` set (es_environments st)" by (metis list.set_map)
  moreover have "ev_resourceCount e = len (rows_in (ev_id e) st')" if "e \<in> set (es_environments st')" for e
    using that assms(1,2) rows by (auto simp: counted_def)
  moreover have "rr_environmentId ` set rs \<subseteq> ev_id ` set (es_environments st)" using assms(4,5) by auto
  ultimately show ?thesis using assms(1,3) ids by (simp add: counted_def image_Un)
qed

lemma counted_same:
  "counted st \<Longrightarrow> map ev_id (es_environments st') = map ev_id (es_environments st) \<Longrightarrow>
   map ev_resourceCount (es_environments st') = map ev_resourceCount (es_environments st) \<Longrightarrow>
   map rr_environmentId (es_resources st') = map rr_environmentId (es_resources st) \<Longrightarrow> counted st'"
proof -
  assume a: "counted st" "map ev_id (es_environments st') = map ev_id (es_environments st)"
    "map ev_resourceCount (es_environments st') = map ev_resourceCount (es_environments st)"
    "map rr_environmentId (es_resources st') = map rr_environmentId (es_resources st)"
  have "len (rows_in j s) = len (filter (\<lambda>x. x = j) (map rr_environmentId (es_resources s)))" for j s
    by (simp add: rows_in_def len_def filter_map o_def)
  with a(4) have rows: "len (rows_in j st') = len (rows_in j st)" for j by simp
  have "ev_resourceCount e = len (rows_in (ev_id e) st')" if "e \<in> set (es_environments st')" for e
  proof -
    from that obtain k where k: "k < length (es_environments st')" "e = es_environments st' ! k" by (metis in_set_conv_nth)
    let ?e = "es_environments st ! k"
    have "k < length (es_environments st)" using a(2) k(1) by (metis length_map)
    then have "?e \<in> set (es_environments st)" "ev_id e = ev_id ?e" "ev_resourceCount e = ev_resourceCount ?e"
      using a(2,3) k by (simp, metis length_map nth_map, metis length_map nth_map)
    with a(1) rows show ?thesis by (simp add: counted_def)
  qed
  moreover have "rr_environmentId ` set (es_resources st') = rr_environmentId ` set (es_resources st)"
    "ev_id ` set (es_environments st') = ev_id ` set (es_environments st)" using a(2,4) by (metis list.set_map)+
  ultimately show ?thesis using a(1,2) by (simp add: counted_def)
qed

lemma update_environment_counted:
  assumes "update_environment cx i id v st = Inr (e, st')" "counted st"
  shows "counted st' \<and> es_resources st' = es_resources st \<and> map ev_id (es_environments st') = map ev_id (es_environments st) \<and>
    map ev_resourceCount (es_environments st') = map ev_resourceCount (es_environments st)"
proof -
  have "es_resources st' = es_resources st \<and> map ev_id (es_environments st') = map ev_id (es_environments st) \<and>
      map ev_resourceCount (es_environments st') = map ev_resourceCount (es_environments st)"
    using assms(1) by (auto simp: update_environment_def patched_table Let_def split: option.splits if_splits dest!: append_version_rows)
  with assms(2) counted_same [of st st'] show ?thesis by simp
qed

lemma deleted_row_counted:
  assumes "rows_in i st = []" "counted st" "st' = snd (delete_environment_row i st)"
  shows "es_resources st' = es_resources st \<and> counted st'"
proof -
  from assms(1) have none: "\<forall>r \<in> set (es_resources st). rr_environmentId r \<noteq> i" by (auto simp: rows_in_def filter_empty_conv)
  then have r: "es_resources st' = es_resources st" by (simp add: assms(3) delete_environment_row_def)
  let ?f = "\<lambda>e. if ev_parentEnvironmentId e = Some i then e\<lparr>ev_parentEnvironmentId := None\<rparr> else e"
  have f: "ev_id (?f x) = ev_id x" "ev_resourceCount (?f x) = ev_resourceCount x" for x by simp_all
  have envs: "es_environments st' = map ?f (filter (\<lambda>e. ev_id e \<noteq> i) (es_environments st))"
    by (simp add: assms(3) delete_environment_row_def deleteById_def)
  have ids: "map ev_id (es_environments st') = filter (\<lambda>j. j \<noteq> i) (map ev_id (es_environments st))"
    unfolding envs by (simp add: filter_map o_def)
  have "ev_id ` set (es_environments st') = ev_id ` set (es_environments st) - {i}" using arg_cong [OF ids, of set] by auto
  moreover have "ev_resourceCount x = len (rows_in (ev_id x) st')" if "x \<in> set (es_environments st')" for x
    using that assms(2) r envs by (auto simp: counted_def rows_in_def)
  ultimately show ?thesis using r none ids assms(2) by (auto simp: counted_def)
qed

lemma count_zero_empty: "counted st \<Longrightarrow> e \<in> set (es_environments st) \<Longrightarrow> \<not> ev_resourceCount e > 0 \<Longrightarrow> rows_in (ev_id e) st = []"
  by (auto simp: counted_def len_def)

lemma deleted_environment_empty:
  assumes "deleteEnvironment i org st = Inr (b, st')" "counted st"
  shows "es_resources st' = es_resources st \<and> counted st'"
proof -
  from assms(1) obtain e where e: "findById ev_id i (es_environments st) = Some e" "\<not> ev_resourceCount e > 0"
    and st': "st' = snd (delete_environment_row i st)"
    by (auto simp: deleteEnvironment_def split: option.splits if_splits)
  from count_zero_empty [OF assms(2) _ e(2)] findById_key [OF e(1)] have "rows_in i st = []" by simp
  then show ?thesis using assms(2) st' by (rule deleted_row_counted)
qed

lemma cloned_rows_counted:
  assumes cl: "clone_resources cx uuid n b i slug rs st = Inr st2" and "counted st" "rows_in i st = []" "i \<in> ev_id ` set (es_environments st)"
  shows "counted (st2\<lparr>es_environments := snd (updateById ev_id i (\<lambda>e. e\<lparr>ev_resourceCount := len rs\<rparr>) (es_environments st2))\<rparr>)"
proof -
  from clone_resources_rows [OF cl] obtain clones where rows: "es_environments st2 = es_environments st" "es_resources st2 = es_resources st @ clones"
    and l: "list_all2 (\<lambda>r c. \<exists>j. c = (cloned_resource b j i slug r)\<lparr>rs_secretVersion := 1\<rparr>) rs clones" by blast
  have env: "\<forall>r \<in> set clones. rr_environmentId r = i"
    using l by (induction rule: list_all2_induct) (auto simp: cloned_resource_def)
  have "len rs = len clones" using list_all2_lengthD [OF l] by (simp add: len_def)
  then show ?thesis by (intro counted_clones [OF assms(2) _ _ env assms(4,3)]) (simp_all add: rows patched_table)
qed

text \<open>The second half of the clone, after the variables.\<close>

definition fill_resources ::
  "'z codec_scheme \<Rightarrow> (nat \<Rightarrow> string) \<Rightarrow> clone_input \<Rightarrow> environment \<Rightarrow> string \<Rightarrow> string \<Rightarrow> secret_store \<Rightarrow> string + environment option \<times> secret_store" where
  "fill_resources cx uuid input source i slug st1 =
     (if \<not> cl_includeResources input then Inr (reread i st1)
      else case resources_of (ev_id source) st1 of
          Inl e \<Rightarrow> Inl e
        | Inr resources \<Rightarrow>
            (case clone_resources cx uuid 1 (cl_includeSecrets input) i slug resources st1 of
               Inl e \<Rightarrow> Inl e
             | Inr st2 \<Rightarrow>
                 Inr (reread i (st2\<lparr>es_environments :=
                   snd (updateById ev_id i (\<lambda>e. e\<lparr>ev_resourceCount := len resources\<rparr>) (es_environments st2))\<rparr>))))"

lemma fill_clone_started:
  assumes "fill_clone cx uuid input source i slug st = Inr y"
  obtains st1 where "st1 = st \<or> (\<exists>z. update_environment cx i id (ev_envVars source) st = Inr (z, st1))"
    "fill_resources cx uuid input source i slug st1 = Inr y"
proof (cases "cl_includeSecrets input \<and> given_string (ev_envVars source)")
  case True
  have f: "fill_clone cx uuid input source i slug st =
      (case map_sum id snd (update_environment cx i id (ev_envVars source) st) of
         Inl e \<Rightarrow> Inl e | Inr st1 \<Rightarrow> fill_resources cx uuid input source i slug st1)"
    unfolding fill_clone_def fill_resources_def if_P [OF True] by (rule refl)
  show thesis
  proof (cases "update_environment cx i id (ev_envVars source) st")
    case (Inl e)
    with assms f show thesis by simp
  next
    case (Inr w)
    with assms f that [of "snd w"] show thesis by (cases w) simp
  qed
next
  case False
  have "fill_clone cx uuid input source i slug st = fill_resources cx uuid input source i slug st"
    unfolding fill_clone_def fill_resources_def if_not_P [OF False] by simp
  with assms that [of st] show thesis by simp
qed

lemma filled_counted:
  assumes "fill_clone cx uuid input source i slug st = Inr (created, st')" "counted st" "rows_in i st = []" "i \<in> ev_id ` set (es_environments st)"
  shows "counted st'"
proof -
  obtain st1 where up: "st1 = st \<or> (\<exists>z. update_environment cx i id (ev_envVars source) st = Inr (z, st1))"
    and rest: "fill_resources cx uuid input source i slug st1 = Inr (created, st')"
    using assms(1) by (rule fill_clone_started)
  have c: "counted st1" "es_resources st1 = es_resources st" "map ev_id (es_environments st1) = map ev_id (es_environments st)"
    using up assms(2) by (blast dest: update_environment_counted)+
  have c1: "rows_in i st1 = []" "i \<in> ev_id ` set (es_environments st1)"
    using c(2) assms(3) apply (simp add: rows_in_def)
    using assms(4) c(3) by (metis list.set_map)
  show ?thesis
  proof (cases "cl_includeResources input")
    case False
    with rest have "reread i st1 = (created, st')" unfolding fill_resources_def by simp
    with c(1) show ?thesis by (simp add: reread_def)
  next
    case True
    with rest obtain rs where rs: "resources_of (ev_id source) st1 = Inr rs"
      by (cases "resources_of (ev_id source) st1") (simp_all add: fill_resources_def)
    with rest True obtain st2 where cl: "clone_resources cx uuid 1 (cl_includeSecrets input) i slug rs st1 = Inr st2"
      by (cases "clone_resources cx uuid 1 (cl_includeSecrets input) i slug rs st1") (simp_all add: fill_resources_def)
    with rest True rs have "st' = st2\<lparr>es_environments := snd (updateById ev_id i (\<lambda>e. e\<lparr>ev_resourceCount := len rs\<rparr>) (es_environments st2))\<rparr>"
      by (simp add: fill_resources_def reread_def)
    with cloned_rows_counted [OF cl c(1) c1] show ?thesis by (simp only:)
  qed
qed

lemma clone_started:
  assumes "cloneEnvironment cx uuid input st = Inr (created, st')"
  obtains source slug st0 where "insert_environment (cloned_environment input (uuid 0) slug source) st = Inr st0"
    "fill_clone cx uuid input source (uuid 0) slug st0 = Inr (created, st')"
proof -
  have "\<exists>source slug st0. insert_environment (cloned_environment input (uuid 0) slug source) st = Inr st0 \<and>
    fill_clone cx uuid input source (uuid 0) slug st0 = Inr (created, st')"
    using assms unfolding cloneEnvironment_def Let_def by (simp split: option.splits sum.splits) blast
  with that show thesis by blast
qed

lemma inserted_fresh:
  assumes "insert_environment e st = Inr st0" "counted st"
  shows "rows_in (ev_id e) st0 = [] \<and> ev_id e \<in> ev_id ` set (es_environments st0)"
proof -
  from assms(1) have st0: "st0 = st\<lparr>es_environments := es_environments st @ [e]\<rparr>" and "findById ev_id (ev_id e) (es_environments st) = None"
    by (auto simp: insert_environment_def split: if_splits)
  then have "ev_id e \<notin> ev_id ` set (es_environments st)" by (auto simp: findById_def find_None_iff)
  with assms(2) have "rows_in (ev_id e) st = []" unfolding rows_in_def filter_empty_conv counted_def by (metis image_eqI subset_iff)
  with st0 show ?thesis by (simp add: rows_in_def)
qed

lemma cloned_counted:
  assumes "cloneEnvironment cx uuid input st = Inr (created, st')" "counted st"
  shows "counted st'"
  using assms(1)
proof (rule clone_started)
  fix source slug st0
  let ?e = "cloned_environment input (uuid 0) slug source"
  assume ins: "insert_environment ?e st = Inr st0" and fill: "fill_clone cx uuid input source (uuid 0) slug st0 = Inr (created, st')"
  have e: "ev_id ?e = uuid 0" "ev_resourceCount ?e = 0" by (simp_all add: cloned_environment_def)
  show ?thesis
    using filled_counted [OF fill counted_insert [OF ins assms(2) e(2)]] inserted_fresh [OF ins assms(2)] unfolding e by blast
qed

section \<open>Promotion\<close>

definition promoted :: "bool \<Rightarrow> resource \<Rightarrow> resource \<Rightarrow> resource" where
  "promoted b s t = (if b then patch_secret_columns (promoted_secrets True s) (promoted_columns s t) else promoted_columns s t)"

lemma promoted_keeps [simp]:
  "rr_id (promoted b s t) = rr_id t" "rr_environmentId (promoted b s t) = rr_environmentId t" "rr_name (promoted b s t) = rr_name t"
  by (simp_all add: promoted_def promoted_columns_def patch_secret_columns_def)

lemma promoted_agrees:
  "config_part (promoted b s t) = config_part s" "secret_part cx (promoted True s t) = secret_part cx s"
  by (simp_all add: promoted_def promoted_columns_def patch_secret_columns_def promoted_secrets_def config_part_def secret_part_def)

lemma update_resource_rows:
  assumes "update_resource cx i (promoted_columns s) (promoted_secrets b s) st = Inr (r, st')"
  shows "es_environments st' = es_environments st \<and>
    es_resources st' = map (\<lambda>x. if rr_id x = i then promoted b s x else x) (es_resources st)"
proof -
  have id: "rr_id (promoted_columns s x) = rr_id x" for x by (simp add: promoted_columns_def)
  show ?thesis
  proof (cases b)
    case True
    let ?st1 = "st\<lparr>es_resources := snd (updateById rr_id i (promoted_columns s) (es_resources st))\<rparr>"
    have "promoted_secrets True s \<noteq> no_secret_patch" by (simp add: promoted_secrets_def no_secret_patch_def)
    with assms True have "patchSecrets cx i (promoted_secrets True s) ?st1 = Inr st'"
      by (auto simp: update_resource_def Let_def split: sum.splits)
    then have "es_environments st' = es_environments st \<and>
        es_resources st' = snd (updateById rr_id i (patch_secret_columns (promoted_secrets True s)) (es_resources ?st1))"
      by (auto simp: patchSecrets_def split: prod.splits option.splits dest!: append_version_rows)
    with True id show ?thesis by (auto simp: patched_table promoted_def)
  next
    case False
    with assms show ?thesis by (auto simp: update_resource_def promoted_secrets_def promoted_def patched_table Let_def)
  qed
qed

text \<open>Whether a source resource is promoted to the row with an identifier.\<close>

definition hits :: "(string \<Rightarrow> resource option) \<Rightarrow> string \<Rightarrow> resource \<Rightarrow> bool" where
  "hits targetByKey i s \<longleftrightarrow> (\<exists>t. targetByKey (resourceKey s) = Some t \<and> rr_id t = i)"

lemma promote_rows:
  assumes "promote_resources cx b tk ss st = Inr st'"
  shows "es_environments st' = es_environments st \<and>
    es_resources st' = map (\<lambda>r. fold (\<lambda>s x. if hits tk (rr_id r) s then promoted b s x else x) ss r) (es_resources st)"
  using assms
proof (induction ss arbitrary: st)
  case (Cons s ss)
  show ?case
  proof (cases "tk (resourceKey s)")
    case None
    with Cons show ?thesis by (simp add: hits_def)
  next
    case (Some t)
    with Cons.prems obtain x st1 where u: "update_resource cx (rr_id t) (promoted_columns s) (promoted_secrets b s) st = Inr (x, st1)"
      and p: "promote_resources cx b tk ss st1 = Inr st'" by (auto split: sum.splits prod.splits)
    have "hits tk i s \<longleftrightarrow> rr_id t = i" for i using Some by (simp add: hits_def)
    with Cons.IH [OF p] update_resource_rows [OF u] show ?thesis by (auto simp: o_def)
  qed
qed simp

lemma fold_untouched: "\<forall>s \<in> set ss. \<not> P s \<Longrightarrow> fold (\<lambda>s x. if P s then g s x else x) ss r = r"
  by (induction ss arbitrary: r) auto

lemma fold_once:
  assumes "distinct (map key ss)" "s \<in> set ss" "\<And>x. x \<in> set ss \<Longrightarrow> P x \<longleftrightarrow> key x = key s"
  shows "fold (\<lambda>s x. if P s then g s x else x) ss r = g s r"
  using assms
proof (induction ss arbitrary: r)
  case (Cons y ys)
  show ?case
  proof (cases "y = s")
    case True
    have "\<not> P x" if "x \<in> set ys" for x
      using that True Cons.prems(1) Cons.prems(3) [of x] by (auto simp: image_iff)
    with True Cons.prems(3) [of y] show ?thesis by (simp add: fold_untouched)
  next
    case False
    with Cons.prems(1,2) have s: "s \<in> set ys" "key y \<noteq> key s" by (auto simp: image_iff)
    with Cons.prems(3) [of y] have "\<not> P y" by simp
    with Cons.IH [OF _ s(1)] Cons.prems(1,3) show ?thesis by simp
  qed
qed simp

lemma by_key_member: "by_key rs k = Some r \<Longrightarrow> r \<in> set rs \<and> resourceKey r = k"
  by (auto simp: by_key_def dest!: map_of_SomeD)

lemma by_key_distinct: "distinct (map resourceKey rs) \<Longrightarrow> r \<in> set rs \<Longrightarrow> by_key rs (resourceKey r) = Some r"
proof -
  assume "distinct (map resourceKey rs)" "r \<in> set rs"
  moreover have "map fst (rev (map (\<lambda>r. (resourceKey r, r)) rs)) = rev (map resourceKey rs)" by (simp add: rev_map o_def)
  ultimately show ?thesis unfolding by_key_def by (intro map_of_is_SomeI) auto
qed

lemma resources_of_rows: "resources_of i st = Inr rs \<Longrightarrow> rs = rows_in i st"
  by (auto simp: resources_of_def rows_in_def dest!: read_limit)

lemma transaction_rows:
  assumes "promote_transaction cx input st = Inr st'" "pm_includeResources input"
  obtains st1 where "es_resources st1 = es_resources st"
    "promote_resources cx (pm_includeSecrets input) (by_key (rows_in (pm_targetEnvironmentId input) st))
       (rows_in (pm_sourceEnvironmentId input) st) st1 = Inr st'"
    "\<exists>target. findById ev_id (pm_targetEnvironmentId input) (es_environments st) = Some target \<and> \<not> ev_isProtected target"
proof -
  from assms obtain source target where s: "findById ev_id (pm_sourceEnvironmentId input) (es_environments st) = Some source"
    and t: "findById ev_id (pm_targetEnvironmentId input) (es_environments st) = Some target" "\<not> ev_isProtected target"
    by (auto simp: promote_transaction_def split: option.splits if_splits)
  have ids: "ev_id source = pm_sourceEnvironmentId input" "ev_id target = pm_targetEnvironmentId input"
    using findById_key [OF s] findById_key [OF t(1)] by simp_all
  let ?x = "if pm_includeSecrets input
      then (case serializeResourceEnvironmentVariables cx (resolveEnvironmentVariables cx (es_environments st) (ev_id source)) of
              Inl e \<Rightarrow> Inl e
            | Inr envVars \<Rightarrow> map_sum id snd (update_environment cx (ev_id target) id (Some envVars) st))
      else Inr st"
  obtain st1 where x: "?x = Inr st1" using assms(1) s t by (cases ?x) (simp_all add: promote_transaction_def)
  then have p: "(case (resources_of (ev_id source) st1, resources_of (ev_id target) st1) of
        (Inr sourceResources, Inr targetResources) \<Rightarrow>
          promote_resources cx (pm_includeSecrets input) (by_key targetResources) sourceResources st1
      | _ \<Rightarrow> Inl resource_limit) = Inr st'"
    using assms s t by (simp add: promote_transaction_def)
  have up: "st1 = st \<or> (\<exists>z v. update_environment cx (ev_id target) id v st = Inr (z, st1))"
    using x by (auto split: if_splits sum.splits)
  have r: "es_resources st1 = es_resources st"
    using up by (auto simp: update_environment_def Let_def split: option.splits if_splits dest!: append_version_rows)
  then have rows: "rows_in i st1 = rows_in i st" for i by (simp add: rows_in_def)
  from p have "promote_resources cx (pm_includeSecrets input) (by_key (rows_in (ev_id target) st1)) (rows_in (ev_id source) st1) st1 = Inr st'"
    by (auto split: sum.splits dest!: resources_of_rows)
  with r rows ids t that show ?thesis by metis
qed

text \<open>The rows after a promotion, where names and identifiers are distinct.\<close>

lemma promoted_rows:
  assumes p: "promote_resources cx b (by_key (rows_in target st)) (rows_in source st) st1 = Inr st'"
    and st1: "es_resources st1 = es_resources st" and "source \<noteq> target" and ids: "distinct (map rr_id (es_resources st))"
    and ks: "distinct (map resourceKey (rows_in source st))" and kt: "distinct (map resourceKey (rows_in target st))"
  shows "es_resources st' = map (\<lambda>r. if rr_environmentId r = target
      then (case by_key (rows_in source st) (resourceKey r) of None \<Rightarrow> r | Some s \<Rightarrow> promoted b s r) else r) (es_resources st)"
proof -
  let ?ss = "rows_in source st" and ?tk = "by_key (rows_in target st)"
  have hit: "hits ?tk (rr_id r) s \<longleftrightarrow> rr_environmentId r = target \<and> resourceKey s = resourceKey r" if r: "r \<in> set (es_resources st)" for r s
  proof
    assume "hits ?tk (rr_id r) s"
    then obtain t where "?tk (resourceKey s) = Some t" "rr_id t = rr_id r" by (auto simp: hits_def)
    with by_key_member [of "rows_in target st" "resourceKey s" t] have "t \<in> set (es_resources st)" "rr_environmentId t = target" "resourceKey t = resourceKey s"
      by (auto simp: rows_in_def)
    moreover with r ids \<open>rr_id t = rr_id r\<close> have "t = r" by (metis distinct_map inj_onD)
    ultimately show "rr_environmentId r = target \<and> resourceKey s = resourceKey r" by simp
  next
    assume "rr_environmentId r = target \<and> resourceKey s = resourceKey r"
    with r have "?tk (resourceKey s) = Some r" using by_key_distinct [OF kt, of r] by (simp add: rows_in_def)
    then show "hits ?tk (rr_id r) s" by (simp add: hits_def)
  qed
  have "fold (\<lambda>s x. if hits ?tk (rr_id r) s then promoted b s x else x) ?ss r =
      (if rr_environmentId r = target then (case by_key ?ss (resourceKey r) of None \<Rightarrow> r | Some s \<Rightarrow> promoted b s r) else r)"
    if r: "r \<in> set (es_resources st)" for r
  proof (cases "rr_environmentId r = target \<and> (\<exists>s \<in> set ?ss. resourceKey s = resourceKey r)")
    case True
    then obtain s where s: "s \<in> set ?ss" "resourceKey s = resourceKey r" by blast
    have "fold (\<lambda>s x. if hits ?tk (rr_id r) s then promoted b s x else x) ?ss r = promoted b s r"
      by (rule fold_once [OF ks s(1)]) (use hit [OF r] True s(2) in auto)
    with True s by_key_distinct [OF ks s(1)] show ?thesis by simp
  next
    case False
    then have "fold (\<lambda>s x. if hits ?tk (rr_id r) s then promoted b s x else x) ?ss r = r"
      using hit [OF r] by (intro fold_untouched) auto
    moreover have "by_key ?ss (resourceKey r) = None" if "rr_environmentId r = target"
      using False that by_key_member [of ?ss "resourceKey r"] by (cases "by_key ?ss (resourceKey r)") auto
    ultimately show ?thesis by simp
  qed
  with promote_rows [OF p] st1 show ?thesis by (simp cong: map_cong)
qed

text \<open>
  A protected environment is never promoted to, nor an environment to itself; whatever error ends
  a promotion before it is done leaves the store as it was.
\<close>

theorem promotion_refused:
  "promote_transaction cx input st = Inr st' \<longrightarrow>
     (\<exists>target. findById ev_id (pm_targetEnvironmentId input) (es_environments st) = Some target \<and> \<not> ev_isProtected target)"
  "pm_sourceEnvironmentId input = pm_targetEnvironmentId input \<or> (\<exists>err. promote_transaction cx input st = Inl err) \<longrightarrow>
     (\<exists>err. promoteEnvironment cx input st = (Inl err, st))"
  by (auto simp: promote_transaction_def promoteEnvironment_def split: option.splits if_splits)

lemma by_key_mapped:
  assumes "es_resources st' = map f (es_resources st)" "\<And>r. rr_environmentId (f r) = rr_environmentId r \<and> resourceKey (f r) = resourceKey r"
    and "by_key (rows_in i st') k = Some x"
  obtains r where "r \<in> set (rows_in i st)" "x = f r" "resourceKey r = k"
proof -
  from by_key_member [OF assms(3)] have "x \<in> f ` set (es_resources st)" "rr_environmentId x = i" "resourceKey x = k"
    by (auto simp: rows_in_def assms(1))
  then show ?thesis using that assms(2) by (auto simp: rows_in_def)
qed

lemma compared_update:
  assumes "dr_action (compared_resource cx l r k) = DiffUpdate"
  obtains s t where "l = Some s" "r = Some t"
    "config_part s \<noteq> config_part t \<or> secret_part cx s \<noteq> secret_part cx t \<and> dr_secretsChanged (compared_resource cx l r k)"
  using assms by (cases l; cases r) (auto simp: compared_resource_def Let_def split: if_splits)

lemma diff_update:
  assumes "diffEnvironments cx i j st = Inr diff" "x \<in> set (ed_resources diff)" "dr_action x = DiffUpdate"
  obtains k s t where "by_key (rows_in i st) k = Some s" "by_key (rows_in j st) k = Some t"
    "config_part s \<noteq> config_part t \<or> secret_part cx s \<noteq> secret_part cx t \<and> dr_secretsChanged x"
proof -
  obtain ss ts where "resources_of i st = Inr ss" "resources_of j st = Inr ts"
    using assms(1) by (cases "resources_of i st"; cases "resources_of j st") (auto simp: diffEnvironments_def split: if_splits)
  moreover from this have "ss = rows_in i st" "ts = rows_in j st" by (simp_all only: resources_of_rows)
  ultimately have "ed_resources diff = map (\<lambda>k. compared_resource cx (by_key (rows_in i st) k) (by_key (rows_in j st) k) k)
      (sort (unique (map resourceKey (rows_in i st) @ map resourceKey (rows_in j st))))"
    using assms(1) by (auto simp: diffEnvironments_def split: if_splits)
  with assms(2) obtain k where k: "x = compared_resource cx (by_key (rows_in i st) k) (by_key (rows_in j st) k) k" by auto
  with assms(3) have "dr_action (compared_resource cx (by_key (rows_in i st) k) (by_key (rows_in j st) k) k) = DiffUpdate" by simp
  then show ?thesis by (rule compared_update) (use that k in simp)
qed


section \<open>A project with two environments\<close>

definition flow_resource :: "string \<Rightarrow> string \<Rightarrow> string \<Rightarrow> resource" where
  "flow_resource i e name =
     \<lparr>rr_id = i, rr_environmentId = e, rr_name = name, rr_type = ''application'', rr_provider = ''drop'', rr_dockerImage = None,
      rr_credentials = Some i, rr_serverId = None, rr_buildServerId = None, rr_advancedConfig = None, rr_status = ''running'',
      rs_appName = Some i, rs_description = None, rs_dbType = None, rs_composeType = None, rs_buildRegistryId = None,
      rs_rollbackActive = False, rs_rollbackRegistryId = None, rs_triggerType = ''push'', rs_tagPattern = None, rs_watchPaths = ''[]'',
      rs_buildConfig = i, rs_buildSecrets = None, rs_buildEnvVars = None, rs_envVars = ''sealed'', rs_domains = ''[]'',
      rs_isPreviewDeploymentsActive = True, rs_previewLimit = 3, rs_previewWildcard = None, rs_previewHttps = False,
      rs_previewPort = 80, rs_cronJobsEnabled = False, rs_secretVersion = 1\<rparr>"

definition flow_store :: secret_store where
  "flow_store = sample_store\<lparr>es_resources := [flow_resource ''a'' ''base'' ''Web'', flow_resource ''b'' ''child'' ''web'', flow_resource ''c'' ''child'' ''db'']\<rparr>"

definition flow_clone :: clone_input where
  "flow_clone = \<lparr>cl_sourceEnvironmentId = ''base'', cl_name = ''Base'', cl_includeResources = True, cl_includeSecrets = False\<rparr>"

definition flow_promotion :: promote_input where
  "flow_promotion = \<lparr>pm_sourceEnvironmentId = ''base'', pm_targetEnvironmentId = ''child'', pm_includeResources = True, pm_includeSecrets = False\<rparr>"

theorem clone_without_secrets_witness:
  "\<exists>e st'. cloneEnvironment (codec_of sample_variables) show_nat flow_clone flow_store = Inr (Some e, st') \<and> ev_slug e = ''base-2'' \<and>
    resolveEnvironmentVariables (codec_of sample_variables) (es_environments st') (ev_id e) = []"
proof -
  have "map_sum id (\<lambda>x. map_option ev_slug (fst x)) (cloneEnvironment (codec_of sample_variables) show_nat flow_clone flow_store) = Inr (Some ''base-2'')"
    by code_simp
  then obtain e st' where run: "cloneEnvironment (codec_of sample_variables) show_nat flow_clone flow_store = Inr (Some e, st')" "ev_slug e = ''base-2''"
    by (cases "cloneEnvironment (codec_of sample_variables) show_nat flow_clone flow_store") auto
  with clone_without_secrets [OF run(1)] show ?thesis by (auto simp: flow_clone_def)
qed


end
