(* ===== verification/Spec2Isabelle.thy ===== *)
theory Spec2Isabelle
  imports Compose_Policy Access_Policy Net_Guarantees Client_Ip_Guarantees Outbox_Guarantees Job_Queues
    Migration_Properties Intake_Guarantees Backup_Guarantees Safe_Glob Rate_Limit_Guarantees Redis_Locks
    Ai_Budget_Guarantees Autoscaling Environment_Guarantees Worker_Divergences Device_Guarantees
    Webhook_Guarantees Preview_Guarantees Workflow_Guarantees
begin

text \<open>
  A verification development for Upstand, a self-hosted platform that deploys applications,
  databases and Compose stacks to servers it manages (TypeScript, under \<open>src/packages\<close> and
  \<open>src/apps\<close>).

  \<^bold>\<open>The program.\<close> Requests enter through \<open>packages/api\<close>, where every procedure asks the
  authorization service whether the session or API key may use a capability of the catalog
  in \<open>packages/domain\<close>. Use cases in \<open>packages/usecases\<close> do the work over repositories
  (\<open>packages/repositories\<close>) inside a unit of work; what has to happen later is written to a
  transactional outbox, which a publisher hands to job queues. Workers take deployments and
  migrations under execution tokens with leases. Deliveries of git hosting and image registries
  enter through \<open>apps/server\<close>, where they queue deployments of the resources that follow
  them; the command line gets its key there too, through a device authorization a user approves.
  User-supplied Compose documents and user-supplied endpoints pass a security policy before
  anything acts on them.

  \<^bold>\<open>Theories.\<close>
  \<^item> \<open>Prelude\<close>: throwing statements, strings, JavaScript values, numbers.
  \<^item> \<open>Compose_Shape\<close>, \<open>Compose_Security\<close>: the whole validator of
    \<open>usecases/src/resource/compose-security.ts\<close>, function by function; the YAML parser is a
    parameter. \<open>Compose_Policy\<close>: what an accepted document cannot do, and that ordinary
    documents are accepted.
  \<^item> \<open>Capability_Catalog\<close>: the capability, route and tool tables of
    \<open>domain/src/authorization.ts\<close>, \<open>permission-scopes.ts\<close>, \<open>api-key.ts\<close> and
    \<open>api/src/authorization/procedure-policy.ts\<close>. \<open>Permissions\<close>: the decisions of
    \<open>api/src/permissions.ts\<close>, \<open>access-control.ts\<close> and \<open>api-key-auth.ts\<close>.
    \<open>Access_Policy\<close>: the locale \<open>organization_access\<close>, interpreted on the database
    lookup, and the guarantees of the service.
  \<^item> \<open>Net_Policy\<close>: the outbound network policy of \<open>platform/src/network/outbound.ts\<close>;
    \<open>Net_Guarantees\<close>: the locale \<open>address_filter\<close>, interpreted on its three address
    predicates, CIDR blocks over 32-bit words, and the endpoint guarantees.
  \<^item> \<open>Row_Store\<close>: tables, conditional updates, bounded queries and batches
    (\<open>repositories/src/shared\<close>), and the locale \<open>lease_store\<close>, interpreted on the
    deployments, the migrations and the outbox.
  \<^item> \<open>Deployment_Repository\<close>: \<open>repositories/src/deployment\<close>.
  \<^item> \<open>Outbox\<close>: \<open>repositories/src/outbox\<close> and \<open>usecases/src/outbox/outbox-publisher.ts\<close>;
    \<open>Outbox_Guarantees\<close>: histories, batches and claims. \<open>Job_Queues\<close>: the BullMQ
    publisher of \<open>infrastructure/src/outbox\<close> and queue names.
  \<^item> \<open>Migration\<close>: the status machine and repository of workload migrations;
    \<open>Migration_Exec\<close>: the executor and the operator use cases of \<open>usecases/src/server\<close>;
    \<open>Migration_Guarantees\<close>, \<open>Migration_Properties\<close>: what they guarantee.
  \<^item> \<open>Platform\<close>: control-plane modes and runtime matrices of
    \<open>usecases/src/platform/platform.types.ts\<close>. \<open>Deployment_Intake\<close>: queueing a deployment,
    requesting a migration, server roles and the repair of abandoned deployments in
    \<open>usecases/src/deployment\<close> and \<open>usecases/src/server\<close>, with credentials, reliability
    settings and scope grants; \<open>Intake_Guarantees\<close>: from a request to a job.
  \<^item> \<open>Environment_Variables\<close>, \<open>Secret_Store\<close>: encrypted variables of environments and
    resources, their references and inheritance (\<open>usecases/src/resource\<close>,
    \<open>usecases/src/environment\<close>), and the versions, restores, rotations and providers of
    \<open>usecases/src/secrets\<close> over \<open>repositories/src/secret\<close>; \<open>Environment_Guarantees\<close>:
    round trips, inheritance and versions. \<open>Environment_Workflows\<close>: creating, deleting,
    cloning, comparing and promoting environments in \<open>usecases/src/environment\<close>;
    \<open>Workflow_Guarantees\<close>: what clones and promotions carry over, and the resource counters.
    \<open>Secret_References\<close>: references to external
    providers in \<open>secret-reference-resolver.ts\<close>. \<open>Git_Source\<close>: repository addresses,
    image tags, bounded logs and cancellation in \<open>usecases/src/git-provider\<close> and
    \<open>usecases/src/deployment\<close>.
  \<^item> \<open>Effects\<close>: actions with state and errors, with \<open>try\<close>, \<open>catch\<close> and \<open>finally\<close>,
    and the locale \<open>step_relation\<close> of relations every composed action keeps.
    \<open>Advanced_Config\<close>: the settings of \<open>domain/src/entities/resource.ts\<close> a deployment reads.
    \<open>Worker_World\<close>, \<open>Deployment_Source\<close>, \<open>Deployment_Pipeline\<close>, \<open>Deployment_Worker\<close>:
    \<open>processJob\<close> of \<open>usecases/src/deployment/deployment-worker.ts\<close> with its helpers, from
    the lock of the resource to the last block. \<open>Worker_Relations\<close>: the locales
    \<open>worker_base\<close>, \<open>worker_step\<close> and \<open>worker_run\<close>, which show once that every part of a
    run keeps a relation; they are interpreted for the calls made, the lease, the settled
    deployment, the limits of the proxy and the key file. \<open>Worker_Samples\<close>: an
    installation to evaluate. \<open>Worker_Guarantees\<close>, \<open>Delivery_Guarantees\<close>: settlement,
    traffic and plans; \<open>Worker_Divergences\<close>: what the worker does not mean to do.
  \<^item> \<open>Source_Webhook\<close>: \<open>usecases/src/deployment/process-source-webhook.usecase.ts\<close>,
    \<open>docker-image-webhook.ts\<close> and \<open>organization-resources.helper.ts\<close>, with the delivery
    store of \<open>apps/server/src/http/routes/webhooks.ts\<close>; \<open>Webhook_Guarantees\<close>: what a
    delivery queues, signatures, repeated deliveries and the pool of concurrent reads as a step
    relation. \<open>Preview_Webhook\<close>: the routes of that file with the previews of pull requests,
    their quota and the retry of their cleanup in \<open>usecases/src/resource\<close>;
    \<open>Preview_Guarantees\<close>: what a pull request may touch.
  \<^item> \<open>Backup\<close>: run repository, page loop, trigger, execution, verification, restore and
    deletion of \<open>usecases/src/backup\<close>, and the handler and recovery of
    \<open>apps/schedules/src/workers.ts\<close>; \<open>Backup_Guarantees\<close>: the locale
    \<open>run_visitor\<close>, interpreted on retention and on schedule deletion, and the guarantees.
  \<^item> \<open>Redis_Server\<close>: the commands of Redis as a record of parameters, the locale
    \<open>redis_server\<close> with their documented behaviour, interpreted on the map and on the list of
    entries. \<open>Device_Auth\<close>: requests, approvals and polls of
    \<open>api/src/cli-device-auth.ts\<close> and the routes of
    \<open>apps/server/src/http/routes/cli-device-auth.ts\<close>; \<open>Device_Guarantees\<close>: the locale
    \<open>device_store\<close>, which adds the codec of requests to \<open>redis_server\<close>, and the step
    relation every interleaving of requests follows.
    \<open>Redis_Locks\<close>: the leases of \<open>usecases/src/deployment/resource-lock.ts\<close> and
    \<open>usecases/src/backup/backup-run-lock.ts\<close>. \<open>Ai_Budget\<close>,
    \<open>Ai_Budget_Guarantees\<close>: the daily budget of \<open>api/src/ai-budget.ts\<close> and a ledger it
    refines.
  \<^item> \<open>Rate_Limit\<close>, \<open>Rate_Limit_Guarantees\<close>: \<open>infrastructure/src/rate-limit.ts\<close> and
    \<open>api/src/rate-limiting\<close>, with the locale \<open>token_bucket\<close>, interpreted on the local
    limiter. \<open>Client_Ip\<close>, \<open>Client_Ip_Guarantees\<close>: the client address of
    \<open>api/src/client-ip.ts\<close>. \<open>Safe_Glob\<close>: the glob matcher of
    \<open>usecases/src/deployment/safe-glob.ts\<close>. \<open>Autoscaling\<close>:
    \<open>usecases/src/autoscaling/autoscaling.service.ts\<close>.

  \<^bold>\<open>How the code is represented.\<close> A function that throws returns a sum with the error on the
  left; asynchronous calls are ordinary calls, and where other workers can act while one is
  awaited, the call is a parameter whose result includes the new state. In the deployment
  worker every \<open>await\<close> first lets the other processes and the timers of the job act, and every
  call of a port is noted in a trace with its success. A table is the list of
  its rows, and a repository method is a function from the table to its result and the new
  table, with the column defaults, update hooks and unique indexes of the schema that matter;
  the entry points also check not-null and foreign-key constraints. A transaction that throws
  leaves the tables as they were. Dates are integers in milliseconds and every use of the clock
  is an argument or a field of the state; one clock serves a process and its Redis server.
  Prices, rates and measurements are rational numbers. Strings are over code units below 256.
  Errors are their messages, where the code distinguishes them by message or class; the text of
  schema errors is not modelled. Redis, Docker, S3, the URL parser, DNS, JSON parsing and
  cryptography are parameters.

  \<^bold>\<open>Fuel.\<close> Two loops have no structural bound. The executor of migrations takes fuel, and
  \<open>migration_execute_terminates\<close> shows that six rounds are enough for every port and every
  interference, since each round that continues raises the status, which starts at the lowest
  of five statuses that continue. The page loop over backup runs takes one round more than
  there are rows, and \<open>page_loop\<close> shows that this is enough for every visitor that deletes
  at most what it visits, since every round but the last visits a full page.

  \<^bold>\<open>Properties.\<close> Deployments: a job settles its deployment whatever fails, traffic moves
  only after health, failed deliveries are undone, services follow the plan of their build,
  an accepted request reaches the queue of its server. Webhooks: a delivery queues exactly the
  resources that follow it, only with a valid signature, once per identifier, and can be
  repeated where it failed; concurrent reads end with their results in order; a pull request
  touches its own previews, and a preview is forgotten only with its service. Devices: one key
  per request, for whom and what the user chose, and no minted key is lost. Variables and
  secrets: stored variables are read back, inheritance stays acyclic, every write is a version,
  references are read from assigned providers only, promotion makes environments agree, clones
  without secrets carry none. Compose documents: host isolation, no host mounts.
  Authorization: exact condition for API keys, no escalation for sessions, fail-closed routes.
  Network: CIDR equivalence, client addresses that cannot be forged. Requests: exact runtime
  capabilities, bounded local rate, a daily budget that refines a ledger, glob matching as a
  language. Leases: exclusivity of deployments and of Redis locks. Outbox: attempt budget.
  Migrations: termination, placement, histories. Backups: exact retention, settled runs. Across
  components: a rollback request reaches the migration queue. Further theorems of the same kind
  stand beside them in the component theories, among them shares of traffic, rotation, public
  endpoints, settled batches, tenant isolation of backups and bounded autoscaling.

  Behaviour the code does not mean to have is stated too, as theorems beside the properties: a
  parent directory is accepted as a volume source, a stored capability can break key
  authentication, respelled loopback addresses pass, raw outbox rows lose their fence, a worker
  without its lease undoes its successor's cutover, an oversized forwarding header exposes a
  client-chosen address, scope grants are stripped from published jobs, local deployments and
  migration requests are refused by the database, a missing certificate strands a backup,
  rejected budget reservations are not counted, autoscaling shrinks overloaded or unmeasured
  services, outer environments override inner ones, restored variables cannot be read, short
  SSH addresses are refused, shared variables and the variables of databases are lost on
  deployment, builds on another server are refused, a preview replaces the service of its
  application, fractional shares of traffic are dropped, a lost lease still fixes the plan, a
  failed scope keeps the lock and a refused source its key file; a refusal overwrites the
  approval of a device, a claim that timed out loses its delivery, pushes of Bitbucket are
  deployed from every branch, image tags with capitals never match, previews of pull requests
  are never created and environments with long service names cannot be cloned.

  \<^bold>\<open>Not modelled.\<close> User interfaces and process entry points, clients of Docker, SSH, Redis,
  git and cloud services, and database drivers (input and output). Of the decision logic, the
  plan for extension is, in this order: projects and moves of resources between them, domain
  mapping, editing backup schedules, applying an \<open>upstand.json\<close>, notifications and build
  detection.
\<close>

section \<open>From a rollback request to the migration queue\<close>

lemma parse_object_nonempty_string [simp]:
  "get_prop v k = JStr s \<Longrightarrow> s \<noteq> [] \<Longrightarrow>
   parse_object ((k, opt, StringField None) # fs) v =
     map_option (\<lambda>r. (k, JStr s) # r) (parse_object fs v)"
  by simp

definition identified :: "migration \<Rightarrow> bool" where
  "identified m \<longleftrightarrow>
     mg_id m \<noteq> [] \<and> mg_deploymentId m \<noteq> [] \<and> mg_resourceId m \<noteq> [] \<and> mg_sourceServerId m \<noteq> [] \<and>
     mg_targetServerId m \<noteq> []"

lemma rollback_command_published:
  assumes "identified m"
  shows "\<exists>job. publish_job cancelled (new_message uuid now (rollback_command uuid m)) = Inr (Some job) \<and>
    job_queue job = WORKLOAD_MIGRATION_QUEUE \<and> job_id job = uuid \<and>
    get_prop (job_data job) ''migrationId'' = JStr (mg_id m)"
  using assms
  by (simp add: publish_job_def new_message_def rollback_command_def identified_def or_default_def
      deploy_type_def backupRun_type_def notificationDelivery_type_def migrate_type_def
      migrationPayloadSchema_def correlation_field_def get_prop_def)

text \<open>
  C31. A rollback an operator requests is executed: when the use case accepts it for a
  migration that has not ended, with fresh identifiers, the row is rolling back without an
  owner, so any worker may claim it, exactly one pending message was appended to the outbox,
  and the job publisher turns that message into a job of the migration queue for this
  migration.
\<close>

theorem rollback_reaches_queue:
  assumes "rollbackWorkloadMigration s uuid org i = (Inr m', s')"
    and "findById mg_id i (sy_migrations s) = Some m" "\<not> terminal m" "identified m"
    and "uuid \<notin> om_id ` set (sy_outbox s)"
    and "co_idempotencyKey (rollback_command uuid m) \<notin> om_idempotencyKey ` set (sy_outbox s)"
  shows "mg_status m' = MRollingBack \<and> findById mg_id i (sy_migrations s') = Some m' \<and>
    migration_claimable token staleBefore m' \<and>
    (\<exists>message job. sy_outbox s' = sy_outbox s @ [message] \<and> om_status message = OPending \<and>
       publish_job cancelled message = Inr (Some job) \<and> job_queue job = WORKLOAD_MIGRATION_QUEUE \<and>
       get_prop (job_data job) ''migrationId'' = JStr i)"
proof -
  let ?p = "no_update\<lparr>um_status := Some MRollingBack, um_executionToken := Some None,
                       um_heartbeatAt := Some None\<rparr>"
  let ?new = "new_message uuid (sy_clock s) (rollback_command uuid m)"
  have id: "mg_id m = i" using findById_key [OF assms(2)] by simp
  have st: "mg_status m \<noteq> MFailed" "mg_status m \<noteq> MCancelled"
    using assms(3) by (auto simp: terminal_def TERMINAL_WORKLOAD_MIGRATION_STATUSES_def)
  have u: "update_migration_row i ?p ''Migration could not enter rollback'' s =
      (Inr (patch_migration (sy_clock s) ?p m),
       s\<lparr>sy_migrations := map (\<lambda>x. if mg_id x = i then patch_migration (sy_clock s) ?p x else x) (sy_migrations s)\<rparr>)"
    using assms(2)
    by (simp add: update_migration_row_def updateMigration_def parse_patch_def no_update_def
        updateById_def update_where_hit)
  have ob: "create uuid (sy_clock s) (rollback_command uuid m) (sy_outbox s) =
      (Inr ?new, sy_outbox s @ [?new])"
    using assms(5,6)
    by (simp add: create_def insert_message_def find_key_None findById_None new_message_def or_default_def
        rollback_command_def)
  have own: "ownedMigration s org i = Inr m"
    using assms(1,2) by (auto simp: rollbackWorkloadMigration_def ownedMigration_def split: if_splits)
  with assms(1) st u ob id have r: "m' = patch_migration (sy_clock s) ?p m" "sy_outbox s' = sy_outbox s @ [?new]"
    "sy_migrations s' = map (\<lambda>x. if mg_id x = i then patch_migration (sy_clock s) ?p x else x) (sy_migrations s)"
    by (auto simp: rollbackWorkloadMigration_def split: sum.splits)
  from rollback_command_published [OF assms(4), of cancelled uuid "sy_clock s"] r(2) id
  have "\<exists>message job. sy_outbox s' = sy_outbox s @ [message] \<and> om_status message = OPending \<and>
       publish_job cancelled message = Inr (Some job) \<and> job_queue job = WORKLOAD_MIGRATION_QUEUE \<and>
       get_prop (job_data job) ''migrationId'' = JStr i"
    by (auto simp: new_message_def)
  with r assms(2) show ?thesis
    by (simp add: findById_map migration_claimable_def ACTIVE_STATUSES_def no_update_def)
qed

theorem rollback_reaches_queue_witness:
  "\<exists>m' s'. rollbackWorkloadMigration (system_with (sample_migration\<lparr>mg_status := MAwaitingConfirmation\<rparr>))
     ''u'' ''org'' ''mig'' = (Inr m', s') \<and> mg_status m' = MRollingBack \<and> length (sy_outbox s') = 1"
proof -
  let ?m = "sample_migration\<lparr>mg_status := MAwaitingConfirmation\<rparr>"
  let ?s = "system_with ?m"
  have "\<exists>m' s'. rollbackWorkloadMigration ?s ''u'' ''org'' ''mig'' = (Inr m', s')"
    by (rule exI, rule exI, code_simp)
  then obtain m' s' where r: "rollbackWorkloadMigration ?s ''u'' ''org'' ''mig'' = (Inr m', s')" by blast
  have "findById mg_id ''mig'' (sy_migrations ?s) = Some ?m" "\<not> terminal ?m" "identified ?m"
    "''u'' \<notin> om_id ` set (sy_outbox ?s)"
    "co_idempotencyKey (rollback_command ''u'' ?m) \<notin> om_idempotencyKey ` set (sy_outbox ?s)"
    by (simp_all add: system_with_def sample_migration_def findById_def terminal_def identified_def
        TERMINAL_WORKLOAD_MIGRATION_STATUSES_def)
  from rollback_reaches_queue [where token = "''t''" and staleBefore = 0 and cancelled = "\<lambda>_. False", OF r this]
  have "mg_status m' = MRollingBack" "length (sy_outbox s') = length (sy_outbox ?s) + 1" by auto
  moreover have "sy_outbox ?s = []" by (simp add: system_with_def)
  ultimately show ?thesis using r by auto
qed

end
